(* ===== verification/Prelude.thy ===== *)
theory Prelude
  imports Main "HOL-Library.Word" "HOL-Library.AList" "HOL-Library.List_Lexorder" "HOL-Library.Char_ord"
begin

text \<open>
  Shared vocabulary of the development: Go's strings, times and index searches, and the list
  lemmas the components use.

  A Go string is a sequence of bytes, so it is a \<open>string\<close> whose characters are bytes; the
  functions of package \<open>strings\<close> that look at runes (\<open>TrimSpace\<close>, \<open>Fields\<close>) are written on
  the UTF-8 encodings of the runes they test. A \<open>time.Time\<close> is the number of nanoseconds since
  Go's zero time, so \<open>IsZero\<close> is \<open>t = 0\<close>; locations are left out, since the code converts to
  UTC before it compares. A Go \<open>error\<close> result with no other value is an \<open>option\<close>
  (\<open>None\<close> is \<open>nil\<close>), a result with a value is a sum with the error on the left.
\<close>

unbundle bit_operations_syntax

named_theorems index_simps \<open>facts about searches by index\<close>
named_theorems frame_simps \<open>fields an operation leaves alone\<close>
named_theorems valid_simps \<open>validators rewritten as the conjunction they check\<close>

section \<open>Times and durations\<close>

type_synonym time = int
type_synonym duration = int

definition time_is_zero :: "time \<Rightarrow> bool" where
  "time_is_zero t \<longleftrightarrow> t = 0"

abbreviation (input) time_after :: "time \<Rightarrow> time \<Rightarrow> bool" where
  "time_after a b \<equiv> b < a"

abbreviation (input) time_before :: "time \<Rightarrow> time \<Rightarrow> bool" where
  "time_before a b \<equiv> a < b"

text \<open>\<open>Time.Sub\<close> saturates at the bounds of a 64-bit duration.\<close>

definition time_sub :: "time \<Rightarrow> time \<Rightarrow> duration" where
  "time_sub a b = max (- (2 ^ 63)) (min (2 ^ 63 - 1) (a - b))"

definition second :: duration where
  "second = 1000000000"

text \<open>\<open>time.Unix(1, 0)\<close>: the Unix epoch is 62135596800 seconds after Go's zero time.\<close>

definition unix_one :: time where
  "unix_one = 62135596801 * second"

lemma time_sub_le: "a \<le> a' \<Longrightarrow> time_sub a b \<le> time_sub a' b"
  by (simp add: time_sub_def)

lemma time_sub_nonneg: "0 \<le> time_sub a b \<longleftrightarrow> b \<le> a"
  by (auto simp: time_sub_def)

lemma unix_one_pos [simp]: "0 < unix_one"
  by (simp add: unix_one_def second_def)

section \<open>Validators\<close>

named_theorems err_simps \<open>a chain of checks passes when each check passes\<close>

text \<open>
  A validator is a chain of checks that returns the first error, \<open>None\<close> when all pass. These
  rules turn "the chain returns \<open>None\<close>" into the conjunction of its checks.
\<close>

lemma check_case [err_simps]:
  "(case x of Some e \<Rightarrow> Some (f e) | None \<Rightarrow> y) = None \<longleftrightarrow> x = None \<and> y = None"
  by (cases x) auto

lemma check_if [err_simps]: "(if b then Some e else y) = None \<longleftrightarrow> \<not> b \<and> y = None"
  by auto

section \<open>Strings\<close>

definition has_prefix :: "string \<Rightarrow> string \<Rightarrow> bool" where
  "has_prefix p s \<longleftrightarrow> take (length p) s = p"

definition has_suffix :: "string \<Rightarrow> string \<Rightarrow> bool" where
  "has_suffix p s \<longleftrightarrow> has_prefix (rev p) (rev s)"

definition trim_prefix :: "string \<Rightarrow> string \<Rightarrow> string" where
  "trim_prefix p s = (if has_prefix p s then drop (length p) s else s)"

lemma has_prefix_iff: "has_prefix p s \<longleftrightarrow> (\<exists>r. s = p @ r)"
  unfolding has_prefix_def by (metis append_eq_conv_conj)

lemma has_prefix_append [simp]: "has_prefix p (p @ r)"
  by (simp add: has_prefix_def)

lemma has_prefix_trans: "has_prefix p q \<Longrightarrow> has_prefix q s \<Longrightarrow> has_prefix p s"
  by (auto simp: has_prefix_iff)

text \<open>The runes for which \<open>unicode.IsSpace\<close> holds, as their UTF-8 encodings.\<close>

definition unicode_spaces :: "string list" where
  "unicode_spaces =
    [[CHR 0x09], [CHR 0x0A], [CHR 0x0B], [CHR 0x0C], [CHR 0x0D], [CHR 0x20],
     [CHR 0xC2, CHR 0x85], [CHR 0xC2, CHR 0xA0], [CHR 0xE1, CHR 0x9A, CHR 0x80],
     [CHR 0xE2, CHR 0x80, CHR 0x80], [CHR 0xE2, CHR 0x80, CHR 0x81],
     [CHR 0xE2, CHR 0x80, CHR 0x82], [CHR 0xE2, CHR 0x80, CHR 0x83],
     [CHR 0xE2, CHR 0x80, CHR 0x84], [CHR 0xE2, CHR 0x80, CHR 0x85],
     [CHR 0xE2, CHR 0x80, CHR 0x86], [CHR 0xE2, CHR 0x80, CHR 0x87],
     [CHR 0xE2, CHR 0x80, CHR 0x88], [CHR 0xE2, CHR 0x80, CHR 0x89],
     [CHR 0xE2, CHR 0x80, CHR 0x8A], [CHR 0xE2, CHR 0x80, CHR 0xA8],
     [CHR 0xE2, CHR 0x80, CHR 0xA9], [CHR 0xE2, CHR 0x80, CHR 0xAF],
     [CHR 0xE2, CHR 0x81, CHR 0x9F], [CHR 0xE3, CHR 0x80, CHR 0x80]]"

text \<open>The length of the encoding from \<open>encs\<close> at the head of the string, 0 when there is none.\<close>

definition lead_len :: "string list \<Rightarrow> string \<Rightarrow> nat" where
  "lead_len encs s = (case find (\<lambda>p. has_prefix p s) encs of None \<Rightarrow> 0 | Some p \<Rightarrow> length p)"

lemma lead_len_le: "lead_len encs s \<le> length s"
  unfolding lead_len_def has_prefix_def
  by (auto split: option.splits simp: find_Some_iff) (metis length_take min.cobounded1)

function trim_lead :: "string list \<Rightarrow> string \<Rightarrow> string" where
  "trim_lead encs s =
     (if lead_len encs s = 0 then s else trim_lead encs (drop (lead_len encs s) s))"
  by pat_completeness auto
termination
proof (relation "measure (\<lambda>(encs, s). length s)")
  fix encs :: "string list" and s :: string
  assume "lead_len encs s \<noteq> 0"
  with lead_len_le [of encs s] show "((encs, drop (lead_len encs s) s), encs, s) \<in> measure (\<lambda>(encs, s). length s)"
    by (cases s) auto
qed simp

declare trim_lead.simps [simp del]

definition trim_space :: "string \<Rightarrow> string" where
  "trim_space s = rev (trim_lead (map rev unicode_spaces) (rev (trim_lead unicode_spaces s)))"

abbreviation blank :: "string \<Rightarrow> bool" where
  "blank s \<equiv> trim_space s = []"

text \<open>\<open>strings.Fields\<close>: the maximal runs of non-space bytes; \<open>cur\<close> is the run being read.\<close>

function string_fields_from :: "string \<Rightarrow> string \<Rightarrow> string list" where
  "string_fields_from cur s =
     (if s = [] then (if cur = [] then [] else [cur])
      else if lead_len unicode_spaces s = 0 then string_fields_from (cur @ [hd s]) (tl s)
      else (if cur = [] then [] else [cur]) @ string_fields_from [] (drop (lead_len unicode_spaces s) s))"
  by pat_completeness auto
termination
proof (relation "measure (\<lambda>(cur, s). length s)")
  fix cur s :: string
  assume "s \<noteq> []" "lead_len unicode_spaces s \<noteq> 0"
  with lead_len_le [of unicode_spaces s]
  show "(([], drop (lead_len unicode_spaces s) s), cur, s) \<in> measure (\<lambda>(cur, s). length s)"
    by (cases s) auto
qed auto

declare string_fields_from.simps [simp del]

definition string_fields :: "string \<Rightarrow> string list" where
  "string_fields s = string_fields_from [] s"

fun split_on :: "char \<Rightarrow> string \<Rightarrow> string list" where
  "split_on c [] = [[]]"
| "split_on c (x # xs) =
     (if x = c then [] # split_on c xs
      else (case split_on c xs of [] \<Rightarrow> [[x]] | y # ys \<Rightarrow> (x # y) # ys))"

fun join_with :: "string \<Rightarrow> string list \<Rightarrow> string" where
  "join_with sep [] = []"
| "join_with sep [x] = x"
| "join_with sep (x # y # ys) = x @ sep @ join_with sep (y # ys)"

lemma split_on_ne [simp]: "split_on c s \<noteq> []"
  by (induction s) (auto split: list.splits)

lemma join_split_on [simp]: "join_with [c] (split_on c s) = s"
proof (induction s)
  case Nil
  show ?case by simp
next
  case (Cons x xs)
  obtain y ys where s: "split_on c xs = y # ys"
    by (cases "split_on c xs") auto
  show ?case
  proof (cases "x = c")
    case True
    with Cons s show ?thesis by simp
  next
    case False
    with Cons s show ?thesis by (cases ys) auto
  qed
qed

lemma split_on_free: "p \<in> set (split_on c s) \<Longrightarrow> c \<notin> set p"
  by (induction s arbitrary: p) (auto split: list.splits if_splits)

lemma split_on_none: "c \<notin> set s \<Longrightarrow> split_on c s = [s]"
  by (induction s) auto

lemma split_on_append:
  "split_on c (s @ c # t) = split_on c s @ split_on c t"
  by (induction s) (auto split: list.splits)

lemma split_on_join:
  "ps \<noteq> [] \<Longrightarrow> (\<forall>p\<in>set ps. c \<notin> set p) \<Longrightarrow> split_on c (join_with [c] ps) = ps"
  by (induction "[c]" ps rule: join_with.induct) (auto simp: split_on_none split_on_append)

text \<open>
  ASCII part of \<open>strings.ToLower\<close>. The callers accept only results that consist of ASCII hex
  digits, dashes and the text \<open>sha256:\<close>, and no rune outside ASCII is lowered to one of those.
\<close>

definition ascii_lower :: "string \<Rightarrow> string" where
  "ascii_lower = map (\<lambda>c. if 65 \<le> (of_char c :: nat) \<and> (of_char c :: nat) \<le> 90
                          then char_of ((of_char c :: nat) + 32) else c)"

definition is_hex :: "char \<Rightarrow> bool" where
  "is_hex c \<longleftrightarrow> (let n = (of_char c :: nat) in
     48 \<le> n \<and> n \<le> 57 \<or> 97 \<le> n \<and> n \<le> 102 \<or> 65 \<le> n \<and> n \<le> 70)"

text \<open>\<open>hex.Decode\<close> and \<open>hex.DecodeString\<close> succeed on an even number of hex digits.\<close>

definition hex_decodes :: "string \<Rightarrow> bool" where
  "hex_decodes s \<longleftrightarrow> even (length s) \<and> list_all is_hex s"

definition slice :: "nat \<Rightarrow> nat \<Rightarrow> string \<Rightarrow> string" where
  "slice i j s = take (j - i) (drop i s)"

text \<open>Printable ASCII: such a byte is neither a space nor the first or last byte of one.\<close>

definition plain_char :: "char \<Rightarrow> bool" where
  "plain_char c \<longleftrightarrow> 33 \<le> (of_char c :: nat) \<and> (of_char c :: nat) \<le> 126"

lemma lead_len_plain:
  assumes "\<forall>p\<in>set encs. p \<noteq> [] \<and> \<not> plain_char (hd p)" "s \<noteq> [] \<Longrightarrow> plain_char (hd s)"
  shows "lead_len encs s = 0"
proof -
  have "\<not> has_prefix p s" if p: "p \<in> set encs" for p
  proof
    assume "has_prefix p s"
    then obtain r where "s = p @ r" by (auto simp: has_prefix_iff)
    moreover from assms(1) p have "p \<noteq> []" "\<not> plain_char (hd p)" by auto
    ultimately show False using assms(2) by simp
  qed
  then have "find (\<lambda>p. has_prefix p s) encs = None" by (simp add: find_None_iff)
  then show ?thesis by (simp add: lead_len_def)
qed

lemma unicode_spaces_not_plain:
  "\<forall>p\<in>set unicode_spaces. p \<noteq> [] \<and> \<not> plain_char (hd p) \<and> \<not> plain_char (last p)"
  by (simp add: unicode_spaces_def plain_char_def)

lemma trim_space_plain:
  assumes "s \<noteq> [] \<Longrightarrow> plain_char (hd s) \<and> plain_char (last s)"
  shows "trim_space s = s"
proof -
  from unicode_spaces_not_plain have "lead_len unicode_spaces s = 0"
    by (intro lead_len_plain) (use assms in auto)
  moreover have "lead_len (map rev unicode_spaces) (rev s) = 0"
    using unicode_spaces_not_plain
    by (intro lead_len_plain) (use assms in \<open>auto simp: hd_rev\<close>)
  ultimately show ?thesis
    by (simp add: trim_space_def trim_lead.simps)
qed

lemma slice_all:
  assumes "j \<le> length s"
  shows "list_all P (slice i j s) \<longleftrightarrow> (\<forall>k. i \<le> k \<and> k < j \<longrightarrow> P (s ! k))"
proof -
  have "list_all P (slice i j s) \<longleftrightarrow> (\<forall>k<j - i. P (s ! (i + k)))"
    using assms by (auto simp: list_all_length slice_def)
  also have "\<dots> \<longleftrightarrow> (\<forall>k. i \<le> k \<and> k < j \<longrightarrow> P (s ! k))"
    by (metis add.commute le_add1 le_add_diff_inverse2 less_diff_conv)
  finally show ?thesis .
qed

lemma length_slice [simp]: "j \<le> length s \<Longrightarrow> length (slice i j s) = j - i"
  by (simp add: slice_def)

lemma is_hex_plain: "is_hex c \<Longrightarrow> plain_char c"
  by (auto simp: is_hex_def plain_char_def Let_def)

lemma length_ascii_lower [simp]: "length (ascii_lower s) = length s"
  by (simp add: ascii_lower_def)

lemma ascii_lower_idem [simp]: "ascii_lower (ascii_lower s) = ascii_lower s"
  by (auto simp: ascii_lower_def of_char_of)

text \<open>Keys join texts with a NUL; the first text can be read back.\<close>

lemma nul_split: "a @ CHR 0x00 # r = b @ CHR 0x00 # s \<Longrightarrow> CHR 0x00 \<notin> set a \<Longrightarrow> CHR 0x00 \<notin> set b \<Longrightarrow> a = b \<and> r = s"
proof (induction a arbitrary: b)
  case Nil
  then show ?case by (cases b) auto
next
  case (Cons x a)
  then show ?case by (cases b) auto
qed

section \<open>Searches and updates by index\<close>

text \<open>Go's index searches return -1 for "absent"; here that is \<open>None\<close>.\<close>

fun find_index :: "('a \<Rightarrow> bool) \<Rightarrow> 'a list \<Rightarrow> nat option" where
  "find_index P [] = None"
| "find_index P (x # xs) = (if P x then Some 0 else map_option Suc (find_index P xs))"

lemma find_index_None [index_simps]: "find_index P xs = None \<longleftrightarrow> (\<forall>x\<in>set xs. \<not> P x)"
  by (induction xs) auto

lemma find_index_Some:
  "find_index P xs = Some i \<Longrightarrow> i < length xs \<and> P (xs ! i) \<and> (\<forall>j<i. \<not> P (xs ! j))"
  by (induction xs arbitrary: i)
     (force split: if_splits simp: less_Suc_eq_0_disj nth_Cons split: nat.splits)+

lemma find_index_lt [index_simps]: "find_index P xs = Some i \<Longrightarrow> i < length xs"
  by (simp add: find_index_Some)

lemma find_index_holds [index_simps]: "find_index P xs = Some i \<Longrightarrow> P (xs ! i)"
  by (simp add: find_index_Some)

lemma find_index_ex: "i < length xs \<Longrightarrow> P (xs ! i) \<Longrightarrow> \<exists>j. find_index P xs = Some j \<and> j \<le> i"
proof (induction xs arbitrary: i)
  case Nil
  then show ?case by simp
next
  case (Cons x xs)
  then show ?case by (cases i) fastforce+
qed

lemma find_index_unique:
  assumes "i < length xs" "P (xs ! i)" "\<And>j. j < length xs \<Longrightarrow> P (xs ! j) \<Longrightarrow> j = i"
  shows "find_index P xs = Some i"
proof -
  from find_index_ex [of i xs P] assms(1,2) obtain j where "find_index P xs = Some j" by blast
  with find_index_Some [OF this] assms(3) show ?thesis by blast
qed

lemma find_index_cong:
  "(\<And>x. x \<in> set xs \<Longrightarrow> P x = Q x) \<Longrightarrow> find_index P xs = find_index Q xs"
  by (induction xs) auto

lemma find_index_map: "find_index P (map f xs) = find_index (P \<circ> f) xs"
  by (induction xs) auto

lemma find_index_append:
  "find_index P (xs @ ys) =
     (case find_index P xs of Some i \<Rightarrow> Some i
      | None \<Rightarrow> map_option (\<lambda>j. length xs + j) (find_index P ys))"
proof (induction xs)
  case Nil
  show ?case by (cases "find_index P ys") auto
next
  case (Cons x xs)
  then show ?case by (cases "find_index P ys") (auto split: option.splits)
qed

lemma set_list_update_sub: "x \<in> set (xs[i := y]) \<Longrightarrow> x = y \<or> x \<in> set xs"
  by (meson insert_iff set_update_subset_insert subset_iff)

lemma map_update_same: "i < length xs \<Longrightarrow> f y = f (xs ! i) \<Longrightarrow> map f (xs[i := y]) = map f xs"
  by (metis list_update_id map_update)

lemma filter_update_drop:
  assumes "i < length xs" "P (xs ! i)" "\<not> P y"
  shows "length (filter P (xs[i := y])) = length (filter P xs) - 1"
    and "filter P xs \<noteq> []"
proof -
  have x: "xs = take i xs @ xs ! i # drop (Suc i) xs"
    using assms(1) by (rule id_take_nth_drop)
  have y: "xs[i := y] = take i xs @ y # drop (Suc i) xs"
    using assms(1) by (rule upd_conv_take_nth_drop)
  have "length (filter P xs) = Suc (length (filter P (take i xs)) + length (filter P (drop (Suc i) xs)))"
    by (subst x) (simp add: assms(2))
  moreover have "length (filter P (xs[i := y])) =
      length (filter P (take i xs)) + length (filter P (drop (Suc i) xs))"
    by (subst y) (simp add: assms(3))
  ultimately show "length (filter P (xs[i := y])) = length (filter P xs) - 1" by simp
  from assms(1,2) show "filter P xs \<noteq> []"
    by (auto simp: filter_empty_conv)
qed

lemma distinct_map_nth_eq:
  "distinct (map f xs) \<Longrightarrow> i < length xs \<Longrightarrow> j < length xs \<Longrightarrow> f (xs ! i) = f (xs ! j) \<Longrightarrow> i = j"
  by (metis length_map nth_eq_iff_index_eq nth_map)

end
