(* ===== verification/Lifecycle.thy ===== *)
theory Lifecycle
  imports Prelude
begin

text \<open>
  The durable state machines of \<^verbatim>\<open>internal/domain/actions.go\<close>: actions, workflows, workflow
  steps and attempts. Each Go string type becomes a datatype with one constructor per constant
  and one (\<open>..Other\<close>) for any other text; a transition map becomes an association list from a
  state to the states it may become. What the four machines share is stated once, in the locale
  \<open>lifecycle\<close>, and interpreted on each of them.
\<close>

section \<open>States\<close>

datatype action_state =
    ActionQueued | ActionRunning | ActionWaitingDependency | ActionReconciling | ActionNeedsReview
  | ActionSucceeded | ActionFailed | ActionCancelled | ActionDeadlineExceeded
  | ActionStateOther string

datatype workflow_state =
    WorkflowAwaitingApproval | WorkflowRunning | WorkflowWaitingDependency | WorkflowNeedsReview
  | WorkflowSucceeded | WorkflowFailed | WorkflowCancelled | WorkflowDeadlineExceeded
  | WorkflowStateOther string

datatype step_state =
    StepQueued | StepRunning | StepSucceeded | StepFailed | StepBlocked | StepSkipped
  | StepCancelled | StepStateOther string

datatype attempt_state =
    AttemptRunning | AttemptReconciling | AttemptSucceeded | AttemptFailed | AttemptCancelled
  | AttemptStateOther string

datatype action_kind =
    ActionArrRegistration | ActionArrImport | ActionFSCopy | ActionFSHardlink | ActionFSMove
  | ActionFSRename | ActionClientStop | ActionClientRemove | ActionFSTrash | ActionFSRestore
  | ActionFSDelete | ActionDescriptorDelete | ActionJellyfinRefresh
  | ActionKindOther string

datatype effect_outcome = OutcomeApplied | OutcomeAlreadySatisfied | EffectOutcomeOther string

section \<open>Transition maps\<close>

type_synonym 's transitions = "('s \<times> 's list) list"

definition actionTransitions :: "action_state transitions" where
  "actionTransitions =
    [(ActionQueued,
        [ActionRunning, ActionWaitingDependency, ActionNeedsReview,
         ActionSucceeded, ActionCancelled, ActionDeadlineExceeded]),
     (ActionRunning,
        [ActionWaitingDependency, ActionReconciling, ActionNeedsReview,
         ActionSucceeded, ActionFailed, ActionCancelled, ActionDeadlineExceeded]),
     (ActionWaitingDependency,
        [ActionQueued, ActionRunning, ActionNeedsReview, ActionCancelled, ActionDeadlineExceeded]),
     (ActionReconciling,
        [ActionQueued, ActionSucceeded, ActionNeedsReview, ActionCancelled, ActionDeadlineExceeded]),
     (ActionNeedsReview,
        [ActionQueued, ActionRunning, ActionCancelled, ActionDeadlineExceeded])]"

definition workflowTransitions :: "workflow_state transitions" where
  "workflowTransitions =
    [(WorkflowAwaitingApproval,
        [WorkflowRunning, WorkflowCancelled, WorkflowDeadlineExceeded]),
     (WorkflowRunning,
        [WorkflowWaitingDependency, WorkflowNeedsReview, WorkflowSucceeded,
         WorkflowFailed, WorkflowCancelled, WorkflowDeadlineExceeded]),
     (WorkflowWaitingDependency,
        [WorkflowRunning, WorkflowNeedsReview, WorkflowCancelled, WorkflowDeadlineExceeded]),
     (WorkflowNeedsReview,
        [WorkflowRunning, WorkflowCancelled, WorkflowDeadlineExceeded])]"

definition stepTransitions :: "step_state transitions" where
  "stepTransitions =
    [(StepQueued, [StepRunning, StepBlocked, StepSkipped, StepCancelled]),
     (StepRunning, [StepSucceeded, StepFailed, StepBlocked, StepCancelled]),
     (StepBlocked, [StepQueued, StepCancelled])]"

definition attemptTransitions :: "attempt_state transitions" where
  "attemptTransitions =
    [(AttemptRunning, [AttemptReconciling, AttemptSucceeded, AttemptFailed, AttemptCancelled]),
     (AttemptReconciling, [AttemptSucceeded, AttemptFailed, AttemptCancelled])]"

text \<open>Lookup in a map of maps (a missing key gives Go's empty map), and membership of a state.\<close>

definition can_transition :: "'s transitions \<Rightarrow> 's \<Rightarrow> 's \<Rightarrow> bool" where
  "can_transition T from to =
     (case map_of T from of None \<Rightarrow> False | Some next \<Rightarrow> List.member next to)"

definition table_valid :: "'s transitions \<Rightarrow> 's \<Rightarrow> bool" where
  "table_valid T s \<longleftrightarrow>
     (if map_of T s \<noteq> None then True else list_ex (\<lambda>(_, next). List.member next s) T)"

datatype 's transition_error = CannotTransition 's 's

section \<open>Operations\<close>

definition CanTransition :: "action_state \<Rightarrow> action_state \<Rightarrow> bool" where
  "CanTransition = can_transition actionTransitions"

definition TransitionAction :: "action_state \<Rightarrow> action_state \<Rightarrow> action_state transition_error option" where
  "TransitionAction from to = (if \<not> CanTransition from to then Some (CannotTransition from to) else None)"

definition ActionState_Valid :: "action_state \<Rightarrow> bool" where
  "ActionState_Valid = table_valid actionTransitions"

definition ActionState_Terminal :: "action_state \<Rightarrow> bool" where
  "ActionState_Terminal s \<longleftrightarrow> s = ActionSucceeded \<or> s = ActionFailed \<or> s = ActionCancelled \<or> s = ActionDeadlineExceeded"

definition CanTransitionWorkflow :: "workflow_state \<Rightarrow> workflow_state \<Rightarrow> bool" where
  "CanTransitionWorkflow = can_transition workflowTransitions"

definition TransitionWorkflow :: "workflow_state \<Rightarrow> workflow_state \<Rightarrow> workflow_state transition_error option" where
  "TransitionWorkflow from to = (if \<not> CanTransitionWorkflow from to then Some (CannotTransition from to) else None)"

definition CanTransitionStep :: "step_state \<Rightarrow> step_state \<Rightarrow> bool" where
  "CanTransitionStep = can_transition stepTransitions"

definition TransitionStep :: "step_state \<Rightarrow> step_state \<Rightarrow> step_state transition_error option" where
  "TransitionStep from to = (if \<not> CanTransitionStep from to then Some (CannotTransition from to) else None)"

definition CanTransitionAttempt :: "attempt_state \<Rightarrow> attempt_state \<Rightarrow> bool" where
  "CanTransitionAttempt = can_transition attemptTransitions"

definition TransitionAttempt :: "attempt_state \<Rightarrow> attempt_state \<Rightarrow> attempt_state transition_error option" where
  "TransitionAttempt from to = (if \<not> CanTransitionAttempt from to then Some (CannotTransition from to) else None)"

definition WorkflowState_Terminal :: "workflow_state \<Rightarrow> bool" where
  "WorkflowState_Terminal s \<longleftrightarrow>
     s = WorkflowSucceeded \<or> s = WorkflowFailed \<or> s = WorkflowCancelled \<or> s = WorkflowDeadlineExceeded"

definition WorkflowState_Valid :: "workflow_state \<Rightarrow> bool" where
  "WorkflowState_Valid = table_valid workflowTransitions"

definition StepState_Terminal :: "step_state \<Rightarrow> bool" where
  "StepState_Terminal s \<longleftrightarrow> s = StepSucceeded \<or> s = StepFailed \<or> s = StepSkipped \<or> s = StepCancelled"

definition StepState_Valid :: "step_state \<Rightarrow> bool" where
  "StepState_Valid = table_valid stepTransitions"

definition AttemptState_Terminal :: "attempt_state \<Rightarrow> bool" where
  "AttemptState_Terminal s \<longleftrightarrow> s = AttemptSucceeded \<or> s = AttemptFailed \<or> s = AttemptCancelled"

definition AttemptState_Valid :: "attempt_state \<Rightarrow> bool" where
  "AttemptState_Valid = table_valid attemptTransitions"

fun ActionKind_Valid :: "action_kind \<Rightarrow> bool" where
  "ActionKind_Valid (ActionKindOther _) = False"
| "ActionKind_Valid _ = True"

definition EffectOutcome_Valid :: "effect_outcome \<Rightarrow> bool" where
  "EffectOutcome_Valid o' \<longleftrightarrow> o' = OutcomeApplied \<or> o' = OutcomeAlreadySatisfied"

section \<open>Runs of a state machine\<close>

inductive lifecycle_run :: "'s transitions \<Rightarrow> 's \<Rightarrow> 's list \<Rightarrow> 's \<Rightarrow> bool" for T where
  run_stop: "lifecycle_run T s [] s"
| run_step: "can_transition T s t \<Longrightarrow> lifecycle_run T t ts u \<Longrightarrow> lifecycle_run T s (t # ts) u"

inductive_cases run_consE: "lifecycle_run T s (t # ts) u"
inductive_simps run_Nil_iff [simp]: "lifecycle_run T s [] u"
inductive_simps run_Cons_iff [simp]: "lifecycle_run T s (t # ts) u"

lemma can_transition_table_valid: "can_transition T s t \<Longrightarrow> table_valid T s \<and> table_valid T t"
  by (auto simp: can_transition_def table_valid_def list_ex_iff split: option.splits dest: map_of_SomeD)

locale lifecycle =
  fixes table :: "'s transitions"
    and valid :: "'s \<Rightarrow> bool"
    and terminal :: "'s \<Rightarrow> bool"
    and cancelled :: 's
  assumes valid_table: "valid s = table_valid table s"
    and terminal_stuck: "terminal s \<Longrightarrow> \<not> can_transition table s t"
    and terminal_valid: "terminal s \<Longrightarrow> valid s"
    and live_cancel: "valid s \<Longrightarrow> \<not> terminal s \<Longrightarrow> can_transition table s cancelled"
begin

lemma step_valid: "can_transition table s t \<Longrightarrow> valid s \<and> valid t"
  using can_transition_table_valid [of table s t] by (simp add: valid_table)

lemma terminal_iff_stuck: "valid s \<Longrightarrow> terminal s \<longleftrightarrow> (\<forall>t. \<not> can_transition table s t)"
  using terminal_stuck live_cancel by blast

lemma run_valid: "lifecycle_run table s ts u \<Longrightarrow> valid s \<Longrightarrow> valid u \<and> (\<forall>t\<in>set ts. valid t)"
  by (induction rule: lifecycle_run.induct) (auto dest: step_valid)

lemma run_from_terminal: "lifecycle_run table s ts u \<Longrightarrow> terminal s \<Longrightarrow> ts = [] \<and> u = s"
  by (induction rule: lifecycle_run.induct) (auto dest: terminal_stuck)

lemma terminal_only_last: "lifecycle_run table s ts u \<Longrightarrow> t \<in> set (butlast ts) \<Longrightarrow> \<not> terminal t"
proof (induction rule: lifecycle_run.induct)
  case (run_stop s)
  then show ?case by simp
next
  case (run_step s t' ts u)
  show ?case
  proof (cases ts)
    case Nil
    with run_step show ?thesis by simp
  next
    case (Cons t'' ts')
    with run_step.hyps(2) have "\<not> terminal t'" by (auto dest: terminal_stuck)
    with run_step Cons show ?thesis by auto
  qed
qed

lemma run_live:
  assumes "lifecycle_run table s ts u" "t \<in> set (butlast ts)"
  shows "\<not> terminal t \<and> can_transition table t cancelled"
proof -
  have "valid t"
    using assms by (induction rule: lifecycle_run.induct) (auto dest: step_valid split: if_splits)
  with terminal_only_last [OF assms] live_cancel show ?thesis by blast
qed

end

lemmas table_simps =
  can_transition_def table_valid_def actionTransitions_def workflowTransitions_def
  stepTransitions_def attemptTransitions_def

interpretation action: lifecycle actionTransitions ActionState_Valid ActionState_Terminal ActionCancelled
proof unfold_locales
  fix s t :: action_state
  show "ActionState_Terminal s \<Longrightarrow> \<not> can_transition actionTransitions s t"
    by (cases s) (simp_all add: ActionState_Terminal_def table_simps)
  show "ActionState_Terminal s \<Longrightarrow> ActionState_Valid s"
    by (cases s) (simp_all add: ActionState_Terminal_def ActionState_Valid_def table_simps)
  show "ActionState_Valid s \<Longrightarrow> \<not> ActionState_Terminal s \<Longrightarrow> can_transition actionTransitions s ActionCancelled"
    by (cases s) (simp_all add: ActionState_Terminal_def ActionState_Valid_def table_simps)
qed (simp add: ActionState_Valid_def)

interpretation workflow: lifecycle workflowTransitions WorkflowState_Valid WorkflowState_Terminal WorkflowCancelled
proof unfold_locales
  fix s t :: workflow_state
  show "WorkflowState_Terminal s \<Longrightarrow> \<not> can_transition workflowTransitions s t"
    by (cases s) (simp_all add: WorkflowState_Terminal_def table_simps)
  show "WorkflowState_Terminal s \<Longrightarrow> WorkflowState_Valid s"
    by (cases s) (simp_all add: WorkflowState_Terminal_def WorkflowState_Valid_def table_simps)
  show "WorkflowState_Valid s \<Longrightarrow> \<not> WorkflowState_Terminal s
      \<Longrightarrow> can_transition workflowTransitions s WorkflowCancelled"
    by (cases s) (simp_all add: WorkflowState_Terminal_def WorkflowState_Valid_def table_simps)
qed (simp add: WorkflowState_Valid_def)

interpretation step: lifecycle stepTransitions StepState_Valid StepState_Terminal StepCancelled
proof unfold_locales
  fix s t :: step_state
  show "StepState_Terminal s \<Longrightarrow> \<not> can_transition stepTransitions s t"
    by (cases s) (simp_all add: StepState_Terminal_def table_simps)
  show "StepState_Terminal s \<Longrightarrow> StepState_Valid s"
    by (cases s) (simp_all add: StepState_Terminal_def StepState_Valid_def table_simps)
  show "StepState_Valid s \<Longrightarrow> \<not> StepState_Terminal s \<Longrightarrow> can_transition stepTransitions s StepCancelled"
    by (cases s) (simp_all add: StepState_Terminal_def StepState_Valid_def table_simps)
qed (simp add: StepState_Valid_def)

interpretation attempt: lifecycle attemptTransitions AttemptState_Valid AttemptState_Terminal AttemptCancelled
proof unfold_locales
  fix s t :: attempt_state
  show "AttemptState_Terminal s \<Longrightarrow> \<not> can_transition attemptTransitions s t"
    by (cases s) (simp_all add: AttemptState_Terminal_def table_simps)
  show "AttemptState_Terminal s \<Longrightarrow> AttemptState_Valid s"
    by (cases s) (simp_all add: AttemptState_Terminal_def AttemptState_Valid_def table_simps)
  show "AttemptState_Valid s \<Longrightarrow> \<not> AttemptState_Terminal s \<Longrightarrow> can_transition attemptTransitions s AttemptCancelled"
    by (cases s) (simp_all add: AttemptState_Terminal_def AttemptState_Valid_def table_simps)
qed (simp add: AttemptState_Valid_def)

section \<open>Properties\<close>

text \<open>
  An action's terminal states are final in every run of the transition map: no state before
  the last one of a run is terminal, a run from a terminal state is empty, and every live state
  can be cancelled in one step. The three clauses hold for actions, workflows, steps and attempts.
\<close>

theorem terminal_states_final:
  "lifecycle_run actionTransitions a as a' \<Longrightarrow>
   lifecycle_run workflowTransitions w ws w' \<Longrightarrow>
   lifecycle_run stepTransitions s ss s' \<Longrightarrow>
   lifecycle_run attemptTransitions p ps p' \<Longrightarrow>
     (\<forall>x\<in>set (butlast as). \<not> ActionState_Terminal x \<and> CanTransition x ActionCancelled)
   \<and> (\<forall>x\<in>set (butlast ws). \<not> WorkflowState_Terminal x \<and> CanTransitionWorkflow x WorkflowCancelled)
   \<and> (\<forall>x\<in>set (butlast ss). \<not> StepState_Terminal x \<and> CanTransitionStep x StepCancelled)
   \<and> (\<forall>x\<in>set (butlast ps). \<not> AttemptState_Terminal x \<and> CanTransitionAttempt x AttemptCancelled)"
  by (simp add: action.run_live workflow.run_live step.run_live attempt.run_live
      CanTransition_def CanTransitionWorkflow_def CanTransitionStep_def CanTransitionAttempt_def)

theorem terminal_states_final_witness:
  "\<not> ActionState_Terminal ActionReconciling \<and> CanTransitionStep StepRunning StepCancelled"
proof -
  have a: "lifecycle_run actionTransitions ActionQueued [ActionRunning, ActionReconciling, ActionSucceeded] ActionSucceeded"
    and w: "lifecycle_run workflowTransitions WorkflowAwaitingApproval [WorkflowRunning, WorkflowSucceeded] WorkflowSucceeded"
    and s: "lifecycle_run stepTransitions StepQueued [StepRunning, StepFailed] StepFailed"
    and p: "lifecycle_run attemptTransitions AttemptRunning [AttemptReconciling, AttemptSucceeded] AttemptSucceeded"
    by (simp_all add: table_simps)
  from terminal_states_final [OF a w s p] show ?thesis by simp
qed

text \<open>
  An action that needs review never becomes successful on its own: every run from
  \<open>needs_review\<close> to \<open>succeeded\<close> passes through \<open>queued\<close> or \<open>running\<close> again, and \<open>failed\<close> is
  entered only from \<open>running\<close>.
\<close>

theorem review_is_not_skipped:
  assumes "lifecycle_run actionTransitions ActionNeedsReview ts ActionSucceeded"
  shows "(ActionQueued \<in> set ts \<or> ActionRunning \<in> set ts)
    \<and> (\<forall>s. CanTransition s ActionFailed = (s = ActionRunning))"
proof
  obtain t ts' where ts: "ts = t # ts'" and st: "can_transition actionTransitions ActionNeedsReview t"
    and rest: "lifecycle_run actionTransitions t ts' ActionSucceeded"
    using assms by (cases ts) auto
  from st have "t \<in> {ActionQueued, ActionRunning, ActionCancelled, ActionDeadlineExceeded}"
    by (auto simp: table_simps)
  moreover have "\<not> ActionState_Terminal t" if "t \<noteq> ActionSucceeded"
    using action.run_from_terminal [OF rest] that by blast
  ultimately show "ActionQueued \<in> set ts \<or> ActionRunning \<in> set ts"
    using ts by (auto simp: ActionState_Terminal_def)
  show "\<forall>s. CanTransition s ActionFailed = (s = ActionRunning)"
  proof
    fix s
    show "CanTransition s ActionFailed = (s = ActionRunning)"
      by (cases s) (simp_all add: CanTransition_def table_simps)
  qed
qed

theorem review_is_not_skipped_witness:
  "ActionQueued \<in> set [ActionQueued, ActionSucceeded] \<or> ActionRunning \<in> set [ActionQueued, ActionSucceeded]"
proof -
  have "lifecycle_run actionTransitions ActionNeedsReview [ActionQueued, ActionSucceeded] ActionSucceeded"
    by (simp add: table_simps)
  from review_is_not_skipped [OF this] show ?thesis by blast
qed

end
