(* ===== verification/Identity.thy ===== *)
theory Identity
  imports Prelude
begin

text \<open>
  Identifiers (\<^verbatim>\<open>internal/domain/identity.go\<close>): runtime ids are version 4 UUIDs drawn from 16
  random bytes, configuration ids are short lowercase names chosen by the user. The source of
  random bytes is an argument: \<open>None\<close> is a failed read, \<open>Some raw\<close> the 16 bytes by index.
\<close>

type_synonym runtime_id = string
type_synonym config_id = string
type_synonym raw16 = "nat \<Rightarrow> 8 word"

datatype identity_error =
    GenerateRuntimeID
  | RuntimeIDNotUUID
  | ConfigIDLength
  | ConfigIDStart
  | ConfigIDEnd
  | ConfigIDCharacter
  | ConfigRefInvalidID
  | ConfigRefNoRevision

section \<open>Runtime ids\<close>

definition hex_digit :: "nat \<Rightarrow> char" where
  "hex_digit n = ''0123456789abcdef'' ! n"

definition hex_encode :: "8 word list \<Rightarrow> string" where
  "hex_encode bs =
     concat (map (\<lambda>b. [hex_digit (unat (drop_bit 4 b)), hex_digit (unat (b AND 0x0f))]) bs)"

definition uuid_format :: "raw16 \<Rightarrow> string" where
  "uuid_format raw =
     hex_encode (map raw [0..<4]) @ ''-'' @ hex_encode (map raw [4..<6]) @ ''-''
     @ hex_encode (map raw [6..<8]) @ ''-'' @ hex_encode (map raw [8..<10]) @ ''-''
     @ hex_encode (map raw [10..<16])"

definition NewRuntimeID :: "raw16 option \<Rightarrow> identity_error + runtime_id" where
  "NewRuntimeID read =
     (case read of
        None \<Rightarrow> Inl GenerateRuntimeID
      | Some raw0 \<Rightarrow>
          (let raw1 = raw0(6 := (raw0 6 AND 0x0f) OR 0x40);
               raw = raw1(8 := (raw1 8 AND 0x3f) OR 0x80)
           in Inr (uuid_format raw)))"

definition ParseRuntimeID :: "string \<Rightarrow> identity_error + runtime_id" where
  "ParseRuntimeID value0 =
     (if trim_space value0 \<noteq> value0 then Inl RuntimeIDNotUUID
      else
        let value = ascii_lower value0 in
        if length value \<noteq> 36 \<or> value ! 8 \<noteq> CHR ''-'' \<or> value ! 13 \<noteq> CHR ''-''
           \<or> value ! 18 \<noteq> CHR ''-'' \<or> value ! 23 \<noteq> CHR ''-'' then Inl RuntimeIDNotUUID
        else if \<not> hex_decodes (slice 0 8 value) then Inl RuntimeIDNotUUID
        else if \<not> hex_decodes (slice 9 13 value) then Inl RuntimeIDNotUUID
        else if \<not> hex_decodes (slice 14 18 value) then Inl RuntimeIDNotUUID
        else if \<not> hex_decodes (slice 19 23 value) then Inl RuntimeIDNotUUID
        else if \<not> hex_decodes (slice 24 36 value) then Inl RuntimeIDNotUUID
        else Inr value)"

definition RuntimeID_Valid :: "runtime_id \<Rightarrow> bool" where
  "RuntimeID_Valid i \<longleftrightarrow> (case ParseRuntimeID i of Inl _ \<Rightarrow> False | Inr _ \<Rightarrow> True)"

section \<open>Configuration ids\<close>

definition isConfigIDEdge :: "char \<Rightarrow> bool" where
  "isConfigIDEdge c \<longleftrightarrow>
     (let n = (of_char c :: nat) in 97 \<le> n \<and> n \<le> 122 \<or> 48 \<le> n \<and> n \<le> 57)"

definition isConfigIDChar :: "char \<Rightarrow> bool" where
  "isConfigIDChar c \<longleftrightarrow>
     (let n = (of_char c :: nat) in
        97 \<le> n \<and> n \<le> 122 \<or> 48 \<le> n \<and> n \<le> 57 \<or> c = CHR ''.'' \<or> c = CHR ''_'' \<or> c = CHR ''-'')"

definition ParseConfigID :: "string \<Rightarrow> identity_error + config_id" where
  "ParseConfigID value =
     (if value = [] \<or> 63 < length value then Inl ConfigIDLength
      else if \<not> isConfigIDEdge (hd value) then Inl ConfigIDStart
      else if \<not> isConfigIDEdge (last value) then Inl ConfigIDEnd
      else if \<not> list_all isConfigIDChar value then Inl ConfigIDCharacter
      else Inr value)"

definition ConfigID_Valid :: "config_id \<Rightarrow> bool" where
  "ConfigID_Valid i \<longleftrightarrow> (case ParseConfigID i of Inl _ \<Rightarrow> False | Inr _ \<Rightarrow> True)"

record config_ref =
  ref_id :: config_id
  ref_revision :: string

definition ConfigRef_Validate :: "config_ref \<Rightarrow> identity_error option" where
  "ConfigRef_Validate r =
     (if \<not> ConfigID_Valid (ref_id r) then Some ConfigRefInvalidID
      else if blank (ref_revision r) then Some ConfigRefNoRevision
      else None)"

section \<open>Facts about identifiers\<close>

text \<open>The text of a UUID: dashes at four places, hex digits everywhere else.\<close>

definition dash_at :: "nat \<Rightarrow> bool" where
  "dash_at k \<longleftrightarrow> k = 8 \<or> k = 13 \<or> k = 18 \<or> k = 23"

definition uuid_text :: "string \<Rightarrow> bool" where
  "uuid_text v \<longleftrightarrow> length v = 36 \<and> (\<forall>k<36. if dash_at k then v ! k = CHR ''-'' else is_hex (v ! k))"

lemma all_below_split:
  fixes P :: "nat \<Rightarrow> bool"
  shows "(\<forall>k<36. if dash_at k then Q k else P k) \<longleftrightarrow>
    Q 8 \<and> Q 13 \<and> Q 18 \<and> Q 23 \<and> (\<forall>k. 0 \<le> k \<and> k < 8 \<longrightarrow> P k) \<and> (\<forall>k. 9 \<le> k \<and> k < 13 \<longrightarrow> P k)
    \<and> (\<forall>k. 14 \<le> k \<and> k < 18 \<longrightarrow> P k) \<and> (\<forall>k. 19 \<le> k \<and> k < 23 \<longrightarrow> P k)
    \<and> (\<forall>k. 24 \<le> k \<and> k < 36 \<longrightarrow> P k)" (is "?L \<longleftrightarrow> ?R")
proof
  assume l: ?L
  then have "Q 8" "Q 13" "Q 18" "Q 23"
    by (auto simp: dash_at_def dest: spec [of _ 8] spec [of _ 13] spec [of _ 18] spec [of _ 23])
  moreover have "P k" if "k < 36" "\<not> dash_at k" for k
    using l that by auto
  ultimately show ?R by (auto simp: dash_at_def)
next
  assume r: ?R
  show ?L
  proof (intro allI impI)
    fix k :: nat
    assume "k < 36"
    then consider "dash_at k" | "k < 8" | "9 \<le> k \<and> k < 13" | "14 \<le> k \<and> k < 18"
      | "19 \<le> k \<and> k < 23" | "24 \<le> k \<and> k < 36"
      by (auto simp: dash_at_def) arith
    then show "if dash_at k then Q k else P k"
      by cases (use r in \<open>auto simp: dash_at_def\<close>)
  qed
qed

lemma ParseRuntimeID_eq:
  "ParseRuntimeID s =
     (if trim_space s = s \<and> uuid_text (ascii_lower s) then Inr (ascii_lower s) else Inl RuntimeIDNotUUID)"
proof (cases "length s = 36")
  case True
  then have "uuid_text (ascii_lower s) \<longleftrightarrow>
      (let v = ascii_lower s in v ! 8 = CHR ''-'' \<and> v ! 13 = CHR ''-'' \<and> v ! 18 = CHR ''-''
       \<and> v ! 23 = CHR ''-'' \<and> hex_decodes (slice 0 8 v) \<and> hex_decodes (slice 9 13 v)
       \<and> hex_decodes (slice 14 18 v) \<and> hex_decodes (slice 19 23 v) \<and> hex_decodes (slice 24 36 v))"
    by (simp only: uuid_text_def all_below_split Let_def hex_decodes_def)
       (simp add: slice_all)
  with True show ?thesis by (simp add: ParseRuntimeID_def Let_def)
next
  case False
  then show ?thesis by (simp add: ParseRuntimeID_def uuid_text_def)
qed

lemma uuid_text_plain:
  assumes "uuid_text v"
  shows "trim_space v = v"
proof (rule trim_space_plain)
  from assms have l: "length v = 36" and h: "is_hex (v ! 0)" "is_hex (v ! 35)"
    unfolding uuid_text_def by (auto simp: dash_at_def dest: spec [of _ 0] spec [of _ 35])
  then show "plain_char (hd v) \<and> plain_char (last v)"
    by (cases v) (auto simp: last_conv_nth is_hex_plain hd_conv_nth)
qed

lemma ParseRuntimeID_canonical:
  "ParseRuntimeID s = Inr i \<Longrightarrow>
     i = ascii_lower s \<and> uuid_text i \<and> ParseRuntimeID i = Inr i"
  by (auto simp: ParseRuntimeID_eq uuid_text_plain split: if_splits)

lemma hex_digit_hex: "n < 16 \<Longrightarrow> is_hex (hex_digit n) \<and> ascii_lower [hex_digit n] = [hex_digit n]"
  by (simp add: hex_digit_def less_Suc_eq numeral_eq_Suc is_hex_def ascii_lower_def)
     (auto simp: nth_Cons')

lemma hex_encode_simps [simp]:
  "hex_encode [] = []"
  "hex_encode (b # bs) = hex_digit (unat (drop_bit 4 b)) # hex_digit (unat (b AND 0x0f)) # hex_encode bs"
  by (simp_all add: hex_encode_def)

lemma unat_drop_bit_div:
  fixes b :: "8 word"
  shows "unat (drop_bit n b) = unat b div 2 ^ n"
  by (subst unat_drop_bit_eq) (rule drop_bit_eq_div)

lemma unat_and_15:
  fixes b :: "8 word"
  shows "unat (b AND 0x0f) = unat b mod 16"
proof -
  have "unat (b AND 0x0f) = unat b AND unat (0x0f :: 8 word)" by (rule unsigned_and_eq)
  also have "\<dots> = unat b AND 0x0f" by simp
  also have "\<dots> = unat b mod 16" using take_bit_eq_mask [of 4 "unat b"] take_bit_eq_mod [of 4 "unat b"]
    by (simp add: mask_eq_exp_minus_1)
  finally show ?thesis .
qed

lemma nibble_lt [simp]:
  fixes b :: "8 word"
  shows "unat (drop_bit 4 b) < 16" "unat (b AND 0x0f) < 16"
proof -
  have "unat b < 256" using unsigned_less [of b] by simp
  then show "unat (drop_bit 4 b) < 16"
    by (simp only: unat_drop_bit_div) simp
  show "unat (b AND 0x0f) < 16"
    by (simp add: unat_and_15)
qed

lemma version_nibble:
  fixes b :: "8 word"
  shows "unat (drop_bit 4 ((b AND 0x0f) OR 0x40)) = 4"
  by (simp add: drop_bit_or drop_bit_and)

lemma variant_nibble:
  fixes b :: "8 word"
  shows "unat (drop_bit 4 ((b AND 0x3f) OR 0x80)) \<in> {8, 9, 10, 11}"
proof -
  let ?x = "(b AND 0x3f) OR 0x80"
  have "drop_bit 6 ?x = 2"
    by (simp add: drop_bit_or drop_bit_and)
  then have "unat (drop_bit 6 ?x) = 2"
    by (simp only:) simp
  then have "unat ?x div 2 ^ 6 = 2"
    by (simp only: unat_drop_bit_div)
  then have "unat (drop_bit 4 ?x) div 4 = 2"
    by (simp only: unat_drop_bit_div) simp
  then show ?thesis by auto
qed

lemma uuid_format_explicit:
  "uuid_format raw =
     (let h = \<lambda>i. hex_digit (unat (drop_bit 4 (raw i))); l = \<lambda>i. hex_digit (unat (raw i AND 0x0f)) in
      [h 0, l 0, h 1, l 1, h 2, l 2, h 3, l 3, CHR ''-'', h 4, l 4, h 5, l 5, CHR ''-'',
       h 6, l 6, h 7, l 7, CHR ''-'', h 8, l 8, h 9, l 9, CHR ''-'',
       h 10, l 10, h 11, l 11, h 12, l 12, h 13, l 13, h 14, l 14, h 15, l 15])"
proof -
  have "[0..<4] = [0, 1, 2, 3]" "[4..<6] = [4, 5]" "[6..<8] = [6, 7]" "[8..<10] = [8, 9]"
    "[10..<16] = [10, 11, 12, 13, 14, 15 :: nat]"
    by (simp_all add: upt_rec)
  then show ?thesis
    unfolding uuid_format_def by (simp only: Let_def list.map hex_encode_simps append.simps)
qed

lemma ascii_lower_digit:
  "n < 16 \<Longrightarrow> ascii_lower (hex_digit n # s) = hex_digit n # ascii_lower s"
  using hex_digit_hex [of n] by (simp add: ascii_lower_def)

lemma ascii_lower_dash: "ascii_lower (CHR ''-'' # s) = CHR ''-'' # ascii_lower s"
  by (simp add: ascii_lower_def)

lemma ascii_lower_Nil [simp]: "ascii_lower [] = []"
  by (simp add: ascii_lower_def)

lemma uuid_format_lower: "ascii_lower (uuid_format raw) = uuid_format raw"
  unfolding uuid_format_explicit Let_def
  by (simp only: ascii_lower_digit ascii_lower_dash ascii_lower_Nil nibble_lt)

text \<open>The shape of a text built from a list of bytes, checked along the list.\<close>

fun shape_from :: "nat \<Rightarrow> string \<Rightarrow> bool" where
  "shape_from k [] = True"
| "shape_from k (c # s) = ((if dash_at k then c = CHR ''-'' else is_hex c) \<and> shape_from (Suc k) s)"

lemma shape_from_nth:
  "shape_from k s \<longleftrightarrow> (\<forall>i<length s. if dash_at (k + i) then s ! i = CHR ''-'' else is_hex (s ! i))"
proof (induction s arbitrary: k)
  case Nil
  show ?case by simp
next
  case (Cons c s)
  show ?case
    by (simp only: shape_from.simps Cons.IH length_Cons All_less_Suc2 nth_Cons_0 nth_Cons_Suc
        add_Suc_right add_Suc add_0_right)
qed

lemma uuid_format_text: "uuid_text (uuid_format raw)"
proof -
  have "shape_from 0 (uuid_format raw)"
    unfolding uuid_format_explicit Let_def by (simp add: dash_at_def hex_digit_hex)
  moreover have "length (uuid_format raw) = 36"
    by (simp add: uuid_format_explicit Let_def)
  ultimately show ?thesis by (simp add: uuid_text_def shape_from_nth)
qed

lemma uuid_format_nibbles:
  "uuid_format raw ! 14 = hex_digit (unat (drop_bit 4 (raw 6)))"
  "uuid_format raw ! 19 = hex_digit (unat (drop_bit 4 (raw 8)))"
  by (simp_all add: uuid_format_explicit Let_def)

lemma NewRuntimeID_text: "NewRuntimeID (Some raw) = Inr i \<Longrightarrow> uuid_text i \<and> ascii_lower i = i"
  by (auto simp: NewRuntimeID_def Let_def uuid_format_text uuid_format_lower)

lemma uuid_text_Valid: "uuid_text i \<Longrightarrow> ascii_lower i = i \<Longrightarrow> ParseRuntimeID i = Inr i"
  by (simp add: ParseRuntimeID_eq uuid_text_plain)

lemma NewRuntimeID_Valid: "NewRuntimeID r = Inr i \<Longrightarrow> RuntimeID_Valid i"
  by (cases r) (auto simp: RuntimeID_Valid_def NewRuntimeID_def Let_def uuid_text_Valid
      uuid_format_text uuid_format_lower)

lemma RuntimeID_Valid_nonempty: "RuntimeID_Valid i \<Longrightarrow> i \<noteq> []"
  by (auto simp: RuntimeID_Valid_def ParseRuntimeID_def Let_def ascii_lower_def split: if_splits)

lemma RuntimeID_empty [simp]: "\<not> RuntimeID_Valid []"
  using RuntimeID_Valid_nonempty by blast

text \<open>
  A generated runtime id is a version 4 UUID (version digit 4, variant digit 8, 9, a or b)
  in canonical form: parsing it succeeds and returns it unchanged, whatever bytes were drawn.
\<close>

theorem NewRuntimeID_parses_back:
  "\<exists>i. NewRuntimeID (Some raw) = Inr i \<and> ParseRuntimeID i = Inr i
     \<and> length i = 36 \<and> i ! 14 = CHR ''4'' \<and> i ! 19 \<in> set ''89ab''"
proof -
  obtain i where i: "NewRuntimeID (Some raw) = Inr i"
    by (simp add: NewRuntimeID_def)
  from NewRuntimeID_text [OF i] have "uuid_text i" "ParseRuntimeID i = Inr i"
    by (auto simp: uuid_text_Valid)
  moreover have "i ! 14 = CHR ''4''"
    using i by (auto simp: NewRuntimeID_def Let_def uuid_format_nibbles version_nibble hex_digit_def)
  moreover have "i ! 19 \<in> set ''89ab''"
  proof -
    let ?raw1 = "raw(6 := (raw 6 AND 0x0f) OR 0x40)"
    have ne: "((8::nat) = 6) = False" by simp
    have "i = uuid_format (?raw1(8 := (?raw1 8 AND 0x3f) OR 0x80))"
      using i by (simp only: NewRuntimeID_def Let_def option.case sum.inject)
    then have "i ! 19 = hex_digit (unat (drop_bit 4 ((raw 8 AND 0x3f) OR 0x80)))"
      by (simp only: uuid_format_nibbles fun_upd_apply ne if_False refl if_True)
    then show ?thesis using variant_nibble [of "raw 8"]
      unfolding hex_digit_def by (elim insertE emptyE) simp_all
  qed
  ultimately show ?thesis using i by (auto simp: uuid_text_def)
qed

lemma ConfigID_Valid_iff [valid_simps]:
  "ConfigID_Valid i \<longleftrightarrow>
     i \<noteq> [] \<and> length i \<le> 63 \<and> isConfigIDEdge (hd i) \<and> isConfigIDEdge (last i) \<and> list_all isConfigIDChar i"
  by (auto simp: ConfigID_Valid_def ParseConfigID_def split: if_splits)

lemma ConfigID_empty [simp]: "\<not> ConfigID_Valid []"
  by (simp add: ConfigID_Valid_iff)

end
