(* ===== verification/Paths.thy ===== *)
theory Paths
  imports Identity
begin

text \<open>
  Root-relative paths (\<^verbatim>\<open>internal/domain/observations.go\<close>): the lexical \<open>path.Clean\<close> of Go's
  standard library, the contract \<open>ValidateRelativePath\<close> enforces, and file targets. The main fact
  is that an accepted path, appended to a configured root, cleans to a path below that root.
\<close>

datatype path_error =
    RelativePathRequired
  | RelativePathLeavesRoot
  | RelativePathBackslash
  | RelativePathNotCanonical
  | RelativePathUnsafeComponent

abbreviation slash :: char where
  "slash \<equiv> CHR ''/''"

text \<open>One component of \<open>path.Clean\<close>; the components kept so far are a stack.\<close>

definition clean_step :: "bool \<Rightarrow> string \<Rightarrow> string list \<Rightarrow> string list" where
  "clean_step rooted c stack =
     (if c = [] \<or> c = ''.'' then stack
      else if c = ''..'' then
        (case stack of
           [] \<Rightarrow> if rooted then [] else [c]
         | prev # rest \<Rightarrow> if prev = ''..'' then c # stack else rest)
      else c # stack)"

definition clean_stack :: "bool \<Rightarrow> string list \<Rightarrow> string list \<Rightarrow> string list" where
  "clean_stack rooted cs stack = fold (clean_step rooted) cs stack"

definition path_clean :: "string \<Rightarrow> string" where
  "path_clean p =
     (if p = [] then ''.''
      else
        let rooted = (hd p = slash);
            body = join_with ''/'' (rev (clean_stack rooted (split_on slash p) []))
        in if rooted then slash # body else if body = [] then ''.'' else body)"

definition unsafe_component :: "string \<Rightarrow> bool" where
  "unsafe_component c \<longleftrightarrow> c = ''..'' \<or> c = ''.'' \<or> c = []"

definition ValidateRelativePath :: "string \<Rightarrow> path_error option" where
  "ValidateRelativePath p =
     (if p = [] then Some RelativePathRequired
      else if CHR 0x00 \<in> set p \<or> has_prefix ''/'' p then Some RelativePathLeavesRoot
      else if CHR 0x5C \<in> set p then Some RelativePathBackslash
      else
        let clean = path_clean p in
        if clean = ''.'' \<or> clean \<noteq> p then Some RelativePathNotCanonical
        else if list_ex unsafe_component (split_on slash p) then Some RelativePathUnsafeComponent
        else None)"

record file_target =
  ft_root_id :: config_id
  ft_relative_path :: string

datatype target_error = TargetRootID | TargetPath path_error

definition FileTarget_Validate :: "file_target \<Rightarrow> target_error option" where
  "FileTarget_Validate t =
     (if \<not> ConfigID_Valid (ft_root_id t) then Some TargetRootID
      else case ValidateRelativePath (ft_relative_path t) of
        Some e \<Rightarrow> Some (TargetPath e)
      | None \<Rightarrow> None)"

section \<open>Cleaning safe components\<close>

lemma clean_stack_safe:
  "list_all (\<lambda>c. \<not> unsafe_component c) cs \<Longrightarrow> clean_stack rooted cs stack = rev cs @ stack"
  by (induction cs arbitrary: stack)
     (auto simp: clean_stack_def clean_step_def unsafe_component_def)

lemma clean_stack_append:
  "clean_stack rooted (cs @ ds) stack = clean_stack rooted ds (clean_stack rooted cs stack)"
  by (simp add: clean_stack_def)

lemma safe_not_rooted:
  assumes "list_all (\<lambda>c. \<not> unsafe_component c) (split_on slash p)"
  shows "p \<noteq> [] \<and> hd p \<noteq> slash"
  using assms by (cases p) (auto simp: unsafe_component_def)

lemma path_clean_safe:
  assumes "list_all (\<lambda>c. \<not> unsafe_component c) (split_on slash p)"
  shows "path_clean p = p"
  using safe_not_rooted [OF assms] clean_stack_safe [OF assms, of False "[]"]
  by (simp add: path_clean_def Let_def)

lemma ValidateRelativePath_iff [valid_simps]:
  "ValidateRelativePath p = None \<longleftrightarrow>
     CHR 0x00 \<notin> set p \<and> CHR 0x5C \<notin> set p
     \<and> list_all (\<lambda>c. \<not> unsafe_component c) (split_on slash p)" (is "?L \<longleftrightarrow> ?R")
proof
  show "?L \<Longrightarrow> ?R"
    by (auto simp: ValidateRelativePath_def Let_def list_all_iff list_ex_iff split: if_splits)
next
  assume r: ?R
  then have "p \<noteq> []" "hd p \<noteq> slash" and c: "path_clean p = p"
    using safe_not_rooted path_clean_safe by blast+
  moreover from r have "p \<noteq> ''.''" by (auto simp: unsafe_component_def)
  moreover from \<open>p \<noteq> []\<close> \<open>hd p \<noteq> slash\<close> have "\<not> has_prefix ''/'' p"
    by (cases p) (auto simp: has_prefix_def)
  ultimately show ?L
    using r by (auto simp: ValidateRelativePath_def Let_def list_all_iff list_ex_iff)
qed

lemma FileTarget_Validate_iff [valid_simps]:
  "FileTarget_Validate t = None \<longleftrightarrow>
     ConfigID_Valid (ft_root_id t) \<and> ValidateRelativePath (ft_relative_path t) = None"
  by (auto simp: FileTarget_Validate_def split: option.splits if_splits)

lemma clean_stack_no_empty: "[] \<notin> set stack \<Longrightarrow> [] \<notin> set (clean_stack rooted cs stack)"
proof (induction cs arbitrary: stack)
  case Nil
  then show ?case by (simp add: clean_stack_def)
next
  case (Cons c cs)
  from Cons.prems have "[] \<notin> set (clean_step rooted c stack)"
    by (auto simp: clean_step_def split: list.splits)
  from Cons.IH [OF this] show ?case by (simp add: clean_stack_def)
qed

lemma join_with_ne: "ps \<noteq> [] \<Longrightarrow> [] \<notin> set ps \<Longrightarrow> join_with sep ps \<noteq> []"
  by (induction sep ps rule: join_with.induct) auto

lemma join_with_append:
  "as \<noteq> [] \<Longrightarrow> bs \<noteq> [] \<Longrightarrow> join_with sep (as @ bs) = join_with sep as @ sep @ join_with sep bs"
  by (induction sep as rule: join_with.induct) (auto simp: neq_Nil_conv)

text \<open>
  The root-relative path contract. An accepted path has no NUL, no backslash and only real
  components; appended to any absolute root it cleans to that root, a slash and the path itself,
  so it can neither leave the root nor name the root.
\<close>

theorem accepted_path_stays_below_root:
  assumes "ValidateRelativePath p = None" and "root \<noteq> []" and "hd root = slash"
  shows "path_clean (root @ ''/'' @ p) =
      (if path_clean root = ''/'' then ''/'' @ p else path_clean root @ ''/'' @ p)
    \<and> (\<forall>c\<in>set (split_on slash p). c \<noteq> [] \<and> c \<noteq> ''.'' \<and> c \<noteq> ''..'')"
proof
  let ?base = "clean_stack True (split_on slash root) []"
  from assms(1) have safe: "list_all (\<lambda>c. \<not> unsafe_component c) (split_on slash p)"
    by (simp add: ValidateRelativePath_iff)
  then show "\<forall>c\<in>set (split_on slash p). c \<noteq> [] \<and> c \<noteq> ''.'' \<and> c \<noteq> ''..''"
    by (auto simp: list_all_iff unsafe_component_def)
  have stack: "clean_stack True (split_on slash (root @ ''/'' @ p)) [] = rev (split_on slash p) @ ?base"
    using clean_stack_safe [OF safe] by (simp add: split_on_append clean_stack_append)
  have root: "path_clean root = slash # join_with ''/'' (rev ?base)"
    using assms(2,3) by (simp add: path_clean_def Let_def)
  have full: "path_clean (root @ ''/'' @ p) = slash # join_with ''/'' (rev ?base @ split_on slash p)"
    using assms(2,3) stack by (simp add: path_clean_def Let_def)
  show "path_clean (root @ ''/'' @ p) =
      (if path_clean root = ''/'' then ''/'' @ p else path_clean root @ ''/'' @ p)"
  proof (cases "?base = []")
    case True
    with full root show ?thesis by simp
  next
    case False
    then have e: "join_with ''/'' (rev ?base @ split_on slash p) = join_with ''/'' (rev ?base) @ ''/'' @ p"
      by (simp add: join_with_append)
    from False have "join_with ''/'' (rev ?base) \<noteq> []"
      by (intro join_with_ne) (simp_all add: clean_stack_no_empty)
    with full root e show ?thesis by simp
  qed
qed

theorem accepted_path_stays_below_root_witness:
  "path_clean (''/media/./library/'' @ ''/'' @ ''show/s01.mkv'') = ''/media/library/show/s01.mkv''"
proof -
  have "ValidateRelativePath ''show/s01.mkv'' = None"
    by (simp add: ValidateRelativePath_iff unsafe_component_def)
  from accepted_path_stays_below_root [OF this, of "''/media/./library/''"]
  have "path_clean (''/media/./library/'' @ ''/'' @ ''show/s01.mkv'')
      = path_clean ''/media/./library/'' @ ''/'' @ ''show/s01.mkv''"
    by (simp add: path_clean_def clean_stack_def clean_step_def)
  moreover have "path_clean ''/media/./library/'' = ''/media/library''"
    by (simp add: path_clean_def clean_stack_def clean_step_def)
  ultimately show ?thesis by (simp only: append_Cons append_Nil)
qed

end
