(* ===== verification/Manifest.thy ===== *)
theory Manifest
  imports Paths
begin

text \<open>
  File manifests (\<^verbatim>\<open>internal/domain/observations.go\<close>): an entry is an exact observation of one
  filesystem object, a directory entry carries the observations of its children. \<open>Validate\<close> binds
  an entry to its root and path, \<open>ValidateAction\<close> adds the evidence a filesystem effect needs.
\<close>

datatype manifest_entry_type =
    ManifestFile | ManifestDirectory | ManifestSubtitle | ManifestCompanion
  | ManifestEntryTypeOther string

datatype manifest_role = RoleVideo | RoleSubtitle | RoleCompanion | ManifestRoleOther string

datatype file_manifest_entry = FileManifestEntry
  (fm_root_id: config_id)
  (fm_relative_path: string)
  (fm_type: manifest_entry_type)
  (fm_size: int)
  (fm_digest: string)
  (fm_file_identity: string)
  (fm_role: manifest_role)
  (fm_observed_at: time)
  (fm_children: "file_manifest_entry list")

datatype manifest_error =
    ManifestTarget target_error
  | ManifestUnsupportedType
  | ManifestNegativeSize
  | ManifestUnsupportedRole
  | ManifestChildrenNotDirectory
  | ManifestChild nat manifest_error
  | ManifestChildNotBelow
  | ManifestChildrenOverlap
  | ManifestNoObservationTime
  | ActionNoFileIdentity
  | ActionNoStrongDigest
  | ActionNoChildManifest

section \<open>Validation\<close>

definition manifestEntriesOverlap :: "file_manifest_entry \<Rightarrow> file_manifest_entry \<Rightarrow> bool" where
  "manifestEntriesOverlap left right =
     (if fm_root_id left \<noteq> fm_root_id right then False
      else if fm_relative_path left = fm_relative_path right then True
      else fm_type left = ManifestDirectory \<and> has_prefix (fm_relative_path left @ ''/'') (fm_relative_path right)
         \<or> fm_type right = ManifestDirectory \<and> has_prefix (fm_relative_path right @ ''/'') (fm_relative_path left))"

text \<open>The two nested loops over the children: each pair once, the left index below the right.\<close>

fun children_overlap :: "file_manifest_entry list \<Rightarrow> bool" where
  "children_overlap [] = False"
| "children_overlap (left # rest) \<longleftrightarrow>
     list_ex (manifestEntriesOverlap left) rest \<or> children_overlap rest"

fun manifest_type_supported :: "manifest_entry_type \<Rightarrow> bool" where
  "manifest_type_supported (ManifestEntryTypeOther _) = False"
| "manifest_type_supported _ = True"

definition manifest_role_supported :: "manifest_role \<Rightarrow> bool" where
  "manifest_role_supported r \<longleftrightarrow>
     r = ManifestRoleOther [] \<or> r = RoleVideo \<or> r = RoleSubtitle \<or> r = RoleCompanion"

fun FileManifestEntry_Validate :: "file_manifest_entry \<Rightarrow> manifest_error option"
  and manifest_children_validate ::
    "config_id \<Rightarrow> string \<Rightarrow> nat \<Rightarrow> file_manifest_entry list \<Rightarrow> manifest_error option"
where
  "FileManifestEntry_Validate (FileManifestEntry root rel ty sz dg ident role at cs) =
     (case FileTarget_Validate \<lparr>ft_root_id = root, ft_relative_path = rel\<rparr> of
        Some e \<Rightarrow> Some (ManifestTarget e)
      | None \<Rightarrow>
          if \<not> manifest_type_supported ty then Some ManifestUnsupportedType
          else if sz < 0 then Some ManifestNegativeSize
          else if \<not> manifest_role_supported role then Some ManifestUnsupportedRole
          else if cs \<noteq> [] \<and> ty \<noteq> ManifestDirectory then Some ManifestChildrenNotDirectory
          else case manifest_children_validate root rel 0 cs of
            Some e \<Rightarrow> Some e
          | None \<Rightarrow>
              if children_overlap cs then Some ManifestChildrenOverlap
              else if time_is_zero at then Some ManifestNoObservationTime
              else None)"
| "manifest_children_validate root rel index [] = None"
| "manifest_children_validate root rel index (child # rest) =
     (case FileManifestEntry_Validate child of
        Some e \<Rightarrow> Some (ManifestChild index e)
      | None \<Rightarrow>
          if fm_root_id child \<noteq> root \<or> \<not> has_prefix (rel @ ''/'') (fm_relative_path child)
          then Some ManifestChildNotBelow
          else manifest_children_validate root rel (Suc index) rest)"

text \<open>\<open>hex.EncodedLen(32)\<close> is 64.\<close>

definition strongDigest :: "string \<Rightarrow> bool" where
  "strongDigest value0 =
     (let value = trim_prefix ''sha256:'' (ascii_lower (trim_space value0)) in
      if length value \<noteq> 64 then False else hex_decodes value)"

fun FileManifestEntry_ValidateAction :: "bool \<Rightarrow> file_manifest_entry \<Rightarrow> manifest_error option"
  and manifest_children_action :: "bool \<Rightarrow> nat \<Rightarrow> file_manifest_entry list \<Rightarrow> manifest_error option"
where
  "FileManifestEntry_ValidateAction requireDigest
       (FileManifestEntry root rel ty sz dg ident role at cs) =
     (case FileManifestEntry_Validate (FileManifestEntry root rel ty sz dg ident role at cs) of
        Some e \<Rightarrow> Some e
      | None \<Rightarrow>
          if blank ident then Some ActionNoFileIdentity
          else if requireDigest \<and> ty \<noteq> ManifestDirectory \<and> \<not> strongDigest dg
          then Some ActionNoStrongDigest
          else if ty = ManifestDirectory then
            (if cs = [] then Some ActionNoChildManifest
             else manifest_children_action requireDigest 0 cs)
          else None)"
| "manifest_children_action requireDigest index [] = None"
| "manifest_children_action requireDigest index (child # rest) =
     (case FileManifestEntry_ValidateAction requireDigest child of
        Some e \<Rightarrow> Some (ManifestChild index e)
      | None \<Rightarrow> manifest_children_action requireDigest (Suc index) rest)"

section \<open>What a valid manifest contains\<close>

text \<open>An entry and everything below it, and the entries strictly below it.\<close>

fun manifest_members :: "file_manifest_entry \<Rightarrow> file_manifest_entry list" where
  "manifest_members (FileManifestEntry root rel ty sz dg ident role at cs) =
     FileManifestEntry root rel ty sz dg ident role at cs # concat (map manifest_members cs)"

definition manifest_descendants :: "file_manifest_entry \<Rightarrow> file_manifest_entry list" where
  "manifest_descendants e = concat (map manifest_members (fm_children e))"

lemma manifest_members_eq: "manifest_members e = e # manifest_descendants e"
  by (cases e) (simp add: manifest_descendants_def)

lemma manifest_children_validate_iff:
  "manifest_children_validate root rel i cs = None \<longleftrightarrow>
     (\<forall>c\<in>set cs. FileManifestEntry_Validate c = None \<and> fm_root_id c = root
        \<and> has_prefix (rel @ ''/'') (fm_relative_path c))"
  by (induction cs arbitrary: i) (auto split: option.splits)

lemma FileManifestEntry_Validate_iff [valid_simps]:
  "FileManifestEntry_Validate e = None \<longleftrightarrow>
     ConfigID_Valid (fm_root_id e) \<and> ValidateRelativePath (fm_relative_path e) = None
     \<and> manifest_type_supported (fm_type e) \<and> 0 \<le> fm_size e \<and> manifest_role_supported (fm_role e)
     \<and> (fm_children e \<noteq> [] \<longrightarrow> fm_type e = ManifestDirectory)
     \<and> (\<forall>c\<in>set (fm_children e). FileManifestEntry_Validate c = None \<and> fm_root_id c = fm_root_id e
          \<and> has_prefix (fm_relative_path e @ ''/'') (fm_relative_path c))
     \<and> \<not> children_overlap (fm_children e) \<and> \<not> time_is_zero (fm_observed_at e)"
proof (cases e)
  case (FileManifestEntry root rel ty sz dg ident role at cs)
  show ?thesis
    unfolding FileManifestEntry FileManifestEntry_Validate.simps err_simps
    by (auto simp: FileTarget_Validate_iff manifest_children_validate_iff)
qed

lemma manifest_children_action_iff:
  "manifest_children_action d i cs = None \<longleftrightarrow>
     (\<forall>c\<in>set cs. FileManifestEntry_ValidateAction d c = None)"
  by (induction cs arbitrary: i) (auto split: option.splits)

lemma FileManifestEntry_ValidateAction_iff [valid_simps]:
  "FileManifestEntry_ValidateAction d e = None \<longleftrightarrow>
     FileManifestEntry_Validate e = None \<and> \<not> blank (fm_file_identity e)
     \<and> (d \<and> fm_type e \<noteq> ManifestDirectory \<longrightarrow> strongDigest (fm_digest e))
     \<and> (fm_type e = ManifestDirectory \<longrightarrow> fm_children e \<noteq> []
          \<and> (\<forall>c\<in>set (fm_children e). FileManifestEntry_ValidateAction d c = None))"
proof (cases e)
  case (FileManifestEntry root rel ty sz dg ident role at cs)
  show ?thesis
    unfolding FileManifestEntry FileManifestEntry_ValidateAction.simps err_simps
    by (auto simp: manifest_children_action_iff simp del: FileManifestEntry_Validate.simps)
qed

text \<open>Two paths that both contain a third are comparable.\<close>

definition path_within :: "string \<Rightarrow> string \<Rightarrow> bool" where
  "path_within a b \<longleftrightarrow> b = a \<or> has_prefix (a @ ''/'') b"

lemma path_within_length: "path_within a b \<Longrightarrow> length a \<le> length b"
  by (auto simp: path_within_def has_prefix_iff)

lemma path_within_trans: "has_prefix (a @ ''/'') b \<Longrightarrow> path_within b c \<Longrightarrow> has_prefix (a @ ''/'') c"
  by (auto simp: path_within_def has_prefix_iff)

lemma path_within_comparable:
  assumes "path_within a x" "path_within b x" "length a \<le> length b"
  shows "path_within a b"
proof -
  from assms(1) obtain r where r: "x = a @ r" "r = [] \<or> hd r = slash"
    by (auto simp: path_within_def has_prefix_iff)
  from assms(2) obtain q where q: "x = b @ q" "q = [] \<or> hd q = slash"
    by (auto simp: path_within_def has_prefix_iff)
  from r(1) q(1) assms(3) obtain m where m: "b = a @ m" "r = m @ q"
    by (auto simp: append_eq_append_conv2)
  show ?thesis
  proof (cases m)
    case Nil
    with m show ?thesis by (simp add: path_within_def)
  next
    case (Cons c m')
    with r(2) m(2) have "c = slash" by simp
    with m(1) Cons show ?thesis by (simp add: path_within_def has_prefix_iff)
  qed
qed

lemma valid_descendants:
  "FileManifestEntry_Validate e = None \<Longrightarrow> d \<in> set (manifest_descendants e) \<Longrightarrow>
     fm_root_id d = fm_root_id e \<and> has_prefix (fm_relative_path e @ ''/'') (fm_relative_path d)
     \<and> FileManifestEntry_Validate d = None"
proof (induction e arbitrary: d rule: file_manifest_entry.induct)
  case (FileManifestEntry root rel ty sz dg ident role at cs)
  let ?e = "FileManifestEntry root rel ty sz dg ident role at cs"
  from FileManifestEntry.prems(2) obtain c where c: "c \<in> set cs" "d \<in> set (manifest_members c)"
    by (auto simp: manifest_descendants_def)
  from FileManifestEntry.prems(1) c(1)
  have v: "FileManifestEntry_Validate c = None" "fm_root_id c = root" "has_prefix (rel @ ''/'') (fm_relative_path c)"
    unfolding FileManifestEntry_Validate_iff [of ?e] by auto
  from c(2) consider "d = c" | "d \<in> set (manifest_descendants c)"
    by (auto simp: manifest_members_eq)
  then show ?case
  proof cases
    case 1
    with v show ?thesis by simp
  next
    case 2
    with FileManifestEntry.IH [OF c(1) v(1)] v show ?thesis
      by (auto simp: path_within_def intro: path_within_trans)
  qed
qed

lemma valid_members_within:
  "FileManifestEntry_Validate e = None \<Longrightarrow> d \<in> set (manifest_members e) \<Longrightarrow>
     path_within (fm_relative_path e) (fm_relative_path d)"
  using valid_descendants [of e d] by (auto simp: manifest_members_eq path_within_def)

lemma siblings_disjoint_aux:
  assumes v: "FileManifestEntry_Validate a = None" "FileManifestEntry_Validate b = None"
    and root: "fm_root_id a = fm_root_id b" and free: "\<not> manifestEntriesOverlap a b"
    and mem: "x \<in> set (manifest_members a)" "y \<in> set (manifest_members b)"
    and le: "length (fm_relative_path a) \<le> length (fm_relative_path b)"
  shows "fm_relative_path x \<noteq> fm_relative_path y"
proof
  assume eq: "fm_relative_path x = fm_relative_path y"
  from valid_members_within [OF v(1) mem(1)] valid_members_within [OF v(2) mem(2)] eq le
  have "path_within (fm_relative_path a) (fm_relative_path b)"
    by (metis path_within_comparable)
  with free root have pre: "has_prefix (fm_relative_path a @ ''/'') (fm_relative_path b)"
    and leaf: "fm_type a \<noteq> ManifestDirectory"
    by (auto simp: path_within_def manifestEntriesOverlap_def split: if_splits)
  from leaf v(1) have "fm_children a = []" by (auto simp: FileManifestEntry_Validate_iff [of a])
  with mem(1) have "x = a" by (simp add: manifest_members_eq manifest_descendants_def)
  with eq path_within_length [OF valid_members_within [OF v(2) mem(2)]] pre show False
    by (auto simp: has_prefix_iff)
qed

lemma manifestEntriesOverlap_sym: "manifestEntriesOverlap a b = manifestEntriesOverlap b a"
  by (auto simp: manifestEntriesOverlap_def)

lemma siblings_disjoint:
  assumes "FileManifestEntry_Validate a = None" "FileManifestEntry_Validate b = None"
    and "fm_root_id a = fm_root_id b" and "\<not> manifestEntriesOverlap a b"
    and "x \<in> set (manifest_members a)" "y \<in> set (manifest_members b)"
  shows "fm_relative_path x \<noteq> fm_relative_path y"
  using siblings_disjoint_aux [OF assms] siblings_disjoint_aux [of b a y x] assms
  by (metis manifestEntriesOverlap_sym nle_le)

lemma distinct_siblings:
  assumes "\<forall>c\<in>set cs. FileManifestEntry_Validate c = None \<and> fm_root_id c = root
      \<and> distinct (map fm_relative_path (manifest_members c))"
    and "\<not> children_overlap cs"
  shows "distinct (map fm_relative_path (concat (map manifest_members cs)))"
  using assms
proof (induction cs)
  case Nil
  show ?case by simp
next
  case (Cons c cs)
  have "fm_relative_path x \<noteq> fm_relative_path y"
    if x: "x \<in> set (manifest_members c)" and c': "c' \<in> set cs" and y: "y \<in> set (manifest_members c')" for x y c'
    using Cons.prems c' by (intro siblings_disjoint [OF _ _ _ _ x y]) (auto simp: list_ex_iff)
  with Cons show ?case by (fastforce simp: distinct_append)
qed

lemma valid_members_distinct:
  "FileManifestEntry_Validate e = None \<Longrightarrow> distinct (map fm_relative_path (manifest_members e))"
proof (induction e rule: file_manifest_entry.induct)
  case (FileManifestEntry root rel ty sz dg ident role at cs)
  let ?e = "FileManifestEntry root rel ty sz dg ident role at cs"
  from FileManifestEntry.prems have cs: "\<forall>c\<in>set cs. FileManifestEntry_Validate c = None \<and> fm_root_id c = root"
    and free: "\<not> children_overlap cs"
    unfolding FileManifestEntry_Validate_iff [of ?e] by auto
  with FileManifestEntry.IH have "distinct (map fm_relative_path (concat (map manifest_members cs)))"
    by (intro distinct_siblings) auto
  moreover have "fm_relative_path d \<noteq> rel" if "d \<in> set (manifest_descendants ?e)" for d
    using valid_descendants [OF FileManifestEntry.prems that] by (auto simp: has_prefix_iff)
  ultimately show ?case by (auto simp: manifest_descendants_def)
qed

lemma action_members:
  "FileManifestEntry_ValidateAction d e = None \<Longrightarrow> x \<in> set (manifest_members e) \<Longrightarrow>
     \<not> blank (fm_file_identity x) \<and> (fm_type x \<noteq> ManifestDirectory \<longrightarrow> d \<longrightarrow> strongDigest (fm_digest x))
     \<and> (fm_type x = ManifestDirectory \<longleftrightarrow> fm_children x \<noteq> [])"
proof (induction e arbitrary: x rule: file_manifest_entry.induct)
  case (FileManifestEntry root rel ty sz dg ident role at cs)
  let ?e = "FileManifestEntry root rel ty sz dg ident role at cs"
  note here = FileManifestEntry.prems(1) [unfolded FileManifestEntry_ValidateAction_iff [of d ?e]
      FileManifestEntry_Validate_iff [of ?e]]
  show ?case
  proof (cases "x = ?e")
    case True
    with here show ?thesis by auto
  next
    case False
    with FileManifestEntry.prems(2) obtain c where c: "c \<in> set cs" "x \<in> set (manifest_members c)"
      by auto
    with here have "FileManifestEntry_ValidateAction d c = None"
      by (cases "cs = []") auto
    from FileManifestEntry.IH [OF c(1) this c(2)] show ?thesis .
  qed
qed

text \<open>
  A manifest accepted for an action is an exact tree. Every entry below it is in the same
  root and strictly below its path, every path is an accepted root-relative path and occurs once,
  every object has identity evidence, every directory lists its children and, when the action
  copies content, every other object has a strong digest.
\<close>

theorem accepted_manifest_is_exact:
  assumes "FileManifestEntry_ValidateAction requireDigest e = None"
  shows "distinct (map fm_relative_path (manifest_members e))
    \<and> (\<forall>d\<in>set (manifest_descendants e).
         fm_root_id d = fm_root_id e \<and> has_prefix (fm_relative_path e @ ''/'') (fm_relative_path d))
    \<and> (\<forall>d\<in>set (manifest_members e). ValidateRelativePath (fm_relative_path d) = None
         \<and> \<not> blank (fm_file_identity d)
         \<and> (fm_type d = ManifestDirectory \<longleftrightarrow> fm_children d \<noteq> [])
         \<and> (requireDigest \<and> fm_type d \<noteq> ManifestDirectory \<longrightarrow> strongDigest (fm_digest d)))"
proof -
  from assms have v: "FileManifestEntry_Validate e = None"
    by (simp add: FileManifestEntry_ValidateAction_iff [of _ e])
  have "ValidateRelativePath (fm_relative_path d) = None" if "d \<in> set (manifest_members e)" for d
  proof -
    from that v have "FileManifestEntry_Validate d = None"
      by (auto simp: manifest_members_eq dest: valid_descendants)
    then show ?thesis by (simp add: FileManifestEntry_Validate_iff [of d])
  qed
  with valid_members_distinct [OF v] valid_descendants [OF v] action_members [OF assms]
  show ?thesis by auto
qed

text \<open>A season directory with one episode and its subtitle.\<close>

definition example_season :: file_manifest_entry where
  "example_season =
     FileManifestEntry ''tv'' ''s1'' ManifestDirectory 0 [] ''i1'' (ManifestRoleOther []) 5
       [FileManifestEntry ''tv'' ''s1/e1.mkv'' ManifestFile 7 [] ''i2'' RoleVideo 5 [],
        FileManifestEntry ''tv'' ''s1/e1.srt'' ManifestSubtitle 2 [] ''i3'' RoleSubtitle 5 []]"

lemma example_season_accepted: "FileManifestEntry_ValidateAction False example_season = None"
proof -
  have i: "ConfigID_Valid ''tv''"
    by (simp add: ConfigID_Valid_iff isConfigIDEdge_def isConfigIDChar_def)
  have p: "ValidateRelativePath ''s1'' = None" "ValidateRelativePath ''s1/e1.mkv'' = None"
    "ValidateRelativePath ''s1/e1.srt'' = None"
    by (simp_all add: ValidateRelativePath_iff unsafe_component_def)
  have b: "trim_space ''i1'' = ''i1''" "trim_space ''i2'' = ''i2''" "trim_space ''i3'' = ''i3''"
    by (simp_all add: trim_space_plain plain_char_def)
  show ?thesis
    unfolding example_season_def
    by (simp add: FileTarget_Validate_def i p b manifest_role_supported_def has_prefix_def
        manifestEntriesOverlap_def time_is_zero_def)
qed

theorem accepted_manifest_is_exact_witness:
  "distinct (map fm_relative_path (manifest_members example_season))
     \<and> length (manifest_members example_season) = 3"
  using accepted_manifest_is_exact [OF example_season_accepted]
  by (simp add: example_season_def)

end
