(* ===== verification/Observations.thy ===== *)
theory Observations
  imports Paths
begin

text \<open>
  Observation values (\<^verbatim>\<open>internal/domain/observations.go\<close>): configuration source metadata, coverage
  of a snapshot, capabilities, tracking facts, download provenance and normalized upstream errors,
  each with the checks its \<open>Validate\<close> method makes, in the code's order. Completeness is ordered by
  the strength of the evidence, so that "evidence is never upgraded" can be stated as \<open>\<le>\<close>.
\<close>

section \<open>Source metadata\<close>

datatype media_kind = MediaMovie | MediaEpisode | MediaSeason | MediaAnime | MediaKindOther string

datatype config_source = SourceYAML | SourceAPI | SourceOther string

datatype reload_policy = ReloadOnRestart | ReloadPolicyOther string

record source_metadata =
  sm_source :: config_source
  sm_editable :: bool
  sm_document_id :: string
  sm_revision :: string
  sm_startup_at :: time
  sm_reload_policy :: reload_policy

datatype source_error =
    SourceNotYAMLOrAPI | YAMLReadOnly | APIMustBeEditable | SourceNoDocumentID
  | SourceNoRevision | SourceNoStartup | UnsupportedReloadPolicy

definition SourceMetadata_Validate :: "source_metadata \<Rightarrow> source_error option" where
  "SourceMetadata_Validate m =
     (if sm_source m \<noteq> SourceYAML \<and> sm_source m \<noteq> SourceAPI then Some SourceNotYAMLOrAPI
      else if sm_source m = SourceYAML \<and> sm_editable m then Some YAMLReadOnly
      else if sm_source m = SourceAPI \<and> \<not> sm_editable m then Some APIMustBeEditable
      else if blank (sm_document_id m) then Some SourceNoDocumentID
      else if blank (sm_revision m) then Some SourceNoRevision
      else if time_is_zero (sm_startup_at m) then Some SourceNoStartup
      else if sm_reload_policy m \<noteq> ReloadOnRestart then Some UnsupportedReloadPolicy
      else None)"

section \<open>Coverage\<close>

datatype completeness =
    CompletenessComplete | CompletenessPartial | CompletenessUnknown | CompletenessOther string

abbreviation completeness_empty :: completeness where
  "completeness_empty \<equiv> CompletenessOther []"

text \<open>The strength of the evidence: a text outside the vocabulary is weaker than all of it.\<close>

fun completeness_rank :: "completeness \<Rightarrow> nat \<times> string" where
  "completeness_rank CompletenessComplete = (3, [])"
| "completeness_rank CompletenessPartial = (2, [])"
| "completeness_rank CompletenessUnknown = (1, [])"
| "completeness_rank (CompletenessOther s) = (0, s)"

lemma completeness_rank_inj: "completeness_rank a = completeness_rank b \<Longrightarrow> a = b"
  by (cases a; cases b) auto

instantiation completeness :: linorder
begin

definition less_eq_completeness :: "completeness \<Rightarrow> completeness \<Rightarrow> bool" where
  "a \<le> b \<longleftrightarrow> fst (completeness_rank a) < fst (completeness_rank b)
     \<or> fst (completeness_rank a) = fst (completeness_rank b) \<and> snd (completeness_rank a) \<le> snd (completeness_rank b)"

definition less_completeness :: "completeness \<Rightarrow> completeness \<Rightarrow> bool" where
  "a < b \<longleftrightarrow> a \<le> b \<and> \<not> b \<le> (a :: completeness)"

instance
proof
  fix x y z :: completeness
  show "x < y \<longleftrightarrow> x \<le> y \<and> \<not> y \<le> x" by (simp add: less_completeness_def)
  show "x \<le> x" by (simp add: less_eq_completeness_def)
  show "x \<le> y \<Longrightarrow> y \<le> z \<Longrightarrow> x \<le> z" by (auto simp: less_eq_completeness_def)
  show "x \<le> y \<Longrightarrow> y \<le> x \<Longrightarrow> x = y"
    by (auto simp: less_eq_completeness_def intro!: completeness_rank_inj prod_eqI)
  show "x \<le> y \<or> y \<le> x" by (auto simp: less_eq_completeness_def)
qed

end

lemma completeness_top [simp]: "x \<le> CompletenessComplete"
  by (cases x) (auto simp: less_eq_completeness_def)

lemma complete_le_iff [simp]: "CompletenessComplete \<le> x \<longleftrightarrow> x = CompletenessComplete"
  by (cases x) (auto simp: less_eq_completeness_def)

lemma partial_le_iff [simp]:
  "CompletenessPartial \<le> x \<longleftrightarrow> x = CompletenessPartial \<or> x = CompletenessComplete"
  by (cases x) (auto simp: less_eq_completeness_def)

lemma unknown_le_iff [simp]:
  "CompletenessUnknown \<le> x \<longleftrightarrow> (\<forall>s. x \<noteq> CompletenessOther s)"
  by (cases x) (auto simp: less_eq_completeness_def)

record coverage =
  cov_source_id :: runtime_id
  cov_connection_id :: config_id
  cov_root_id :: config_id
  cov_completeness :: completeness
  cov_reason_codes :: "string list"
  cov_observed_count :: int
  cov_snapshot_revision :: string
  cov_started_at :: "time option"
  cov_completed_at :: "time option"
  cov_observed_at :: time

datatype coverage_error =
    UnsupportedCompleteness | CoverageNegativeCount | CoverageNoObservedTime
  | CoverageCompletedBeforeStart | CoverageCompletedAfterObservation
  | CoverageInvalidConnectionID | CoverageInvalidRootID | CoverageInvalidSourceID

fun completeness_supported :: "completeness \<Rightarrow> bool" where
  "completeness_supported (CompletenessOther _) = False"
| "completeness_supported _ = True"

text \<open>A check on two optional times, made only when both are present.\<close>

fun both_times :: "(time \<Rightarrow> time \<Rightarrow> bool) \<Rightarrow> time option \<Rightarrow> time option \<Rightarrow> bool" where
  "both_times P (Some a) (Some b) = P a b"
| "both_times P _ _ = False"

fun some_time :: "(time \<Rightarrow> bool) \<Rightarrow> time option \<Rightarrow> bool" where
  "some_time P None = False"
| "some_time P (Some t) = P t"

lemma both_times_iff: "both_times P a b \<longleftrightarrow> (\<exists>x y. a = Some x \<and> b = Some y \<and> P x y)"
  by (cases a; cases b) auto

lemma some_time_iff: "some_time P a \<longleftrightarrow> (\<exists>x. a = Some x \<and> P x)"
  by (cases a) auto

definition Coverage_Validate :: "coverage \<Rightarrow> coverage_error option" where
  "Coverage_Validate c =
     (if \<not> completeness_supported (cov_completeness c) then Some UnsupportedCompleteness
      else if cov_observed_count c < 0 then Some CoverageNegativeCount
      else if time_is_zero (cov_observed_at c) then Some CoverageNoObservedTime
      else if both_times (\<lambda>started completed. time_before completed started)
                (cov_started_at c) (cov_completed_at c) then Some CoverageCompletedBeforeStart
      else if some_time (\<lambda>completed. time_after completed (cov_observed_at c)) (cov_completed_at c)
        then Some CoverageCompletedAfterObservation
      else if cov_connection_id c \<noteq> [] \<and> \<not> ConfigID_Valid (cov_connection_id c)
        then Some CoverageInvalidConnectionID
      else if cov_root_id c \<noteq> [] \<and> \<not> ConfigID_Valid (cov_root_id c) then Some CoverageInvalidRootID
      else if cov_source_id c \<noteq> [] \<and> \<not> RuntimeID_Valid (cov_source_id c)
        then Some CoverageInvalidSourceID
      else None)"

lemma completeness_supported_iff: "completeness_supported c \<longleftrightarrow> (\<forall>s. c \<noteq> CompletenessOther s)"
  by (cases c) auto

lemma Coverage_Validate_iff [valid_simps]:
  "Coverage_Validate c = None \<longleftrightarrow>
     completeness_supported (cov_completeness c) \<and> 0 \<le> cov_observed_count c
     \<and> \<not> time_is_zero (cov_observed_at c)
     \<and> (\<forall>s t. cov_started_at c = Some s \<longrightarrow> cov_completed_at c = Some t \<longrightarrow> s \<le> t)
     \<and> (\<forall>t. cov_completed_at c = Some t \<longrightarrow> t \<le> cov_observed_at c)
     \<and> (cov_connection_id c = [] \<or> ConfigID_Valid (cov_connection_id c))
     \<and> (cov_root_id c = [] \<or> ConfigID_Valid (cov_root_id c))
     \<and> (cov_source_id c = [] \<or> RuntimeID_Valid (cov_source_id c))"
  unfolding Coverage_Validate_def err_simps both_times_iff some_time_iff
  by (auto simp: not_less)

section \<open>Capabilities\<close>

datatype capability_state =
    CapabilitySupported | CapabilityUnsupported | CapabilityUnknown | CapabilityStateOther string

record capability =
  cap_name :: string
  cap_state :: capability_state
  cap_version :: string
  cap_reason :: string
  cap_evidence :: "string list"
  cap_observed_at :: time

datatype capability_error = CapabilityNoName | CapabilityBadState | CapabilityNoTime

fun capability_state_supported :: "capability_state \<Rightarrow> bool" where
  "capability_state_supported (CapabilityStateOther _) = False"
| "capability_state_supported _ = True"

definition Capability_Validate :: "capability \<Rightarrow> capability_error option" where
  "Capability_Validate c =
     (if blank (cap_name c) then Some CapabilityNoName
      else if \<not> capability_state_supported (cap_state c) then Some CapabilityBadState
      else if time_is_zero (cap_observed_at c) then Some CapabilityNoTime
      else None)"

section \<open>Tracking observations\<close>

datatype tracking_dimension =
    TrackingRegistration | TrackingImport | TrackingAvailability | TrackingRequest
  | TrackingDimensionOther string

datatype tracking_value = TrackingPresent | TrackingAbsent | TrackingUnknown | TrackingValueOther string

record tracking_observation =
  to_connection_id :: config_id
  to_dimension :: tracking_dimension
  to_value :: tracking_value
  to_external_id :: string
  to_provider_id :: string
  to_observed_at :: time
  to_coverage_id :: runtime_id
  to_coverage :: "coverage option"
  to_coverage_max_age :: duration
  to_evidence :: "string list"

datatype tracking_error =
    TrackingInvalidConnectionID | UnsupportedTrackingDimension | UnsupportedTrackingValue
  | TrackingNoObservationTime | TrackingInvalidCoverageID | TrackingCoverage coverage_error
  | TrackingCoverageIDMismatch | TrackingCoverageOtherConnection | TrackingCoverageNewer
  | AbsentNoCoverageProof | AbsentNotComplete | AbsentNotCompletedFresh | AbsentNoFreshnessBound
  | AbsentStale

fun tracking_dimension_supported :: "tracking_dimension \<Rightarrow> bool" where
  "tracking_dimension_supported (TrackingDimensionOther _) = False"
| "tracking_dimension_supported _ = True"

fun tracking_value_supported :: "tracking_value \<Rightarrow> bool" where
  "tracking_value_supported (TrackingValueOther _) = False"
| "tracking_value_supported _ = True"

text \<open>The checks on a coverage record that is present, then those an absence claim adds.\<close>

definition tracking_coverage_check :: "tracking_observation \<Rightarrow> coverage \<Rightarrow> tracking_error option" where
  "tracking_coverage_check ob c =
     (case Coverage_Validate c of
        Some e \<Rightarrow> Some (TrackingCoverage e)
      | None \<Rightarrow>
          if to_coverage_id ob = [] \<or> cov_source_id c \<noteq> to_coverage_id ob
          then Some TrackingCoverageIDMismatch
          else if cov_connection_id c \<noteq> to_connection_id ob then Some TrackingCoverageOtherConnection
          else if time_after (cov_observed_at c) (to_observed_at ob) then Some TrackingCoverageNewer
          else None)"

definition tracking_absence_check :: "tracking_observation \<Rightarrow> tracking_error option" where
  "tracking_absence_check ob =
     (case to_coverage ob of
        None \<Rightarrow> Some AbsentNoCoverageProof
      | Some c \<Rightarrow>
          if to_coverage_id ob = [] then Some AbsentNoCoverageProof
          else if cov_completeness c \<noteq> CompletenessComplete then Some AbsentNotComplete
          else if (case cov_completed_at c of
                     None \<Rightarrow> True | Some t \<Rightarrow> time_after t (to_observed_at ob))
            then Some AbsentNotCompletedFresh
          else if to_coverage_max_age ob \<le> 0 then Some AbsentNoFreshnessBound
          else
            let age = time_sub (to_observed_at ob) (cov_observed_at c) in
            if age < 0 \<or> to_coverage_max_age ob < age then Some AbsentStale
            else None)"

definition TrackingObservation_Validate :: "tracking_observation \<Rightarrow> tracking_error option" where
  "TrackingObservation_Validate ob =
     (if \<not> ConfigID_Valid (to_connection_id ob) then Some TrackingInvalidConnectionID
      else if \<not> tracking_dimension_supported (to_dimension ob) then Some UnsupportedTrackingDimension
      else if \<not> tracking_value_supported (to_value ob) then Some UnsupportedTrackingValue
      else if time_is_zero (to_observed_at ob) then Some TrackingNoObservationTime
      else if to_coverage_id ob \<noteq> [] \<and> \<not> RuntimeID_Valid (to_coverage_id ob)
        then Some TrackingInvalidCoverageID
      else case (case to_coverage ob of None \<Rightarrow> None | Some c \<Rightarrow> tracking_coverage_check ob c) of
          Some e \<Rightarrow> Some e
        | None \<Rightarrow> if to_value ob = TrackingAbsent then tracking_absence_check ob else None)"

text \<open>What an observation must carry to say "absent".\<close>

definition absence_proof :: "tracking_observation \<Rightarrow> coverage \<Rightarrow> bool" where
  "absence_proof ob c \<longleftrightarrow>
     to_coverage ob = Some c \<and> Coverage_Validate c = None
     \<and> cov_completeness c = CompletenessComplete
     \<and> cov_connection_id c = to_connection_id ob \<and> cov_source_id c = to_coverage_id ob
     \<and> RuntimeID_Valid (to_coverage_id ob)
     \<and> (\<exists>t. cov_completed_at c = Some t \<and> t \<le> cov_observed_at c)
     \<and> cov_observed_at c \<le> to_observed_at ob
     \<and> 0 < to_coverage_max_age ob
     \<and> time_sub (to_observed_at ob) (cov_observed_at c) \<le> to_coverage_max_age ob"

lemma tracking_coverage_check_iff:
  "tracking_coverage_check ob c = None \<longleftrightarrow>
     Coverage_Validate c = None \<and> to_coverage_id ob \<noteq> [] \<and> cov_source_id c = to_coverage_id ob
     \<and> cov_connection_id c = to_connection_id ob \<and> cov_observed_at c \<le> to_observed_at ob"
  unfolding tracking_coverage_check_def err_simps by (auto simp: not_less)

lemma tracking_absence_check_iff:
  "tracking_absence_check ob = None \<longleftrightarrow>
     (\<exists>c. to_coverage ob = Some c \<and> to_coverage_id ob \<noteq> [] \<and> cov_completeness c = CompletenessComplete
        \<and> (\<exists>t. cov_completed_at c = Some t \<and> t \<le> to_observed_at ob) \<and> 0 < to_coverage_max_age ob
        \<and> 0 \<le> time_sub (to_observed_at ob) (cov_observed_at c)
        \<and> time_sub (to_observed_at ob) (cov_observed_at c) \<le> to_coverage_max_age ob)"
proof (cases "to_coverage ob")
  case None
  then show ?thesis by (simp add: tracking_absence_check_def)
next
  case (Some c)
  show ?thesis
    unfolding tracking_absence_check_def Some Let_def option.case err_simps
    by (auto simp: not_less not_le split: option.splits)
qed

lemma TrackingObservation_Validate_iff [valid_simps]:
  "TrackingObservation_Validate ob = None \<longleftrightarrow>
     ConfigID_Valid (to_connection_id ob) \<and> tracking_dimension_supported (to_dimension ob)
     \<and> tracking_value_supported (to_value ob) \<and> \<not> time_is_zero (to_observed_at ob)
     \<and> (to_coverage_id ob = [] \<or> RuntimeID_Valid (to_coverage_id ob))
     \<and> (\<forall>c. to_coverage ob = Some c \<longrightarrow> tracking_coverage_check ob c = None)
     \<and> (to_value ob = TrackingAbsent \<longrightarrow> tracking_absence_check ob = None)"
  unfolding TrackingObservation_Validate_def
  by (auto simp: err_simps split: option.splits)

lemma absence_has_proof:
  assumes "TrackingObservation_Validate ob = None" and "to_value ob = TrackingAbsent"
  shows "\<exists>c. absence_proof ob c"
proof -
  from assms obtain c where c: "to_coverage ob = Some c" "tracking_coverage_check ob c = None"
    and a: "tracking_absence_check ob = None" "to_coverage_id ob = [] \<or> RuntimeID_Valid (to_coverage_id ob)"
    by (auto simp: TrackingObservation_Validate_iff tracking_absence_check_iff)
  then have "absence_proof ob c"
    by (auto simp: absence_proof_def tracking_coverage_check_iff tracking_absence_check_iff
        Coverage_Validate_iff)
  then show ?thesis ..
qed

text \<open>
  A validated observation may claim absence only with a proof: a valid, complete coverage
  record of the same connection and coverage id, completed no later than the observation, not
  newer than it, and no older than the positive freshness bound the observation carries.
\<close>

theorem absent_needs_complete_coverage:
  assumes "TrackingObservation_Validate ob = None" and "to_value ob = TrackingAbsent"
  shows "\<exists>c. absence_proof ob c"
  using assms by (rule absence_has_proof)

text \<open>An absence claim that validates: a complete listing that ended two seconds before it.\<close>

definition ex_absence :: tracking_observation where
  "ex_absence =
     (let listing = \<lparr>cov_source_id = ''00010203-0405-4607-8809-0a0b0c0d0e0f'', cov_connection_id = ''sonarr'',
        cov_root_id = [], cov_completeness = CompletenessComplete, cov_reason_codes = [], cov_observed_count = 3,
        cov_snapshot_revision = [], cov_started_at = Some 5, cov_completed_at = Some 8, cov_observed_at = 8\<rparr> in
      \<lparr>to_connection_id = ''sonarr'', to_dimension = TrackingRegistration, to_value = TrackingAbsent,
       to_external_id = [], to_provider_id = [], to_observed_at = 10, to_coverage_id = cov_source_id listing,
       to_coverage = Some listing, to_coverage_max_age = 60, to_evidence = []\<rparr>)"

theorem absent_needs_complete_coverage_witness:
  "\<exists>c. absence_proof ex_absence c \<and> to_value ex_absence = TrackingAbsent"
proof -
  have "TrackingObservation_Validate ex_absence = None" "to_value ex_absence = TrackingAbsent" by code_simp+
  from absent_needs_complete_coverage[OF this] this(2) show ?thesis by blast
qed

section \<open>Readiness, provenance and upstream errors\<close>

datatype readiness =
    ReadinessReady | ReadinessDownloading | ReadinessProcessing | ReadinessChanging
  | ReadinessUnsupported | ReadinessUnknown | ReadinessOther string

record provenance =
  pv_connection_id :: config_id
  pv_client_item_id :: string
  pv_hash :: string
  pv_completed_at :: "time option"
  pv_descriptor_id :: runtime_id
  pv_source_path :: "file_target option"

datatype provenance_error =
    ProvenanceNeedsConnection | ProvenanceInvalidConnectionID | ProvenanceInvalidDescriptorID
  | ProvenanceSourcePath target_error

definition Provenance_Validate :: "provenance \<Rightarrow> provenance_error option" where
  "Provenance_Validate p =
     (if (\<not> blank (pv_client_item_id p) \<or> \<not> blank (pv_hash p)) \<and> \<not> ConfigID_Valid (pv_connection_id p)
      then Some ProvenanceNeedsConnection
      else if pv_connection_id p \<noteq> [] \<and> \<not> ConfigID_Valid (pv_connection_id p)
        then Some ProvenanceInvalidConnectionID
      else if pv_descriptor_id p \<noteq> [] \<and> \<not> RuntimeID_Valid (pv_descriptor_id p)
        then Some ProvenanceInvalidDescriptorID
      else case pv_source_path p of
          None \<Rightarrow> None
        | Some t \<Rightarrow> (case FileTarget_Validate t of Some e \<Rightarrow> Some (ProvenanceSourcePath e) | None \<Rightarrow> None))"

datatype upstream_error_code =
    OutcomeUnavailable | OutcomeRateLimited | OutcomeUnauthorized | OutcomeInvalidInput
  | OutcomeConflict | OutcomeUnsupported | OutcomeUnknown | UpstreamErrorCodeOther string

record upstream_error =
  ue_code :: upstream_error_code
  ue_status :: int
  ue_retryable :: bool
  ue_operation :: string
  ue_upstream_id :: string
  ue_detail :: string

fun upstream_code_text :: "upstream_error_code \<Rightarrow> string" where
  "upstream_code_text OutcomeUnavailable = ''unavailable''"
| "upstream_code_text OutcomeRateLimited = ''rate_limited''"
| "upstream_code_text OutcomeUnauthorized = ''unauthorized''"
| "upstream_code_text OutcomeInvalidInput = ''invalid_input''"
| "upstream_code_text OutcomeConflict = ''conflict''"
| "upstream_code_text OutcomeUnsupported = ''unsupported''"
| "upstream_code_text OutcomeUnknown = ''outcome_unknown''"
| "upstream_code_text (UpstreamErrorCodeOther s) = s"

definition UpstreamError_Error :: "upstream_error \<Rightarrow> string" where
  "UpstreamError_Error e =
     (if ue_detail e = [] then upstream_code_text (ue_code e)
      else upstream_code_text (ue_code e) @ '': '' @ ue_detail e)"

datatype upstream_validation_error = UnsupportedUpstreamCode | UpstreamStatusRange

fun upstream_code_supported :: "upstream_error_code \<Rightarrow> bool" where
  "upstream_code_supported (UpstreamErrorCodeOther _) = False"
| "upstream_code_supported _ = True"

definition UpstreamError_Validate :: "upstream_error \<Rightarrow> upstream_validation_error option" where
  "UpstreamError_Validate e =
     (if \<not> upstream_code_supported (ue_code e) then Some UnsupportedUpstreamCode
      else if ue_status e < 0 \<or> 599 < ue_status e then Some UpstreamStatusRange
      else None)"

end
