(* ===== verification/Configuration.thy ===== *)
theory Configuration
  imports Observations
begin

text \<open>
  Configuration values (\<^verbatim>\<open>internal/domain/configuration.go\<close>): credential references, connections,
  storage roots with their watch settings, path mappings and the snapshot that contains them. The
  host is a Unix one, where \<open>filepath.IsAbs\<close> asks for a leading slash. The endpoint is parsed by
  \<open>net/url\<close>: the parser is an argument of the checks, which use of its result the scheme, the host
  and the presence of user information. A credential map is the list of its entries in the order
  one iteration visits them; the properties hold for every order.
\<close>

datatype storage_purpose =
    StorageDownload | StorageLibrary | StorageDescriptor | StorageTrash | StoragePurposeOther string

record credential_reference =
  cr_kind :: string
  cr_value :: string

definition CredentialFromEnvironment :: string where
  "CredentialFromEnvironment = ''env''"

definition CredentialFromFile :: string where
  "CredentialFromFile = ''file''"

datatype credential_error = CredentialKind | CredentialNoValue | CredentialNotAbsolute

definition filepath_is_abs :: "string \<Rightarrow> bool" where
  "filepath_is_abs p = has_prefix ''/'' p"

definition CredentialReference_Validate :: "credential_reference \<Rightarrow> credential_error option" where
  "CredentialReference_Validate r =
     (if cr_kind r \<noteq> CredentialFromEnvironment \<and> cr_kind r \<noteq> CredentialFromFile then Some CredentialKind
      else if blank (cr_value r) then Some CredentialNoValue
      else if cr_kind r = CredentialFromFile \<and> \<not> filepath_is_abs (cr_value r) then Some CredentialNotAbsolute
      else None)"

datatype connection_kind =
    ConnectionQBittorrent | ConnectionNZBGet | ConnectionRadarr | ConnectionSonarr
  | ConnectionJellyfin | ConnectionSeerr | ConnectionKindOther string

record connection =
  cn_id :: config_id
  cn_kind :: connection_kind
  cn_label :: string
  cn_endpoint :: string
  cn_source :: source_metadata
  cn_revision :: string
  cn_credentials :: "(string \<times> credential_reference) list"
  cn_retired_at :: "time option"

record parsed_url =
  url_scheme :: string
  url_host :: string
  url_user :: "string option"

type_synonym url_parser = "string \<Rightarrow> parsed_url option"

datatype connection_error =
    ConnectionInvalidID | UnsupportedConnectionKind | ConnectionNoLabel | ConnectionEndpoint
  | ConnectionNoRevision | ConnectionCredentialName | ConnectionCredential credential_error
  | ConnectionSource source_error

fun connection_kind_supported :: "connection_kind \<Rightarrow> bool" where
  "connection_kind_supported (ConnectionKindOther _) = False"
| "connection_kind_supported _ = True"

definition endpoint_refused :: "url_parser \<Rightarrow> string \<Rightarrow> bool" where
  "endpoint_refused parse endpoint =
     (case parse endpoint of
        None \<Rightarrow> True
      | Some u \<Rightarrow> url_scheme u \<noteq> ''http'' \<and> url_scheme u \<noteq> ''https'' \<or> url_host u = [] \<or> url_user u \<noteq> None)"

fun credentials_check :: "(string \<times> credential_reference) list \<Rightarrow> connection_error option" where
  "credentials_check [] = None"
| "credentials_check ((name, reference) # rest) =
     (if blank name then Some ConnectionCredentialName
      else case CredentialReference_Validate reference of
          Some e \<Rightarrow> Some (ConnectionCredential e)
        | None \<Rightarrow> credentials_check rest)"

definition Connection_Validate :: "url_parser \<Rightarrow> connection \<Rightarrow> connection_error option" where
  "Connection_Validate parse c =
     (if \<not> ConfigID_Valid (cn_id c) then Some ConnectionInvalidID
      else if \<not> connection_kind_supported (cn_kind c) then Some UnsupportedConnectionKind
      else if blank (cn_label c) then Some ConnectionNoLabel
      else if endpoint_refused parse (cn_endpoint c) then Some ConnectionEndpoint
      else if blank (cn_revision c) then Some ConnectionNoRevision
      else case credentials_check (cn_credentials c) of
          Some e \<Rightarrow> Some e
        | None \<Rightarrow> map_option ConnectionSource (SourceMetadata_Validate (cn_source c)))"

record watch_settings =
  ws_enabled :: bool
  ws_interval :: duration

record storage_root =
  sr_id :: config_id
  sr_label :: string
  sr_purpose :: storage_purpose
  sr_path :: string
  sr_source :: source_metadata
  sr_revision :: string
  sr_read_only :: bool
  sr_capabilities :: "capability list"
  sr_watch :: watch_settings
  sr_retired_at :: "time option"

datatype storage_root_error =
    RootInvalidID | RootLabelAndPath | RootPurpose | RootWatchInterval | RootSource source_error

fun storage_purpose_supported :: "storage_purpose \<Rightarrow> bool" where
  "storage_purpose_supported (StoragePurposeOther _) = False"
| "storage_purpose_supported _ = True"

definition StorageRoot_Validate :: "storage_root \<Rightarrow> storage_root_error option" where
  "StorageRoot_Validate r =
     (if \<not> ConfigID_Valid (sr_id r) then Some RootInvalidID
      else if blank (sr_label r) \<or> blank (sr_path r) \<or> \<not> filepath_is_abs (sr_path r) then Some RootLabelAndPath
      else if \<not> storage_purpose_supported (sr_purpose r) then Some RootPurpose
      else if ws_enabled (sr_watch r) \<and> ws_interval (sr_watch r) < 30 * second then Some RootWatchInterval
      else map_option RootSource (SourceMetadata_Validate (sr_source r)))"

record path_mapping =
  pm_id :: config_id
  pm_connection_id :: config_id
  pm_source_prefix :: string
  pm_root_id :: config_id
  pm_destination_prefix :: string
  pm_source :: source_metadata
  pm_revision :: string

datatype path_mapping_error = MappingReference | MappingNoRevision | MappingSource source_error

definition PathMapping_Validate :: "path_mapping \<Rightarrow> path_mapping_error option" where
  "PathMapping_Validate m =
     (if \<not> ConfigID_Valid (pm_id m) \<or> \<not> ConfigID_Valid (pm_connection_id m) \<or> \<not> ConfigID_Valid (pm_root_id m)
      then Some MappingReference
      else if blank (pm_revision m) then Some MappingNoRevision
      else map_option MappingSource (SourceMetadata_Validate (pm_source m)))"

section \<open>The configuration snapshot\<close>

record configuration_snapshot =
  cs_source :: source_metadata
  cs_connections :: "connection list"
  cs_storage_roots :: "storage_root list"
  cs_path_mappings :: "path_mapping list"
  cs_key_source :: string
  cs_key_path :: string
  cs_restart_required :: bool

datatype configuration_error =
    SnapshotSource source_error | SnapshotConnection connection_error | DuplicateConnection
  | SnapshotRoot storage_root_error | DuplicateStorageRoot | SnapshotMapping path_mapping_error
  | MappingUnknownConnection | MappingUnknownRoot | DuplicateMapping

fun connections_check :: "url_parser \<Rightarrow> config_id list \<Rightarrow> connection list \<Rightarrow> configuration_error option" where
  "connections_check parse seen [] = None"
| "connections_check parse seen (c # cs) =
     (case Connection_Validate parse c of
        Some e \<Rightarrow> Some (SnapshotConnection e)
      | None \<Rightarrow> if List.member seen (cn_id c) then Some DuplicateConnection
                else connections_check parse (cn_id c # seen) cs)"

fun storage_roots_check :: "config_id list \<Rightarrow> storage_root list \<Rightarrow> configuration_error option" where
  "storage_roots_check seen [] = None"
| "storage_roots_check seen (r # rs) =
     (case StorageRoot_Validate r of
        Some e \<Rightarrow> Some (SnapshotRoot e)
      | None \<Rightarrow> if List.member seen (sr_id r) then Some DuplicateStorageRoot
                else storage_roots_check (sr_id r # seen) rs)"

fun mappings_check ::
  "config_id list \<Rightarrow> config_id list \<Rightarrow> config_id list \<Rightarrow> path_mapping list \<Rightarrow> configuration_error option" where
  "mappings_check connections roots seen [] = None"
| "mappings_check connections roots seen (m # ms) =
     (case PathMapping_Validate m of
        Some e \<Rightarrow> Some (SnapshotMapping e)
      | None \<Rightarrow>
          if \<not> List.member connections (pm_connection_id m) then Some MappingUnknownConnection
          else if \<not> List.member roots (pm_root_id m) then Some MappingUnknownRoot
          else if List.member seen (pm_id m) then Some DuplicateMapping
          else mappings_check connections roots (pm_id m # seen) ms)"

definition ConfigurationSnapshot_Validate :: "url_parser \<Rightarrow> configuration_snapshot \<Rightarrow> configuration_error option" where
  "ConfigurationSnapshot_Validate parse s =
     (case SourceMetadata_Validate (cs_source s) of
        Some e \<Rightarrow> Some (SnapshotSource e)
      | None \<Rightarrow>
          case connections_check parse [] (cs_connections s) of
            Some e \<Rightarrow> Some e
          | None \<Rightarrow>
              case storage_roots_check [] (cs_storage_roots s) of
                Some e \<Rightarrow> Some e
              | None \<Rightarrow> mappings_check (map cn_id (cs_connections s)) (map sr_id (cs_storage_roots s)) []
                          (cs_path_mappings s))"

section \<open>What an accepted configuration guarantees\<close>

lemma credentials_check_iff:
  "credentials_check cs = None \<longleftrightarrow>
     (\<forall>(name, reference)\<in>set cs. \<not> blank name \<and> CredentialReference_Validate reference = None)"
  by (induction cs rule: credentials_check.induct) (auto split: option.splits)

lemma connections_check_iff:
  "connections_check parse seen cs = None \<longleftrightarrow>
     list_all (\<lambda>c. Connection_Validate parse c = None) cs \<and> distinct (map cn_id cs)
     \<and> set (map cn_id cs) \<inter> set seen = {}"
  by (induction cs arbitrary: seen) (auto simp: split: option.splits)

lemma storage_roots_check_iff:
  "storage_roots_check seen rs = None \<longleftrightarrow>
     list_all (\<lambda>r. StorageRoot_Validate r = None) rs \<and> distinct (map sr_id rs)
     \<and> set (map sr_id rs) \<inter> set seen = {}"
  by (induction rs arbitrary: seen) (auto simp: split: option.splits)

lemma mappings_check_iff:
  "mappings_check connections roots seen ms = None \<longleftrightarrow>
     list_all (\<lambda>m. PathMapping_Validate m = None \<and> pm_connection_id m \<in> set connections
                  \<and> pm_root_id m \<in> set roots) ms
     \<and> distinct (map pm_id ms) \<and> set (map pm_id ms) \<inter> set seen = {}"
  by (induction ms arbitrary: seen) (auto simp: split: option.splits)

lemma ConfigurationSnapshot_Validate_iff:
  "ConfigurationSnapshot_Validate parse s = None \<longleftrightarrow>
     SourceMetadata_Validate (cs_source s) = None
     \<and> list_all (\<lambda>c. Connection_Validate parse c = None) (cs_connections s)
     \<and> list_all (\<lambda>r. StorageRoot_Validate r = None) (cs_storage_roots s)
     \<and> list_all (\<lambda>m. PathMapping_Validate m = None \<and> pm_connection_id m \<in> cn_id ` set (cs_connections s)
                  \<and> pm_root_id m \<in> sr_id ` set (cs_storage_roots s)) (cs_path_mappings s)
     \<and> distinct (map cn_id (cs_connections s)) \<and> distinct (map sr_id (cs_storage_roots s))
     \<and> distinct (map pm_id (cs_path_mappings s))"
  unfolding ConfigurationSnapshot_Validate_def
  using connections_check_iff[of parse "[]" "cs_connections s"] storage_roots_check_iff[of "[]" "cs_storage_roots s"]
    mappings_check_iff[of "map cn_id (cs_connections s)" "map sr_id (cs_storage_roots s)" "[]" "cs_path_mappings s"]
  by (auto split: option.splits)

lemma Connection_Validate_iff:
  "Connection_Validate parse c = None \<longleftrightarrow>
     ConfigID_Valid (cn_id c) \<and> connection_kind_supported (cn_kind c) \<and> \<not> blank (cn_label c)
     \<and> \<not> endpoint_refused parse (cn_endpoint c) \<and> \<not> blank (cn_revision c)
     \<and> credentials_check (cn_credentials c) = None \<and> SourceMetadata_Validate (cn_source c) = None"
  by (auto simp: Connection_Validate_def split: option.splits)

lemma distinct_map_ex1: "distinct (map f xs) \<Longrightarrow> y \<in> f ` set xs \<Longrightarrow> \<exists>!x. x \<in> set xs \<and> f x = y"
  by (auto simp: distinct_map inj_on_def)

text \<open>
  In an accepted configuration every id names one connection, one root or one mapping, every
  mapping joins a configured connection to a configured root, every endpoint is an http or https
  one without user information, every credential reference is well formed (a file reference is an
  absolute path), and an enabled watch has an interval of at least 30 seconds.
\<close>

theorem accepted_configuration_is_closed:
  assumes "ConfigurationSnapshot_Validate parse s = None"
  shows "distinct (map cn_id (cs_connections s)) \<and> distinct (map sr_id (cs_storage_roots s))
    \<and> distinct (map pm_id (cs_path_mappings s))
    \<and> (\<forall>m\<in>set (cs_path_mappings s). (\<exists>!c. c \<in> set (cs_connections s) \<and> cn_id c = pm_connection_id m)
          \<and> (\<exists>!r. r \<in> set (cs_storage_roots s) \<and> sr_id r = pm_root_id m))
    \<and> (\<forall>c\<in>set (cs_connections s). \<exists>u. parse (cn_endpoint c) = Some u
          \<and> url_scheme u \<in> {''http'', ''https''} \<and> url_host u \<noteq> [] \<and> url_user u = None)
    \<and> (\<forall>c\<in>set (cs_connections s). \<forall>(name, ref)\<in>set (cn_credentials c).
          \<not> blank name \<and> (cr_kind ref = ''env'' \<or> cr_kind ref = ''file'' \<and> hd (cr_value ref) = CHR ''/''))
    \<and> (\<forall>r\<in>set (cs_storage_roots s). ws_enabled (sr_watch r) \<longrightarrow> 30 * second \<le> ws_interval (sr_watch r))"
proof -
  note v = assms[unfolded ConfigurationSnapshot_Validate_iff list_all_iff]
  have conn: "\<exists>u. parse (cn_endpoint c) = Some u \<and> url_scheme u \<in> {''http'', ''https''} \<and> url_host u \<noteq> [] \<and> url_user u = None"
    if "c \<in> set (cs_connections s)" for c
    using v that by (auto simp: Connection_Validate_iff endpoint_refused_def split: option.splits)
  have cred: "\<not> blank n \<and> (cr_kind ref = ''env'' \<or> cr_kind ref = ''file'' \<and> hd (cr_value ref) = CHR ''/'')"
    if "c \<in> set (cs_connections s)" "(n, ref) \<in> set (cn_credentials c)" for c n ref
  proof -
    have "credentials_check (cn_credentials c) = None" using v that(1) by (simp add: Connection_Validate_iff)
    then have "\<not> blank n" "CredentialReference_Validate ref = None"
      using that(2) by (auto simp: credentials_check_iff)
    then show ?thesis
      by (cases "cr_value ref") (auto simp: CredentialReference_Validate_def CredentialFromEnvironment_def
          CredentialFromFile_def filepath_is_abs_def has_prefix_def split: if_splits)
  qed
  have watch: "30 * second \<le> ws_interval (sr_watch r)" if "r \<in> set (cs_storage_roots s)" "ws_enabled (sr_watch r)" for r
  proof -
    have "StorageRoot_Validate r = None" using v that(1) by simp
    then show ?thesis using that(2) by (auto simp: StorageRoot_Validate_def split: if_splits)
  qed
  have mapping: "(\<exists>!c. c \<in> set (cs_connections s) \<and> cn_id c = pm_connection_id m)
      \<and> (\<exists>!r. r \<in> set (cs_storage_roots s) \<and> sr_id r = pm_root_id m)" if "m \<in> set (cs_path_mappings s)" for m
    using v that distinct_map_ex1[of cn_id "cs_connections s"] distinct_map_ex1[of sr_id "cs_storage_roots s"] by simp
  show ?thesis using v mapping conn cred watch by (intro conjI ballI) (simp, simp, simp, blast+)
qed

definition ex_parse :: url_parser where
  "ex_parse endpoint =
     (if endpoint = ''http://tv'' then Some \<lparr>url_scheme = ''http'', url_host = ''tv'', url_user = None\<rparr> else None)"

definition ex_configuration :: configuration_snapshot where
  "ex_configuration =
     (let meta = \<lparr>sm_source = SourceYAML, sm_editable = False, sm_document_id = ''doc'', sm_revision = ''r'',
                  sm_startup_at = 5, sm_reload_policy = ReloadOnRestart\<rparr> in
      \<lparr>cs_source = meta,
       cs_connections = [\<lparr>cn_id = ''sonarr'', cn_kind = ConnectionSonarr, cn_label = ''TV'', cn_endpoint = ''http://tv'',
          cn_source = meta, cn_revision = ''r'',
          cn_credentials = [(''key'', \<lparr>cr_kind = ''file'', cr_value = ''/run/key''\<rparr>)], cn_retired_at = None\<rparr>],
       cs_storage_roots = [\<lparr>sr_id = ''tv'', sr_label = ''TV'', sr_purpose = StorageLibrary, sr_path = ''/tv'',
          sr_source = meta, sr_revision = ''r'', sr_read_only = False, sr_capabilities = [],
          sr_watch = \<lparr>ws_enabled = True, ws_interval = 30 * second\<rparr>, sr_retired_at = None\<rparr>],
       cs_path_mappings = [\<lparr>pm_id = ''m'', pm_connection_id = ''sonarr'', pm_source_prefix = ''/data'', pm_root_id = ''tv'',
          pm_destination_prefix = [], pm_source = meta, pm_revision = ''r''\<rparr>],
       cs_key_source = [], cs_key_path = [], cs_restart_required = False\<rparr>)"

theorem accepted_configuration_is_closed_witness:
  "\<exists>!c. c \<in> set (cs_connections ex_configuration) \<and> cn_id c = ''sonarr''"
proof -
  have "ConfigurationSnapshot_Validate ex_parse ex_configuration = None" by code_simp
  from accepted_configuration_is_closed[OF this]
  have "\<forall>m\<in>set (cs_path_mappings ex_configuration). \<exists>!c. c \<in> set (cs_connections ex_configuration) \<and> cn_id c = pm_connection_id m"
    by blast
  then show ?thesis by (simp add: ex_configuration_def Let_def)
qed

end
