(* ===== verification/Texts.thy ===== *)
theory Texts
  imports Manifest Observations Lifecycle
begin

text \<open>
  The text the code writes for its values: the constants of the string types
  (\<^verbatim>\<open>internal/domain/observations.go\<close>, \<^verbatim>\<open>internal/domain/actions.go\<close>) and
  \<open>time.RFC3339Nano\<close>. A constructor \<open>..Other s\<close> stands for a text \<open>s\<close> that is none of the
  constants.
\<close>

section \<open>Texts of the vocabularies\<close>

fun media_kind_text :: "media_kind \<Rightarrow> string" where
  "media_kind_text MediaMovie = ''movie''"
| "media_kind_text MediaEpisode = ''episode''"
| "media_kind_text MediaSeason = ''season''"
| "media_kind_text MediaAnime = ''anime''"
| "media_kind_text (MediaKindOther s) = s"

fun media_kind_supported :: "media_kind \<Rightarrow> bool" where
  "media_kind_supported (MediaKindOther _) = False"
| "media_kind_supported _ = True"

fun dimension_text :: "tracking_dimension \<Rightarrow> string" where
  "dimension_text TrackingRegistration = ''registration''"
| "dimension_text TrackingImport = ''import''"
| "dimension_text TrackingAvailability = ''availability''"
| "dimension_text TrackingRequest = ''request''"
| "dimension_text (TrackingDimensionOther s) = s"

fun value_text :: "tracking_value \<Rightarrow> string" where
  "value_text TrackingPresent = ''present''"
| "value_text TrackingAbsent = ''absent''"
| "value_text TrackingUnknown = ''unknown''"
| "value_text (TrackingValueOther s) = s"

fun capability_state_text :: "capability_state \<Rightarrow> string" where
  "capability_state_text CapabilitySupported = ''supported''"
| "capability_state_text CapabilityUnsupported = ''unsupported''"
| "capability_state_text CapabilityUnknown = ''unknown''"
| "capability_state_text (CapabilityStateOther s) = s"

fun manifest_type_text :: "manifest_entry_type \<Rightarrow> string" where
  "manifest_type_text ManifestFile = ''file''"
| "manifest_type_text ManifestDirectory = ''directory''"
| "manifest_type_text ManifestSubtitle = ''subtitle''"
| "manifest_type_text ManifestCompanion = ''companion''"
| "manifest_type_text (ManifestEntryTypeOther s) = s"

fun manifest_role_text :: "manifest_role \<Rightarrow> string" where
  "manifest_role_text RoleVideo = ''video''"
| "manifest_role_text RoleSubtitle = ''subtitle''"
| "manifest_role_text RoleCompanion = ''companion''"
| "manifest_role_text (ManifestRoleOther s) = s"

fun action_kind_text :: "action_kind \<Rightarrow> string" where
  "action_kind_text ActionArrRegistration = ''arr.registration''"
| "action_kind_text ActionArrImport = ''arr.import''"
| "action_kind_text ActionFSCopy = ''fs.copy''"
| "action_kind_text ActionFSHardlink = ''fs.hardlink''"
| "action_kind_text ActionFSMove = ''fs.move''"
| "action_kind_text ActionFSRename = ''fs.rename''"
| "action_kind_text ActionClientStop = ''client.stop''"
| "action_kind_text ActionClientRemove = ''client.remove''"
| "action_kind_text ActionFSTrash = ''fs.trash''"
| "action_kind_text ActionFSRestore = ''fs.restore''"
| "action_kind_text ActionFSDelete = ''fs.delete''"
| "action_kind_text ActionDescriptorDelete = ''descriptor.delete''"
| "action_kind_text ActionJellyfinRefresh = ''jellyfin.refresh''"
| "action_kind_text (ActionKindOther s) = s"

section \<open>Times as text\<close>

definition digit :: "int \<Rightarrow> char" where
  "digit n = ''0123456789'' ! nat n"

function decimal :: "int \<Rightarrow> string" where
  "decimal n = (if n < 10 then [digit n] else decimal (n div 10) @ [digit (n mod 10)])"
  by pat_completeness auto

termination by (relation "measure nat") auto

definition padded :: "nat \<Rightarrow> int \<Rightarrow> string" where
  "padded width n =
     (let ds = decimal \<bar>n\<bar> in
      (if n < 0 then ''-'' else []) @ replicate (width - length ds) CHR ''0'' @ ds)"

text \<open>The proleptic Gregorian date of a day counted from 1 January of the year 1.\<close>

definition civil_date :: "int \<Rightarrow> int \<times> int \<times> int" where
  "civil_date days =
     (let z = days + 306;
          era = z div 146097;
          doe = z mod 146097;
          yoe = (doe - doe div 1460 + doe div 36524 - doe div 146096) div 365;
          doy = doe - (365 * yoe + yoe div 4 - yoe div 100);
          mp = (5 * doy + 2) div 153;
          month = (if mp < 10 then mp + 3 else mp - 9)
      in (yoe + era * 400 + (if month \<le> 2 then 1 else 0), month, doy - (153 * mp + 2) div 5 + 1))"

text \<open>\<open>UTC().Format(time.RFC3339Nano)\<close>: the fraction loses its trailing zeros.\<close>

definition format_time :: "time \<Rightarrow> string" where
  "format_time t =
     (let secs = t div second;
          (y, m, d) = civil_date (secs div 86400);
          s = secs mod 86400;
          frac = rev (dropWhile (\<lambda>c. c = CHR ''0'') (rev (padded 9 (t mod second))))
      in padded 4 y @ ''-'' @ padded 2 m @ ''-'' @ padded 2 d @ ''T''
         @ padded 2 (s div 3600) @ '':'' @ padded 2 (s div 60 mod 60) @ '':'' @ padded 2 (s mod 60)
         @ (if frac = [] then [] else ''.'' @ frac) @ ''Z'')"

end
