(* ===== verification/Reconciliation.thy ===== *)
theory Reconciliation
  imports Texts "HOL-Library.Multiset"
begin

text \<open>
  Reconciliation of tracking observations (\<^verbatim>\<open>internal/reconciliation/reconciliation.go\<close>): records of
  several upstream instances are grouped by media identity, and each group is summarized per
  connection and tracking dimension.

  A Go map is a list of its entries in insertion order; wherever the code ranges over a map, the
  order the runtime chooses is an argument of the model (\<open>go_order\<close>). \<open>sort.Slice\<close> is not stable:
  its result is the stable sort of some permutation of the slice, and that permutation is an
  argument too. The clone functions copy values that are shared by reference in Go and are the
  identity on the values of the model.
\<close>

section \<open>Identities and records\<close>

record media_identity =
  mi_kind :: media_kind
  mi_provider_id :: string

text \<open>
  Errors keep the position and the values their text shows; \<open>error_class\<close> is the sentinel that
  \<open>errors.Is\<close> finds in them.
\<close>

datatype reconcile_error =
    UnsupportedMediaKind media_kind | ProviderIDRequired | RecordNoObservationTime
  | InvalidDiscoveryID runtime_id | DuplicateDiscoveryID runtime_id
  | TrackingInvalid nat tracking_error | TrackingOtherProvider nat string string | TrackingNewerThanRecord nat
  | AtRecord nat reconcile_error | RecordBoundExceeded int | ObservationBoundExceeded int
  | InvalidConnectionID config_id | DuplicateConnectionID config_id
  | NoConnections | UnsupportedFilterDimension tracking_dimension | FilterTimeRequired

datatype error_sentinel = ErrInvalidInput | ErrIdentityConflict | ErrNoConnections

fun error_class :: "reconcile_error \<Rightarrow> error_sentinel" where
  "error_class (TrackingOtherProvider _ _ _) = ErrIdentityConflict"
| "error_class (AtRecord _ e) = error_class e"
| "error_class NoConnections = ErrNoConnections"
| "error_class _ = ErrInvalidInput"

definition Identity_Validate :: "media_identity \<Rightarrow> reconcile_error option" where
  "Identity_Validate i =
     (if \<not> media_kind_supported (mi_kind i) then Some (UnsupportedMediaKind (mi_kind i))
      else if blank (mi_provider_id i) then Some ProviderIDRequired
      else None)"

definition Identity_Key :: "media_identity \<Rightarrow> string" where
  "Identity_Key i = media_kind_text (mi_kind i) @ [CHR 0x00] @ mi_provider_id i"

record reconcile_record =
  rc_identity :: media_identity
  rc_title :: string
  rc_discovery_ids :: "runtime_id list"
  rc_tracking :: "tracking_observation list"
  rc_observed_at :: time

fun discovery_check :: "runtime_id list \<Rightarrow> runtime_id list \<Rightarrow> reconcile_error option" where
  "discovery_check seen [] = None"
| "discovery_check seen (i # is) =
     (if \<not> RuntimeID_Valid i then Some (InvalidDiscoveryID i)
      else if List.member seen i then Some (DuplicateDiscoveryID i)
      else discovery_check (i # seen) is)"

fun tracking_check :: "reconcile_record \<Rightarrow> nat \<Rightarrow> tracking_observation list \<Rightarrow> reconcile_error option" where
  "tracking_check r k [] = None"
| "tracking_check r k (ob # obs) =
     (case TrackingObservation_Validate ob of
        Some e \<Rightarrow> Some (TrackingInvalid k e)
      | None \<Rightarrow>
          if to_provider_id ob \<noteq> [] \<and> to_provider_id ob \<noteq> mi_provider_id (rc_identity r)
          then Some (TrackingOtherProvider k (to_provider_id ob) (mi_provider_id (rc_identity r)))
          else if time_after (to_observed_at ob) (rc_observed_at r) then Some (TrackingNewerThanRecord k)
          else tracking_check r (Suc k) obs)"

definition Record_Validate :: "reconcile_record \<Rightarrow> reconcile_error option" where
  "Record_Validate r =
     (case Identity_Validate (rc_identity r) of
        Some e \<Rightarrow> Some e
      | None \<Rightarrow>
          if time_is_zero (rc_observed_at r) then Some RecordNoObservationTime
          else case discovery_check [] (rc_discovery_ids r) of
              Some e \<Rightarrow> Some e
            | None \<Rightarrow> tracking_check r 0 (rc_tracking r))"

section \<open>Evidence, conflicts and results\<close>

record dimension_evidence =
  de_dimension :: tracking_dimension
  de_value :: tracking_value
  de_known :: bool
  de_reason :: string
  de_observations :: "tracking_observation list"

record instance_evidence =
  ie_connection_id :: config_id
  ie_dimensions :: "dimension_evidence list"

record conflict =
  cf_code :: string
  cf_connection_id :: config_id
  cf_dimension :: tracking_dimension
  cf_field :: string
  cf_message :: string
  cf_evidence :: "string list"
  cf_blocking :: bool

record aggregate =
  ag_identity :: media_identity
  ag_title :: string
  ag_titles :: "string list"
  ag_discovery_ids :: "runtime_id list"
  ag_instances :: "instance_evidence list"
  ag_observed_at :: time
  ag_conflicts :: "conflict list"

record reconcile_input =
  in_records :: "reconcile_record list"
  in_connections :: "config_id list"
  in_now :: time
  in_max_records :: int
  in_max_observations :: int

record reconcile_result =
  rr_items :: "aggregate list"
  rr_conflicts :: "conflict list"
  rr_observed_at :: time

text \<open>
  The choices of the runtime: the order of the titles while record \<open>k\<close> is added, of the groups
  when they are finished, of the sets that are sorted afterwards, and the permutations behind the
  two sorts whose keys may be equal.
\<close>

record go_order =
  go_titles :: "nat \<Rightarrow> string list \<Rightarrow> string list"
  go_groups :: "string list \<Rightarrow> string list"
  go_set :: "string list \<Rightarrow> string list"
  go_observations :: "tracking_observation list \<Rightarrow> tracking_observation list"
  go_conflicts :: "conflict list \<Rightarrow> conflict list"

definition permutes :: "('a list \<Rightarrow> 'a list) \<Rightarrow> bool" where
  "permutes f \<longleftrightarrow> (\<forall>xs. mset (f xs) = mset xs)"

definition lawful :: "go_order \<Rightarrow> bool" where
  "lawful order \<longleftrightarrow> (\<forall>k. permutes (go_titles order k)) \<and> permutes (go_groups order) \<and> permutes (go_set order)
     \<and> permutes (go_observations order) \<and> permutes (go_conflicts order)"

definition trackingObservationKey :: "tracking_observation \<Rightarrow> string" where
  "trackingObservationKey ob =
     to_connection_id ob @ ''/'' @ dimension_text (to_dimension ob) @ ''/'' @ value_text (to_value ob) @ ''/''
     @ to_external_id ob @ ''/'' @ to_provider_id ob @ ''/'' @ format_time (to_observed_at ob)"

definition conflict_key :: "conflict \<Rightarrow> string" where
  "conflict_key c =
     join_with [CHR 0x00] [cf_code c, cf_connection_id c, dimension_text (cf_dimension c), cf_field c, cf_message c]"

definition sortConflicts :: "go_order \<Rightarrow> conflict list \<Rightarrow> conflict list" where
  "sortConflicts order cs = sort_key conflict_key (go_conflicts order cs)"

definition normalizeConnections :: "config_id list \<Rightarrow> reconcile_error + config_id list" where
  "normalizeConnections connections =
     (let result = sort connections in
      case find (\<lambda>k. \<not> ConfigID_Valid (result ! k) \<or> 0 < k \<and> result ! (k - 1) = result ! k) [0..<length result] of
        None \<Rightarrow> Inr result
      | Some k \<Rightarrow> Inl (if \<not> ConfigID_Valid (result ! k) then InvalidConnectionID (result ! k)
                       else DuplicateConnectionID (result ! k)))"

section \<open>The builder of one aggregate\<close>

type_synonym by_dimension = "tracking_dimension \<Rightarrow> tracking_observation list"

record aggregate_builder =
  ab_identity :: media_identity
  ab_titles :: "string list"
  ab_observations :: "tracking_observation list"
  ab_discovery_ids :: "runtime_id list"
  ab_connections :: "(config_id \<times> by_dimension) list"
  ab_conflicts :: "conflict list"
  ab_observed_at :: time

definition new_builder :: "media_identity \<Rightarrow> aggregate_builder" where
  "new_builder i =
     \<lparr>ab_identity = i, ab_titles = [], ab_observations = [], ab_discovery_ids = [], ab_connections = [],
      ab_conflicts = [], ab_observed_at = 0\<rparr>"

definition title_conflict :: "string \<Rightarrow> string \<Rightarrow> conflict" where
  "title_conflict existing title =
     \<lparr>cf_code = ''title_disagreement'', cf_connection_id = [], cf_dimension = TrackingDimensionOther [],
      cf_field = ''title'',
      cf_message = ''observations for one provider identity have different display titles'',
      cf_evidence = [existing, title], cf_blocking = False\<rparr>"

definition add_title :: "(string list \<Rightarrow> string list) \<Rightarrow> string \<Rightarrow> aggregate_builder \<Rightarrow> aggregate_builder" where
  "add_title iter title b =
     (if title = [] then b
      else b\<lparr>ab_conflicts := ab_conflicts b
                @ map (\<lambda>existing. title_conflict existing title) (filter (\<lambda>existing. existing \<noteq> title) (iter (ab_titles b))),
             ab_titles := List.insert title (ab_titles b)\<rparr>)"

definition add_observation :: "tracking_observation \<Rightarrow> aggregate_builder \<Rightarrow> aggregate_builder" where
  "add_observation ob b =
     (let byDimension = (case map_of (ab_connections b) (to_connection_id ob) of None \<Rightarrow> (\<lambda>_. []) | Some f \<Rightarrow> f) in
      b\<lparr>ab_observations := ab_observations b @ [ob],
        ab_connections := AList.update (to_connection_id ob)
          (byDimension(to_dimension ob := byDimension (to_dimension ob) @ [ob])) (ab_connections b)\<rparr>)"

definition add_id :: "runtime_id \<Rightarrow> runtime_id list \<Rightarrow> runtime_id list" where
  "add_id i ids = (if List.member ids i then ids else ids @ [i])"

definition addRecord :: "(string list \<Rightarrow> string list) \<Rightarrow> reconcile_record \<Rightarrow> aggregate_builder \<Rightarrow> aggregate_builder" where
  "addRecord iter r b =
     (let b1 = add_title iter (trim_space (rc_title r)) b;
          b2 = (if time_is_zero (ab_observed_at b1) \<or> time_after (rc_observed_at r) (ab_observed_at b1)
                then b1\<lparr>ab_observed_at := rc_observed_at r\<rparr> else b1);
          b3 = b2\<lparr>ab_discovery_ids := fold add_id (rc_discovery_ids r) (ab_discovery_ids b2)\<rparr>
      in fold add_observation (rc_tracking r) b3)"

definition ensure_connection :: "config_id \<Rightarrow> (config_id \<times> by_dimension) list \<Rightarrow> (config_id \<times> by_dimension) list" where
  "ensure_connection c cs = (if map_of cs c = None then cs @ [(c, \<lambda>_. [])] else cs)"

definition ensureConnections :: "config_id list \<Rightarrow> aggregate_builder \<Rightarrow> aggregate_builder" where
  "ensureConnections expected b =
     b\<lparr>ab_connections := fold ensure_connection expected (ab_connections b)\<rparr>"

definition dimensions :: "tracking_dimension list" where
  "dimensions = [TrackingRegistration, TrackingImport, TrackingAvailability, TrackingRequest]"

definition summarize :: "tracking_observation list \<Rightarrow> tracking_value \<times> bool" where
  "summarize obs =
     (case obs of
        [] \<Rightarrow> (TrackingUnknown, False)
      | ob # rest \<Rightarrow>
          let value = to_value ob in
          if list_ex (\<lambda>x. to_value x \<noteq> value) rest then (TrackingUnknown, False)
          else if value = TrackingUnknown then (TrackingUnknown, False)
          else (value, value \<noteq> TrackingUnknown \<and> list_all (\<lambda>x. to_value x \<noteq> TrackingUnknown) rest))"

definition absenceEvidenceFresh :: "tracking_observation list \<Rightarrow> time \<Rightarrow> bool" where
  "absenceEvidenceFresh obs now =
     (\<not> time_is_zero now \<and> obs \<noteq> [] \<and>
      list_all (\<lambda>ob.
        case to_coverage ob of
          None \<Rightarrow> False
        | Some c \<Rightarrow>
            to_value ob = TrackingAbsent \<and> cov_completeness c = CompletenessComplete
            \<and> 0 < to_coverage_max_age ob \<and> \<not> time_after (to_observed_at ob) now \<and> \<not> time_after (cov_observed_at c) now
            \<and> (case cov_completed_at c of None \<Rightarrow> False | Some t \<Rightarrow> \<not> time_after t (to_observed_at ob))
            \<and> (let age = time_sub now (cov_observed_at c) in \<not> age < 0 \<and> \<not> to_coverage_max_age ob < age)) obs)"

definition disagrees :: "tracking_observation \<Rightarrow> tracking_observation \<Rightarrow> bool" where
  "disagrees a b \<longleftrightarrow> to_value b \<noteq> to_value a \<or> to_external_id b \<noteq> to_external_id a \<or> to_provider_id b \<noteq> to_provider_id a"

text \<open>The loop keeps the first known observation and stops at the first that disagrees with it.\<close>

fun dimension_disagreement ::
  "tracking_observation option \<Rightarrow> tracking_observation list \<Rightarrow> (tracking_observation \<times> tracking_observation) option" where
  "dimension_disagreement first [] = None"
| "dimension_disagreement first (ob # obs) =
     (if to_value ob = TrackingUnknown then dimension_disagreement first obs
      else case first of
          None \<Rightarrow> dimension_disagreement (Some ob) obs
        | Some f \<Rightarrow> if disagrees f ob then Some (f, ob) else dimension_disagreement first obs)"

definition dimensionConflict ::
  "config_id \<Rightarrow> tracking_dimension \<Rightarrow> tracking_observation list \<Rightarrow> conflict option" where
  "dimensionConflict connectionID dim obs =
     (if length obs < 2 then None
      else case dimension_disagreement None obs of
          None \<Rightarrow> None
        | Some (f, ob) \<Rightarrow>
            Some \<lparr>cf_code = ''contradictory_tracking_evidence'', cf_connection_id = connectionID, cf_dimension = dim,
                  cf_field = ''value_or_external_identity'',
                  cf_message = ''tracking observations for one connection and dimension disagree'',
                  cf_evidence = [trackingObservationKey f, trackingObservationKey ob], cf_blocking = True\<rparr>)"

definition dedupe_key :: "conflict \<Rightarrow> string" where
  "dedupe_key c = conflict_key c @ [CHR 0x00] @ join_with [CHR 0x00] (cf_evidence c)"

fun dedupe_loop :: "string list \<Rightarrow> conflict list \<Rightarrow> conflict list" where
  "dedupe_loop seen [] = []"
| "dedupe_loop seen (c # cs) =
     (let c' = c\<lparr>cf_evidence := sort (cf_evidence c)\<rparr>; key = dedupe_key c' in
      if List.member seen key then dedupe_loop seen cs else c' # dedupe_loop (key # seen) cs)"

definition dedupeConflicts :: "go_order \<Rightarrow> conflict list \<Rightarrow> conflict list" where
  "dedupeConflicts order cs = sortConflicts order (dedupe_loop [] cs)"

definition finish_dimension ::
  "go_order \<Rightarrow> time \<Rightarrow> tracking_dimension \<Rightarrow> tracking_observation list \<Rightarrow> dimension_evidence" where
  "finish_dimension order now dim obs =
     (if obs = [] then
        \<lparr>de_dimension = dim, de_value = TrackingUnknown, de_known = False, de_reason = ''observation_missing'',
         de_observations = []\<rparr>
      else
        let (value, known) = summarize obs;
            sorted_obs = sort_key trackingObservationKey (go_observations order obs)
        in if value = TrackingAbsent \<and> \<not> absenceEvidenceFresh obs now then
             \<lparr>de_dimension = dim, de_value = TrackingUnknown, de_known = False,
              de_reason = ''absence_evidence_stale'', de_observations = sorted_obs\<rparr>
           else
             \<lparr>de_dimension = dim, de_value = value, de_known = known,
              de_reason = (if value = TrackingUnknown then ''unknown_or_conflicting_observation'' else []),
              de_observations = sorted_obs\<rparr>)"

definition finish_instance :: "go_order \<Rightarrow> time \<Rightarrow> config_id \<Rightarrow> by_dimension \<Rightarrow> instance_evidence \<times> conflict list" where
  "finish_instance order now connectionID byDimension =
     (\<lparr>ie_connection_id = connectionID,
       ie_dimensions = map (\<lambda>dim. finish_dimension order now dim (byDimension dim)) dimensions\<rparr>,
      List.map_filter (\<lambda>dim. dimensionConflict connectionID dim (byDimension dim)) dimensions)"

definition builder_finish :: "go_order \<Rightarrow> time \<Rightarrow> aggregate_builder \<Rightarrow> aggregate" where
  "builder_finish order now b =
     (let titles = sort (go_set order (ab_titles b));
          connections = sort (go_set order (map fst (ab_connections b)));
          instances = map (\<lambda>c. finish_instance order now c (the (map_of (ab_connections b) c))) connections
      in \<lparr>ag_identity = ab_identity b,
          ag_title = (if titles = [] then [] else hd titles),
          ag_titles = titles,
          ag_discovery_ids = sort (go_set order (ab_discovery_ids b)),
          ag_instances = map fst instances,
          ag_observed_at = ab_observed_at b,
          ag_conflicts = dedupeConflicts order (ab_conflicts b @ concat (map snd instances))\<rparr>)"

section \<open>Aggregation\<close>

type_synonym groups = "(string \<times> aggregate_builder) list"

definition defaultMaxRecords :: int where
  "defaultMaxRecords = 10000"

definition defaultMaxObservations :: int where
  "defaultMaxObservations = 100000"

definition group_record :: "go_order \<Rightarrow> nat \<Rightarrow> reconcile_record \<Rightarrow> groups \<Rightarrow> groups" where
  "group_record order k r groups =
     (let key = Identity_Key (rc_identity r);
          builder = (case map_of groups key of None \<Rightarrow> new_builder (rc_identity r) | Some b \<Rightarrow> b)
      in AList.update key (addRecord (go_titles order k) r builder) groups)"

fun group_records ::
  "go_order \<Rightarrow> int \<Rightarrow> nat \<Rightarrow> int \<Rightarrow> reconcile_record list \<Rightarrow> groups \<Rightarrow> reconcile_error + groups" where
  "group_records order maxObs k n [] groups = Inr groups"
| "group_records order maxObs k n (r # rs) groups =
     (case Record_Validate r of
        Some e \<Rightarrow> Inl (AtRecord k e)
      | None \<Rightarrow>
          let n' = n + int (length (rc_tracking r)) in
          if maxObs < n' then Inl (ObservationBoundExceeded maxObs)
          else group_records order maxObs (Suc k) n' rs (group_record order k r groups))"

definition finish_groups :: "go_order \<Rightarrow> time \<Rightarrow> groups \<Rightarrow> reconcile_result" where
  "finish_groups order now groups =
     (let items = map (\<lambda>key. builder_finish order now (the (map_of groups key))) (go_groups order (map fst groups))
      in \<lparr>rr_items = sort_key (\<lambda>i. Identity_Key (ag_identity i)) items,
          rr_conflicts = sortConflicts order (concat (map ag_conflicts items)),
          rr_observed_at = now\<rparr>)"

text \<open>\<open>clock\<close> is the value of \<open>time.Now().UTC()\<close>, read when the input carries no time.\<close>

definition AggregateRecords :: "go_order \<Rightarrow> time \<Rightarrow> reconcile_input \<Rightarrow> reconcile_error + reconcile_result" where
  "AggregateRecords order clock input =
     (let maxRecords = (if in_max_records input \<le> 0 then defaultMaxRecords else in_max_records input);
          maxObs = (if in_max_observations input \<le> 0 then defaultMaxObservations else in_max_observations input);
          now = (if time_is_zero (in_now input) then clock else in_now input)
      in if maxRecords < int (length (in_records input)) then Inl (RecordBoundExceeded maxRecords)
         else case normalizeConnections (in_connections input) of
             Inl e \<Rightarrow> Inl e
           | Inr expected \<Rightarrow>
               (case group_records order maxObs 0 0 (in_records input) [] of
                  Inl e \<Rightarrow> Inl e
                | Inr groups \<Rightarrow>
                    Inr (finish_groups order now (map (\<lambda>(key, b). (key, ensureConnections expected b)) groups))))"

section \<open>Filtered views\<close>

fun validDimension :: "tracking_dimension \<Rightarrow> bool" where
  "validDimension (TrackingDimensionOther _) = False"
| "validDimension _ = True"

text \<open>
  One selected connection: the dimension is present, and no occurrence of it fails a check. The
  code returns \<open>false\<close> from inside the loops in either case.
\<close>

definition connection_absent :: "aggregate \<Rightarrow> time \<Rightarrow> config_id \<Rightarrow> tracking_dimension \<Rightarrow> bool" where
  "connection_absent item now c dim =
     (let matching = filter (\<lambda>e. de_dimension e = dim)
            (concat (map ie_dimensions (filter (\<lambda>i. ie_connection_id i = c) (ag_instances item))))
      in matching \<noteq> []
         \<and> list_all (\<lambda>e. de_value e = TrackingAbsent \<and> de_known e \<and> de_observations e \<noteq> []
                         \<and> absenceEvidenceFresh (de_observations e) now
                         \<and> \<not> list_ex (\<lambda>x. cf_connection_id x = c \<and> cf_dimension x = dim \<and> cf_blocking x)
                               (ag_conflicts item)) matching)"

fun connections_absent :: "aggregate \<Rightarrow> time \<Rightarrow> tracking_dimension \<Rightarrow> config_id list \<Rightarrow> config_id list \<Rightarrow> bool" where
  "connections_absent item now dim seen [] = True"
| "connections_absent item now dim seen (c # cs) =
     (ConfigID_Valid c \<and> \<not> List.member seen c \<and> connection_absent item now c dim
      \<and> connections_absent item now dim (c # seen) cs)"

definition Aggregate_ConfirmedAbsentAt :: "aggregate \<Rightarrow> time \<Rightarrow> config_id list \<Rightarrow> tracking_dimension \<Rightarrow> bool" where
  "Aggregate_ConfirmedAbsentAt item now cs dim =
     (\<not> time_is_zero now \<and> validDimension dim \<and> cs \<noteq> [] \<and> connections_absent item now dim [] cs)"

definition FilterConfirmedAbsentAt ::
  "reconcile_result \<Rightarrow> time \<Rightarrow> config_id list \<Rightarrow> tracking_dimension \<Rightarrow> aggregate list" where
  "FilterConfirmedAbsentAt r now cs dim = filter (\<lambda>item. Aggregate_ConfirmedAbsentAt item now cs dim) (rr_items r)"

definition Result_ConfirmedAbsentAt ::
  "reconcile_result \<Rightarrow> time \<Rightarrow> config_id list \<Rightarrow> tracking_dimension \<Rightarrow> reconcile_error + aggregate list" where
  "Result_ConfirmedAbsentAt r now cs dim =
     (if cs = [] then Inl NoConnections
      else case find (\<lambda>c. \<not> ConfigID_Valid c) cs of
          Some c \<Rightarrow> Inl (InvalidConnectionID c)
        | None \<Rightarrow>
            if \<not> validDimension dim then Inl (UnsupportedFilterDimension dim)
            else if time_is_zero now then Inl FilterTimeRequired
            else Inr (FilterConfirmedAbsentAt r now cs dim))"

text \<open>The variants that read the clock.\<close>

definition Aggregate_ConfirmedAbsent :: "time \<Rightarrow> aggregate \<Rightarrow> config_id list \<Rightarrow> tracking_dimension \<Rightarrow> bool" where
  "Aggregate_ConfirmedAbsent clock item cs dim = Aggregate_ConfirmedAbsentAt item clock cs dim"

definition FilterConfirmedAbsent ::
  "time \<Rightarrow> reconcile_result \<Rightarrow> config_id list \<Rightarrow> tracking_dimension \<Rightarrow> aggregate list" where
  "FilterConfirmedAbsent clock r cs dim = FilterConfirmedAbsentAt r clock cs dim"

definition Result_ConfirmedAbsent ::
  "time \<Rightarrow> reconcile_result \<Rightarrow> config_id list \<Rightarrow> tracking_dimension \<Rightarrow> reconcile_error + aggregate list" where
  "Result_ConfirmedAbsent clock r cs dim = Result_ConfirmedAbsentAt r clock cs dim"

end
