(* ===== verification/Reconcile_Facts.thy ===== *)
theory Reconcile_Facts
  imports Reconciliation
begin

text \<open>
  Facts about reconciliation: what a builder holds after the records of its group, what the order
  of a map range or of equal sort keys can and cannot change, and the abstract verdict each
  summary computes.
\<close>

section \<open>Permutations chosen by the runtime\<close>

named_theorems order_simps \<open>what a permutation leaves unchanged\<close>

lemma permutes_mset: "permutes f \<Longrightarrow> mset (f xs) = mset xs"
  by (simp add: permutes_def)

lemma permutes_set [order_simps]: "permutes f \<Longrightarrow> set (f xs) = set xs"
  by (metis permutes_mset set_mset_mset)

lemma permutes_distinct [order_simps]: "permutes f \<Longrightarrow> distinct (f xs) \<longleftrightarrow> distinct xs"
  by (metis permutes_mset mset_eq_imp_distinct_iff)

lemma permutes_sort [order_simps]: "permutes f \<Longrightarrow> sort (f xs) = sort xs"
  by (intro properties_for_sort) (simp_all add: permutes_mset)

lemma sort_distinct_set: "distinct xs \<Longrightarrow> sort xs = sorted_list_of_set (set xs)"
  by (simp add: sorted_list_of_set_sort_remdups distinct_remdups_id)

lemma lawfulD:
  assumes "lawful order"
  shows "permutes (go_titles order k)" "permutes (go_groups order)" "permutes (go_set order)"
    "permutes (go_observations order)" "permutes (go_conflicts order)"
  using assms by (simp_all add: lawful_def)

section \<open>Keys\<close>

lemma media_kind_text_plain: "media_kind_supported k \<Longrightarrow> CHR 0x00 \<notin> set (media_kind_text k)"
  by (cases k) auto

lemma media_kind_text_inj:
  "media_kind_supported k \<Longrightarrow> media_kind_supported l \<Longrightarrow> media_kind_text k = media_kind_text l \<Longrightarrow> k = l"
  by (cases k; cases l) auto

text \<open>Two valid identities have the same key only when they are the same.\<close>

lemma Identity_Key_inj:
  assumes "Identity_Validate i = None" "Identity_Validate j = None" "Identity_Key i = Identity_Key j"
  shows "i = j"
proof -
  have s: "media_kind_supported (mi_kind i)" "media_kind_supported (mi_kind j)"
    using assms(1,2) by (auto simp: Identity_Validate_def split: if_splits)
  have "media_kind_text (mi_kind i) = media_kind_text (mi_kind j) \<and> mi_provider_id i = mi_provider_id j"
    using assms(3) s by (intro nul_split) (simp_all add: Identity_Key_def media_kind_text_plain)
  then show ?thesis using s media_kind_text_inj by (metis media_identity.equality unit_eq)
qed

lemma Record_Validate_identity: "Record_Validate r = None \<Longrightarrow> Identity_Validate (rc_identity r) = None"
  by (simp add: Record_Validate_def split: option.splits)

lemma Record_Validate_time: "Record_Validate r = None \<Longrightarrow> rc_observed_at r \<noteq> 0"
  by (simp add: Record_Validate_def time_is_zero_def split: option.splits if_splits)

lemma tracking_check_iff:
  "tracking_check r k obs = None \<longleftrightarrow>
     (\<forall>ob\<in>set obs. TrackingObservation_Validate ob = None
        \<and> (to_provider_id ob = [] \<or> to_provider_id ob = mi_provider_id (rc_identity r))
        \<and> to_observed_at ob \<le> rc_observed_at r)"
  by (induction r k obs rule: tracking_check.induct) (auto split: option.splits)

lemma discovery_check_iff:
  "discovery_check seen is = None \<longleftrightarrow> (\<forall>i\<in>set is. RuntimeID_Valid i) \<and> distinct is \<and> set is \<inter> set seen = {}"
  by (induction seen "is" rule: discovery_check.induct) (auto)

lemma Record_Validate_iff [valid_simps]:
  "Record_Validate r = None \<longleftrightarrow>
     media_kind_supported (mi_kind (rc_identity r)) \<and> \<not> blank (mi_provider_id (rc_identity r))
     \<and> rc_observed_at r \<noteq> 0
     \<and> (\<forall>i\<in>set (rc_discovery_ids r). RuntimeID_Valid i) \<and> distinct (rc_discovery_ids r)
     \<and> (\<forall>ob\<in>set (rc_tracking r). TrackingObservation_Validate ob = None
          \<and> (to_provider_id ob = [] \<or> to_provider_id ob = mi_provider_id (rc_identity r))
          \<and> to_observed_at ob \<le> rc_observed_at r)"
proof -
  have step: "(case x of Some e \<Rightarrow> Some e | None \<Rightarrow> y) = None \<longleftrightarrow> x = None \<and> y = None" for x y :: "reconcile_error option"
    by (cases x) auto
  show ?thesis
    unfolding Record_Validate_def Identity_Validate_def step check_if
    by (auto simp: time_is_zero_def tracking_check_iff discovery_check_iff)
qed

lemma normalizeConnections_ok:
  "normalizeConnections cs = Inr expected \<longleftrightarrow> (\<forall>c\<in>set cs. ConfigID_Valid c) \<and> distinct cs \<and> expected = sort cs"
proof -
  have adj: "distinct xs \<longleftrightarrow> (\<forall>k<length xs. 0 < k \<longrightarrow> xs ! (k - 1) \<noteq> xs ! k)" if "sorted xs" for xs :: "string list"
  proof
    assume r: "\<forall>k<length xs. 0 < k \<longrightarrow> xs ! (k - 1) \<noteq> xs ! k"
    have "xs ! i < xs ! j" if ij: "i < j" "j < length xs" for i j
    proof -
      have "xs ! i \<le> xs ! (j - 1)" "xs ! (j - 1) \<le> xs ! j"
        using \<open>sorted xs\<close> ij by (auto intro: sorted_nth_mono)
      moreover have "xs ! (j - 1) \<noteq> xs ! j" using r ij by simp
      ultimately show ?thesis by auto
    qed
    then show "distinct xs" by (metis distinct_conv_nth nat_neq_iff less_irrefl)
  qed (auto simp: nth_eq_iff_index_eq)
  have "normalizeConnections cs = Inr expected \<longleftrightarrow>
      (\<forall>k<length (sort cs). ConfigID_Valid (sort cs ! k) \<and> \<not> (0 < k \<and> sort cs ! (k - 1) = sort cs ! k)) \<and> expected = sort cs"
    by (auto simp: normalizeConnections_def Let_def find_None_iff find_Some_iff split: option.splits)
  also have "\<dots> \<longleftrightarrow> (\<forall>c\<in>set (sort cs). ConfigID_Valid c) \<and> distinct (sort cs) \<and> expected = sort cs"
    unfolding adj[OF sorted_sort] all_set_conv_all_nth by auto
  finally show ?thesis by simp
qed

section \<open>What a builder holds\<close>

definition obs_of :: "aggregate_builder \<Rightarrow> config_id \<Rightarrow> tracking_dimension \<Rightarrow> tracking_observation list" where
  "obs_of b c d = (case map_of (ab_connections b) c of None \<Rightarrow> [] | Some f \<Rightarrow> f d)"

definition concerns :: "config_id \<Rightarrow> tracking_dimension \<Rightarrow> tracking_observation \<Rightarrow> bool" where
  "concerns c d ob \<longleftrightarrow> to_connection_id ob = c \<and> to_dimension ob = d"

lemma add_observation_obs:
  "obs_of (add_observation ob b) c d = obs_of b c d @ filter (concerns c d) [ob]"
  by (auto simp: obs_of_def add_observation_def concerns_def Let_def update_conv' split: option.splits)

lemma add_observation_frame [frame_simps]:
  "ab_identity (add_observation ob b) = ab_identity b" "ab_titles (add_observation ob b) = ab_titles b"
  "ab_discovery_ids (add_observation ob b) = ab_discovery_ids b" "ab_conflicts (add_observation ob b) = ab_conflicts b"
  "ab_observed_at (add_observation ob b) = ab_observed_at b"
  by (simp_all add: add_observation_def Let_def)

lemma add_observation_keys:
  "fst ` set (ab_connections (add_observation ob b)) = insert (to_connection_id ob) (fst ` set (ab_connections b))"
  "distinct (map fst (ab_connections b)) \<Longrightarrow> distinct (map fst (ab_connections (add_observation ob b)))"
  by (simp_all add: add_observation_def Let_def dom_update distinct_update)

lemma add_observations:
  "obs_of (fold add_observation obs b) c d = obs_of b c d @ filter (concerns c d) obs"
  "fst ` set (ab_connections (fold add_observation obs b)) = to_connection_id ` set obs \<union> fst ` set (ab_connections b)"
  "distinct (map fst (ab_connections b)) \<Longrightarrow> distinct (map fst (ab_connections (fold add_observation obs b)))"
  "ab_identity (fold add_observation obs b) = ab_identity b" "ab_titles (fold add_observation obs b) = ab_titles b"
  "ab_discovery_ids (fold add_observation obs b) = ab_discovery_ids b"
  "ab_conflicts (fold add_observation obs b) = ab_conflicts b"
  "ab_observed_at (fold add_observation obs b) = ab_observed_at b"
  by (induction obs arbitrary: b)
    (auto simp: add_observation_obs add_observation_keys frame_simps)

lemma add_ids:
  "set (fold add_id is ids) = set is \<union> set ids"
  "distinct ids \<Longrightarrow> distinct (fold add_id is ids)"
  by (induction "is" arbitrary: ids) (auto simp: add_id_def)

text \<open>The state of a builder after the records \<open>rs\<close>, all of the builder's identity.\<close>

definition titles_of :: "reconcile_record list \<Rightarrow> string set" where
  "titles_of rs = {t \<in> (\<lambda>r. trim_space (rc_title r)) ` set rs. t \<noteq> []}"

definition builds :: "reconcile_record list \<Rightarrow> aggregate_builder \<Rightarrow> bool" where
  "builds rs b \<longleftrightarrow>
     (\<forall>c d. obs_of b c d = filter (concerns c d) (concat (map rc_tracking rs)))
     \<and> distinct (map fst (ab_connections b))
     \<and> fst ` set (ab_connections b) = to_connection_id ` set (concat (map rc_tracking rs))
     \<and> distinct (ab_titles b) \<and> set (ab_titles b) = titles_of rs
     \<and> distinct (ab_discovery_ids b) \<and> set (ab_discovery_ids b) = \<Union> (set ` rc_discovery_ids ` set rs)
     \<and> (if rs = [] then ab_observed_at b = 0
        else ab_observed_at b \<in> rc_observed_at ` set rs \<and> (\<forall>r\<in>set rs. rc_observed_at r \<le> ab_observed_at b))
     \<and> (\<forall>x\<in>set (ab_conflicts b). \<exists>s t. x = title_conflict s t)"

lemma builds_new: "builds [] (new_builder i)"
  by (simp add: builds_def new_builder_def obs_of_def titles_of_def)

lemma add_title_frame [frame_simps]:
  "ab_identity (add_title iter t b) = ab_identity b" "ab_connections (add_title iter t b) = ab_connections b"
  "ab_discovery_ids (add_title iter t b) = ab_discovery_ids b" "ab_observed_at (add_title iter t b) = ab_observed_at b"
  by (simp_all add: add_title_def)

lemma obs_of_cong: "ab_connections a = ab_connections b \<Longrightarrow> obs_of a c d = obs_of b c d"
  by (simp add: obs_of_def)

lemma addRecord_obs: "obs_of (addRecord iter r b) c d = obs_of b c d @ filter (concerns c d) (rc_tracking r)"
  unfolding addRecord_def Let_def add_observations(1) append_same_eq by (rule obs_of_cong) (simp add: frame_simps)

lemma addRecord_identity [frame_simps]: "ab_identity (addRecord iter r b) = ab_identity b"
  by (simp add: addRecord_def Let_def add_observations add_title_def)

lemma builds_addRecord:
  assumes "builds rs b" "\<forall>x\<in>set rs. rc_observed_at x \<noteq> 0" "rc_observed_at r \<noteq> 0"
  shows "builds (rs @ [r]) (addRecord iter r b)"
proof -
  let ?b1 = "add_title iter (trim_space (rc_title r)) b"
  let ?b = "addRecord iter r b"
  have obs: "obs_of ?b c d = filter (concerns c d) (concat (map rc_tracking (rs @ [r])))" for c d
    using assms(1) by (simp add: builds_def addRecord_obs)
  have keys: "distinct (map fst (ab_connections ?b))"
    "fst ` set (ab_connections ?b) = to_connection_id ` set (concat (map rc_tracking (rs @ [r])))"
    using assms(1) by (auto simp: builds_def addRecord_def Let_def add_observations frame_simps)
  have titles: "distinct (ab_titles ?b)" "set (ab_titles ?b) = titles_of (rs @ [r])"
    using assms(1) by (auto simp: builds_def addRecord_def Let_def add_observations add_title_def titles_of_def)
  have ids: "distinct (ab_discovery_ids ?b)" "set (ab_discovery_ids ?b) = \<Union> (set ` rc_discovery_ids ` set (rs @ [r]))"
    using assms(1) by (auto simp: builds_def addRecord_def Let_def add_observations frame_simps add_ids)
  have at: "ab_observed_at ?b = (if ab_observed_at b = 0 \<or> ab_observed_at b < rc_observed_at r then rc_observed_at r else ab_observed_at b)"
    by (simp add: addRecord_def Let_def add_observations frame_simps time_is_zero_def)
  have time: "ab_observed_at ?b \<in> rc_observed_at ` set (rs @ [r]) \<and> (\<forall>x\<in>set (rs @ [r]). rc_observed_at x \<le> ab_observed_at ?b)"
    using assms unfolding at builds_def by (auto split: if_splits)
  have conf: "\<forall>x\<in>set (ab_conflicts ?b). \<exists>s t. x = title_conflict s t"
    using assms(1) by (auto simp: builds_def addRecord_def Let_def add_observations add_title_def)
  show ?thesis
    using obs keys titles ids time conf unfolding builds_def by simp
qed

section \<open>The groups\<close>

definition keyed :: "string \<Rightarrow> reconcile_record list \<Rightarrow> reconcile_record list" where
  "keyed key rs = filter (\<lambda>r. Identity_Key (rc_identity r) = key) rs"

definition grouped :: "reconcile_record list \<Rightarrow> groups \<Rightarrow> bool" where
  "grouped rs groups \<longleftrightarrow>
     distinct (map fst groups) \<and> fst ` set groups = (\<lambda>r. Identity_Key (rc_identity r)) ` set rs
     \<and> (\<forall>key b. map_of groups key = Some b \<longrightarrow>
          builds (keyed key rs) b \<and> Identity_Key (ab_identity b) = key \<and> ab_identity b \<in> rc_identity ` set (keyed key rs))"

lemma map_of_ex: "(\<exists>b. map_of xs k = Some b) \<longleftrightarrow> k \<in> fst ` set xs"
  by (metis map_of_eq_None_iff not_None_eq)

lemma grouped_step:
  assumes "grouped rs groups" "\<forall>x\<in>set (rs @ [r]). rc_observed_at x \<noteq> 0"
  shows "grouped (rs @ [r]) (group_record order k r groups)"
proof -
  let ?key = "Identity_Key (rc_identity r)" and ?g = "group_record order k r groups"
  define b where "b = (case map_of groups ?key of None \<Rightarrow> new_builder (rc_identity r) | Some b \<Rightarrow> b)"
  have g: "?g = AList.update ?key (addRecord (go_titles order k) r b) groups"
    by (simp add: group_record_def b_def Let_def)
  have keys: "distinct (map fst ?g)" "fst ` set ?g = (\<lambda>r. Identity_Key (rc_identity r)) ` set (rs @ [r])"
    using assms(1) by (auto simp: g grouped_def distinct_update dom_update)
  have b: "builds (keyed ?key rs) b \<and> Identity_Key (ab_identity b) = ?key
      \<and> ab_identity b \<in> rc_identity ` set (keyed ?key (rs @ [r]))"
  proof (cases "map_of groups ?key")
    case None
    then have "?key \<notin> (\<lambda>r. Identity_Key (rc_identity r)) ` set rs"
      using assms(1) by (metis grouped_def map_of_eq_None_iff)
    then have "\<forall>x\<in>set rs. Identity_Key (rc_identity x) \<noteq> ?key" by (metis (no_types, lifting) image_eqI)
    then have "keyed ?key rs = []" by (simp add: keyed_def filter_empty_conv)
    moreover have "ab_identity (new_builder (rc_identity r)) = rc_identity r" by (simp add: new_builder_def)
    moreover have "b = new_builder (rc_identity r)" using None by (simp add: b_def)
    ultimately show ?thesis by (simp add: builds_new keyed_def)
  next
    case (Some x)
    then have "builds (keyed ?key rs) x \<and> Identity_Key (ab_identity x) = ?key \<and> ab_identity x \<in> rc_identity ` set (keyed ?key rs)"
      using assms(1) by (simp add: grouped_def)
    then show ?thesis using Some by (auto simp: b_def keyed_def)
  qed
  have new: "builds (keyed ?key (rs @ [r])) (addRecord (go_titles order k) r b)"
    using builds_addRecord[of "keyed ?key rs" b r "go_titles order k"] b assms(2) by (simp add: keyed_def)
  have "builds (keyed key (rs @ [r])) x \<and> Identity_Key (ab_identity x) = key \<and> ab_identity x \<in> rc_identity ` set (keyed key (rs @ [r]))"
    if "map_of ?g key = Some x" for key x
  proof (cases "key = ?key")
    case True
    then have x: "x = addRecord (go_titles order k) r b" using that by (simp add: g update_conv')
    have "ab_identity x = ab_identity b" by (simp add: x addRecord_identity)
    then show ?thesis using True new b x by simp
  next
    case False
    then have "map_of groups key = Some x" using that by (simp add: g update_conv')
    then show ?thesis using assms(1) False by (auto simp: grouped_def keyed_def)
  qed
  with keys show ?thesis by (simp add: grouped_def)
qed

lemma group_records_grouped:
  assumes "group_records order maxObs k n rs groups = Inr g" "grouped done groups" "\<forall>x\<in>set done. rc_observed_at x \<noteq> 0"
  shows "grouped (done @ rs) g \<and> (\<forall>r\<in>set rs. Record_Validate r = None)
    \<and> (rs \<noteq> [] \<longrightarrow> n + int (length (concat (map rc_tracking rs))) \<le> maxObs)"
  using assms
proof (induction order maxObs k n rs groups arbitrary: "done" rule: group_records.induct)
  case (1 order maxObs k n groups)
  then show ?case by simp
next
  case (2 order maxObs k n r rs groups)
  let ?n = "n + int (length (rc_tracking r))"
  from 2(2) have v: "Record_Validate r = None" and bound: "\<not> maxObs < ?n"
    and rest: "group_records order maxObs (Suc k) ?n rs (group_record order k r groups) = Inr g"
    by (simp_all add: Let_def split: option.splits if_splits)
  have nz: "\<forall>x\<in>set (done @ [r]). rc_observed_at x \<noteq> 0" using 2(4) Record_Validate_time[OF v] by simp
  from 2(1)[OF v refl bound rest grouped_step[OF 2(3) nz] nz] v bound
  show ?case by auto
qed

text \<open>The loop accepts exactly the records that validate within the bound.\<close>

lemma group_records_accepts:
  "(\<forall>r\<in>set rs. Record_Validate r = None) \<Longrightarrow> n + int (length (concat (map rc_tracking rs))) \<le> maxObs
    \<Longrightarrow> \<exists>g. group_records order maxObs k n rs groups = Inr g"
  by (induction order maxObs k n rs groups rule: group_records.induct) (auto simp: Let_def)

lemma ensure_connection_step:
  shows "map_of (ensure_connection x cs) c = (if map_of cs c = None \<and> c = x then Some (\<lambda>_. []) else map_of cs c)"
    and "fst ` set (ensure_connection x cs) = insert x (fst ` set cs)"
    and "distinct (map fst cs) \<Longrightarrow> distinct (map fst (ensure_connection x cs))"
proof -
  show "map_of (ensure_connection x cs) c = (if map_of cs c = None \<and> c = x then Some (\<lambda>_. []) else map_of cs c)"
    by (auto simp: ensure_connection_def map_add_def split: option.splits)
  have "x \<in> fst ` set cs \<longleftrightarrow> map_of cs x \<noteq> None" by (simp add: map_of_eq_None_iff)
  then show "fst ` set (ensure_connection x cs) = insert x (fst ` set cs)"
    "distinct (map fst cs) \<Longrightarrow> distinct (map fst (ensure_connection x cs))"
    by (auto simp del: not_None_eq simp: ensure_connection_def)
qed

lemma ensure_connections:
  "map_of (fold ensure_connection expected cs) c = (if map_of cs c = None \<and> c \<in> set expected then Some (\<lambda>_. []) else map_of cs c)"
  "fst ` set (fold ensure_connection expected cs) = set expected \<union> fst ` set cs"
  "distinct (map fst cs) \<Longrightarrow> distinct (map fst (fold ensure_connection expected cs))"
proof (induction expected arbitrary: cs)
  case (Cons x xs)
  {
    case 1
    show ?case using Cons.IH(1)[of "ensure_connection x cs"] by (simp add: ensure_connection_step(1))
  next
    case 2
    show ?case using Cons.IH(2)[of "ensure_connection x cs"] by (simp add: ensure_connection_step(2))
  next
    case 3
    then show ?case using Cons.IH(3)[of "ensure_connection x cs"] by (simp add: ensure_connection_step(3))
  }
qed simp_all

lemma ensureConnections_frame [frame_simps]:
  "ab_identity (ensureConnections expected b) = ab_identity b" "ab_titles (ensureConnections expected b) = ab_titles b"
  "ab_discovery_ids (ensureConnections expected b) = ab_discovery_ids b"
  "ab_conflicts (ensureConnections expected b) = ab_conflicts b"
  "ab_observed_at (ensureConnections expected b) = ab_observed_at b"
  by (simp_all add: ensureConnections_def)

lemma ensureConnections_obs: "obs_of (ensureConnections expected b) c d = obs_of b c d"
  by (auto simp: obs_of_def ensureConnections_def ensure_connections(1))

section \<open>The verdict on one dimension\<close>

text \<open>The observations agree on a known value; an absence also needs evidence that is still fresh.\<close>

definition claimed :: "time \<Rightarrow> tracking_observation list \<Rightarrow> tracking_value \<Rightarrow> bool" where
  "claimed now obs v \<longleftrightarrow> obs \<noteq> [] \<and> v \<noteq> TrackingUnknown \<and> (\<forall>ob\<in>set obs. to_value ob = v)
     \<and> (v = TrackingAbsent \<longrightarrow> absenceEvidenceFresh obs now)"

lemma claimed_unique: "claimed now obs v \<Longrightarrow> claimed now obs w \<Longrightarrow> v = w"
  by (auto simp: claimed_def neq_Nil_conv)

definition agree :: "tracking_observation list \<Rightarrow> bool" where
  "agree obs \<longleftrightarrow> obs \<noteq> [] \<and> to_value (hd obs) \<noteq> TrackingUnknown \<and> list_all (\<lambda>ob. to_value ob = to_value (hd obs)) obs"

lemma summarize_known:
  "summarize obs = (if agree obs then (to_value (hd obs), True) else (TrackingUnknown, False))"
  by (cases obs) (auto simp: summarize_def agree_def Let_def list_ex_iff list_all_iff)

lemma claimed_agree:
  "claimed now obs v \<longleftrightarrow> agree obs \<and> v = to_value (hd obs) \<and> (v = TrackingAbsent \<longrightarrow> absenceEvidenceFresh obs now)"
  by (cases obs) (auto simp: claimed_def agree_def list_all_iff)

lemma finish_dimension_spec:
  assumes "permutes (go_observations order)"
  shows "de_dimension (finish_dimension order now d obs) = d"
    and "mset (de_observations (finish_dimension order now d obs)) = mset obs"
    and "de_known (finish_dimension order now d obs) \<longleftrightarrow> de_value (finish_dimension order now d obs) \<noteq> TrackingUnknown"
    and "v \<noteq> TrackingUnknown \<Longrightarrow> de_value (finish_dimension order now d obs) = v \<longleftrightarrow> claimed now obs v"
proof -
  let ?e = "finish_dimension order now d obs"
  show "de_dimension ?e = d" "mset (de_observations ?e) = mset obs"
    using assms by (simp_all add: finish_dimension_def Let_def permutes_mset split: prod.splits)
  have "agree obs \<Longrightarrow> to_value (hd obs) \<noteq> TrackingUnknown" by (simp add: agree_def)
  then show "de_known ?e \<longleftrightarrow> de_value ?e \<noteq> TrackingUnknown"
    by (simp add: finish_dimension_def Let_def summarize_known)
  show "de_value ?e = v \<longleftrightarrow> claimed now obs v" if "v \<noteq> TrackingUnknown"
  proof (cases "agree obs")
    case True
    then have "obs \<noteq> []" by (simp add: agree_def)
    then show ?thesis using that True by (auto simp: finish_dimension_def Let_def summarize_known claimed_agree)
  next
    case False
    then show ?thesis using that by (auto simp: finish_dimension_def Let_def summarize_known claimed_agree)
  qed
qed

lemma absenceEvidenceFresh_iff:
  "absenceEvidenceFresh obs now \<longleftrightarrow> now \<noteq> 0 \<and> obs \<noteq> [] \<and>
     (\<forall>ob\<in>set obs. \<exists>c t. to_coverage ob = Some c \<and> to_value ob = TrackingAbsent
        \<and> cov_completeness c = CompletenessComplete \<and> cov_completed_at c = Some t \<and> t \<le> to_observed_at ob
        \<and> to_observed_at ob \<le> now \<and> cov_observed_at c \<le> now \<and> 0 < to_coverage_max_age ob
        \<and> time_sub now (cov_observed_at c) \<le> to_coverage_max_age ob)"
  unfolding absenceEvidenceFresh_def list_all_iff Let_def time_is_zero_def
  by (intro conj_cong refl ball_cong) (auto simp: not_less time_sub_nonneg split: option.splits)

section \<open>What an item shows\<close>

definition observed :: "reconcile_record list \<Rightarrow> string \<Rightarrow> config_id \<Rightarrow> tracking_dimension \<Rightarrow> tracking_observation list" where
  "observed rs key c d = filter (concerns c d) (concat (map rc_tracking (keyed key rs)))"

definition result_now :: "time \<Rightarrow> reconcile_input \<Rightarrow> time" where
  "result_now clock input = (if time_is_zero (in_now input) then clock else in_now input)"

definition item_of :: "go_order \<Rightarrow> time \<Rightarrow> reconcile_input \<Rightarrow> aggregate \<Rightarrow> aggregate_builder \<Rightarrow> bool" where
  "item_of order clock input item b \<longleftrightarrow>
     item = builder_finish order (result_now clock input) (ensureConnections (sort (in_connections input)) b)
     \<and> builds (keyed (Identity_Key (ag_identity item)) (in_records input)) b
     \<and> ag_identity item \<in> rc_identity ` set (in_records input)"

lemma AggregateRecords_grouped:
  assumes "AggregateRecords order clock input = Inr res"
  obtains groups where "grouped (in_records input) groups" "\<forall>r\<in>set (in_records input). Record_Validate r = None"
    "\<forall>c\<in>set (in_connections input). ConfigID_Valid c" "distinct (in_connections input)"
    "res = finish_groups order (result_now clock input) (map (\<lambda>(key, b). (key, ensureConnections (sort (in_connections input)) b)) groups)"
proof -
  from assms obtain expected groups maxObs where n: "normalizeConnections (in_connections input) = Inr expected"
    and g: "group_records order maxObs 0 0 (in_records input) [] = Inr groups"
    and r: "res = finish_groups order (result_now clock input) (map (\<lambda>(key, b). (key, ensureConnections expected b)) groups)"
    by (auto simp: AggregateRecords_def result_now_def Let_def split: if_splits sum.splits)
  have "grouped [] []" by (simp add: grouped_def)
  from group_records_grouped[OF g this] have "grouped (in_records input) groups" "\<forall>r\<in>set (in_records input). Record_Validate r = None"
    by simp_all
  with n r show ?thesis using that by (auto simp: normalizeConnections_ok)
qed

lemma sort_key_determined:
  assumes "mset (map f xs) = mset ys" "sorted ys" shows "map f (sort_key f xs) = ys"
  using assms by (metis mset_map mset_sort properties_for_sort sorted_sort_key sort_key_id_if_sorted
      sorted_sort_id)

lemma result_items:
  assumes "AggregateRecords order clock input = Inr res" "lawful order"
  shows "map (\<lambda>i. Identity_Key (ag_identity i)) (rr_items res)
      = sorted_list_of_set ((\<lambda>r. Identity_Key (rc_identity r)) ` set (in_records input))"
    and "item \<in> set (rr_items res) \<Longrightarrow> \<exists>b. item_of order clock input item b"
proof -
  obtain groups where g: "grouped (in_records input) groups"
    "res = finish_groups order (result_now clock input) (map (\<lambda>(key, b). (key, ensureConnections (sort (in_connections input)) b)) groups)"
    using AggregateRecords_grouped[OF assms(1)] by metis
  define now where "now = result_now clock input"
  define gs where "gs = map (\<lambda>(key, b). (key, ensureConnections (sort (in_connections input)) b)) groups"
  define keys where "keys = go_groups order (map fst gs)"
  define items where "items = map (\<lambda>key. builder_finish order now (the (map_of gs key))) keys"
  have fst_gs: "map fst gs = map fst groups" by (simp add: gs_def case_prod_beta comp_def)
  have lookup: "map_of gs key = map_option (ensureConnections (sort (in_connections input))) (map_of groups key)" for key
    by (simp add: gs_def map_of_map)
  have pk: "permutes (go_groups order)" using assms(2) by (rule lawfulD)
  have keys: "set keys = (\<lambda>r. Identity_Key (rc_identity r)) ` set (in_records input)" "distinct keys"
    using g(1) pk by (simp_all add: keys_def fst_gs order_simps grouped_def)
  have item: "\<exists>b. map_of groups key = Some b \<and> builds (keyed key (in_records input)) b \<and> Identity_Key (ab_identity b) = key
      \<and> ab_identity b \<in> rc_identity ` set (in_records input)
      \<and> builder_finish order now (the (map_of gs key)) = builder_finish order now (ensureConnections (sort (in_connections input)) b)"
    if "key \<in> set keys" for key
  proof -
    have "key \<in> fst ` set groups" using that keys(1) g(1) by (simp add: grouped_def)
    then obtain b where b: "map_of groups key = Some b" by (metis map_of_ex)
    then have "builds (keyed key (in_records input)) b \<and> Identity_Key (ab_identity b) = key
        \<and> ab_identity b \<in> rc_identity ` set (keyed key (in_records input))"
      using g(1) by (simp add: grouped_def)
    then show ?thesis using b by (auto simp: lookup keyed_def)
  qed
  have ident: "ag_identity (builder_finish order now b) = ab_identity b" for b by (simp add: builder_finish_def Let_def)
  have "map (\<lambda>i. Identity_Key (ag_identity i)) items = keys"
    unfolding items_def map_map comp_def
  proof (rule map_idI)
    fix key assume "key \<in> set keys"
    from item[OF this] obtain b where b: "Identity_Key (ab_identity b) = key"
      "builder_finish order now (the (map_of gs key)) = builder_finish order now (ensureConnections (sort (in_connections input)) b)"
      by blast
    show "Identity_Key (ag_identity (builder_finish order now (the (map_of gs key)))) = key"
      using b(1) unfolding b(2) ident ensureConnections_frame(1) .
  qed
  then have mk: "mset (map (\<lambda>i. Identity_Key (ag_identity i)) items) = mset (sort keys)" by simp
  have rr: "rr_items res = sort_key (\<lambda>i. Identity_Key (ag_identity i)) items"
    by (simp add: g(2) finish_groups_def Let_def items_def keys_def gs_def now_def)
  show "map (\<lambda>i. Identity_Key (ag_identity i)) (rr_items res)
      = sorted_list_of_set ((\<lambda>r. Identity_Key (rc_identity r)) ` set (in_records input))"
    unfolding rr using sort_key_determined[OF mk] keys by (simp add: sort_distinct_set)
  show "\<exists>b. item_of order clock input item b" if mem: "item \<in> set (rr_items res)"
  proof -
    have "item \<in> set items" using mem by (simp add: rr)
    then obtain key where key: "key \<in> set keys" "item = builder_finish order now (the (map_of gs key))"
      unfolding items_def by auto
    from item[OF key(1)] obtain b where b: "builds (keyed key (in_records input)) b" "Identity_Key (ab_identity b) = key"
      "ab_identity b \<in> rc_identity ` set (in_records input)"
      "builder_finish order now (the (map_of gs key)) = builder_finish order now (ensureConnections (sort (in_connections input)) b)"
      by blast
    have ai: "ag_identity item = ab_identity b" unfolding key(2) b(4) ident ensureConnections_frame(1) ..
    show ?thesis
      unfolding item_of_def now_def[symmetric] ai b(2) using trans[OF key(2) b(4)] b(1,3) by blast
  qed
qed

lemma item_instances:
  assumes "item_of order clock input item b" "lawful order"
  shows "map ie_connection_id (ag_instances item)
      = sorted_list_of_set (set (in_connections input)
          \<union> to_connection_id ` set (concat (map rc_tracking (keyed (Identity_Key (ag_identity item)) (in_records input)))))"
    and "i \<in> set (ag_instances item) \<Longrightarrow> ie_dimensions i = map (\<lambda>d. finish_dimension order (result_now clock input) d
          (observed (in_records input) (Identity_Key (ag_identity item)) (ie_connection_id i) d)) dimensions"
proof -
  let ?now = "result_now clock input"
  define e where "e = ensureConnections (sort (in_connections input)) b"
  from assms(1) have it: "item = builder_finish order ?now e"
    and bd: "builds (keyed (Identity_Key (ag_identity item)) (in_records input)) b"
    unfolding e_def item_of_def by blast+
  have ks: "permutes (go_set order)" using assms(2) by (rule lawfulD)
  have keys: "distinct (map fst (ab_connections e))"
    "fst ` set (ab_connections e) = set (in_connections input)
       \<union> to_connection_id ` set (concat (map rc_tracking (keyed (Identity_Key (ag_identity item)) (in_records input))))"
    using bd by (simp_all add: builds_def e_def ensureConnections_def ensure_connections)
  have cs: "sort (go_set order (map fst (ab_connections e))) = sorted_list_of_set (fst ` set (ab_connections e))"
    using keys(1) ks by (simp add: order_simps sort_distinct_set)
  have ins: "ag_instances item = map (\<lambda>c. fst (finish_instance order ?now c (the (map_of (ab_connections e) c))))
      (sorted_list_of_set (fst ` set (ab_connections e)))"
    by (simp add: it builder_finish_def Let_def cs)
  show "map ie_connection_id (ag_instances item)
      = sorted_list_of_set (set (in_connections input)
          \<union> to_connection_id ` set (concat (map rc_tracking (keyed (Identity_Key (ag_identity item)) (in_records input)))))"
    by (simp add: ins finish_instance_def comp_def keys(2))
  assume "i \<in> set (ag_instances item)"
  then obtain c where c: "c \<in> fst ` set (ab_connections e)" "i = fst (finish_instance order ?now c (the (map_of (ab_connections e) c)))"
    by (auto simp: ins)
  then obtain f where f: "map_of (ab_connections e) c = Some f" by (metis map_of_ex)
  have "f d = observed (in_records input) (Identity_Key (ag_identity item)) c d" for d
  proof -
    have "f d = obs_of e c d" using f by (simp add: obs_of_def)
    then show ?thesis using bd by (simp add: e_def ensureConnections_obs builds_def observed_def)
  qed
  then show "ie_dimensions i = map (\<lambda>d. finish_dimension order ?now d
      (observed (in_records input) (Identity_Key (ag_identity item)) (ie_connection_id i) d)) dimensions"
    using c(2) f by (simp add: finish_instance_def)
qed

end
