(* ===== verification/Reconcile_Properties.thy ===== *)
theory Reconcile_Properties
  imports Reconcile_Facts
begin

text \<open>
  The properties of reconciliation (\<^verbatim>\<open>internal/reconciliation/reconciliation.go\<close>): every item shows
  exactly what was observed, absence is never inferred, contradictions block, and the runtime's
  choice of orders changes nothing but the order of conflicts and of equal observations.
\<close>

lemma keyed_identity:
  assumes "\<forall>r\<in>set rs. Record_Validate r = None" "i \<in> rc_identity ` set rs"
  shows "keyed (Identity_Key i) rs = filter (\<lambda>r. rc_identity r = i) rs"
proof -
  have "Identity_Key (rc_identity r) = Identity_Key i \<longleftrightarrow> rc_identity r = i" if "r \<in> set rs" for r
    using that assms Record_Validate_identity Identity_Key_inj by (metis (no_types, lifting) imageE)
  then show ?thesis unfolding keyed_def by (rule filter_cong[OF refl])
qed

lemma observed_records:
  assumes "\<forall>r\<in>set rs. Record_Validate r = None" "i \<in> rc_identity ` set rs"
  shows "set (observed rs (Identity_Key i) c d)
    = {ob. \<exists>r\<in>set rs. rc_identity r = i \<and> ob \<in> set (rc_tracking r) \<and> to_connection_id ob = c \<and> to_dimension ob = d}"
  unfolding observed_def keyed_identity[OF assms] by (auto simp: concerns_def)

section \<open>What an aggregation accepts and shows\<close>

lemma AggregateRecords_succeeds:
  "(\<exists>res. AggregateRecords order clock input = Inr res) \<longleftrightarrow>
     int (length (in_records input)) \<le> (if in_max_records input \<le> 0 then 10000 else in_max_records input)
     \<and> int (length (concat (map rc_tracking (in_records input))))
          \<le> (if in_max_observations input \<le> 0 then 100000 else in_max_observations input)
     \<and> list_all ConfigID_Valid (in_connections input) \<and> distinct (in_connections input)
     \<and> list_all (\<lambda>r. Record_Validate r = None) (in_records input)"
proof -
  define maxObs where "maxObs = (if in_max_observations input \<le> 0 then defaultMaxObservations else in_max_observations input)"
  have nonneg: "0 \<le> maxObs" by (simp add: maxObs_def defaultMaxObservations_def)
  have conns: "(\<exists>e. normalizeConnections (in_connections input) = Inr e) \<longleftrightarrow>
      list_all ConfigID_Valid (in_connections input) \<and> distinct (in_connections input)"
    by (simp add: normalizeConnections_ok list_all_iff)
  have recs: "(\<exists>g. group_records order maxObs 0 0 (in_records input) [] = Inr g) \<longleftrightarrow>
      list_all (\<lambda>r. Record_Validate r = None) (in_records input)
      \<and> int (length (concat (map rc_tracking (in_records input)))) \<le> maxObs"
    (is "?l \<longleftrightarrow> ?r")
  proof
    assume ?l
    then obtain g where "group_records order maxObs 0 0 (in_records input) [] = Inr g" by blast
    from group_records_grouped[OF this, of "[]"] show ?r
      using nonneg by (cases "in_records input = []") (auto simp: grouped_def list_all_iff)
  qed (use group_records_accepts[of "in_records input" 0 maxObs order 0 "[]"] in \<open>auto simp: list_all_iff\<close>)
  have "(\<exists>res. AggregateRecords order clock input = Inr res) \<longleftrightarrow>
      \<not> (if in_max_records input \<le> 0 then defaultMaxRecords else in_max_records input) < int (length (in_records input))
      \<and> (\<exists>e. normalizeConnections (in_connections input) = Inr e)
      \<and> (\<exists>g. group_records order maxObs 0 0 (in_records input) [] = Inr g)"
    unfolding AggregateRecords_def maxObs_def Let_def by (auto split: sum.splits)
  then show ?thesis
    unfolding conns recs not_less unfolding maxObs_def defaultMaxRecords_def defaultMaxObservations_def by blast
qed

text \<open>
  C39: \<open>AggregateRecords\<close> succeeds exactly when the number of records and the number of their
  observations are within the bounds (the defaults where none is given), the requested connection
  ids are valid and distinct, and every record validates.
\<close>

theorem aggregation_accepts_exactly_valid_input:
  "(\<exists>res. AggregateRecords order clock input = Inr res) \<longleftrightarrow>
     int (length (in_records input)) \<le> (if in_max_records input \<le> 0 then 10000 else in_max_records input)
     \<and> int (length (concat (map rc_tracking (in_records input))))
          \<le> (if in_max_observations input \<le> 0 then 100000 else in_max_observations input)
     \<and> list_all ConfigID_Valid (in_connections input) \<and> distinct (in_connections input)
     \<and> list_all (\<lambda>r. Record_Validate r = None) (in_records input)"
  by (rule AggregateRecords_succeeds)

text \<open>
  C30: The result has one item per media identity, in the order of their keys; an item has one
  entry per requested or observed connection, in order, each with the four dimensions; a dimension
  carries exactly the observations of that identity, connection and dimension, and shows a known
  value only when there are some, all say it and, for an absence, all its evidence is fresh.
\<close>

theorem items_report_what_was_observed:
  assumes "AggregateRecords order clock input = Inr res" "lawful order"
  shows "map (\<lambda>i. Identity_Key (ag_identity i)) (rr_items res)
        = sorted_list_of_set ((\<lambda>r. Identity_Key (rc_identity r)) ` set (in_records input))
    \<and> (\<forall>item\<in>set (rr_items res).
         ag_identity item \<in> rc_identity ` set (in_records input)
       \<and> map ie_connection_id (ag_instances item)
           = sorted_list_of_set (set (in_connections input) \<union>
               {to_connection_id ob |ob r. r \<in> set (in_records input) \<and> rc_identity r = ag_identity item \<and> ob \<in> set (rc_tracking r)})
       \<and> (\<forall>i\<in>set (ag_instances item). map de_dimension (ie_dimensions i) = dimensions
           \<and> (\<forall>e\<in>set (ie_dimensions i).
                let obs = observed (in_records input) (Identity_Key (ag_identity item)) (ie_connection_id i) (de_dimension e) in
                mset (de_observations e) = mset obs
                \<and> (de_known e \<longleftrightarrow> de_value e \<noteq> TrackingUnknown)
                \<and> (\<forall>v. v \<noteq> TrackingUnknown \<longrightarrow> (de_value e = v \<longleftrightarrow> claimed (result_now clock input) obs v)))))"
proof (intro conjI ballI)
  show "map (\<lambda>i. Identity_Key (ag_identity i)) (rr_items res)
      = sorted_list_of_set ((\<lambda>r. Identity_Key (rc_identity r)) ` set (in_records input))"
    by (rule result_items(1)[OF assms])
  fix item assume "item \<in> set (rr_items res)"
  then obtain b where b: "item_of order clock input item b" using result_items(2)[OF assms] by blast
  show id: "ag_identity item \<in> rc_identity ` set (in_records input)" using b unfolding item_of_def by blast
  have valid: "\<forall>r\<in>set (in_records input). Record_Validate r = None" using AggregateRecords_grouped[OF assms(1)] by metis
  have "to_connection_id ` set (concat (map rc_tracking (keyed (Identity_Key (ag_identity item)) (in_records input))))
      = {to_connection_id ob |ob r. r \<in> set (in_records input) \<and> rc_identity r = ag_identity item \<and> ob \<in> set (rc_tracking r)}"
    unfolding keyed_identity[OF valid id] by auto
  with item_instances(1)[OF b assms(2)]
  show "map ie_connection_id (ag_instances item)
      = sorted_list_of_set (set (in_connections input) \<union>
          {to_connection_id ob |ob r. r \<in> set (in_records input) \<and> rc_identity r = ag_identity item \<and> ob \<in> set (rc_tracking r)})"
    by simp
  fix i assume "i \<in> set (ag_instances item)"
  note dims = item_instances(2)[OF b assms(2) this]
  note spec = finish_dimension_spec[OF lawfulD(4)[OF assms(2)]]
  show "map de_dimension (ie_dimensions i) = dimensions" by (simp add: dims spec(1) comp_def)
  fix e assume "e \<in> set (ie_dimensions i)"
  then obtain d where e: "e = finish_dimension order (result_now clock input) d
      (observed (in_records input) (Identity_Key (ag_identity item)) (ie_connection_id i) d)"
    by (auto simp: dims)
  show "let obs = observed (in_records input) (Identity_Key (ag_identity item)) (ie_connection_id i) (de_dimension e) in
      mset (de_observations e) = mset obs \<and> (de_known e \<longleftrightarrow> de_value e \<noteq> TrackingUnknown)
      \<and> (\<forall>v. v \<noteq> TrackingUnknown \<longrightarrow> (de_value e = v \<longleftrightarrow> claimed (result_now clock input) obs v))"
    unfolding Let_def e spec(1) using spec(2,3,4) by blast
qed

section \<open>Absence\<close>

lemma connections_absent_iff:
  "connections_absent item now d seen cs \<longleftrightarrow>
     (\<forall>c\<in>set cs. ConfigID_Valid c \<and> connection_absent item now c d) \<and> distinct cs \<and> set cs \<inter> set seen = {}"
  by (induction cs arbitrary: seen) auto

lemma connection_absent_evidence:
  assumes "connection_absent item now c d"
  obtains i e where "i \<in> set (ag_instances item)" "ie_connection_id i = c" "e \<in> set (ie_dimensions i)" "de_dimension e = d"
    "absenceEvidenceFresh (de_observations e) now"
proof -
  from assms have "filter (\<lambda>e. de_dimension e = d)
      (concat (map ie_dimensions (filter (\<lambda>i. ie_connection_id i = c) (ag_instances item)))) \<noteq> []"
    by (simp add: connection_absent_def Let_def)
  then obtain i e where ie: "i \<in> set (ag_instances item)" "ie_connection_id i = c" "e \<in> set (ie_dimensions i)" "de_dimension e = d"
    by (auto simp: filter_empty_conv)
  moreover have "absenceEvidenceFresh (de_observations e) now"
    using assms ie by (auto simp: connection_absent_def Let_def list_all_iff)
  ultimately show ?thesis using that by blast
qed

lemma absenceEvidenceFresh_mset: "mset xs = mset ys \<Longrightarrow> absenceEvidenceFresh xs now = absenceEvidenceFresh ys now"
  using mset_eq_setD[of xs ys] by (auto simp: absenceEvidenceFresh_iff)

text \<open>
  C17: An item is listed as absent at some connections only on proof: for each of them there is an
  observation of that identity and dimension, and every such observation says absent with a
  complete coverage record of that very connection that was already made, and is not older than
  the bound the observation carries, at the time of the question. No record with a different
  answer, and no missing answer, ever leads to absence.
\<close>

theorem confirmed_absence_is_proved:
  assumes "AggregateRecords order clock input = Inr res" "lawful order"
    "Result_ConfirmedAbsentAt res at cs d = Inr items" "item \<in> set items" "c \<in> set cs"
  shows "item \<in> set (rr_items res)
    \<and> (\<exists>r\<in>set (in_records input). rc_identity r = ag_identity item \<and> (\<exists>ob\<in>set (rc_tracking r). concerns c d ob))
    \<and> (\<forall>r\<in>set (in_records input). \<forall>ob\<in>set (rc_tracking r). rc_identity r = ag_identity item \<and> concerns c d ob \<longrightarrow>
         to_value ob = TrackingAbsent
         \<and> (\<exists>p. absence_proof ob p \<and> cov_connection_id p = c \<and> to_observed_at ob \<le> at
              \<and> time_sub at (cov_observed_at p) \<le> to_coverage_max_age ob))"
proof -
  from assms(3,4) have item: "item \<in> set (rr_items res)" and conf: "Aggregate_ConfirmedAbsentAt item at cs d"
    by (auto simp: Result_ConfirmedAbsentAt_def FilterConfirmedAbsentAt_def split: if_splits option.splits)
  from conf assms(5) have ca: "connection_absent item at c d"
    by (simp add: Aggregate_ConfirmedAbsentAt_def connections_absent_iff)
  obtain b where b: "item_of order clock input item b" using item result_items(2)[OF assms(1,2)] by blast
  have id: "ag_identity item \<in> rc_identity ` set (in_records input)" using b unfolding item_of_def by blast
  have valid: "\<forall>r\<in>set (in_records input). Record_Validate r = None" using AggregateRecords_grouped[OF assms(1)] by metis
  obtain i e where ie: "i \<in> set (ag_instances item)" "ie_connection_id i = c" "e \<in> set (ie_dimensions i)" "de_dimension e = d"
    "absenceEvidenceFresh (de_observations e) at"
    using connection_absent_evidence[OF ca] .
  define obs where "obs = observed (in_records input) (Identity_Key (ag_identity item)) c d"
  note spec = finish_dimension_spec[OF lawfulD(4)[OF assms(2)]]
  have "e = finish_dimension order (result_now clock input) d obs"
    using ie(2-4) item_instances(2)[OF b assms(2) ie(1)] by (auto simp: spec(1) obs_def)
  then have "mset (de_observations e) = mset obs" by (simp add: spec(2))
  then have fresh: "absenceEvidenceFresh obs at" using ie(5) absenceEvidenceFresh_mset by metis
  have set: "set obs = {ob. \<exists>r\<in>set (in_records input). rc_identity r = ag_identity item \<and> ob \<in> set (rc_tracking r) \<and> concerns c d ob}"
    unfolding obs_def observed_records[OF valid id] concerns_def by simp
  have ne: "set obs \<noteq> {}" using fresh by (simp add: absenceEvidenceFresh_iff)
  have each: "to_value ob = TrackingAbsent \<and> (\<exists>p. absence_proof ob p \<and> cov_connection_id p = c \<and> to_observed_at ob \<le> at
      \<and> time_sub at (cov_observed_at p) \<le> to_coverage_max_age ob)" if "ob \<in> set obs" for ob
  proof -
    from that set obtain r where "r \<in> set (in_records input)" "ob \<in> set (rc_tracking r)" "concerns c d ob" by blast
    then have "TrackingObservation_Validate ob = None" "to_connection_id ob = c"
      using valid by (auto simp: Record_Validate_iff concerns_def)
    moreover have "\<exists>p t. to_coverage ob = Some p \<and> to_value ob = TrackingAbsent
        \<and> cov_completeness p = CompletenessComplete \<and> cov_completed_at p = Some t \<and> t \<le> to_observed_at ob
        \<and> to_observed_at ob \<le> at \<and> cov_observed_at p \<le> at \<and> 0 < to_coverage_max_age ob
        \<and> time_sub at (cov_observed_at p) \<le> to_coverage_max_age ob"
      using fresh that by (simp add: absenceEvidenceFresh_iff)
    then obtain p where "to_coverage ob = Some p" "to_value ob = TrackingAbsent" "to_observed_at ob \<le> at"
      "time_sub at (cov_observed_at p) \<le> to_coverage_max_age ob"
      by blast
    moreover obtain q where "absence_proof ob q" using absence_has_proof calculation by blast
    ultimately show ?thesis by (auto simp: absence_proof_def)
  qed
  show ?thesis using item ne each unfolding set by blast
qed

section \<open>Conflicts\<close>

lemma disagreement_some:
  "dimension_disagreement (Some f) obs = Some (f', ob) \<Longrightarrow> f' = f \<and> ob \<in> set obs \<and> to_value ob \<noteq> TrackingUnknown \<and> disagrees f ob"
  by (induction obs) (auto split: if_splits)

lemma disagreement_some_None:
  "dimension_disagreement (Some f) obs = None \<longleftrightarrow> (\<forall>ob\<in>set obs. to_value ob \<noteq> TrackingUnknown \<longrightarrow> \<not> disagrees f ob)"
  by (induction obs) auto

text \<open>The sentence of the code in one predicate: two known observations state different facts.\<close>

definition stated :: "tracking_observation \<Rightarrow> tracking_value \<times> string \<times> string" where
  "stated ob = (to_value ob, to_external_id ob, to_provider_id ob)"

definition contradicted :: "tracking_observation list \<Rightarrow> bool" where
  "contradicted obs \<longleftrightarrow>
     (\<exists>a\<in>set obs. \<exists>b\<in>set obs. to_value a \<noteq> TrackingUnknown \<and> to_value b \<noteq> TrackingUnknown \<and> stated a \<noteq> stated b)"

lemma disagrees_stated: "disagrees a b \<longleftrightarrow> stated a \<noteq> stated b"
  by (auto simp: disagrees_def stated_def)

lemma disagreement_iff: "(\<exists>x. dimension_disagreement None obs = Some x) \<longleftrightarrow> contradicted obs"
proof (induction obs)
  case Nil
  show ?case by (simp add: contradicted_def)
next
  case (Cons ob obs)
  show ?case
  proof (cases "to_value ob = TrackingUnknown")
    case True
    then show ?thesis using Cons.IH by (simp add: contradicted_def)
  next
    case known: False
    have "dimension_disagreement None (ob # obs) = dimension_disagreement (Some ob) obs" using known by simp
    moreover have "(\<exists>x. dimension_disagreement (Some ob) obs = Some x) \<longleftrightarrow>
        (\<exists>b\<in>set obs. to_value b \<noteq> TrackingUnknown \<and> stated ob \<noteq> stated b)"
      using disagreement_some_None[of ob obs] unfolding disagrees_stated by (metis not_None_eq)
    moreover have "contradicted (ob # obs) \<longleftrightarrow> (\<exists>b\<in>set obs. to_value b \<noteq> TrackingUnknown \<and> stated ob \<noteq> stated b)"
      unfolding contradicted_def using known by (simp, metis)
    ultimately show ?thesis by simp
  qed
qed

lemma dimensionConflict_iff: "(\<exists>x. dimensionConflict c d obs = Some x) \<longleftrightarrow> contradicted obs"
proof -
  have "length obs < 2 \<Longrightarrow> \<not> contradicted obs"
    by (cases obs) (auto simp: contradicted_def)
  then show ?thesis using disagreement_iff[of obs] by (auto simp: dimensionConflict_def split: option.splits)
qed

lemma dimensionConflict_fields:
  "dimensionConflict c d obs = Some x \<Longrightarrow> cf_connection_id x = c \<and> cf_dimension x = d \<and> cf_blocking x
    \<and> cf_code x = ''contradictory_tracking_evidence''"
  by (auto simp: dimensionConflict_def split: if_splits option.splits prod.splits)

text \<open>Removing duplicates keeps a conflict of every key, and of its key only.\<close>

lemma dedupe_loop_sub:
  "x \<in> set (dedupe_loop seen cs) \<Longrightarrow> \<exists>y\<in>set cs. x = y\<lparr>cf_evidence := sort (cf_evidence y)\<rparr>"
  by (induction seen cs rule: dedupe_loop.induct) (auto simp: Let_def split: if_splits)

lemma dedupe_loop_keys:
  "dedupe_key ` set (dedupe_loop seen cs) = dedupe_key ` (\<lambda>y. y\<lparr>cf_evidence := sort (cf_evidence y)\<rparr>) ` set cs - set seen"
proof (induction seen cs rule: dedupe_loop.induct)
  case (2 seen c cs)
  then show ?case by (auto simp: Let_def)
qed simp

lemma set_List_map_filter: "set (List.map_filter f xs) = {y. \<exists>x\<in>set xs. f x = Some y}"
  by (induction xs) (auto simp: List.map_filter_simps split: option.splits)

lemma config_id_plain: "ConfigID_Valid c \<Longrightarrow> CHR 0x00 \<notin> set c"
  by (auto simp: ConfigID_Valid_iff list_all_iff isConfigIDChar_def Let_def)

lemma dedupe_key_text:
  "\<exists>rest. dedupe_key x = cf_code x @ CHR 0x00 # cf_connection_id x @ CHR 0x00 # dimension_text (cf_dimension x) @ CHR 0x00 # rest"
  by (simp add: dedupe_key_def conflict_key_def)

lemma dimension_text_inj:
  "d \<in> set dimensions \<Longrightarrow> d' \<in> set dimensions \<Longrightarrow> dimension_text d = dimension_text d' \<Longrightarrow> d = d'"
  and dimension_text_plain: "d \<in> set dimensions \<Longrightarrow> CHR 0x00 \<notin> set (dimension_text d)"
  by (auto simp: dimensions_def)

lemma dedupe_key_conflict:
  assumes "dedupe_key x = dedupe_key y" "CHR 0x00 \<notin> set (cf_code x)" "CHR 0x00 \<notin> set (cf_code y)"
  shows "cf_code x = cf_code y"
    and "CHR 0x00 \<notin> set (cf_connection_id x) \<Longrightarrow> CHR 0x00 \<notin> set (cf_connection_id y) \<Longrightarrow> cf_connection_id x = cf_connection_id y"
    and "CHR 0x00 \<notin> set (cf_connection_id x) \<Longrightarrow> CHR 0x00 \<notin> set (cf_connection_id y) \<Longrightarrow>
      cf_dimension x \<in> set dimensions \<Longrightarrow> cf_dimension y \<in> set dimensions \<Longrightarrow> cf_dimension x = cf_dimension y"
proof -
  obtain r s where
    r: "dedupe_key x = cf_code x @ CHR 0x00 # cf_connection_id x @ CHR 0x00 # dimension_text (cf_dimension x) @ CHR 0x00 # r" and
    s: "dedupe_key y = cf_code y @ CHR 0x00 # cf_connection_id y @ CHR 0x00 # dimension_text (cf_dimension y) @ CHR 0x00 # s"
    using dedupe_key_text by metis
  note code = nul_split[OF assms(1)[unfolded r s] assms(2,3)]
  show "cf_code x = cf_code y" using code by blast
  assume plain: "CHR 0x00 \<notin> set (cf_connection_id x)" "CHR 0x00 \<notin> set (cf_connection_id y)"
  note conn = nul_split[OF conjunct2[OF code] plain]
  show "cf_connection_id x = cf_connection_id y" using conn by blast
  assume dims: "cf_dimension x \<in> set dimensions" "cf_dimension y \<in> set dimensions"
  from nul_split[OF conjunct2[OF conn] dimension_text_plain[OF dims(1)] dimension_text_plain[OF dims(2)]]
  show "cf_dimension x = cf_dimension y" using dimension_text_inj[OF dims] by blast
qed

lemma item_conflicts:
  assumes "item_of order clock input item b" "lawful order" "\<forall>r\<in>set (in_records input). Record_Validate r = None"
    "\<forall>c\<in>set (in_connections input). ConfigID_Valid c"
  shows "(\<exists>x\<in>set (ag_conflicts item). cf_blocking x \<and> cf_connection_id x = c \<and> cf_dimension x = d)
    \<longleftrightarrow> contradicted (observed (in_records input) (Identity_Key (ag_identity item)) c d)" (is "?l \<longleftrightarrow> contradicted (?obs c d)")
proof -
  let ?now = "result_now clock input"
  define e where "e = ensureConnections (sort (in_connections input)) b"
  from assms(1) have it: "item = builder_finish order ?now e"
    and bd: "builds (keyed (Identity_Key (ag_identity item)) (in_records input)) b"
    unfolding e_def item_of_def by blast+
  define keys where "keys = fst ` set (ab_connections e)"
  define raw where "raw = ab_conflicts e @ concat (map snd (map (\<lambda>c. finish_instance order ?now c (the (map_of (ab_connections e) c)))
      (sort (go_set order (map fst (ab_connections e))))))"
  have ks: "permutes (go_set order)" and pc: "permutes (go_conflicts order)" using assms(2) by (rule lawfulD)+
  have ck: "set (sort (go_set order (map fst (ab_connections e)))) = keys" using ks by (simp add: keys_def order_simps)
  have ag: "set (ag_conflicts item) = set (dedupe_loop [] raw)"
    using pc by (simp add: it builder_finish_def Let_def dedupeConflicts_def sortConflicts_def raw_def order_simps)
  have obs: "the (map_of (ab_connections e) c') d' = ?obs c' d'" if mem: "c' \<in> keys" for c' d'
  proof -
    obtain f where "map_of (ab_connections e) c' = Some f" using mem map_of_ex[of "ab_connections e" c'] unfolding keys_def by blast
    then have "the (map_of (ab_connections e) c') d' = obs_of e c' d'" by (simp add: obs_of_def)
    then show ?thesis using bd by (simp add: e_def ensureConnections_obs builds_def observed_def)
  qed
  have titles: "x \<in> set (ab_conflicts e) \<Longrightarrow> \<exists>s t. x = title_conflict s t" for x
    using bd by (auto simp: e_def frame_simps builds_def)
  have raw: "set raw = set (ab_conflicts e) \<union>
      {x. \<exists>c'\<in>keys. \<exists>d'\<in>set dimensions. dimensionConflict c' d' (?obs c' d') = Some x}"
  proof -
    have "set raw = set (ab_conflicts e) \<union>
        {x. \<exists>c'\<in>keys. \<exists>d'\<in>set dimensions. dimensionConflict c' d' (the (map_of (ab_connections e) c') d') = Some x}"
      unfolding raw_def using ck by (auto simp: finish_instance_def set_List_map_filter)
    then show ?thesis using obs by (simp cong: bex_cong)
  qed
  have keys_valid: "keys = set (in_connections input) \<union>
      to_connection_id ` set (concat (map rc_tracking (keyed (Identity_Key (ag_identity item)) (in_records input))))"
    using bd by (simp add: keys_def builds_def e_def ensureConnections_def ensure_connections)
  have ob_valid: "TrackingObservation_Validate ob = None"
    if "ob \<in> set (concat (map rc_tracking (keyed key (in_records input))))" for ob key
    using that assms(3) by (auto simp: keyed_def Record_Validate_iff)
  have plain: "CHR 0x00 \<notin> set c'" if "c' \<in> keys" for c'
    using that assms(4) ob_valid unfolding keys_valid by (auto intro!: config_id_plain simp: TrackingObservation_Validate_iff)
  have tracked: "c' \<in> keys \<and> d' \<in> set dimensions" if ne: "?obs c' d' \<noteq> []" for c' d'
  proof -
    from ne obtain ob where ob: "ob \<in> set (concat (map rc_tracking (keyed (Identity_Key (ag_identity item)) (in_records input))))"
      "concerns c' d' ob" by (auto simp: observed_def filter_empty_conv)
    then have "tracking_dimension_supported d'" using ob_valid[OF ob(1)] by (auto simp: concerns_def TrackingObservation_Validate_iff)
    then have "d' \<in> set dimensions" by (cases d') (auto simp: dimensions_def)
    then show ?thesis using ob unfolding keys_valid concerns_def by blast
  qed
  have strip: "cf_code (y\<lparr>cf_evidence := v\<rparr>) = cf_code y" "cf_connection_id (y\<lparr>cf_evidence := v\<rparr>) = cf_connection_id y"
    "cf_dimension (y\<lparr>cf_evidence := v\<rparr>) = cf_dimension y" "cf_blocking (y\<lparr>cf_evidence := v\<rparr>) = cf_blocking y" for y v by simp_all
  have title: "cf_code (title_conflict s t) = ''title_disagreement''" "\<not> cf_blocking (title_conflict s t)" for s t
    by (simp_all add: title_conflict_def)
  show ?thesis
  proof
    assume ?l
    then obtain y where y: "y \<in> set raw" "cf_blocking y" "cf_connection_id y = c" "cf_dimension y = d"
      using dedupe_loop_sub[of _ "[]" raw] unfolding ag by (metis strip(2,3,4))
    then have "y \<notin> set (ab_conflicts e)" using titles title by metis
    then obtain c' d' where "dimensionConflict c' d' (?obs c' d') = Some y" using y(1) raw by auto
    then show "contradicted (?obs c d)" using dimensionConflict_iff dimensionConflict_fields y by metis
  next
    assume con: "contradicted (?obs c d)"
    then have "?obs c d \<noteq> []" by (auto simp: contradicted_def)
    from tracked[OF this] have cd: "c \<in> keys" "d \<in> set dimensions" by auto
    obtain x where x: "dimensionConflict c d (?obs c d) = Some x" using con dimensionConflict_iff by metis
    note xf = dimensionConflict_fields[OF x]
    have "x \<in> set raw" using raw cd x by blast
    then have "dedupe_key (x\<lparr>cf_evidence := sort (cf_evidence x)\<rparr>) \<in> dedupe_key ` set (dedupe_loop [] raw)"
      using dedupe_loop_keys[of "[]" raw] by auto
    then obtain z where z: "z \<in> set (dedupe_loop [] raw)" "dedupe_key (x\<lparr>cf_evidence := sort (cf_evidence x)\<rparr>) = dedupe_key z"
      by blast
    obtain y where y: "y \<in> set raw" "z = y\<lparr>cf_evidence := sort (cf_evidence y)\<rparr>" using dedupe_loop_sub[OF z(1)] by blast
    have code: "cf_code y = ''title_disagreement'' \<or> (\<exists>c'\<in>keys. \<exists>d'\<in>set dimensions. dimensionConflict c' d' (?obs c' d') = Some y)"
      using y(1) titles title unfolding raw by blast
    then have pl: "CHR 0x00 \<notin> set (cf_code z)" using dimensionConflict_fields by (auto simp: y(2))
    have px: "CHR 0x00 \<notin> set (cf_code (x\<lparr>cf_evidence := sort (cf_evidence x)\<rparr>))" using xf by simp
    note same = dedupe_key_conflict[OF z(2) px pl]
    have "cf_code y = ''contradictory_tracking_evidence''" using same(1) xf by (simp add: y(2))
    with code obtain c' d' where "c' \<in> keys" "d' \<in> set dimensions" "dimensionConflict c' d' (?obs c' d') = Some y" by auto
    note yf = this dimensionConflict_fields[OF this(3)]
    have "cf_connection_id z = c" "cf_dimension z = d" "cf_blocking z"
      using same(2,3) xf yf cd plain by (simp_all add: y(2))
    then show ?l using z(1) unfolding ag by blast
  qed
qed

text \<open>
  C31: An item carries a blocking conflict for a connection and dimension exactly when two known
  observations of that identity there differ in their value, external id or provider id; unknown
  observations contradict nothing, and the removal of duplicate conflicts loses no pair.
\<close>

theorem contradictions_block:
  assumes "AggregateRecords order clock input = Inr res" "lawful order" "item \<in> set (rr_items res)"
  shows "(\<exists>x\<in>set (ag_conflicts item). cf_blocking x \<and> cf_connection_id x = c \<and> cf_dimension x = d)
    \<longleftrightarrow> contradicted (observed (in_records input) (Identity_Key (ag_identity item)) c d)"
proof -
  obtain b where "item_of order clock input item b" using assms(3) result_items(2)[OF assms(1,2)] by blast
  moreover have "\<forall>r\<in>set (in_records input). Record_Validate r = None" "\<forall>c\<in>set (in_connections input). ConfigID_Valid c"
    using AggregateRecords_grouped[OF assms(1)] by metis+
  ultimately show ?thesis by (rule item_conflicts[OF _ assms(2)])
qed

section \<open>What the runtime's orders can change\<close>

definition dimension_view :: "dimension_evidence \<Rightarrow> tracking_dimension \<times> tracking_value \<times> bool \<times> string" where
  "dimension_view e = (de_dimension e, de_value e, de_known e, de_reason e)"

definition item_view where
  "item_view item = (ag_identity item, ag_title item, ag_titles item, ag_discovery_ids item, ag_observed_at item,
     map (\<lambda>i. (ie_connection_id i, map dimension_view (ie_dimensions i))) (ag_instances item))"

lemma dimension_view_order: "dimension_view (finish_dimension o1 now d obs) = dimension_view (finish_dimension o2 now d obs)"
  by (simp add: dimension_view_def finish_dimension_def Let_def split: prod.splits)

lemma item_header:
  assumes "item_of order clock input item b" "lawful order" "in_records input \<noteq> []"
  defines "rs \<equiv> keyed (Identity_Key (ag_identity item)) (in_records input)"
  shows "ag_titles item = sorted_list_of_set (titles_of rs)"
    and "ag_title item = (if ag_titles item = [] then [] else hd (ag_titles item))"
    and "ag_discovery_ids item = sorted_list_of_set (\<Union> (set ` rc_discovery_ids ` set rs))"
    and "ag_observed_at item = Max (rc_observed_at ` set rs)"
proof -
  from assms(1) have it: "item = builder_finish order (result_now clock input) (ensureConnections (sort (in_connections input)) b)"
    and bd: "builds rs b" and id: "ag_identity item \<in> rc_identity ` set (in_records input)"
    unfolding item_of_def rs_def by blast+
  have ks: "permutes (go_set order)" using assms(2) by (rule lawfulD)
  have ne: "rs \<noteq> []" using id unfolding rs_def keyed_def filter_empty_conv by auto
  have at: "ag_observed_at item = ab_observed_at b" by (simp add: it builder_finish_def Let_def frame_simps)
  show "ag_titles item = sorted_list_of_set (titles_of rs)"
    using bd ks by (simp add: it builder_finish_def Let_def frame_simps order_simps builds_def sort_distinct_set)
  show "ag_title item = (if ag_titles item = [] then [] else hd (ag_titles item))"
    by (simp add: it builder_finish_def Let_def)
  show "ag_discovery_ids item = sorted_list_of_set (\<Union> (set ` rc_discovery_ids ` set rs))"
    using bd ks by (simp add: it builder_finish_def Let_def frame_simps order_simps builds_def sort_distinct_set)
  show "ag_observed_at item = Max (rc_observed_at ` set rs)"
    using bd ne unfolding at builds_def by (intro Max_eqI[symmetric]) auto
qed

lemma item_view_determined:
  assumes "item_of o1 clock input x bx" "item_of o2 clock input y bw" "lawful o1" "lawful o2" "in_records input \<noteq> []"
    "ag_identity x = ag_identity y"
  shows "item_view x = item_view y"
proof -
  define g where "g c = (c, map (\<lambda>d. dimension_view (finish_dimension o2 (result_now clock input) d
      (observed (in_records input) (Identity_Key (ag_identity y)) c d))) dimensions)" for c
  have x: "map (\<lambda>i. (ie_connection_id i, map dimension_view (ie_dimensions i))) (ag_instances x)
      = map g (map ie_connection_id (ag_instances x))"
    unfolding map_map g_def comp_def
    by (rule map_cong[OF refl])
      (simp add: item_instances(2)[OF assms(1,3)] assms(6) comp_def dimension_view_order[of o1 _ _ _ o2])
  have y: "map (\<lambda>i. (ie_connection_id i, map dimension_view (ie_dimensions i))) (ag_instances y)
      = map g (map ie_connection_id (ag_instances y))"
    unfolding map_map g_def comp_def
    by (rule map_cong[OF refl]) (simp add: item_instances(2)[OF assms(2,4)] comp_def)
  have "map ie_connection_id (ag_instances x) = map ie_connection_id (ag_instances y)"
    unfolding item_instances(1)[OF assms(1,3)] item_instances(1)[OF assms(2,4)] assms(6) ..
  with x y show ?thesis
    using item_header[OF assms(1,3,5)] item_header[OF assms(2,4,5)] assms(6) by (simp add: item_view_def)
qed

text \<open>
  The orders in which the runtime ranges over maps and places equal sort keys change neither
  which items a result has and in what order, nor anything an item shows except the order of its
  conflicts and of observations with equal keys.
\<close>

theorem items_do_not_depend_on_map_order:
  assumes "AggregateRecords o1 clock input = Inr r1" "AggregateRecords o2 clock input = Inr r2" "lawful o1" "lawful o2"
  shows "map item_view (rr_items r1) = map item_view (rr_items r2)"
proof -
  let ?key = "\<lambda>i. Identity_Key (ag_identity i)"
  have keys: "map ?key (rr_items r1) = map ?key (rr_items r2)"
    unfolding result_items(1)[OF assms(1,3)] result_items(1)[OF assms(2,4)] ..
  then have len: "length (rr_items r1) = length (rr_items r2)" by (metis length_map)
  have valid: "\<forall>r\<in>set (in_records input). Record_Validate r = None" using AggregateRecords_grouped[OF assms(1)] by metis
  have "item_view (rr_items r1 ! k) = item_view (rr_items r2 ! k)" if k: "k < length (rr_items r1)" for k
  proof -
    let ?x = "rr_items r1 ! k" and ?y = "rr_items r2 ! k"
    obtain bx where x: "item_of o1 clock input ?x bx" using result_items(2)[OF assms(1,3), of ?x] k by auto
    obtain bw where y: "item_of o2 clock input ?y bw" using result_items(2)[OF assms(2,4), of ?y] k len by auto
    have "?key ?x = ?key ?y" using keys k len by (metis (no_types, lifting) nth_map)
    moreover have ids: "ag_identity ?x \<in> rc_identity ` set (in_records input)" "ag_identity ?y \<in> rc_identity ` set (in_records input)"
      using x y unfolding item_of_def by blast+
    then have "Identity_Validate (ag_identity ?x) = None" "Identity_Validate (ag_identity ?y) = None"
      using valid Record_Validate_identity by auto
    ultimately have "ag_identity ?x = ag_identity ?y" using Identity_Key_inj by blast
    moreover have "in_records input \<noteq> []" using ids(1) by auto
    ultimately show ?thesis using item_view_determined[OF x y assms(3,4)] by blast
  qed
  with len show ?thesis by (auto intro: nth_equalityI)
qed

section \<open>Examples\<close>

definition stable_order :: go_order where
  "stable_order = \<lparr>go_titles = \<lambda>_ xs. xs, go_groups = \<lambda>xs. xs, go_set = \<lambda>xs. xs,
     go_observations = \<lambda>xs. xs, go_conflicts = \<lambda>xs. xs\<rparr>"

definition reversed_titles :: go_order where
  "reversed_titles = stable_order\<lparr>go_titles := \<lambda>_. rev\<rparr>"

lemma example_orders_lawful: "lawful stable_order" "lawful reversed_titles"
  by (simp_all add: lawful_def permutes_def stable_order_def reversed_titles_def)

definition titled :: "string \<Rightarrow> tracking_observation list \<Rightarrow> reconcile_record" where
  "titled t obs = \<lparr>rc_identity = \<lparr>mi_kind = MediaMovie, mi_provider_id = ''tmdb-1''\<rparr>, rc_title = t,
     rc_discovery_ids = [], rc_tracking = obs, rc_observed_at = 10\<rparr>"

definition example_input :: "reconcile_record list \<Rightarrow> reconcile_input" where
  "example_input rs = \<lparr>in_records = rs, in_connections = [''sonarr''], in_now = 20, in_max_records = 0, in_max_observations = 0\<rparr>"

definition three_titles :: reconcile_input where
  "three_titles = example_input [titled ''Alien'' [], titled ''Aliens'' [], titled ''Alien 2'' []]"

definition absent_input :: reconcile_input where
  "absent_input = example_input [titled ''Alien'' [ex_absence]]"

definition example_result :: "go_order \<Rightarrow> reconcile_input \<Rightarrow> reconcile_result" where
  "example_result order input = (case AggregateRecords order 0 input of Inr r \<Rightarrow> r | Inl _ \<Rightarrow> \<lparr>rr_items = [], rr_conflicts = [], rr_observed_at = 0\<rparr>)"

definition contradictory_input :: reconcile_input where
  "contradictory_input = example_input [titled ''Alien'' [ex_absence, ex_absence\<lparr>to_value := TrackingPresent\<rparr>]]"

lemma example_aggregates:
  "AggregateRecords stable_order 0 absent_input = Inr (example_result stable_order absent_input)"
  "AggregateRecords stable_order 0 three_titles = Inr (example_result stable_order three_titles)"
  "AggregateRecords reversed_titles 0 three_titles = Inr (example_result reversed_titles three_titles)"
  "AggregateRecords stable_order 0 contradictory_input = Inr (example_result stable_order contradictory_input)"
proof -
  have ok: "AggregateRecords order 0 input = Inr (example_result order input)"
    if "in_max_records input = 0" "in_max_observations input = 0" "in_connections input = [''sonarr'']"
      "length (in_records input) \<le> 3" "length (concat (map rc_tracking (in_records input))) \<le> 3"
      "list_all (\<lambda>r. Record_Validate r = None) (in_records input)" for order input
  proof -
    have "ConfigID_Valid ''sonarr''" by code_simp
    then have "\<exists>res. AggregateRecords order 0 input = Inr res"
      unfolding AggregateRecords_succeeds using that by simp
    then show ?thesis by (auto simp: example_result_def)
  qed
  have "list_all (\<lambda>r. Record_Validate r = None) (in_records absent_input)"
    "list_all (\<lambda>r. Record_Validate r = None) (in_records three_titles)"
    "list_all (\<lambda>r. Record_Validate r = None) (in_records contradictory_input)"
    by code_simp+
  then show "AggregateRecords stable_order 0 absent_input = Inr (example_result stable_order absent_input)"
    "AggregateRecords stable_order 0 three_titles = Inr (example_result stable_order three_titles)"
    "AggregateRecords reversed_titles 0 three_titles = Inr (example_result reversed_titles three_titles)"
    "AggregateRecords stable_order 0 contradictory_input = Inr (example_result stable_order contradictory_input)"
    by (intro ok; simp add: absent_input_def three_titles_def contradictory_input_def example_input_def titled_def)+
qed

text \<open>
  The order of conflicts does depend on the order the runtime picks for a map: two runs over
  the same three records list the same title disagreements in different orders, because
  \<open>sortConflicts\<close> compares no part of the evidence.
\<close>

theorem conflict_order_depends_on_map_order:
  "\<exists>o1 o2 r1 r2. lawful o1 \<and> lawful o2
     \<and> AggregateRecords o1 0 three_titles = Inr r1 \<and> AggregateRecords o2 0 three_titles = Inr r2
     \<and> rr_conflicts r1 \<noteq> rr_conflicts r2 \<and> mset (rr_conflicts r1) = mset (rr_conflicts r2)"
proof -
  let ?r1 = "example_result stable_order three_titles" and ?r2 = "example_result reversed_titles three_titles"
  have "map cf_evidence (rr_conflicts ?r1) \<noteq> map cf_evidence (rr_conflicts ?r2)" by code_simp
  moreover have "mset (rr_conflicts ?r1) = mset (rr_conflicts ?r2)" by code_simp
  ultimately show ?thesis using example_aggregates(2,3) example_orders_lawful by metis
qed

theorem items_report_what_was_observed_witness:
  "map (\<lambda>i. Identity_Key (ag_identity i)) (rr_items (example_result stable_order absent_input))
     = [Identity_Key \<lparr>mi_kind = MediaMovie, mi_provider_id = ''tmdb-1''\<rparr>]"
proof -
  note p = items_report_what_was_observed[OF example_aggregates(1) example_orders_lawful(1)]
  show ?thesis using p[THEN conjunct1] by (simp add: absent_input_def example_input_def titled_def)
qed

theorem confirmed_absence_is_proved_witness:
  "\<exists>item\<in>set (rr_items (example_result stable_order absent_input)).
     \<exists>ob\<in>set (rc_tracking (hd (in_records absent_input))). concerns ''sonarr'' TrackingRegistration ob"
proof -
  let ?res = "example_result stable_order absent_input"
  have "(case Result_ConfirmedAbsentAt ?res 20 [''sonarr''] TrackingRegistration of Inr (x # _) \<Rightarrow> True | _ \<Rightarrow> False)"
    by code_simp
  then obtain x xs where "Result_ConfirmedAbsentAt ?res 20 [''sonarr''] TrackingRegistration = Inr (x # xs)"
    by (auto split: sum.splits list.splits)
  from confirmed_absence_is_proved[OF example_aggregates(1) example_orders_lawful(1) this, of x "''sonarr''"]
  have "x \<in> set (rr_items ?res)"
    "\<exists>r\<in>set (in_records absent_input). \<exists>ob\<in>set (rc_tracking r). concerns ''sonarr'' TrackingRegistration ob"
    by auto
  then show ?thesis by (auto simp: absent_input_def example_input_def)
qed

theorem contradictions_block_witness:
  "\<exists>x\<in>set (ag_conflicts (hd (rr_items (example_result stable_order contradictory_input)))).
     cf_blocking x \<and> cf_connection_id x = ''sonarr'' \<and> cf_dimension x = TrackingRegistration"
proof -
  let ?item = "hd (rr_items (example_result stable_order contradictory_input))"
  have "rr_items (example_result stable_order contradictory_input) \<noteq> []" by code_simp
  then have "?item \<in> set (rr_items (example_result stable_order contradictory_input))" by simp
  note p = contradictions_block[OF example_aggregates(4) example_orders_lawful(1) this]
  have "contradicted (observed (in_records contradictory_input) (Identity_Key (ag_identity ?item)) ''sonarr'' TrackingRegistration)"
    by code_simp
  then show ?thesis using p by blast
qed

theorem items_do_not_depend_on_map_order_witness:
  "map item_view (rr_items (example_result stable_order three_titles)) = map item_view (rr_items (example_result reversed_titles three_titles))"
  by (rule items_do_not_depend_on_map_order[OF example_aggregates(2,3) example_orders_lawful])

end
