(* ===== verification/Scan_Types.thy ===== *)
theory Scan_Types
  imports Observations
begin

text \<open>
  The data of the scan scheduler (\<^verbatim>\<open>internal/scanning/scanning.go\<close>): schedules, root projections,
  scan records and the durable snapshot, with the checks the code makes on them. The facts at the
  end read the loop-based \<open>Snapshot.Validate\<close> as a conjunction of conditions on the lists.

  A nil slice and an empty one differ where the code tests for nil, so source coverage is a
  \<open>coverage list option\<close>. \<open>Version\<close> (\<^verbatim>\<open>uint64\<close>) and \<open>Attempt\<close> (\<^verbatim>\<open>int\<close>) are counted up, so they are
  64-bit words; the other integers are only compared and are \<open>int\<close>.
\<close>

section \<open>Enumerations\<close>

datatype scan_state =
    StateQueued | StateRunning | StateWaiting | StateSucceeded | StateFailed | StateCancelled
  | StateDeadlineExceeded | ScanStateOther string

fun ScanState_Valid :: "scan_state \<Rightarrow> bool" where
  "ScanState_Valid (ScanStateOther _) = False"
| "ScanState_Valid _ = True"

fun ScanState_Terminal :: "scan_state \<Rightarrow> bool" where
  "ScanState_Terminal StateSucceeded = True"
| "ScanState_Terminal StateFailed = True"
| "ScanState_Terminal StateCancelled = True"
| "ScanState_Terminal StateDeadlineExceeded = True"
| "ScanState_Terminal _ = False"

datatype trigger_kind = TriggerScheduled | TriggerManual | TriggerRecovery | TriggerOther string

abbreviation trigger_empty :: trigger_kind where
  "trigger_empty \<equiv> TriggerOther []"

fun TriggerKind_Valid :: "trigger_kind \<Rightarrow> bool" where
  "TriggerKind_Valid (TriggerOther _) = False"
| "TriggerKind_Valid _ = True"

definition followUpTriggerValid :: "trigger_kind \<Rightarrow> bool" where
  "followUpTriggerValid t \<longleftrightarrow> t = TriggerScheduled \<or> t = TriggerManual"

section \<open>Bounds\<close>

definition defaultMaxCursorBytes :: int where "defaultMaxCursorBytes = 64 * 2 ^ 10"
definition defaultMaxErrorDetail :: int where "defaultMaxErrorDetail = 2 * 2 ^ 10"
definition maxScanErrorCodeBytes :: nat where "maxScanErrorCodeBytes = 128"
definition maxConfigRevisionBytes :: nat where "maxConfigRevisionBytes = 256"

section \<open>Schedules\<close>

datatype revision_error = RevisionRequired | RevisionNotTrimmed | RevisionTooLong | RevisionControl

text \<open>
  \<open>unicode.IsControl\<close> over the runes of a string: the ASCII controls and the two-byte encodings of
  U+0080 to U+009F. The byte C2 only ever starts a rune, so the scan can go byte by byte.
\<close>

definition ascii_control :: "char \<Rightarrow> bool" where
  "ascii_control c \<longleftrightarrow> (of_char c :: nat) < 32 \<or> (of_char c :: nat) = 127"

fun has_control :: "string \<Rightarrow> bool" where
  "has_control [] = False"
| "has_control [c] = ascii_control c"
| "has_control (c # d # r) \<longleftrightarrow>
     ascii_control c \<or> c = CHR 0xC2 \<and> 128 \<le> (of_char d :: nat) \<and> (of_char d :: nat) \<le> 159
     \<or> has_control (d # r)"

definition validateConfigRevision :: "string \<Rightarrow> revision_error option" where
  "validateConfigRevision revision =
     (if blank revision then Some RevisionRequired
      else if revision \<noteq> trim_space revision then Some RevisionNotTrimmed
      else if maxConfigRevisionBytes < length revision then Some RevisionTooLong
      else if has_control revision then Some RevisionControl
      else None)"

record root_schedule =
  rs_id :: config_id
  rs_revision :: string
  rs_enabled :: bool
  rs_interval :: duration

datatype schedule_error =
    ScheduleInvalidID | ScheduleRevision revision_error | ScheduleNoInterval
  | ScheduleBelowMinimum | ScheduleNegativeInterval

definition RootSchedule_Validate :: "duration \<Rightarrow> root_schedule \<Rightarrow> schedule_error option" where
  "RootSchedule_Validate minimumInterval s =
     (if \<not> ConfigID_Valid (rs_id s) then Some ScheduleInvalidID
      else case validateConfigRevision (rs_revision s) of
        Some e \<Rightarrow> Some (ScheduleRevision e)
      | None \<Rightarrow>
          if rs_enabled s then
            (if rs_interval s \<le> 0 then Some ScheduleNoInterval
             else if 0 < minimumInterval \<and> rs_interval s < minimumInterval then Some ScheduleBelowMinimum
             else None)
          else if rs_interval s < 0 then Some ScheduleNegativeInterval
          else None)"

section \<open>Roots, scans and the snapshot\<close>

record root_state =
  rt_schedule :: root_schedule
  rt_retired :: bool
  rt_next_scheduled_at :: "time option"
  rt_active_scan_id :: runtime_id
  rt_follow_up_pending :: bool
  rt_follow_up_trigger :: trigger_kind
  rt_last_scan_id :: runtime_id
  rt_last_coverage :: "coverage option"
  rt_last_complete_scan_id :: runtime_id
  rt_last_complete_coverage :: "coverage option"
  rt_retired_at :: "time option"

abbreviation rt_id :: "root_state \<Rightarrow> config_id" where
  "rt_id r \<equiv> rs_id (rt_schedule r)"

abbreviation rt_revision :: "root_state \<Rightarrow> string" where
  "rt_revision r \<equiv> rs_revision (rt_schedule r)"

record scan_record =
  sc_id :: runtime_id
  sc_root_id :: config_id
  sc_config_revision :: string
  sc_trigger :: trigger_kind
  sc_state :: scan_state
  sc_cursor :: string
  sc_observed_count :: int
  sc_coverage :: coverage
  sc_source_coverage :: "coverage list option"
  sc_started_at :: "time option"
  sc_completed_at :: "time option"
  sc_next_attempt_at :: "time option"
  sc_cancellation_requested_at :: "time option"
  sc_created_at :: time
  sc_updated_at :: time
  sc_attempt :: "64 word"
  sc_error_code :: string
  sc_error_detail :: string

abbreviation sc_terminal :: "scan_record \<Rightarrow> bool" where
  "sc_terminal r \<equiv> ScanState_Terminal (sc_state r)"

fun slice_items :: "'a list option \<Rightarrow> 'a list" where
  "slice_items None = []"
| "slice_items (Some xs) = xs"

definition CanAssertAbsence :: "scan_record \<Rightarrow> bool" where
  "CanAssertAbsence r =
     (if sc_state r \<noteq> StateSucceeded \<or> cov_completeness (sc_coverage r) \<noteq> CompletenessComplete
         \<or> sc_cursor r \<noteq> [] then False
      else if slice_items (sc_source_coverage r) = [] then False
      else list_all (\<lambda>c. cov_completeness c = CompletenessComplete) (slice_items (sc_source_coverage r)))"

record snapshot =
  sn_version :: "64 word"
  sn_roots :: "root_state list"
  sn_scans :: "scan_record list"

section \<open>Validation of scan records\<close>

datatype scan_problem =
    ScanInvalidID | ScanInvalidRootID | ScanRevision revision_error | ScanInvalidTrigger
  | ScanInvalidState | ScanNegativeCount | ScanNegativeAttempt | ScanCursorTooLarge
  | ScanMetadataTooLarge | ScanNoTimestamps | ScanUpdatedBeforeCreated | ScanStartedBeforeCreated
  | ScanCompletedNotStarted | ScanCompletedBeforeStart | ScanTerminalNotCompleted
  | ScanLiveCompleted | ScanCoverageOtherRoot | ScanCoverage coverage_error
  | ScanCompleteNotCompleted | ScanSourceOtherRoot nat | ScanSourceCoverage nat coverage_error
  | ScanSourceNotCompleted nat

text \<open>The last loop of the check: the source coverage records in order, with their index.\<close>

fun scan_sources_check :: "config_id \<Rightarrow> nat \<Rightarrow> coverage list \<Rightarrow> scan_problem option" where
  "scan_sources_check root index [] = None"
| "scan_sources_check root index (c # cs) =
     (if cov_root_id c \<noteq> [] \<and> cov_root_id c \<noteq> root then Some (ScanSourceOtherRoot index)
      else case Coverage_Validate c of
        Some e \<Rightarrow> Some (ScanSourceCoverage index e)
      | None \<Rightarrow>
          if cov_completeness c = CompletenessComplete \<and> cov_completed_at c = None
          then Some (ScanSourceNotCompleted index)
          else scan_sources_check root (Suc index) cs)"

definition ScanRecord_validate :: "scan_record \<Rightarrow> scan_problem option" where
  "ScanRecord_validate r =
     (if \<not> RuntimeID_Valid (sc_id r) then Some ScanInvalidID
      else if \<not> ConfigID_Valid (sc_root_id r) then Some ScanInvalidRootID
      else case (if sc_config_revision r \<noteq> [] then validateConfigRevision (sc_config_revision r) else None) of
        Some e \<Rightarrow> Some (ScanRevision e)
      | None \<Rightarrow>
          if \<not> TriggerKind_Valid (sc_trigger r) then Some ScanInvalidTrigger
          else if \<not> ScanState_Valid (sc_state r) then Some ScanInvalidState
          else if sc_observed_count r < 0 then Some ScanNegativeCount
          else if sint (sc_attempt r) < 0 then Some ScanNegativeAttempt
          else if defaultMaxCursorBytes < int (length (sc_cursor r)) then Some ScanCursorTooLarge
          else if maxScanErrorCodeBytes < length (sc_error_code r)
                  \<or> maxConfigRevisionBytes < length (sc_config_revision r)
                  \<or> defaultMaxErrorDetail < int (length (sc_error_detail r)) then Some ScanMetadataTooLarge
          else if time_is_zero (sc_created_at r) \<or> time_is_zero (sc_updated_at r) then Some ScanNoTimestamps
          else if time_before (sc_updated_at r) (sc_created_at r) then Some ScanUpdatedBeforeCreated
          else if some_time (\<lambda>started. time_before started (sc_created_at r)) (sc_started_at r)
            then Some ScanStartedBeforeCreated
          else if sc_completed_at r \<noteq> None \<and> sc_started_at r = None
                  \<and> sc_state r \<noteq> StateCancelled \<and> sc_state r \<noteq> StateDeadlineExceeded
            then Some ScanCompletedNotStarted
          else if both_times (\<lambda>completed started. time_before completed started)
                    (sc_completed_at r) (sc_started_at r) then Some ScanCompletedBeforeStart
          else if sc_terminal r \<and> sc_completed_at r = None then Some ScanTerminalNotCompleted
          else if \<not> sc_terminal r \<and> sc_completed_at r \<noteq> None then Some ScanLiveCompleted
          else if cov_root_id (sc_coverage r) \<noteq> [] \<and> cov_root_id (sc_coverage r) \<noteq> sc_root_id r
            then Some ScanCoverageOtherRoot
          else case Coverage_Validate (sc_coverage r) of
            Some e \<Rightarrow> Some (ScanCoverage e)
          | None \<Rightarrow>
              if cov_completeness (sc_coverage r) = CompletenessComplete
                 \<and> cov_completed_at (sc_coverage r) = None then Some ScanCompleteNotCompleted
              else scan_sources_check (sc_root_id r) 0 (slice_items (sc_source_coverage r)))"

section \<open>Validation of a snapshot\<close>

datatype root_problem =
    RootSchedule schedule_error | RootDuplicate | RootInvalidActive | RootInvalidLast
  | RootInvalidComplete | RootFollowUpTrigger | RootTriggerNotPending | RootRetiredEnabled
  | RootRetiredNoTime | RootRetiredScheduled | RootActiveRetirement | RootCoverageOtherRoot bool
  | RootCoverage bool coverage_error

datatype snapshot_problem =
    SnapshotRoot nat root_problem
  | SnapshotScan nat scan_problem
  | SnapshotUnknownRoot runtime_id
  | SnapshotDuplicateScan runtime_id
  | SnapshotTwoActive config_id runtime_id runtime_id
  | SnapshotActiveMismatch config_id

text \<open>
  The coverage projections of a root: the last one (\<open>False\<close>) and the last complete one (\<open>True\<close>).
  The code ranges over a two-element map, so which of two bad projections it names is not fixed;
  the model names the last one first.
\<close>

definition root_coverage_check :: "config_id \<Rightarrow> bool \<Rightarrow> coverage option \<Rightarrow> root_problem option" where
  "root_coverage_check root complete cov =
     (case cov of
        None \<Rightarrow> None
      | Some c \<Rightarrow>
          if cov_root_id c \<noteq> [] \<and> cov_root_id c \<noteq> root then Some (RootCoverageOtherRoot complete)
          else case Coverage_Validate c of
            Some e \<Rightarrow> Some (RootCoverage complete e)
          | None \<Rightarrow> None)"

definition root_check :: "duration \<Rightarrow> config_id list \<Rightarrow> root_state \<Rightarrow> root_problem option" where
  "root_check minimumInterval seen r =
     (case RootSchedule_Validate minimumInterval (rt_schedule r) of
        Some e \<Rightarrow> Some (RootSchedule e)
      | None \<Rightarrow>
          if List.member seen (rt_id r) then Some RootDuplicate
          else if rt_active_scan_id r \<noteq> [] \<and> \<not> RuntimeID_Valid (rt_active_scan_id r) then Some RootInvalidActive
          else if rt_last_scan_id r \<noteq> [] \<and> \<not> RuntimeID_Valid (rt_last_scan_id r) then Some RootInvalidLast
          else if rt_last_complete_scan_id r \<noteq> [] \<and> \<not> RuntimeID_Valid (rt_last_complete_scan_id r)
            then Some RootInvalidComplete
          else if rt_follow_up_pending r \<and> rt_follow_up_trigger r \<noteq> trigger_empty
                  \<and> \<not> followUpTriggerValid (rt_follow_up_trigger r) then Some RootFollowUpTrigger
          else if \<not> rt_follow_up_pending r \<and> rt_follow_up_trigger r \<noteq> trigger_empty
            then Some RootTriggerNotPending
          else if rt_retired r \<and> rs_enabled (rt_schedule r) then Some RootRetiredEnabled
          else if rt_retired r \<and> rt_retired_at r = None then Some RootRetiredNoTime
          else if rt_retired r \<and> rt_next_scheduled_at r \<noteq> None then Some RootRetiredScheduled
          else if \<not> rt_retired r \<and> rt_retired_at r \<noteq> None then Some RootActiveRetirement
          else case root_coverage_check (rt_id r) False (rt_last_coverage r) of
            Some e \<Rightarrow> Some e
          | None \<Rightarrow> root_coverage_check (rt_id r) True (rt_last_complete_coverage r))"

fun roots_check :: "duration \<Rightarrow> config_id list \<Rightarrow> nat \<Rightarrow> root_state list \<Rightarrow> snapshot_problem option" where
  "roots_check minimumInterval seen index [] = None"
| "roots_check minimumInterval seen index (r # rs) =
     (case root_check minimumInterval seen r of
        Some e \<Rightarrow> Some (SnapshotRoot index e)
      | None \<Rightarrow> roots_check minimumInterval (seen @ [rt_id r]) (Suc index) rs)"

text \<open>The loop over the scans returns the map from a root to its one active scan.\<close>

fun scans_check ::
  "config_id list \<Rightarrow> runtime_id list \<Rightarrow> (config_id \<times> runtime_id) list \<Rightarrow> nat \<Rightarrow> scan_record list
    \<Rightarrow> snapshot_problem + (config_id \<times> runtime_id) list"
where
  "scans_check known seen active index [] = Inr active"
| "scans_check known seen active index (s # ss) =
     (case ScanRecord_validate s of
        Some e \<Rightarrow> Inl (SnapshotScan index e)
      | None \<Rightarrow>
          if \<not> List.member known (sc_root_id s) then Inl (SnapshotUnknownRoot (sc_id s))
          else if List.member seen (sc_id s) then Inl (SnapshotDuplicateScan (sc_id s))
          else if \<not> sc_terminal s then
            (case map_of active (sc_root_id s) of
               Some previous \<Rightarrow> Inl (SnapshotTwoActive (sc_root_id s) previous (sc_id s))
             | None \<Rightarrow>
                 scans_check known (seen @ [sc_id s]) ((sc_root_id s, sc_id s) # active) (Suc index) ss)
          else scans_check known (seen @ [sc_id s]) active (Suc index) ss)"

fun active_refs_check :: "(config_id \<times> runtime_id) list \<Rightarrow> root_state list \<Rightarrow> snapshot_problem option" where
  "active_refs_check active [] = None"
| "active_refs_check active (r # rs) =
     (if (case map_of active (rt_id r) of None \<Rightarrow> [] | Some i \<Rightarrow> i) \<noteq> rt_active_scan_id r
      then Some (SnapshotActiveMismatch (rt_id r))
      else active_refs_check active rs)"

definition Snapshot_Validate :: "duration \<Rightarrow> snapshot \<Rightarrow> snapshot_problem option" where
  "Snapshot_Validate minimumInterval s =
     (case roots_check minimumInterval [] 0 (sn_roots s) of
        Some e \<Rightarrow> Some e
      | None \<Rightarrow>
          (case scans_check (map rt_id (sn_roots s)) [] [] 0 (sn_scans s) of
             Inl e \<Rightarrow> Some e
           | Inr active \<Rightarrow> active_refs_check active (sn_roots s)))"

end
