(* ===== verification/Scan_Ops.thy ===== *)
theory Scan_Ops
  imports Scan_Types
begin

text \<open>
  The pure steps of the scan scheduler (\<^verbatim>\<open>internal/scanning/scanning.go\<close>): searches in a snapshot,
  follow-ups, terminal transitions of a scan, projections of a root, admission of a fresh scan and
  the normalisation of evidence a runner reports. A Go pointer into a slice is the index of the
  element; a function that mutates through pointers returns the new values. Random bytes are read
  from \<open>rand\<close>, a function from the number of draws made so far, and a function that admits a scan
  returns the number of draws after it.
\<close>

type_synonym rand = "nat \<Rightarrow> raw16 option"

section \<open>Time, reasons and error text\<close>

definition nowUTC :: "time \<Rightarrow> time" where
  "nowUTC v = (if time_is_zero v then unix_one else v)"

definition due :: "time option \<Rightarrow> time \<Rightarrow> bool" where
  "due t now \<longleftrightarrow> (case t of None \<Rightarrow> True | Some x \<Rightarrow> \<not> time_after x now)"

definition advanceScheduledAt :: "time option \<Rightarrow> time \<Rightarrow> duration \<Rightarrow> time option" where
  "advanceScheduledAt t now interval =
     (if interval \<le> 0 then Some now
      else case t of
        None \<Rightarrow> Some (now + interval)
      | Some x \<Rightarrow> if \<not> time_after x now then Some (now + interval) else Some x)"

definition retryAt :: "time option \<Rightarrow> time \<Rightarrow> duration \<Rightarrow> time option" where
  "retryAt requested now backoff =
     (if some_time (\<lambda>t. time_after t now) requested then requested else Some (now + backoff))"

definition continuationAt :: "time option \<Rightarrow> time \<Rightarrow> time option" where
  "continuationAt requested now =
     (if some_time (\<lambda>t. time_after t now) requested then requested else Some now)"

definition hasReason :: "coverage \<Rightarrow> string \<Rightarrow> bool" where
  "hasReason c reason \<longleftrightarrow> List.member (cov_reason_codes c) reason"

definition appendReason :: "string \<Rightarrow> coverage \<Rightarrow> coverage" where
  "appendReason reason c =
     (if reason = [] \<or> hasReason c reason then c
      else c\<lparr>cov_reason_codes := cov_reason_codes c @ [reason]\<rparr>)"

text \<open>\<open>sanitizeError\<close> of an error, given its text; the caller never passes nil.\<close>

definition sanitizeError :: "string \<Rightarrow> int \<Rightarrow> string" where
  "sanitizeError text maxBytes =
     (let message = join_with '' '' (string_fields text) in
      if maxBytes \<le> 0 \<or> int (length message) \<le> maxBytes then message
      else take (nat maxBytes) message)"

definition empty_coverage :: coverage where
  "empty_coverage =
     \<lparr>cov_source_id = [], cov_connection_id = [], cov_root_id = [], cov_completeness = completeness_empty,
      cov_reason_codes = [], cov_observed_count = 0, cov_snapshot_revision = [], cov_started_at = None,
      cov_completed_at = None, cov_observed_at = 0\<rparr>"

definition unknownCoverage :: "config_id \<Rightarrow> time \<Rightarrow> string \<Rightarrow> coverage" where
  "unknownCoverage rootID observedAt reason =
     appendReason reason
       (empty_coverage\<lparr>cov_root_id := rootID, cov_completeness := CompletenessUnknown, cov_observed_at := observedAt\<rparr>)"

section \<open>Searches\<close>

definition rootIndex :: "root_state list \<Rightarrow> config_id \<Rightarrow> nat option" where
  "rootIndex roots i = find_index (\<lambda>r. rt_id r = i) roots"

definition scanIndex :: "scan_record list \<Rightarrow> runtime_id \<Rightarrow> nat option" where
  "scanIndex scans i = find_index (\<lambda>s. sc_id s = i) scans"

definition activeScanIndex :: "scan_record list \<Rightarrow> config_id \<Rightarrow> nat option" where
  "activeScanIndex scans rootID = find_index (\<lambda>s. sc_root_id s = rootID \<and> \<not> sc_terminal s) scans"

section \<open>Follow-ups\<close>

definition retainFollowUp :: "trigger_kind \<Rightarrow> root_state \<Rightarrow> root_state" where
  "retainFollowUp trigger root =
     (if \<not> followUpTriggerValid trigger then root
      else
        (if \<not> rt_follow_up_pending root \<or> rt_follow_up_trigger root = trigger_empty \<or> trigger = TriggerManual
         then root\<lparr>rt_follow_up_trigger := trigger\<rparr> else root)\<lparr>rt_follow_up_pending := True\<rparr>)"

definition clearFollowUp :: "root_state \<Rightarrow> root_state" where
  "clearFollowUp root = root\<lparr>rt_follow_up_pending := False, rt_follow_up_trigger := trigger_empty\<rparr>"

section \<open>Terminal transitions of a scan\<close>

definition downgrade_complete :: "string \<Rightarrow> scan_record \<Rightarrow> scan_record" where
  "downgrade_complete reason scan =
     (if cov_completeness (sc_coverage scan) = CompletenessComplete
      then scan\<lparr>sc_coverage := appendReason reason ((sc_coverage scan)\<lparr>cov_completeness := CompletenessPartial\<rparr>)\<rparr>
      else scan)"

definition finalizeStale :: "time \<Rightarrow> int \<Rightarrow> scan_record \<Rightarrow> scan_record" where
  "finalizeStale now maxDetail scan =
     (downgrade_complete ''stale_config_revision''
        (scan\<lparr>sc_state := StateCancelled, sc_completed_at := Some now, sc_next_attempt_at := None,
              sc_error_code := ''stale_config_revision'',
              sc_error_detail := sanitizeError ''scan configuration revision is no longer current'' maxDetail\<rparr>))
     \<lparr>sc_updated_at := now\<rparr>"

definition finalizeCancelled :: "time \<Rightarrow> int \<Rightarrow> scan_record \<Rightarrow> scan_record" where
  "finalizeCancelled now maxDetail scan =
     downgrade_complete ''scan_cancelled''
       (scan\<lparr>sc_state := StateCancelled, sc_completed_at := Some now, sc_next_attempt_at := None,
             sc_error_code := ''cancelled'',
             sc_error_detail := sanitizeError ''scan cancellation requested'' maxDetail\<rparr>)"

definition finalizeDeadline :: "time \<Rightarrow> int \<Rightarrow> scan_record \<Rightarrow> scan_record" where
  "finalizeDeadline now maxDetail scan =
     downgrade_complete ''scan_deadline_exceeded''
       (scan\<lparr>sc_state := StateDeadlineExceeded, sc_completed_at := Some now, sc_next_attempt_at := None,
             sc_error_code := ''deadline_exceeded'',
             sc_error_detail := sanitizeError ''context deadline exceeded'' maxDetail\<rparr>)"

section \<open>Projections of a root\<close>

definition updateRootAfterTerminal :: "scan_record \<Rightarrow> root_state \<Rightarrow> root_state" where
  "updateRootAfterTerminal scan root =
     (if \<not> sc_terminal scan then root
      else
        let root1 = (if rt_active_scan_id root = sc_id scan then root\<lparr>rt_active_scan_id := []\<rparr> else root) in
        if sc_config_revision scan \<noteq> rt_revision root1 then root1
        else
          let root2 = root1\<lparr>rt_last_scan_id := sc_id scan, rt_last_coverage := Some (sc_coverage scan)\<rparr> in
          if CanAssertAbsence scan
          then root2\<lparr>rt_last_complete_scan_id := sc_id scan,
                     rt_last_complete_coverage := Some (sc_coverage scan)\<rparr>
          else root2)"

definition invalidateRootEvidence :: "root_state \<Rightarrow> root_state" where
  "invalidateRootEvidence root =
     root\<lparr>rt_last_scan_id := [], rt_last_coverage := None,
          rt_last_complete_scan_id := [], rt_last_complete_coverage := None\<rparr>"

definition invalidateRootCompleteEvidence :: "root_state \<Rightarrow> root_state" where
  "invalidateRootCompleteEvidence root =
     root\<lparr>rt_last_complete_scan_id := [], rt_last_complete_coverage := None\<rparr>"

section \<open>Admission\<close>

definition blank_scan_record :: "root_schedule \<Rightarrow> trigger_kind \<Rightarrow> time \<Rightarrow> scan_record" where
  "blank_scan_record schedule trigger now =
     \<lparr>sc_id = [], sc_root_id = rs_id schedule, sc_config_revision = rs_revision schedule,
      sc_trigger = trigger, sc_state = StateQueued, sc_cursor = [], sc_observed_count = 0,
      sc_coverage = unknownCoverage (rs_id schedule) now ''scan_id_unavailable'', sc_source_coverage = None,
      sc_started_at = None, sc_completed_at = None, sc_next_attempt_at = None,
      sc_cancellation_requested_at = None, sc_created_at = now, sc_updated_at = now,
      sc_attempt = 0, sc_error_code = [], sc_error_detail = []\<rparr>"

definition newScanRecord :: "rand \<Rightarrow> nat \<Rightarrow> root_schedule \<Rightarrow> trigger_kind \<Rightarrow> time \<Rightarrow> scan_record \<times> nat" where
  "newScanRecord rand draws schedule trigger now =
     (case NewRuntimeID (rand draws) of
        Inl _ \<Rightarrow> blank_scan_record schedule trigger now
      | Inr i \<Rightarrow> (blank_scan_record schedule trigger now)
          \<lparr>sc_id := i, sc_coverage := unknownCoverage (rs_id schedule) now ''scan_queued''\<rparr>,
      Suc draws)"

definition enqueueCurrentRevision ::
  "rand \<Rightarrow> nat \<Rightarrow> scan_record list \<Rightarrow> root_state \<Rightarrow> time \<Rightarrow> scan_record list \<times> root_state \<times> nat" where
  "enqueueCurrentRevision rand draws scans root now =
     (if rt_retired root
      then (scans, (clearFollowUp (root\<lparr>rt_active_scan_id := []\<rparr>))\<lparr>rt_next_scheduled_at := None\<rparr>, draws)
      else
        let (fresh, draws') = newScanRecord rand draws (rt_schedule root) TriggerScheduled now;
            root1 = clearFollowUp (root\<lparr>rt_active_scan_id := sc_id fresh\<rparr>)
        in (scans @ [fresh],
            root1\<lparr>rt_next_scheduled_at :=
              (if rs_enabled (rt_schedule root1) \<and> \<not> rt_retired root1
               then Some (now + rs_interval (rt_schedule root1)) else None)\<rparr>,
            draws'))"

section \<open>Evidence\<close>

datatype progress_problem =
    CursorTooLarge | CountNegative | CoverageRootMismatch | SourceOtherRoot nat
  | SourceInvalid nat coverage_error | CoverageInvalid coverage_error | RevisionStale

text \<open>The defaults a coverage record gets, one field at a time.\<close>

definition default_root :: "config_id \<Rightarrow> coverage \<Rightarrow> coverage" where
  "default_root rootID c = (if cov_root_id c = [] then c\<lparr>cov_root_id := rootID\<rparr> else c)"

definition default_completeness :: "coverage \<Rightarrow> coverage" where
  "default_completeness c =
     (if cov_completeness c = completeness_empty then c\<lparr>cov_completeness := CompletenessUnknown\<rparr> else c)"

definition default_observed_at :: "time \<Rightarrow> coverage \<Rightarrow> coverage" where
  "default_observed_at now c = (if time_is_zero (cov_observed_at c) then c\<lparr>cov_observed_at := now\<rparr> else c)"

definition default_started_at :: "time option \<Rightarrow> coverage \<Rightarrow> coverage" where
  "default_started_at t c = (if cov_started_at c = None then c\<lparr>cov_started_at := t\<rparr> else c)"

definition default_completed_at :: "time \<Rightarrow> coverage \<Rightarrow> coverage" where
  "default_completed_at now c = (if cov_completed_at c = None then c\<lparr>cov_completed_at := Some now\<rparr> else c)"

definition raise_observed_at :: "coverage \<Rightarrow> coverage" where
  "raise_observed_at c =
     (case cov_completed_at c of
        None \<Rightarrow> c
      | Some t \<Rightarrow> if time_after t (cov_observed_at c) then c\<lparr>cov_observed_at := t\<rparr> else c)"

text \<open>One source coverage record: defaults, then its validation.\<close>

definition normalize_source :: "config_id \<Rightarrow> int \<Rightarrow> time \<Rightarrow> nat \<Rightarrow> coverage \<Rightarrow> progress_problem + coverage" where
  "normalize_source rootID observedCount now index source0 =
     (if cov_root_id source0 \<noteq> [] \<and> cov_root_id source0 \<noteq> rootID then Inl (SourceOtherRoot index)
      else
        let s1 = default_observed_at now (default_completeness (default_root rootID source0));
            s2 = (if cov_completeness s1 = CompletenessComplete
                  then raise_observed_at (default_completed_at now (default_started_at (Some now) s1)) else s1);
            s3 = (if cov_observed_count s2 < observedCount \<and> cov_observed_count s2 < 0
                  then s2\<lparr>cov_observed_count := 0\<rparr> else s2)
        in (case Coverage_Validate s3 of
              Some e \<Rightarrow> Inl (SourceInvalid index e)
            | None \<Rightarrow> Inr s3))"

text \<open>What one source does to the aggregate coverage.\<close>

definition absorb_source :: "coverage \<Rightarrow> coverage \<Rightarrow> coverage" where
  "absorb_source source cov =
     (case cov_completeness source of
        CompletenessUnknown \<Rightarrow>
          appendReason ''source_coverage_unknown'' (cov\<lparr>cov_completeness := CompletenessUnknown\<rparr>)
      | CompletenessPartial \<Rightarrow>
          appendReason ''source_coverage_partial''
            (if cov_completeness cov = CompletenessComplete then cov\<lparr>cov_completeness := CompletenessPartial\<rparr> else cov)
      | _ \<Rightarrow> cov)"

fun normalize_sources ::
  "config_id \<Rightarrow> int \<Rightarrow> time \<Rightarrow> nat \<Rightarrow> coverage \<Rightarrow> coverage list \<Rightarrow> progress_problem + coverage \<times> coverage list"
where
  "normalize_sources rootID observedCount now index cov [] = Inr (cov, [])"
| "normalize_sources rootID observedCount now index cov (s # ss) =
     (case normalize_source rootID observedCount now index s of
        Inl e \<Rightarrow> Inl e
      | Inr s' \<Rightarrow>
          (case normalize_sources rootID observedCount now (Suc index) (absorb_source s' cov) ss of
             Inl e \<Rightarrow> Inl e
           | Inr (cov', ss') \<Rightarrow> Inr (cov', s' # ss')))"

text \<open>The defaults of the aggregate coverage, before its sources are looked at.\<close>

definition normalize_coverage :: "config_id \<Rightarrow> string \<Rightarrow> int \<Rightarrow> time option \<Rightarrow> time \<Rightarrow> coverage \<Rightarrow> coverage" where
  "normalize_coverage rootID cursor observedCount startedAt now cov0 =
     (let c1 = default_observed_at now (default_completeness (default_root rootID cov0));
          c2 = (if cov_observed_count c1 < observedCount then c1\<lparr>cov_observed_count := observedCount\<rparr> else c1);
          c3 = default_started_at (Some now) (default_started_at startedAt c2);
          c4 = (if cov_completeness c3 = CompletenessComplete then default_completed_at now c3 else c3);
          c5 = raise_observed_at c4
      in if cursor \<noteq> [] \<and> cov_completeness c5 = CompletenessComplete
         then appendReason ''continuation_pending'' (c5\<lparr>cov_completeness := CompletenessPartial\<rparr>)
         else c5)"

definition normalizeEvidence ::
  "int \<Rightarrow> config_id \<Rightarrow> coverage \<Rightarrow> coverage list option \<Rightarrow> string \<Rightarrow> int \<Rightarrow> time option \<Rightarrow> time
    \<Rightarrow> progress_problem + coverage \<times> coverage list option"
where
  "normalizeEvidence maxCursorBytes rootID cov sources cursor observedCount startedAt now =
     (if maxCursorBytes < int (length cursor) then Inl CursorTooLarge
      else if observedCount < 0 then Inl CountNegative
      else if cov_root_id cov \<noteq> [] \<and> cov_root_id cov \<noteq> rootID then Inl CoverageRootMismatch
      else
        case normalize_sources rootID observedCount now 0
               (normalize_coverage rootID cursor observedCount startedAt now cov) (slice_items sources) of
          Inl e \<Rightarrow> Inl e
        | Inr (cov', sources') \<Rightarrow>
            (case Coverage_Validate cov' of
               Some e \<Rightarrow> Inl (CoverageInvalid e)
             | None \<Rightarrow> Inr (cov', map_option (\<lambda>_. sources') sources)))"

end
