(* ===== verification/Scheduler.thy ===== *)
theory Scheduler
  imports Scan_Ops "HOL-Library.Product_Lexorder"
begin

text \<open>
  The scan scheduler (\<^verbatim>\<open>internal/scanning/scanning.go\<close>): its state, the atomic commit of a
  transition, the changes each operation makes to the snapshot, and the claim of one queued scan.
  The store is a parameter (\<open>store_ops\<close>), as the interface \<open>StateStore\<close> is in the code; the clock
  and the random source are streams read in order. A context is the error it reports, \<open>None\<close> while
  it is live. The mutexes make each operation's critical section one step, so a step is a
  function on the state; interleavings are sequences of steps (theory \<open>Scan_Steps\<close>).
\<close>

section \<open>Errors, options, state\<close>

datatype ctx_error = CtxCanceled | CtxDeadlineExceeded

type_synonym ctx = "ctx_error option"

datatype options_problem =
    CursorBoundTooLarge | DetailBoundTooLarge
  | OptionsSchedule nat schedule_error | OptionsDuplicateRoot config_id

datatype scan_error =
    ErrStateStoreRequired | ErrRunnerRequired | ErrRootNotFound | ErrRootNotFoundInvalidID
  | ErrRootRetired | ErrScanNotFound | ErrScanNotRunning | ErrSchedulerNotStarted | ErrSchedulerClosed
  | ErrScanProgressInvalid progress_problem | ErrScanProgressRewound
  | ErrInvalidSnapshot snapshot_problem | ErrScanRootDisappeared
  | ErrInvalidOptions options_problem | ErrCtx ctx_error
  | LoadState scan_error | PersistRecovery scan_error | PersistState scan_error | StoreFailure string

text \<open>\<open>errors.Is(err, ErrScanNotRunning)\<close>.\<close>

fun is_not_running :: "scan_error \<Rightarrow> bool" where
  "is_not_running ErrScanNotRunning = True"
| "is_not_running (PersistState e) = is_not_running e"
| "is_not_running _ = False"

record options =
  op_max_concurrent :: int
  op_poll_interval :: duration
  op_run_timeout :: duration
  op_minimum_interval :: duration
  op_retry_backoff :: duration
  op_max_cursor_bytes :: int
  op_max_error_detail :: int
  op_now :: "(nat \<Rightarrow> time) option"

definition DefaultOptions :: "(nat \<Rightarrow> time) \<Rightarrow> options" where
  "DefaultOptions systemClock =
     \<lparr>op_max_concurrent = 1, op_poll_interval = second, op_run_timeout = 15 * 60 * second,
      op_minimum_interval = 30 * second, op_retry_backoff = 5 * second,
      op_max_cursor_bytes = defaultMaxCursorBytes, op_max_error_detail = defaultMaxErrorDetail,
      op_now = Some systemClock\<rparr>"

definition positive_or :: "int \<Rightarrow> int \<Rightarrow> int" where
  "positive_or v d = (if v \<le> 0 then d else v)"

definition normalizeOptions :: "(nat \<Rightarrow> time) \<Rightarrow> options \<Rightarrow> options_problem + options" where
  "normalizeOptions systemClock o0 =
     (let d = DefaultOptions systemClock;
          o1 = o0\<lparr>op_max_concurrent := positive_or (op_max_concurrent o0) (op_max_concurrent d),
                  op_poll_interval := positive_or (op_poll_interval o0) (op_poll_interval d),
                  op_run_timeout := positive_or (op_run_timeout o0) (op_run_timeout d),
                  op_minimum_interval := positive_or (op_minimum_interval o0) (op_minimum_interval d),
                  op_retry_backoff := positive_or (op_retry_backoff o0) (op_retry_backoff d),
                  op_max_cursor_bytes := positive_or (op_max_cursor_bytes o0) (op_max_cursor_bytes d),
                  op_max_error_detail := positive_or (op_max_error_detail o0) (op_max_error_detail d),
                  op_now := (if op_now o0 = None then op_now d else op_now o0)\<rparr>
      in if defaultMaxCursorBytes < op_max_cursor_bytes o1 then Inl CursorBoundTooLarge
         else if defaultMaxErrorDetail < op_max_error_detail o1 then Inl DetailBoundTooLarge
         else Inr o1)"

text \<open>The interface \<open>StateStore\<close>: \<open>Load\<close> reads a store, \<open>Save\<close> returns the store after it and its error.\<close>

record 'st store_ops =
  so_load :: "ctx \<Rightarrow> 'st \<Rightarrow> scan_error + snapshot"
  so_save :: "ctx \<Rightarrow> 'st \<Rightarrow> snapshot \<Rightarrow> 'st \<times> scan_error option"

record 'st env =
  ev_store :: "'st store_ops"
  ev_options :: options
  ev_rand :: rand

text \<open>
  The scheduler. \<open>sd_running\<close> is the map from a running scan to its cancel function, kept as a flag
  that says whether it was called; \<open>sd_wg\<close> counts the goroutines \<open>Stop\<close> waits for; \<open>sd_clock\<close> and
  \<open>sd_draws\<close> count the clock readings and random draws made so far.
\<close>

record 'st sched =
  sd_store :: 'st
  sd_state :: snapshot
  sd_started :: bool
  sd_stopping :: bool
  sd_closed :: bool
  sd_base_cancelled :: bool
  sd_wake :: bool
  sd_wg :: nat
  sd_running :: "(runtime_id \<times> bool) list"
  sd_clock :: nat
  sd_draws :: nat

abbreviation minimum_interval :: "'st env \<Rightarrow> duration" where
  "minimum_interval env \<equiv> op_minimum_interval (ev_options env)"

abbreviation max_detail :: "'st env \<Rightarrow> int" where
  "max_detail env \<equiv> op_max_error_detail (ev_options env)"

definition empty_snapshot :: snapshot where
  "empty_snapshot = \<lparr>sn_version = 0, sn_roots = [], sn_scans = []\<rparr>"

definition New_scheduler ::
  "(nat \<Rightarrow> time) \<Rightarrow> 'st option \<Rightarrow> bool \<Rightarrow> options \<Rightarrow> scan_error + options \<times> 'st sched" where
  "New_scheduler systemClock store runner_given options0 =
     (case store of
        None \<Rightarrow> Inl ErrStateStoreRequired
      | Some st \<Rightarrow>
          if \<not> runner_given then Inl ErrRunnerRequired
          else case normalizeOptions systemClock options0 of
            Inl e \<Rightarrow> Inl (ErrInvalidOptions e)
          | Inr opts \<Rightarrow> Inr (opts,
              \<lparr>sd_store = st, sd_state = empty_snapshot, sd_started = False, sd_stopping = False,
               sd_closed = False, sd_base_cancelled = False, sd_wake = False, sd_wg = 0,
               sd_running = [], sd_clock = 0, sd_draws = 0\<rparr>))"

definition read_clock :: "'st env \<Rightarrow> nat \<Rightarrow> time" where
  "read_clock env n = nowUTC (case op_now (ev_options env) of Some clock \<Rightarrow> clock n | None \<Rightarrow> 0)"

definition tick_clock :: "'st sched \<Rightarrow> 'st sched" where
  "tick_clock sd = sd\<lparr>sd_clock := Suc (sd_clock sd)\<rparr>"

definition isStarted :: "'st sched \<Rightarrow> bool" where
  "isStarted sd \<longleftrightarrow> sd_started sd \<and> \<not> sd_stopping sd \<and> \<not> sd_closed sd"

definition signal :: "'st sched \<Rightarrow> 'st sched" where
  "signal sd = sd\<lparr>sd_wake := True\<rparr>"

text \<open>Calling the cancel functions of some running scans.\<close>

definition cancel_runs :: "runtime_id list \<Rightarrow> 'st sched \<Rightarrow> 'st sched" where
  "cancel_runs ids sd =
     sd\<lparr>sd_running := map (\<lambda>(i, c). (i, c \<or> List.member ids i)) (sd_running sd)\<rparr>"

section \<open>Commit\<close>

text \<open>
  A change gets the number of draws made and the snapshot, and returns the draws after it and
  either an error or the new snapshot with the value it hands to its caller.
\<close>

type_synonym 'r change = "nat \<Rightarrow> snapshot \<Rightarrow> nat \<times> (scan_error + snapshot \<times> 'r)"

definition commitState ::
  "'st env \<Rightarrow> ctx \<Rightarrow> bool \<Rightarrow> 'r change \<Rightarrow> 'st sched \<Rightarrow> 'st sched \<times> (scan_error + 'r)" where
  "commitState env ctx allowStopping change sd =
     (case ctx of
        Some e \<Rightarrow> (sd, Inl (ErrCtx e))
      | None \<Rightarrow>
          if sd_closed sd \<or> sd_stopping sd \<and> \<not> allowStopping then (sd, Inl ErrSchedulerClosed)
          else
            let previous = sd_state sd;
                (draws, outcome) = change (sd_draws sd) previous;
                sd1 = sd\<lparr>sd_draws := draws\<rparr>
            in (case outcome of
                  Inl e \<Rightarrow> (sd1, Inl e)
                | Inr (changed, r) \<Rightarrow>
                    if previous = changed then (sd1, Inr r)
                    else
                      let candidate = changed\<lparr>sn_version := sn_version previous + 1\<rparr> in
                      (case Snapshot_Validate (minimum_interval env) candidate of
                         Some p \<Rightarrow> (sd1, Inl (ErrInvalidSnapshot p))
                       | None \<Rightarrow>
                           (case so_save (ev_store env) ctx (sd_store sd1) candidate of
                              (st, Some e) \<Rightarrow> (sd1\<lparr>sd_store := st\<rparr>, Inl (PersistState e))
                            | (st, None) \<Rightarrow> (sd1\<lparr>sd_store := st, sd_state := candidate\<rparr>, Inr r)))))"

section \<open>Changes\<close>

subsection \<open>ConfigureRoots\<close>

fun validate_schedules_from ::
  "duration \<Rightarrow> config_id list \<Rightarrow> nat \<Rightarrow> root_schedule list \<Rightarrow> options_problem option" where
  "validate_schedules_from minimumInterval seen index [] = None"
| "validate_schedules_from minimumInterval seen index (s # ss) =
     (case RootSchedule_Validate minimumInterval s of
        Some e \<Rightarrow> Some (OptionsSchedule index e)
      | None \<Rightarrow>
          if List.member seen (rs_id s) then Some (OptionsDuplicateRoot (rs_id s))
          else validate_schedules_from minimumInterval (rs_id s # seen) (Suc index) ss)"

definition validateSchedules :: "root_schedule list \<Rightarrow> duration \<Rightarrow> options_problem option" where
  "validateSchedules schedules minimumInterval = validate_schedules_from minimumInterval [] 0 schedules"

definition new_root_state :: "root_schedule \<Rightarrow> root_state" where
  "new_root_state schedule =
     \<lparr>rt_schedule = schedule, rt_retired = False, rt_next_scheduled_at = None, rt_active_scan_id = [],
      rt_follow_up_pending = False, rt_follow_up_trigger = trigger_empty, rt_last_scan_id = [],
      rt_last_coverage = None, rt_last_complete_scan_id = [], rt_last_complete_coverage = None,
      rt_retired_at = None\<rparr>"

text \<open>The root map, the scans, the draws and the running scans made stale so far.\<close>

type_synonym configure_state =
  "(config_id \<times> root_state) list \<times> scan_record list \<times> nat \<times> runtime_id list"

text \<open>The part of \<open>ConfigureRoots\<close> for a root whose revision changed.\<close>

definition configure_revision ::
  "rand \<Rightarrow> int \<Rightarrow> time \<Rightarrow> root_schedule \<Rightarrow> root_state \<Rightarrow> scan_record list \<times> nat \<times> runtime_id list
    \<Rightarrow> root_state \<times> scan_record list \<times> nat \<times> runtime_id list" where
  "configure_revision rand maxDetail now schedule root0 =
     (\<lambda>(scans, draws, stale).
        let root = invalidateRootEvidence root0 in
        case activeScanIndex scans (rs_id schedule) of
          None \<Rightarrow> (root, scans, draws, stale)
        | Some k \<Rightarrow>
            let active = scans ! k in
            if sc_config_revision active = rs_revision schedule then (root, scans, draws, stale)
            else
              let stale' = (if sc_state active = StateRunning then stale @ [sc_id active] else stale);
                  active' = finalizeStale now maxDetail active;
                  root1 = clearFollowUp (updateRootAfterTerminal active' root);
                  (fresh, draws') = newScanRecord rand draws schedule TriggerScheduled now;
                  root2 = root1\<lparr>rt_active_scan_id := sc_id fresh,
                    rt_next_scheduled_at := (if rs_enabled schedule then Some (now + rs_interval schedule) else None)\<rparr>
              in (root2, scans[k := active'] @ [fresh], draws', stale'))"

definition configure_schedule ::
  "rand \<Rightarrow> int \<Rightarrow> time \<Rightarrow> root_schedule \<Rightarrow> configure_state \<Rightarrow> configure_state" where
  "configure_schedule rand maxDetail now schedule =
     (\<lambda>(byID, scans, draws, stale).
        case map_of byID (rs_id schedule) of
          None \<Rightarrow>
            let root = new_root_state schedule;
                root' = (if rs_enabled schedule then root\<lparr>rt_next_scheduled_at := Some now\<rparr> else root)
            in (AList.update (rs_id schedule) root' byID, scans, draws, stale)
        | Some root0 \<Rightarrow>
            let wasEnabled = (rs_enabled (rt_schedule root0) \<and> \<not> rt_retired root0);
                revisionChanged = (rt_revision root0 \<noteq> rs_revision schedule);
                root1 = root0\<lparr>rt_schedule := schedule, rt_retired := False, rt_retired_at := None\<rparr>;
                (root2, scans', draws', stale') =
                  (if revisionChanged then configure_revision rand maxDetail now schedule root1 (scans, draws, stale)
                   else (root1, scans, draws, stale));
                root3 =
                  (if \<not> rs_enabled schedule then root2\<lparr>rt_next_scheduled_at := None\<rparr>
                   else if rt_active_scan_id root2 = [] \<and> (\<not> wasEnabled \<or> rt_next_scheduled_at root2 = None)
                   then root2\<lparr>rt_next_scheduled_at := Some now\<rparr> else root2)
            in (AList.update (rs_id schedule) root3 byID, scans', draws', stale'))"

definition retire_root :: "time \<Rightarrow> config_id list \<Rightarrow> root_state \<Rightarrow> root_state" where
  "retire_root now seen root =
     (if List.member seen (rt_id root) \<or> rt_retired root then root
      else root\<lparr>rt_retired := True, rt_schedule := (rt_schedule root)\<lparr>rs_enabled := False\<rparr>,
                rt_next_scheduled_at := None, rt_retired_at := Some now\<rparr>)"

definition roots_by_id :: "root_state list \<Rightarrow> (config_id \<times> root_state) list" where
  "roots_by_id roots = fold (\<lambda>r m. AList.update (rt_id r) r m) roots []"

definition configure_change :: "rand \<Rightarrow> int \<Rightarrow> time \<Rightarrow> root_schedule list \<Rightarrow> runtime_id list change" where
  "configure_change rand maxDetail now schedules draws0 snap =
     (let (byID, scans, draws, stale) =
            fold (configure_schedule rand maxDetail now) schedules
              (roots_by_id (sn_roots snap), sn_scans snap, draws0, []);
          roots = map (\<lambda>(_, root). retire_root now (map rs_id schedules) root) byID
      in (draws, Inr (snap\<lparr>sn_roots := sort_key rt_id roots, sn_scans := scans\<rparr>, stale)))"

subsection \<open>Trigger\<close>

record trigger_result =
  tr_scan :: scan_record
  tr_coalesced :: bool
  tr_follow_up_pending :: bool
  tr_follow_up_trigger :: trigger_kind

definition trigger_change :: "rand \<Rightarrow> time \<Rightarrow> config_id \<Rightarrow> trigger_result change" where
  "trigger_change rand now rootID draws snap =
     (case rootIndex (sn_roots snap) rootID of
        None \<Rightarrow> (draws, Inl ErrRootNotFound)
      | Some ri \<Rightarrow>
          let root = sn_roots snap ! ri in
          if rt_retired root then (draws, Inl ErrRootRetired)
          else case activeScanIndex (sn_scans snap) rootID of
            Some k \<Rightarrow>
              let active = sn_scans snap ! k in
              if sc_state active = StateWaiting then
                let active' = active\<lparr>sc_next_attempt_at := Some now\<rparr> in
                (draws, Inr (snap\<lparr>sn_scans := (sn_scans snap)[k := active']\<rparr>,
                   \<lparr>tr_scan = active', tr_coalesced = True, tr_follow_up_pending = rt_follow_up_pending root,
                    tr_follow_up_trigger = rt_follow_up_trigger root\<rparr>))
              else
                let root' = retainFollowUp TriggerManual root in
                (draws, Inr (snap\<lparr>sn_roots := (sn_roots snap)[ri := root']\<rparr>,
                   \<lparr>tr_scan = active, tr_coalesced = False, tr_follow_up_pending = rt_follow_up_pending root',
                    tr_follow_up_trigger = rt_follow_up_trigger root'\<rparr>))
          | None \<Rightarrow>
              let (record', draws') = newScanRecord rand draws (rt_schedule root) TriggerManual now in
              (draws', Inr (snap\<lparr>sn_scans := sn_scans snap @ [record'],
                                 sn_roots := (sn_roots snap)[ri := root\<lparr>rt_active_scan_id := sc_id record'\<rparr>]\<rparr>,
                 \<lparr>tr_scan = record', tr_coalesced = False, tr_follow_up_pending = False,
                  tr_follow_up_trigger = trigger_empty\<rparr>)))"

subsection \<open>Cancel\<close>

definition cancel_change :: "int \<Rightarrow> time \<Rightarrow> runtime_id \<Rightarrow> unit change" where
  "cancel_change maxDetail now scanID draws snap =
     (case scanIndex (sn_scans snap) scanID of
        None \<Rightarrow> (draws, Inl ErrScanNotFound)
      | Some k \<Rightarrow>
          let scan0 = sn_scans snap ! k in
          if sc_terminal scan0 then (draws, Inr (snap, ()))
          else
            let scan = (if sc_cancellation_requested_at scan0 = None
                        then scan0\<lparr>sc_cancellation_requested_at := Some now\<rparr> else scan0)
            in if sc_state scan = StateQueued \<or> sc_state scan = StateWaiting then
                 let scan' = finalizeCancelled now maxDetail scan;
                     roots' = (case rootIndex (sn_roots snap) (sc_root_id scan) of
                         None \<Rightarrow> sn_roots snap
                       | Some ri \<Rightarrow> (sn_roots snap)
                           [ri := clearFollowUp (updateRootAfterTerminal scan' (sn_roots snap ! ri))])
                 in (draws, Inr (snap\<lparr>sn_scans := (sn_scans snap)[k := scan'], sn_roots := roots'\<rparr>, ()))
               else (draws, Inr (snap\<lparr>sn_scans := (sn_scans snap)[k := scan]\<rparr>, ())))"

subsection \<open>Tick\<close>

type_synonym tick_state = "snapshot \<times> nat \<times> runtime_id list"

text \<open>The body of the loop over the roots, for the root at index \<open>ri\<close>.\<close>

definition tick_root :: "rand \<Rightarrow> int \<Rightarrow> time \<Rightarrow> nat \<Rightarrow> tick_state \<Rightarrow> tick_state" where
  "tick_root rand maxDetail now ri =
     (\<lambda>(snap, draws, stale).
        let root = sn_roots snap ! ri in
        case activeScanIndex (sn_scans snap) (rt_id root) of
          Some k \<Rightarrow>
            let active = sn_scans snap ! k;
                root1 = root\<lparr>rt_active_scan_id := sc_id active\<rparr>
            in if sc_config_revision active \<noteq> rt_revision root1 then
                 let stale' = (if sc_state active = StateRunning then stale @ [sc_id active] else stale);
                     active' = finalizeStale now maxDetail active;
                     root2 = updateRootAfterTerminal active' (invalidateRootEvidence root1);
                     (scans', root3, draws') =
                       enqueueCurrentRevision rand draws ((sn_scans snap)[k := active']) root2 now
                 in (snap\<lparr>sn_scans := scans', sn_roots := (sn_roots snap)[ri := root3]\<rparr>, draws', stale')
               else
                 let root2 = (if rs_enabled (rt_schedule root1) \<and> \<not> rt_retired root1
                                 \<and> due (rt_next_scheduled_at root1) now
                       then (retainFollowUp TriggerScheduled root1)
                         \<lparr>rt_next_scheduled_at :=
                            advanceScheduledAt (rt_next_scheduled_at root1) now (rs_interval (rt_schedule root1))\<rparr>
                       else root1);
                     active' = (if sc_state active = StateWaiting \<and> due (sc_next_attempt_at active) now
                       then active\<lparr>sc_state := StateQueued, sc_next_attempt_at := None, sc_updated_at := now\<rparr>
                       else active)
                 in (snap\<lparr>sn_scans := (sn_scans snap)[k := active'], sn_roots := (sn_roots snap)[ri := root2]\<rparr>,
                     draws, stale)
        | None \<Rightarrow>
            if rt_retired root \<or> \<not> rs_enabled (rt_schedule root) then (snap, draws, stale)
            else
              let root1 = root\<lparr>rt_active_scan_id := []\<rparr>;
                  root2 = (if rt_next_scheduled_at root1 = None then root1\<lparr>rt_next_scheduled_at := Some now\<rparr> else root1)
              in if \<not> due (rt_next_scheduled_at root2) now
                 then (snap\<lparr>sn_roots := (sn_roots snap)[ri := root2]\<rparr>, draws, stale)
                 else
                   let (record', draws') = newScanRecord rand draws (rt_schedule root2) TriggerScheduled now;
                       root3 = root2\<lparr>rt_active_scan_id := sc_id record',
                         rt_next_scheduled_at :=
                           advanceScheduledAt (rt_next_scheduled_at root2) now (rs_interval (rt_schedule root2))\<rparr>
                   in (snap\<lparr>sn_scans := sn_scans snap @ [record'], sn_roots := (sn_roots snap)[ri := root3]\<rparr>,
                       draws', stale))"

definition tick_change :: "rand \<Rightarrow> int \<Rightarrow> time \<Rightarrow> runtime_id list change" where
  "tick_change rand maxDetail now draws0 snap =
     (let (snap', draws, stale) =
            fold (tick_root rand maxDetail now) [0..<length (sn_roots snap)] (snap, draws0, [])
      in (draws, Inr (snap', stale)))"

end
