(* ===== verification/Scan_Runs.thy ===== *)
theory Scan_Runs
  imports Scheduler
begin

text \<open>
  Running scans (\<^verbatim>\<open>internal/scanning/scanning.go\<close>): recovery of a loaded snapshot, progress and
  outcome reports of a runner, the choice and the claim of one queued scan. The runner itself is
  the environment: a report is an argument, an error it returns is its text and what
  \<open>errors.Is\<close> says about it.
\<close>

section \<open>Reports of a runner\<close>

record scan_progress =
  sp_cursor :: string
  sp_observed_count :: int
  sp_coverage :: coverage
  sp_source_coverage :: "coverage list option"

record scan_result = scan_progress +
  res_next_attempt_at :: "time option"

record run_error =
  re_text :: string
  re_canceled :: bool
  re_deadline :: bool
  re_retryable :: bool

record scan_checkpoint =
  cp_scan_id :: runtime_id
  cp_root_id :: config_id
  cp_config_revision :: string
  cp_cursor :: string
  cp_observed_count :: int
  cp_coverage :: coverage
  cp_source_coverage :: "coverage list option"

definition checkpoint_of :: "scan_record \<Rightarrow> scan_checkpoint" where
  "checkpoint_of scan =
     \<lparr>cp_scan_id = sc_id scan, cp_root_id = sc_root_id scan, cp_config_revision = sc_config_revision scan,
      cp_cursor = sc_cursor scan, cp_observed_count = sc_observed_count scan,
      cp_coverage = sc_coverage scan, cp_source_coverage = sc_source_coverage scan\<rparr>"

text \<open>The defaults a report gets from its scan: an empty completeness means "as before", nil sources too.\<close>

definition report_coverage :: "scan_record \<Rightarrow> coverage \<Rightarrow> coverage" where
  "report_coverage scan c = (if cov_completeness c = completeness_empty then sc_coverage scan else c)"

definition report_sources :: "scan_record \<Rightarrow> coverage list option \<Rightarrow> coverage list option" where
  "report_sources scan sources = (case sources of None \<Rightarrow> sc_source_coverage scan | Some _ \<Rightarrow> sources)"

definition progress_change :: "options \<Rightarrow> time \<Rightarrow> runtime_id \<Rightarrow> scan_progress \<Rightarrow> unit change" where
  "progress_change opts now scanID p draws snap =
     (case scanIndex (sn_scans snap) scanID of
        None \<Rightarrow> (draws, Inl ErrScanNotFound)
      | Some k \<Rightarrow>
          let scan = sn_scans snap ! k in
          if sc_state scan \<noteq> StateRunning then (draws, Inl ErrScanNotRunning)
          else if (case rootIndex (sn_roots snap) (sc_root_id scan) of
                     None \<Rightarrow> True
                   | Some ri \<Rightarrow> sc_config_revision scan \<noteq> rt_revision (sn_roots snap ! ri))
            then (draws, Inl (ErrScanProgressInvalid RevisionStale))
          else if sp_observed_count p < sc_observed_count scan then (draws, Inl ErrScanProgressRewound)
          else case normalizeEvidence (op_max_cursor_bytes opts) (sc_root_id scan)
                      (report_coverage scan (sp_coverage p)) (report_sources scan (sp_source_coverage p))
                      (sp_cursor p) (sp_observed_count p) (sc_started_at scan) now of
            Inl e \<Rightarrow> (draws, Inl (ErrScanProgressInvalid e))
          | Inr (cov, sources) \<Rightarrow>
              (draws, Inr (snap\<lparr>sn_scans := (sn_scans snap)
                 [k := scan\<lparr>sc_cursor := sp_cursor p, sc_observed_count := sp_observed_count p,
                            sc_coverage := cov, sc_source_coverage := sources, sc_updated_at := now\<rparr>]\<rparr>, ())))"

text \<open>
  The state of a scan after its runner returned: the \<open>switch\<close> of \<open>finish\<close>, on a scan that already
  carries the normalised evidence. The second value says that the scheduler is to be woken.
\<close>

definition conclude_run ::
  "options \<Rightarrow> time \<Rightarrow> string \<Rightarrow> time option \<Rightarrow> run_error option \<Rightarrow> ctx \<Rightarrow> scan_record \<Rightarrow> scan_record \<times> bool" where
  "conclude_run opts now cursor nextAttempt runErr ctxErr scan =
     (let is_err = (\<lambda>P. case runErr of None \<Rightarrow> False | Some e \<Rightarrow> P e);
          deadline = (ctxErr = Some CtxDeadlineExceeded \<or> is_err re_deadline);
          cancelled = (sc_cancellation_requested_at scan \<noteq> None \<or> ctxErr = Some CtxCanceled \<or> is_err re_canceled);
          detail = (case runErr of None \<Rightarrow> [] | Some e \<Rightarrow> sanitizeError (re_text e) (op_max_error_detail opts));
          (scan1, wake) =
            (if cancelled then (finalizeCancelled now (op_max_error_detail opts) scan, False)
             else if deadline then (finalizeDeadline now (op_max_error_detail opts) scan, False)
             else if is_err re_retryable then
               (scan\<lparr>sc_state := StateWaiting,
                     sc_next_attempt_at := retryAt nextAttempt now (op_retry_backoff opts),
                     sc_error_code := ''retryable'', sc_error_detail := detail\<rparr>, True)
             else if runErr \<noteq> None then
               (scan\<lparr>sc_state := StateFailed, sc_completed_at := Some now,
                     sc_error_code := ''runner_failed'', sc_error_detail := detail\<rparr>, False)
             else if cursor \<noteq> [] then
               (scan\<lparr>sc_state := StateWaiting, sc_next_attempt_at := continuationAt nextAttempt now,
                     sc_error_code := ''continuation_pending''\<rparr>, True)
             else
               (scan\<lparr>sc_state := StateSucceeded, sc_next_attempt_at := None, sc_completed_at := Some now\<rparr>, False));
          scan2 = (if \<not> sc_terminal scan1 then scan1\<lparr>sc_completed_at := None\<rparr> else scan1)
      in (scan2\<lparr>sc_updated_at := now\<rparr>, wake))"

text \<open>What a terminal scan does to its root: the projections, then the retained follow-up.\<close>

definition conclude_root ::
  "rand \<Rightarrow> nat \<Rightarrow> time \<Rightarrow> scan_record \<Rightarrow> scan_record list \<Rightarrow> root_state
    \<Rightarrow> scan_record list \<times> root_state \<times> nat \<times> bool" where
  "conclude_root rand draws now scan scans root0 =
     (if \<not> sc_terminal scan then (scans, root0, draws, False)
      else
        let root = updateRootAfterTerminal scan root0 in
        if rt_follow_up_pending root \<and> \<not> rt_retired root \<and> sc_state scan \<noteq> StateCancelled then
          let trigger = (if \<not> followUpTriggerValid (rt_follow_up_trigger root)
                         then TriggerManual else rt_follow_up_trigger root);
              (followUp, draws') = newScanRecord rand draws (rt_schedule root) trigger now
          in (scans @ [followUp], clearFollowUp (root\<lparr>rt_active_scan_id := sc_id followUp\<rparr>), draws', True)
        else (scans, clearFollowUp root, draws, False))"

definition finish_change ::
  "rand \<Rightarrow> options \<Rightarrow> time \<Rightarrow> runtime_id \<Rightarrow> scan_result \<Rightarrow> run_error option \<Rightarrow> ctx \<Rightarrow> bool change" where
  "finish_change rand opts now scanID outcome runErr ctxErr draws snap =
     (case scanIndex (sn_scans snap) scanID of
        None \<Rightarrow> (draws, Inl ErrScanNotFound)
      | Some k \<Rightarrow>
          let scan = sn_scans snap ! k in
          if sc_state scan \<noteq> StateRunning then (draws, Inl ErrScanNotRunning)
          else case rootIndex (sn_roots snap) (sc_root_id scan) of
            None \<Rightarrow> (draws, Inl ErrScanRootDisappeared)
          | Some ri \<Rightarrow>
              let root = sn_roots snap ! ri in
              if sc_config_revision scan \<noteq> rt_revision root then
                let scan' = finalizeStale now (op_max_error_detail opts) scan;
                    root1 = clearFollowUp (updateRootAfterTerminal scan' (invalidateRootEvidence root));
                    (scans', root2, draws') =
                      enqueueCurrentRevision rand draws ((sn_scans snap)[k := scan']) root1 now
                in (draws', Inr (snap\<lparr>sn_scans := scans', sn_roots := (sn_roots snap)[ri := root2]\<rparr>, True))
              else
                let observedCount = max (sp_observed_count outcome) (sc_observed_count scan);
                    cursor = sp_cursor outcome
                in case normalizeEvidence (op_max_cursor_bytes opts) (sc_root_id scan)
                          (report_coverage scan (sp_coverage outcome))
                          (report_sources scan (sp_source_coverage outcome))
                          cursor observedCount (sc_started_at scan) now of
                  Inl e \<Rightarrow> (draws, Inl (ErrScanProgressInvalid e))
                | Inr (cov, sources) \<Rightarrow>
                    let (scan', wake) =
                          conclude_run opts now cursor (res_next_attempt_at outcome) runErr ctxErr
                            (scan\<lparr>sc_cursor := cursor, sc_observed_count := observedCount, sc_coverage := cov,
                                  sc_source_coverage := sources, sc_error_code := [], sc_error_detail := []\<rparr>);
                        (scans', root', draws', wake') =
                          conclude_root rand draws now scan' ((sn_scans snap)[k := scan']) root
                    in (draws', Inr (snap\<lparr>sn_scans := scans', sn_roots := (sn_roots snap)[ri := root']\<rparr>,
                                     wake \<or> wake')))"

section \<open>Recovery of a loaded snapshot\<close>

text \<open>
  \<open>recoverSnapshot\<close> is three loops. The first repairs the projections of each root; its result
  says whether anything changed.
\<close>

definition recover_root :: "scan_record list \<Rightarrow> root_state \<Rightarrow> root_state \<times> bool" where
  "recover_root scans root0 =
     (let (root, changed) =
            (if rt_follow_up_pending root0 \<and> rt_follow_up_trigger root0 = trigger_empty
             then (root0\<lparr>rt_follow_up_trigger := TriggerManual\<rparr>, True) else (root0, False))
      in if rt_last_scan_id root \<noteq> []
            \<and> (case scanIndex scans (rt_last_scan_id root) of
                 None \<Rightarrow> True | Some k \<Rightarrow> sc_config_revision (scans ! k) \<noteq> rt_revision root)
         then (invalidateRootEvidence root, True)
         else if rt_last_complete_scan_id root \<noteq> []
            \<and> (case scanIndex scans (rt_last_complete_scan_id root) of
                 None \<Rightarrow> True
               | Some k \<Rightarrow> sc_config_revision (scans ! k) \<noteq> rt_revision root \<or> \<not> CanAssertAbsence (scans ! k))
         then (invalidateRootCompleteEvidence root, True)
         else (root, changed))"

text \<open>The second loop visits the scans the snapshot had at its start; fresh scans are appended behind them.\<close>

type_synonym recover_state = "root_state list \<times> scan_record list \<times> nat \<times> bool"

definition recover_scan :: "rand \<Rightarrow> int \<Rightarrow> time \<Rightarrow> nat \<Rightarrow> recover_state \<Rightarrow> recover_state" where
  "recover_scan rand maxDetail now k =
     (\<lambda>(roots, scans, draws, changed).
        let scan = scans ! k in
        if sc_terminal scan then (roots, scans, draws, changed)
        else case rootIndex roots (sc_root_id scan) of
          None \<Rightarrow> (roots, scans, draws, changed)
        | Some ri \<Rightarrow>
            let root = roots ! ri in
            if sc_config_revision scan \<noteq> rt_revision root then
              let scan' = finalizeStale now maxDetail scan;
                  root1 = clearFollowUp (updateRootAfterTerminal scan' (invalidateRootEvidence root));
                  (scans', root2, draws') = enqueueCurrentRevision rand draws (scans[k := scan']) root1 now
              in (roots[ri := root2], scans', draws', True)
            else if sc_state scan \<noteq> StateRunning then (roots, scans, draws, changed)
            else if sc_cancellation_requested_at scan \<noteq> None then
              let scan' = finalizeCancelled now maxDetail scan in
              (roots[ri := clearFollowUp (updateRootAfterTerminal scan' root)], scans[k := scan'], draws, True)
            else
              (roots,
               scans[k := scan\<lparr>sc_state := StateQueued, sc_trigger := TriggerRecovery, sc_updated_at := now,
                 sc_error_code := ''recovered_after_restart'',
                 sc_error_detail := ''previous process stopped while the scan was running''\<rparr>],
               draws, True))"

text \<open>The third loop sets each root's reference to its active scan and its next schedule.\<close>

definition recover_reference :: "time \<Rightarrow> scan_record list \<Rightarrow> root_state \<Rightarrow> root_state \<times> bool" where
  "recover_reference now scans root0 =
     (let activeID = (case activeScanIndex scans (rt_id root0) of None \<Rightarrow> [] | Some k \<Rightarrow> sc_id (scans ! k));
          (root1, c1) = (if rt_active_scan_id root0 \<noteq> activeID
                         then (root0\<lparr>rt_active_scan_id := activeID\<rparr>, True) else (root0, False))
      in if rs_enabled (rt_schedule root1) \<and> \<not> rt_retired root1 \<and> rt_next_scheduled_at root1 = None
         then (root1\<lparr>rt_next_scheduled_at := Some now\<rparr>, True) else (root1, c1))"

definition recoverSnapshot :: "rand \<Rightarrow> int \<Rightarrow> time \<Rightarrow> nat \<Rightarrow> snapshot \<Rightarrow> snapshot \<times> bool \<times> nat" where
  "recoverSnapshot rand maxDetail now draws0 snap =
     (let repaired = map (recover_root (sn_scans snap)) (sn_roots snap);
          (roots, scans, draws, changed) =
            fold (recover_scan rand maxDetail now) [0..<length (sn_scans snap)]
              (map fst repaired, sn_scans snap, draws0, list_ex snd repaired);
          referenced = map (recover_reference now scans) roots
      in (snap\<lparr>sn_roots := map fst referenced, sn_scans := scans\<rparr>,
          changed \<or> list_ex snd referenced, draws))"

section \<open>Claiming one queued scan\<close>

definition runningRoot :: "snapshot \<Rightarrow> (runtime_id \<times> bool) list \<Rightarrow> config_id \<Rightarrow> bool" where
  "runningRoot snap running rootID \<longleftrightarrow>
     list_ex (\<lambda>(i, _). case scanIndex (sn_scans snap) i of
                None \<Rightarrow> False | Some k \<Rightarrow> sc_root_id (sn_scans snap ! k) = rootID) running"

definition queued_order :: "snapshot \<Rightarrow> nat list" where
  "queued_order snap =
     sort_key (\<lambda>k. (sc_created_at (sn_scans snap ! k), sc_id (sn_scans snap ! k)))
       (filter (\<lambda>k. sc_state (sn_scans snap ! k) = StateQueued) [0..<length (sn_scans snap)])"

definition selectQueuedScan :: "snapshot \<Rightarrow> (runtime_id \<times> bool) list \<Rightarrow> nat option" where
  "selectQueuedScan snap running =
     find (\<lambda>k. \<not> runningRoot snap running (sc_root_id (sn_scans snap ! k))) (queued_order snap)"

text \<open>
  Publishing a claim's side result: the version goes up and the store is asked to save. These
  branches of \<open>startOne\<close> do not validate the snapshot themselves.
\<close>

definition publish_one :: "'st env \<Rightarrow> snapshot \<Rightarrow> 'st sched \<Rightarrow> 'st sched \<times> bool" where
  "publish_one env candidate sd =
     (let published = candidate\<lparr>sn_version := sn_version (sd_state sd) + 1\<rparr> in
      case so_save (ev_store env) None (sd_store sd) published of
        (st, Some _) \<Rightarrow> (sd\<lparr>sd_store := st\<rparr>, False)
      | (st, None) \<Rightarrow> (sd\<lparr>sd_store := st, sd_state := published\<rparr>, True))"

definition claim_scan :: "time \<Rightarrow> scan_record \<Rightarrow> scan_record" where
  "claim_scan now scan0 =
     (let scan1 = (if sc_started_at scan0 = None then scan0\<lparr>sc_started_at := Some now\<rparr> else scan0);
          scan2 = scan1\<lparr>sc_state := StateRunning, sc_attempt := sc_attempt scan1 + 1,
                        sc_updated_at := now, sc_next_attempt_at := None\<rparr>
      in if sc_error_code scan2 = ''scan_queued'' \<or> sc_error_code scan2 = ''recovered_after_restart''
         then scan2\<lparr>sc_error_code := [], sc_error_detail := []\<rparr> else scan2)"

text \<open>The claim proper: the run is registered, the snapshot validated and saved, the runner started.\<close>

definition start_run :: "'st env \<Rightarrow> nat \<Rightarrow> time \<Rightarrow> 'st sched \<Rightarrow> 'st sched \<times> bool" where
  "start_run env k now sd =
     (let candidate = sd_state sd;
          scan = claim_scan now (sn_scans candidate ! k);
          running = AList.update (sc_id scan) False (sd_running sd);
          published = candidate\<lparr>sn_scans := (sn_scans candidate)[k := scan],
                                sn_version := sn_version candidate + 1\<rparr>
      in case Snapshot_Validate (minimum_interval env) published of
           Some _ \<Rightarrow> (sd\<lparr>sd_running := AList.delete (sc_id scan) running\<rparr>, False)
         | None \<Rightarrow>
             (case so_save (ev_store env) None (sd_store sd) published of
                (st, Some _) \<Rightarrow> (sd\<lparr>sd_store := st, sd_running := AList.delete (sc_id scan) running\<rparr>, False)
              | (st, None) \<Rightarrow>
                  (sd\<lparr>sd_store := st, sd_state := published, sd_running := running, sd_wg := Suc (sd_wg sd)\<rparr>, True)))"

definition startOne :: "'st env \<Rightarrow> 'st sched \<Rightarrow> 'st sched \<times> bool" where
  "startOne env sd =
     (if \<not> sd_started sd \<or> sd_stopping sd \<or> sd_closed sd
         \<or> op_max_concurrent (ev_options env) \<le> int (length (sd_running sd)) then (sd, False)
      else
        let candidate = sd_state sd in
        case selectQueuedScan candidate (sd_running sd) of
          None \<Rightarrow> (sd, False)
        | Some k \<Rightarrow>
            let scan = sn_scans candidate ! k;
                now = read_clock env (sd_clock sd);
                sd1 = tick_clock sd;
                cancelled = finalizeCancelled now (max_detail env) scan;
                cancelled_scans = (sn_scans candidate)[k := cancelled]
            in case rootIndex (sn_roots candidate) (sc_root_id scan) of
                 None \<Rightarrow> publish_one env (candidate\<lparr>sn_scans := cancelled_scans\<rparr>) sd1
               | Some ri \<Rightarrow>
                   let root = sn_roots candidate ! ri;
                       cancelled_root = clearFollowUp (updateRootAfterTerminal cancelled root);
                       cancelled_snap = candidate\<lparr>sn_scans := cancelled_scans,
                                                  sn_roots := (sn_roots candidate)[ri := cancelled_root]\<rparr>
                   in if rt_retired root then publish_one env cancelled_snap sd1
                      else if runningRoot candidate (sd_running sd) (sc_root_id scan) then (sd, False)
                      else if sc_config_revision scan \<noteq> rt_revision root then
                        let scan' = finalizeStale now (max_detail env) scan;
                            root1 = updateRootAfterTerminal scan' (invalidateRootEvidence root);
                            (scans', root2, draws') =
                              enqueueCurrentRevision (ev_rand env) (sd_draws sd) ((sn_scans candidate)[k := scan']) root1 now
                        in publish_one env
                             (candidate\<lparr>sn_scans := scans', sn_roots := (sn_roots candidate)[ri := root2]\<rparr>)
                             (sd1\<lparr>sd_draws := draws'\<rparr>)
                      else if sc_cancellation_requested_at scan \<noteq> None then publish_one env cancelled_snap sd1
                      else start_run env k now sd1)"

end
