(* ===== verification/Scan_Steps.thy ===== *)
theory Scan_Steps
  imports Scan_Runs
begin

text \<open>
  The public operations of the scan scheduler (\<^verbatim>\<open>internal/scanning/scanning.go\<close>), composed the way
  the code composes them from commits and claims, the two phases of \<open>Stop\<close>, the background loop,
  and the reference store \<open>MemoryStore\<close>. The loop of \<open>pump\<close> is total: every claim that asks for
  another one lowers the number of queued scans or of queued scans of an old revision.
\<close>

section \<open>The loop of pump ends\<close>

definition scan_outdated :: "root_state list \<Rightarrow> scan_record \<Rightarrow> bool" where
  "scan_outdated roots s \<longleftrightarrow>
     (case rootIndex roots (sc_root_id s) of
        None \<Rightarrow> False
      | Some ri \<Rightarrow> sc_config_revision s \<noteq> rt_revision (roots ! ri))"

definition queued_scans :: "snapshot \<Rightarrow> scan_record list" where
  "queued_scans snap = filter (\<lambda>s. sc_state s = StateQueued) (sn_scans snap)"

definition pump_measure :: "snapshot \<Rightarrow> nat" where
  "pump_measure snap =
     length (queued_scans snap) + length (filter (scan_outdated (sn_roots snap)) (queued_scans snap))"

lemma rootIndex_Some [index_simps]:
  assumes "rootIndex roots i = Some ri" shows "ri < length roots" "rt_id (roots ! ri) = i"
  using assms find_index_lt find_index_holds unfolding rootIndex_def by fastforce+

lemma scanIndex_Some [index_simps]:
  assumes "scanIndex scans i = Some k" shows "k < length scans" "sc_id (scans ! k) = i"
  using assms find_index_lt find_index_holds unfolding scanIndex_def by fastforce+

lemma activeScanIndex_Some [index_simps]:
  assumes "activeScanIndex scans i = Some k"
  shows "k < length scans" "sc_root_id (scans ! k) = i" "\<not> sc_terminal (scans ! k)"
  using assms find_index_lt find_index_holds unfolding activeScanIndex_def by fastforce+

lemma rootIndex_frame:
  "map rt_id roots' = map rt_id roots \<Longrightarrow> rootIndex roots' i = rootIndex roots i"
proof -
  assume "map rt_id roots' = map rt_id roots"
  moreover have "rootIndex rs i = find_index (\<lambda>x. x = i) (map rt_id rs)" for rs
    by (simp add: rootIndex_def find_index_map comp_def)
  ultimately show ?thesis by simp
qed

lemma scan_outdated_frame:
  assumes "map rt_id roots' = map rt_id roots" "map rt_revision roots' = map rt_revision roots"
  shows "scan_outdated roots' = scan_outdated roots"
proof
  fix s
  have len: "length roots' = length roots" using assms(1) by (metis length_map)
  have "rt_revision (roots' ! ri) = rt_revision (roots ! ri)" if "ri < length roots" for ri
    using assms(2) len that by (metis nth_map)
  then show "scan_outdated roots' s = scan_outdated roots s"
    using rootIndex_frame[OF assms(1)] rootIndex_Some(1)[of roots]
    by (simp add: scan_outdated_def split: option.splits)
qed

lemma filter_length_update:
  "k < length xs \<Longrightarrow> P (xs ! k) \<Longrightarrow>
     length (filter P (xs[k := y])) = length (filter P xs) - (if P y then 0 else 1)
     \<and> 0 < length (filter P xs)"
proof (induction xs arbitrary: k)
  case (Cons a xs)
  then show ?case by (cases k) auto
qed simp

lemma filter_length_update_le:
  "\<not> P y \<Longrightarrow> length (filter P (xs[k := y])) \<le> length (filter P xs)"
proof (induction xs arbitrary: k)
  case (Cons a xs)
  then show ?case by (cases k) (auto simp: le_SucI)
qed simp

text \<open>What the projections of a root keep: its schedule.\<close>

lemma schedule_frames [frame_simps]:
  "rt_schedule (clearFollowUp r) = rt_schedule r"
  "rt_schedule (retainFollowUp t r) = rt_schedule r"
  "rt_schedule (updateRootAfterTerminal s r) = rt_schedule r"
  "rt_schedule (invalidateRootEvidence r) = rt_schedule r"
  "rt_schedule (invalidateRootCompleteEvidence r) = rt_schedule r"
  by (simp_all add: clearFollowUp_def retainFollowUp_def updateRootAfterTerminal_def Let_def
      invalidateRootEvidence_def invalidateRootCompleteEvidence_def)

text \<open>What the terminal transitions of a scan keep, and where they take it.\<close>

lemma finalize_frames [frame_simps]:
  "sc_id (finalizeStale n m s) = sc_id s" "sc_id (finalizeCancelled n m s) = sc_id s"
  "sc_id (finalizeDeadline n m s) = sc_id s"
  "sc_root_id (finalizeStale n m s) = sc_root_id s" "sc_root_id (finalizeCancelled n m s) = sc_root_id s"
  "sc_root_id (finalizeDeadline n m s) = sc_root_id s"
  "sc_config_revision (finalizeStale n m s) = sc_config_revision s"
  "sc_config_revision (finalizeCancelled n m s) = sc_config_revision s"
  "sc_config_revision (finalizeDeadline n m s) = sc_config_revision s"
  "sc_created_at (finalizeStale n m s) = sc_created_at s"
  "sc_created_at (finalizeCancelled n m s) = sc_created_at s"
  "sc_created_at (finalizeDeadline n m s) = sc_created_at s"
  "sc_state (finalizeStale n m s) = StateCancelled" "sc_state (finalizeCancelled n m s) = StateCancelled"
  "sc_state (finalizeDeadline n m s) = StateDeadlineExceeded"
  by (simp_all add: finalizeStale_def finalizeCancelled_def finalizeDeadline_def downgrade_complete_def)

lemma newScanRecord_frames [frame_simps]:
  assumes "newScanRecord rand draws schedule trigger now = (fresh, draws')"
  shows "sc_root_id fresh = rs_id schedule" "sc_config_revision fresh = rs_revision schedule"
    "sc_state fresh = StateQueued" "sc_created_at fresh = now"
  using assms by (auto simp: newScanRecord_def blank_scan_record_def split: sum.splits)

lemma claim_frames [frame_simps]:
  "sc_id (claim_scan n s) = sc_id s" "sc_root_id (claim_scan n s) = sc_root_id s"
  "sc_config_revision (claim_scan n s) = sc_config_revision s"
  "sc_created_at (claim_scan n s) = sc_created_at s" "sc_state (claim_scan n s) = StateRunning"
  by (simp_all add: claim_scan_def Let_def)

lemma find_Some_set: "find P xs = Some x \<Longrightarrow> x \<in> set xs \<and> P x"
  by (metis find_Some_iff nth_mem)

lemma selectQueuedScan_Some:
  assumes "selectQueuedScan snap running = Some k"
  shows "k < length (sn_scans snap)" "sc_state (sn_scans snap ! k) = StateQueued"
    "\<not> runningRoot snap running (sc_root_id (sn_scans snap ! k))"
  using find_Some_set[OF assms[unfolded selectQueuedScan_def]] by (auto simp: queued_order_def)

text \<open>What one claim did, by the branch it took.\<close>

lemma startOne_cases:
  assumes "startOne env sd = (sd', again)"
  obtains (idle) "sd' = sd" "\<not> again"
  | (cancelled) k now roots' where
      "selectQueuedScan (sd_state sd) (sd_running sd) = Some k"
      "roots' = sn_roots (sd_state sd) \<or>
       (\<exists>ri. rootIndex (sn_roots (sd_state sd)) (sc_root_id (sn_scans (sd_state sd) ! k)) = Some ri
          \<and> roots' = (sn_roots (sd_state sd))[ri := clearFollowUp (updateRootAfterTerminal
              (finalizeCancelled now (max_detail env) (sn_scans (sd_state sd) ! k)) (sn_roots (sd_state sd) ! ri))])"
      "publish_one env ((sd_state sd)\<lparr>sn_scans := (sn_scans (sd_state sd))
         [k := finalizeCancelled now (max_detail env) (sn_scans (sd_state sd) ! k)], sn_roots := roots'\<rparr>)
         (tick_clock sd) = (sd', again)"
  | (stale) k now ri scan' scans' root2 draws' where
      "selectQueuedScan (sd_state sd) (sd_running sd) = Some k"
      "rootIndex (sn_roots (sd_state sd)) (sc_root_id (sn_scans (sd_state sd) ! k)) = Some ri"
      "\<not> rt_retired (sn_roots (sd_state sd) ! ri)"
      "sc_config_revision (sn_scans (sd_state sd) ! k) \<noteq> rt_revision (sn_roots (sd_state sd) ! ri)"
      "scan' = finalizeStale now (max_detail env) (sn_scans (sd_state sd) ! k)"
      "enqueueCurrentRevision (ev_rand env) (sd_draws sd) ((sn_scans (sd_state sd))[k := scan'])
         (updateRootAfterTerminal scan' (invalidateRootEvidence (sn_roots (sd_state sd) ! ri))) now
       = (scans', root2, draws')"
      "publish_one env ((sd_state sd)\<lparr>sn_scans := scans', sn_roots := (sn_roots (sd_state sd))[ri := root2]\<rparr>)
         ((tick_clock sd)\<lparr>sd_draws := draws'\<rparr>) = (sd', again)"
  | (run) k now ri where
      "sd_started sd" "\<not> sd_stopping sd" "\<not> sd_closed sd"
      "int (length (sd_running sd)) < op_max_concurrent (ev_options env)"
      "selectQueuedScan (sd_state sd) (sd_running sd) = Some k"
      "rootIndex (sn_roots (sd_state sd)) (sc_root_id (sn_scans (sd_state sd) ! k)) = Some ri"
      "\<not> rt_retired (sn_roots (sd_state sd) ! ri)"
      "sc_config_revision (sn_scans (sd_state sd) ! k) = rt_revision (sn_roots (sd_state sd) ! ri)"
      "sc_cancellation_requested_at (sn_scans (sd_state sd) ! k) = None"
      "start_run env k now (tick_clock sd) = (sd', again)"
proof (cases "\<not> sd_started sd \<or> sd_stopping sd \<or> sd_closed sd
         \<or> op_max_concurrent (ev_options env) \<le> int (length (sd_running sd))")
  case True
  then show ?thesis using assms idle by (simp add: startOne_def)
next
  case up: False
  show ?thesis
  proof (cases "selectQueuedScan (sd_state sd) (sd_running sd)")
    case None
    then show ?thesis using assms up idle by (simp add: startOne_def)
  next
    case sel: (Some k)
    let ?s = "sn_scans (sd_state sd) ! k"
    show ?thesis
    proof (cases "rootIndex (sn_roots (sd_state sd)) (sc_root_id ?s)")
      case None
      then show ?thesis using assms up sel cancelled[OF sel, of "sn_roots (sd_state sd)"]
        by (simp add: startOne_def Let_def)
    next
      case ri: (Some ri)
      show ?thesis
        using assms up sel ri idle cancelled[OF sel] stale[OF sel ri] run[OF _ _ _ _ sel ri] selectQueuedScan_Some(3)[OF sel]
        by (fastforce simp: startOne_def Let_def split: if_splits prod.splits)
    qed
  qed
qed

lemma publish_one_again:
  "publish_one env snap sd = (sd', True) \<Longrightarrow>
     sn_scans (sd_state sd') = sn_scans snap \<and> sn_roots (sd_state sd') = sn_roots snap"
  by (auto simp: publish_one_def Let_def split: prod.splits option.splits)

lemma root_update_frame:
  assumes "rootIndex roots i = Some ri" "rt_schedule r = rt_schedule (roots ! ri)"
  shows "map rt_id (roots[ri := r]) = map rt_id roots"
    "map rt_revision (roots[ri := r]) = map rt_revision roots"
  using assms rootIndex_Some(1)[OF assms(1)] by (auto intro!: map_update_same)

lemma enqueueCurrentRevision_frames:
  assumes "enqueueCurrentRevision rand draws scans root now = (scans', root', draws')"
  shows "rt_schedule root' = rt_schedule root"
  using assms by (auto simp: enqueueCurrentRevision_def Let_def frame_simps split: if_splits prod.splits)

lemma enqueueCurrentRevision_scans:
  assumes "enqueueCurrentRevision rand draws scans root now = (scans', root', draws')" "\<not> rt_retired root"
  obtains fresh where "scans' = scans @ [fresh]" "sc_root_id fresh = rt_id root"
    "sc_config_revision fresh = rt_revision root" "sc_state fresh = StateQueued"
    "newScanRecord rand draws (rt_schedule root) TriggerScheduled now = (fresh, draws')"
  using assms newScanRecord_frames
  by (fastforce simp: enqueueCurrentRevision_def Let_def split: prod.splits)

lemma retired_frames [frame_simps]:
  "rt_retired (clearFollowUp r) = rt_retired r"
  "rt_retired (retainFollowUp t r) = rt_retired r"
  "rt_retired (updateRootAfterTerminal s r) = rt_retired r"
  "rt_retired (invalidateRootEvidence r) = rt_retired r"
  "rt_retired (invalidateRootCompleteEvidence r) = rt_retired r"
  by (simp_all add: clearFollowUp_def retainFollowUp_def updateRootAfterTerminal_def Let_def
      invalidateRootEvidence_def invalidateRootCompleteEvidence_def)

lemma pump_measure_drop:
  assumes "k < length scans" "sc_state (scans ! k) = StateQueued" "sc_state s \<noteq> StateQueued"
    "sn_scans snap = scans" "sn_scans snap' = scans[k := s]"
    "scan_outdated (sn_roots snap') = scan_outdated (sn_roots snap)"
  shows "pump_measure snap' < pump_measure snap"
proof -
  let ?q = "\<lambda>s. sc_state s = StateQueued" and ?o = "\<lambda>s. scan_outdated (sn_roots snap) s \<and> sc_state s = StateQueued"
  have q: "length (filter ?q (scans[k := s])) < length (filter ?q scans)"
    using filter_length_update[of k scans ?q s] assms by simp
  have "length (filter ?o (scans[k := s])) \<le> length (filter ?o scans)"
    using assms(3) by (intro filter_length_update_le) simp
  with q show ?thesis
    using assms by (simp add: pump_measure_def queued_scans_def conj_commute)
qed

lemma startOne_measure:
  assumes "startOne env sd = (sd', True)"
  shows "pump_measure (sd_state sd') < pump_measure (sd_state sd)"
  using assms
proof (cases rule: startOne_cases)
  case idle then show ?thesis by simp
next
  case (cancelled k now roots')
  note q = selectQueuedScan_Some[OF cancelled(1)]
  have "scan_outdated roots' = scan_outdated (sn_roots (sd_state sd))"
    using cancelled(2) by (auto intro!: scan_outdated_frame root_update_frame simp: frame_simps)
  then show ?thesis
    using q publish_one_again[OF cancelled(3)] by (intro pump_measure_drop[of k]) (auto simp: frame_simps)
next
  case (stale k now ri scan' scans' root2 draws')
  let ?roots = "sn_roots (sd_state sd)" and ?scans = "sn_scans (sd_state sd)"
  let ?root1 = "updateRootAfterTerminal scan' (invalidateRootEvidence (?roots ! ri))"
  have q: "k < length ?scans" "sc_state (?scans ! k) = StateQueued" "scan_outdated ?roots (?scans ! k)"
    using selectQueuedScan_Some[OF stale(1)] stale(2,4) by (auto simp: scan_outdated_def)
  obtain fresh where fr: "scans' = ?scans[k := scan'] @ [fresh]" "sc_root_id fresh = rt_id ?root1"
    "sc_config_revision fresh = rt_revision ?root1" "sc_state fresh = StateQueued"
    using enqueueCurrentRevision_scans[OF stale(6)] stale(3) retired_frames by metis
  have "rt_schedule root2 = rt_schedule (?roots ! ri)"
    using enqueueCurrentRevision_frames[OF stale(6)] by (simp add: frame_simps)
  then have fo: "scan_outdated (?roots[ri := root2]) = scan_outdated ?roots"
    by (intro scan_outdated_frame root_update_frame[OF stale(2)])
  have "rootIndex ?roots (rt_id (?roots ! ri)) = Some ri"
    using stale(2) rootIndex_Some[OF stale(2)] by simp
  then have cur: "\<not> scan_outdated ?roots fresh"
    using fr(2,3) by (simp add: scan_outdated_def frame_simps)
  let ?q = "\<lambda>s. sc_state s = StateQueued" and ?o = "\<lambda>s. scan_outdated ?roots s \<and> sc_state s = StateQueued"
  have "length (filter ?q (?scans[k := scan'])) < length (filter ?q ?scans)"
    "length (filter ?o (?scans[k := scan'])) < length (filter ?o ?scans)"
    using filter_length_update[of k ?scans ?q scan'] filter_length_update[of k ?scans ?o scan'] q
    by (auto simp: stale(5) frame_simps)
  then show ?thesis
    using publish_one_again[OF stale(7)] fr cur fo by (simp add: pump_measure_def queued_scans_def conj_commute)
next
  case (run k now ri)
  have "sn_scans (sd_state sd') = (sn_scans (sd_state sd))[k := claim_scan now (sn_scans (sd_state sd) ! k)]"
    "sn_roots (sd_state sd') = sn_roots (sd_state sd)"
    using run(10) by (auto simp: start_run_def Let_def tick_clock_def split: prod.splits option.splits)
  then show ?thesis
    using selectQueuedScan_Some[OF run(5)] by (intro pump_measure_drop[of k]) (auto simp: frame_simps)
qed

function pump_loop :: "'st env \<Rightarrow> 'st sched \<Rightarrow> 'st sched" where
  "pump_loop env sd = (let (sd', again) = startOne env sd in if again then pump_loop env sd' else sd')"
  by auto

termination
  by (relation "measure (\<lambda>(env, sd). pump_measure (sd_state sd))") (auto dest: startOne_measure[OF sym])

declare pump_loop.simps [simp del]

definition pump :: "'st env \<Rightarrow> 'st sched \<Rightarrow> 'st sched" where
  "pump env sd = (if \<not> isStarted sd then sd else pump_loop env sd)"

section \<open>Reads\<close>

definition Root :: "'st sched \<Rightarrow> config_id \<Rightarrow> root_state option" where
  "Root sd rootID = map_option (\<lambda>k. sn_roots (sd_state sd) ! k) (rootIndex (sn_roots (sd_state sd)) rootID)"

definition Scan :: "'st sched \<Rightarrow> runtime_id \<Rightarrow> scan_record option" where
  "Scan sd scanID = map_option (\<lambda>k. sn_scans (sd_state sd) ! k) (scanIndex (sn_scans (sd_state sd)) scanID)"

definition ListScans :: "'st sched \<Rightarrow> config_id \<Rightarrow> scan_record list" where
  "ListScans sd rootID = filter (\<lambda>s. rootID = [] \<or> sc_root_id s = rootID) (sn_scans (sd_state sd))"

section \<open>Public operations\<close>

text \<open>
  Each operation reads the clock, commits one change, and then wakes the loop, cancels runs or
  claims queued scans. The commit alone is the step other goroutines see.
\<close>

definition wake_and_pump :: "'st env \<Rightarrow> 'st sched \<Rightarrow> 'st sched" where
  "wake_and_pump env sd = (let sd1 = signal sd in if isStarted sd1 then pump env sd1 else sd1)"

definition configure_commit ::
  "'st env \<Rightarrow> time \<Rightarrow> ctx \<Rightarrow> root_schedule list \<Rightarrow> 'st sched \<Rightarrow> 'st sched \<times> (scan_error + runtime_id list)" where
  "configure_commit env now ctx schedules =
     commitState env ctx False (configure_change (ev_rand env) (max_detail env) now schedules)"

definition ConfigureRoots ::
  "'st env \<Rightarrow> ctx \<Rightarrow> root_schedule list \<Rightarrow> 'st sched \<Rightarrow> 'st sched \<times> scan_error option" where
  "ConfigureRoots env ctx schedules sd =
     (case validateSchedules schedules (minimum_interval env) of
        Some e \<Rightarrow> (sd, Some (ErrInvalidOptions e))
      | None \<Rightarrow>
          (case configure_commit env (read_clock env (sd_clock sd)) ctx schedules (tick_clock sd) of
             (sd1, Inl e) \<Rightarrow> (sd1, Some e)
           | (sd1, Inr stale) \<Rightarrow> (wake_and_pump env (cancel_runs stale sd1), None)))"

definition RegisterRoot ::
  "'st env \<Rightarrow> ctx \<Rightarrow> root_schedule \<Rightarrow> 'st sched \<Rightarrow> 'st sched \<times> scan_error option" where
  "RegisterRoot env ctx schedule sd =
     ConfigureRoots env ctx
       (map rt_schedule (filter (\<lambda>r. \<not> rt_retired r) (sn_roots (sd_state sd))) @ [schedule]) sd"

definition trigger_commit ::
  "'st env \<Rightarrow> time \<Rightarrow> ctx \<Rightarrow> config_id \<Rightarrow> 'st sched \<Rightarrow> 'st sched \<times> (scan_error + trigger_result)" where
  "trigger_commit env now ctx rootID = commitState env ctx False (trigger_change (ev_rand env) now rootID)"

definition Trigger ::
  "'st env \<Rightarrow> ctx \<Rightarrow> config_id \<Rightarrow> 'st sched \<Rightarrow> 'st sched \<times> (scan_error + trigger_result)" where
  "Trigger env ctx rootID sd =
     (if \<not> ConfigID_Valid rootID then (sd, Inl ErrRootNotFoundInvalidID)
      else case trigger_commit env (read_clock env (sd_clock sd)) ctx rootID (tick_clock sd) of
        (sd1, Inl e) \<Rightarrow> (sd1, Inl e)
      | (sd1, Inr r) \<Rightarrow> (wake_and_pump env sd1, Inr r))"

definition cancel_commit ::
  "'st env \<Rightarrow> time \<Rightarrow> ctx \<Rightarrow> runtime_id \<Rightarrow> 'st sched \<Rightarrow> 'st sched \<times> (scan_error + unit)" where
  "cancel_commit env now ctx scanID = commitState env ctx False (cancel_change (max_detail env) now scanID)"

definition Cancel :: "'st env \<Rightarrow> ctx \<Rightarrow> runtime_id \<Rightarrow> 'st sched \<Rightarrow> 'st sched \<times> scan_error option" where
  "Cancel env ctx scanID sd =
     (if \<not> RuntimeID_Valid scanID then (sd, Some ErrScanNotFound)
      else case cancel_commit env (read_clock env (sd_clock sd)) ctx scanID (tick_clock sd) of
        (sd1, Inl e) \<Rightarrow> (sd1, Some e)
      | (sd1, Inr _) \<Rightarrow> (signal (cancel_runs [scanID] sd1), None))"

definition tick_commit ::
  "'st env \<Rightarrow> time \<Rightarrow> ctx \<Rightarrow> 'st sched \<Rightarrow> 'st sched \<times> (scan_error + runtime_id list)" where
  "tick_commit env now ctx = commitState env ctx False (tick_change (ev_rand env) (max_detail env) now)"

definition Tick :: "'st env \<Rightarrow> ctx \<Rightarrow> 'st sched \<Rightarrow> 'st sched \<times> scan_error option" where
  "Tick env ctx sd =
     (if \<not> isStarted sd then (sd, Some ErrSchedulerNotStarted)
      else case tick_commit env (read_clock env (sd_clock sd)) ctx (tick_clock sd) of
        (sd1, Inl e) \<Rightarrow> (sd1, Some e)
      | (sd1, Inr stale) \<Rightarrow> (pump env (cancel_runs stale sd1), None))"

section \<open>Runners\<close>

text \<open>
  A run's progress report. Here the clock is read inside the change, after its guards; the model
  reads it first, which shifts only which clock reading a rejected report consumes.
\<close>

definition progress_commit ::
  "'st env \<Rightarrow> time \<Rightarrow> ctx \<Rightarrow> runtime_id \<Rightarrow> scan_progress \<Rightarrow> 'st sched \<Rightarrow> 'st sched \<times> (scan_error + unit)" where
  "progress_commit env now ctx scanID p = commitState env ctx False (progress_change (ev_options env) now scanID p)"

definition reportProgress ::
  "'st env \<Rightarrow> ctx \<Rightarrow> runtime_id \<Rightarrow> scan_progress \<Rightarrow> 'st sched \<Rightarrow> 'st sched \<times> scan_error option" where
  "reportProgress env ctx scanID p sd =
     (case ctx of
        Some e \<Rightarrow> (sd, Some (ErrCtx e))
      | None \<Rightarrow>
          if op_max_cursor_bytes (ev_options env) < int (length (sp_cursor p))
          then (sd, Some (ErrScanProgressInvalid CursorTooLarge))
          else if sp_observed_count p < 0 then (sd, Some (ErrScanProgressInvalid CountNegative))
          else case progress_commit env (read_clock env (sd_clock sd)) ctx scanID p (tick_clock sd) of
            (sd1, Inl e) \<Rightarrow> (sd1, Some e)
          | (sd1, Inr _) \<Rightarrow> (sd1, None))"

definition finish_commit ::
  "'st env \<Rightarrow> time \<Rightarrow> runtime_id \<Rightarrow> scan_result \<Rightarrow> run_error option \<Rightarrow> ctx \<Rightarrow> 'st sched
    \<Rightarrow> 'st sched \<times> (scan_error + bool)" where
  "finish_commit env now scanID outcome runErr runCtx =
     commitState env None True (finish_change (ev_rand env) (ev_options env) now scanID outcome runErr runCtx)"

definition drop_run :: "runtime_id \<Rightarrow> 'st sched \<Rightarrow> 'st sched" where
  "drop_run scanID sd = sd\<lparr>sd_running := AList.delete scanID (sd_running sd)\<rparr>"

definition finish ::
  "'st env \<Rightarrow> runtime_id \<Rightarrow> scan_result \<Rightarrow> run_error option \<Rightarrow> ctx \<Rightarrow> 'st sched
    \<Rightarrow> 'st sched \<times> scan_error option" where
  "finish env scanID outcome runErr runCtx sd =
     (let (sd1, r) = finish_commit env (read_clock env (sd_clock sd)) scanID outcome runErr runCtx (tick_clock sd);
          sd2 = drop_run scanID sd1
      in case r of
           Inl e \<Rightarrow> (if is_not_running e then pump env sd2 else sd2, Some e)
         | Inr shouldSignal \<Rightarrow> (pump env (if shouldSignal then signal sd2 else sd2), None))"

text \<open>The end of \<open>execute\<close>: what the runner returned, or that it panicked.\<close>

datatype runner_end = RunReturned scan_result "run_error option" | RunPanicked string

definition zero_result :: scan_result where
  "zero_result = \<lparr>sp_cursor = [], sp_observed_count = 0, sp_coverage = empty_coverage,
     sp_source_coverage = None, res_next_attempt_at = None\<rparr>"

definition execute_end :: "'st env \<Rightarrow> runtime_id \<Rightarrow> runner_end \<Rightarrow> ctx \<Rightarrow> 'st sched \<Rightarrow> 'st sched" where
  "execute_end env scanID ended runCtx sd =
     (let (outcome, runErr) = (case ended of
            RunReturned r e \<Rightarrow> (r, e)
          | RunPanicked text \<Rightarrow> (zero_result,
              Some \<lparr>re_text = ''scan runner panic: '' @ text, re_canceled = False,
                    re_deadline = False, re_retryable = False\<rparr>));
          (sd1, _) = finish env scanID outcome runErr runCtx sd
      in sd1\<lparr>sd_wg := sd_wg sd1 - 1\<rparr>)"

section \<open>Start and stop\<close>

definition Start :: "'st env \<Rightarrow> ctx \<Rightarrow> 'st sched \<Rightarrow> 'st sched \<times> scan_error option" where
  "Start env ctx sd =
     (case ctx of
        Some e \<Rightarrow> (sd, Some (ErrCtx e))
      | None \<Rightarrow>
          if sd_closed sd \<or> sd_stopping sd then (sd, Some ErrSchedulerClosed)
          else if sd_started sd then (sd, None)
          else case so_load (ev_store env) ctx (sd_store sd) of
            Inl e \<Rightarrow> (sd, Some (LoadState e))
          | Inr loaded \<Rightarrow>
              (case Snapshot_Validate (minimum_interval env) loaded of
                 Some p \<Rightarrow> (sd, Some (ErrInvalidSnapshot p))
               | None \<Rightarrow>
                   let (recovered, changed, draws) =
                         recoverSnapshot (ev_rand env) (max_detail env) (read_clock env (sd_clock sd)) (sd_draws sd) loaded;
                       candidate = (if changed then recovered\<lparr>sn_version := sn_version loaded + 1\<rparr> else recovered);
                       sd1 = (tick_clock sd)\<lparr>sd_draws := draws\<rparr>;
                       go = (\<lambda>st. sd1\<lparr>sd_store := st, sd_state := candidate, sd_base_cancelled := False,
                                   sd_started := True, sd_wg := Suc (sd_wg sd1), sd_wake := True\<rparr>)
                   in if \<not> changed then (go (sd_store sd1), None)
                      else case Snapshot_Validate (minimum_interval env) candidate of
                        Some p \<Rightarrow> (sd1, Some (ErrInvalidSnapshot p))
                      | None \<Rightarrow>
                          (case so_save (ev_store env) ctx (sd_store sd1) candidate of
                             (st, Some e) \<Rightarrow> (sd1\<lparr>sd_store := st\<rparr>, Some (PersistRecovery e))
                           | (st, None) \<Rightarrow> (go st, None))))"

text \<open>\<open>Stop\<close> up to its wait, and the end of the wait.\<close>

definition Stop_request :: "'st sched \<Rightarrow> 'st sched" where
  "Stop_request sd =
     (if sd_closed sd then sd
      else if \<not> sd_started sd then sd\<lparr>sd_closed := True\<rparr>
      else sd\<lparr>sd_stopping := True, sd_base_cancelled := True,
              sd_running := map (\<lambda>(i, _). (i, True)) (sd_running sd)\<rparr>)"

definition Stop_done :: "'st sched \<Rightarrow> 'st sched" where
  "Stop_done sd = sd\<lparr>sd_closed := True, sd_stopping := False\<rparr>"

text \<open>One turn of the background loop.\<close>

datatype loop_event = LoopBaseDone | LoopWake | LoopTicker

definition loop_turn :: "'st env \<Rightarrow> loop_event \<Rightarrow> 'st sched \<Rightarrow> 'st sched" where
  "loop_turn env e sd =
     (case e of
        LoopBaseDone \<Rightarrow> sd\<lparr>sd_wg := sd_wg sd - 1\<rparr>
      | LoopWake \<Rightarrow> fst (Tick env None (sd\<lparr>sd_wake := False\<rparr>))
      | LoopTicker \<Rightarrow> fst (Tick env None sd))"

section \<open>The reference store\<close>

definition NewMemoryStoreWithSnapshot :: "snapshot \<Rightarrow> snapshot_problem + snapshot" where
  "NewMemoryStoreWithSnapshot snap =
     (case Snapshot_Validate 0 snap of Some e \<Rightarrow> Inl e | None \<Rightarrow> Inr snap)"

definition MemoryStore_Load :: "ctx \<Rightarrow> snapshot \<Rightarrow> scan_error + snapshot" where
  "MemoryStore_Load ctx stored = (case ctx of Some e \<Rightarrow> Inl (ErrCtx e) | None \<Rightarrow> Inr stored)"

definition MemoryStore_Save :: "ctx \<Rightarrow> snapshot \<Rightarrow> snapshot \<Rightarrow> snapshot \<times> scan_error option" where
  "MemoryStore_Save ctx stored snap =
     (case ctx of
        Some e \<Rightarrow> (stored, Some (ErrCtx e))
      | None \<Rightarrow>
          (case Snapshot_Validate 0 snap of
             Some p \<Rightarrow> (stored, Some (ErrInvalidSnapshot p))
           | None \<Rightarrow> (snap, None)))"

definition memory_store :: "snapshot store_ops" where
  "memory_store = \<lparr>so_load = MemoryStore_Load, so_save = MemoryStore_Save\<rparr>"

end
