(* ===== verification/Scan_Valid.thy ===== *)
theory Scan_Valid
  imports Scan_Steps
begin

text \<open>
  What \<open>Snapshot.Validate\<close> (\<^verbatim>\<open>internal/scanning/scanning.go\<close>) accepts, as one conjunction over the
  lists of the snapshot. The loops of the code keep the ids seen so far and a map from a root to
  its active scan; the facts here replace both by distinctness and by a search.
\<close>

section \<open>Specification\<close>

definition live_scans :: "scan_record list \<Rightarrow> scan_record list" where
  "live_scans scans = filter (\<lambda>s. \<not> sc_terminal s) scans"

definition active_id :: "scan_record list \<Rightarrow> config_id \<Rightarrow> runtime_id" where
  "active_id scans root = (case activeScanIndex scans root of None \<Rightarrow> [] | Some k \<Rightarrow> sc_id (scans ! k))"

definition valid_snapshot :: "duration \<Rightarrow> snapshot \<Rightarrow> bool" where
  "valid_snapshot minimumInterval s \<longleftrightarrow>
     list_all (\<lambda>r. root_check minimumInterval [] r = None) (sn_roots s)
   \<and> distinct (map rt_id (sn_roots s))
   \<and> list_all (\<lambda>x. ScanRecord_validate x = None) (sn_scans s)
   \<and> set (map sc_root_id (sn_scans s)) \<subseteq> set (map rt_id (sn_roots s))
   \<and> distinct (map sc_id (sn_scans s))
   \<and> distinct (map sc_root_id (live_scans (sn_scans s)))
   \<and> list_all (\<lambda>r. rt_active_scan_id r = active_id (sn_scans s) (rt_id r)) (sn_roots s)"

section \<open>The loop over the roots\<close>

lemma root_check_seen:
  "root_check m seen r = None \<longleftrightarrow> root_check m [] r = None \<and> rt_id r \<notin> set seen"
  by (auto simp: root_check_def split: option.splits)

lemma roots_check_iff:
  "roots_check m seen i rs = None \<longleftrightarrow>
     list_all (\<lambda>r. root_check m [] r = None) rs \<and> distinct (map rt_id rs) \<and> set seen \<inter> set (map rt_id rs) = {}"
proof (induction rs arbitrary: seen i)
  case (Cons r rs)
  then show ?case
    using root_check_seen[of m seen r] by (cases "root_check m seen r") auto
qed simp

section \<open>The loop over the scans\<close>

lemma scans_check_iff:
  "scans_check known seen active i ss = Inr active' \<longleftrightarrow>
     list_all (\<lambda>s. ScanRecord_validate s = None) ss \<and> set (map sc_root_id ss) \<subseteq> set known
   \<and> distinct (map sc_id ss) \<and> set seen \<inter> set (map sc_id ss) = {}
   \<and> distinct (map sc_root_id (live_scans ss)) \<and> fst ` set active \<inter> sc_root_id ` set (live_scans ss) = {}
   \<and> active' = rev (map (\<lambda>s. (sc_root_id s, sc_id s)) (live_scans ss)) @ active"
proof (induction ss arbitrary: seen active i)
  case Nil
  then show ?case by (auto simp: live_scans_def)
next
  case (Cons s ss)
  show ?case
  proof (cases "ScanRecord_validate s = None \<and> sc_root_id s \<in> set known \<and> sc_id s \<notin> set seen")
    case False
    then show ?thesis by (cases "ScanRecord_validate s") auto
  next
    case ok: True
    show ?thesis
    proof (cases "sc_terminal s")
      case True
      then show ?thesis using ok Cons.IH by (auto simp: live_scans_def)
    next
      case live: False
      show ?thesis
      proof (cases "map_of active (sc_root_id s)")
        case None
        then have "sc_root_id s \<notin> fst ` set active" by (simp add: map_of_eq_None_iff)
        then show ?thesis using ok live None Cons.IH by (auto simp: live_scans_def)
      next
        case (Some p)
        then have "sc_root_id s \<in> fst ` set active" by (metis map_of_eq_None_iff option.distinct(1))
        then show ?thesis using ok live Some by (auto simp: live_scans_def)
      qed
    qed
  qed
qed

lemma active_refs_check_iff:
  "active_refs_check active rs = None \<longleftrightarrow>
     list_all (\<lambda>r. rt_active_scan_id r = (case map_of active (rt_id r) of None \<Rightarrow> [] | Some i \<Rightarrow> i)) rs"
  by (induction rs) auto

lemma active_id_map_of:
  assumes "distinct (map sc_root_id (live_scans scans))"
  shows "active_id scans root =
    (case map_of (rev (map (\<lambda>s. (sc_root_id s, sc_id s)) (live_scans scans))) root of None \<Rightarrow> [] | Some i \<Rightarrow> i)"
proof (cases "activeScanIndex scans root")
  case None
  then have "\<forall>s\<in>set (live_scans scans). sc_root_id s \<noteq> root"
    by (auto simp: activeScanIndex_def find_index_None live_scans_def)
  then have "map_of (rev (map (\<lambda>s. (sc_root_id s, sc_id s)) (live_scans scans))) root = None"
    by (auto simp: map_of_eq_None_iff)
  with None show ?thesis by (simp add: active_id_def)
next
  case (Some k)
  let ?l = "rev (map (\<lambda>s. (sc_root_id s, sc_id s)) (live_scans scans))"
  have "scans ! k \<in> set (live_scans scans)" "sc_root_id (scans ! k) = root"
    using activeScanIndex_Some[OF Some] by (simp_all add: live_scans_def)
  then have "(root, sc_id (scans ! k)) \<in> set ?l" by force
  moreover have "distinct (map fst ?l)" using assms by (simp add: rev_map[symmetric] comp_def)
  ultimately have "map_of ?l root = Some (sc_id (scans ! k))" by simp
  with Some show ?thesis by (simp add: active_id_def)
qed

lemma Snapshot_Validate_iff: "Snapshot_Validate m s = None \<longleftrightarrow> valid_snapshot m s"
proof -
  have "Snapshot_Validate m s = None \<longleftrightarrow>
     roots_check m [] 0 (sn_roots s) = None \<and>
     (\<exists>active. scans_check (map rt_id (sn_roots s)) [] [] 0 (sn_scans s) = Inr active
        \<and> active_refs_check active (sn_roots s) = None)"
    by (auto simp: Snapshot_Validate_def split: option.splits sum.splits)
  then show ?thesis
    using active_id_map_of[of "sn_scans s"]
    by (auto simp: roots_check_iff scans_check_iff active_refs_check_iff valid_snapshot_def)
qed

end
