(* ===== verification/Scan_History.thy ===== *)
theory Scan_History
  imports Scan_Valid
begin

text \<open>
  What every transition of the scan scheduler keeps of the scans (\<^verbatim>\<open>internal/scanning/scanning.go\<close>):
  records are never removed or reordered, their identity never changes, a finished record is
  never touched again, a cancellation request and a start time stay, and counts only grow.
\<close>

section \<open>The history relation\<close>

definition keeps :: "scan_record \<Rightarrow> scan_record \<Rightarrow> bool" where
  "keeps s t \<longleftrightarrow>
     sc_id t = sc_id s \<and> sc_root_id t = sc_root_id s \<and> sc_config_revision t = sc_config_revision s
   \<and> sc_created_at t = sc_created_at s \<and> (sc_terminal s \<longrightarrow> t = s)
   \<and> (sc_started_at s \<noteq> None \<longrightarrow> sc_started_at t = sc_started_at s)
   \<and> (sc_cancellation_requested_at s \<noteq> None \<longrightarrow> sc_cancellation_requested_at t = sc_cancellation_requested_at s)
   \<and> sc_observed_count s \<le> sc_observed_count t"

definition extends :: "scan_record list \<Rightarrow> scan_record list \<Rightarrow> bool" where
  "extends xs ys \<longleftrightarrow> length xs \<le> length ys \<and> (\<forall>k<length xs. keeps (xs ! k) (ys ! k))"

named_theorems history_intros

lemma keeps_refl [simp, history_intros]: "keeps s s"
  by (simp add: keeps_def)

lemma keeps_trans: "keeps s t \<Longrightarrow> keeps t u \<Longrightarrow> keeps s u"
  by (cases "sc_terminal s") (auto simp: keeps_def)

lemma extends_refl [simp, history_intros]: "extends xs xs"
  by (simp add: extends_def)

lemma extends_trans: "extends xs ys \<Longrightarrow> extends ys zs \<Longrightarrow> extends xs zs"
  unfolding extends_def using keeps_trans by (meson le_trans less_le_trans)

lemma extends_append [history_intros]: "extends xs ys \<Longrightarrow> extends xs (ys @ zs)"
  by (auto simp: extends_def nth_append)

lemma extends_update [history_intros]: "(k < length xs \<Longrightarrow> keeps (xs ! k) y) \<Longrightarrow> extends xs (xs[k := y])"
  unfolding extends_def by (metis eq_imp_le keeps_refl length_list_update nth_list_update_eq nth_list_update_neq)

lemma extends_fold:
  "(\<And>x a. x \<in> set xs \<Longrightarrow> extends (f a) (f (g x a))) \<Longrightarrow> extends (f a) (f (fold g xs a))"
proof (induction xs arbitrary: a)
  case (Cons x xs)
  then show ?case using extends_trans[of "f a" "f (g x a)"] by simp
qed simp

section \<open>Terminal transitions and claims\<close>

lemma keeps_finalize [history_intros]:
  assumes "\<not> sc_terminal s"
  shows "keeps s (finalizeStale n m s)" "keeps s (finalizeCancelled n m s)" "keeps s (finalizeDeadline n m s)"
  using assms by (simp_all add: keeps_def finalizeStale_def finalizeCancelled_def finalizeDeadline_def
      downgrade_complete_def)

lemma keeps_claim [history_intros]: "\<not> sc_terminal s \<Longrightarrow> keeps s (claim_scan n s)"
  by (simp add: keeps_def claim_scan_def Let_def)

lemma keeps_conclude:
  assumes "conclude_run opts now cursor next runErr ctxErr s = (s', w)" "\<not> sc_terminal s"
  shows "keeps s s'"
  using assms
  by (auto simp: conclude_run_def Let_def keeps_def finalizeCancelled_def finalizeDeadline_def
      downgrade_complete_def split: if_splits)

lemma enqueue_extends:
  "enqueueCurrentRevision rand draws scans root now = (scans', root', draws') \<Longrightarrow> extends scans scans'"
  by (auto simp: enqueueCurrentRevision_def Let_def intro!: history_intros split: if_splits prod.splits)

lemma queued_not_terminal: "sc_state s = StateQueued \<Longrightarrow> \<not> sc_terminal s"
  by simp

lemma running_not_terminal: "sc_state s = StateRunning \<Longrightarrow> \<not> sc_terminal s"
  by simp

section \<open>The changes\<close>

lemma trigger_change_extends:
  "trigger_change rand now root draws snap = (d, Inr (snap', r)) \<Longrightarrow> extends (sn_scans snap) (sn_scans snap')"
  by (auto simp: trigger_change_def Let_def keeps_def dest: activeScanIndex_Some
      intro!: history_intros split: option.splits if_splits prod.splits)

lemma cancel_change_extends:
  "cancel_change m now i draws snap = (d, Inr (snap', r)) \<Longrightarrow> extends (sn_scans snap) (sn_scans snap')"
  by (auto simp: cancel_change_def Let_def keeps_def finalizeCancelled_def downgrade_complete_def
      intro!: history_intros split: option.splits if_splits)

lemma progress_change_extends:
  "progress_change opts now i p draws snap = (d, Inr (snap', r)) \<Longrightarrow> extends (sn_scans snap) (sn_scans snap')"
  by (auto simp: progress_change_def Let_def keeps_def
      intro!: history_intros split: option.splits if_splits sum.splits)

lemma keeps_requeue: "sc_state s = StateWaiting \<Longrightarrow>
    keeps s (s\<lparr>sc_state := StateQueued, sc_next_attempt_at := None, sc_updated_at := now\<rparr>)"
  by (simp add: keeps_def)

lemma tick_root_extends:
  "extends (sn_scans (fst st)) (sn_scans (fst (tick_root rand m now ri st)))"
proof -
  obtain snap draws stale where st: "st = (snap, draws, stale)" by (cases st)
  show ?thesis
  proof (cases "activeScanIndex (sn_scans snap) (rt_id (sn_roots snap ! ri))")
    case None
    then show ?thesis by (auto simp: st tick_root_def Let_def intro!: history_intros split: prod.splits)
  next
    case (Some k)
    let ?x = "sn_scans snap" and ?s = "finalizeStale now m (sn_scans snap ! k)"
    have live: "\<not> sc_terminal (?x ! k)" using activeScanIndex_Some[OF Some] by simp
    have "extends ?x (?x[k := ?s])" using live by (auto intro!: history_intros)
    note stale = extends_trans[OF this enqueue_extends]
    show ?thesis
      using Some live by (auto simp: st tick_root_def Let_def intro!: history_intros keeps_requeue
          dest: stale split: prod.splits)
  qed
qed

lemma tick_change_extends:
  assumes "tick_change rand m now draws snap = (d, Inr (snap', r))"
  shows "extends (sn_scans snap) (sn_scans snap')"
  using assms extends_fold[of "[0..<length (sn_roots snap)]" "\<lambda>st. sn_scans (fst st)" "tick_root rand m now"
      "(snap, draws, [])"] tick_root_extends
  by (auto simp: tick_change_def split: prod.splits)

lemma stale_then_enqueue:
  assumes "\<not> sc_terminal (scans ! k)"
    "enqueueCurrentRevision rand draws (scans[k := finalizeStale n m (scans ! k)]) root now = (scans', root', draws')"
  shows "extends scans scans'"
  using extends_trans[OF extends_update enqueue_extends[OF assms(2)]] keeps_finalize(1)[OF assms(1)] by blast

lemma conclude_root_extends:
  "conclude_root rand draws now s scans root = (scans', root', d, w) \<Longrightarrow> extends scans scans'"
  by (auto simp: conclude_root_def Let_def intro!: history_intros split: if_splits prod.splits)

lemma finish_change_extends:
  assumes "finish_change rand opts now i outcome runErr ctxErr draws snap = (d, Inr (snap', r))"
  shows "extends (sn_scans snap) (sn_scans snap')"
proof -
  obtain k where k: "scanIndex (sn_scans snap) i = Some k"
    using assms by (auto simp: finish_change_def split: option.splits)
  let ?s = "sn_scans snap ! k"
  obtain ri where run: "sc_state ?s = StateRunning" and ri: "rootIndex (sn_roots snap) (sc_root_id ?s) = Some ri"
    using assms k by (auto simp: finish_change_def Let_def split: option.splits if_splits)
  show ?thesis
  proof (cases "sc_config_revision ?s = rt_revision (sn_roots snap ! ri)")
    case False
    then show ?thesis
      using assms k run ri stale_then_enqueue[of "sn_scans snap" k]
      by (auto simp: finish_change_def Let_def split: prod.splits)
  next
    case True
    let ?oc = "max (sp_observed_count outcome) (sc_observed_count ?s)"
    obtain cov sources s' w scans' root' d' w' where
      c: "conclude_run opts now (sp_cursor outcome) (res_next_attempt_at outcome) runErr ctxErr
        (?s\<lparr>sc_cursor := sp_cursor outcome, sc_observed_count := ?oc, sc_coverage := cov,
            sc_source_coverage := sources, sc_error_code := [], sc_error_detail := []\<rparr>) = (s', w)"
      and cr: "conclude_root rand draws now s' ((sn_scans snap)[k := s']) (sn_roots snap ! ri) = (scans', root', d', w')"
      and snap': "sn_scans snap' = scans'"
      using assms k run ri True
      by (fastforce simp: finish_change_def Let_def split: sum.splits prod.splits)
    have "keeps ?s s'"
      using keeps_trans[OF _ keeps_conclude[OF c]] run by (auto simp: keeps_def)
    then show ?thesis
      unfolding snap' using extends_trans[OF extends_update conclude_root_extends[OF cr]] by blast
  qed
qed

lemma configure_schedule_extends:
  "extends (fst (snd st)) (fst (snd (configure_schedule rand m now schedule st)))"
proof -
  obtain byID scans draws stale where st: "st = (byID, scans, draws, stale)" by (cases st)
  have "extends scans (fst (snd (configure_revision rand m now schedule r (scans, draws, stale))))" for r
  proof (cases "activeScanIndex scans (rs_id schedule)")
    case (Some k)
    then have "\<not> sc_terminal (scans ! k)" by (rule activeScanIndex_Some)
    then show ?thesis using Some
      by (auto simp: configure_revision_def Let_def intro!: history_intros split: prod.splits)
  qed (simp add: configure_revision_def)
  then show ?thesis
    by (auto simp: st configure_schedule_def Let_def split: option.splits prod.splits if_splits) (metis fst_conv snd_conv)+
qed

lemma configure_change_extends:
  assumes "configure_change rand m now schedules draws snap = (d, Inr (snap', r))"
  shows "extends (sn_scans snap) (sn_scans snap')"
  using assms extends_fold[of schedules "\<lambda>st. fst (snd st)" "configure_schedule rand m now"
      "(roots_by_id (sn_roots snap), sn_scans snap, draws, [])"] configure_schedule_extends
  by (auto simp: configure_change_def Let_def split: prod.splits)

section \<open>Recovery and claims\<close>

lemma keeps_recover: "sc_state s = StateRunning \<Longrightarrow>
    keeps s (s\<lparr>sc_state := StateQueued, sc_trigger := t, sc_updated_at := now, sc_error_code := c, sc_error_detail := d\<rparr>)"
  by (simp add: keeps_def)

lemma recover_scan_extends:
  "extends (fst (snd st)) (fst (snd (recover_scan rand m now k st)))"
proof -
  obtain roots scans draws changed where st: "st = (roots, scans, draws, changed)" by (cases st)
  show ?thesis
    using stale_then_enqueue[of scans k]
    by (auto simp: st recover_scan_def Let_def intro!: history_intros keeps_recover split: option.splits prod.splits)
qed

lemma recoverSnapshot_extends:
  assumes "recoverSnapshot rand m now draws snap = (snap', changed, d)"
  shows "extends (sn_scans snap) (sn_scans snap')"
  using assms extends_fold[of "[0..<length (sn_scans snap)]" "\<lambda>st. fst (snd st)" "recover_scan rand m now"
      "(map fst (map (recover_root (sn_scans snap)) (sn_roots snap)), sn_scans snap, draws,
        list_ex snd (map (recover_root (sn_scans snap)) (sn_roots snap)))"] recover_scan_extends
  by (auto simp: recoverSnapshot_def Let_def split: prod.splits)

lemma publish_one_state:
  "publish_one env snap sd = (sd', again) \<Longrightarrow>
     sd_state sd' = sd_state sd \<or> sn_scans (sd_state sd') = sn_scans snap \<and> sn_roots (sd_state sd') = sn_roots snap"
  by (auto simp: publish_one_def Let_def split: prod.splits option.splits)

lemma start_run_state:
  "start_run env k now sd = (sd', again) \<Longrightarrow>
     sd_state sd' = sd_state sd \<or> sn_roots (sd_state sd') = sn_roots (sd_state sd)
       \<and> sn_scans (sd_state sd') = (sn_scans (sd_state sd))[k := claim_scan now (sn_scans (sd_state sd) ! k)]"
  by (auto simp: start_run_def Let_def split: prod.splits option.splits)

lemma tick_clock_simps [simp]:
  "sd_state (tick_clock sd) = sd_state sd" "sd_running (tick_clock sd) = sd_running sd"
  "sd_store (tick_clock sd) = sd_store sd" "sd_started (tick_clock sd) = sd_started sd"
  "sd_stopping (tick_clock sd) = sd_stopping sd" "sd_closed (tick_clock sd) = sd_closed sd"
  "sd_wg (tick_clock sd) = sd_wg sd" "sd_base_cancelled (tick_clock sd) = sd_base_cancelled sd"
  "sd_draws (tick_clock sd) = sd_draws sd"
  by (simp_all add: tick_clock_def)

lemma startOne_extends:
  assumes "startOne env sd = (sd', again)"
  shows "extends (sn_scans (sd_state sd)) (sn_scans (sd_state sd'))"
  using assms
proof (cases rule: startOne_cases)
  case (cancelled k now roots')
  then show ?thesis
    using publish_one_state[OF cancelled(3)] selectQueuedScan_Some[OF cancelled(1)] queued_not_terminal
    by (auto intro!: history_intros)
next
  case (stale k now ri scan' scans' root2 draws')
  then show ?thesis
    using publish_one_state[OF stale(7)] selectQueuedScan_Some[OF stale(1)] queued_not_terminal
      stale_then_enqueue[of "sn_scans (sd_state sd)" k] by auto
next
  case (run k now ri)
  then show ?thesis
    using start_run_state[OF run(10)] selectQueuedScan_Some[OF run(5)] queued_not_terminal
    by (auto intro!: history_intros)
qed simp

end
