(* ===== verification/Scan_Machine.thy ===== *)
theory Scan_Machine
  imports Scan_History
begin

text \<open>
  The interleavings of the scan scheduler (\<^verbatim>\<open>internal/scanning/scanning.go\<close>). A step is one
  critical section: a commit, a claim, the removal of a finished run, a flag set under the lock.
  The goroutines are the background loop and one \<open>execute\<close> per claimed scan, which commits its
  outcome, leaves the running map and ends. Clock readings are arbitrary in every step. The
  public operations are sequences of these steps, so what holds of every step holds of them
  under any interleaving.
\<close>

section \<open>Goroutines and steps\<close>

datatype exec_phase = ExecRunning | ExecFinishing | ExecExiting

record 'st machine =
  mc_sched :: "'st sched"
  mc_execs :: "(runtime_id \<times> exec_phase) list"
  mc_loop :: bool

definition launched :: "'st sched \<Rightarrow> 'st sched \<Rightarrow> (runtime_id \<times> exec_phase) list" where
  "launched sd sd' = map (\<lambda>(i, _). (i, ExecRunning)) (drop (length (sd_running sd)) (sd_running sd'))"

inductive sched_step :: "'st env \<Rightarrow> 'st machine \<Rightarrow> 'st machine \<Rightarrow> bool" for env where
  step_start: "Start env ctx (mc_sched m) = (sd', r) \<Longrightarrow>
    sched_step env m (m\<lparr>mc_sched := sd', mc_loop := (mc_loop m \<or> \<not> sd_started (mc_sched m) \<and> sd_started sd')\<rparr>)"
| step_stop: "sched_step env m (m\<lparr>mc_sched := Stop_request (mc_sched m)\<rparr>)"
| step_stopped: "sd_stopping (mc_sched m) \<Longrightarrow> sd_wg (mc_sched m) = 0 \<Longrightarrow>
    sched_step env m (m\<lparr>mc_sched := Stop_done (mc_sched m)\<rparr>)"
| step_configure: "validateSchedules schedules (minimum_interval env) = None \<Longrightarrow>
    configure_commit env now ctx schedules (mc_sched m) = (sd', r) \<Longrightarrow>
    sched_step env m (m\<lparr>mc_sched := sd'\<rparr>)"
| step_trigger: "trigger_commit env now ctx root (mc_sched m) = (sd', r') \<Longrightarrow>
    sched_step env m (m\<lparr>mc_sched := sd'\<rparr>)"
| step_cancel: "cancel_commit env now ctx i (mc_sched m) = (sd', r'') \<Longrightarrow>
    sched_step env m (m\<lparr>mc_sched := sd'\<rparr>)"
| step_tick: "tick_commit env now ctx (mc_sched m) = (sd', r) \<Longrightarrow>
    sched_step env m (m\<lparr>mc_sched := sd'\<rparr>)"
| step_progress: "(i, ExecRunning) \<in> set (mc_execs m) \<Longrightarrow>
    progress_commit env now ctx i p (mc_sched m) = (sd', r'') \<Longrightarrow>
    sched_step env m (m\<lparr>mc_sched := sd'\<rparr>)"
| step_claim: "startOne env (mc_sched m) = (sd', again) \<Longrightarrow>
    sched_step env m (m\<lparr>mc_sched := sd', mc_execs := mc_execs m @ launched (mc_sched m) sd'\<rparr>)"
| step_finish: "mc_execs m = xs @ (i, ExecRunning) # ys \<Longrightarrow>
    finish_commit env now i outcome runErr ctx (mc_sched m) = (sd', b) \<Longrightarrow>
    sched_step env m (m\<lparr>mc_sched := sd', mc_execs := xs @ (i, ExecFinishing) # ys\<rparr>)"
| step_drop: "mc_execs m = xs @ (i, ExecFinishing) # ys \<Longrightarrow>
    sched_step env m (m\<lparr>mc_sched := drop_run i (mc_sched m), mc_execs := xs @ (i, ExecExiting) # ys\<rparr>)"
| step_exit: "mc_execs m = xs @ (i, ExecExiting) # ys \<Longrightarrow>
    sched_step env m (m\<lparr>mc_sched := (mc_sched m)\<lparr>sd_wg := sd_wg (mc_sched m) - 1\<rparr>, mc_execs := xs @ ys\<rparr>)"
| step_loop_done: "mc_loop m \<Longrightarrow> sd_base_cancelled (mc_sched m) \<Longrightarrow>
    sched_step env m (m\<lparr>mc_sched := (mc_sched m)\<lparr>sd_wg := sd_wg (mc_sched m) - 1\<rparr>, mc_loop := False\<rparr>)"
| step_cancel_runs: "sched_step env m (m\<lparr>mc_sched := cancel_runs ids (mc_sched m)\<rparr>)"
| step_wake: "sched_step env m (m\<lparr>mc_sched := (mc_sched m)\<lparr>sd_wake := b\<rparr>\<rparr>)"
| step_clock: "sched_step env m (m\<lparr>mc_sched := tick_clock (mc_sched m)\<rparr>)"
| step_parent_cancelled: "sched_step env m (m\<lparr>mc_sched := (mc_sched m)\<lparr>sd_base_cancelled := True\<rparr>\<rparr>)"

definition sched_steps :: "'st env \<Rightarrow> 'st machine \<Rightarrow> 'st machine \<Rightarrow> bool" where
  "sched_steps env = (sched_step env)\<^sup>*\<^sup>*"

lemma steps_refl [simp]: "sched_steps env m m"
  by (simp add: sched_steps_def)

lemma steps_trans: "sched_steps env m n \<Longrightarrow> sched_steps env n l \<Longrightarrow> sched_steps env m l"
  by (simp add: sched_steps_def)

lemma steps_step: "sched_step env m n \<Longrightarrow> sched_steps env n l \<Longrightarrow> sched_steps env m l"
  by (simp add: sched_steps_def converse_rtranclp_into_rtranclp)

lemma step_steps: "sched_step env m n \<Longrightarrow> sched_steps env m n"
  by (simp add: sched_steps_def)

lemma steps_keep:
  assumes "sched_steps env m n" "P m" "\<And>x y. P x \<Longrightarrow> sched_step env x y \<Longrightarrow> P y"
  shows "P n"
  using assms(1)[unfolded sched_steps_def] assms(2,3) by (induction rule: rtranclp_induct) blast+

section \<open>The public operations are sequences of steps\<close>

definition all_running :: "(runtime_id \<times> exec_phase) list \<Rightarrow> bool" where
  "all_running ex \<longleftrightarrow> list_all (\<lambda>p. snd p = ExecRunning) ex"

lemma all_running_simps [simp]:
  "all_running []" "all_running (xs @ ys) \<longleftrightarrow> all_running xs \<and> all_running ys" "all_running (launched sd sd')"
  by (auto simp: all_running_def launched_def list_all_iff)

lemma pump_loop_steps:
  "\<exists>ex. all_running ex \<and> sched_steps env m (m\<lparr>mc_sched := pump_loop env (mc_sched m), mc_execs := mc_execs m @ ex\<rparr>)"
proof (induction "pump_measure (sd_state (mc_sched m))" arbitrary: m rule: less_induct)
  case less
  obtain sd' again where one: "startOne env (mc_sched m) = (sd', again)" by fastforce
  let ?n = "m\<lparr>mc_sched := sd', mc_execs := mc_execs m @ launched (mc_sched m) sd'\<rparr>"
  have step: "sched_step env m ?n" by (rule step_claim[OF one])
  show ?case
  proof (cases again)
    case True
    then obtain ex where "all_running ex" "sched_steps env ?n (?n\<lparr>mc_sched := pump_loop env sd', mc_execs := mc_execs ?n @ ex\<rparr>)"
      using less[of ?n] startOne_measure[of env "mc_sched m" sd'] one by fastforce
    then show ?thesis using steps_step[OF step] True one
      by (subst pump_loop.simps) (auto intro!: exI[of _ "launched (mc_sched m) sd' @ ex"])
  next
    case False
    then show ?thesis using step_steps[OF step] one
      by (subst pump_loop.simps) (auto intro!: exI[of _ "launched (mc_sched m) sd'"])
  qed
qed

lemma pump_steps: "\<exists>ex. all_running ex \<and> sched_steps env m (m\<lparr>mc_sched := pump env (mc_sched m), mc_execs := mc_execs m @ ex\<rparr>)"
  using pump_loop_steps[of env m] steps_refl[of env m]
  by (cases "isStarted (mc_sched m)") (auto simp: pump_def intro!: exI[of _ "[]"])

text \<open>
  \<open>reaches\<close>: from a machine, steps lead to a scheduler state, with some runs launched on the way
  and the goroutines that were there untouched.
\<close>

definition reaches :: "'st env \<Rightarrow> 'st machine \<Rightarrow> 'st sched \<Rightarrow> bool" where
  "reaches env m sd' \<longleftrightarrow> (\<exists>ex. all_running ex \<and> sched_steps env m (m\<lparr>mc_sched := sd', mc_execs := mc_execs m @ ex\<rparr>))"

lemma reaches_refl: "reaches env m (mc_sched m)"
  unfolding reaches_def by (rule exI[of _ "[]"]) simp

lemma reaches_step:
  assumes "sched_step env m (m\<lparr>mc_sched := sd\<rparr>)" "reaches env (m\<lparr>mc_sched := sd\<rparr>) sd'"
  shows "reaches env m sd'"
  using assms steps_step[OF assms(1)] by (auto simp: reaches_def)

lemma reaches_one: "sched_step env m (m\<lparr>mc_sched := sd\<rparr>) \<Longrightarrow> reaches env m sd"
  using reaches_step[OF _ reaches_refl[of env "m\<lparr>mc_sched := sd\<rparr>"]] by simp

lemma reaches_pump: "reaches env m (pump env (mc_sched m))"
  unfolding reaches_def by (rule pump_steps)

lemma reaches_signal: "sched_step env m (m\<lparr>mc_sched := signal (mc_sched m)\<rparr>)"
  unfolding signal_def by (rule step_wake)

lemma reaches_wake_and_pump: "reaches env m (wake_and_pump env (mc_sched m))"
proof -
  note s = reaches_signal[of env m]
  show ?thesis
    using reaches_step[OF s reaches_pump[of env "m\<lparr>mc_sched := signal (mc_sched m)\<rparr>"]] reaches_one[OF s]
    by (simp add: wake_and_pump_def Let_def)
qed

text \<open>The shape the operations share: clock, commit, and a tail after a commit that succeeded.\<close>

lemma reaches_clock_commit:
  assumes "sched_step env (m\<lparr>mc_sched := tick_clock (mc_sched m)\<rparr>) (m\<lparr>mc_sched := sd1\<rparr>)"
    "reaches env (m\<lparr>mc_sched := sd1\<rparr>) sd2"
  shows "reaches env m sd2"
  using assms reaches_step[OF step_clock reaches_step[of env "m\<lparr>mc_sched := tick_clock (mc_sched m)\<rparr>" sd1]] by simp

lemma reaches_same: "reaches env (m\<lparr>mc_sched := sd\<rparr>) sd"
  using reaches_refl[of env "m\<lparr>mc_sched := sd\<rparr>"] by simp

lemma ConfigureRoots_reaches:
  "ConfigureRoots env ctx schedules (mc_sched m) = (sd', r) \<Longrightarrow> reaches env m sd'"
proof -
  assume eq: "ConfigureRoots env ctx schedules (mc_sched m) = (sd', r)"
  show ?thesis
  proof (cases "validateSchedules schedules (minimum_interval env)")
    case None
    obtain sd1 x where c: "configure_commit env (read_clock env (sd_clock (mc_sched m))) ctx schedules
        (tick_clock (mc_sched m)) = (sd1, x)" by fastforce
    have step: "sched_step env (m\<lparr>mc_sched := tick_clock (mc_sched m)\<rparr>) (m\<lparr>mc_sched := sd1\<rparr>)"
      using step_configure[OF None, of _ ctx "m\<lparr>mc_sched := tick_clock (mc_sched m)\<rparr>"] c by simp
    have "reaches env (m\<lparr>mc_sched := sd1\<rparr>) (wake_and_pump env (cancel_runs ids sd1))" for ids
      using reaches_step[OF step_cancel_runs reaches_wake_and_pump, of env "m\<lparr>mc_sched := sd1\<rparr>" ids] by simp
    then show ?thesis
      using eq None c reaches_clock_commit[OF step] reaches_same
      by (auto simp: ConfigureRoots_def split: sum.splits)
  qed (use eq reaches_refl in \<open>auto simp: ConfigureRoots_def\<close>)
qed

lemma RegisterRoot_reaches:
  "RegisterRoot env ctx schedule (mc_sched m) = (sd', r) \<Longrightarrow> reaches env m sd'"
  unfolding RegisterRoot_def by (rule ConfigureRoots_reaches)

lemma Trigger_reaches:
  assumes eq: "Trigger env ctx root (mc_sched m) = (sd', r)" shows "reaches env m sd'"
proof -
  obtain sd1 x where c: "trigger_commit env (read_clock env (sd_clock (mc_sched m))) ctx root
      (tick_clock (mc_sched m)) = (sd1, x)" by fastforce
  have step: "sched_step env (m\<lparr>mc_sched := tick_clock (mc_sched m)\<rparr>) (m\<lparr>mc_sched := sd1\<rparr>)"
    using step_trigger[of env _ ctx root "m\<lparr>mc_sched := tick_clock (mc_sched m)\<rparr>"] c by simp
  show ?thesis
    using eq c reaches_clock_commit[OF step] reaches_same reaches_refl
      reaches_wake_and_pump[of env "m\<lparr>mc_sched := sd1\<rparr>"]
    by (auto simp: Trigger_def split: sum.splits if_splits)
qed

lemma Cancel_reaches:
  assumes eq: "Cancel env ctx i (mc_sched m) = (sd', r)" shows "reaches env m sd'"
proof -
  obtain sd1 x where c: "cancel_commit env (read_clock env (sd_clock (mc_sched m))) ctx i
      (tick_clock (mc_sched m)) = (sd1, x)" by fastforce
  have step: "sched_step env (m\<lparr>mc_sched := tick_clock (mc_sched m)\<rparr>) (m\<lparr>mc_sched := sd1\<rparr>)"
    using step_cancel[of env _ ctx i "m\<lparr>mc_sched := tick_clock (mc_sched m)\<rparr>"] c by simp
  have "reaches env (m\<lparr>mc_sched := sd1\<rparr>) (signal (cancel_runs ids sd1))" for ids
    using reaches_step[OF step_cancel_runs reaches_one[OF reaches_signal], of env "m\<lparr>mc_sched := sd1\<rparr>" ids] by simp
  then show ?thesis
    using eq c reaches_clock_commit[OF step] reaches_same reaches_refl
    by (auto simp: Cancel_def split: sum.splits if_splits)
qed

lemma Tick_reaches:
  assumes eq: "Tick env ctx (mc_sched m) = (sd', r)" shows "reaches env m sd'"
proof -
  obtain sd1 x where c: "tick_commit env (read_clock env (sd_clock (mc_sched m))) ctx
      (tick_clock (mc_sched m)) = (sd1, x)" by fastforce
  have step: "sched_step env (m\<lparr>mc_sched := tick_clock (mc_sched m)\<rparr>) (m\<lparr>mc_sched := sd1\<rparr>)"
    using step_tick[of env _ ctx "m\<lparr>mc_sched := tick_clock (mc_sched m)\<rparr>"] c by simp
  have "reaches env (m\<lparr>mc_sched := sd1\<rparr>) (pump env (cancel_runs ids sd1))" for ids
    using reaches_step[OF step_cancel_runs reaches_pump, of env "m\<lparr>mc_sched := sd1\<rparr>" ids] by simp
  then show ?thesis
    using eq c reaches_clock_commit[OF step] reaches_same reaches_refl
    by (auto simp: Tick_def split: sum.splits if_splits)
qed

lemma reportProgress_reaches:
  assumes eq: "reportProgress env ctx i p (mc_sched m) = (sd', r)" and run: "(i, ExecRunning) \<in> set (mc_execs m)"
  shows "reaches env m sd'"
proof -
  obtain sd1 x where c: "progress_commit env (read_clock env (sd_clock (mc_sched m))) ctx i p
      (tick_clock (mc_sched m)) = (sd1, x)" by fastforce
  have step: "sched_step env (m\<lparr>mc_sched := tick_clock (mc_sched m)\<rparr>) (m\<lparr>mc_sched := sd1\<rparr>)"
    using step_progress[of i "m\<lparr>mc_sched := tick_clock (mc_sched m)\<rparr>" env _ ctx p] c run by simp
  show ?thesis
    using eq c reaches_clock_commit[OF step] reaches_same reaches_refl
    by (auto simp: reportProgress_def split: sum.splits if_splits option.splits)
qed

text \<open>The end of a run takes its goroutine through the phases and out of the list.\<close>

lemma execute_end_steps:
  assumes ex: "mc_execs m = xs @ (i, ExecRunning) # ys"
  shows "\<exists>new. all_running new \<and> sched_steps env m
    (m\<lparr>mc_sched := execute_end env i ended ctx (mc_sched m), mc_execs := xs @ ys @ new\<rparr>)"
proof -
  obtain outcome runErr where o: "(case ended of
            RunReturned r e \<Rightarrow> (r, e)
          | RunPanicked text \<Rightarrow> (zero_result,
              Some \<lparr>re_text = ''scan runner panic: '' @ text, re_canceled = False,
                    re_deadline = False, re_retryable = False\<rparr>)) = (outcome, runErr)" by fastforce
  let ?m1 = "m\<lparr>mc_sched := tick_clock (mc_sched m)\<rparr>"
  obtain sd1 b where c: "finish_commit env (read_clock env (sd_clock (mc_sched m))) i outcome runErr ctx
      (tick_clock (mc_sched m)) = (sd1, b)" by fastforce
  let ?m2 = "m\<lparr>mc_sched := sd1, mc_execs := xs @ (i, ExecFinishing) # ys\<rparr>"
  let ?m3 = "m\<lparr>mc_sched := drop_run i sd1, mc_execs := xs @ (i, ExecExiting) # ys\<rparr>"
  have "sched_step env m ?m1" by (rule step_clock)
  moreover have "sched_step env ?m1 ?m2"
    using step_finish[of ?m1 xs i ys env _ outcome runErr ctx sd1 b] ex c by simp
  moreover have "sched_step env ?m2 ?m3" using step_drop[of ?m2 xs i ys env] by simp
  ultimately have "sched_steps env m ?m3" using steps_step step_steps by meson
  moreover have "reaches env ?m3 (fst (finish env i outcome runErr ctx (mc_sched m)))"
    using c reaches_pump[of env ?m3] reaches_refl[of env ?m3]
      reaches_step[OF reaches_signal reaches_pump, of env ?m3]
    by (auto simp: finish_def Let_def split: sum.splits)
  then obtain new where new: "all_running new" and "sched_steps env ?m3 (?m3\<lparr>mc_sched := fst (finish env i outcome runErr ctx (mc_sched m)),
      mc_execs := (xs @ (i, ExecExiting) # ys) @ new\<rparr>)" by (auto simp: reaches_def)
  moreover have "sched_step env (?m3\<lparr>mc_sched := fst (finish env i outcome runErr ctx (mc_sched m)),
      mc_execs := (xs @ (i, ExecExiting) # ys) @ new\<rparr>)
    (m\<lparr>mc_sched := execute_end env i ended ctx (mc_sched m), mc_execs := xs @ ys @ new\<rparr>)"
    using step_exit[of "?m3\<lparr>mc_sched := fst (finish env i outcome runErr ctx (mc_sched m)),
      mc_execs := (xs @ (i, ExecExiting) # ys) @ new\<rparr>" xs i "ys @ new" env] o
    by (auto simp: execute_end_def Let_def split: prod.splits)
  ultimately show ?thesis using new steps_trans step_steps by meson
qed

end
