(* ===== verification/Scan_Safety.thy ===== *)
theory Scan_Safety
  imports Scan_Machine
begin

text \<open>
  Invariants of the scan scheduler (\<^verbatim>\<open>internal/scanning/scanning.go\<close>) under every interleaving. The
  interface \<open>StateStore\<close> is a locale whose laws are what a scheduler relies on: a saved snapshot is
  loaded again, a refused one changes nothing, only valid ones are saved. Inside it every step
  keeps memory equal to the store and valid, and keeps the books on goroutines, slots and roots.
  \<open>MemoryStore\<close> is an interpretation.
\<close>

section \<open>Commits, case by case\<close>

text \<open>The fields a commit never touches.\<close>

definition same_control :: "'st sched \<Rightarrow> 'st sched \<Rightarrow> bool" where
  "same_control sd sd' \<longleftrightarrow>
     sd_running sd' = sd_running sd \<and> sd_started sd' = sd_started sd \<and> sd_stopping sd' = sd_stopping sd
   \<and> sd_closed sd' = sd_closed sd \<and> sd_wg sd' = sd_wg sd \<and> sd_base_cancelled sd' = sd_base_cancelled sd"

lemma commitState_cases:
  assumes "commitState env ctx allow change sd = (sd', r)"
  obtains (kept) "same_control sd sd'" "sd_state sd' = sd_state sd" "sd_store sd' = sd_store sd"
  | (refused) snap e where "same_control sd sd'" "sd_state sd' = sd_state sd"
      "so_save (ev_store env) None (sd_store sd) snap = (sd_store sd', Some e)"
  | (committed) d changed x where "same_control sd sd'" "ctx = None" "r = Inr x"
      "change (sd_draws sd) (sd_state sd) = (d, Inr (changed, x))"
      "sd_state sd' = changed\<lparr>sn_version := sn_version (sd_state sd) + 1\<rparr>" "changed \<noteq> sd_state sd"
      "valid_snapshot (minimum_interval env) (sd_state sd')"
      "so_save (ev_store env) None (sd_store sd) (sd_state sd') = (sd_store sd', None)"
proof -
  obtain d out where ch: "change (sd_draws sd) (sd_state sd) = (d, out)" by fastforce
  show ?thesis
  proof (cases "ctx = None \<and> \<not> (sd_closed sd \<or> sd_stopping sd \<and> \<not> allow)")
    case False
    then show ?thesis using assms kept by (auto simp: commitState_def same_control_def split: option.splits)
  next
    case live: True
    show ?thesis
    proof (cases out)
      case (Inl e)
      then show ?thesis using assms live ch kept by (auto simp: commitState_def same_control_def)
    next
      case (Inr p)
      obtain changed x where p: "p = (changed, x)" by (cases p)
      let ?c = "changed\<lparr>sn_version := sn_version (sd_state sd) + 1\<rparr>"
      show ?thesis
      proof (cases "changed = sd_state sd \<or> Snapshot_Validate (minimum_interval env) ?c \<noteq> None")
        case True
        then show ?thesis using assms live ch Inr p kept
          by (auto simp: commitState_def same_control_def Let_def split: if_splits)
      next
        case False
        obtain st e where sv: "so_save (ev_store env) None (sd_store sd) ?c = (st, e)" by fastforce
        show ?thesis
        proof (cases e)
          case None
          have v: "Snapshot_Validate (minimum_interval env) ?c = None" using False by simp
          then have "valid_snapshot (minimum_interval env) ?c" by (simp add: Snapshot_Validate_iff)
          with v None False sv live ch Inr p assms show ?thesis
            by (intro committed[of x d changed]) (auto simp: commitState_def same_control_def Let_def)
        next
          case (Some y)
          with False sv live ch Inr p assms show ?thesis
            by (intro refused[of ?c y]) (auto simp: commitState_def same_control_def Let_def)
        qed
      qed
    qed
  qed
qed

lemmas commit_defs =
  configure_commit_def trigger_commit_def cancel_commit_def tick_commit_def progress_commit_def finish_commit_def

section \<open>Recovery reports every change\<close>

lemma recover_root_same: "\<not> snd (recover_root scans r) \<Longrightarrow> fst (recover_root scans r) = r"
  by (auto simp: recover_root_def Let_def split: if_splits prod.splits)

lemma recover_scan_same:
  "\<not> snd (snd (snd (recover_scan rand m now k st))) \<Longrightarrow> recover_scan rand m now k st = st"
  by (auto simp: recover_scan_def Let_def split: option.splits if_splits prod.splits)

lemma recover_scan_changed: "snd (snd (snd st)) \<Longrightarrow> snd (snd (snd (recover_scan rand m now k st)))"
  by (auto simp: recover_scan_def Let_def split: option.splits if_splits prod.splits)

lemma recover_fold_same:
  "\<not> snd (snd (snd (fold (recover_scan rand m now) ks st))) \<Longrightarrow> fold (recover_scan rand m now) ks st = st"
proof (induction ks arbitrary: st)
  case (Cons k ks)
  then have same: "fold (recover_scan rand m now) ks (recover_scan rand m now k st) = recover_scan rand m now k st"
    by simp
  then show ?case using Cons.prems recover_scan_same by simp
qed simp

lemma recover_reference_same: "\<not> snd (recover_reference now scans r) \<Longrightarrow> fst (recover_reference now scans r) = r"
  by (auto simp: recover_reference_def Let_def split: if_splits prod.splits)

lemma map_fst_same: "\<not> list_ex snd (map f xs) \<Longrightarrow> (\<And>x. \<not> snd (f x) \<Longrightarrow> fst (f x) = x) \<Longrightarrow> map (fst \<circ> f) xs = xs"
  by (induction xs) auto

lemma recoverSnapshot_same:
  assumes "recoverSnapshot rand m now draws snap = (snap', False, d)"
  shows "snap' = snap \<and> d = draws"
proof -
  let ?rep = "map (recover_root (sn_scans snap)) (sn_roots snap)"
  let ?st = "(map fst ?rep, sn_scans snap, draws, list_ex snd ?rep)"
  let ?f = "fold (recover_scan rand m now) [0..<length (sn_scans snap)] ?st"
  have nf: "\<not> snd (snd (snd ?f))" using assms by (auto simp: recoverSnapshot_def Let_def split: prod.splits)
  then have f: "?f = ?st" by (rule recover_fold_same)
  then have "\<not> list_ex snd ?rep" using nf by simp
  then have rep: "map fst ?rep = sn_roots snap" using map_fst_same recover_root_same by fastforce
  then have "\<not> list_ex snd (map (recover_reference now (sn_scans snap)) (sn_roots snap))"
    using assms f by (auto simp: recoverSnapshot_def Let_def)
  then have "map (fst \<circ> recover_reference now (sn_scans snap)) (sn_roots snap) = sn_roots snap"
    using map_fst_same recover_reference_same by blast
  then show ?thesis using assms f rep by (auto simp: recoverSnapshot_def Let_def)
qed

section \<open>A smaller minimum interval accepts more\<close>

lemma RootSchedule_Validate_zero: "RootSchedule_Validate m s = None \<Longrightarrow> RootSchedule_Validate 0 s = None"
  by (auto simp: RootSchedule_Validate_def split: if_splits option.splits)

lemma root_check_zero: "root_check m seen r = None \<Longrightarrow> root_check 0 seen r = None"
  using RootSchedule_Validate_zero[of m "rt_schedule r"] unfolding root_check_def
  by (cases "RootSchedule_Validate m (rt_schedule r)") simp_all

lemma valid_snapshot_zero: "valid_snapshot m s \<Longrightarrow> valid_snapshot 0 s"
  using root_check_zero by (auto simp: valid_snapshot_def list_all_iff)

lemma valid_empty: "valid_snapshot m empty_snapshot"
  by (simp add: valid_snapshot_def empty_snapshot_def live_scans_def)

lemma valid_ids_distinct: "valid_snapshot m s \<Longrightarrow> distinct (map sc_id (sn_scans s))"
  by (simp add: valid_snapshot_def)

section \<open>The interface of the store\<close>

definition stored :: "'st env \<Rightarrow> 'st sched \<Rightarrow> bool" where
  "stored env sd \<longleftrightarrow> so_load (ev_store env) None (sd_store sd) = Inr (sd_state sd)"

definition valid_state :: "'st sched \<Rightarrow> bool" where
  "valid_state sd \<longleftrightarrow> valid_snapshot 0 (sd_state sd)"

text \<open>What holds of a scheduler at any time: its state is valid, and once started it is what the store holds.\<close>

definition durable :: "'st env \<Rightarrow> 'st sched \<Rightarrow> bool" where
  "durable env sd \<longleftrightarrow> valid_state sd \<and> (sd_started sd \<longrightarrow> stored env sd)"

lemma publish_one_cases:
  assumes "publish_one env snap sd = (sd', again)"
  obtains (refused) st e where "sd' = sd\<lparr>sd_store := st\<rparr>" "\<not> again"
      "so_save (ev_store env) None (sd_store sd) (snap\<lparr>sn_version := sn_version (sd_state sd) + 1\<rparr>) = (st, Some e)"
  | (saved) st where "again" "sd' = sd\<lparr>sd_store := st, sd_state := snap\<lparr>sn_version := sn_version (sd_state sd) + 1\<rparr>\<rparr>"
      "so_save (ev_store env) None (sd_store sd) (snap\<lparr>sn_version := sn_version (sd_state sd) + 1\<rparr>) = (st, None)"
  using assms by (auto simp: publish_one_def Let_def split: prod.splits option.splits)

lemma start_run_cases:
  assumes "start_run env k now sd = (sd', again)"
  obtains (refused) st running where "sd' = sd\<lparr>sd_store := st, sd_running := running\<rparr>" "\<not> again"
      "running = AList.delete (sc_id (sn_scans (sd_state sd) ! k)) (AList.update (sc_id (sn_scans (sd_state sd) ! k)) False (sd_running sd))"
      "st = sd_store sd \<or> (\<exists>snap e. so_save (ev_store env) None (sd_store sd) snap = (st, Some e))"
  | (saved) st snap where "again"
      "snap = (sd_state sd)\<lparr>sn_scans := (sn_scans (sd_state sd))[k := claim_scan now (sn_scans (sd_state sd) ! k)],
                            sn_version := sn_version (sd_state sd) + 1\<rparr>"
      "sd' = sd\<lparr>sd_store := st, sd_state := snap, sd_wg := Suc (sd_wg sd),
                sd_running := AList.update (sc_id (sn_scans (sd_state sd) ! k)) False (sd_running sd)\<rparr>"
      "valid_snapshot (minimum_interval env) snap"
      "so_save (ev_store env) None (sd_store sd) snap = (st, None)"
proof -
  let ?i = "sc_id (sn_scans (sd_state sd) ! k)"
  let ?snap = "(sd_state sd)\<lparr>sn_scans := (sn_scans (sd_state sd))[k := claim_scan now (sn_scans (sd_state sd) ! k)],
                            sn_version := sn_version (sd_state sd) + 1\<rparr>"
  have i: "sc_id (claim_scan now (sn_scans (sd_state sd) ! k)) = ?i" by (simp add: frame_simps)
  show ?thesis
  proof (cases "Snapshot_Validate (minimum_interval env) ?snap")
    case (Some p)
    then show ?thesis using assms i by (intro refused[of _ "sd_store sd"]) (auto simp: start_run_def Let_def)
  next
    case None
    then have v: "valid_snapshot (minimum_interval env) ?snap" by (simp add: Snapshot_Validate_iff)
    obtain st e where sv: "so_save (ev_store env) None (sd_store sd) ?snap = (st, e)" by fastforce
    show ?thesis
    proof (cases e)
      case e: None
      show ?thesis using assms i None sv e v by (intro saved[OF _ refl _ v]) (auto simp: start_run_def Let_def)
    next
      case (Some y)
      then show ?thesis using assms i None sv by (intro refused[of _ st]) (auto simp: start_run_def Let_def)
    qed
  qed
qed

lemma Start_cases:
  assumes "Start env ctx sd = (sd', r)"
  obtains (kept) "sd_state sd' = sd_state sd" "same_control sd sd'"
      "sd_store sd' = sd_store sd \<or>
       \<not> sd_started sd \<and> (\<exists>snap e. so_save (ev_store env) None (sd_store sd) snap = (sd_store sd', Some e))"
  | (started) loaded recovered changed d now where "ctx = None" "r = None" "\<not> sd_started sd" "\<not> sd_closed sd"
      "\<not> sd_stopping sd" "sd_started sd'" "sd_running sd' = sd_running sd" "sd_wg sd' = Suc (sd_wg sd)"
      "so_load (ev_store env) None (sd_store sd) = Inr loaded"
      "valid_snapshot (minimum_interval env) loaded"
      "recoverSnapshot (ev_rand env) (max_detail env) now (sd_draws sd) loaded = (recovered, changed, d)"
      "sd_state sd' = (if changed then recovered\<lparr>sn_version := sn_version loaded + 1\<rparr> else recovered)"
      "if changed then valid_snapshot (minimum_interval env) (sd_state sd') \<and>
          so_save (ev_store env) None (sd_store sd) (sd_state sd') = (sd_store sd', None)
       else sd_store sd' = sd_store sd"
proof (cases "ctx = None \<and> \<not> sd_closed sd \<and> \<not> sd_stopping sd \<and> \<not> sd_started sd")
  case False
  then show ?thesis using assms kept by (auto simp: Start_def same_control_def split: option.splits if_splits)
next
  case go: True
  show ?thesis
  proof (cases "so_load (ev_store env) None (sd_store sd)")
    case (Inl e)
    then show ?thesis using assms go kept by (auto simp: Start_def same_control_def)
  next
    case ld: (Inr loaded)
    show ?thesis
    proof (cases "Snapshot_Validate (minimum_interval env) loaded")
      case (Some p)
      then show ?thesis using assms go ld kept by (auto simp: Start_def same_control_def)
    next
      case v: None
      obtain recovered changed d where rec: "recoverSnapshot (ev_rand env) (max_detail env)
          (read_clock env (sd_clock sd)) (sd_draws sd) loaded = (recovered, changed, d)" by (metis prod_cases3)
      let ?c = "recovered\<lparr>sn_version := sn_version loaded + 1\<rparr>"
      obtain st e where sv: "so_save (ev_store env) None (sd_store sd) ?c = (st, e)" by fastforce
      note parts = go ld v rec sv assms
      show ?thesis
      proof (cases "changed \<and> (Snapshot_Validate (minimum_interval env) ?c \<noteq> None \<or> e \<noteq> None)")
        case True
        then show ?thesis using parts kept
          by (cases "Snapshot_Validate (minimum_interval env) ?c") (auto simp: Start_def same_control_def Let_def; blast)+
      next
        case False
        then show ?thesis using parts v started[of loaded "read_clock env (sd_clock sd)" recovered changed d]
            Snapshot_Validate_iff[of "minimum_interval env" loaded] Snapshot_Validate_iff[of "minimum_interval env" ?c]
          by (cases changed) (auto simp: Start_def Let_def)
      qed
    qed
  qed
qed

lemma durable_frame:
  "durable env sd \<Longrightarrow> sd_state sd' = sd_state sd \<Longrightarrow> sd_store sd' = sd_store sd \<Longrightarrow> sd_started sd' = sd_started sd
    \<Longrightarrow> durable env sd'"
  by (simp add: durable_def valid_state_def stored_def)

locale state_store =
  fixes ops :: "'st store_ops"
  assumes load_saved: "so_save ops ctx st s = (st', None) \<Longrightarrow> so_load ops None st' = Inr s"
    and load_refused: "so_save ops ctx st s = (st', Some e) \<Longrightarrow> so_load ops None st' = so_load ops None st"
    and save_valid: "so_save ops ctx st s = (st', None) \<Longrightarrow> Snapshot_Validate 0 s = None"
begin

lemma saved_durable:
  "ev_store env = ops \<Longrightarrow> so_save ops ctx st s = (sd_store sd, None) \<Longrightarrow> sd_state sd = s \<Longrightarrow> durable env sd"
  using load_saved save_valid by (simp add: durable_def stored_def valid_state_def Snapshot_Validate_iff)

lemma refused_durable:
  "ev_store env = ops \<Longrightarrow> durable env sd \<Longrightarrow> so_save ops ctx (sd_store sd) s = (sd_store sd', Some e)
    \<Longrightarrow> sd_state sd' = sd_state sd \<Longrightarrow> sd_started sd' = sd_started sd \<Longrightarrow> durable env sd'"
  using load_refused by (simp add: durable_def stored_def valid_state_def)

lemma commit_durable:
  assumes "ev_store env = ops" "commitState env ctx allow change sd = (sd', r)" "durable env sd"
  shows "durable env sd'"
  using assms(2)
proof (cases rule: commitState_cases)
  case kept
  then show ?thesis using assms(3) by (simp add: durable_def stored_def valid_state_def same_control_def)
next
  case (refused snap e)
  then show ?thesis using refused_durable assms by (simp add: same_control_def)
next
  case (committed x d changed)
  then show ?thesis using saved_durable assms(1) by blast
qed

lemma publish_durable:
  assumes "ev_store env = ops" "publish_one env snap sd = (sd', again)" "durable env sd"
  shows "durable env sd'"
  using assms(2)
proof (cases rule: publish_one_cases)
  case (refused st e)
  then show ?thesis using refused_durable[OF assms(1,3)] assms(1) by simp
next
  case (saved st)
  then show ?thesis using saved_durable assms(1) by simp
qed

lemma start_run_durable:
  assumes "ev_store env = ops" "start_run env k now sd = (sd', again)" "durable env sd"
  shows "durable env sd'"
  using assms(2)
proof (cases rule: start_run_cases)
  case (refused st running)
  then show ?thesis using refused_durable[OF assms(1,3)] assms durable_frame[OF assms(3), of sd'] by auto
next
  case (saved st snap)
  then show ?thesis using saved_durable assms(1) by simp
qed

lemma durable_tick [simp]: "durable env (tick_clock sd) = durable env sd"
  "durable env (sd\<lparr>sd_draws := d\<rparr>) = durable env sd"
  by (simp_all add: durable_def stored_def valid_state_def)

lemma startOne_durable:
  assumes "ev_store env = ops" "startOne env sd = (sd', again)" "durable env sd"
  shows "durable env sd'"
  using assms(2)
proof (cases rule: startOne_cases)
  case (cancelled k now roots')
  then show ?thesis using publish_durable[OF assms(1)] assms(3) durable_tick by metis
next
  case (stale k now ri scan' scans' root2 draws')
  then show ?thesis using publish_durable[OF assms(1)] assms(3) durable_tick by metis
next
  case (run k now ri)
  then show ?thesis using start_run_durable[OF assms(1)] assms(3) durable_tick by metis
qed (use assms in simp)

lemma Start_durable:
  assumes "ev_store env = ops" "Start env ctx sd = (sd', r)" "durable env sd"
  shows "durable env sd'"
  using assms(2)
proof (cases rule: Start_cases)
  case kept
  then show ?thesis using assms(3) by (auto simp: durable_def stored_def valid_state_def same_control_def)
next
  case (started loaded recovered changed d now)
  show ?thesis
  proof (cases changed)
    case True
    then show ?thesis
      using started(13) saved_durable[OF assms(1), of None "sd_store sd" "sd_state sd'" sd'] assms(1) by simp
  next
    case False
    then have "recovered = loaded"
      using started(11) recoverSnapshot_same[of "ev_rand env" "max_detail env" now "sd_draws sd" loaded recovered d] by simp
    then show ?thesis using False started valid_snapshot_zero by (simp add: durable_def stored_def valid_state_def)
  qed
qed

lemma step_durable:
  assumes "ev_store env = ops" "durable env (mc_sched m)" "sched_step env m m'"
  shows "durable env (mc_sched m')"
  using assms(3)
proof cases
  case (step_start ctx sd' r)
  then show ?thesis using Start_durable[OF assms(1)] assms(2) by simp
next
  case (step_claim sd' again)
  then show ?thesis using startOne_durable[OF assms(1)] assms(2) by simp
qed (use assms(2) in \<open>auto simp: commit_defs Stop_request_def Stop_done_def drop_run_def cancel_runs_def
        intro: durable_frame[OF assms(2)] dest: commit_durable[OF assms(1) _ assms(2)]\<close>)

lemma steps_durable:
  assumes "ev_store env = ops" "sched_steps env m m'" "durable env (mc_sched m)"
  shows "durable env (mc_sched m')"
  using steps_keep[where P = "\<lambda>m. durable env (mc_sched m)", OF assms(2,3)] step_durable[OF assms(1)] by blast

end

interpretation memory: state_store memory_store
  by unfold_locales
    (auto simp: memory_store_def MemoryStore_Save_def MemoryStore_Load_def split: option.splits)

end
