(* ===== verification/Scan_Slots.thy ===== *)
theory Scan_Slots
  imports Scan_Safety "HOL-Library.Multiset"
begin

text \<open>
  The books of the scan scheduler (\<^verbatim>\<open>internal/scanning/scanning.go\<close>) under every interleaving:
  the running map is the list of the goroutines that have not left it, every running scan is
  known, no two of them share a root, there are never more than \<open>MaxConcurrent\<close>, and the wait
  group counts every goroutine.
\<close>

section \<open>Roots of running scans\<close>

definition root_of :: "scan_record list \<Rightarrow> runtime_id \<Rightarrow> config_id option" where
  "root_of scans i = map_option (\<lambda>k. sc_root_id (scans ! k)) (scanIndex scans i)"

lemma scanIndex_extends:
  assumes "extends xs ys" "scanIndex xs i = Some k" shows "scanIndex ys i = Some k"
proof -
  have k: "k < length xs" "sc_id (xs ! k) = i" "\<And>j. j < k \<Longrightarrow> sc_id (xs ! j) \<noteq> i"
    using assms(2) find_index_Some[of "\<lambda>s. sc_id s = i" xs k] by (auto simp: scanIndex_def)
  have "sc_id (ys ! j) = sc_id (xs ! j)" if "j \<le> k" for j
    using assms(1) k(1) that by (auto simp: extends_def keeps_def)
  then have "k < length ys" "sc_id (ys ! k) = i" "\<And>j. j < k \<Longrightarrow> sc_id (ys ! j) \<noteq> i"
    using k assms(1) by (auto simp: extends_def)
  then show ?thesis
    using find_index_ex[of k ys "\<lambda>s. sc_id s = i"] find_index_Some[of "\<lambda>s. sc_id s = i" ys]
    by (auto simp: scanIndex_def le_less)
qed

lemma root_of_extends:
  assumes "extends xs ys" "root_of xs i \<noteq> None" shows "root_of ys i = root_of xs i"
  using assms scanIndex_extends[OF assms(1)] scanIndex_Some(1)[of xs i]
  by (auto simp: root_of_def extends_def keeps_def)

lemma scanIndex_at:
  assumes "distinct (map sc_id scans)" "k < length scans" shows "scanIndex scans (sc_id (scans ! k)) = Some k"
proof -
  obtain j where j: "scanIndex scans (sc_id (scans ! k)) = Some j"
    using find_index_ex[of k scans "\<lambda>s. sc_id s = sc_id (scans ! k)"] assms(2) by (auto simp: scanIndex_def)
  then show ?thesis
    using scanIndex_Some[OF j] assms nth_eq_iff_index_eq[of "map sc_id scans" j k] by simp
qed

lemma runningRoot_iff:
  "runningRoot snap running root \<longleftrightarrow> (\<exists>i\<in>set (map fst running). root_of (sn_scans snap) i = Some root)"
  by (auto simp: runningRoot_def list_ex_iff root_of_def split: option.splits) force+

section \<open>Association lists\<close>

lemma update_new: "i \<notin> fst ` set al \<Longrightarrow> AList.update i v al = al @ [(i, v)]"
  by (induction al) auto

lemma delete_new: "i \<notin> fst ` set al \<Longrightarrow> AList.delete i (al @ [(i, v)]) = al"
  by (induction al) (auto simp: AList.delete_eq)

lemma delete_mset:
  "distinct (map fst al) \<Longrightarrow> i \<in> fst ` set al \<Longrightarrow> mset (map fst al) = add_mset i (mset (map fst (AList.delete i al)))"
proof (induction al)
  case (Cons p al)
  show ?case
  proof (cases "fst p = i")
    case True
    then have "i \<notin> fst ` set al" using Cons.prems(1) by (cases p) simp
    then have "AList.delete i (p # al) = al"
      using True by (cases p) (force simp: AList.delete_eq intro!: filter_True)
    then show ?thesis using True by simp
  next
    case False
    then show ?thesis using Cons by (auto simp: AList.delete_eq)
  qed
qed simp

section \<open>The invariant\<close>

definition live_execs :: "(runtime_id \<times> exec_phase) list \<Rightarrow> runtime_id list" where
  "live_execs ex = map fst (filter (\<lambda>p. snd p \<noteq> ExecExiting) ex)"

lemma live_execs_simps [simp]:
  "live_execs [] = []" "live_execs (xs @ ys) = live_execs xs @ live_execs ys"
  "live_execs ((i, ExecRunning) # ys) = i # live_execs ys"
  "live_execs ((i, ExecFinishing) # ys) = i # live_execs ys"
  "live_execs ((i, ExecExiting) # ys) = live_execs ys"
  by (simp_all add: live_execs_def)

text \<open>The slots: which scans hold a place in the running map.\<close>

definition slots_ok :: "'st env \<Rightarrow> snapshot \<Rightarrow> runtime_id list \<Rightarrow> bool" where
  "slots_ok env snap keys \<longleftrightarrow>
     distinct keys \<and> (\<forall>i\<in>set keys. root_of (sn_scans snap) i \<noteq> None)
   \<and> distinct (map (root_of (sn_scans snap)) keys) \<and> int (length keys) \<le> op_max_concurrent (ev_options env)"

definition books :: "'st env \<Rightarrow> 'st machine \<Rightarrow> bool" where
  "books env m \<longleftrightarrow>
     slots_ok env (sd_state (mc_sched m)) (map fst (sd_running (mc_sched m)))
   \<and> mset (map fst (sd_running (mc_sched m))) = mset (live_execs (mc_execs m))
   \<and> sd_wg (mc_sched m) = length (mc_execs m) + (if mc_loop m then 1 else 0)
   \<and> (\<not> sd_started (mc_sched m) \<longrightarrow> mc_execs m = [] \<and> \<not> mc_loop m)"

lemma slots_extends:
  assumes "slots_ok env snap keys" "extends (sn_scans snap) (sn_scans snap')" shows "slots_ok env snap' keys"
proof -
  have eq: "map (root_of (sn_scans snap')) keys = map (root_of (sn_scans snap)) keys"
    using assms root_of_extends by (auto simp: slots_ok_def)
  show ?thesis using assms(1) root_of_extends[OF assms(2)] unfolding slots_ok_def eq by auto
qed

lemma slots_less:
  assumes "slots_ok env snap keys" "set keys' \<subseteq> set keys" "distinct keys'" shows "slots_ok env snap keys'"
proof -
  have "length keys' \<le> length keys"
    using assms by (metis card_mono distinct_card List.finite_set slots_ok_def)
  moreover have "inj_on (root_of (sn_scans snap)) (set keys')"
    using assms inj_on_subset by (auto simp: slots_ok_def distinct_map)
  ultimately show ?thesis using assms by (auto simp: slots_ok_def distinct_map)
qed

lemma books_frame:
  assumes "books env m" "extends (sn_scans (sd_state (mc_sched m))) (sn_scans (sd_state sd'))"
    "map fst (sd_running sd') = map fst (sd_running (mc_sched m))" "sd_wg sd' = sd_wg (mc_sched m)"
    "sd_started sd' = sd_started (mc_sched m)"
    "length ex' = length (mc_execs m)" "live_execs ex' = live_execs (mc_execs m)"
  shows "books env (m\<lparr>mc_sched := sd', mc_execs := ex'\<rparr>)"
  using assms slots_extends[of env "sd_state (mc_sched m)" _ "sd_state sd'"] by (auto simp: books_def)

section \<open>Every step keeps the books\<close>

lemma commit_books:
  assumes "books env m" "commitState env ctx allow change (mc_sched m) = (sd', r)"
    "\<And>d changed x. change (sd_draws (mc_sched m)) (sd_state (mc_sched m)) = (d, Inr (changed, x)) \<Longrightarrow>
       extends (sn_scans (sd_state (mc_sched m))) (sn_scans changed)"
    "length ex' = length (mc_execs m)" "live_execs ex' = live_execs (mc_execs m)"
  shows "books env (m\<lparr>mc_sched := sd', mc_execs := ex'\<rparr>)"
  using assms(2)
proof (cases rule: commitState_cases)
  case kept
  then show ?thesis using assms by (intro books_frame) (auto simp: same_control_def)
next
  case (refused snap e)
  then show ?thesis using assms by (intro books_frame) (auto simp: same_control_def)
next
  case (committed x d changed)
  then show ?thesis using assms(1,4,5) assms(3)[OF committed(4)] by (intro books_frame) (auto simp: same_control_def)
qed

lemma publish_one_control:
  "publish_one env snap sd = (sd', again) \<Longrightarrow> sd_running sd' = sd_running sd \<and> sd_wg sd' = sd_wg sd \<and> sd_started sd' = sd_started sd"
  by (auto simp: publish_one_def Let_def split: prod.splits option.splits)

lemma startOne_started:
  assumes "startOne env sd = (sd', again)" shows "sd_started sd' = sd_started sd"
  using assms
proof (cases rule: startOne_cases)
  case (cancelled k now roots')
  then show ?thesis using publish_one_control by fastforce
next
  case (stale k now ri scan' scans' root2 draws')
  then show ?thesis using publish_one_control by fastforce
next
  case (run k now ri)
  from run(10) show ?thesis by (cases rule: start_run_cases) auto
qed simp

text \<open>A scan is claimed into a free slot, for a root no run holds.\<close>

lemma claim_books:
  assumes b: "books env m" and v: "valid_state (mc_sched m)" and st: "startOne env (mc_sched m) = (sd', again)"
  shows "books env (m\<lparr>mc_sched := sd', mc_execs := mc_execs m @ launched (mc_sched m) sd'\<rparr>)"
proof -
  note ext = startOne_extends[OF st]
  have quiet: ?thesis if "sd_running sd' = sd_running (mc_sched m)" "sd_wg sd' = sd_wg (mc_sched m)"
      "sd_started sd' = sd_started (mc_sched m)"
    using books_frame[OF b ext, of "mc_execs m"] that by (simp add: launched_def)
  from st show ?thesis
  proof (cases rule: startOne_cases)
    case idle then show ?thesis using quiet by simp
  next
    case (cancelled k now roots')
    then show ?thesis using quiet publish_one_control[OF cancelled(3)] by simp
  next
    case (stale k now ri scan' scans' root2 draws')
    then show ?thesis using quiet publish_one_control[OF stale(7)] by simp
  next
    case (run k now ri)
    let ?sd = "mc_sched m"
    let ?snap = "sd_state ?sd" and ?keys = "map fst (sd_running ?sd)"
    let ?i = "sc_id (sn_scans ?snap ! k)" and ?root = "sc_root_id (sn_scans ?snap ! k)"
    note sel = selectQueuedScan_Some[OF run(5)]
    have at: "root_of (sn_scans ?snap) ?i = Some ?root"
      using scanIndex_at[OF valid_ids_distinct[OF v[unfolded valid_state_def]] sel(1)] by (simp add: root_of_def)
    have free: "Some ?root \<notin> set (map (root_of (sn_scans ?snap)) ?keys)"
      using sel(3) by (auto simp: runningRoot_iff)
    then have new: "?i \<notin> fst ` set (sd_running ?sd)" using at by force
    from run(10) show ?thesis
    proof (cases rule: start_run_cases)
      case (refused st running)
      then show ?thesis using quiet new by (simp add: update_new delete_new)
    next
      case (saved st snap)
      have keys: "map fst (sd_running sd') = ?keys @ [?i]" using saved(3) new by (simp add: update_new)
      have la: "launched ?sd sd' = [(?i, ExecRunning)]" using saved(3) new by (simp add: launched_def update_new)
      have "slots_ok env ?snap (?keys @ [?i])"
        using b free new at run(4) by (auto simp: books_def slots_ok_def)
      then have "slots_ok env (sd_state sd') (?keys @ [?i])" using slots_extends ext by blast
      then show ?thesis
        unfolding la using b saved(3) keys run(1) by (simp add: books_def)
    qed
  qed
qed

lemma drop_books:
  assumes b: "books env m" and ex: "mc_execs m = xs @ (i, ExecFinishing) # ys"
  shows "books env (m\<lparr>mc_sched := drop_run i (mc_sched m), mc_execs := xs @ (i, ExecExiting) # ys\<rparr>)"
proof -
  let ?r = "sd_running (mc_sched m)"
  have d: "distinct (map fst ?r)" and ms: "mset (map fst ?r) = mset (live_execs (mc_execs m))"
    and sl: "slots_ok env (sd_state (mc_sched m)) (map fst ?r)"
    using b by (auto simp: books_def slots_ok_def)
  have "i \<in># mset (map fst ?r)" unfolding ms ex by simp
  then have i: "i \<in> fst ` set ?r" by simp
  have "set (map fst (AList.delete i ?r)) \<subseteq> set (map fst ?r)" "distinct (map fst (AList.delete i ?r))"
    using distinct_delete[OF d, of i] by (auto simp: delete_keys)
  then have "slots_ok env (sd_state (mc_sched m)) (map fst (AList.delete i ?r))" by (rule slots_less[OF sl])
  moreover have "mset (map fst (AList.delete i ?r)) = mset (live_execs (xs @ ys))"
    using ms delete_mset[OF d i] by (simp add: ex)
  ultimately show ?thesis using b ex by (auto simp: books_def drop_run_def)
qed

lemma Start_books:
  assumes b: "books env m" and s: "Start env ctx (mc_sched m) = (sd', r)"
  shows "books env (m\<lparr>mc_sched := sd', mc_loop := (mc_loop m \<or> \<not> sd_started (mc_sched m) \<and> sd_started sd')\<rparr>)"
  using s
proof (cases rule: Start_cases)
  case kept
  then show ?thesis using b by (auto simp: books_def same_control_def)
next
  case (started loaded recovered changed d now)
  then have "sd_running (mc_sched m) = []" using b by (auto simp: books_def)
  then show ?thesis using b started by (auto simp: books_def slots_ok_def)
qed

lemma step_books:
  assumes b: "books env m" and v: "valid_state (mc_sched m)" and s: "sched_step env m m'"
  shows "books env m'"
  using s
proof cases
  case (step_start ctx sd' r)
  then show ?thesis using Start_books[OF b] by simp
next
  case step_stop
  have "books env (m\<lparr>mc_sched := Stop_request (mc_sched m), mc_execs := mc_execs m\<rparr>)"
    by (rule books_frame[OF b]) (auto simp: Stop_request_def)
  then show ?thesis using step_stop by simp
next
  case step_stopped
  then show ?thesis using b by (auto simp: books_def Stop_done_def)
next
  case (step_configure schedules now ctx sd' r)
  then show ?thesis using commit_books[OF b, of ctx False _ sd' r "mc_execs m"] configure_change_extends
    by (auto simp: configure_commit_def)
next
  case (step_trigger now ctx root sd' r')
  then show ?thesis using commit_books[OF b, of ctx False _ sd' r' "mc_execs m"] trigger_change_extends
    by (auto simp: trigger_commit_def)
next
  case (step_cancel now ctx i sd' r)
  then show ?thesis using commit_books[OF b, of ctx False _ sd' r "mc_execs m"] cancel_change_extends
    by (auto simp: cancel_commit_def)
next
  case (step_tick now ctx sd' r)
  then show ?thesis using commit_books[OF b, of ctx False _ sd' r "mc_execs m"] tick_change_extends
    by (auto simp: tick_commit_def)
next
  case (step_progress i now ctx p sd' r)
  then show ?thesis using commit_books[OF b, of ctx False _ sd' r "mc_execs m"] progress_change_extends
    by (auto simp: progress_commit_def)
next
  case (step_claim sd' again)
  then show ?thesis using claim_books[OF b v] by simp
next
  case (step_finish xs i ys now outcome runErr ctx sd' r)
  then show ?thesis
    using commit_books[OF b, of None True _ sd' r "xs @ (i, ExecFinishing) # ys"] finish_change_extends
    by (auto simp: finish_commit_def)
next
  case (step_drop xs i ys)
  then show ?thesis using drop_books[OF b] by simp
next
  case (step_cancel_runs ids)
  have "books env (m\<lparr>mc_sched := cancel_runs ids (mc_sched m), mc_execs := mc_execs m\<rparr>)"
    by (rule books_frame[OF b]) (auto simp: cancel_runs_def)
  then show ?thesis using step_cancel_runs by simp
qed (use b in \<open>auto simp: books_def tick_clock_def\<close>)

end
