(* ===== verification/Scan_Evidence.thy ===== *)
theory Scan_Evidence
  imports Scan_Slots
begin

text \<open>
  What the scan scheduler (\<^verbatim>\<open>internal/scanning/scanning.go\<close>) makes of the evidence a runner
  reports: \<open>normalizeEvidence\<close> only ever weakens it, and what it accepts validates.
\<close>

section \<open>One source\<close>

lemma appendReason_frames [simp]:
  "cov_completeness (appendReason x c) = cov_completeness c" "cov_root_id (appendReason x c) = cov_root_id c"
  "cov_completed_at (appendReason x c) = cov_completed_at c" "cov_started_at (appendReason x c) = cov_started_at c"
  "cov_observed_count (appendReason x c) = cov_observed_count c" "cov_observed_at (appendReason x c) = cov_observed_at c"
  "cov_connection_id (appendReason x c) = cov_connection_id c" "cov_source_id (appendReason x c) = cov_source_id c"
  by (simp_all add: appendReason_def)

lemma default_frames [simp]:
  "cov_root_id (default_root root c) = (if cov_root_id c = [] then root else cov_root_id c)"
  "cov_completeness (default_root root c) = cov_completeness c"
  "cov_source_id (default_root root c) = cov_source_id c"
  "cov_root_id (default_completeness c) = cov_root_id c" "cov_source_id (default_completeness c) = cov_source_id c"
  "cov_completeness (default_completeness c) =
     (if cov_completeness c = completeness_empty then CompletenessUnknown else cov_completeness c)"
  "cov_root_id (default_observed_at n c) = cov_root_id c" "cov_source_id (default_observed_at n c) = cov_source_id c"
  "cov_completeness (default_observed_at n c) = cov_completeness c"
  "cov_root_id (default_started_at t c) = cov_root_id c" "cov_source_id (default_started_at t c) = cov_source_id c"
  "cov_completeness (default_started_at t c) = cov_completeness c"
  "cov_observed_count (default_started_at t c) = cov_observed_count c"
  "cov_root_id (default_completed_at n c) = cov_root_id c" "cov_source_id (default_completed_at n c) = cov_source_id c"
  "cov_completeness (default_completed_at n c) = cov_completeness c"
  "cov_observed_count (default_completed_at n c) = cov_observed_count c"
  "cov_completed_at (default_completed_at n c) = Some (case cov_completed_at c of None \<Rightarrow> n | Some t \<Rightarrow> t)"
  "cov_root_id (raise_observed_at c) = cov_root_id c" "cov_source_id (raise_observed_at c) = cov_source_id c"
  "cov_completeness (raise_observed_at c) = cov_completeness c"
  "cov_observed_count (raise_observed_at c) = cov_observed_count c"
  "cov_completed_at (raise_observed_at c) = cov_completed_at c"
  by (auto simp: default_root_def default_completeness_def default_observed_at_def default_started_at_def
      default_completed_at_def raise_observed_at_def split: option.splits)

definition source_kept :: "config_id \<Rightarrow> coverage \<Rightarrow> coverage \<Rightarrow> bool" where
  "source_kept root s s' \<longleftrightarrow>
     Coverage_Validate s' = None \<and> cov_root_id s' = root \<and> cov_source_id s' = cov_source_id s
   \<and> cov_completeness s' = (if cov_completeness s = completeness_empty then CompletenessUnknown else cov_completeness s)
   \<and> (cov_completeness s' = CompletenessComplete \<longrightarrow> cov_completed_at s' \<noteq> None)"

lemma normalize_source_kept:
  assumes "normalize_source root n now index s = Inr s'" shows "source_kept root s s'"
proof -
  let ?s1 = "default_observed_at now (default_completeness (default_root root s))"
  let ?s2 = "if cov_completeness ?s1 = CompletenessComplete
    then raise_observed_at (default_completed_at now (default_started_at (Some now) ?s1)) else ?s1"
  have v: "Coverage_Validate s' = None" and r: "cov_root_id s = [] \<or> cov_root_id s = root"
    and s': "s' = ?s2 \<or> s' = ?s2\<lparr>cov_observed_count := 0\<rparr>"
    using assms by (auto simp: normalize_source_def Let_def simp del: Coverage_Validate_iff split: if_splits option.splits)
  show ?thesis
    using v r s' by (auto simp: source_kept_def)
qed

section \<open>All sources\<close>

lemma absorb_frames [simp]:
  "cov_root_id (absorb_source s c) = cov_root_id c" "cov_completed_at (absorb_source s c) = cov_completed_at c"
  "cov_observed_count (absorb_source s c) = cov_observed_count c"
  by (simp_all add: absorb_source_def split: completeness.splits)

lemma absorb_complete:
  "completeness_supported (cov_completeness s) \<Longrightarrow> cov_completeness (absorb_source s c) = CompletenessComplete \<longleftrightarrow>
     cov_completeness s = CompletenessComplete \<and> cov_completeness c = CompletenessComplete"
  by (auto simp: absorb_source_def split: completeness.splits)

lemma normalize_sources_kept:
  "normalize_sources root n now index c ss = Inr (c', ss') \<Longrightarrow>
     list_all2 (source_kept root) ss ss'
   \<and> cov_root_id c' = cov_root_id c \<and> cov_completed_at c' = cov_completed_at c
   \<and> cov_observed_count c' = cov_observed_count c
   \<and> (cov_completeness c' = CompletenessComplete \<longleftrightarrow>
        cov_completeness c = CompletenessComplete \<and> list_all (\<lambda>s. cov_completeness s = CompletenessComplete) ss')"
proof (induction ss arbitrary: index c c' ss')
  case (Cons s ss)
  obtain s1 where s1: "normalize_source root n now index s = Inr s1"
    using Cons.prems by (auto split: sum.splits)
  obtain ss1 where r: "normalize_sources root n now (Suc index) (absorb_source s1 c) ss = Inr (c', ss1)" "ss' = s1 # ss1"
    using Cons.prems s1 by (auto split: sum.splits)
  have k: "source_kept root s s1" by (rule normalize_source_kept[OF s1])
  then have "completeness_supported (cov_completeness s1)" unfolding source_kept_def Coverage_Validate_iff by blast
  then show ?case using Cons.IH[OF r(1)] r(2) k by (auto simp: absorb_complete)
qed simp

section \<open>The aggregate\<close>

lemma normalize_coverage_frames:
  shows "cov_root_id cov = [] \<or> cov_root_id cov = root \<Longrightarrow>
      cov_root_id (normalize_coverage root cursor n st now cov) = root"
    and "n \<le> cov_observed_count (normalize_coverage root cursor n st now cov)"
    and "cov_completeness (normalize_coverage root cursor n st now cov) = CompletenessComplete \<longleftrightarrow>
      cov_completeness cov = CompletenessComplete \<and> cursor = []"
    and "cov_completeness (normalize_coverage root cursor n st now cov) = CompletenessComplete \<Longrightarrow>
      cov_completed_at (normalize_coverage root cursor n st now cov) \<noteq> None"
  by (auto simp: normalize_coverage_def Let_def split: option.splits)

text \<open>
  The evidence that is kept is as complete as what was reported and no more: it is complete exactly
  when the report, the scan position and every source are.
\<close>

lemma normalizeEvidence_kept:
  assumes "normalizeEvidence mx root cov sources cursor n st now = Inr (cov', sources')"
  shows "Coverage_Validate cov' = None" "cov_root_id cov' = root" "n \<le> cov_observed_count cov'"
    "list_all2 (source_kept root) (slice_items sources) (slice_items sources')"
    "int (length cursor) \<le> mx" "0 \<le> n"
    "cov_completeness cov' = CompletenessComplete \<longleftrightarrow>
       cov_completeness cov = CompletenessComplete \<and> cursor = [] \<and>
       list_all (\<lambda>s. cov_completeness s = CompletenessComplete) (slice_items sources)"
    "cov_completeness cov' = CompletenessComplete \<Longrightarrow> cov_completed_at cov' \<noteq> None"
    "sources' = None \<longleftrightarrow> sources = None"
proof -
  let ?c = "normalize_coverage root cursor n st now cov"
  obtain ss' where ns: "normalize_sources root n now 0 ?c (slice_items sources) = Inr (cov', ss')"
    and v: "Coverage_Validate cov' = None" and s': "sources' = map_option (\<lambda>_. ss') sources"
    and g: "\<not> mx < int (length cursor)" "\<not> n < 0" "cov_root_id cov = [] \<or> cov_root_id cov = root"
    using assms by (auto simp: normalizeEvidence_def simp del: Coverage_Validate_iff split: if_splits sum.splits option.splits)
  note k = normalize_sources_kept[OF ns]
  have items: "slice_items sources' = ss'"
    using s' k by (cases sources) auto
  have comp: "list_all (\<lambda>s. cov_completeness s = CompletenessComplete) ss' =
      list_all (\<lambda>s. cov_completeness s = CompletenessComplete) (slice_items sources)"
    using k by (auto simp: list_all_length list_all2_conv_all_nth source_kept_def split: if_splits)
  show "Coverage_Validate cov' = None" by (rule v)
  show "cov_root_id cov' = root" using k normalize_coverage_frames(1)[OF g(3)] by simp
  show "n \<le> cov_observed_count cov'" using k normalize_coverage_frames(2) by simp
  show "list_all2 (source_kept root) (slice_items sources) (slice_items sources')" using k items by simp
  show "int (length cursor) \<le> mx" "0 \<le> n" using g by simp_all
  show "cov_completeness cov' = CompletenessComplete \<longleftrightarrow>
       cov_completeness cov = CompletenessComplete \<and> cursor = [] \<and>
       list_all (\<lambda>s. cov_completeness s = CompletenessComplete) (slice_items sources)"
    using k comp normalize_coverage_frames(3) by auto
  show "cov_completed_at cov' \<noteq> None" if "cov_completeness cov' = CompletenessComplete"
    using that k normalize_coverage_frames(4) by auto
  show "sources' = None \<longleftrightarrow> sources = None" using s' by simp
qed

end
