(* ===== verification/Scan_Health.thy ===== *)
theory Scan_Health
  imports Scan_Evidence
begin

text \<open>
  The two invariants that make a root's projections trustworthy
  (\<^verbatim>\<open>internal/scanning/scanning.go\<close>): what a root reports as its last and last complete coverage is
  the coverage of a finished scan of that root and of its current revision, and every scan still
  to be run belongs to its root's current revision.
\<close>

section \<open>The invariants\<close>

text \<open>The scan behind a projection: an id, a root, a revision and a coverage.\<close>

definition evidence_for :: "(scan_record \<Rightarrow> bool) \<Rightarrow> scan_record list \<Rightarrow> root_state \<Rightarrow> runtime_id \<Rightarrow> coverage option \<Rightarrow> bool" where
  "evidence_for P scans r i cov \<longleftrightarrow>
     (cov = None \<longrightarrow> i = []) \<and>
     (\<forall>c. cov = Some c \<longrightarrow> list_ex (\<lambda>s. sc_id s = i \<and> sc_root_id s = rt_id r \<and> sc_config_revision s = rt_revision r
        \<and> sc_terminal s \<and> P s \<and> sc_coverage s = c) scans)"

definition root_grounded :: "scan_record list \<Rightarrow> root_state \<Rightarrow> bool" where
  "root_grounded scans r \<longleftrightarrow>
     evidence_for (\<lambda>_. True) scans r (rt_last_scan_id r) (rt_last_coverage r)
   \<and> evidence_for CanAssertAbsence scans r (rt_last_complete_scan_id r) (rt_last_complete_coverage r)"

definition current_for :: "root_state list \<Rightarrow> scan_record \<Rightarrow> bool" where
  "current_for roots s \<longleftrightarrow>
     sc_terminal s \<or> list_all (\<lambda>r. rt_id r = sc_root_id s \<longrightarrow> rt_revision r = sc_config_revision s) roots"

definition healthy :: "root_state list \<Rightarrow> scan_record list \<Rightarrow> bool" where
  "healthy roots scans \<longleftrightarrow> list_all (root_grounded scans) roots \<and> list_all (current_for roots) scans"

lemma CanAssertAbsence_terminal: "CanAssertAbsence s \<Longrightarrow> sc_terminal s"
  by (auto simp: CanAssertAbsence_def split: if_splits)

lemma extends_terminal: "extends xs ys \<Longrightarrow> s \<in> set xs \<Longrightarrow> sc_terminal s \<Longrightarrow> s \<in> set ys"
  by (auto simp: extends_def keeps_def in_set_conv_nth) (metis order.strict_trans2)

lemma evidence_extends: "evidence_for P xs r i cov \<Longrightarrow> extends xs ys \<Longrightarrow> evidence_for P ys r i cov"
  using extends_terminal unfolding evidence_for_def list_ex_iff by fast

lemma grounded_extends: "root_grounded xs r \<Longrightarrow> extends xs ys \<Longrightarrow> root_grounded ys r"
  using evidence_extends by (auto simp: root_grounded_def)

text \<open>What a root's evidence depends on.\<close>

lemma grounded_cong:
  assumes "root_grounded scans r" "rt_id r' = rt_id r" "rt_revision r' = rt_revision r"
    "rt_last_scan_id r' = rt_last_scan_id r" "rt_last_coverage r' = rt_last_coverage r"
    "rt_last_complete_scan_id r' = rt_last_complete_scan_id r"
    "rt_last_complete_coverage r' = rt_last_complete_coverage r"
  shows "root_grounded scans r'"
  using assms unfolding root_grounded_def evidence_for_def by simp

lemma grounded_follow_up [simp]:
  "root_grounded scans (clearFollowUp r) = root_grounded scans r"
  "root_grounded scans (retainFollowUp t r) = root_grounded scans r"
  "root_grounded scans (r\<lparr>rt_active_scan_id := a\<rparr>) = root_grounded scans r"
  "root_grounded scans (r\<lparr>rt_next_scheduled_at := n\<rparr>) = root_grounded scans r"
  by (simp_all add: root_grounded_def evidence_for_def clearFollowUp_def retainFollowUp_def)

lemma grounded_invalidated [simp]: "root_grounded scans (invalidateRootEvidence r)"
  by (simp add: root_grounded_def evidence_for_def invalidateRootEvidence_def)

lemma grounded_invalidated_complete [simp]:
  "root_grounded scans r \<Longrightarrow> root_grounded scans (invalidateRootCompleteEvidence r)"
  by (simp add: root_grounded_def evidence_for_def invalidateRootCompleteEvidence_def)

lemma grounded_after_terminal:
  "root_grounded scans r \<Longrightarrow> s \<in> set scans \<Longrightarrow> sc_root_id s = rt_id r \<Longrightarrow> root_grounded scans (updateRootAfterTerminal s r)"
  by (auto simp: root_grounded_def evidence_for_def updateRootAfterTerminal_def Let_def list_ex_iff)

text \<open>A scan of another revision leaves no evidence behind.\<close>

lemma grounded_after_stale:
  "sc_config_revision s \<noteq> rt_revision r \<Longrightarrow>
     root_grounded scans (updateRootAfterTerminal s (invalidateRootEvidence r))"
  by (auto simp: root_grounded_def evidence_for_def updateRootAfterTerminal_def Let_def invalidateRootEvidence_def)

lemma enqueue_grounded:
  "enqueueCurrentRevision rand draws scans r now = (scans', r', draws') \<Longrightarrow> root_grounded x r' = root_grounded x r"
  by (auto simp: enqueueCurrentRevision_def Let_def split: if_splits prod.splits)

section \<open>Updating one root and its scans\<close>

text \<open>The scans a transition added: each belongs to a given root and its revision.\<close>

definition fresh_for :: "root_state \<Rightarrow> scan_record list \<Rightarrow> scan_record list \<Rightarrow> bool" where
  "fresh_for r xs ys \<longleftrightarrow>
     list_all (\<lambda>s. sc_root_id s = rt_id r \<and> sc_config_revision s = rt_revision r) (drop (length xs) ys)"

lemma fresh_none [simp]: "length ys \<le> length xs \<Longrightarrow> fresh_for r xs ys"
  by (simp add: fresh_for_def)

lemma fresh_new:
  "newScanRecord rand draws (rt_schedule r) t now = (fresh, d) \<Longrightarrow> length ys = length xs \<Longrightarrow> fresh_for r xs (ys @ [fresh])"
  using newScanRecord_frames[of rand draws "rt_schedule r" t now fresh d] by (simp add: fresh_for_def)

lemma fresh_enqueue:
  assumes "enqueueCurrentRevision rand draws ys r now = (scans', r', draws')" "length ys = length xs"
  shows "fresh_for r xs scans'"
  using assms fresh_new[of rand draws r TriggerScheduled now _ draws' ys xs]
  by (auto simp: enqueueCurrentRevision_def Let_def split: if_splits prod.splits)

lemma fresh_schedule: "rt_schedule r' = rt_schedule r \<Longrightarrow> fresh_for r' xs ys = fresh_for r xs ys"
  by (simp add: fresh_for_def)

lemma current_extends:
  assumes "list_all (current_for roots) xs" "extends xs ys"
    "\<And>s. s \<in> set (drop (length xs) ys) \<Longrightarrow> current_for roots s"
  shows "list_all (current_for roots) ys"
  unfolding list_all_length
proof (intro allI impI)
  fix n assume n: "n < length ys"
  show "current_for roots (ys ! n)"
  proof (cases "n < length xs")
    case True
    then have "keeps (xs ! n) (ys ! n)" "current_for roots (xs ! n)" using assms by (auto simp: extends_def list_all_length)
    then show ?thesis by (auto simp: keeps_def current_for_def)
  next
    case False
    then have "drop (length xs) ys ! (n - length xs) = ys ! n" "n - length xs < length (drop (length xs) ys)"
      using n by auto
    then have "ys ! n \<in> set (drop (length xs) ys)" by (metis nth_mem)
    then show ?thesis by (rule assms(3))
  qed
qed

lemma healthy_update:
  assumes h: "healthy roots xs" and d: "distinct (map rt_id roots)" and ri: "ri < length roots"
    and sch: "rt_schedule r' = rt_schedule (roots ! ri)" and ext: "extends xs ys"
    and g: "root_grounded ys r'" and f: "fresh_for r' xs ys"
  shows "healthy (roots[ri := r']) ys"
proof -
  have cf: "current_for (roots[ri := r']) s \<longleftrightarrow> current_for roots s" for s
    using sch ri by (auto simp: current_for_def list_all_length nth_list_update)
  have "current_for roots s" if "s \<in> set (drop (length xs) ys)" for s
  proof -
    have "sc_root_id s = rt_id (roots ! ri)" "sc_config_revision s = rt_revision (roots ! ri)"
      using f that sch by (auto simp: fresh_for_def list_all_iff)
    moreover have "r = roots ! ri" if "r \<in> set roots" "rt_id r = rt_id (roots ! ri)" for r
      using that d ri by (metis distinct_map inj_onD nth_mem)
    ultimately show ?thesis by (auto simp: current_for_def list_all_iff)
  qed
  then have "list_all (current_for roots) ys" using current_extends[OF _ ext] h by (simp add: healthy_def)
  moreover have "list_all (root_grounded ys) (roots[ri := r'])"
    using h g grounded_extends[OF _ ext] ri
    by (auto simp: healthy_def list_all_iff dest!: set_list_update_sub)
  ultimately show ?thesis using cf by (simp add: healthy_def list_all_length)
qed

lemma healthy_scans:
  assumes "healthy roots xs" "extends xs ys" "length ys \<le> length xs"
  shows "healthy roots ys"
  using assms current_extends[OF _ assms(2)] grounded_extends[OF _ assms(2)]
  by (auto simp: healthy_def list_all_iff)

section \<open>The changes keep the invariants\<close>

lemma newest_in_set: "k < length xs \<Longrightarrow> y \<in> set (xs[k := y])"
  by (rule set_update_memI)

lemma trigger_change_healthy:
  assumes h: "healthy (sn_roots snap) (sn_scans snap)" and d: "distinct (map rt_id (sn_roots snap))"
    and c: "trigger_change rand now root draws snap = (dr, Inr (snap', x))"
  shows "healthy (sn_roots snap') (sn_scans snap')"
proof -
  note ext = trigger_change_extends[OF c]
  obtain ri where ri: "rootIndex (sn_roots snap) root = Some ri"
    using c by (auto simp: trigger_change_def split: option.splits)
  note r = rootIndex_Some[OF ri]
  have g: "root_grounded (sn_scans snap) (sn_roots snap ! ri)" using h r by (auto simp: healthy_def list_all_length)
  show ?thesis
  proof (cases "activeScanIndex (sn_scans snap) root")
    case None
    obtain fresh d' where fr: "newScanRecord rand draws (rt_schedule (sn_roots snap ! ri)) TriggerManual now = (fresh, d')"
      by fastforce
    let ?r' = "(sn_roots snap ! ri)\<lparr>rt_active_scan_id := sc_id fresh\<rparr>"
    have "sn_scans snap' = sn_scans snap @ [fresh]" "sn_roots snap' = (sn_roots snap)[ri := ?r']"
      using c ri None fr by (auto simp: trigger_change_def Let_def split: if_splits)
    then show ?thesis
      using healthy_update[OF h d r(1), of ?r' "sn_scans snap'"] ext grounded_extends[OF g] fresh_new[OF fr]
        fresh_schedule[of ?r'] by simp
  next
    case (Some k)
    then consider "sn_roots snap' = sn_roots snap" "length (sn_scans snap') = length (sn_scans snap)"
      | "sn_scans snap' = sn_scans snap" "sn_roots snap' = (sn_roots snap)[ri := retainFollowUp TriggerManual (sn_roots snap ! ri)]"
      using c ri by (auto simp: trigger_change_def Let_def split: if_splits)
    then show ?thesis
    proof cases
      case 1 then show ?thesis using healthy_scans[OF h ext] by simp
    next
      case 2
      then show ?thesis
        using healthy_update[OF h d r(1), of "retainFollowUp TriggerManual (sn_roots snap ! ri)" "sn_scans snap"] g
        by (simp add: frame_simps)
    qed
  qed
qed

lemma terminal_update_healthy:
  assumes h: "healthy roots scans" and d: "distinct (map rt_id roots)" and ri: "rootIndex roots (sc_root_id s) = Some ri"
    and k: "k < length scans" and live: "\<not> sc_terminal (scans ! k)" and kp: "keeps (scans ! k) s"
  shows "healthy (roots[ri := clearFollowUp (updateRootAfterTerminal s (roots ! ri))]) (scans[k := s])"
proof (rule healthy_update[OF h d])
  have ext: "extends scans (scans[k := s])" using kp by (intro extends_update)
  then show "extends scans (scans[k := s])" .
  have "root_grounded (scans[k := s]) (roots ! ri)"
    using h rootIndex_Some[OF ri] grounded_extends[OF _ ext] by (auto simp: healthy_def list_all_length)
  then show "root_grounded (scans[k := s]) (clearFollowUp (updateRootAfterTerminal s (roots ! ri)))"
    using grounded_after_terminal[OF _ newest_in_set[OF k]] rootIndex_Some(2)[OF ri] by simp
qed (use rootIndex_Some[OF ri] in \<open>auto simp: frame_simps\<close>)

lemma cancel_change_healthy:
  assumes h: "healthy (sn_roots snap) (sn_scans snap)" and d: "distinct (map rt_id (sn_roots snap))"
    and c: "cancel_change m now i draws snap = (dr, Inr (snap', x))"
  shows "healthy (sn_roots snap') (sn_scans snap')"
proof -
  note ext = cancel_change_extends[OF c]
  obtain k where k: "scanIndex (sn_scans snap) i = Some k"
    using c by (auto simp: cancel_change_def split: option.splits)
  show ?thesis
  proof (cases "sn_roots snap' = sn_roots snap")
    case True
    then show ?thesis
      using healthy_scans[OF h ext] c by (auto simp: cancel_change_def Let_def split: option.splits if_splits)
  next
    case False
    let ?s0 = "sn_scans snap ! k"
    define s where "s = (if sc_cancellation_requested_at ?s0 = None
      then ?s0\<lparr>sc_cancellation_requested_at := Some now\<rparr> else ?s0)"
    have frames: "sc_root_id s = sc_root_id ?s0" "sc_state s = sc_state ?s0" "keeps ?s0 s"
      if "\<not> sc_terminal ?s0" using that by (auto simp: s_def keeps_def)
    have live: "\<not> sc_terminal ?s0" and q: "sc_state s = StateQueued \<or> sc_state s = StateWaiting"
      using False c k by (auto simp: cancel_change_def Let_def s_def split: if_splits)
    obtain ri where ri: "rootIndex (sn_roots snap) (sc_root_id s) = Some ri"
      using False c k live q by (auto simp: cancel_change_def Let_def s_def[symmetric] split: option.splits if_splits)
    have "keeps ?s0 (finalizeCancelled now m s)"
      using keeps_trans[OF frames(3)[OF live]] keeps_finalize(2) live frames(2)[OF live] by auto
    moreover have "snap' = snap\<lparr>sn_scans := (sn_scans snap)[k := finalizeCancelled now m s],
        sn_roots := (sn_roots snap)[ri := clearFollowUp (updateRootAfterTerminal (finalizeCancelled now m s) (sn_roots snap ! ri))]\<rparr>"
      using c k live q ri by (auto simp: cancel_change_def Let_def s_def[symmetric] split: if_splits)
    ultimately show ?thesis
      using terminal_update_healthy[OF h d, of "finalizeCancelled now m s" ri k] ri scanIndex_Some[OF k] live
      by (simp add: frame_simps)
  qed
qed

lemma progress_change_healthy:
  assumes h: "healthy (sn_roots snap) (sn_scans snap)"
    and c: "progress_change opts now i p draws snap = (dr, Inr (snap', x))"
  shows "healthy (sn_roots snap') (sn_scans snap')"
proof -
  have "sn_roots snap' = sn_roots snap" "length (sn_scans snap') = length (sn_scans snap)"
    using c by (auto simp: progress_change_def Let_def split: option.splits if_splits sum.splits)
  then show ?thesis using healthy_scans[OF h progress_change_extends[OF c]] by simp
qed

text \<open>A scan of an old revision is closed and its root starts over.\<close>

lemma stale_update_healthy:
  assumes h: "healthy roots scans" and d: "distinct (map rt_id roots)" and ri: "ri < length roots"
    and live: "\<not> sc_terminal (scans ! k)" and old: "sc_config_revision (scans ! k) \<noteq> rt_revision (roots ! ri)"
    and r1: "rt_schedule r1 = rt_schedule (roots ! ri)"
    and u: "u = updateRootAfterTerminal (finalizeStale now m (scans ! k)) (invalidateRootEvidence r1)
      \<or> u = clearFollowUp (updateRootAfterTerminal (finalizeStale now m (scans ! k)) (invalidateRootEvidence r1))"
    and e: "enqueueCurrentRevision rand draws (scans[k := finalizeStale now m (scans ! k)]) u now = (scans', r2, d')"
  shows "healthy (roots[ri := r2]) scans'"
proof (rule healthy_update[OF h d ri])
  have su: "rt_schedule u = rt_schedule r1" using u by (auto simp: frame_simps)
  then show "rt_schedule r2 = rt_schedule (roots ! ri)" using enqueueCurrentRevision_frames[OF e] r1 by simp
  show "extends scans scans'" by (rule stale_then_enqueue[OF live e])
  have "root_grounded scans' u"
    using u old r1 grounded_after_stale[of "finalizeStale now m (scans ! k)" r1 scans'] by (auto simp: frame_simps)
  then show "root_grounded scans' r2" using enqueue_grounded[OF e] by simp
  show "fresh_for r2 scans scans'"
    using fresh_enqueue[OF e, of scans] fresh_schedule[of r2 u] enqueueCurrentRevision_frames[OF e] by simp
qed

lemma tick_root_healthy:
  assumes h: "healthy (sn_roots snap) (sn_scans snap)" and d: "distinct (map rt_id (sn_roots snap))"
    and ri: "ri < length (sn_roots snap)" and t: "tick_root rand m now ri (snap, draws, st) = (snap', draws', st')"
  shows "healthy (sn_roots snap') (sn_scans snap') \<and> map rt_id (sn_roots snap') = map rt_id (sn_roots snap)"
proof -
  let ?r = "sn_roots snap ! ri" and ?x = "sn_scans snap"
  have ext: "extends ?x (sn_scans snap')" using tick_root_extends[of "(snap, draws, st)" rand m now ri] t by simp
  have g: "root_grounded ?x ?r" using h ri by (auto simp: healthy_def list_all_length)
  show ?thesis
  proof (cases "activeScanIndex ?x (rt_id ?r)")
    case (Some k)
    have live: "\<not> sc_terminal (?x ! k)" using activeScanIndex_Some[OF Some] by simp
    let ?r1 = "?r\<lparr>rt_active_scan_id := sc_id (?x ! k)\<rparr>"
    show ?thesis
    proof (cases "sc_config_revision (?x ! k) = rt_revision ?r")
      case False
      obtain scans' r3 d3 where e: "enqueueCurrentRevision rand draws (?x[k := finalizeStale now m (?x ! k)])
          (updateRootAfterTerminal (finalizeStale now m (?x ! k)) (invalidateRootEvidence ?r1)) now = (scans', r3, d3)"
        by (metis prod_cases3)
      have "snap' = snap\<lparr>sn_scans := scans', sn_roots := (sn_roots snap)[ri := r3]\<rparr>"
        using t Some False e by (auto simp: tick_root_def Let_def)
      then show ?thesis
        using stale_update_healthy[OF h d ri live False, of ?r1, OF _ _ e] enqueueCurrentRevision_frames[OF e]
        by (simp add: frame_simps map_update_same[OF ri])
    next
      case True
      obtain r2 s' where s': "snap' = snap\<lparr>sn_scans := ?x[k := s'], sn_roots := (sn_roots snap)[ri := r2]\<rparr>"
        and r2: "r2 = ?r1 \<or> r2 = (retainFollowUp TriggerScheduled ?r1)
          \<lparr>rt_next_scheduled_at := advanceScheduledAt (rt_next_scheduled_at ?r1) now (rs_interval (rt_schedule ?r1))\<rparr>"
        using t Some True by (auto simp: tick_root_def Let_def)
      have "root_grounded (sn_scans snap') r2" "rt_schedule r2 = rt_schedule ?r"
        using r2 grounded_extends[OF g ext] by (auto simp: frame_simps)
      then show ?thesis
        using healthy_update[OF h d ri, of r2 "sn_scans snap'"] ext s' by (simp add: map_update_same[OF ri])
    qed
  next
    case None
    obtain r2 ys where s': "sn_scans snap' = ys" and rr: "sn_roots snap' = (sn_roots snap)[ri := r2]"
      and sch: "rt_schedule r2 = rt_schedule ?r" and g2: "root_grounded ys r2" and f: "fresh_for r2 ?x ys"
    proof (cases "rt_retired ?r \<or> \<not> rs_enabled (rt_schedule ?r)")
      case True
      then show ?thesis using that[of ?x ?r] t None g by (auto simp: tick_root_def Let_def)
    next
      case False
      let ?r1 = "?r\<lparr>rt_active_scan_id := []\<rparr>"
      define r2 where "r2 = (if rt_next_scheduled_at ?r1 = None then ?r1\<lparr>rt_next_scheduled_at := Some now\<rparr> else ?r1)"
      have p: "rt_schedule r2 = rt_schedule ?r" "root_grounded ys r2 = root_grounded ys ?r" for ys
        by (auto simp: r2_def)
      show ?thesis
      proof (cases "due (rt_next_scheduled_at r2) now")
        case False
        then show ?thesis using that[of ?x r2] t None g p \<open>\<not> (rt_retired ?r \<or> _)\<close>
          by (simp add: tick_root_def Let_def r2_def[symmetric]) (auto simp: r2_def)
      next
        case True
        obtain fresh d3 where fr: "newScanRecord rand draws (rt_schedule r2) TriggerScheduled now = (fresh, d3)" by fastforce
        let ?r3 = "r2\<lparr>rt_active_scan_id := sc_id fresh,
            rt_next_scheduled_at := advanceScheduledAt (rt_next_scheduled_at r2) now (rs_interval (rt_schedule r2))\<rparr>"
        have "snap' = snap\<lparr>sn_scans := ?x @ [fresh], sn_roots := (sn_roots snap)[ri := ?r3]\<rparr>"
          using t None False True fr unfolding tick_root_def Let_def prod.case None option.case r2_def[symmetric] by simp
        then show ?thesis
          using that[of "?x @ [fresh]" ?r3] p ext grounded_extends[OF g ext] fresh_new[OF fr, of ?x ?x] fresh_schedule[of ?r3 r2]
          by simp
      qed
    qed
    then show ?thesis
      using healthy_update[OF h d ri sch, of ys] ext by (simp add: map_update_same[OF ri])
  qed
qed

lemma tick_change_healthy:
  assumes h: "healthy (sn_roots snap) (sn_scans snap)" and d: "distinct (map rt_id (sn_roots snap))"
    and c: "tick_change rand m now draws snap = (dr, Inr (snap', x))"
  shows "healthy (sn_roots snap') (sn_scans snap')"
proof -
  let ?P = "\<lambda>st. healthy (sn_roots (fst st)) (sn_scans (fst st)) \<and> map rt_id (sn_roots (fst st)) = map rt_id (sn_roots snap)"
  have "?P (fold (tick_root rand m now) ks st)" if "?P st" "set ks \<subseteq> {..<length (sn_roots snap)}" for ks and st :: tick_state
    using that
  proof (induction ks arbitrary: st)
    case (Cons k ks)
    obtain sn dr' sl where st: "st = (sn, dr', sl)" by (cases st)
    have "length (sn_roots sn) = length (sn_roots snap)" using Cons.prems(1) st by (metis fst_conv length_map)
    then have "?P (tick_root rand m now k st)"
      using tick_root_healthy[of sn k rand m now dr' sl] Cons.prems d st
      by (cases "tick_root rand m now k st") auto
    then show ?case using Cons.IH Cons.prems(2) by simp
  qed simp
  from this[of "(snap, draws, [])" "[0..<length (sn_roots snap)]"] show ?thesis
    using h c by (auto simp: tick_change_def atLeast0LessThan split: prod.splits)
qed

lemma conclude_root_healthy:
  assumes h: "healthy roots scans" and d: "distinct (map rt_id roots)" and ri: "rootIndex roots (sc_root_id s) = Some ri"
    and k: "k < length scans" and kp: "keeps (scans ! k) s"
    and e: "conclude_root rand draws now s (scans[k := s]) (roots ! ri) = (scans', r', d', w)"
  shows "healthy (roots[ri := r']) scans'"
proof -
  note r = rootIndex_Some[OF ri]
  let ?u = "updateRootAfterTerminal s (roots ! ri)"
  have ext1: "extends scans (scans[k := s])" using kp by (intro extends_update)
  have ext: "extends scans scans'" using extends_trans[OF ext1 conclude_root_extends[OF e]] .
  have g0: "root_grounded (scans[k := s]) (roots ! ri)"
    using h r(1) grounded_extends[OF _ ext1] by (auto simp: healthy_def list_all_length)
  then have "root_grounded (scans[k := s]) ?u" using grounded_after_terminal newest_in_set[OF k] r(2) by simp
  then have g: "root_grounded scans' (roots ! ri)" "root_grounded scans' ?u"
    using g0 grounded_extends[OF _ conclude_root_extends[OF e]] by auto
  have "rt_schedule r' = rt_schedule (roots ! ri) \<and> root_grounded scans' r' \<and> fresh_for (roots ! ri) scans scans'"
  proof (cases "sc_terminal s \<and> rt_follow_up_pending ?u \<and> \<not> rt_retired ?u \<and> sc_state s \<noteq> StateCancelled")
    case False
    then show ?thesis using e g by (auto simp: conclude_root_def Let_def frame_simps split: if_splits)
  next
    case True
    define t where "t = (if \<not> followUpTriggerValid (rt_follow_up_trigger ?u) then TriggerManual else rt_follow_up_trigger ?u)"
    obtain fresh d3 where fr: "newScanRecord rand draws (rt_schedule ?u) t now = (fresh, d3)" by fastforce
    have "scans' = scans[k := s] @ [fresh]" "r' = clearFollowUp (?u\<lparr>rt_active_scan_id := sc_id fresh\<rparr>)"
      using e True fr by (auto simp: conclude_root_def Let_def t_def)
    then show ?thesis using g(2) fresh_new[OF fr, of "scans[k := s]" scans] fresh_schedule[of ?u "roots ! ri"]
      by (simp add: frame_simps)
  qed
  then show ?thesis
    using healthy_update[OF h d r(1) _ ext] fresh_schedule[of r' "roots ! ri"] by auto
qed

lemma finish_change_healthy:
  assumes h: "healthy (sn_roots snap) (sn_scans snap)" and d: "distinct (map rt_id (sn_roots snap))"
    and c: "finish_change rand opts now i outcome runErr ctxErr draws snap = (dr, Inr (snap', x))"
  shows "healthy (sn_roots snap') (sn_scans snap')"
proof -
  obtain k where k: "scanIndex (sn_scans snap) i = Some k"
    using c by (auto simp: finish_change_def split: option.splits)
  let ?s = "sn_scans snap ! k"
  note kl = scanIndex_Some(1)[OF k]
  obtain ri where run: "sc_state ?s = StateRunning" and ri: "rootIndex (sn_roots snap) (sc_root_id ?s) = Some ri"
    using c k by (auto simp: finish_change_def Let_def split: option.splits if_splits)
  have live: "\<not> sc_terminal ?s" using run by simp
  show ?thesis
  proof (cases "sc_config_revision ?s = rt_revision (sn_roots snap ! ri)")
    case False
    obtain scans' r3 d3 where e: "enqueueCurrentRevision rand draws ((sn_scans snap)[k := finalizeStale now (op_max_error_detail opts) ?s])
        (clearFollowUp (updateRootAfterTerminal (finalizeStale now (op_max_error_detail opts) ?s)
           (invalidateRootEvidence (sn_roots snap ! ri)))) now = (scans', r3, d3)"
      by (metis prod_cases3)
    then have "snap' = snap\<lparr>sn_scans := scans', sn_roots := (sn_roots snap)[ri := r3]\<rparr>"
      using c k run ri False by (auto simp: finish_change_def Let_def)
    then show ?thesis
      using stale_update_healthy[OF h d rootIndex_Some(1)[OF ri] live False refl _ e] by simp
  next
    case True
    let ?oc = "max (sp_observed_count outcome) (sc_observed_count ?s)"
    obtain cov sources s' w scans' root' d' w' where
      cn: "conclude_run opts now (sp_cursor outcome) (res_next_attempt_at outcome) runErr ctxErr
        (?s\<lparr>sc_cursor := sp_cursor outcome, sc_observed_count := ?oc, sc_coverage := cov,
            sc_source_coverage := sources, sc_error_code := [], sc_error_detail := []\<rparr>) = (s', w)"
      and cr: "conclude_root rand draws now s' ((sn_scans snap)[k := s']) (sn_roots snap ! ri) = (scans', root', d', w')"
      and snap': "snap' = snap\<lparr>sn_scans := scans', sn_roots := (sn_roots snap)[ri := root']\<rparr>"
      using c k run ri True
      by (fastforce simp: finish_change_def Let_def split: sum.splits prod.splits)
    have kp: "keeps ?s s'"
      using keeps_trans[OF _ keeps_conclude[OF cn]] run by (auto simp: keeps_def)
    then have "sc_root_id s' = sc_root_id ?s" by (simp add: keeps_def)
    then show ?thesis unfolding snap' using conclude_root_healthy[OF h d _ kl kp cr] ri by simp
  qed
qed

lemma startOne_healthy:
  assumes h: "healthy (sn_roots (sd_state sd)) (sn_scans (sd_state sd))"
    and d: "distinct (map rt_id (sn_roots (sd_state sd)))" and st: "startOne env sd = (sd', again)"
  shows "healthy (sn_roots (sd_state sd')) (sn_scans (sd_state sd'))"
  using st
proof (cases rule: startOne_cases)
  case idle then show ?thesis using h by simp
next
  case (cancelled k now roots')
  note sel = selectQueuedScan_Some[OF cancelled(1)]
  let ?s = "finalizeCancelled now (max_detail env) (sn_scans (sd_state sd) ! k)"
  have live: "\<not> sc_terminal (sn_scans (sd_state sd) ! k)" using sel by simp
  have kp: "keeps (sn_scans (sd_state sd) ! k) ?s" by (rule keeps_finalize[OF live])
  have "healthy roots' ((sn_scans (sd_state sd))[k := ?s])"
    using cancelled(2) terminal_update_healthy[OF h d _ sel(1) live kp] healthy_scans[OF h extends_update[of k _ ?s]] kp
    by (auto simp: frame_simps)
  then show ?thesis using publish_one_state[OF cancelled(3)] h by auto
next
  case (stale k now ri scan' scans' root2 draws')
  have "\<not> sc_terminal (sn_scans (sd_state sd) ! k)" using selectQueuedScan_Some[OF stale(1)] by simp
  then have "healthy ((sn_roots (sd_state sd))[ri := root2]) scans'"
    using stale_update_healthy[OF h d rootIndex_Some(1)[OF stale(2)] _ stale(4) refl] stale(5,6) by blast
  then show ?thesis using publish_one_state[OF stale(7)] h by auto
next
  case (run k now ri)
  have live: "\<not> sc_terminal (sn_scans (sd_state sd) ! k)" using selectQueuedScan_Some[OF run(5)] by simp
  then show ?thesis
    using start_run_state[OF run(10)] h healthy_scans[OF h extends_update[of k _ "claim_scan now (sn_scans (sd_state sd) ! k)"]]
      keeps_claim[OF live] by auto
qed

section \<open>Recovery establishes them\<close>

lemma recover_root_frames: "rt_schedule (fst (recover_root scans r)) = rt_schedule r"
  by (auto simp: recover_root_def Let_def frame_simps split: prod.splits if_splits)

lemma recover_root_grounded: "root_grounded scans r \<Longrightarrow> root_grounded scans (fst (recover_root scans r))"
proof -
  assume g: "root_grounded scans r"
  have "root_grounded scans (r\<lparr>rt_follow_up_trigger := t\<rparr>)" for t using g by (rule grounded_cong) simp_all
  then show ?thesis using g by (auto simp: recover_root_def Let_def split: prod.splits if_splits)
qed

lemma recover_reference_frames:
  "rt_schedule (fst (recover_reference now scans r)) = rt_schedule r"
  "root_grounded x (fst (recover_reference now scans r)) = root_grounded x r"
  by (auto simp: recover_reference_def Let_def split: prod.splits if_splits)

text \<open>The second loop, before its turn at \<open>k\<close>: scans before \<open>k\<close> and scans it added are settled.\<close>

definition settled :: "bool \<Rightarrow> root_schedule list \<Rightarrow> nat \<Rightarrow> nat \<Rightarrow> root_state list \<Rightarrow> scan_record list \<Rightarrow> bool" where
  "settled gr schedules n k roots scans \<longleftrightarrow>
     map rt_schedule roots = schedules \<and> n \<le> length scans \<and> (gr \<longrightarrow> list_all (root_grounded scans) roots)
   \<and> (\<forall>j<length scans. j < k \<or> n \<le> j \<longrightarrow> current_for roots (scans ! j) \<and> sc_state (scans ! j) \<noteq> StateRunning)"

lemma current_for_cong:
  "map rt_schedule roots' = map rt_schedule roots \<Longrightarrow> current_for roots' s = current_for roots s"
proof -
  assume eq: "map rt_schedule roots' = map rt_schedule roots"
  have "current_for rs s \<longleftrightarrow> sc_terminal s \<or> list_all (\<lambda>c. rs_id c = sc_root_id s \<longrightarrow> rs_revision c = sc_config_revision s)
      (map rt_schedule rs)" for rs
    by (simp add: current_for_def list_all_length)
  then show ?thesis using eq by simp
qed

lemma settled_keep:
  assumes s: "settled gr schedules n k roots scans" and k: "k < n"
    and roots': "map rt_schedule roots' = map rt_schedule roots"
    and ext: "extends scans scans'" and same: "\<And>j. j < length scans \<Longrightarrow> j \<noteq> k \<Longrightarrow> scans' ! j = scans ! j"
    and at: "current_for roots (scans' ! k)" "sc_state (scans' ! k) \<noteq> StateRunning"
    and fr: "\<And>t. t \<in> set (drop (length scans) scans') \<Longrightarrow> current_for roots t \<and> sc_state t \<noteq> StateRunning"
    and g: "gr \<Longrightarrow> list_all (root_grounded scans') roots'"
  shows "settled gr schedules n (Suc k) roots' scans'"
  unfolding settled_def
proof (intro conjI allI impI)
  show "map rt_schedule roots' = schedules" "n \<le> length scans'"
    using s roots' ext by (auto simp: settled_def extends_def)
  show "list_all (root_grounded scans') roots'" if gr using g that .
  fix j assume j: "j < length scans'" "j < Suc k \<or> n \<le> j"
  have "current_for roots (scans' ! j) \<and> sc_state (scans' ! j) \<noteq> StateRunning"
  proof (cases "j < length scans")
    case True
    show ?thesis
    proof (cases "j = k")
      case False
      then have "j < k \<or> n \<le> j" using j by linarith
      then show ?thesis using s True same[OF True False] by (auto simp: settled_def)
    qed (use at in simp)
  next
    case False
    then have "drop (length scans) scans' ! (j - length scans) = scans' ! j" "j - length scans < length (drop (length scans) scans')"
      using j by auto
    then show ?thesis using fr by (metis nth_mem)
  qed
  then show "current_for roots' (scans' ! j)" "sc_state (scans' ! j) \<noteq> StateRunning"
    using current_for_cong[OF roots'] by auto
qed

lemma current_for_unique:
  assumes "distinct (map rt_id roots)" "ri < length roots" "sc_root_id s = rt_id (roots ! ri)"
    "sc_config_revision s = rt_revision (roots ! ri)"
  shows "current_for roots s"
proof -
  have "r = roots ! ri" if "r \<in> set roots" "rt_id r = rt_id (roots ! ri)" for r
    using that assms(1,2) by (metis distinct_map inj_onD nth_mem)
  then show ?thesis using assms(3,4) by (auto simp: current_for_def list_all_iff)
qed

lemma recover_scan_settled:
  assumes s: "settled gr schedules n k roots scans" and k: "k < n" and d: "distinct (map rs_id schedules)"
    and known: "sc_root_id (scans ! k) \<in> rs_id ` set schedules"
    and e: "recover_scan rand m now k (roots, scans, draws, ch) = (roots', scans', draws', ch')"
  shows "settled gr schedules n (Suc k) roots' scans'"
proof -
  let ?s = "scans ! k"
  have ext: "extends scans scans'" using recover_scan_extends[of "(roots, scans, draws, ch)" rand m now k] e by simp
  have sch: "map rt_schedule roots = schedules" and kl: "k < length scans" and gr: "gr \<Longrightarrow> list_all (root_grounded scans) roots"
    using s k by (auto simp: settled_def)
  have ids: "map rt_id roots = map rs_id schedules" using sch by (auto simp: comp_def)
  then have dr: "distinct (map rt_id roots)" using d by simp
  have grx: "gr \<Longrightarrow> list_all (root_grounded scans') roots"
    using gr grounded_extends[OF _ ext] by (auto simp: list_all_iff)
  have upd: "list_all (root_grounded scans') (roots[ri := r])" if "gr" "root_grounded scans' r" for ri r
    using grx[OF that(1)] that(2) by (auto simp: list_all_iff dest!: set_list_update_sub)
  note keep = settled_keep[OF s k _ ext]
  obtain ri where ri: "rootIndex roots (sc_root_id ?s) = Some ri"
    using known find_index_None[of "\<lambda>r. rt_id r = sc_root_id ?s" roots] sch
    by (cases "rootIndex roots (sc_root_id ?s)") (auto simp: rootIndex_def)
  note r = rootIndex_Some[OF ri]
  let ?r = "roots ! ri"
  show ?thesis
  proof (cases "sc_terminal ?s")
    case True
    then have "roots' = roots" "scans' = scans" using e by (auto simp: recover_scan_def Let_def)
    moreover have "sc_state ?s \<noteq> StateRunning" using True by auto
    ultimately show ?thesis using keep[of roots] True grx by (auto simp: current_for_def)
  next
    case live: False
    show ?thesis
    proof (cases "sc_config_revision ?s = rt_revision ?r")
      case False
      let ?f = "finalizeStale now m ?s" and ?u = "clearFollowUp (updateRootAfterTerminal (finalizeStale now m ?s) (invalidateRootEvidence ?r))"
      obtain ys r2 d2 where en: "enqueueCurrentRevision rand draws (scans[k := ?f]) ?u now = (ys, r2, d2)" by (metis prod_cases3)
      have eq: "roots' = roots[ri := r2]" "scans' = ys" using e live ri False en by (auto simp: recover_scan_def Let_def)
      have r2: "rt_schedule r2 = rt_schedule ?r" using enqueueCurrentRevision_frames[OF en] by (simp add: frame_simps)
      have "map rt_schedule roots' = map rt_schedule roots" using eq r(1) r2 by (simp add: map_update_same)
      moreover have shape: "ys = scans[k := ?f] \<or> (\<exists>fresh. ys = scans[k := ?f] @ [fresh] \<and> sc_root_id fresh = rt_id ?u
          \<and> sc_config_revision fresh = rt_revision ?u \<and> sc_state fresh = StateQueued)"
      proof (cases "rt_retired ?u")
        case True then show ?thesis using en by (auto simp: enqueueCurrentRevision_def)
      next
        case False then show ?thesis using enqueueCurrentRevision_scans[OF en] by metis
      qed
      moreover have "root_grounded scans' r2"
        using enqueue_grounded[OF en] grounded_after_stale[of ?f ?r scans'] False by (simp add: frame_simps)
      moreover have "current_for roots t \<and> sc_state t \<noteq> StateRunning" if "t \<in> set (drop (length scans) scans')" for t
        using that shape eq(2) current_for_unique[OF dr r(1), of t] by (auto simp: frame_simps)
      ultimately show ?thesis
        using keep[of roots'] upd[of r2 ri] eq kl by (auto simp: nth_append current_for_def frame_simps)
    next
      case rev: True
      have cur: "current_for roots t" if "sc_root_id t = sc_root_id ?s" "sc_config_revision t = sc_config_revision ?s" for t
        using that current_for_unique[OF dr r(1), of t] r(2) rev by simp
      show ?thesis
      proof (cases "sc_state ?s = StateRunning")
        case False
        then have "roots' = roots" "scans' = scans" using e live ri rev by (auto simp: recover_scan_def Let_def)
        then show ?thesis using keep[of roots] cur[of ?s] grx False by auto
      next
        case run: True
        show ?thesis
        proof (cases "sc_cancellation_requested_at ?s = None")
          case True
          let ?q = "?s\<lparr>sc_state := StateQueued, sc_trigger := TriggerRecovery, sc_updated_at := now,
                 sc_error_code := ''recovered_after_restart'',
                 sc_error_detail := ''previous process stopped while the scan was running''\<rparr>"
          have eq: "roots' = roots" "scans' = scans[k := ?q]"
            using e live ri rev run True by (auto simp: recover_scan_def Let_def)
          then show ?thesis using keep[of roots] cur[of ?q] grx kl by auto
        next
          case False
          let ?f = "finalizeCancelled now m ?s"
          let ?u = "clearFollowUp (updateRootAfterTerminal ?f ?r)"
          have eq: "roots' = roots[ri := ?u]" "scans' = scans[k := ?f]"
            using e live ri rev run False by (auto simp: recover_scan_def Let_def)
          have g: "gr \<Longrightarrow> root_grounded scans' ?u"
            using grx r grounded_after_terminal[of scans' ?r ?f] newest_in_set[OF kl, of ?f] eq
            by (auto simp: list_all_length frame_simps)
          have "map rt_schedule roots' = map rt_schedule roots" using eq r(1) by (simp add: map_update_same frame_simps)
          then show ?thesis using keep[of roots'] upd[of ?u ri] g eq kl by (auto simp: current_for_def frame_simps)
        qed
      qed
    qed
  qed
qed

lemma recover_fold_settled:
  assumes "settled gr schedules n k roots scans" "k \<le> n" "distinct (map rs_id schedules)"
    "\<And>j. j < n \<Longrightarrow> sc_root_id (scans ! j) \<in> rs_id ` set schedules"
    "fold (recover_scan rand m now) [k..<n] (roots, scans, draws, ch) = (roots', scans', draws', ch')"
  shows "settled gr schedules n n roots' scans'"
  using assms
proof (induction "n - k" arbitrary: k roots scans draws ch)
  case (Suc x)
  then have k: "k < n" by simp
  obtain ro sc dr c where e: "recover_scan rand m now k (roots, scans, draws, ch) = (ro, sc, dr, c)" by (metis prod_cases4)
  have ext: "extends scans sc" using recover_scan_extends[of "(roots, scans, draws, ch)" rand m now k] e by simp
  have "n \<le> length scans" using Suc.prems(1) by (simp add: settled_def)
  then have "sc_root_id (sc ! j) \<in> rs_id ` set schedules" if "j < n" for j
    using that ext Suc.prems(4)[OF that] by (auto simp: extends_def keeps_def)
  moreover have "settled gr schedules n (Suc k) ro sc"
    using recover_scan_settled[OF Suc.prems(1) k Suc.prems(3) Suc.prems(4)[OF k] e] .
  moreover have "fold (recover_scan rand m now) [Suc k..<n] (ro, sc, dr, c) = (roots', scans', draws', ch')"
    using Suc.prems(5) e k by (simp add: upt_rec[of k n])
  ultimately show ?case using Suc.hyps(1)[of "Suc k"] Suc.hyps(2) Suc.prems(3) k by simp
qed simp

text \<open>Recovery leaves no running scan and only current work, and keeps grounded evidence grounded.\<close>

lemma recoverSnapshot_settled:
  assumes v: "valid_snapshot mi snap" and e: "recoverSnapshot rand m now draws snap = (snap', ch, d)"
  shows "list_all (current_for (sn_roots snap')) (sn_scans snap')"
    "list_all (\<lambda>s. sc_state s \<noteq> StateRunning) (sn_scans snap')"
    "list_all (root_grounded (sn_scans snap)) (sn_roots snap) \<Longrightarrow> healthy (sn_roots snap') (sn_scans snap')"
    "map rt_schedule (sn_roots snap') = map rt_schedule (sn_roots snap)"
proof -
  let ?rep = "map (recover_root (sn_scans snap)) (sn_roots snap)"
  let ?schs = "map rt_schedule (sn_roots snap)" and ?n = "length (sn_scans snap)"
  let ?gr = "list_all (root_grounded (sn_scans snap)) (sn_roots snap)"
  obtain roots scans dr c where f: "fold (recover_scan rand m now) [0..<?n]
      (map fst ?rep, sn_scans snap, draws, list_ex snd ?rep) = (roots, scans, dr, c)" by (metis prod_cases4)
  have start: "settled ?gr ?schs ?n 0 (map fst ?rep) (sn_scans snap)"
    using recover_root_frames recover_root_grounded by (auto simp: settled_def list_all_iff comp_def)
  have ds: "distinct (map rs_id ?schs)" using v by (simp add: valid_snapshot_def comp_def)
  have known: "sc_root_id (sn_scans snap ! j) \<in> rs_id ` set ?schs" if "j < ?n" for j
  proof -
    have "sc_root_id (sn_scans snap ! j) \<in> set (map sc_root_id (sn_scans snap))" using that by simp
    then have "sc_root_id (sn_scans snap ! j) \<in> set (map rt_id (sn_roots snap))" using v by (auto simp: valid_snapshot_def)
    then show ?thesis by (auto simp: image_iff)
  qed
  have st: "settled ?gr ?schs ?n ?n roots scans" by (rule recover_fold_settled[OF start _ ds known f]) simp
  have snap': "sn_scans snap' = scans" "sn_roots snap' = map (fst \<circ> recover_reference now scans) roots"
    using e f by (auto simp: recoverSnapshot_def Let_def)
  show sch: "map rt_schedule (sn_roots snap') = ?schs"
    using st snap' recover_reference_frames(1) by (auto simp: settled_def comp_def)
  have all: "\<forall>j<length scans. current_for roots (scans ! j) \<and> sc_state (scans ! j) \<noteq> StateRunning"
  proof (intro allI impI)
    fix j assume "j < length scans"
    moreover have "j < ?n \<or> ?n \<le> j" by linarith
    ultimately show "current_for roots (scans ! j) \<and> sc_state (scans ! j) \<noteq> StateRunning"
      using st unfolding settled_def by blast
  qed
  have cong: "map rt_schedule (sn_roots snap') = map rt_schedule roots"
    using snap' recover_reference_frames(1) by (simp add: comp_def)
  show cur: "list_all (current_for (sn_roots snap')) (sn_scans snap')"
    using all snap'(1) current_for_cong[OF cong] by (simp add: list_all_length)
  show "list_all (\<lambda>s. sc_state s \<noteq> StateRunning) (sn_scans snap')" using all snap'(1) by (simp add: list_all_length)
  show "healthy (sn_roots snap') (sn_scans snap')" if ?gr
    using st that cur snap' recover_reference_frames(2) by (auto simp: settled_def healthy_def list_all_iff)
qed

section \<open>Configuration keeps them\<close>

lemma live_update_drop:
  assumes d: "distinct (map f (filter P xs))" and k: "k < length xs" "P (xs ! k)" "\<not> P t"
  shows "distinct (map f (filter P (xs[k := t])))"
    "f ` set (filter P (xs[k := t])) = f ` set (filter P xs) - {f (xs ! k)}"
proof -
  have x: "xs = take k xs @ xs ! k # drop (Suc k) xs" using k(1) by (rule id_take_nth_drop)
  have y: "xs[k := t] = take k xs @ t # drop (Suc k) xs" using k(1) by (rule upd_conv_take_nth_drop)
  have fx: "filter P xs = filter P (take k xs) @ xs ! k # filter P (drop (Suc k) xs)"
    by (subst x) (simp add: k(2))
  have fy: "filter P (xs[k := t]) = filter P (take k xs) @ filter P (drop (Suc k) xs)"
    by (subst y) (simp add: k(3))
  show "distinct (map f (filter P (xs[k := t])))" using d unfolding fx fy by auto
  have "f (xs ! k) \<notin> f ` set (filter P (take k xs))" "f (xs ! k) \<notin> f ` set (filter P (drop (Suc k) xs))"
    using d unfolding fx by auto
  then show "f ` set (filter P (xs[k := t])) = f ` set (filter P xs) - {f (xs ! k)}"
    unfolding fx fy by (simp only: set_append list.set image_Un image_insert) blast
qed

lemma in_update_iff: "distinct (map fst al) \<Longrightarrow> p \<in> set (AList.update k v al) \<longleftrightarrow> p = (k, v) \<or> p \<in> set al \<and> fst p \<noteq> k"
proof (induction al)
  case (Cons q al)
  then have "fst q \<notin> fst ` set al" by simp
  then have "p \<in> set al \<Longrightarrow> fst p \<noteq> fst q" by (metis image_eqI)
  then show ?case using Cons by (cases q) auto
qed simp

text \<open>The root map and the scans while \<open>ConfigureRoots\<close> runs over the schedules.\<close>

definition configured :: "(config_id \<times> root_state) list \<Rightarrow> scan_record list \<Rightarrow> bool" where
  "configured byID scans \<longleftrightarrow>
     distinct (map fst byID) \<and> (\<forall>(i, r)\<in>set byID. rt_id r = i \<and> root_grounded scans r)
   \<and> distinct (map sc_root_id (live_scans scans)) \<and> sc_root_id ` set scans \<subseteq> fst ` set byID
   \<and> (\<forall>s\<in>set (live_scans scans). \<forall>(i, r)\<in>set byID. i = sc_root_id s \<longrightarrow> rt_revision r = sc_config_revision s)"

text \<open>Putting a root into the map, with the scans as they are or with its active scan replaced.\<close>

lemma configured_put:
  assumes c: "configured byID scans" and ext: "extends scans scans'" and id: "rt_id r = i" and g: "root_grounded scans' r"
    and dl: "distinct (map sc_root_id (live_scans scans'))"
    and known: "sc_root_id ` set scans' \<subseteq> insert i (fst ` set byID)"
    and own: "\<And>s. s \<in> set (live_scans scans') \<Longrightarrow> sc_root_id s = i \<Longrightarrow> sc_config_revision s = rt_revision r"
    and rest: "\<And>s. s \<in> set (live_scans scans') \<Longrightarrow> sc_root_id s \<noteq> i \<Longrightarrow> s \<in> set (live_scans scans)"
  shows "configured (AList.update i r byID) scans'"
proof -
  have d: "distinct (map fst byID)" using c by (simp add: configured_def)
  have c1: "rt_id q = j \<and> root_grounded scans q" if "(j, q) \<in> set byID" for j q
    using c that by (auto simp: configured_def)
  have c2: "rt_revision q = sc_config_revision s" if "(sc_root_id s, q) \<in> set byID" "s \<in> set (live_scans scans)" for s q
    using c that by (auto simp: configured_def)
  note upd = in_update_iff[OF d]
  have "fst ` set (AList.update i r byID) = insert i (fst ` set byID)"
    by (simp add: dom_update)
  moreover have "\<forall>(j, q)\<in>set (AList.update i r byID). rt_id q = j \<and> root_grounded scans' q"
  proof (clarify, unfold upd)
    fix j q assume "(j, q) = (i, r) \<or> (j, q) \<in> set byID \<and> fst (j, q) \<noteq> i"
    then show "rt_id q = j \<and> root_grounded scans' q"
      using c1 id g grounded_extends[OF _ ext] by auto
  qed
  moreover have "\<forall>s\<in>set (live_scans scans'). \<forall>(j, q)\<in>set (AList.update i r byID).
      j = sc_root_id s \<longrightarrow> rt_revision q = sc_config_revision s"
  proof (clarify, unfold upd)
    fix s q assume s: "s \<in> set (live_scans scans')"
      and "(sc_root_id s, q) = (i, r) \<or> (sc_root_id s, q) \<in> set byID \<and> fst (sc_root_id s, q) \<noteq> i"
    then consider "sc_root_id s = i" "q = r" | "(sc_root_id s, q) \<in> set byID" "sc_root_id s \<noteq> i" by auto
    then show "rt_revision q = sc_config_revision s"
    proof cases
      case 1 then show ?thesis using own[OF s] by simp
    next
      case 2 then show ?thesis using c2 rest[OF s] by simp
    qed
  qed
  ultimately show ?thesis
    using dl known distinct_update[OF d] by (simp add: configured_def)
qed

lemma live_same_root:
  assumes "distinct (map sc_root_id (live_scans scans))" "s \<in> set (live_scans scans)" "t \<in> set (live_scans scans)"
    "sc_root_id s = sc_root_id t"
  shows "s = t"
  using assms by (metis distinct_map inj_onD)

lemma no_active_live: "activeScanIndex scans i = None \<Longrightarrow> s \<in> set (live_scans scans) \<Longrightarrow> sc_root_id s \<noteq> i"
  by (auto simp: activeScanIndex_def index_simps live_scans_def)

lemma active_live: "activeScanIndex scans i = Some k \<Longrightarrow> scans ! k \<in> set (live_scans scans) \<and> sc_root_id (scans ! k) = i"
  using activeScanIndex_Some[of scans i k] by (simp add: live_scans_def)

text \<open>A root whose revision changed: its evidence goes, its active scan is closed and replaced.\<close>

lemma configure_revision_configured:
  assumes c: "configured byID scans" and i: "rt_id r0 = rs_id sch" "rt_revision r0 = rs_revision sch" "rs_id sch \<in> fst ` set byID"
    and e: "configure_revision rand m now sch r0 (scans, draws, stale) = (r, scans', draws', stale')"
  shows "rt_id r = rs_id sch \<and> rt_revision r = rs_revision sch \<and> extends scans scans' \<and> root_grounded scans' r
    \<and> distinct (map sc_root_id (live_scans scans')) \<and> sc_root_id ` set scans' \<subseteq> insert (rs_id sch) (fst ` set byID)
    \<and> (\<forall>s\<in>set (live_scans scans'). if sc_root_id s = rs_id sch then sc_config_revision s = rs_revision sch
         else s \<in> set (live_scans scans))"
proof -
  have dl: "distinct (map sc_root_id (live_scans scans))" and kn: "sc_root_id ` set scans \<subseteq> fst ` set byID"
    using c by (auto simp: configured_def)
  let ?r0 = "invalidateRootEvidence r0"
  show ?thesis
  proof (cases "activeScanIndex scans (rs_id sch)")
    case None
    have "r = ?r0" "scans' = scans" using e None by (auto simp: configure_revision_def Let_def)
    then show ?thesis using dl kn i no_active_live[OF None] by (auto simp: frame_simps)
  next
    case (Some k)
    note a = activeScanIndex_Some[OF Some]
    show ?thesis
    proof (cases "sc_config_revision (scans ! k) = rs_revision sch")
      case True
      have "r = ?r0" "scans' = scans" using e Some True by (auto simp: configure_revision_def Let_def)
      moreover have "s = scans ! k" if "s \<in> set (live_scans scans)" "sc_root_id s = rs_id sch" for s
        using live_same_root[OF dl that(1)] active_live[OF Some] that(2) by simp
      ultimately show ?thesis using dl kn i True by (auto simp: frame_simps)
    next
      case False
      let ?f = "finalizeStale now m (scans ! k)"
      obtain fresh d2 where fr: "newScanRecord rand draws sch TriggerScheduled now = (fresh, d2)" by fastforce
      note ff = newScanRecord_frames[OF fr]
      let ?u = "clearFollowUp (updateRootAfterTerminal ?f ?r0)"
      have eq: "scans' = scans[k := ?f] @ [fresh]"
        "r = ?u\<lparr>rt_active_scan_id := sc_id fresh,
               rt_next_scheduled_at := (if rs_enabled sch then Some (now + rs_interval sch) else None)\<rparr>"
        using e Some False fr by (auto simp: configure_revision_def Let_def)
      have ext: "extends scans scans'" unfolding eq(1)
        by (intro extends_append extends_update keeps_finalize a)
      have old: "sc_config_revision ?f \<noteq> rt_revision r0" using False i by (simp add: frame_simps)
      have g: "root_grounded scans' r" unfolding eq(2) using grounded_after_stale[OF old] by simp
      note drop = live_update_drop[OF dl[unfolded live_scans_def] a(1,3), of ?f]
      have nt: "sc_terminal ?f" by (simp add: frame_simps)
      have ls: "live_scans scans' = filter (\<lambda>s. \<not> sc_terminal s) (scans[k := ?f]) @ [fresh]"
        unfolding eq(1) live_scans_def using ff(3) by simp
      have no: "sc_root_id s \<noteq> rs_id sch \<and> s \<in> set (live_scans scans)"
        if s: "s \<in> set (filter (\<lambda>s. \<not> sc_terminal s) (scans[k := ?f]))" for s
      proof -
        have "sc_root_id s \<in> sc_root_id ` set (filter (\<lambda>s. \<not> sc_terminal s) (scans[k := ?f]))" using s by blast
        then have "sc_root_id s \<noteq> rs_id sch" using drop(2) nt a(2) by auto
        moreover have "s \<in> set (live_scans scans)"
          using s nt set_list_update_sub[of s scans k ?f] by (auto simp: live_scans_def)
        ultimately show ?thesis by simp
      qed
      have dl': "distinct (map sc_root_id (live_scans scans'))"
        unfolding ls using drop(1) nt no ff(1) by (simp del: set_filter) (metis imageE)
      have kn': "sc_root_id ` set scans' \<subseteq> insert (rs_id sch) (fst ` set byID)"
        using kn ff(1) a(1,2) unfolding eq(1) by (auto simp: frame_simps dest!: set_list_update_sub)
      show ?thesis
        using ext g dl' kn' i no ff eq(2) unfolding ls by (auto simp: frame_simps)
    qed
  qed
qed

lemma configure_schedule_configured:
  assumes c: "configured byID scans"
    and e: "configure_schedule rand m now sch (byID, scans, draws, stale) = (byID', scans', draws', stale')"
  shows "configured byID' scans'"
proof (cases "map_of byID (rs_id sch)")
  case None
  then have nk: "rs_id sch \<notin> fst ` set byID" by (simp add: map_of_eq_None_iff)
  let ?n = "new_root_state sch"
  obtain r where r: "r = ?n \<or> r = ?n\<lparr>rt_next_scheduled_at := Some now\<rparr>"
    and eq: "byID' = AList.update (rs_id sch) r byID" "scans' = scans"
    using e None by (cases "rs_enabled sch") (auto simp: configure_schedule_def Let_def)
  have g: "root_grounded scans r" "rt_id r = rs_id sch"
    using r by (auto simp: root_grounded_def evidence_for_def new_root_state_def)
  have kn: "sc_root_id ` set scans \<subseteq> fst ` set byID" and dl: "distinct (map sc_root_id (live_scans scans))"
    using c by (auto simp: configured_def)
  have no: "sc_root_id s \<noteq> rs_id sch" if "s \<in> set (live_scans scans)" for s
  proof -
    have "sc_root_id s \<in> fst ` set byID" using that kn by (auto simp: live_scans_def)
    then show ?thesis using nk by metis
  qed
  show ?thesis
    unfolding eq using g kn dl no by (intro configured_put[OF c]) auto
next
  case (Some r0)
  then have mem: "(rs_id sch, r0) \<in> set byID" by (rule map_of_SomeD)
  have r0: "rt_id r0 = rs_id sch" "root_grounded scans r0" using c mem by (auto simp: configured_def)
  let ?r1 = "r0\<lparr>rt_schedule := sch, rt_retired := False, rt_retired_at := None\<rparr>"
  obtain r2 sc d2 st2 where mid: "(if rt_revision r0 \<noteq> rs_revision sch
      then configure_revision rand m now sch ?r1 (scans, draws, stale) else (?r1, scans, draws, stale)) = (r2, sc, d2, st2)"
    by (metis prod_cases4)
  obtain r3 where r3: "r3 = r2 \<or> (\<exists>n. r3 = r2\<lparr>rt_next_scheduled_at := n\<rparr>)"
    and eq: "byID' = AList.update (rs_id sch) r3 byID" "scans' = sc"
    using e Some mid by (auto simp: configure_schedule_def Let_def split: if_splits)
  have kn: "rs_id sch \<in> fst ` set byID" using mem by force
  have "rt_id r2 = rs_id sch \<and> rt_revision r2 = rs_revision sch \<and> extends scans sc \<and> root_grounded sc r2
    \<and> distinct (map sc_root_id (live_scans sc)) \<and> sc_root_id ` set sc \<subseteq> insert (rs_id sch) (fst ` set byID)
    \<and> (\<forall>s\<in>set (live_scans sc). if sc_root_id s = rs_id sch then sc_config_revision s = rs_revision sch
         else s \<in> set (live_scans scans))"
  proof (cases "rt_revision r0 = rs_revision sch")
    case False
    then show ?thesis using mid configure_revision_configured[OF c _ _ kn, of ?r1] by simp
  next
    case True
    have "root_grounded scans ?r1" using r0(2) by (rule grounded_cong) (simp_all add: r0(1) True)
    moreover have "sc_config_revision s = rs_revision sch" if "s \<in> set (live_scans scans)" "sc_root_id s = rs_id sch" for s
      using c mem that True by (force simp: configured_def)
    ultimately show ?thesis using True mid c kn by (auto simp: configured_def)
  qed
  then show ?thesis
    unfolding eq using r3 by (intro configured_put[OF c, of sc r3]) (auto split: if_splits)
qed

lemma roots_by_id_same: "distinct (map rt_id roots) \<Longrightarrow> roots_by_id roots = map (\<lambda>r. (rt_id r, r)) roots"
proof -
  have "fold (\<lambda>r m. AList.update (rt_id r) r m) rs (map (\<lambda>r. (rt_id r, r)) acc) = map (\<lambda>r. (rt_id r, r)) (acc @ rs)"
    if "distinct (map rt_id (acc @ rs))" for rs acc
    using that
  proof (induction rs arbitrary: acc)
    case (Cons r rs)
    then have "AList.update (rt_id r) r (map (\<lambda>r. (rt_id r, r)) acc) = map (\<lambda>r. (rt_id r, r)) (acc @ [r])"
      by (subst update_new) (auto simp: image_iff)
    then show ?case using Cons.IH[of "acc @ [r]"] Cons.prems by simp
  qed simp
  from this[of "[]" roots] show "distinct (map rt_id roots) \<Longrightarrow> ?thesis" by (simp add: roots_by_id_def)
qed

lemma valid_configured:
  assumes "valid_snapshot mi snap" "healthy (sn_roots snap) (sn_scans snap)"
  shows "configured (roots_by_id (sn_roots snap)) (sn_scans snap)"
proof -
  have d: "distinct (map rt_id (sn_roots snap))" using assms(1) by (simp add: valid_snapshot_def)
  have "rt_revision r = sc_config_revision s" if "s \<in> set (live_scans (sn_scans snap))" "r \<in> set (sn_roots snap)"
      "rt_id r = sc_root_id s" for s r
    using assms(2) that by (auto simp: healthy_def list_all_iff current_for_def live_scans_def)
  then show ?thesis
    using assms by (simp add: configured_def roots_by_id_same[OF d] valid_snapshot_def healthy_def comp_def image_image
        list_all_iff)
qed

lemma configured_healthy:
  assumes c: "configured byID scans" and roots: "set roots = (\<lambda>(_, r). retire_root now ids r) ` set byID"
  shows "healthy roots scans"
proof -
  have fr: "rt_id (retire_root now ids r) = rt_id r" "rt_revision (retire_root now ids r) = rt_revision r" for r
    by (simp_all add: retire_root_def)
  have "root_grounded scans (retire_root now ids r)" if "root_grounded scans r" for r
    using that by (rule grounded_cong) (simp_all add: fr retire_root_def)
  then have "list_all (root_grounded scans) roots"
    using c roots by (auto simp: configured_def list_all_iff)
  moreover have "list_all (current_for roots) scans"
    unfolding list_all_iff current_for_def
  proof
    fix s assume s: "s \<in> set scans"
    have "rt_revision r = sc_config_revision s" if live: "\<not> sc_terminal s" and r: "r \<in> set roots" "rt_id r = sc_root_id s" for r
    proof -
      obtain i q where q: "(i, q) \<in> set byID" "r = retire_root now ids q" using r(1) roots by auto
      then have "i = sc_root_id s" using c r(2) fr(1) by (auto simp: configured_def)
      moreover have "s \<in> set (live_scans scans)" using s live by (simp add: live_scans_def)
      ultimately show ?thesis using c q fr(2) by (auto simp: configured_def)
    qed
    then show "sc_terminal s \<or> (\<forall>r\<in>set roots. rt_id r = sc_root_id s \<longrightarrow> rt_revision r = sc_config_revision s)" by blast
  qed
  ultimately show ?thesis by (simp add: healthy_def)
qed

lemma configure_change_healthy:
  assumes v: "valid_snapshot mi snap" and h: "healthy (sn_roots snap) (sn_scans snap)"
    and c: "configure_change rand m now schedules draws snap = (dr, Inr (snap', x))"
  shows "healthy (sn_roots snap') (sn_scans snap')"
proof -
  have step: "configured (fst (fold (configure_schedule rand m now) schs st)) (fst (snd (fold (configure_schedule rand m now) schs st)))"
    if "configured (fst st) (fst (snd st))" for schs and st :: configure_state
    using that
  proof (induction schs arbitrary: st)
    case (Cons s schs)
    have "configured (fst (configure_schedule rand m now s st)) (fst (snd (configure_schedule rand m now s st)))"
    proof -
      obtain byID scans d sl byID' scans' d' sl' where "st = (byID, scans, d, sl)"
        "configure_schedule rand m now s (byID, scans, d, sl) = (byID', scans', d', sl')" by (metis prod_cases4)
      then show ?thesis using Cons.prems configure_schedule_configured[of byID scans] by simp
    qed
    then show ?case using Cons.IH by simp
  qed simp
  obtain byID scans d st where f: "fold (configure_schedule rand m now) schedules
      (roots_by_id (sn_roots snap), sn_scans snap, draws, []) = (byID, scans, d, st)" by (metis prod_cases4)
  have "configured byID scans" using step[of "(roots_by_id (sn_roots snap), sn_scans snap, draws, [])" schedules]
      valid_configured[OF v h] f by simp
  moreover have "sn_scans snap' = scans"
    "set (sn_roots snap') = (\<lambda>(_, r). retire_root now (map rs_id schedules) r) ` set byID"
    using c f by (auto simp: configure_change_def Let_def)
  ultimately show ?thesis using configured_healthy[of byID scans "sn_roots snap'"] by simp
qed

section \<open>Every step keeps them\<close>

definition state_healthy :: "'st sched \<Rightarrow> bool" where
  "state_healthy sd \<longleftrightarrow> healthy (sn_roots (sd_state sd)) (sn_scans (sd_state sd))"

definition grounded_snapshot :: "snapshot \<Rightarrow> bool" where
  "grounded_snapshot s \<longleftrightarrow> list_all (root_grounded (sn_scans s)) (sn_roots s)"

text \<open>Until the scheduler has loaded its store, the store itself must be grounded.\<close>

definition trusted :: "'st env \<Rightarrow> 'st sched \<Rightarrow> bool" where
  "trusted env sd \<longleftrightarrow> durable env sd \<and> state_healthy sd
     \<and> (\<forall>s. so_load (ev_store env) None (sd_store sd) = Inr s \<longrightarrow> grounded_snapshot s)"

lemma trusted_frame:
  "trusted env sd \<Longrightarrow> sd_state sd' = sd_state sd \<Longrightarrow> sd_store sd' = sd_store sd \<Longrightarrow> sd_started sd' = sd_started sd
    \<Longrightarrow> trusted env sd'"
  by (simp add: trusted_def durable_def valid_state_def stored_def state_healthy_def)

lemma healthy_grounded: "healthy (sn_roots s) (sn_scans s) \<Longrightarrow> grounded_snapshot s"
  by (simp add: healthy_def grounded_snapshot_def)

lemma valid_state_roots: "valid_state sd \<Longrightarrow> distinct (map rt_id (sn_roots (sd_state sd)))"
  by (simp add: valid_state_def valid_snapshot_def)

context state_store
begin

lemma commit_trusted:
  assumes "ev_store env = ops" "commitState env ctx allow change sd = (sd', r)" "trusted env sd"
    "\<And>d changed x. change (sd_draws sd) (sd_state sd) = (d, Inr (changed, x)) \<Longrightarrow>
       healthy (sn_roots changed) (sn_scans changed)"
  shows "trusted env sd'"
proof -
  have d: "durable env sd'" using commit_durable[OF assms(1,2)] assms(3) by (simp add: trusted_def)
  from assms(2) show ?thesis
  proof (cases rule: commitState_cases)
    case kept
    then show ?thesis using assms(3) d by (auto simp: trusted_def state_healthy_def)
  next
    case (refused snap e)
    then show ?thesis using assms(1,3) d load_refused by (auto simp: trusted_def state_healthy_def)
  next
    case (committed x dr changed)
    then have h: "state_healthy sd'" using assms(4) by (simp add: state_healthy_def)
    moreover have "so_load ops None (sd_store sd') = Inr (sd_state sd')" using committed(8) assms(1) load_saved by auto
    ultimately show ?thesis using d assms(1) healthy_grounded by (auto simp: trusted_def state_healthy_def)
  qed
qed

lemma startOne_trusted:
  assumes "ev_store env = ops" "startOne env sd = (sd', again)" "trusted env sd"
  shows "trusted env sd'"
proof -
  have d: "durable env sd'" using startOne_durable[OF assms(1,2)] assms(3) by (simp add: trusted_def)
  have h: "state_healthy sd'"
    using startOne_healthy[OF _ _ assms(2)] assms(3) valid_state_roots by (auto simp: trusted_def state_healthy_def durable_def)
  show ?thesis
  proof (cases "sd_started sd")
    case True
    have "sd_started sd' = sd_started sd" by (rule startOne_started[OF assms(2)])
    then show ?thesis using d h healthy_grounded assms(1) True
      by (auto simp: trusted_def durable_def stored_def state_healthy_def)
  next
    case False
    then have "sd' = sd" using assms(2) by (simp add: startOne_def)
    then show ?thesis using assms(3) by simp
  qed
qed

lemma Start_trusted:
  assumes "ev_store env = ops" "Start env ctx sd = (sd', r)" "trusted env sd"
  shows "trusted env sd'"
proof -
  have d: "durable env sd'" using Start_durable[OF assms(1,2)] assms(3) by (simp add: trusted_def)
  from assms(2) show ?thesis
  proof (cases rule: Start_cases)
    case kept
    have "so_load ops None (sd_store sd') = so_load ops None (sd_store sd)"
      using kept(3) assms(1) load_refused by auto
    then show ?thesis using kept assms(1,3) d by (simp add: trusted_def state_healthy_def)
  next
    case (started loaded recovered changed dr now)
    have "list_all (root_grounded (sn_scans loaded)) (sn_roots loaded)"
      using assms(1,3) started(9) by (auto simp: trusted_def grounded_snapshot_def)
    then have "healthy (sn_roots recovered) (sn_scans recovered)"
      using recoverSnapshot_settled(3)[OF started(10,11)] by simp
    then have h: "state_healthy sd'" using started(12) by (simp add: state_healthy_def)
    then show ?thesis
      using d healthy_grounded started(6) by (auto simp: trusted_def durable_def stored_def state_healthy_def)
  qed
qed

lemma step_trusted:
  assumes e: "ev_store env = ops" and t: "trusted env (mc_sched m)" and s: "sched_step env m m'"
  shows "trusted env (mc_sched m')"
proof -
  have v: "valid_snapshot 0 (sd_state (mc_sched m))" and h: "healthy (sn_roots (sd_state (mc_sched m))) (sn_scans (sd_state (mc_sched m)))"
    and d: "distinct (map rt_id (sn_roots (sd_state (mc_sched m))))"
    using t valid_state_roots by (auto simp: trusted_def durable_def valid_state_def state_healthy_def)
  from s show ?thesis
  proof cases
    case (step_start ctx sd' r)
    then show ?thesis using Start_trusted[OF e] t by simp
  next
    case (step_claim sd' again)
    then show ?thesis using startOne_trusted[OF e] t by simp
  next
    case (step_configure schedules now ctx sd' r)
    have "trusted env sd'"
      by (rule commit_trusted[OF e step_configure(3)[unfolded configure_commit_def] t]) (rule configure_change_healthy[OF v h])
    then show ?thesis using step_configure(1) by simp
  next
    case (step_trigger now ctx root sd' r')
    have "trusted env sd'"
      by (rule commit_trusted[OF e step_trigger(2)[unfolded trigger_commit_def] t]) (rule trigger_change_healthy[OF h d])
    then show ?thesis using step_trigger(1) by simp
  next
    case (step_cancel now ctx i sd' r')
    have "trusted env sd'"
      by (rule commit_trusted[OF e step_cancel(2)[unfolded cancel_commit_def] t]) (rule cancel_change_healthy[OF h d])
    then show ?thesis using step_cancel(1) by simp
  next
    case (step_tick now ctx sd' r)
    have "trusted env sd'"
      by (rule commit_trusted[OF e step_tick(2)[unfolded tick_commit_def] t]) (rule tick_change_healthy[OF h d])
    then show ?thesis using step_tick(1) by simp
  next
    case (step_progress i now ctx p sd' r)
    have "trusted env sd'"
      by (rule commit_trusted[OF e step_progress(3)[unfolded progress_commit_def] t]) (rule progress_change_healthy[OF h])
    then show ?thesis using step_progress(1) by simp
  next
    case (step_finish xs i ys now outcome runErr ctx sd' b)
    have "trusted env sd'"
      by (rule commit_trusted[OF e step_finish(3)[unfolded finish_commit_def] t]) (rule finish_change_healthy[OF h d])
    then show ?thesis using step_finish(1) by simp
  qed (use trusted_frame[OF t] in \<open>auto simp: Stop_request_def Stop_done_def drop_run_def cancel_runs_def\<close>)
qed

lemma steps_trusted:
  assumes "ev_store env = ops" "sched_steps env m m'" "trusted env (mc_sched m)"
  shows "trusted env (mc_sched m')"
  using steps_keep[where P = "\<lambda>m. trusted env (mc_sched m)", OF assms(2,3)] step_trusted[OF assms(1)] by blast

lemma steps_books:
  assumes e: "ev_store env = ops" and s: "sched_steps env m m'" and "durable env (mc_sched m)" "books env m"
  shows "durable env (mc_sched m') \<and> books env m'"
proof (rule steps_keep[where P = "\<lambda>m. durable env (mc_sched m) \<and> books env m", OF s])
  show "durable env (mc_sched m) \<and> books env m" using assms by simp
  show "durable env (mc_sched y) \<and> books env y"
    if "durable env (mc_sched x) \<and> books env x" "sched_step env x y" for x y
  proof -
    have "valid_state (mc_sched x)" using that(1) by (simp add: durable_def)
    then show ?thesis using that step_durable[OF e, of x y] step_books[of env x y] by simp
  qed
qed

end

end
