(* ===== verification/Scan_Stuck.thy ===== *)
theory Scan_Stuck
  imports Scan_Health
begin

text \<open>
  What becomes of a running scan whose goroutine is gone (\<^verbatim>\<open>internal/scanning/scanning.go\<close>).
  \<open>finish\<close> removes the run from the running map whether or not its commit succeeded, so a commit that
  fails leaves a scan that is running for the journal and for nobody else. The lemmas follow such
  a scan through every step: only a new configuration revision ever closes it.
\<close>

section \<open>A running scan under a change\<close>

definition closed_as_stale :: "scan_record \<Rightarrow> bool" where
  "closed_as_stale s \<longleftrightarrow> sc_state s = StateCancelled \<and> sc_error_code s = ''stale_config_revision''"

definition runs_or_stale :: "nat \<Rightarrow> scan_record list \<Rightarrow> bool" where
  "runs_or_stale k scans \<longleftrightarrow> k < length scans \<and> (sc_state (scans ! k) = StateRunning \<or> closed_as_stale (scans ! k))"

lemma closed_terminal: "closed_as_stale s \<Longrightarrow> sc_terminal s"
  by (simp add: closed_as_stale_def)

lemma finalizeStale_closed: "closed_as_stale (finalizeStale now m s)"
  by (simp add: closed_as_stale_def finalizeStale_def downgrade_complete_def)

named_theorems stuck_intros

lemma runs_append [stuck_intros]: "runs_or_stale k xs \<Longrightarrow> runs_or_stale k (xs @ ys)"
  by (auto simp: runs_or_stale_def nth_append)

lemma runs_update [stuck_intros]:
  "runs_or_stale k xs \<Longrightarrow> (j = k \<Longrightarrow> sc_state y = StateRunning \<or> closed_as_stale y) \<Longrightarrow> runs_or_stale k (xs[j := y])"
  by (cases "j = k") (auto simp: runs_or_stale_def)

lemma runs_other [stuck_intros]:
  "runs_or_stale k xs \<Longrightarrow> \<not> sc_terminal (xs ! j) \<Longrightarrow> sc_state (xs ! j) \<noteq> StateRunning \<Longrightarrow> runs_or_stale k (xs[j := y])"
  using closed_terminal by (cases "j = k") (auto simp: runs_or_stale_def)

lemma runs_stale [stuck_intros]: "runs_or_stale k xs \<Longrightarrow> runs_or_stale k (xs[j := finalizeStale now m s])"
  using finalizeStale_closed by (intro runs_update) auto

lemma runs_enqueue:
  "enqueueCurrentRevision rand draws ys root now = (scans', root', draws') \<Longrightarrow> runs_or_stale k ys \<Longrightarrow> runs_or_stale k scans'"
  by (auto simp: enqueueCurrentRevision_def Let_def intro: stuck_intros split: if_splits prod.splits)

lemma trigger_change_runs:
  assumes "trigger_change rand now root draws snap = (d, Inr (snap', r))" "runs_or_stale k (sn_scans snap)"
  shows "runs_or_stale k (sn_scans snap')"
proof (cases "activeScanIndex (sn_scans snap) root")
  case None
  then show ?thesis using assms
    by (auto simp: trigger_change_def Let_def intro: stuck_intros split: option.splits if_splits prod.splits)
next
  case (Some j)
  then show ?thesis
    using assms activeScanIndex_Some[OF Some] runs_other[OF assms(2), of j]
    by (auto simp: trigger_change_def Let_def split: option.splits if_splits)
qed

lemma cancel_change_runs:
  assumes "cancel_change m now i draws snap = (d, Inr (snap', r))" "runs_or_stale k (sn_scans snap)"
  shows "runs_or_stale k (sn_scans snap')"
proof -
  obtain j where j: "scanIndex (sn_scans snap) i = Some j"
    using assms(1) by (auto simp: cancel_change_def split: option.splits)
  let ?s = "sn_scans snap ! j"
  show ?thesis
  proof (cases "sc_state ?s = StateRunning")
    case True
    then show ?thesis
      using assms j by (auto simp: cancel_change_def Let_def intro!: runs_update split: if_splits)
  next
    case False
    then show ?thesis
      using assms j by (auto simp: cancel_change_def Let_def intro!: runs_other split: if_splits)
  qed
qed

lemma tick_root_runs:
  assumes "runs_or_stale k (sn_scans (fst st))"
  shows "runs_or_stale k (sn_scans (fst (tick_root rand m now ri st)))"
proof -
  obtain snap draws stale where st: "st = (snap, draws, stale)" by (cases st)
  have r: "runs_or_stale k (sn_scans snap)" using assms st by simp
  show ?thesis
  proof (cases "activeScanIndex (sn_scans snap) (rt_id (sn_roots snap ! ri))")
    case None
    then show ?thesis using r by (auto simp: st tick_root_def Let_def intro: stuck_intros split: prod.splits)
  next
    case (Some j)
    let ?x = "sn_scans snap"
    have "runs_or_stale k (?x[j := (?x ! j)\<lparr>sc_state := StateQueued, sc_next_attempt_at := None, sc_updated_at := now\<rparr>])"
      if "sc_state (?x ! j) = StateWaiting"
      using runs_other[OF r] that by simp
    then show ?thesis
      using Some r runs_enqueue[OF _ runs_stale[OF r]]
      by (auto simp: st tick_root_def Let_def split: prod.splits)
  qed
qed

lemma tick_change_runs:
  assumes "tick_change rand m now draws snap = (d, Inr (snap', r))" "runs_or_stale k (sn_scans snap)"
  shows "runs_or_stale k (sn_scans snap')"
proof -
  have "runs_or_stale k (sn_scans (fst (fold (tick_root rand m now) ks st)))" if "runs_or_stale k (sn_scans (fst st))" for ks st
    using that tick_root_runs by (induction ks arbitrary: st) auto
  from this[of "(snap, draws, [])" "[0..<length (sn_roots snap)]"] show ?thesis
    using assms by (auto simp: tick_change_def split: prod.splits)
qed

lemma configure_schedule_runs:
  "runs_or_stale k (fst (snd st)) \<Longrightarrow> runs_or_stale k (fst (snd (configure_schedule rand m now sch st)))"
proof -
  obtain byID scans draws stale where st: "st = (byID, scans, draws, stale)" by (cases st)
  assume "runs_or_stale k (fst (snd st))"
  then have "runs_or_stale k (fst (snd (configure_revision rand m now sch r (scans, draws, stale))))" for r
    by (auto simp: st configure_revision_def Let_def intro: stuck_intros split: option.splits prod.splits)
  moreover assume "runs_or_stale k (fst (snd st))"
  ultimately show ?thesis
    by (auto simp: st configure_schedule_def Let_def split: option.splits prod.splits if_splits) (metis fst_conv snd_conv)+
qed

lemma configure_change_runs:
  assumes "configure_change rand m now schedules draws snap = (d, Inr (snap', r))" "runs_or_stale k (sn_scans snap)"
  shows "runs_or_stale k (sn_scans snap')"
proof -
  have "runs_or_stale k (fst (snd (fold (configure_schedule rand m now) schs st)))" if "runs_or_stale k (fst (snd st))" for schs st
    using that configure_schedule_runs by (induction schs arbitrary: st) auto
  from this[of "(roots_by_id (sn_roots snap), sn_scans snap, draws, [])" schedules] show ?thesis
    using assms by (auto simp: configure_change_def Let_def split: prod.splits)
qed

text \<open>A report of another scan.\<close>

lemma progress_change_runs:
  assumes "progress_change opts now i p draws snap = (d, Inr (snap', r))" "runs_or_stale k (sn_scans snap)"
  shows "runs_or_stale k (sn_scans snap')"
  using assms
  by (auto simp: progress_change_def Let_def intro!: runs_update split: option.splits if_splits sum.splits)

lemma finish_change_runs:
  assumes "finish_change rand opts now i outcome runErr ctxErr draws snap = (d, Inr (snap', r))"
    "runs_or_stale k (sn_scans snap)" "sc_id (sn_scans snap ! k) \<noteq> i"
  shows "runs_or_stale k (sn_scans snap')"
proof -
  obtain j where j: "scanIndex (sn_scans snap) i = Some j"
    using assms(1) by (auto simp: finish_change_def split: option.splits)
  then have jk: "j \<noteq> k" using scanIndex_Some assms(3) by auto
  have upd: "runs_or_stale k ((sn_scans snap)[j := y])" for y using runs_update[OF assms(2)] jk by blast
  have "runs_or_stale k scans'" if "conclude_root rand draws now s ((sn_scans snap)[j := y]) root = (scans', root', d', w)"
    for s y root scans' root' d' w
    using that upd by (auto simp: conclude_root_def Let_def intro: stuck_intros split: if_splits prod.splits)
  then show ?thesis
    using assms(1) j runs_enqueue[OF _ upd]
    by (fastforce simp: finish_change_def Let_def split: if_splits option.splits sum.splits prod.splits)
qed

lemma startOne_runs:
  assumes "startOne env sd = (sd', again)" "runs_or_stale k (sn_scans (sd_state sd))"
  shows "runs_or_stale k (sn_scans (sd_state sd'))"
  using assms(1)
proof (cases rule: startOne_cases)
  case (cancelled j now roots')
  note sel = selectQueuedScan_Some[OF cancelled(1)]
  show ?thesis using publish_one_state[OF cancelled(3)] assms(2) runs_other[OF assms(2), of j] sel by auto
next
  case (stale j now ri scan' scans' root2 draws')
  show ?thesis
    using publish_one_state[OF stale(7)] assms(2) runs_enqueue[OF stale(6)] runs_stale[OF assms(2)] stale(5) by auto
next
  case (run j now ri)
  note sel = selectQueuedScan_Some[OF run(5)]
  show ?thesis using start_run_state[OF run(10)] assms(2) runs_other[OF assms(2), of j] sel by auto
qed (use assms in simp)

section \<open>Every step leaves it where it is\<close>

text \<open>The scan at \<open>k\<close> is running or closed as stale, and no goroutine has its id.\<close>

definition wedged :: "nat \<Rightarrow> runtime_id \<Rightarrow> 'st machine \<Rightarrow> bool" where
  "wedged k i m \<longleftrightarrow>
     sd_started (mc_sched m) \<and> i \<notin> fst ` set (mc_execs m) \<and> runs_or_stale k (sn_scans (sd_state (mc_sched m)))
   \<and> sc_id (sn_scans (sd_state (mc_sched m)) ! k) = i"

lemma commit_wedged:
  assumes "wedged k i m" "commitState env ctx allow change (mc_sched m) = (sd', r)"
    "\<And>d changed x. change (sd_draws (mc_sched m)) (sd_state (mc_sched m)) = (d, Inr (changed, x)) \<Longrightarrow>
       extends (sn_scans (sd_state (mc_sched m))) (sn_scans changed) \<and> runs_or_stale k (sn_scans changed)"
    "fst ` set ex' = fst ` set (mc_execs m)"
  shows "wedged k i (m\<lparr>mc_sched := sd', mc_execs := ex'\<rparr>)"
proof -
  have same: "runs_or_stale k (sn_scans (sd_state sd')) \<and> sc_id (sn_scans (sd_state sd') ! k) = i \<and> sd_started sd'"
    using assms(2)
  proof (cases rule: commitState_cases)
    case kept
    then show ?thesis using assms(1) by (simp add: wedged_def same_control_def)
  next
    case (refused snap e)
    then show ?thesis using assms(1) by (simp add: wedged_def same_control_def)
  next
    case (committed x d changed)
    have "k < length (sn_scans (sd_state (mc_sched m)))" using assms(1) by (simp add: wedged_def runs_or_stale_def)
    then show ?thesis
      using assms(1) assms(3)[OF committed(4)] committed(1,5) by (auto simp: wedged_def same_control_def extends_def keeps_def)
  qed
  then show ?thesis using assms(1,4) by (simp add: wedged_def)
qed

lemma wedged_frame:
  "wedged k i m \<Longrightarrow> sd_state sd' = sd_state (mc_sched m) \<Longrightarrow> sd_started sd' = sd_started (mc_sched m)
    \<Longrightarrow> fst ` set ex' \<subseteq> fst ` set (mc_execs m) \<Longrightarrow> wedged k i (m\<lparr>mc_sched := sd', mc_execs := ex', mc_loop := l\<rparr>)"
  by (auto simp: wedged_def)

text \<open>A claim launches only scans that were queued.\<close>

lemma claim_launched:
  assumes "startOne env sd = (sd', again)" "i \<in> fst ` set (launched sd sd')" "i \<notin> fst ` set (sd_running sd)"
  obtains j where "j < length (sn_scans (sd_state sd))" "sc_state (sn_scans (sd_state sd) ! j) = StateQueued"
    "sc_id (sn_scans (sd_state sd) ! j) = i"
  using assms(1)
proof (cases rule: startOne_cases)
  case idle then show ?thesis using assms(2) by (simp add: launched_def)
next
  case (cancelled k now roots')
  then show ?thesis using assms(2) publish_one_control[OF cancelled(3)] by (simp add: launched_def)
next
  case (stale k now ri scan' scans' root2 draws')
  then show ?thesis using assms(2) publish_one_control[OF stale(7)] by (simp add: launched_def)
next
  case (run k now ri)
  note sel = selectQueuedScan_Some[OF run(5)]
  let ?j = "sc_id (sn_scans (sd_state sd) ! k)"
  show ?thesis
  proof (cases "?j \<in> fst ` set (sd_running sd)")
    case False
    from run(10) show ?thesis
    proof (cases rule: start_run_cases)
      case (refused st running)
      then show ?thesis using assms(2) False by (simp add: launched_def update_new delete_new)
    next
      case (saved st snap)
      then have "i = ?j" using assms(2) False by (simp add: launched_def update_new)
      then show ?thesis using that[of k] sel by simp
    qed
  next
    case True
    have len: "length (AList.update ?j False (sd_running sd)) = length (sd_running sd)"
      using True update_keys[of ?j False "sd_running sd"] by (metis image_set length_map)
    from run(10) show ?thesis
    proof (cases rule: start_run_cases)
      case (refused st running)
      have "length running \<le> length (sd_running sd)"
        using refused(3) len length_delete_le[of ?j "AList.update ?j False (sd_running sd)"] by simp
      then show ?thesis using assms(2) refused(1) by (simp add: launched_def)
    next
      case (saved st snap)
      then show ?thesis using assms(2) len by (simp add: launched_def)
    qed
  qed
qed

lemma step_wedged:
  assumes w: "wedged k i m" and b: "books env m" and v: "valid_state (mc_sched m)" and s: "sched_step env m m'"
  shows "wedged k i m'"
proof -
  let ?snap = "sd_state (mc_sched m)"
  have r: "runs_or_stale k (sn_scans ?snap)" and id: "sc_id (sn_scans ?snap ! k) = i"
    and st: "sd_started (mc_sched m)" and no: "i \<notin> fst ` set (mc_execs m)"
    using w by (auto simp: wedged_def)
  note frame = wedged_frame[OF w, of _ "mc_execs m" "mc_loop m"]
  note cm = commit_wedged[OF w, where ex' = "mc_execs m"]
  from s show ?thesis
  proof cases
    case (step_start ctx sd' r)
    have "sd_state sd' = sd_state (mc_sched m) \<and> sd_started sd'"
      using step_start(2) st by (auto simp: Start_def split: option.splits if_splits)
    then show ?thesis using step_start(1) no r id by (simp add: wedged_def)
  next
    case (step_configure schedules now ctx sd' x)
    have "wedged k i (m\<lparr>mc_sched := sd', mc_execs := mc_execs m\<rparr>)"
      by (rule cm[OF step_configure(3)[unfolded configure_commit_def]])
        (use configure_change_extends configure_change_runs[OF _ r] in auto)
    then show ?thesis using step_configure(1) by simp
  next
    case (step_trigger now ctx root sd' x)
    have "wedged k i (m\<lparr>mc_sched := sd', mc_execs := mc_execs m\<rparr>)"
      by (rule cm[OF step_trigger(2)[unfolded trigger_commit_def]])
        (use trigger_change_extends trigger_change_runs[OF _ r] in auto)
    then show ?thesis using step_trigger(1) by simp
  next
    case (step_cancel now ctx j sd' x)
    have "wedged k i (m\<lparr>mc_sched := sd', mc_execs := mc_execs m\<rparr>)"
      by (rule cm[OF step_cancel(2)[unfolded cancel_commit_def]])
        (use cancel_change_extends cancel_change_runs[OF _ r] in auto)
    then show ?thesis using step_cancel(1) by simp
  next
    case (step_tick now ctx sd' x)
    have "wedged k i (m\<lparr>mc_sched := sd', mc_execs := mc_execs m\<rparr>)"
      by (rule cm[OF step_tick(2)[unfolded tick_commit_def]])
        (use tick_change_extends tick_change_runs[OF _ r] in auto)
    then show ?thesis using step_tick(1) by simp
  next
    case (step_progress j now ctx p sd' x)
    have "wedged k i (m\<lparr>mc_sched := sd', mc_execs := mc_execs m\<rparr>)"
      by (rule cm[OF step_progress(3)[unfolded progress_commit_def]])
        (use progress_change_extends progress_change_runs[OF _ r] in auto)
    then show ?thesis using step_progress(1) by simp
  next
    case (step_finish xs j ys now outcome runErr ctx sd' x)
    have ji: "i \<noteq> j" using no step_finish(2) by auto
    have "wedged k i (m\<lparr>mc_sched := sd', mc_execs := xs @ (j, ExecFinishing) # ys\<rparr>)"
      by (rule commit_wedged[OF w step_finish(3)[unfolded finish_commit_def]])
        (use finish_change_extends finish_change_runs[OF _ r] id ji step_finish(2) in auto)
    then show ?thesis using step_finish(1) by simp
  next
    case (step_claim sd' again)
    have ext: "extends (sn_scans ?snap) (sn_scans (sd_state sd'))" by (rule startOne_extends[OF step_claim(2)])
    have kl: "k < length (sn_scans ?snap)" using r by (simp add: runs_or_stale_def)
    have "i \<notin> set (live_execs (mc_execs m))" using no by (auto simp: live_execs_def)
    then have nr: "i \<notin> fst ` set (sd_running (mc_sched m))"
      using b by (metis books_def image_set set_mset_mset)
    have "i \<notin> fst ` set (launched (mc_sched m) sd')"
    proof
      assume "i \<in> fst ` set (launched (mc_sched m) sd')"
      then obtain j where j: "j < length (sn_scans ?snap)" "sc_state (sn_scans ?snap ! j) = StateQueued"
        "sc_id (sn_scans ?snap ! j) = i" using claim_launched[OF step_claim(2) _ nr] by blast
      then have "j = k"
        using distinct_map_nth_eq[OF valid_ids_distinct[OF v[unfolded valid_state_def]]] kl id by simp
      then show False using j(2) r by (auto simp: runs_or_stale_def closed_as_stale_def)
    qed
    moreover have "sd_started sd'" using st startOne_started[OF step_claim(2)] by simp
    ultimately show ?thesis
      using step_claim(1) startOne_runs[OF step_claim(2) r] ext kl id no by (auto simp: wedged_def extends_def keeps_def)
  next
    case (step_drop xs j ys)
    then show ?thesis using w by (auto simp: wedged_def drop_run_def)
  next
    case (step_exit xs j ys)
    then show ?thesis using w by (auto simp: wedged_def)
  qed (use w frame in \<open>auto simp: wedged_def Stop_request_def Stop_done_def cancel_runs_def tick_clock_def\<close>)
qed

context state_store
begin

lemma steps_wedged:
  assumes e: "ev_store env = ops" and s: "sched_steps env m m'" and d: "durable env (mc_sched m)" and b: "books env m"
    and w: "wedged k i m"
  shows "wedged k i m'"
proof -
  let ?P = "\<lambda>m. durable env (mc_sched m) \<and> books env m \<and> wedged k i m"
  have "?P y" if "?P x" "sched_step env x y" for x y
  proof -
    have "valid_state (mc_sched x)" using that(1) by (simp add: durable_def)
    then show ?thesis using that step_durable[OF e, of x y] step_books[of env x y] step_wedged[of k i x env y] by simp
  qed
  then have "?P m'" using steps_keep[where P = ?P, OF s] d b w by blast
  then show ?thesis by simp
qed

end

end
