(* ===== verification/Scan_Behaviour.thy ===== *)
theory Scan_Behaviour
  imports Scan_Stuck
begin

text \<open>
  What the single operations of the scan scheduler achieve (\<^verbatim>\<open>internal/scanning/scanning.go\<close>): the
  order in which queued scans are claimed, the outcome of a run, the effect of a tick on every
  root, and the effect of a configuration on the set of roots.
\<close>

section \<open>Choosing a scan\<close>

lemma find_least:
  assumes "find P (sort_key f xs) = Some x" "y \<in> set xs" "P y" shows "f x \<le> f y"
proof -
  let ?l = "sort_key f xs"
  obtain i where i: "i < length ?l" "x = ?l ! i" "\<forall>j<i. \<not> P (?l ! j)"
    using assms(1) by (auto simp: find_Some_iff)
  have "y \<in> set ?l" using assms(2) by simp
  then obtain j where j: "j < length ?l" "y = ?l ! j" by (metis in_set_conv_nth)
  then have "i \<le> j" using i(3) assms(3) by (meson not_less)
  moreover have "sorted (map f ?l)" by simp
  ultimately show ?thesis using i j sorted_nth_mono[of "map f ?l" i j] by simp
qed

section \<open>The outcome of a run\<close>

text \<open>The state a returned run leaves its scan in, by what asked for its end.\<close>

lemma conclude_run_state:
  assumes "conclude_run opts now cursor next runErr ctxErr s = (s', w)"
  shows "sc_state s' =
    (if sc_cancellation_requested_at s \<noteq> None \<or> ctxErr = Some CtxCanceled \<or> (\<exists>e. runErr = Some e \<and> re_canceled e) then StateCancelled
     else if ctxErr = Some CtxDeadlineExceeded \<or> (\<exists>e. runErr = Some e \<and> re_deadline e) then StateDeadlineExceeded
     else if \<exists>e. runErr = Some e \<and> re_retryable e then StateWaiting
     else if runErr \<noteq> None then StateFailed
     else if cursor \<noteq> [] then StateWaiting
     else StateSucceeded)"
  using assms
  by (cases runErr) (auto simp: conclude_run_def Let_def finalizeCancelled_def finalizeDeadline_def downgrade_complete_def
      split: if_splits)

lemma conclude_run_kept:
  assumes "conclude_run opts now cursor next runErr ctxErr s = (s', w)"
  shows "sc_cursor s' = sc_cursor s" "sc_source_coverage s' = sc_source_coverage s"
    "sc_state s' = StateSucceeded \<Longrightarrow> sc_coverage s' = sc_coverage s"
    "sc_terminal s' \<Longrightarrow> sc_completed_at s' = Some now" "\<not> sc_terminal s' \<Longrightarrow> sc_completed_at s' = None"
  using assms
  by (auto simp: conclude_run_def Let_def finalizeCancelled_def finalizeDeadline_def downgrade_complete_def split: if_splits)

lemma conclude_root_at:
  "conclude_root rand draws now s scans root = (scans', root', d, w) \<Longrightarrow> k < length scans \<Longrightarrow> scans' ! k = scans ! k"
  by (auto simp: conclude_root_def Let_def nth_append split: if_splits prod.splits)

text \<open>What a committed outcome made of a scan of the current revision.\<close>

lemma finish_change_current:
  assumes "finish_change rand opts now i outcome runErr ctxErr draws snap = (d, Inr (snap', w))"
    "scanIndex (sn_scans snap) i = Some k" "rootIndex (sn_roots snap) (sc_root_id (sn_scans snap ! k)) = Some ri"
    "sc_config_revision (sn_scans snap ! k) = rt_revision (sn_roots snap ! ri)"
  obtains cov sources s' w' where "sc_state (sn_scans snap ! k) = StateRunning"
    "normalizeEvidence (op_max_cursor_bytes opts) (sc_root_id (sn_scans snap ! k))
       (report_coverage (sn_scans snap ! k) (sp_coverage outcome)) (report_sources (sn_scans snap ! k) (sp_source_coverage outcome))
       (sp_cursor outcome) (max (sp_observed_count outcome) (sc_observed_count (sn_scans snap ! k)))
       (sc_started_at (sn_scans snap ! k)) now = Inr (cov, sources)"
    "conclude_run opts now (sp_cursor outcome) (res_next_attempt_at outcome) runErr ctxErr
       ((sn_scans snap ! k)\<lparr>sc_cursor := sp_cursor outcome,
          sc_observed_count := max (sp_observed_count outcome) (sc_observed_count (sn_scans snap ! k)),
          sc_coverage := cov, sc_source_coverage := sources, sc_error_code := [], sc_error_detail := []\<rparr>) = (s', w')"
    "sn_scans snap' ! k = s'"
proof -
  let ?s = "sn_scans snap ! k"
  let ?oc = "max (sp_observed_count outcome) (sc_observed_count ?s)"
  have k: "k < length (sn_scans snap)" using scanIndex_Some[OF assms(2)] by simp
  have run: "sc_state ?s = StateRunning"
    using assms by (auto simp: finish_change_def Let_def split: if_splits)
  obtain cov sources s' w1 scans' root' d' w' where
    ne: "normalizeEvidence (op_max_cursor_bytes opts) (sc_root_id ?s)
       (report_coverage ?s (sp_coverage outcome)) (report_sources ?s (sp_source_coverage outcome))
       (sp_cursor outcome) ?oc (sc_started_at ?s) now = Inr (cov, sources)"
    and cn: "conclude_run opts now (sp_cursor outcome) (res_next_attempt_at outcome) runErr ctxErr
        (?s\<lparr>sc_cursor := sp_cursor outcome, sc_observed_count := ?oc, sc_coverage := cov,
            sc_source_coverage := sources, sc_error_code := [], sc_error_detail := []\<rparr>) = (s', w1)"
    and cr: "conclude_root rand draws now s' ((sn_scans snap)[k := s']) (sn_roots snap ! ri) = (scans', root', d', w')"
    and snap': "sn_scans snap' = scans'"
    using assms run by (fastforce simp: finish_change_def Let_def split: sum.splits prod.splits)
  have "sn_scans snap' ! k = s'" using conclude_root_at[OF cr, of k] k snap' by simp
  then show ?thesis using that[OF run ne cn] by simp
qed

section \<open>The effect of a tick\<close>

definition has_live :: "scan_record list \<Rightarrow> config_id \<Rightarrow> bool" where
  "has_live scans root \<longleftrightarrow> list_ex (\<lambda>s. sc_root_id s = root \<and> \<not> sc_terminal s) scans"

text \<open>No work is due for a root: it takes none, some is on its way, or its time has not come.\<close>

definition attended :: "time \<Rightarrow> scan_record list \<Rightarrow> root_state \<Rightarrow> bool" where
  "attended now scans r \<longleftrightarrow>
     rt_retired r \<or> \<not> rs_enabled (rt_schedule r) \<or> has_live scans (rt_id r)
   \<or> (case rt_next_scheduled_at r of None \<Rightarrow> False | Some t \<Rightarrow> now < t)"

lemma has_live_append [simp]: "has_live (xs @ ys) r \<longleftrightarrow> has_live xs r \<or> has_live ys r"
  by (simp add: has_live_def)

lemma has_live_index: "activeScanIndex scans r = Some k \<Longrightarrow> has_live scans r"
  using activeScanIndex_Some[of scans r k] by (auto simp: has_live_def list_ex_iff intro: nth_mem)

lemma has_live_update:
  "has_live scans r \<Longrightarrow> sc_root_id (scans ! k) \<noteq> r \<Longrightarrow> has_live (scans[k := y]) r"
proof -
  assume "has_live scans r" and k: "sc_root_id (scans ! k) \<noteq> r"
  then obtain j where j: "j < length scans" "sc_root_id (scans ! j) = r" "\<not> sc_terminal (scans ! j)"
    by (auto simp: has_live_def list_ex_length)
  then have "j \<noteq> k" using k by auto
  then show ?thesis using j by (auto simp: has_live_def list_ex_length intro!: exI[of _ j])
qed

lemma tick_root_attended:
  assumes ri: "ri < length (sn_roots snap)" and t: "tick_root rand m now ri (snap, draws, st) = (snap', draws', st')"
  shows "attended now (sn_scans snap') (sn_roots snap' ! ri)"
    "\<And>root. root \<noteq> rt_id (sn_roots snap ! ri) \<Longrightarrow> has_live (sn_scans snap) root \<Longrightarrow> has_live (sn_scans snap') root"
    "\<And>j. j \<noteq> ri \<Longrightarrow> sn_roots snap' ! j = sn_roots snap ! j"
    "map rt_id (sn_roots snap') = map rt_id (sn_roots snap)"
proof -
  let ?r = "sn_roots snap ! ri" and ?x = "sn_scans snap"
  have "attended now (sn_scans snap') (sn_roots snap' ! ri) \<and> (\<forall>root. root \<noteq> rt_id ?r \<longrightarrow> has_live ?x root \<longrightarrow> has_live (sn_scans snap') root)
    \<and> (\<exists>r'. sn_roots snap' = (sn_roots snap)[ri := r'] \<and> rt_schedule r' = rt_schedule ?r)"
  proof (cases "activeScanIndex ?x (rt_id ?r)")
    case (Some k)
    note a = activeScanIndex_Some[OF Some]
    let ?r1 = "?r\<lparr>rt_active_scan_id := sc_id (?x ! k)\<rparr>"
    show ?thesis
    proof (cases "sc_config_revision (?x ! k) = rt_revision ?r")
      case False
      let ?u = "updateRootAfterTerminal (finalizeStale now m (?x ! k)) (invalidateRootEvidence ?r1)"
      obtain scans' r3 d3 where e: "enqueueCurrentRevision rand draws (?x[k := finalizeStale now m (?x ! k)]) ?u now
          = (scans', r3, d3)" by (metis prod_cases3)
      have eq: "snap' = snap\<lparr>sn_scans := scans', sn_roots := (sn_roots snap)[ri := r3]\<rparr>"
        using t Some False e by (auto simp: tick_root_def Let_def)
      have sch: "rt_schedule r3 = rt_schedule ?r" using enqueueCurrentRevision_frames[OF e] by (simp add: frame_simps)
      have att: "attended now scans' r3"
      proof (cases "rt_retired ?u")
        case True
        then have "rt_retired r3" using e by (auto simp: enqueueCurrentRevision_def frame_simps)
        then show ?thesis by (simp add: attended_def)
      next
        case False
        obtain fresh where "scans' = ?x[k := finalizeStale now m (?x ! k)] @ [fresh]" "sc_root_id fresh = rt_id ?u"
          "sc_state fresh = StateQueued" using enqueueCurrentRevision_scans[OF e False] by metis
        then show ?thesis using sch by (simp add: attended_def has_live_def frame_simps)
      qed
      have "has_live scans' root" if "root \<noteq> rt_id ?r" "has_live ?x root" for root
        using has_live_update[OF that(2), of k] a(2) that(1) e
        by (auto simp: enqueueCurrentRevision_def Let_def split: if_splits prod.splits)
      then show ?thesis using eq att sch ri by auto
    next
      case True
      obtain r2 s' where eq: "snap' = snap\<lparr>sn_scans := ?x[k := s'], sn_roots := (sn_roots snap)[ri := r2]\<rparr>"
        and r2: "rt_schedule r2 = rt_schedule ?r" and s': "sc_root_id s' = rt_id ?r" "\<not> sc_terminal s'"
        using t Some True a by (auto simp: tick_root_def Let_def frame_simps)
      have "s' \<in> set (?x[k := s'])" using a(1) by (rule set_update_memI)
      then have "has_live (?x[k := s']) (rt_id ?r)" using s' by (auto simp: has_live_def list_ex_iff)
      then show ?thesis using eq r2 ri has_live_update[of ?x _ k] a(2) by (auto simp: attended_def)
    qed
  next
    case None
    show ?thesis
    proof (cases "rt_retired ?r \<or> \<not> rs_enabled (rt_schedule ?r)")
      case True
      then have "snap' = snap" using t None by (auto simp: tick_root_def Let_def)
      then show ?thesis using True by (auto simp: attended_def intro!: exI[of _ ?r])
    next
      case en: False
      let ?r1 = "?r\<lparr>rt_active_scan_id := []\<rparr>"
      define r2 where "r2 = (if rt_next_scheduled_at ?r1 = None then ?r1\<lparr>rt_next_scheduled_at := Some now\<rparr> else ?r1)"
      have p: "rt_schedule r2 = rt_schedule ?r" "rt_next_scheduled_at r2 \<noteq> None" by (auto simp: r2_def)
      show ?thesis
      proof (cases "due (rt_next_scheduled_at r2) now")
        case False
        have "snap' = snap\<lparr>sn_roots := (sn_roots snap)[ri := r2]\<rparr>"
          using t None en False unfolding tick_root_def Let_def prod.case None option.case r2_def[symmetric] by simp
        then show ?thesis using False p ri by (auto simp: attended_def due_def)
      next
        case True
        obtain fresh d3 where fr: "newScanRecord rand draws (rt_schedule r2) TriggerScheduled now = (fresh, d3)" by fastforce
        let ?r3 = "r2\<lparr>rt_active_scan_id := sc_id fresh,
            rt_next_scheduled_at := advanceScheduledAt (rt_next_scheduled_at r2) now (rs_interval (rt_schedule r2))\<rparr>"
        have "snap' = snap\<lparr>sn_scans := ?x @ [fresh], sn_roots := (sn_roots snap)[ri := ?r3]\<rparr>"
          using t None en True fr unfolding tick_root_def Let_def prod.case None option.case r2_def[symmetric] by simp
        moreover have "has_live [fresh] (rt_id ?r)" using newScanRecord_frames[OF fr] p by (simp add: has_live_def)
        ultimately show ?thesis using p ri by (auto simp: attended_def)
      qed
    qed
  qed
  then show "attended now (sn_scans snap') (sn_roots snap' ! ri)"
    "\<And>root. root \<noteq> rt_id ?r \<Longrightarrow> has_live ?x root \<Longrightarrow> has_live (sn_scans snap') root"
    "\<And>j. j \<noteq> ri \<Longrightarrow> sn_roots snap' ! j = sn_roots snap ! j" "map rt_id (sn_roots snap') = map rt_id (sn_roots snap)"
    using ri by (auto simp: map_update_same)
qed

lemma attended_mono:
  "attended now xs r \<Longrightarrow> (has_live xs (rt_id r) \<Longrightarrow> has_live ys (rt_id r)) \<Longrightarrow> attended now ys r"
  by (auto simp: attended_def)

lemma tick_fold_attended:
  assumes "distinct (map rt_id (sn_roots (fst st)))" "n \<le> length (sn_roots (fst st))"
    "map rt_id (sn_roots (fst (fold (tick_root rand m now) [0..<n] st))) = map rt_id (sn_roots (fst st)) \<Longrightarrow> P"
  shows "map rt_id (sn_roots (fst (fold (tick_root rand m now) [0..<n] st))) = map rt_id (sn_roots (fst st))
    \<and> (\<forall>j<n. attended now (sn_scans (fst (fold (tick_root rand m now) [0..<n] st)))
         (sn_roots (fst (fold (tick_root rand m now) [0..<n] st)) ! j))"
  using assms(1,2)
proof (induction n)
  case (Suc n)
  obtain sn dr sl where f: "fold (tick_root rand m now) [0..<n] st = (sn, dr, sl)" by (metis prod_cases3)
  have ids: "map rt_id (sn_roots sn) = map rt_id (sn_roots (fst st))"
    and att: "\<And>j. j < n \<Longrightarrow> attended now (sn_scans sn) (sn_roots sn ! j)"
    using Suc f by auto
  have len: "length (sn_roots sn) = length (sn_roots (fst st))" using ids by (metis length_map)
  obtain sn' dr' sl' where t: "tick_root rand m now n (sn, dr, sl) = (sn', dr', sl')" by (metis prod_cases3)
  have n: "n < length (sn_roots sn)" using Suc.prems len by simp
  note ta = tick_root_attended[OF n t]
  have "attended now (sn_scans sn') (sn_roots sn' ! j)" if "j < Suc n" for j
  proof (cases "j = n")
    case False
    then have j: "j < n" using that by simp
    have "rt_id (sn_roots sn ! j) \<noteq> rt_id (sn_roots sn ! n)"
      using j n len Suc.prems(1) ids[symmetric] distinct_map_nth_eq[of rt_id "sn_roots sn" j n] by auto
    then show ?thesis using attended_mono[OF att[OF j]] ta(2,3) False by metis
  qed (use ta in simp)
  then show ?case using f t ta(4) ids by simp
qed simp

lemma tick_change_attended:
  assumes d: "distinct (map rt_id (sn_roots snap))" and t: "tick_change rand m now draws snap = (dr, Inr (snap', x))"
  shows "list_all (attended now (sn_scans snap')) (sn_roots snap')"
proof -
  obtain dr' where f: "fold (tick_root rand m now) [0..<length (sn_roots snap)] (snap, draws, []) = (snap', dr', x)"
    using t by (auto simp: tick_change_def split: prod.splits)
  have "map rt_id (sn_roots snap') = map rt_id (sn_roots snap) \<and>
      (\<forall>j<length (sn_roots snap). attended now (sn_scans snap') (sn_roots snap' ! j))"
    using tick_fold_attended[of "(snap, draws, [])" "length (sn_roots snap)" rand m now True] d f by simp
  then show ?thesis by (metis length_map list_all_length)
qed

text \<open>The value a commit returns says what its change made of the state.\<close>

lemma commitState_ok:
  assumes "commitState env ctx allow change sd = (sd', Inr x)"
  obtains d changed where "change (sd_draws sd) (sd_state sd) = (d, Inr (changed, x))"
    "sn_roots (sd_state sd') = sn_roots changed" "sn_scans (sd_state sd') = sn_scans changed"
  using assms
  by (auto simp: commitState_def Let_def split: option.splits if_splits prod.splits sum.splits)

lemma commitState_error:
  assumes "commitState env ctx allow change sd = (sd', Inl e)"
  shows "sd_state sd' = sd_state sd"
  using assms
proof (cases rule: commitState_cases)
  case (committed x d changed) then show ?thesis by simp
qed simp_all

section \<open>The effect of a configuration\<close>

text \<open>The root map after some schedules: theirs are in force, the others are as they were.\<close>

definition in_force :: "root_schedule list \<Rightarrow> (config_id \<times> root_state) list \<Rightarrow> (config_id \<times> root_state) list \<Rightarrow> bool" where
  "in_force schedules before after \<longleftrightarrow>
     distinct (map fst after) \<and> fst ` set after = fst ` set before \<union> rs_id ` set schedules
   \<and> (\<forall>(i, r)\<in>set after. rt_id r = i \<and> (i \<in> rs_id ` set schedules \<longrightarrow> rt_schedule r \<in> set schedules \<and> \<not> rt_retired r)
        \<and> (i \<notin> rs_id ` set schedules \<longrightarrow> (i, r) \<in> set before))"

lemma configure_revision_frames:
  "configure_revision rand m now sch r0 (scans, draws, stale) = (r, scans', draws', stale') \<Longrightarrow>
     rt_schedule r = rt_schedule r0 \<and> rt_retired r = rt_retired r0"
  by (auto simp: configure_revision_def Let_def frame_simps split: option.splits if_splits prod.splits)

lemma configure_schedule_put:
  assumes "configure_schedule rand m now sch (byID, scans, draws, stale) = (byID', scans', draws', stale')"
  obtains r where "byID' = AList.update (rs_id sch) r byID" "rt_schedule r = sch" "\<not> rt_retired r"
proof (cases "map_of byID (rs_id sch)")
  case None
  let ?r = "if rs_enabled sch then (new_root_state sch)\<lparr>rt_next_scheduled_at := Some now\<rparr> else new_root_state sch"
  show ?thesis
  proof (rule that[of ?r])
    show "byID' = AList.update (rs_id sch) ?r byID" using assms None by (auto simp: configure_schedule_def Let_def)
  qed (simp_all add: new_root_state_def)
next
  case (Some r0)
  let ?r1 = "r0\<lparr>rt_schedule := sch, rt_retired := False, rt_retired_at := None\<rparr>"
  obtain r2 sc d2 st2 where mid: "(if rt_revision r0 \<noteq> rs_revision sch
      then configure_revision rand m now sch ?r1 (scans, draws, stale) else (?r1, scans, draws, stale)) = (r2, sc, d2, st2)"
    by (metis prod_cases4)
  have r2: "rt_schedule r2 = sch" "\<not> rt_retired r2"
    using mid configure_revision_frames[of rand m now sch ?r1 scans draws stale r2] by (auto split: if_splits)
  obtain r3 where r3: "r3 = r2 \<or> (\<exists>n. r3 = r2\<lparr>rt_next_scheduled_at := n\<rparr>)"
    and eq: "byID' = AList.update (rs_id sch) r3 byID"
    using assms Some mid by (auto simp: configure_schedule_def Let_def split: if_splits)
  show ?thesis by (rule that[OF eq]) (use r2 r3 in auto)
qed

lemma configure_fold_in_force:
  assumes "in_force old before byID" "distinct (map rs_id (old @ schs))"
    "fold (configure_schedule rand m now) schs (byID, scans, draws, stale) = (byID', scans', draws', stale')"
  shows "in_force (old @ schs) before byID'"
  using assms
proof (induction schs arbitrary: old byID scans draws stale)
  case (Cons sch schs)
  obtain b1 s1 d1 t1 where step: "configure_schedule rand m now sch (byID, scans, draws, stale) = (b1, s1, d1, t1)"
    by (metis prod_cases4)
  obtain r where r: "b1 = AList.update (rs_id sch) r byID" "rt_schedule r = sch" "\<not> rt_retired r"
    using configure_schedule_put[OF step] by blast
  have d: "distinct (map fst byID)" using Cons.prems(1) by (simp add: in_force_def)
  have keys: "fst ` set b1 = insert (rs_id sch) (fst ` set byID)" unfolding r(1) by (simp add: dom_update)
  have "in_force (old @ [sch]) before b1"
    unfolding in_force_def
  proof (intro conjI)
    show "distinct (map fst b1)" unfolding r(1) using d by (rule distinct_update)
    show "fst ` set b1 = fst ` set before \<union> rs_id ` set (old @ [sch])"
      using Cons.prems(1) keys by (auto simp: in_force_def)
    show "\<forall>(i, q)\<in>set b1. rt_id q = i \<and> (i \<in> rs_id ` set (old @ [sch]) \<longrightarrow> rt_schedule q \<in> set (old @ [sch]) \<and> \<not> rt_retired q)
        \<and> (i \<notin> rs_id ` set (old @ [sch]) \<longrightarrow> (i, q) \<in> set before)"
    proof clarify
      fix i q assume "(i, q) \<in> set b1"
      then consider "i = rs_id sch" "q = r" | "(i, q) \<in> set byID" "i \<noteq> rs_id sch"
        unfolding r(1) in_update_iff[OF d] by auto
      then show "rt_id q = i \<and> (i \<in> rs_id ` set (old @ [sch]) \<longrightarrow> rt_schedule q \<in> set (old @ [sch]) \<and> \<not> rt_retired q)
        \<and> (i \<notin> rs_id ` set (old @ [sch]) \<longrightarrow> (i, q) \<in> set before)"
      proof cases
        case 1 then show ?thesis using r by auto
      next
        case 2
        then have "rt_id q = i" "i \<in> rs_id ` set old \<longrightarrow> rt_schedule q \<in> set old \<and> \<not> rt_retired q"
          "i \<notin> rs_id ` set old \<longrightarrow> (i, q) \<in> set before"
          using Cons.prems(1) by (auto simp: in_force_def)
        then show ?thesis using 2 by auto
      qed
    qed
  qed
  then show ?case using Cons.IH[of "old @ [sch]" b1 s1 d1 t1] Cons.prems(2,3) step by simp
qed simp

text \<open>What \<open>ConfigureRoots\<close> makes of the roots: no root goes, what it names is in force, the rest is retired.\<close>

lemma configure_change_roots:
  assumes d: "distinct (map rt_id (sn_roots snap))" and ds: "distinct (map rs_id schedules)"
    and c: "configure_change rand m now schedules draws snap = (dr, Inr (snap', x))"
  shows "set (map rt_id (sn_roots snap')) = set (map rt_id (sn_roots snap)) \<union> set (map rs_id schedules)"
    "\<And>r. r \<in> set (sn_roots snap') \<Longrightarrow> rt_id r \<in> set (map rs_id schedules) \<Longrightarrow> rt_schedule r \<in> set schedules \<and> \<not> rt_retired r"
    "\<And>r. r \<in> set (sn_roots snap') \<Longrightarrow> rt_id r \<notin> set (map rs_id schedules) \<Longrightarrow>
       rt_retired r \<and> (\<exists>r0\<in>set (sn_roots snap). r = retire_root now (map rs_id schedules) r0)"
    "sorted (map rt_id (sn_roots snap'))"
proof -
  let ?b = "roots_by_id (sn_roots snap)" and ?ids = "map rs_id schedules"
  obtain byID scans d' st where f: "fold (configure_schedule rand m now) schedules (?b, sn_scans snap, draws, []) = (byID, scans, d', st)"
    by (metis prod_cases4)
  have b: "?b = map (\<lambda>r. (rt_id r, r)) (sn_roots snap)" by (rule roots_by_id_same[OF d])
  have "in_force [] ?b ?b" using d by (auto simp: in_force_def b comp_def)
  then have i: "in_force schedules ?b byID" using configure_fold_in_force[of "[]" ?b ?b schedules] ds f by simp
  have roots: "set (sn_roots snap') = (\<lambda>(_, r). retire_root now ?ids r) ` set byID" and sk: "sorted (map rt_id (sn_roots snap'))"
    using c f by (auto simp: configure_change_def Let_def)
  have fr: "rt_id (retire_root now ids r) = rt_id r" for ids r by (simp add: retire_root_def)
  have key: "rt_id r = j" if "(j, r) \<in> set byID" for j r using i that by (auto simp: in_force_def)
  have named: "rt_schedule q \<in> set schedules \<and> \<not> rt_retired q" if "(j, q) \<in> set byID" "j \<in> rs_id ` set schedules" for j q
    using i that by (auto simp: in_force_def)
  have other: "(j, q) \<in> set ?b" if "(j, q) \<in> set byID" "j \<notin> rs_id ` set schedules" for j q
    using i that by (auto simp: in_force_def)
  show "sorted (map rt_id (sn_roots snap'))" by (rule sk)
  have "rt_id ` set (sn_roots snap') = fst ` set byID"
    unfolding roots image_image using key fr by (intro image_cong) auto
  then show "set (map rt_id (sn_roots snap')) = set (map rt_id (sn_roots snap)) \<union> set ?ids"
    using i by (auto simp: in_force_def b image_image)
  fix r assume "r \<in> set (sn_roots snap')"
  then obtain j q where q: "(j, q) \<in> set byID" "r = retire_root now ?ids q" unfolding roots by auto
  have jq: "rt_id r = j" "rt_id q = j" using q key fr by auto
  show "rt_schedule r \<in> set schedules \<and> \<not> rt_retired r" if "rt_id r \<in> set ?ids"
    using that named[OF q(1)] q(2) jq by (simp add: retire_root_def)
  show "rt_retired r \<and> (\<exists>r0\<in>set (sn_roots snap). r = retire_root now ?ids r0)" if "rt_id r \<notin> set ?ids"
  proof -
    have "(j, q) \<in> set ?b" using that other[OF q(1)] jq(1) by simp
    then have "q \<in> set (sn_roots snap)" by (auto simp: b)
    moreover have "rt_retired r" unfolding q(2) using that jq by (simp add: retire_root_def)
    ultimately show ?thesis using q(2) by blast
  qed
qed

end
