(* ===== verification/Scan_Example.thy ===== *)
theory Scan_Example
  imports Scan_Behaviour
begin

text \<open>
  The runs of a scan scheduler (\<^verbatim>\<open>internal/scanning/scanning.go\<close>) over \<open>MemoryStore\<close> under any
  interleaving, the invariants of the earlier theories for them, and one concrete scheduler that
  the properties are applied to.
\<close>

section \<open>Runs of a scheduler over the reference store\<close>

definition idle_machine :: "'st sched \<Rightarrow> 'st machine" where
  "idle_machine sd = \<lparr>mc_sched = sd, mc_execs = [], mc_loop = False\<rparr>"

text \<open>The states a scheduler reaches from its construction over a store that holds \<open>held\<close>.\<close>

inductive memory_run :: "snapshot env \<Rightarrow> snapshot \<Rightarrow> snapshot machine \<Rightarrow> bool" for env held where
  constructed: "New_scheduler systemClock (Some held) True options0 = Inr (ev_options env, sd) \<Longrightarrow>
    ev_store env = memory_store \<Longrightarrow> memory_run env held (idle_machine sd)"
| stepped: "memory_run env held m \<Longrightarrow> sched_step env m m' \<Longrightarrow> memory_run env held m'"

lemma memory_run_steps:
  assumes "memory_run env held m" "sched_steps env m m'" shows "memory_run env held m'"
  using steps_keep[where P = "memory_run env held", OF assms(2,1)] memory_run.stepped by blast

lemma memory_run_store: "memory_run env held m \<Longrightarrow> ev_store env = memory_store"
  by (induction rule: memory_run.induct) auto

lemma normalizeOptions_bounds:
  "normalizeOptions systemClock o0 = Inr opts \<Longrightarrow> 0 < op_max_concurrent opts"
  by (auto simp: normalizeOptions_def Let_def DefaultOptions_def positive_or_def split: if_splits)

lemma New_scheduler_initial:
  assumes "New_scheduler systemClock (Some held) True o0 = Inr (opts, sd)"
  shows "sd_store sd = held" "sd_state sd = empty_snapshot" "\<not> sd_started sd" "\<not> sd_closed sd" "\<not> sd_stopping sd"
    "sd_running sd = []" "sd_wg sd = 0" "0 < op_max_concurrent opts"
  using assms normalizeOptions_bounds by (auto simp: New_scheduler_def split: sum.splits)

lemma memory_run_books:
  assumes "memory_run env held m" shows "durable env (mc_sched m) \<and> books env m"
  using assms
proof (induction rule: memory_run.induct)
  case (constructed systemClock options0 sd)
  note n = New_scheduler_initial[OF constructed(1)]
  show ?case
    using n by (auto simp: idle_machine_def durable_def valid_state_def valid_empty books_def slots_ok_def)
next
  case (stepped m m')
  then show ?case
    using memory.step_durable[OF memory_run_store[OF stepped(1)], of m m'] step_books[of env m m'] by (simp add: durable_def)
qed

lemma memory_run_trusted:
  assumes "memory_run env held m" "grounded_snapshot held" shows "trusted env (mc_sched m)"
  using assms
proof (induction rule: memory_run.induct)
  case (constructed systemClock options0 sd)
  note n = New_scheduler_initial[OF constructed(1)]
  have "healthy (sn_roots (sd_state sd)) (sn_scans (sd_state sd))" using n by (simp add: healthy_def empty_snapshot_def)
  then show ?case
    using n constructed(2,3) by (auto simp: idle_machine_def trusted_def durable_def valid_state_def valid_empty
        state_healthy_def memory_store_def MemoryStore_Load_def)
next
  case (stepped m m')
  then show ?case using memory.step_trusted[OF memory_run_store[OF stepped(1)]] by blast
qed

lemma commit_extends:
  assumes "commitState env ctx allow change sd = (sd', r)"
    "\<And>d changed x. change (sd_draws sd) (sd_state sd) = (d, Inr (changed, x)) \<Longrightarrow>
       extends (sn_scans (sd_state sd)) (sn_scans changed)"
  shows "extends (sn_scans (sd_state sd)) (sn_scans (sd_state sd')) \<and> sd_started sd' = sd_started sd"
  using assms(1)
proof (cases rule: commitState_cases)
  case (committed x d changed)
  then show ?thesis using assms(2)[OF committed(4)] by (simp add: same_control_def)
qed (auto simp: same_control_def)

text \<open>Once started, every step extends the history.\<close>

lemma step_extends:
  assumes "sched_step env m m'" "sd_started (mc_sched m)"
  shows "extends (sn_scans (sd_state (mc_sched m))) (sn_scans (sd_state (mc_sched m'))) \<and> sd_started (mc_sched m')"
  using assms(1)
proof cases
  case (step_start ctx sd' r)
  then show ?thesis using assms(2) by (auto simp: Start_def split: option.splits if_splits)
next
  case (step_configure schedules now ctx sd' r)
  then show ?thesis
    using commit_extends[OF step_configure(3)[unfolded configure_commit_def] configure_change_extends] assms(2) by auto
next
  case (step_trigger now ctx root sd' r)
  then show ?thesis
    using commit_extends[OF step_trigger(2)[unfolded trigger_commit_def] trigger_change_extends] assms(2) by auto
next
  case (step_cancel now ctx i sd' r)
  then show ?thesis
    using commit_extends[OF step_cancel(2)[unfolded cancel_commit_def] cancel_change_extends] assms(2) by auto
next
  case (step_tick now ctx sd' r)
  then show ?thesis
    using commit_extends[OF step_tick(2)[unfolded tick_commit_def] tick_change_extends] assms(2) by auto
next
  case (step_progress i now ctx p sd' r)
  then show ?thesis
    using commit_extends[OF step_progress(3)[unfolded progress_commit_def] progress_change_extends] assms(2) by auto
next
  case (step_finish xs i ys now outcome runErr ctx sd' r)
  then show ?thesis
    using commit_extends[OF step_finish(3)[unfolded finish_commit_def] finish_change_extends] assms(2) by auto
next
  case (step_claim sd' again)
  then show ?thesis using startOne_extends[OF step_claim(2)] startOne_started[OF step_claim(2)] assms(2) by simp
qed (use assms(2) in \<open>auto simp: Stop_request_def Stop_done_def drop_run_def cancel_runs_def\<close>)

lemma steps_extends:
  assumes "sched_steps env m m'" "sd_started (mc_sched m)"
  shows "extends (sn_scans (sd_state (mc_sched m))) (sn_scans (sd_state (mc_sched m'))) \<and> sd_started (mc_sched m')"
proof (rule steps_keep[OF assms(1), where P = "\<lambda>x. extends (sn_scans (sd_state (mc_sched m))) (sn_scans (sd_state (mc_sched x)))
    \<and> sd_started (mc_sched x)"])
  show "extends (sn_scans (sd_state (mc_sched m))) (sn_scans (sd_state (mc_sched y))) \<and> sd_started (mc_sched y)"
    if "extends (sn_scans (sd_state (mc_sched m))) (sn_scans (sd_state (mc_sched x))) \<and> sd_started (mc_sched x)"
      "sched_step env x y" for x y
    using that step_extends[of env x y] extends_trans by blast
qed (use assms in simp)

section \<open>An example scheduler\<close>

text \<open>
  One disabled root, a clock that counts up from 1000, and a random source that counts bytes. The
  scheduler is configured, started and triggered; the scan it claims returns complete coverage.
\<close>

definition ex_rand :: rand where
  "ex_rand n = Some (\<lambda>j. word_of_nat (16 * n + j))"

definition ex_clock :: "nat \<Rightarrow> time" where
  "ex_clock n = 1000 + int n"

definition ex_env :: "snapshot env" where
  "ex_env = \<lparr>ev_store = memory_store, ev_options = DefaultOptions ex_clock, ev_rand = ex_rand\<rparr>"

definition ex_schedule :: root_schedule where
  "ex_schedule = \<lparr>rs_id = ''movies'', rs_revision = ''r1'', rs_enabled = False, rs_interval = 0\<rparr>"

definition ex_scan_id :: runtime_id where
  "ex_scan_id = ''00010203-0405-4607-8809-0a0b0c0d0e0f''"

definition ex_built :: "snapshot sched" where
  "ex_built = \<lparr>sd_store = empty_snapshot, sd_state = empty_snapshot, sd_started = False, sd_stopping = False,
               sd_closed = False, sd_base_cancelled = False, sd_wake = False, sd_wg = 0,
               sd_running = [], sd_clock = 0, sd_draws = 0\<rparr>"

definition ex_configured :: "snapshot sched" where
  "ex_configured = fst (ConfigureRoots ex_env None [ex_schedule] ex_built)"

definition ex_started :: "snapshot sched" where
  "ex_started = fst (Start ex_env None ex_configured)"

definition ex_running :: "snapshot sched" where
  "ex_running = fst (Trigger ex_env None ''movies'' ex_started)"

definition ex_complete :: coverage where
  "ex_complete = empty_coverage\<lparr>cov_completeness := CompletenessComplete\<rparr>"

definition ex_result :: scan_result where
  "ex_result = zero_result\<lparr>sp_observed_count := 7, sp_coverage := ex_complete, sp_source_coverage := Some [ex_complete]\<rparr>"

lemma ex_new: "New_scheduler ex_clock (Some empty_snapshot) True (DefaultOptions ex_clock) = Inr (ev_options ex_env, ex_built)"
  by (simp add: New_scheduler_def normalizeOptions_def DefaultOptions_def ex_env_def ex_built_def positive_or_def
      second_def defaultMaxCursorBytes_def defaultMaxErrorDetail_def)

lemma memory_run_reaches:
  assumes "memory_run env held m" "reaches env m sd'"
  obtains ex where "all_running ex" "memory_run env held (m\<lparr>mc_sched := sd', mc_execs := mc_execs m @ ex\<rparr>)"
  using assms memory_run_steps unfolding reaches_def by blast

lemma ex_run_configured: "\<exists>m. memory_run ex_env empty_snapshot m \<and> mc_sched m = ex_configured \<and> all_running (mc_execs m)"
proof -
  have run: "memory_run ex_env empty_snapshot (idle_machine ex_built)"
    by (rule memory_run.constructed[OF ex_new]) (simp add: ex_env_def)
  have "reaches ex_env (idle_machine ex_built) ex_configured"
    using ConfigureRoots_reaches[of ex_env None "[ex_schedule]" "idle_machine ex_built"]
    by (simp add: idle_machine_def ex_configured_def prod_eq_iff)
  from memory_run_reaches[OF run this] obtain ex where ex: "all_running ex"
    "memory_run ex_env empty_snapshot ((idle_machine ex_built)\<lparr>mc_sched := ex_configured, mc_execs := mc_execs (idle_machine ex_built) @ ex\<rparr>)"
    (is "memory_run _ _ ?n") .
  then have "mc_sched ?n = ex_configured" "all_running (mc_execs ?n)" by (simp_all add: idle_machine_def)
  with ex(2) show ?thesis by blast
qed

lemma ex_run_started: "\<exists>m. memory_run ex_env empty_snapshot m \<and> mc_sched m = ex_started \<and> all_running (mc_execs m)"
proof -
  obtain m where m: "memory_run ex_env empty_snapshot m" "mc_sched m = ex_configured" "all_running (mc_execs m)"
    using ex_run_configured by blast
  obtain r where "Start ex_env None (mc_sched m) = (ex_started, r)" by (metis ex_started_def m(2) prod.collapse)
  from memory_run.stepped[OF m(1) step_start[OF this]]
  have run: "memory_run ex_env empty_snapshot (m\<lparr>mc_sched := ex_started,
    mc_loop := (mc_loop m \<or> \<not> sd_started (mc_sched m) \<and> sd_started ex_started)\<rparr>)" (is "memory_run _ _ ?n") .
  have "mc_sched ?n = ex_started" "all_running (mc_execs ?n)" using m(3) by simp_all
  with run show ?thesis by blast
qed

text \<open>The state after the trigger, computed once: one scan of the root, running.\<close>

definition ex_live_scan :: scan_record where
  "ex_live_scan =
     \<lparr>sc_id = ex_scan_id, sc_root_id = ''movies'', sc_config_revision = ''r1'', sc_trigger = TriggerManual,
      sc_state = StateRunning, sc_cursor = [], sc_observed_count = 0,
      sc_coverage = empty_coverage\<lparr>cov_root_id := ''movies'', cov_completeness := CompletenessUnknown,
        cov_reason_codes := [''scan_queued''], cov_observed_at := 1002\<rparr>,
      sc_source_coverage = None, sc_started_at = Some 1003, sc_completed_at = None, sc_next_attempt_at = None,
      sc_cancellation_requested_at = None, sc_created_at = 1002, sc_updated_at = 1003, sc_attempt = 1,
      sc_error_code = [], sc_error_detail = []\<rparr>"

definition ex_live :: snapshot where
  "ex_live = \<lparr>sn_version = 3, sn_roots = [(new_root_state ex_schedule)\<lparr>rt_active_scan_id := ex_scan_id\<rparr>],
     sn_scans = [ex_live_scan]\<rparr>"

definition ex_live_sched :: "snapshot sched" where
  "ex_live_sched = \<lparr>sd_store = ex_live, sd_state = ex_live, sd_started = True, sd_stopping = False, sd_closed = False,
     sd_base_cancelled = False, sd_wake = True, sd_wg = 2, sd_running = [(ex_scan_id, False)], sd_clock = 4, sd_draws = 1\<rparr>"

lemma ex_running_eq: "ex_running = ex_live_sched"
  by code_simp

lemma ex_facts:
  "sd_running ex_running = [(ex_scan_id, False)]" "sd_started ex_running" "sd_state ex_running = ex_live"
  "sn_scans ex_live = [ex_live_scan]" "sn_roots ex_live = [(new_root_state ex_schedule)\<lparr>rt_active_scan_id := ex_scan_id\<rparr>]"
  "sc_id ex_live_scan = ex_scan_id" "sc_state ex_live_scan = StateRunning" "sc_root_id ex_live_scan = ''movies''"
  "sc_config_revision ex_live_scan = ''r1''" "rs_id ex_schedule = ''movies''" "rs_revision ex_schedule = ''r1''"
  by (simp_all add: ex_running_eq ex_live_sched_def ex_live_def ex_live_scan_def ex_schedule_def)

lemma ex_run_running:
  "\<exists>m. memory_run ex_env empty_snapshot m \<and> mc_sched m = ex_running \<and> mc_execs m = [(ex_scan_id, ExecRunning)]"
proof -
  obtain m where m: "memory_run ex_env empty_snapshot m" "mc_sched m = ex_started" "all_running (mc_execs m)"
    using ex_run_started by blast
  have "reaches ex_env m ex_running"
    using Trigger_reaches[of ex_env None "''movies''" m] m(2) by (simp add: ex_running_def prod_eq_iff)
  from memory_run_reaches[OF m(1) this] obtain ex where ex: "all_running ex"
    and run: "memory_run ex_env empty_snapshot (m\<lparr>mc_sched := ex_running, mc_execs := mc_execs m @ ex\<rparr>)" (is "memory_run _ _ ?n") .
  define l where "l = mc_execs m @ ex"
  have "mset (map fst (sd_running ex_running)) = mset (live_execs l)"
    using memory_run_books[OF run] by (simp add: books_def l_def)
  moreover have al: "all_running l" using m(3) ex by (simp add: l_def)
  then have "live_execs l = map fst l"
    by (auto simp: live_execs_def all_running_def list_all_iff intro!: arg_cong[of _ _ "map fst"] filter_True)
  ultimately have "mset (map fst l) = {#ex_scan_id#}" using ex_facts by simp
  then have "map fst l = [ex_scan_id]" by (metis mset_single_iff_right)
  then have "l = [(ex_scan_id, ExecRunning)]" using al by (cases l) (auto simp: all_running_def)
  then have "mc_sched ?n = ex_running" "mc_execs ?n = [(ex_scan_id, ExecRunning)]" by (simp_all add: l_def)
  with run show ?thesis by blast
qed

definition ex_finished :: "snapshot sched" where
  "ex_finished = execute_end ex_env ex_scan_id (RunReturned ex_result None) None ex_live_sched"

lemma ex_run_finished: "\<exists>m. memory_run ex_env empty_snapshot m \<and> mc_sched m = ex_finished"
proof -
  obtain m where m: "memory_run ex_env empty_snapshot m" "mc_sched m = ex_running" "mc_execs m = [(ex_scan_id, ExecRunning)]"
    using ex_run_running by blast
  obtain new where "sched_steps ex_env m (m\<lparr>mc_sched := ex_finished, mc_execs := new\<rparr>)"
    using execute_end_steps[of m "[]" ex_scan_id "[]" ex_env "RunReturned ex_result None" None] m
    by (auto simp: ex_finished_def ex_running_eq)
  from memory_run_steps[OF m(1) this]
  have run: "memory_run ex_env empty_snapshot (m\<lparr>mc_sched := ex_finished, mc_execs := new\<rparr>)" (is "memory_run _ _ ?n") .
  have "mc_sched ?n = ex_finished" by simp
  with run show ?thesis by blast
qed

lemma ex_finished_facts:
  "map sc_state (sn_scans (sd_state ex_finished)) = [StateSucceeded] \<and>
   map rt_last_complete_scan_id (sn_roots (sd_state ex_finished)) = [ex_scan_id] \<and>
   map (map_option cov_observed_count \<circ> rt_last_complete_coverage) (sn_roots (sd_state ex_finished)) = [Some 7] \<and>
   sd_running ex_finished = [] \<and> sd_wg ex_finished = 1"
  by code_simp

end
