(* ===== verification/Scan_Properties.thy ===== *)
theory Scan_Properties
  imports Scan_Example
begin

text \<open>
  The properties of the scan scheduler (\<^verbatim>\<open>internal/scanning/scanning.go\<close>): what holds in every state
  a scheduler over \<open>MemoryStore\<close> can reach under any interleaving, and what its operations achieve.
\<close>

section \<open>Every reachable state\<close>

text \<open>
  C7: in every state a scheduler can reach, no more scans run than \<open>MaxConcurrent\<close> allows, each
  run has one entry in the running map, every running scan is in the journal, no two of them are
  of the same root, and the wait group counts exactly the goroutines that are alive.
\<close>

theorem runs_are_bounded_and_exclusive:
  assumes "memory_run env held m"
  shows "int (length (sd_running (mc_sched m))) \<le> op_max_concurrent (ev_options env)
    \<and> distinct (map fst (sd_running (mc_sched m)))
    \<and> None \<notin> set (map (root_of (sn_scans (sd_state (mc_sched m)))) (map fst (sd_running (mc_sched m))))
    \<and> distinct (map (root_of (sn_scans (sd_state (mc_sched m)))) (map fst (sd_running (mc_sched m))))
    \<and> sd_wg (mc_sched m) = length (mc_execs m) + (if mc_loop m then 1 else 0)"
proof -
  have "books env m" using memory_run_books[OF assms] by simp
  then have "slots_ok env (sd_state (mc_sched m)) (map fst (sd_running (mc_sched m)))"
    "sd_wg (mc_sched m) = length (mc_execs m) + (if mc_loop m then 1 else 0)" by (simp_all add: books_def)
  then show ?thesis unfolding slots_ok_def by (metis (no_types, lifting) imageE length_map list.set_map)
qed

theorem runs_are_bounded_and_exclusive_witness:
  "\<exists>m. mc_sched m = ex_running \<and> length (sd_running ex_running) = 1 \<and> memory_run ex_env empty_snapshot m
    \<and> None \<notin> set (map (root_of (sn_scans (sd_state (mc_sched m)))) (map fst (sd_running (mc_sched m))))"
proof -
  obtain m where m: "memory_run ex_env empty_snapshot m" "mc_sched m = ex_running" using ex_run_running by blast
  then show ?thesis using runs_are_bounded_and_exclusive[OF m(1)] ex_facts(1) by (intro exI[of _ m]) simp
qed

text \<open>
  C3: in every state a scheduler can reach, the snapshot in memory validates, and once the
  scheduler is started the store holds exactly that snapshot: nothing is visible that a restart
  would lose, whatever the interleaving and whichever saves were refused.
\<close>

theorem memory_is_what_the_store_holds:
  assumes "memory_run env held m" "sd_started (mc_sched m)"
  shows "Snapshot_Validate 0 (sd_state (mc_sched m)) = None
    \<and> MemoryStore_Load None (sd_store (mc_sched m)) = Inr (sd_state (mc_sched m))"
  using memory_run_books[OF assms(1)] memory_run_store[OF assms(1)] assms(2)
  by (simp add: durable_def valid_state_def stored_def memory_store_def Snapshot_Validate_iff)

theorem memory_is_what_the_store_holds_witness:
  "MemoryStore_Load None (sd_store ex_running) = Inr (sd_state ex_running)"
proof -
  obtain m where m: "memory_run ex_env empty_snapshot m" "mc_sched m = ex_running" using ex_run_running by blast
  show ?thesis using memory_is_what_the_store_holds[OF m(1)] m(2) ex_facts by simp
qed

text \<open>
  C8: once started, a scheduler never loses or rewrites history: after any steps each scan is
  still at its place with its identity, a finished scan is unchanged, a cancellation request and a
  start time are kept, and the observed count has not gone down.
\<close>

theorem history_is_append_only:
  assumes "sched_steps env m m'" "sd_started (mc_sched m)" "k < length (sn_scans (sd_state (mc_sched m)))"
    "s = sn_scans (sd_state (mc_sched m)) ! k" "t = sn_scans (sd_state (mc_sched m')) ! k"
  shows "k < length (sn_scans (sd_state (mc_sched m')))
    \<and> (sc_id t, sc_root_id t, sc_config_revision t, sc_created_at t) = (sc_id s, sc_root_id s, sc_config_revision s, sc_created_at s)
    \<and> (sc_terminal s \<longrightarrow> t = s)
    \<and> (sc_started_at s \<noteq> None \<longrightarrow> sc_started_at t = sc_started_at s)
    \<and> (sc_cancellation_requested_at s \<noteq> None \<longrightarrow> sc_cancellation_requested_at t = sc_cancellation_requested_at s)
    \<and> sc_observed_count s \<le> sc_observed_count t"
  using steps_extends[OF assms(1,2)] assms(3-5) by (auto simp: extends_def keeps_def)

theorem history_is_append_only_witness:
  "sc_created_at (sn_scans (sd_state ex_finished) ! 0) = sc_created_at (sn_scans (sd_state ex_running) ! 0)"
proof -
  obtain m :: "snapshot machine" where m: "mc_sched m = ex_running" "mc_execs m = [(ex_scan_id, ExecRunning)]"
    using ex_run_running by blast
  obtain new where "sched_steps ex_env m (m\<lparr>mc_sched := ex_finished, mc_execs := new\<rparr>)"
    using execute_end_steps[of m "[]" ex_scan_id "[]" ex_env "RunReturned ex_result None" None] m
    by (auto simp: ex_finished_def ex_running_eq)
  note p = history_is_append_only[OF this _ _ refl refl, of 0]
  have "sd_started ex_running" "sn_scans (sd_state ex_running) \<noteq> []" using ex_facts by simp_all
  then show ?thesis using p m(1) by simp
qed

text \<open>
  C16: in every state reached from a store whose projections are backed by its scans, the
  complete coverage a root shows, on which absence is concluded, is the coverage of a succeeded
  scan of that very root and of its current revision, complete in itself and in all its sources.
\<close>

theorem complete_evidence_is_a_finished_scan:
  assumes "memory_run env held m" "grounded_snapshot held"
    "r \<in> set (sn_roots (sd_state (mc_sched m)))" "rt_last_complete_coverage r = Some c"
  shows "cov_completeness c = CompletenessComplete \<and>
    (\<exists>s\<in>set (sn_scans (sd_state (mc_sched m))). sc_id s = rt_last_complete_scan_id r \<and> sc_root_id s = rt_id r
       \<and> sc_config_revision s = rt_revision r \<and> CanAssertAbsence s \<and> sc_coverage s = c)"
proof -
  have "root_grounded (sn_scans (sd_state (mc_sched m))) r"
    using memory_run_trusted[OF assms(1,2)] assms(3) by (auto simp: trusted_def state_healthy_def healthy_def list_all_iff)
  then obtain s where "s \<in> set (sn_scans (sd_state (mc_sched m)))" "sc_id s = rt_last_complete_scan_id r"
    "sc_root_id s = rt_id r" "sc_config_revision s = rt_revision r" "CanAssertAbsence s" "sc_coverage s = c"
    using assms(4) by (auto simp: root_grounded_def evidence_for_def list_ex_iff)
  then show ?thesis by (auto simp: CanAssertAbsence_def split: if_splits)
qed

theorem complete_evidence_is_a_finished_scan_witness:
  "\<exists>r\<in>set (sn_roots (sd_state ex_finished)). \<exists>c. rt_last_complete_coverage r = Some c \<and> cov_observed_count c = 7
    \<and> cov_completeness c = CompletenessComplete"
proof -
  obtain m where m: "memory_run ex_env empty_snapshot m" "mc_sched m = ex_finished" using ex_run_finished by blast
  have "grounded_snapshot empty_snapshot" by (simp add: grounded_snapshot_def empty_snapshot_def)
  note p = complete_evidence_is_a_finished_scan[OF m(1) this, unfolded m(2)]
  obtain r where "sn_roots (sd_state ex_finished) = [r]" "map_option cov_observed_count (rt_last_complete_coverage r) = Some 7"
    using ex_finished_facts by (auto simp: map_eq_Cons_conv)
  then show ?thesis using p[of r] by (cases "rt_last_complete_coverage r") auto
qed

text \<open>
  C19: in every state reached from a store whose projections are backed by its scans, every scan
  that is queued, waiting or running belongs to the current revision of its root: a configuration
  never leaves work of an older revision behind, so the checks for it in \<open>Tick\<close>, \<open>startOne\<close> and
  \<open>finish\<close> never fire after \<open>Start\<close>.
\<close>

theorem pending_work_is_current:
  assumes "memory_run env held m" "grounded_snapshot held"
    "s \<in> set (sn_scans (sd_state (mc_sched m)))" "\<not> sc_terminal s"
    "r \<in> set (sn_roots (sd_state (mc_sched m)))" "rt_id r = sc_root_id s"
  shows "sc_config_revision s = rt_revision r"
  using memory_run_trusted[OF assms(1,2)] assms(3-6)
  by (auto simp: trusted_def state_healthy_def healthy_def list_all_iff current_for_def)

theorem pending_work_is_current_witness:
  "sc_config_revision (hd (sn_scans (sd_state ex_running))) = rt_revision (hd (sn_roots (sd_state ex_running)))"
proof -
  obtain m where m: "memory_run ex_env empty_snapshot m" "mc_sched m = ex_running" using ex_run_running by blast
  have "grounded_snapshot empty_snapshot" by (simp add: grounded_snapshot_def empty_snapshot_def)
  note p = pending_work_is_current[OF m(1) this, unfolded m(2)]
  show ?thesis
    by (rule p) (simp_all add: ex_facts new_root_state_def)
qed

section \<open>Recovery and evidence\<close>

text \<open>
  C28: a scheduler that starts leaves no running scan behind, whatever the store held: every scan
  still pending belongs to the current revision of its root, the schedules are those of the
  store, and the stored history is only extended.
\<close>

theorem start_settles_the_journal:
  assumes "Start env ctx sd = (sd', None)" "\<not> sd_started sd" "so_load (ev_store env) None (sd_store sd) = Inr loaded"
  shows "sd_started sd'
    \<and> list_all (\<lambda>s. sc_state s \<noteq> StateRunning) (sn_scans (sd_state sd'))
    \<and> list_all (current_for (sn_roots (sd_state sd'))) (sn_scans (sd_state sd'))
    \<and> map rt_schedule (sn_roots (sd_state sd')) = map rt_schedule (sn_roots loaded)
    \<and> extends (sn_scans loaded) (sn_scans (sd_state sd'))"
proof -
  from assms(1) obtain l recovered changed d now where l: "sd_started sd'"
    "so_load (ev_store env) None (sd_store sd) = Inr l" "valid_snapshot (minimum_interval env) l"
    "recoverSnapshot (ev_rand env) (max_detail env) now (sd_draws sd) l = (recovered, changed, d)"
    "sd_state sd' = (if changed then recovered\<lparr>sn_version := sn_version l + 1\<rparr> else recovered)"
  proof (cases rule: Start_cases)
    case kept
    then have "\<not> sd_started sd'" using assms(2) by (simp add: same_control_def)
    then show ?thesis
      using assms(1,2) by (auto simp: Start_def Let_def split: option.splits sum.splits if_splits prod.splits)
  qed (use that in blast)
  then show ?thesis
    using recoverSnapshot_settled[OF l(3,4)] recoverSnapshot_extends[OF l(4)] assms(3) by auto
qed

theorem start_settles_the_journal_witness:
  "list_all (\<lambda>s. sc_state s \<noteq> StateRunning) (sn_scans (sd_state (fst (Start ex_env None (ex_built\<lparr>sd_store := sd_store ex_running, sd_clock := 10\<rparr>)))))"
proof -
  have "snd (Start ex_env None (ex_built\<lparr>sd_store := sd_store ex_running, sd_clock := 10\<rparr>)) = None" by code_simp
  then have "Start ex_env None (ex_built\<lparr>sd_store := sd_store ex_running, sd_clock := 10\<rparr>)
      = (fst (Start ex_env None (ex_built\<lparr>sd_store := sd_store ex_running, sd_clock := 10\<rparr>)), None)" by (metis prod.collapse)
  from start_settles_the_journal[OF this] show ?thesis
    by (simp add: ex_env_def ex_built_def memory_store_def MemoryStore_Load_def)
qed

text \<open>
  C26: the evidence kept of a report is never stronger than the report: the aggregate is complete
  exactly when the reported aggregate is, no cursor is left and every source is complete; every
  record kept validates and belongs to the scanned root, and no source is dropped or added.
\<close>

theorem evidence_is_never_strengthened:
  assumes "normalizeEvidence maxCursor root cov sources cursor observed startedAt now = Inr (cov', sources')"
  shows "(cov_completeness cov' = CompletenessComplete \<longleftrightarrow>
        cov_completeness cov = CompletenessComplete \<and> cursor = [] \<and>
        list_all (\<lambda>s. cov_completeness s = CompletenessComplete) (slice_items sources))
    \<and> Coverage_Validate cov' = None \<and> cov_root_id cov' = root \<and> observed \<le> cov_observed_count cov'
    \<and> list_all2 (source_kept root) (slice_items sources) (slice_items sources')"
  using normalizeEvidence_kept[OF assms] by blast

theorem evidence_is_never_strengthened_witness:
  "\<exists>cov' sources'. normalizeEvidence 100 ''movies'' ex_complete (Some [ex_complete, empty_coverage]) [] 3 None 50 = Inr (cov', sources')
    \<and> cov_completeness cov' \<noteq> CompletenessComplete"
proof -
  have "\<exists>x. normalizeEvidence 100 ''movies'' ex_complete (Some [ex_complete, empty_coverage]) [] 3 None 50 = Inr x"
  proof (cases "normalizeEvidence 100 ''movies'' ex_complete (Some [ex_complete, empty_coverage]) [] 3 None 50")
    case (Inl e)
    moreover have "(case normalizeEvidence 100 ''movies'' ex_complete (Some [ex_complete, empty_coverage]) [] 3 None 50 of
        Inl _ \<Rightarrow> False | Inr _ \<Rightarrow> True)" by code_simp
    ultimately show ?thesis by simp
  qed simp
  then obtain cov' sources' where
    n: "normalizeEvidence 100 ''movies'' ex_complete (Some [ex_complete, empty_coverage]) [] 3 None 50 = Inr (cov', sources')"
    by (metis prod.collapse)
  then show ?thesis using evidence_is_never_strengthened[OF n] by (auto simp: empty_coverage_def)
qed

text \<open>
  C20: a run's outcome makes its scan succeed only if nobody asked for its cancellation, its
  context did not end, the runner returned no error and no cursor; and the scan can assert absence
  only if on top of that the coverage and at least one source were reported, all of them complete.
\<close>

theorem only_a_clean_complete_run_asserts_absence:
  assumes "finish_commit env now i outcome runErr runCtx sd = (sd', Inr w)"
    "scanIndex (sn_scans (sd_state sd)) i = Some k" "s = sn_scans (sd_state sd) ! k"
    "rootIndex (sn_roots (sd_state sd)) (sc_root_id s) = Some ri"
    "sc_config_revision s = rt_revision (sn_roots (sd_state sd) ! ri)"
    "s' = sn_scans (sd_state sd') ! k"
  shows "(sc_state s' = StateSucceeded \<longleftrightarrow>
        sc_cancellation_requested_at s = None \<and> runCtx = None \<and> runErr = None \<and> sp_cursor outcome = [])
    \<and> (sc_cancellation_requested_at s \<noteq> None \<longrightarrow> sc_state s' = StateCancelled)
    \<and> (CanAssertAbsence s' \<longleftrightarrow> sc_state s' = StateSucceeded
        \<and> cov_completeness (report_coverage s (sp_coverage outcome)) = CompletenessComplete
        \<and> slice_items (report_sources s (sp_source_coverage outcome)) \<noteq> []
        \<and> list_all (\<lambda>c. cov_completeness c = CompletenessComplete) (slice_items (report_sources s (sp_source_coverage outcome))))"
proof -
  obtain d changed where ch: "finish_change (ev_rand env) (ev_options env) now i outcome runErr runCtx (sd_draws sd) (sd_state sd)
      = (d, Inr (changed, w))" and st: "sn_scans (sd_state sd') = sn_scans changed"
    using commitState_ok[OF assms(1)[unfolded finish_commit_def]] by metis
  from finish_change_current[OF ch assms(2)] assms(3-5)
  obtain cov sources s1 w' where ne: "normalizeEvidence (op_max_cursor_bytes (ev_options env)) (sc_root_id s)
       (report_coverage s (sp_coverage outcome)) (report_sources s (sp_source_coverage outcome))
       (sp_cursor outcome) (max (sp_observed_count outcome) (sc_observed_count s)) (sc_started_at s) now = Inr (cov, sources)"
    and cn: "conclude_run (ev_options env) now (sp_cursor outcome) (res_next_attempt_at outcome) runErr runCtx
       (s\<lparr>sc_cursor := sp_cursor outcome, sc_observed_count := max (sp_observed_count outcome) (sc_observed_count s),
          sc_coverage := cov, sc_source_coverage := sources, sc_error_code := [], sc_error_detail := []\<rparr>) = (s1, w')"
    and at: "sn_scans changed ! k = s1" by metis
  have s1: "s' = s1" using at st assms(6) by simp
  note kept = normalizeEvidence_kept[OF ne]
  have items: "slice_items sources = [] \<longleftrightarrow> slice_items (report_sources s (sp_source_coverage outcome)) = []"
    using kept(4) by (metis list_all2_Nil list_all2_Nil2)
  have all: "list_all (\<lambda>c. cov_completeness c = CompletenessComplete) (slice_items sources) =
      list_all (\<lambda>c. cov_completeness c = CompletenessComplete) (slice_items (report_sources s (sp_source_coverage outcome)))"
    using kept(4) by (auto simp: list_all_length list_all2_conv_all_nth source_kept_def split: if_splits)
  have succ: "sc_state s' = StateSucceeded \<longleftrightarrow>
      sc_cancellation_requested_at s = None \<and> runCtx = None \<and> runErr = None \<and> sp_cursor outcome = []"
    using conclude_run_state[OF cn] s1 by (cases runCtx; cases "the runCtx") auto
  have "CanAssertAbsence s' \<longleftrightarrow> sc_state s' = StateSucceeded \<and> cov_completeness cov = CompletenessComplete
      \<and> slice_items sources \<noteq> [] \<and> list_all (\<lambda>c. cov_completeness c = CompletenessComplete) (slice_items sources)"
    using conclude_run_kept(1-3)[OF cn] s1 succ by (auto simp: CanAssertAbsence_def)
  then show ?thesis
    using succ kept(7) items all conclude_run_state[OF cn] s1 by auto
qed

theorem only_a_clean_complete_run_asserts_absence_witness:
  "CanAssertAbsence (sn_scans (sd_state (fst (finish_commit ex_env 1004 ex_scan_id ex_result None None ex_live_sched))) ! 0)"
proof -
  have "(case snd (finish_commit ex_env 1004 ex_scan_id ex_result None None ex_live_sched) of Inl _ \<Rightarrow> False | Inr _ \<Rightarrow> True)"
    by code_simp
  then obtain w where w: "finish_commit ex_env 1004 ex_scan_id ex_result None None ex_live_sched
      = (fst (finish_commit ex_env 1004 ex_scan_id ex_result None None ex_live_sched), Inr w)"
    by (cases "finish_commit ex_env 1004 ex_scan_id ex_result None None ex_live_sched") (auto split: sum.splits)
  have "scanIndex (sn_scans (sd_state ex_live_sched)) ex_scan_id = Some 0"
    "rootIndex (sn_roots (sd_state ex_live_sched)) (sc_root_id ex_live_scan) = Some 0"
    "report_coverage ex_live_scan (sp_coverage ex_result) = ex_complete"
    "report_sources ex_live_scan (sp_source_coverage ex_result) = Some [ex_complete]"
    by code_simp+
  moreover have "sn_scans (sd_state ex_live_sched) ! 0 = ex_live_scan"
    "sc_config_revision ex_live_scan = rt_revision (sn_roots (sd_state ex_live_sched) ! 0)"
    by (simp_all add: ex_live_sched_def ex_live_def ex_live_scan_def new_root_state_def ex_schedule_def)
  moreover have "sc_cancellation_requested_at ex_live_scan = None" "sp_cursor ex_result = []"
    "cov_completeness ex_complete = CompletenessComplete"
    by (simp_all add: ex_live_scan_def ex_result_def zero_result_def ex_complete_def)
  ultimately show ?thesis
    using only_a_clean_complete_run_asserts_absence[OF w, of 0 ex_live_scan 0] by simp
qed

end
