(* ===== verification/Scan_Outcomes.thy ===== *)
theory Scan_Outcomes
  imports Scan_Example
begin

text \<open>
  What the scheduler's operations achieve (\<^verbatim>\<open>internal/scanning/scanning.go\<close>): every exported
  operation is a sequence of atomic steps, no root is left unattended by a tick, a configuration
  keeps every root, a trigger never queues twice, claims are first come first served; and the two
  places where a scheduler does not do what its comments promise.
\<close>

lemma memory_run_valid:
  assumes "memory_run env held m" "sd_started (mc_sched m)" shows "valid_snapshot 0 (sd_state (mc_sched m))"
  using memory_run_books[OF assms(1)] memory_run_store[OF assms(1)] assms(2)
  by (simp add: durable_def valid_state_def stored_def memory_store_def)

lemma validate_schedules_distinct:
  "validate_schedules_from m seen k schedules = None \<Longrightarrow> distinct (map rs_id schedules) \<and> set (map rs_id schedules) \<inter> set seen = {}"
  by (induction m seen k schedules rule: validate_schedules_from.induct) (auto split: option.splits if_splits)

lemma keys_delete: "fst ` set (AList.delete k al) = fst ` set al - {k}"
  by (force simp: AList.delete_eq)

lemma one_pending:
  assumes "valid_snapshot v snap" "x \<in> set (sn_scans snap)" "\<not> sc_terminal x"
  shows "length (filter (\<lambda>s. sc_root_id s = sc_root_id x \<and> \<not> sc_terminal s) (sn_scans snap)) = 1"
proof -
  let ?l = "filter (\<lambda>s. \<not> sc_terminal s) (sn_scans snap)"
  have one: "distinct (map f xs) \<Longrightarrow> y \<in> set xs \<Longrightarrow> length (filter (\<lambda>s. f s = f y) xs) = 1"
    for f :: "scan_record \<Rightarrow> config_id" and xs y
  proof (induction xs)
    case (Cons z zs)
    show ?case
    proof (cases "f z = f y")
      case True
      have "filter (\<lambda>s. f s = f y) zs = []" using Cons(2) True by (auto simp: filter_empty_conv image_iff)
      then show ?thesis using True by simp
    qed (use Cons in auto)
  qed simp
  have "distinct (map sc_root_id ?l)" "x \<in> set ?l" using assms by (simp_all add: valid_snapshot_def live_scans_def)
  from one[OF this] show ?thesis by (simp add: conj_commute)
qed

text \<open>
  C37: A snapshot that validates is consistent: root ids and scan ids are unique, every scan is of a
  listed root, and each root has at most one pending scan, the one its active reference names; an
  empty reference means that nothing is pending.
\<close>

theorem accepted_snapshot_is_consistent:
  assumes "Snapshot_Validate minimum s = None"
  shows "distinct (map rt_id (sn_roots s)) \<and> distinct (map sc_id (sn_scans s))
    \<and> sc_root_id ` set (sn_scans s) \<subseteq> rt_id ` set (sn_roots s)
    \<and> (\<forall>r\<in>set (sn_roots s). map sc_id (filter (\<lambda>x. sc_root_id x = rt_id r \<and> \<not> sc_terminal x) (sn_scans s))
         = (if rt_active_scan_id r = [] then [] else [rt_active_scan_id r]))"
proof -
  have v: "valid_snapshot minimum s" using assms by (simp add: Snapshot_Validate_iff)
  have "map sc_id (filter (\<lambda>x. sc_root_id x = rt_id r \<and> \<not> sc_terminal x) (sn_scans s))
      = (if rt_active_scan_id r = [] then [] else [rt_active_scan_id r])" if "r \<in> set (sn_roots s)" for r
  proof -
    have ref: "rt_active_scan_id r = active_id (sn_scans s) (rt_id r)" using v that by (simp add: valid_snapshot_def list_all_iff)
    show ?thesis
    proof (cases "activeScanIndex (sn_scans s) (rt_id r)")
      case None
      then have "filter (\<lambda>x. sc_root_id x = rt_id r \<and> \<not> sc_terminal x) (sn_scans s) = []"
        by (simp add: activeScanIndex_def find_index_None filter_empty_conv)
      then show ?thesis using None ref by (simp add: active_id_def)
    next
      case (Some k)
      note k = activeScanIndex_Some[OF Some]
      let ?x = "sn_scans s ! k" and ?l = "filter (\<lambda>x. sc_root_id x = rt_id r \<and> \<not> sc_terminal x) (sn_scans s)"
      have "length ?l = 1" using one_pending[OF v, of ?x] k by simp
      moreover have "?x \<in> set ?l" using k by simp
      ultimately have "?l = [?x]" by (cases ?l) auto
      moreover have "ScanRecord_validate ?x = None" using v k by (simp add: valid_snapshot_def list_all_iff)
      then have "sc_id ?x \<noteq> []" by (auto simp: ScanRecord_validate_def split: if_splits)
      ultimately show ?thesis using Some ref by (simp add: active_id_def)
    qed
  qed
  then show ?thesis using v by (auto simp: valid_snapshot_def)
qed

theorem accepted_snapshot_is_consistent_witness:
  "map sc_id (filter (\<lambda>x. sc_root_id x = ''movies'' \<and> \<not> sc_terminal x) (sn_scans ex_live)) = [ex_scan_id]"
proof -
  have v: "Snapshot_Validate 0 ex_live = None" by code_simp
  let ?r = "(new_root_state ex_schedule)\<lparr>rt_active_scan_id := ex_scan_id\<rparr>"
  have "?r \<in> set (sn_roots ex_live)" "rt_id ?r = ''movies''" by (simp_all add: ex_live_def new_root_state_def ex_schedule_def)
  then show ?thesis using accepted_snapshot_is_consistent[OF v] by (force simp: ex_scan_id_def)
qed

section \<open>Operations as steps\<close>


section \<open>Attention\<close>

text \<open>
  After a tick that commits, no root is left behind: each enabled root that is not retired has
  a scan queued, waiting or running, or a next scheduled time in the future.
\<close>

theorem tick_attends_every_root:
  assumes "memory_run env held m" "tick_commit env now ctx (mc_sched m) = (sd', Inr stale)" "sd_started (mc_sched m)"
  shows "list_all (\<lambda>r. rt_retired r \<or> \<not> rs_enabled (rt_schedule r)
      \<or> list_ex (\<lambda>s. sc_root_id s = rt_id r \<and> \<not> sc_terminal s) (sn_scans (sd_state sd'))
      \<or> (\<exists>t. rt_next_scheduled_at r = Some t \<and> now < t)) (sn_roots (sd_state sd'))"
proof -
  from commitState_ok[OF assms(2)[unfolded tick_commit_def]] obtain d changed
    where ch: "tick_change (ev_rand env) (max_detail env) now (sd_draws (mc_sched m)) (sd_state (mc_sched m)) = (d, Inr (changed, stale))"
    and st: "sn_roots (sd_state sd') = sn_roots changed" "sn_scans (sd_state sd') = sn_scans changed" by metis
  have "valid_snapshot 0 (sd_state (mc_sched m))" using memory_run_valid[OF assms(1,3)] .
  then have "distinct (map rt_id (sn_roots (sd_state (mc_sched m))))" by (simp add: valid_snapshot_def)
  from tick_change_attended[OF this ch] show ?thesis
    unfolding st attended_def has_live_def list_all_iff by (auto split: option.splits)
qed

text \<open>
  A configuration that commits deletes no root: the roots are those there were and those
  configured, in the order of their ids; a configured root has its configured schedule and is not
  retired, any other is retired, and keeps what it knew.
\<close>

theorem configuration_keeps_every_root:
  assumes "memory_run env held m" "sd_started (mc_sched m)" "validateSchedules schedules (minimum_interval env) = None"
    "configure_commit env now ctx schedules (mc_sched m) = (sd', Inr x)"
  shows "set (map rt_id (sn_roots (sd_state sd'))) = set (map rt_id (sn_roots (sd_state (mc_sched m)))) \<union> set (map rs_id schedules)
    \<and> sorted (map rt_id (sn_roots (sd_state sd')))
    \<and> (\<forall>r\<in>set (sn_roots (sd_state sd')).
         if rt_id r \<in> set (map rs_id schedules) then rt_schedule r \<in> set schedules \<and> \<not> rt_retired r
         else rt_retired r \<and> (\<exists>r0\<in>set (sn_roots (sd_state (mc_sched m))). rt_id r0 = rt_id r
            \<and> rt_last_complete_coverage r0 = rt_last_complete_coverage r \<and> rt_last_coverage r0 = rt_last_coverage r))"
proof -
  from commitState_ok[OF assms(4)[unfolded configure_commit_def]] obtain d changed
    where ch: "configure_change (ev_rand env) (max_detail env) now schedules (sd_draws (mc_sched m)) (sd_state (mc_sched m)) = (d, Inr (changed, x))"
    and st: "sn_roots (sd_state sd') = sn_roots changed" by metis
  have "valid_snapshot 0 (sd_state (mc_sched m))" using memory_run_valid[OF assms(1,2)] .
  then have dr: "distinct (map rt_id (sn_roots (sd_state (mc_sched m))))" by (simp add: valid_snapshot_def)
  have ds: "distinct (map rs_id schedules)" using assms(3) validate_schedules_distinct by (auto simp: validateSchedules_def)
  note c = configure_change_roots[OF dr ds ch]
  have kept: "rt_id (retire_root now ids r0) = rt_id r0 \<and> rt_last_complete_coverage (retire_root now ids r0) = rt_last_complete_coverage r0
      \<and> rt_last_coverage (retire_root now ids r0) = rt_last_coverage r0" for ids r0
    by (simp add: retire_root_def)
  have "\<exists>r0\<in>set (sn_roots (sd_state (mc_sched m))). rt_id r0 = rt_id r
      \<and> rt_last_complete_coverage r0 = rt_last_complete_coverage r \<and> rt_last_coverage r0 = rt_last_coverage r"
    if "r \<in> set (sn_roots changed)" "rt_id r \<notin> set (map rs_id schedules)" for r
    using c(3)[OF that] kept by metis
  then show ?thesis unfolding st using c by auto
qed

section \<open>Admission\<close>

text \<open>
  A trigger that commits never leaves two scans of a root pending. If one was pending, no
  scan is added: a waiting scan becomes due now, and for a queued or running one the root keeps
  one manual follow-up, however often it is triggered. Otherwise one queued scan of the current
  revision is added.
\<close>

theorem trigger_never_queues_twice:
  assumes "memory_run env held m" "sd_started (mc_sched m)"
    "trigger_commit env now ctx root (mc_sched m) = (sd', Inr res)"
  shows "\<exists>ri. rootIndex (sn_roots (sd_state (mc_sched m))) root = Some ri \<and> \<not> rt_retired (sn_roots (sd_state (mc_sched m)) ! ri)
    \<and> (case activeScanIndex (sn_scans (sd_state (mc_sched m))) root of
        Some k \<Rightarrow>
          length (sn_scans (sd_state sd')) = length (sn_scans (sd_state (mc_sched m)))
          \<and> sc_state (sn_scans (sd_state sd') ! k) = sc_state (sn_scans (sd_state (mc_sched m)) ! k)
          \<and> (if sc_state (sn_scans (sd_state (mc_sched m)) ! k) = StateWaiting
             then sc_next_attempt_at (sn_scans (sd_state sd') ! k) = Some now
             else rt_follow_up_pending (sn_roots (sd_state sd') ! ri) \<and> rt_follow_up_trigger (sn_roots (sd_state sd') ! ri) = TriggerManual)
      | None \<Rightarrow> \<exists>s. sn_scans (sd_state sd') = sn_scans (sd_state (mc_sched m)) @ [s] \<and> sc_root_id s = root
          \<and> sc_state s = StateQueued \<and> sc_trigger s = TriggerManual
          \<and> sc_config_revision s = rt_revision (sn_roots (sd_state (mc_sched m)) ! ri))
    \<and> length (filter (\<lambda>s. sc_root_id s = root \<and> \<not> sc_terminal s) (sn_scans (sd_state sd'))) = 1"
proof -
  let ?old = "sd_state (mc_sched m)" and ?new = "sd_state sd'"
  from commitState_ok[OF assms(3)[unfolded trigger_commit_def]] obtain d changed
    where ch: "trigger_change (ev_rand env) now root (sd_draws (mc_sched m)) ?old = (d, Inr (changed, res))"
    and st: "sn_roots ?new = sn_roots changed" "sn_scans ?new = sn_scans changed" by metis
  from memory_run.stepped[OF assms(1) step_trigger[OF assms(3)]]
  have "memory_run env held (m\<lparr>mc_sched := sd'\<rparr>)" .
  moreover have "sd_started sd'" using assms(2,3) commit_extends[OF assms(3)[unfolded trigger_commit_def] trigger_change_extends] by auto
  ultimately have valid: "valid_snapshot 0 ?new" using memory_run_valid by fastforce
  obtain ri where ri: "rootIndex (sn_roots ?old) root = Some ri" "\<not> rt_retired (sn_roots ?old ! ri)"
    using ch by (auto simp: trigger_change_def Let_def split: option.splits if_splits)
  note ri_lt = rootIndex_Some[OF ri(1)]
  show ?thesis
  proof (cases "activeScanIndex (sn_scans ?old) root")
    case None
    obtain s d' where s: "newScanRecord (ev_rand env) (sd_draws (mc_sched m)) (rt_schedule (sn_roots ?old ! ri)) TriggerManual now = (s, d')"
      by fastforce
    then have fields: "sc_root_id s = root" "sc_state s = StateQueued" "sc_trigger s = TriggerManual"
      "sc_config_revision s = rt_revision (sn_roots ?old ! ri)"
      using ri_lt by (auto simp: newScanRecord_def blank_scan_record_def Let_def split: sum.splits)
    have new: "sn_scans ?new = sn_scans ?old @ [s]" using ch ri None s by (auto simp: st trigger_change_def Let_def)
    have "length (filter (\<lambda>x. sc_root_id x = root \<and> \<not> sc_terminal x) (sn_scans ?new)) = 1"
      using one_pending[OF valid, of s] fields new by simp
    then show ?thesis using ri None new fields by simp
  next
    case (Some k)
    note k = activeScanIndex_Some[OF Some]
    let ?a = "sn_scans ?old ! k"
    have scans: "sn_scans ?new = (if sc_state ?a = StateWaiting then (sn_scans ?old)[k := ?a\<lparr>sc_next_attempt_at := Some now\<rparr>] else sn_scans ?old)"
      "sn_roots ?new = (if sc_state ?a = StateWaiting then sn_roots ?old else (sn_roots ?old)[ri := retainFollowUp TriggerManual (sn_roots ?old ! ri)])"
      using ch ri Some by (auto simp: st trigger_change_def Let_def)
    have kn: "sc_root_id (sn_scans ?new ! k) = root" "sc_state (sn_scans ?new ! k) = sc_state ?a" "k < length (sn_scans ?new)"
      using k scans(1) by auto
    then have "length (filter (\<lambda>x. sc_root_id x = root \<and> \<not> sc_terminal x) (sn_scans ?new)) = 1"
      using one_pending[OF valid, of "sn_scans ?new ! k"] k by simp
    moreover have "rt_follow_up_pending (retainFollowUp TriggerManual r) \<and> rt_follow_up_trigger (retainFollowUp TriggerManual r) = TriggerManual" for r
      by (simp add: retainFollowUp_def followUpTriggerValid_def)
    ultimately show ?thesis using ri Some scans kn k ri_lt by auto
  qed
qed

text \<open>
  The scan a claim starts is the oldest one that can start: no queued scan of a root without a
  run in progress was created before it (by time, then by id), and the scan is durably running
  before its goroutine exists.
\<close>

theorem oldest_eligible_scan_starts:
  assumes "startOne env sd = (sd', again)" "i \<in> fst ` set (sd_running sd')" "i \<notin> fst ` set (sd_running sd)"
  shows "again \<and> (\<exists>k. k < length (sn_scans (sd_state sd)) \<and> sc_id (sn_scans (sd_state sd) ! k) = i
      \<and> sc_state (sn_scans (sd_state sd) ! k) = StateQueued \<and> sc_state (sn_scans (sd_state sd') ! k) = StateRunning
      \<and> (\<forall>q<length (sn_scans (sd_state sd)). sc_state (sn_scans (sd_state sd) ! q) = StateQueued
           \<and> \<not> runningRoot (sd_state sd) (sd_running sd) (sc_root_id (sn_scans (sd_state sd) ! q)) \<longrightarrow>
           (sc_created_at (sn_scans (sd_state sd) ! k), sc_id (sn_scans (sd_state sd) ! k))
             \<le> (sc_created_at (sn_scans (sd_state sd) ! q), sc_id (sn_scans (sd_state sd) ! q))))"
proof -
  let ?snap = "sd_state sd"
  have ordered: "(sc_created_at (sn_scans ?snap ! k), sc_id (sn_scans ?snap ! k)) \<le> (sc_created_at (sn_scans ?snap ! q), sc_id (sn_scans ?snap ! q))"
    if "selectQueuedScan ?snap (sd_running sd) = Some k" "q < length (sn_scans ?snap)" "sc_state (sn_scans ?snap ! q) = StateQueued"
      "\<not> runningRoot ?snap (sd_running sd) (sc_root_id (sn_scans ?snap ! q))" for k q
    using find_least[OF that(1)[unfolded selectQueuedScan_def queued_order_def], of q] that(2-4) by simp
  from assms(1) show ?thesis
  proof (cases rule: startOne_cases)
    case idle
    then show ?thesis using assms(2,3) by simp
  next
    case (cancelled k now roots')
    then show ?thesis using assms(2,3) publish_one_control[OF cancelled(3)] by simp
  next
    case (stale k now ri scan' scans' root2 draws')
    then show ?thesis using assms(2,3) publish_one_control[OF stale(7)] by simp
  next
    case (run k now ri)
    note sel = selectQueuedScan_Some[OF run(5)]
    let ?j = "sc_id (sn_scans ?snap ! k)"
    from run(10) show ?thesis
    proof (cases rule: start_run_cases)
      case (refused st running)
      then have "fst ` set (sd_running sd') \<subseteq> fst ` set (sd_running sd)"
        using keys_delete[of ?j "AList.update ?j False (sd_running sd)"] by (auto simp: dom_update)
      then show ?thesis using assms(2,3) by blast
    next
      case (saved st snap)
      then have "i = ?j" using assms(2,3) by (auto simp: dom_update)
      moreover have "sc_state (sn_scans (sd_state sd') ! k) = StateRunning"
        using saved(2,3) sel(1) by (simp add: claim_scan_def Let_def)
      ultimately show ?thesis using saved(1) sel run(5) ordered by blast
    qed
  qed
qed

section \<open>A run whose outcome is refused\<close>

text \<open>
  C38: When the outcome of a run is refused (its evidence does not validate, or the save fails),
  the scan stays running in the journal although no goroutine runs it any more: no later step of
  the scheduler ever finishes, fails or cancels it; only a new configuration revision of its root
  closes it as stale. A restart is the only other way out.
\<close>

theorem refused_outcome_wedges_its_scan:
  assumes "memory_run env held m" "sd_started (mc_sched m)"
    "mc_execs m = xs @ (i, ExecRunning) # ys" "i \<notin> fst ` set (xs @ ys)"
    "k < length (sn_scans (sd_state (mc_sched m)))" "sc_id (sn_scans (sd_state (mc_sched m)) ! k) = i"
    "sc_state (sn_scans (sd_state (mc_sched m)) ! k) = StateRunning"
    "finish_commit env now i outcome runErr ctx (mc_sched m) = (sd', Inl e)"
    "sched_steps env (m\<lparr>mc_sched := (drop_run i sd')\<lparr>sd_wg := sd_wg (drop_run i sd') - 1\<rparr>, mc_execs := xs @ ys\<rparr>) m2"
  shows "sc_id (sn_scans (sd_state (mc_sched m2)) ! k) = i \<and> i \<notin> fst ` set (sd_running (mc_sched m2))
    \<and> (sc_state (sn_scans (sd_state (mc_sched m2)) ! k) = StateRunning
       \<or> sc_state (sn_scans (sd_state (mc_sched m2)) ! k) = StateCancelled
         \<and> sc_error_code (sn_scans (sd_state (mc_sched m2)) ! k) = ''stale_config_revision'')"
proof -
  let ?m3 = "m\<lparr>mc_sched := (drop_run i sd')\<lparr>sd_wg := sd_wg (drop_run i sd') - 1\<rparr>, mc_execs := xs @ ys\<rparr>"
  have finished: "sched_step env m (m\<lparr>mc_sched := sd', mc_execs := xs @ (i, ExecFinishing) # ys\<rparr>)" (is "sched_step env m ?m1")
    by (rule step_finish[OF assms(3,8)])
  have dropped: "sched_step env ?m1 (m\<lparr>mc_sched := drop_run i sd', mc_execs := xs @ (i, ExecExiting) # ys\<rparr>)" (is "sched_step env ?m1 ?m2")
    using step_drop[of ?m1 xs i ys env] by simp
  have exited: "sched_step env ?m2 ?m3" using step_exit[of ?m2 xs i ys env] by simp
  have run: "memory_run env held ?m3"
    by (rule memory_run.stepped[OF memory_run.stepped[OF memory_run.stepped[OF assms(1) finished] dropped] exited])
  have same: "sd_state sd' = sd_state (mc_sched m)" using assms(8) commitState_error unfolding finish_commit_def by blast
  have started: "sd_started sd'"
    using assms(2,8) commit_extends[OF assms(8)[unfolded finish_commit_def] finish_change_extends] by auto
  have w: "wedged k i ?m3"
    using assms(4-7) same started by (auto simp: wedged_def runs_or_stale_def drop_run_def)
  have "wedged k i m2"
    using memory.steps_wedged[OF memory_run_store[OF run] assms(9)] memory_run_books[OF run] w by blast
  moreover have "books env m2" using memory_run_books[OF memory_run_steps[OF run assms(9)]] by blast
  then have "set (map fst (sd_running (mc_sched m2))) = set (live_execs (mc_execs m2))"
    unfolding books_def using mset_eq_setD by blast
  then have "fst ` set (sd_running (mc_sched m2)) \<subseteq> fst ` set (mc_execs m2)" by (auto simp: live_execs_def)
  ultimately show ?thesis by (auto simp: wedged_def runs_or_stale_def closed_as_stale_def)
qed

section \<open>A configuration before the start\<close>

lemma configure_schedule_no_scans:
  "fst (snd st) = [] \<Longrightarrow> fst (snd (configure_schedule rand m now sch st)) = []"
  by (cases st) (auto simp: configure_schedule_def configure_revision_def activeScanIndex_def Let_def
      split: option.splits prod.splits if_splits)

lemma configure_change_no_scans:
  assumes "configure_change rand m now schedules draws snap = (d, Inr (changed, x))" "sn_scans snap = []"
  shows "sn_scans changed = []"
proof -
  have "fst (snd (fold (configure_schedule rand m now) schs st)) = []" if "fst (snd st) = []" for schs st
    using that configure_schedule_no_scans by (induction schs arbitrary: st) auto
  from this[of "(roots_by_id (sn_roots snap), sn_scans snap, draws, [])" schedules] show ?thesis
    using assms by (auto simp: configure_change_def split: prod.splits)
qed

text \<open>
  Roots configured before \<open>Start\<close> replace the stored journal instead of being merged into it:
  the scheduler's state is still empty, so the save that the configuration makes writes a snapshot
  of version 1 with no scans and only the configured roots over whatever the store held.
\<close>

theorem configuring_before_start_erases_the_store:
  assumes "New_scheduler systemClock (Some held) True options0 = Inr (ev_options env, sd)" "ev_store env = memory_store"
    "schedules \<noteq> []" "ConfigureRoots env None schedules sd = (sd', None)"
  shows "sn_scans (sd_store sd') = [] \<and> sn_version (sd_store sd') = 1
    \<and> set (map rt_id (sn_roots (sd_store sd'))) = set (map rs_id schedules)"
proof -
  note new = New_scheduler_initial[OF assms(1)]
  have ok: "validateSchedules schedules (minimum_interval env) = None"
    using assms(4) by (auto simp: ConfigureRoots_def split: option.splits)
  obtain sd1 stale where c: "configure_commit env (read_clock env (sd_clock sd)) None schedules (tick_clock sd) = (sd1, Inr stale)"
    and sd': "sd' = wake_and_pump env (cancel_runs stale sd1)"
    using assms(4) ok by (auto simp: ConfigureRoots_def split: prod.splits sum.splits)
  have state: "sd_state (tick_clock sd) = empty_snapshot" "\<not> sd_started (tick_clock sd)" "\<not> sd_closed (tick_clock sd)" "\<not> sd_stopping (tick_clock sd)"
    using new by (simp_all add: tick_clock_def)
  have ds: "distinct (map rs_id schedules)" using ok validate_schedules_distinct by (auto simp: validateSchedules_def)
  obtain d changed where ch: "configure_change (ev_rand env) (max_detail env) (read_clock env (sd_clock sd)) schedules
      (sd_draws (tick_clock sd)) empty_snapshot = (d, Inr (changed, stale))"
    using commitState_ok[OF c[unfolded configure_commit_def]] state(1) by metis
  have none: "sn_scans changed = []" using configure_change_no_scans[OF ch] by (simp add: empty_snapshot_def)
  have roots: "set (map rt_id (sn_roots changed)) = set (map rs_id schedules)"
    using configure_change_roots(1)[OF _ ds ch] by (simp add: empty_snapshot_def)
  then have "changed \<noteq> empty_snapshot" using assms(3) by (auto simp: empty_snapshot_def)
  then have "sd_store sd1 = changed\<lparr>sn_version := 1\<rparr> \<and> \<not> sd_started sd1"
    using c ch state assms(2)
    by (auto simp: configure_commit_def commitState_def Let_def memory_store_def MemoryStore_Save_def empty_snapshot_def
        split: option.splits if_splits)
  then show ?thesis
    using none roots by (simp add: sd' wake_and_pump_def Let_def signal_def isStarted_def cancel_runs_def)
qed

section \<open>Witnesses\<close>

lemma ok_pair: "(case snd p of Inl _ \<Rightarrow> False | Inr _ \<Rightarrow> True) \<Longrightarrow> \<exists>x. p = (fst p, Inr x)"
  by (cases p) (auto split: sum.splits)

lemma ex_started_run: "sd_started ex_live_sched" by (simp add: ex_live_sched_def)

theorem tick_attends_every_root_witness:
  "list_all (\<lambda>r. rt_retired r \<or> \<not> rs_enabled (rt_schedule r)
      \<or> list_ex (\<lambda>s. sc_root_id s = rt_id r \<and> \<not> sc_terminal s) (sn_scans (sd_state (fst (tick_commit ex_env 1010 None ex_live_sched))))
      \<or> (\<exists>t. rt_next_scheduled_at r = Some t \<and> 1010 < t)) (sn_roots (sd_state (fst (tick_commit ex_env 1010 None ex_live_sched))))"
proof -
  obtain m where m: "memory_run ex_env empty_snapshot m" "mc_sched m = ex_live_sched" using ex_run_running ex_running_eq by metis
  have "(case snd (tick_commit ex_env 1010 None ex_live_sched) of Inl _ \<Rightarrow> False | Inr _ \<Rightarrow> True)" by code_simp
  then obtain x where x: "tick_commit ex_env 1010 None ex_live_sched = (fst (tick_commit ex_env 1010 None ex_live_sched), Inr x)"
    using ok_pair by blast
  show ?thesis by (rule tick_attends_every_root[OF m(1), unfolded m(2), OF x ex_started_run])
qed

theorem configuration_keeps_every_root_witness:
  "set (map rt_id (sn_roots (sd_state (fst (configure_commit ex_env 1010 None [] ex_live_sched))))) = {''movies''}"
proof -
  obtain m where m: "memory_run ex_env empty_snapshot m" "mc_sched m = ex_live_sched" using ex_run_running ex_running_eq by metis
  have "(case snd (configure_commit ex_env 1010 None [] ex_live_sched) of Inl _ \<Rightarrow> False | Inr _ \<Rightarrow> True)" by code_simp
  then obtain x where x: "configure_commit ex_env 1010 None [] ex_live_sched = (fst (configure_commit ex_env 1010 None [] ex_live_sched), Inr x)"
    using ok_pair by blast
  have "validateSchedules [] (minimum_interval ex_env) = None" by code_simp
  note kept = configuration_keeps_every_root[OF m(1), unfolded m(2), OF ex_started_run this x, THEN conjunct1]
  have "map rt_id (sn_roots (sd_state ex_live_sched)) = [''movies'']"
    by (simp add: ex_live_sched_def ex_live_def new_root_state_def ex_schedule_def)
  with kept show ?thesis by (simp del: set_map)
qed

theorem trigger_never_queues_twice_witness:
  "length (filter (\<lambda>s. sc_root_id s = ''movies'' \<and> \<not> sc_terminal s)
     (sn_scans (sd_state (fst (trigger_commit ex_env 1010 None ''movies'' ex_live_sched))))) = 1"
proof -
  obtain m where m: "memory_run ex_env empty_snapshot m" "mc_sched m = ex_live_sched" using ex_run_running ex_running_eq by metis
  have "(case snd (trigger_commit ex_env 1010 None ''movies'' ex_live_sched) of Inl _ \<Rightarrow> False | Inr _ \<Rightarrow> True)" by code_simp
  then obtain x where x: "trigger_commit ex_env 1010 None ''movies'' ex_live_sched
      = (fst (trigger_commit ex_env 1010 None ''movies'' ex_live_sched), Inr x)"
    using ok_pair by blast
  from trigger_never_queues_twice[OF m(1), unfolded m(2), OF ex_started_run x] show ?thesis by blast
qed

definition ex_queued :: "snapshot sched" where
  "ex_queued = fst (trigger_commit ex_env 1002 None ''movies'' ex_started)"

theorem oldest_eligible_scan_starts_witness:
  "\<exists>k. k < length (sn_scans (sd_state ex_queued)) \<and> sc_id (sn_scans (sd_state ex_queued) ! k) = ex_scan_id
     \<and> sc_state (sn_scans (sd_state (fst (startOne ex_env ex_queued))) ! k) = StateRunning"
proof -
  have "startOne ex_env ex_queued = (fst (startOne ex_env ex_queued), snd (startOne ex_env ex_queued))" by simp
  moreover have "map fst (sd_running (fst (startOne ex_env ex_queued))) = [ex_scan_id]" "map fst (sd_running ex_queued) = []"
    by code_simp+
  then have "ex_scan_id \<in> fst ` set (sd_running (fst (startOne ex_env ex_queued)))" "ex_scan_id \<notin> fst ` set (sd_running ex_queued)"
    by (metis image_set list.set_intros(1), metis image_set list.set(1) empty_iff)
  ultimately show ?thesis using oldest_eligible_scan_starts by blast
qed

definition ex_bad_result :: scan_result where
  "ex_bad_result = ex_result\<lparr>sp_coverage := ex_complete\<lparr>cov_root_id := ''series''\<rparr>\<rparr>"

theorem refused_outcome_wedges_its_scan_witness:
  "\<exists>m :: snapshot machine. mc_execs m = [] \<and> ex_scan_id \<notin> fst ` set (sd_running (mc_sched m))
     \<and> sc_id (sn_scans (sd_state (mc_sched m)) ! 0) = ex_scan_id \<and> sd_started (mc_sched m)"
proof -
  obtain m where m: "memory_run ex_env empty_snapshot m" "mc_sched m = ex_live_sched" "mc_execs m = [] @ (ex_scan_id, ExecRunning) # []"
    using ex_run_running ex_running_eq by (metis append_Nil)
  let ?f = "finish_commit ex_env 1004 ex_scan_id ex_bad_result None None ex_live_sched"
  have "(case snd ?f of Inl _ \<Rightarrow> True | Inr _ \<Rightarrow> False)" by code_simp
  then obtain e where e: "?f = (fst ?f, Inl e)" by (cases ?f) (auto split: sum.splits)
  let ?m2 = "m\<lparr>mc_sched := (drop_run ex_scan_id (fst ?f))\<lparr>sd_wg := sd_wg (drop_run ex_scan_id (fst ?f)) - 1\<rparr>, mc_execs := [] @ []\<rparr>"
  have steps: "sched_steps ex_env ?m2 ?m2" by (simp add: sched_steps_def)
  have "sc_id (sn_scans (sd_state (mc_sched ?m2)) ! 0) = ex_scan_id \<and> ex_scan_id \<notin> fst ` set (sd_running (mc_sched ?m2))"
    using refused_outcome_wedges_its_scan[OF m(1) _ m(3) _ _ _ _ _ steps, of 0 1004 ex_bad_result None None e] e m(2)
    by (simp add: ex_live_sched_def ex_live_def ex_live_scan_def)
  moreover have "sd_started (fst ?f)" by code_simp
  ultimately show ?thesis by (intro exI[of _ ?m2]) (simp add: drop_run_def)
qed

theorem configuring_before_start_erases_the_store_witness:
  "sn_scans ex_live \<noteq> [] \<and> sn_scans (sd_store (fst (ConfigureRoots ex_env None [ex_schedule] (ex_built\<lparr>sd_store := ex_live\<rparr>)))) = []"
proof -
  let ?sd = "ex_built\<lparr>sd_store := ex_live\<rparr>"
  have "New_scheduler ex_clock (Some ex_live) True (DefaultOptions ex_clock) = Inr (ev_options ex_env, ?sd)"
    using ex_new by (auto simp: New_scheduler_def ex_built_def split: sum.splits)
  moreover have "snd (ConfigureRoots ex_env None [ex_schedule] ?sd) = None" by code_simp
  then have "ConfigureRoots ex_env None [ex_schedule] ?sd = (fst (ConfigureRoots ex_env None [ex_schedule] ?sd), None)"
    by (metis prod.collapse)
  ultimately show ?thesis
    using configuring_before_start_erases_the_store[of ex_clock ex_live "DefaultOptions ex_clock" ex_env ?sd "[ex_schedule]"]
    by (simp add: ex_env_def ex_live_def)
qed

end
