(* ===== verification/Scan_Pump.thy ===== *)
theory Scan_Pump
  imports Scan_Steps
begin

text \<open>
  The loop of \<open>pump\<close> in \<^verbatim>\<open>internal/scanning/scanning.go\<close>: it calls \<open>startOne\<close> until that reports that
  nothing more was done, and each round that was settles one queued scan.
\<close>

text \<open>The scheduler after a number of rounds.\<close>

definition rounds :: "'st env \<Rightarrow> nat \<Rightarrow> 'st sched \<Rightarrow> 'st sched" where
  "rounds env n sd = ((\<lambda>s. fst (startOne env s)) ^^ n) sd"

lemma rounds_simps [simp]:
  "rounds env 0 sd = sd" "rounds env (Suc n) sd = rounds env n (fst (startOne env sd))"
  by (simp_all add: rounds_def funpow_Suc_right del: funpow.simps(2))

lemma pump_measure_le: "pump_measure snap \<le> 2 * length (queued_scans snap)"
  using length_filter_le [of "scan_outdated (sn_roots snap)" "queued_scans snap"] by (simp add: pump_measure_def)

lemma pump_loop_rounds:
  "\<exists>n\<le>pump_measure (sd_state sd). list_all (\<lambda>i. snd (startOne env (rounds env i sd))) [0..<n]
     \<and> \<not> snd (startOne env (rounds env n sd)) \<and> pump_loop env sd = rounds env (Suc n) sd"
proof (induction "pump_measure (sd_state sd)" arbitrary: sd rule: less_induct)
  case less
  obtain sd' again where s: "startOne env sd = (sd', again)" by fastforce
  show ?case
  proof (cases again)
    case True
    note m = startOne_measure [of env sd sd'] s True
    then obtain n where n: "n \<le> pump_measure (sd_state sd')"
      "list_all (\<lambda>i. snd (startOne env (rounds env i sd'))) [0..<n]"
      "\<not> snd (startOne env (rounds env n sd'))" "pump_loop env sd' = rounds env (Suc n) sd'"
      using less [of sd'] by auto
    have "snd (startOne env (rounds env i sd))" if "i < Suc n" for i
      using that n(2) s True by (cases i) (auto simp: list_all_iff)
    then have "list_all (\<lambda>i. snd (startOne env (rounds env i sd))) [0..<Suc n]"
      by (simp only: list_all_iff set_upt) simp
    moreover have "pump_loop env sd = pump_loop env sd'"
      by (subst pump_loop.simps) (simp add: s True)
    ultimately show ?thesis
      using n m by (intro exI [of _ "Suc n"]) simp
  next
    case False
    have "pump_loop env sd = sd'" by (subst pump_loop.simps) (simp add: s False)
    with s False show ?thesis by (intro exI [of _ 0]) simp
  qed
qed

text \<open>
  The loop of \<open>pump\<close> ends. It makes at most two rounds per queued scan and one more: every
  round but the last claims, cancels or replaces one queued scan, the last reports that nothing
  more was done, and the result of the loop is the state after it.
\<close>

theorem pump_ends_after_two_rounds_per_scan:
  "\<exists>n\<le>2 * length (queued_scans (sd_state sd)).
     list_all (\<lambda>i. snd (startOne env (rounds env i sd))) [0..<n]
     \<and> \<not> snd (startOne env (rounds env n sd))
     \<and> pump_loop env sd = rounds env (Suc n) sd"
  using pump_loop_rounds [of sd env] pump_measure_le [of "sd_state sd"] by (meson le_trans)

end
