(* ===== verification/Slices.thy ===== *)
theory Slices
  imports Prelude "HOL-Library.Multiset"
begin

text \<open>
  \<open>sort.Slice\<close> and \<open>sort.Strings\<close> of Go's standard library.

  \<open>sort.Slice\<close> is not stable, and the order of elements with equal keys is not documented. What
  it does depends on the keys alone, so its choice is an argument of the model, a function from
  the keys of the slice to the positions of the result (\<open>slice_order\<close>). A comparison by several
  fields in turn is a comparison of the lists of these fields. The contract of the function is the
  locale \<open>slice_sort\<close>: the result is a permutation, it is in order, and a slice in order is left
  as it is (pattern-defeating quicksort recognizes it and swaps nothing). It is interpreted on the
  insertion sort the library uses for slices of up to 12 elements.
\<close>

type_synonym slice_order = "string list list \<Rightarrow> nat list"

definition sort_slice :: "slice_order \<Rightarrow> ('a \<Rightarrow> string list) \<Rightarrow> 'a list \<Rightarrow> 'a list" where
  "sort_slice ord key xs = map ((!) xs) (ord (map key xs))"

definition orders_slices :: "slice_order \<Rightarrow> bool" where
  "orders_slices ord \<longleftrightarrow>
     (\<forall>ks. mset (ord ks) = mset [0..<length ks] \<and> sorted (map ((!) ks) (ord ks))
        \<and> (sorted ks \<longrightarrow> ord ks = [0..<length ks]))"

definition insertion_order :: slice_order where
  "insertion_order ks = sort_key ((!) ks) [0..<length ks]"

text \<open>\<open>sortedUniqueStrings\<close> sorts with \<open>sort.Strings\<close>, where equal elements are identical.\<close>

definition sortedUniqueStrings :: "string list \<Rightarrow> string list" where
  "sortedUniqueStrings values = remdups_adj (sort values)"

definition sameStringSet :: "string list \<Rightarrow> string list \<Rightarrow> bool" where
  "sameStringSet left right \<longleftrightarrow> sortedUniqueStrings left = sortedUniqueStrings right"

locale slice_sort =
  fixes ord :: slice_order
  assumes order_permutes: "mset (ord ks) = mset [0..<length ks]"
    and order_sorts: "sorted (map ((!) ks) (ord ks))"
    and order_keeps: "sorted ks \<Longrightarrow> ord ks = [0..<length ks]"
begin

lemma mset_sort: "mset (sort_slice ord key xs) = mset xs"
proof -
  have "mset (sort_slice ord key xs) = image_mset ((!) xs) (mset (ord (map key xs)))"
    by (simp add: sort_slice_def)
  also have "\<dots> = mset (map ((!) xs) [0..<length xs])"
    by (simp only: order_permutes length_map mset_map)
  also have "\<dots> = mset xs" by (simp only: map_nth)
  finally show ?thesis .
qed

lemma set_sort: "set (sort_slice ord key xs) = set xs"
  using mset_sort by (metis set_mset_mset)

lemma length_sort: "length (sort_slice ord key xs) = length xs"
  using mset_sort by (metis size_mset)

lemma distinct_map_sort: "distinct (map f (sort_slice ord key xs)) = distinct (map f xs)"
  by (metis mset_sort mset_map mset_eq_imp_distinct_iff)

lemma sorted_sort: "sorted (map key (sort_slice ord key xs))"
proof -
  have "set (ord (map key xs)) = {..<length xs}"
    using order_permutes [of "map key xs"] by (metis atLeast_upt length_map set_mset_mset)
  then have "map key (sort_slice ord key xs) = map ((!) (map key xs)) (ord (map key xs))"
    by (auto simp: sort_slice_def)
  then show ?thesis by (simp only: order_sorts)
qed

lemma sort_sorted: "sorted (map key xs) \<Longrightarrow> sort_slice ord key xs = xs"
  by (simp add: sort_slice_def order_keeps map_nth)

lemma sort_idem: "sort_slice ord key (sort_slice ord key xs) = sort_slice ord key xs"
  by (rule sort_sorted) (rule sorted_sort)

text \<open>Where the key tells the elements apart, the result is a function of the multiset alone.\<close>

lemma sort_determined:
  assumes "mset xs = mset ys" "inj_on key (set xs)"
  shows "sort_slice ord key xs = sort_slice ord key ys"
proof -
  let ?l = "sort_slice ord key xs" and ?r = "sort_slice ord key ys"
  have m: "mset ?l = mset ?r" using assms(1) by (simp add: mset_sort)
  have "sort (map key ?r) = map key ?l" "sort (map key ?r) = map key ?r"
    by (intro properties_for_sort sorted_sort; simp add: m)+
  then have "map key ?l = map key ?r" by simp
  moreover have "set ?l = set xs" "set ?r = set xs"
    using mset_eq_setD [OF assms(1)] by (simp_all add: set_sort)
  ultimately show ?thesis
    using assms(2) by (intro map_inj_on [of key]) simp_all
qed

end

interpretation small: slice_sort insertion_order
proof
  fix ks :: "string list list"
  show "mset (insertion_order ks) = mset [0..<length ks]"
    by (simp add: insertion_order_def)
  show "sorted (map ((!) ks) (insertion_order ks))"
    by (simp add: insertion_order_def)
  assume "sorted ks"
  then show "insertion_order ks = [0..<length ks]"
    unfolding insertion_order_def by (intro sort_key_id_if_sorted) (simp add: map_nth)
qed

lemma orders_slices_iff: "orders_slices ord \<longleftrightarrow> slice_sort ord"
  by (auto simp: orders_slices_def slice_sort_def)

lemma orders_slicesD: "orders_slices ord \<Longrightarrow> slice_sort ord"
  by (simp add: orders_slices_iff)

lemma insertion_orders_slices [simp]: "orders_slices insertion_order"
  by (simp add: orders_slices_iff small.slice_sort_axioms)

section \<open>Sets of strings\<close>

lemma set_sortedUniqueStrings [simp]: "set (sortedUniqueStrings xs) = set xs"
  by (simp add: sortedUniqueStrings_def)

lemma distinct_remdups_adj: "sorted xs \<Longrightarrow> distinct (remdups_adj xs)"
  by (induction xs rule: remdups_adj.induct) force+

lemma distinct_sortedUniqueStrings [simp]: "distinct (sortedUniqueStrings xs)"
  by (simp add: sortedUniqueStrings_def distinct_remdups_adj)

lemma sorted_sortedUniqueStrings [simp]: "sorted (sortedUniqueStrings xs)"
  by (simp add: sortedUniqueStrings_def sorted_remdups_adj)

lemma sortedUniqueStrings_eq: "sortedUniqueStrings xs = sortedUniqueStrings ys \<longleftrightarrow> set xs = set ys"
  by (metis distinct_sortedUniqueStrings set_sortedUniqueStrings sorted_distinct_set_unique
      sorted_sortedUniqueStrings)

lemma sortedUniqueStrings_idem [simp]: "sortedUniqueStrings (sortedUniqueStrings xs) = sortedUniqueStrings xs"
  by (simp add: sortedUniqueStrings_eq)

lemma sortedUniqueStrings_Nil [simp]: "sortedUniqueStrings xs = [] \<longleftrightarrow> xs = []"
  by (metis set_empty set_sortedUniqueStrings)

lemma sameStringSet_iff: "sameStringSet left right \<longleftrightarrow> set left = set right"
  by (simp add: sameStringSet_def sortedUniqueStrings_eq)

end
