(* ===== verification/Plan_Types.thy ===== *)
theory Plan_Types
  imports Texts Slices
begin

text \<open>
  The values of action plans (\<^verbatim>\<open>internal/planning/planning.go\<close>) and the checks on each of
  them. A predicate is the code's one-of: a kind and six optional payloads, of which a valid
  predicate has exactly one. A Go map from configuration ids to revisions is the list of its
  entries, in the order a range visits them; a missing key reads as the empty text.
\<close>

section \<open>Vocabularies\<close>

datatype plan_status =
    StatusPreparing | StatusReady | StatusInvalid | StatusExpired | PlanStatusOther string

fun plan_status_valid :: "plan_status \<Rightarrow> bool" where
  "plan_status_valid (PlanStatusOther _) = False"
| "plan_status_valid _ = True"

datatype approval_kind =
    ApprovalNone | ApprovalRegistration | ApprovalImport | ApprovalAction | ApprovalKindOther string

fun approval_kind_valid :: "approval_kind \<Rightarrow> bool" where
  "approval_kind_valid (ApprovalKindOther _) = False"
| "approval_kind_valid _ = True"

fun approval_kind_text :: "approval_kind \<Rightarrow> string" where
  "approval_kind_text ApprovalNone = ''none''"
| "approval_kind_text ApprovalRegistration = ''registration''"
| "approval_kind_text ApprovalImport = ''import''"
| "approval_kind_text ApprovalAction = ''action''"
| "approval_kind_text (ApprovalKindOther s) = s"

datatype predicate_kind =
    PredicateFileContent | PredicateFileIdentity | PredicateHardlink | PredicateRegistration
  | PredicateImport | PredicateAvailability | PredicateRequest | PredicateEpisodeAssociation
  | PredicateSubtitleAssociation | PredicateKindOther string

fun predicate_kind_text :: "predicate_kind \<Rightarrow> string" where
  "predicate_kind_text PredicateFileContent = ''file_content''"
| "predicate_kind_text PredicateFileIdentity = ''file_identity''"
| "predicate_kind_text PredicateHardlink = ''hardlink''"
| "predicate_kind_text PredicateRegistration = ''arr_registration''"
| "predicate_kind_text PredicateImport = ''arr_import''"
| "predicate_kind_text PredicateAvailability = ''availability''"
| "predicate_kind_text PredicateRequest = ''request''"
| "predicate_kind_text PredicateEpisodeAssociation = ''episode_association''"
| "predicate_kind_text PredicateSubtitleAssociation = ''subtitle_association''"
| "predicate_kind_text (PredicateKindOther s) = s"

datatype mapping_confidence =
    MappingExact | MappingSuggested | MappingAmbiguous | MappingUnresolved
  | MappingConfidenceOther string

fun mapping_confidence_valid :: "mapping_confidence \<Rightarrow> bool" where
  "mapping_confidence_valid (MappingConfidenceOther _) = False"
| "mapping_confidence_valid _ = True"

fun mapping_confidence_text :: "mapping_confidence \<Rightarrow> string" where
  "mapping_confidence_text MappingExact = ''exact''"
| "mapping_confidence_text MappingSuggested = ''suggested''"
| "mapping_confidence_text MappingAmbiguous = ''ambiguous''"
| "mapping_confidence_text MappingUnresolved = ''unresolved''"
| "mapping_confidence_text (MappingConfidenceOther s) = s"

section \<open>Errors\<close>

text \<open>
  One constructor per error the code makes; \<open>plan_error_is\<close> is \<open>errors.Is\<close> on the exported
  errors. \<open>Build\<close> formats the errors of preconditions, capabilities, conflicts and impacts with
  \<^verbatim>\<open>%v\<close>, which keeps the text and loses the sentinel.
\<close>

datatype plan_sentinel =
    ErrInvalidPlan | ErrPlanConflict | ErrPlanExpired | ErrPlanRevision | ErrPlanDigest
  | ErrPlanBindingChanged | ErrManifestLimit | ErrAmbiguousMapping

datatype binding_error =
    SourceRequired | SourceDigestInvalid | ConnectionRevisionInvalid config_id
  | MappingRevisionInvalid config_id | ScopeReferencesInvalid | ScopeDuplicate config_id
  | ScopeUnfenced config_id

datatype evidence_error =
    PreconditionTargetRequired | PreconditionExpectedRequired | ImpactTargetRequired
  | ConflictMessageRequired | ConflictTargetRequired

datatype selection_error =
    SelectionTarget target_error | SelectionConfidence string | SelectionAmbiguous
  | SelectionSubtitleWithMedia | SelectionVideoWithPairing | SelectionOneIDSet
  | SelectionEpisodeEmpty | SelectionEpisodeRepeated

datatype registration_error =
    RegistrationIdentityRequired | RegistrationKindInvalid | RegistrationFieldsRequired
  | RegistrationSeriesTypeRequired | RegistrationSeasonEmpty

datatype episode_error =
    EpisodeIdentityRequired | EpisodeSourceInvalid target_error | EpisodeIDsRequired
  | EpisodeIDEmpty | SeasonNumberInvalid | AbsoluteNumberInvalid

datatype subtitle_error =
    SubtitleConnectionInvalid | SubtitleSourceInvalid target_error | SubtitlePairRequired
  | SubtitleVideoRequired | SubtitleVideoInvalid target_error | SubtitleVideoRepeated

datatype predicate_error =
    PredicateKindRequired | PredicatePayloadCount | PredicateKindUnsupported string
  | FileSourceUnexpected | FileTargetInvalid target_error | FileContentDigestRequired
  | FileIdentityRequired | HardlinkSourceRequired | HardlinkSourceInvalid target_error
  | HardlinkTargetInvalid target_error | HardlinkIdentical | HardlinkIdentityRequired
  | PayloadRequired | RegistrationError registration_error
  | ImportIdentityRequired | ImportEmpty | ImportSelectionAt nat selection_error | ImportSourceRepeated
  | ServiceIdentityRequired | ServiceValueRequired
  | EpisodeError episode_error | SubtitleError subtitle_error

datatype desired_error = DesiredEmpty | PredicateAt nat predicate_error | DesiredDuplicate

datatype plan_manifest_error =
    LimitsNegative | ManifestEmpty | ManifestDepth int | ManifestEntries int | ManifestBytes int
  | ManifestEntryInvalid manifest_error | ManifestDuplicate string | ManifestChildren int
  | ManifestOverlap | ManifestRequired string | DirectoryHardlink | RegistrationWithManifest

text \<open>How the desired state fits the action, the binding and the manifest.\<close>

datatype fit_error =
    NeedsRegistration | NeedsImport | NeedsFileContent | NeedsHardlink
  | ConnectionUnfenced config_id | ImportWithoutScope | ScopeMissing config_id config_id
  | MappingUnfenced config_id | ScopeAmbiguous config_id config_id
  | OutsideManifest | NotApprovedSubtitle | NotApprovedVideo

datatype plan_error =
    BindingError binding_error | DesiredError desired_error | ManifestError plan_manifest_error
  | FitError fit_error | EvidenceError evidence_error | CapabilityError capability_error
  | RevisionNegative | PlanIDFailed identity_error | ExpiryNotAfter | ActionUnsupported string
  | ApprovalUnsupported string | EstimateNegative
  | PreconditionAt nat evidence_error | CapabilityAt nat capability_error
  | ConflictAt nat evidence_error | ImpactAt nat evidence_error
  | PlanIdentityInvalid | PlanPreparing | PlanTimestamps | PlanDigestInvalid | PlanStatusMismatch
  | PlanBlockingMismatch | EncodeDigest
  | PlanConflict | PlanExpired | PlanRevision | PlanDigest | PlanIDChanged | BindingChanged string

fun selection_error_is :: "selection_error \<Rightarrow> plan_sentinel \<Rightarrow> bool" where
  "selection_error_is SelectionAmbiguous s = (s = ErrAmbiguousMapping)"
| "selection_error_is _ s = False"

fun predicate_error_is :: "predicate_error \<Rightarrow> plan_sentinel \<Rightarrow> bool" where
  "predicate_error_is (ImportSelectionAt _ e) s = (s = ErrInvalidPlan \<or> selection_error_is e s)"
| "predicate_error_is (EpisodeError EpisodeIDsRequired) s = (s = ErrAmbiguousMapping)"
| "predicate_error_is (SubtitleError SubtitlePairRequired) s = (s = ErrAmbiguousMapping)"
| "predicate_error_is (SubtitleError SubtitleVideoRequired) s = (s = ErrAmbiguousMapping)"
| "predicate_error_is _ s = (s = ErrInvalidPlan)"

fun desired_error_is :: "desired_error \<Rightarrow> plan_sentinel \<Rightarrow> bool" where
  "desired_error_is (PredicateAt _ e) s = (s = ErrInvalidPlan \<or> predicate_error_is e s)"
| "desired_error_is _ s = (s = ErrInvalidPlan)"

fun manifest_error_is :: "plan_manifest_error \<Rightarrow> plan_sentinel \<Rightarrow> bool" where
  "manifest_error_is (ManifestDepth _) s = (s = ErrManifestLimit)"
| "manifest_error_is (ManifestEntries _) s = (s = ErrManifestLimit)"
| "manifest_error_is (ManifestBytes _) s = (s = ErrManifestLimit)"
| "manifest_error_is (ManifestChildren _) s = (s = ErrManifestLimit)"
| "manifest_error_is _ s = (s = ErrInvalidPlan)"

fun plan_error_is :: "plan_error \<Rightarrow> plan_sentinel \<Rightarrow> bool" where
  "plan_error_is (DesiredError e) s = desired_error_is e s"
| "plan_error_is (ManifestError e) s = manifest_error_is e s"
| "plan_error_is (CapabilityError _) s = False"
| "plan_error_is (PreconditionAt _ _) s = False"
| "plan_error_is (CapabilityAt _ _) s = False"
| "plan_error_is (ConflictAt _ _) s = False"
| "plan_error_is (ImpactAt _ _) s = False"
| "plan_error_is PlanConflict s = (s = ErrPlanConflict)"
| "plan_error_is PlanExpired s = (s = ErrPlanExpired)"
| "plan_error_is PlanRevision s = (s = ErrPlanRevision)"
| "plan_error_is PlanDigest s = (s = ErrPlanDigest)"
| "plan_error_is PlanIDChanged s = (s = ErrPlanBindingChanged)"
| "plan_error_is (BindingChanged _) s = (s = ErrPlanBindingChanged)"
| "plan_error_is _ s = (s = ErrInvalidPlan)"

section \<open>Binding and review evidence\<close>

record mapping_scope =
  ms_mapping_id :: config_id
  ms_connection_id :: config_id
  ms_root_id :: config_id

type_synonym revision_map = "(config_id \<times> string) list"

definition revision_of :: "revision_map \<Rightarrow> config_id \<Rightarrow> string" where
  "revision_of m i = (case map_of m i of Some r \<Rightarrow> r | None \<Rightarrow> [])"

record binding =
  bd_source_id :: string
  bd_source_revision :: string
  bd_source_digest :: string
  bd_connection_revisions :: revision_map
  bd_mapping_revisions :: revision_map
  bd_mapping_scopes :: "mapping_scope list"

fun revisions_check :: "(config_id \<Rightarrow> binding_error) \<Rightarrow> revision_map \<Rightarrow> binding_error option" where
  "revisions_check err [] = None"
| "revisions_check err ((i, revision) # rest) =
     (if \<not> ConfigID_Valid i \<or> blank revision then Some (err i) else revisions_check err rest)"

fun scopes_check :: "revision_map \<Rightarrow> config_id list \<Rightarrow> mapping_scope list \<Rightarrow> binding_error option" where
  "scopes_check revisions seen [] = None"
| "scopes_check revisions seen (scope # rest) =
     (if \<not> ConfigID_Valid (ms_mapping_id scope) \<or> \<not> ConfigID_Valid (ms_connection_id scope)
         \<or> \<not> ConfigID_Valid (ms_root_id scope) then Some ScopeReferencesInvalid
      else if List.member seen (ms_mapping_id scope) then Some (ScopeDuplicate (ms_mapping_id scope))
      else if blank (revision_of revisions (ms_mapping_id scope)) then Some (ScopeUnfenced (ms_mapping_id scope))
      else scopes_check revisions (ms_mapping_id scope # seen) rest)"

definition Binding_Validate :: "binding \<Rightarrow> binding_error option" where
  "Binding_Validate b =
     (if blank (bd_source_id b) \<or> blank (bd_source_revision b) then Some SourceRequired
      else if bd_source_digest b \<noteq> [] \<and> \<not> strongDigest (bd_source_digest b) then Some SourceDigestInvalid
      else case revisions_check ConnectionRevisionInvalid (bd_connection_revisions b) of
        Some e \<Rightarrow> Some e
      | None \<Rightarrow>
      (case revisions_check MappingRevisionInvalid (bd_mapping_revisions b) of
         Some e \<Rightarrow> Some e
       | None \<Rightarrow> scopes_check (bd_mapping_revisions b) [] (bd_mapping_scopes b)))"

record precondition =
  pc_kind :: string
  pc_target :: string
  pc_expected :: string
  pc_required :: bool

definition Precondition_Validate :: "precondition \<Rightarrow> evidence_error option" where
  "Precondition_Validate p =
     (if blank (pc_kind p) \<or> blank (pc_target p) then Some PreconditionTargetRequired
      else if blank (pc_expected p) then Some PreconditionExpectedRequired
      else None)"

record impact =
  im_kind :: string
  im_target :: string
  im_message :: string

definition Impact_Validate :: "impact \<Rightarrow> evidence_error option" where
  "Impact_Validate i =
     (if blank (im_kind i) \<or> blank (im_target i) then Some ImpactTargetRequired else None)"

record plan_conflict =
  pcf_code :: string
  pcf_field :: string
  pcf_target :: string
  pcf_message :: string
  pcf_evidence :: "string list"
  pcf_blocking :: bool

definition Conflict_Validate :: "plan_conflict \<Rightarrow> evidence_error option" where
  "Conflict_Validate c =
     (if blank (pcf_code c) \<or> blank (pcf_message c) then Some ConflictMessageRequired
      else if blank (pcf_target c) then Some ConflictTargetRequired
      else None)"

section \<open>Predicates\<close>

record file_predicate =
  fp_source :: file_target
  fp_target :: file_target
  fp_size :: int
  fp_digest :: string
  fp_file_identity :: string

record registration_fields =
  rf_root_folder :: string
  rf_quality_profile_id :: string
  rf_monitored :: "bool option"
  rf_series_type :: string
  rf_season_folder :: "bool option"
  rf_seasons :: "string list"

record registration_predicate =
  rp_connection_id :: config_id
  rp_provider_id :: string
  rp_kind :: media_kind
  rp_external_id :: string
  rp_fields :: registration_fields

record import_selection =
  sel_source :: file_target
  sel_movie_or_episode_id :: string
  sel_episode_ids :: "string list"
  sel_subtitle :: bool
  sel_language :: string
  sel_forced :: bool
  sel_hearing_impaired :: bool
  sel_pair_id :: string
  sel_video_paths :: "file_target list"
  sel_confidence :: mapping_confidence

record import_predicate =
  ip_connection_id :: config_id
  ip_registered_external_id :: string
  ip_files :: "import_selection list"
  ip_transfer :: string

record service_predicate =
  sv_connection_id :: config_id
  sv_provider_id :: string
  sv_external_id :: string
  sv_value :: string

record episode_predicate =
  ep_connection_id :: config_id
  ep_source :: file_target
  ep_series_id :: string
  ep_episode_ids :: "string list"
  ep_season_number :: "int option"
  ep_absolute_number :: "int option"

record subtitle_predicate =
  sb_connection_id :: config_id
  sb_source :: file_target
  sb_video_paths :: "file_target list"
  sb_pair_id :: string
  sb_language :: string
  sb_forced :: bool
  sb_hearing_impaired :: bool

record predicate =
  pr_kind :: predicate_kind
  pr_file :: "file_predicate option"
  pr_registration :: "registration_predicate option"
  pr_import :: "import_predicate option"
  pr_service :: "service_predicate option"
  pr_episode :: "episode_predicate option"
  pr_subtitle :: "subtitle_predicate option"

definition no_target :: file_target where
  "no_target = \<lparr>ft_root_id = [], ft_relative_path = []\<rparr>"

definition empty_predicate :: "predicate_kind \<Rightarrow> predicate" where
  "empty_predicate k = \<lparr>pr_kind = k, pr_file = None, pr_registration = None, pr_import = None,
     pr_service = None, pr_episode = None, pr_subtitle = None\<rparr>"

definition NewFileContentPredicate :: "file_target \<Rightarrow> int \<Rightarrow> string \<Rightarrow> predicate" where
  "NewFileContentPredicate target sz digest =
     (empty_predicate PredicateFileContent)\<lparr>pr_file := Some \<lparr>fp_source = no_target, fp_target = target,
        fp_size = sz, fp_digest = digest, fp_file_identity = []\<rparr>\<rparr>"

definition NewFileIdentityPredicate :: "file_target \<Rightarrow> string \<Rightarrow> predicate" where
  "NewFileIdentityPredicate target ident =
     (empty_predicate PredicateFileIdentity)\<lparr>pr_file := Some \<lparr>fp_source = no_target, fp_target = target,
        fp_size = 0, fp_digest = [], fp_file_identity = ident\<rparr>\<rparr>"

definition NewHardlinkPredicate :: "file_target \<Rightarrow> file_target \<Rightarrow> string \<Rightarrow> predicate" where
  "NewHardlinkPredicate source target ident =
     (empty_predicate PredicateHardlink)\<lparr>pr_file := Some \<lparr>fp_source = source, fp_target = target,
        fp_size = 0, fp_digest = [], fp_file_identity = ident\<rparr>\<rparr>"

text \<open>\<open>cloneRegistrationFields\<close> copies the pointers and sorts the seasons.\<close>

definition cloneRegistrationFields :: "registration_fields \<Rightarrow> registration_fields" where
  "cloneRegistrationFields f = f\<lparr>rf_seasons := sortedUniqueStrings (rf_seasons f)\<rparr>"

definition NewRegistrationPredicate ::
  "config_id \<Rightarrow> string \<Rightarrow> media_kind \<Rightarrow> string \<Rightarrow> registration_fields \<Rightarrow> predicate" where
  "NewRegistrationPredicate connectionID providerID kind externalID f =
     (empty_predicate PredicateRegistration)\<lparr>pr_registration := Some \<lparr>rp_connection_id = connectionID,
        rp_provider_id = providerID, rp_kind = kind, rp_external_id = externalID,
        rp_fields = cloneRegistrationFields f\<rparr>\<rparr>"

definition NewImportPredicate :: "config_id \<Rightarrow> string \<Rightarrow> import_selection list \<Rightarrow> string \<Rightarrow> predicate" where
  "NewImportPredicate connectionID registeredExternalID files transfer =
     (empty_predicate PredicateImport)\<lparr>pr_import := Some \<lparr>ip_connection_id = connectionID,
        ip_registered_external_id = registeredExternalID, ip_files = files, ip_transfer = transfer\<rparr>\<rparr>"

definition NewAvailabilityPredicate :: "config_id \<Rightarrow> string \<Rightarrow> string \<Rightarrow> string \<Rightarrow> predicate" where
  "NewAvailabilityPredicate connectionID providerID externalID v =
     (empty_predicate PredicateAvailability)\<lparr>pr_service := Some \<lparr>sv_connection_id = connectionID,
        sv_provider_id = providerID, sv_external_id = externalID, sv_value = v\<rparr>\<rparr>"

definition NewRequestPredicate :: "config_id \<Rightarrow> string \<Rightarrow> string \<Rightarrow> string \<Rightarrow> predicate" where
  "NewRequestPredicate connectionID providerID externalID v =
     (empty_predicate PredicateRequest)\<lparr>pr_service := Some \<lparr>sv_connection_id = connectionID,
        sv_provider_id = providerID, sv_external_id = externalID, sv_value = v\<rparr>\<rparr>"

definition NewEpisodePredicate ::
  "config_id \<Rightarrow> file_target \<Rightarrow> string \<Rightarrow> string list \<Rightarrow> int option \<Rightarrow> int option \<Rightarrow> predicate" where
  "NewEpisodePredicate connectionID source seriesID episodeIDs seasonNumber absoluteNumber =
     (empty_predicate PredicateEpisodeAssociation)\<lparr>pr_episode := Some \<lparr>ep_connection_id = connectionID,
        ep_source = source, ep_series_id = seriesID, ep_episode_ids = episodeIDs,
        ep_season_number = seasonNumber, ep_absolute_number = absoluteNumber\<rparr>\<rparr>"

definition NewSubtitlePredicate ::
  "config_id \<Rightarrow> file_target \<Rightarrow> file_target list \<Rightarrow> string \<Rightarrow> string \<Rightarrow> bool \<Rightarrow> bool \<Rightarrow> predicate" where
  "NewSubtitlePredicate connectionID source videoPaths pairID language forced hearingImpaired =
     (empty_predicate PredicateSubtitleAssociation)\<lparr>pr_subtitle := Some \<lparr>sb_connection_id = connectionID,
        sb_source = source, sb_video_paths = videoPaths, sb_pair_id = pairID, sb_language = language,
        sb_forced = forced, sb_hearing_impaired = hearingImpaired\<rparr>\<rparr>"

end
