(* ===== verification/Plan_Predicates.thy ===== *)
theory Plan_Predicates
  imports Plan_Types
begin

text \<open>
  The checks on desired predicates (\<open>Predicate.Validate\<close> and the \<open>validate..\<close> functions it
  calls). A set the code collects while it ranges over a list is the list of the keys seen.
\<close>

definition fileTargetKey :: "file_target \<Rightarrow> string" where
  "fileTargetKey t = ft_root_id t @ CHR 0x00 # ft_relative_path t"

definition isZeroFileTarget :: "file_target \<Rightarrow> bool" where
  "isZeroFileTarget t \<longleftrightarrow> ft_root_id t = [] \<and> ft_relative_path t = []"

definition validMediaKind :: "media_kind \<Rightarrow> bool" where
  "validMediaKind k \<longleftrightarrow> k = MediaMovie \<or> k = MediaEpisode \<or> k = MediaSeason \<or> k = MediaAnime"

definition validateRegistration :: "registration_predicate \<Rightarrow> registration_error option" where
  "validateRegistration r =
     (let f = rp_fields r in
      if \<not> ConfigID_Valid (rp_connection_id r) \<or> blank (rp_provider_id r) then Some RegistrationIdentityRequired
      else if \<not> validMediaKind (rp_kind r) then Some RegistrationKindInvalid
      else if blank (rp_external_id r) \<and> (blank (rf_root_folder f) \<or> blank (rf_quality_profile_id f))
      then Some RegistrationFieldsRequired
      else if (rp_kind r = MediaEpisode \<or> rp_kind r = MediaSeason \<or> rp_kind r = MediaAnime)
              \<and> blank (rp_external_id r) \<and> blank (rf_series_type f)
      then Some RegistrationSeriesTypeRequired
      else if list_ex (\<lambda>season. blank season) (rf_seasons f) then Some RegistrationSeasonEmpty
      else None)"

fun episode_ids_check :: "string list \<Rightarrow> string list \<Rightarrow> selection_error option" where
  "episode_ids_check seen [] = None"
| "episode_ids_check seen (i # rest) =
     (if blank i then Some SelectionEpisodeEmpty
      else if List.member seen i then Some SelectionEpisodeRepeated
      else episode_ids_check (i # seen) rest)"

fun first_target_error :: "file_target list \<Rightarrow> target_error option" where
  "first_target_error [] = None"
| "first_target_error (t # ts) =
     (case FileTarget_Validate t of Some e \<Rightarrow> Some e | None \<Rightarrow> first_target_error ts)"

text \<open>The selection is checked with its confidence defaulted to exact.\<close>

definition effective_confidence :: "mapping_confidence \<Rightarrow> mapping_confidence" where
  "effective_confidence c = (if c = MappingConfidenceOther [] then MappingExact else c)"

definition ImportSelection_Validate :: "import_selection \<Rightarrow> selection_error option" where
  "ImportSelection_Validate s =
     (case FileTarget_Validate (sel_source s) of
        Some e \<Rightarrow> Some (SelectionTarget e)
      | None \<Rightarrow>
          let confidence = effective_confidence (sel_confidence s) in
          if \<not> mapping_confidence_valid confidence
          then Some (SelectionConfidence (mapping_confidence_text confidence))
          else if confidence = MappingAmbiguous \<or> confidence = MappingUnresolved then Some SelectionAmbiguous
          else if sel_subtitle s then
            (if blank (sel_pair_id s) \<or> blank (sel_language s) \<or> sel_video_paths s = []
             then Some SelectionAmbiguous
             else if sel_movie_or_episode_id s \<noteq> [] \<or> sel_episode_ids s \<noteq> []
             then Some SelectionSubtitleWithMedia
             else map_option SelectionTarget (first_target_error (sel_video_paths s)))
          else if \<not> blank (sel_pair_id s) \<or> sel_video_paths s \<noteq> [] then Some SelectionVideoWithPairing
          else if blank (sel_movie_or_episode_id s) = (sel_episode_ids s = []) then Some SelectionOneIDSet
          else episode_ids_check [] (sel_episode_ids s))"

fun import_files_check :: "string list \<Rightarrow> nat \<Rightarrow> import_selection list \<Rightarrow> predicate_error option" where
  "import_files_check seen index [] = None"
| "import_files_check seen index (s # rest) =
     (case ImportSelection_Validate s of
        Some e \<Rightarrow> Some (ImportSelectionAt index e)
      | None \<Rightarrow>
          if List.member seen (fileTargetKey (sel_source s)) then Some ImportSourceRepeated
          else import_files_check (fileTargetKey (sel_source s) # seen) (Suc index) rest)"

definition validateImport :: "import_predicate \<Rightarrow> predicate_error option" where
  "validateImport i =
     (if \<not> ConfigID_Valid (ip_connection_id i) \<or> blank (ip_registered_external_id i)
      then Some ImportIdentityRequired
      else if ip_files i = [] then Some ImportEmpty
      else import_files_check [] 0 (ip_files i))"

definition validateService :: "service_predicate \<Rightarrow> predicate_error option" where
  "validateService s =
     (if \<not> ConfigID_Valid (sv_connection_id s) \<or> blank (sv_provider_id s) then Some ServiceIdentityRequired
      else if blank (sv_value s) then Some ServiceValueRequired
      else None)"

definition negative :: "int option \<Rightarrow> bool" where
  "negative n = (case n of Some k \<Rightarrow> k < 0 | None \<Rightarrow> False)"

definition validateEpisode :: "episode_predicate \<Rightarrow> episode_error option" where
  "validateEpisode e =
     (if \<not> ConfigID_Valid (ep_connection_id e) \<or> blank (ep_series_id e) then Some EpisodeIdentityRequired
      else case FileTarget_Validate (ep_source e) of
        Some err \<Rightarrow> Some (EpisodeSourceInvalid err)
      | None \<Rightarrow>
          if ep_episode_ids e = [] then Some EpisodeIDsRequired
          else if list_ex (\<lambda>i. blank i) (ep_episode_ids e) then Some EpisodeIDEmpty
          else if negative (ep_season_number e) then Some SeasonNumberInvalid
          else if negative (ep_absolute_number e) then Some AbsoluteNumberInvalid
          else None)"

fun subtitle_videos_check :: "string list \<Rightarrow> file_target list \<Rightarrow> subtitle_error option" where
  "subtitle_videos_check seen [] = None"
| "subtitle_videos_check seen (video # rest) =
     (case FileTarget_Validate video of
        Some e \<Rightarrow> Some (SubtitleVideoInvalid e)
      | None \<Rightarrow>
          if List.member seen (fileTargetKey video) then Some SubtitleVideoRepeated
          else subtitle_videos_check (fileTargetKey video # seen) rest)"

definition validateSubtitle :: "subtitle_predicate \<Rightarrow> subtitle_error option" where
  "validateSubtitle s =
     (if \<not> ConfigID_Valid (sb_connection_id s) then Some SubtitleConnectionInvalid
      else case FileTarget_Validate (sb_source s) of
        Some e \<Rightarrow> Some (SubtitleSourceInvalid e)
      | None \<Rightarrow>
          if blank (sb_pair_id s) \<or> blank (sb_language s) then Some SubtitlePairRequired
          else if sb_video_paths s = [] then Some SubtitleVideoRequired
          else subtitle_videos_check [] (sb_video_paths s))"

section \<open>One predicate\<close>

definition payload_count :: "predicate \<Rightarrow> nat" where
  "payload_count p =
     (if pr_file p \<noteq> None then 1 else 0) + (if pr_registration p \<noteq> None then 1 else 0)
     + (if pr_import p \<noteq> None then 1 else 0) + (if pr_service p \<noteq> None then 1 else 0)
     + (if pr_episode p \<noteq> None then 1 else 0) + (if pr_subtitle p \<noteq> None then 1 else 0)"

definition check_file_content :: "file_predicate option \<Rightarrow> predicate_error option" where
  "check_file_content file =
     (case file of
        None \<Rightarrow> Some FileSourceUnexpected
      | Some f \<Rightarrow>
          if \<not> isZeroFileTarget (fp_source f) then Some FileSourceUnexpected
          else case FileTarget_Validate (fp_target f) of
            Some e \<Rightarrow> Some (FileTargetInvalid e)
          | None \<Rightarrow>
              if fp_size f < 0 \<or> \<not> strongDigest (fp_digest f) then Some FileContentDigestRequired else None)"

definition check_file_identity :: "file_predicate option \<Rightarrow> predicate_error option" where
  "check_file_identity file =
     (case file of
        None \<Rightarrow> Some FileSourceUnexpected
      | Some f \<Rightarrow>
          if \<not> isZeroFileTarget (fp_source f) then Some FileSourceUnexpected
          else case FileTarget_Validate (fp_target f) of
            Some e \<Rightarrow> Some (FileTargetInvalid e)
          | None \<Rightarrow> if blank (fp_file_identity f) then Some FileIdentityRequired else None)"

definition check_hardlink :: "file_predicate option \<Rightarrow> predicate_error option" where
  "check_hardlink file =
     (case file of
        None \<Rightarrow> Some HardlinkSourceRequired
      | Some f \<Rightarrow>
          if isZeroFileTarget (fp_source f) then Some HardlinkSourceRequired
          else case FileTarget_Validate (fp_source f) of
            Some e \<Rightarrow> Some (HardlinkSourceInvalid e)
          | None \<Rightarrow>
          (case FileTarget_Validate (fp_target f) of
             Some e \<Rightarrow> Some (HardlinkTargetInvalid e)
           | None \<Rightarrow>
               if ft_root_id (fp_source f) = ft_root_id (fp_target f)
                  \<and> ft_relative_path (fp_source f) = ft_relative_path (fp_target f)
               then Some HardlinkIdentical
               else if blank (fp_file_identity f) then Some HardlinkIdentityRequired
               else None))"

text \<open>The payload a kind requires, checked with \<open>check\<close>.\<close>

definition with_payload :: "('a \<Rightarrow> predicate_error option) \<Rightarrow> 'a option \<Rightarrow> predicate_error option" where
  "with_payload check payload = (case payload of None \<Rightarrow> Some PayloadRequired | Some x \<Rightarrow> check x)"

definition Predicate_Validate :: "predicate \<Rightarrow> predicate_error option" where
  "Predicate_Validate p =
     (if blank (predicate_kind_text (pr_kind p)) then Some PredicateKindRequired
      else if payload_count p \<noteq> 1 then Some PredicatePayloadCount
      else case pr_kind p of
        PredicateFileContent \<Rightarrow> check_file_content (pr_file p)
      | PredicateFileIdentity \<Rightarrow> check_file_identity (pr_file p)
      | PredicateHardlink \<Rightarrow> check_hardlink (pr_file p)
      | PredicateRegistration \<Rightarrow>
          with_payload (\<lambda>r. map_option RegistrationError (validateRegistration r)) (pr_registration p)
      | PredicateImport \<Rightarrow> with_payload validateImport (pr_import p)
      | PredicateAvailability \<Rightarrow> with_payload validateService (pr_service p)
      | PredicateRequest \<Rightarrow> with_payload validateService (pr_service p)
      | PredicateEpisodeAssociation \<Rightarrow>
          with_payload (\<lambda>e. map_option EpisodeError (validateEpisode e)) (pr_episode p)
      | PredicateSubtitleAssociation \<Rightarrow>
          with_payload (\<lambda>s. map_option SubtitleError (validateSubtitle s)) (pr_subtitle p)
      | PredicateKindOther s \<Rightarrow> Some (PredicateKindUnsupported s))"

section \<open>What the checks accept\<close>

lemma map_option_None_iff: "map_option f x = None \<longleftrightarrow> x = None"
  by (cases x) auto

lemma revisions_check_iff [valid_simps]:
  "revisions_check err m = None \<longleftrightarrow> (\<forall>(i, r)\<in>set m. ConfigID_Valid i \<and> \<not> blank r)"
  by (induction err m rule: revisions_check.induct) auto

lemma scopes_check_seen:
  "scopes_check revisions seen scopes = None \<longleftrightarrow>
     (\<forall>s\<in>set scopes. ConfigID_Valid (ms_mapping_id s) \<and> ConfigID_Valid (ms_connection_id s)
        \<and> ConfigID_Valid (ms_root_id s) \<and> \<not> blank (revision_of revisions (ms_mapping_id s)))
     \<and> distinct (map ms_mapping_id scopes) \<and> set (map ms_mapping_id scopes) \<inter> set seen = {}"
  by (induction revisions seen scopes rule: scopes_check.induct) auto

lemma scopes_check_iff [valid_simps]:
  "scopes_check revisions [] scopes = None \<longleftrightarrow>
     (\<forall>s\<in>set scopes. ConfigID_Valid (ms_mapping_id s) \<and> ConfigID_Valid (ms_connection_id s)
        \<and> ConfigID_Valid (ms_root_id s) \<and> \<not> blank (revision_of revisions (ms_mapping_id s)))
     \<and> distinct (map ms_mapping_id scopes)"
  by (simp add: scopes_check_seen)

lemma Binding_Validate_iff [valid_simps]:
  "Binding_Validate b = None \<longleftrightarrow>
     \<not> blank (bd_source_id b) \<and> \<not> blank (bd_source_revision b)
     \<and> (bd_source_digest b \<noteq> [] \<longrightarrow> strongDigest (bd_source_digest b))
     \<and> (\<forall>(i, r)\<in>set (bd_connection_revisions b). ConfigID_Valid i \<and> \<not> blank r)
     \<and> (\<forall>(i, r)\<in>set (bd_mapping_revisions b). ConfigID_Valid i \<and> \<not> blank r)
     \<and> scopes_check (bd_mapping_revisions b) [] (bd_mapping_scopes b) = None"
  unfolding Binding_Validate_def err_simps revisions_check_iff by auto

lemma episode_ids_check_seen:
  "episode_ids_check seen ids = None \<longleftrightarrow>
     (\<forall>i\<in>set ids. \<not> blank i) \<and> distinct ids \<and> set ids \<inter> set seen = {}"
  by (induction seen ids rule: episode_ids_check.induct) auto

lemma first_target_error_iff [valid_simps]:
  "first_target_error ts = None \<longleftrightarrow> (\<forall>t\<in>set ts. FileTarget_Validate t = None)"
  by (induction ts) (auto split: option.splits)

lemma import_files_check_seen:
  "import_files_check seen k files = None \<longleftrightarrow>
     (\<forall>s\<in>set files. ImportSelection_Validate s = None)
     \<and> distinct (map (fileTargetKey \<circ> sel_source) files)
     \<and> set (map (fileTargetKey \<circ> sel_source) files) \<inter> set seen = {}"
  by (induction seen k files rule: import_files_check.induct) (auto split: option.splits)

lemma subtitle_videos_check_seen:
  "subtitle_videos_check seen videos = None \<longleftrightarrow>
     (\<forall>t\<in>set videos. FileTarget_Validate t = None)
     \<and> distinct (map fileTargetKey videos) \<and> set (map fileTargetKey videos) \<inter> set seen = {}"
  by (induction seen videos rule: subtitle_videos_check.induct) (auto split: option.splits)

lemma ImportSelection_Validate_iff:
  "ImportSelection_Validate s = None \<longleftrightarrow>
     FileTarget_Validate (sel_source s) = None
     \<and> effective_confidence (sel_confidence s) \<in> {MappingExact, MappingSuggested}
     \<and> (if sel_subtitle s then
          \<not> blank (sel_pair_id s) \<and> \<not> blank (sel_language s) \<and> sel_video_paths s \<noteq> []
          \<and> sel_movie_or_episode_id s = [] \<and> sel_episode_ids s = []
          \<and> (\<forall>t\<in>set (sel_video_paths s). FileTarget_Validate t = None)
        else
          blank (sel_pair_id s) \<and> sel_video_paths s = []
          \<and> blank (sel_movie_or_episode_id s) \<noteq> (sel_episode_ids s = [])
          \<and> (\<forall>i\<in>set (sel_episode_ids s). \<not> blank i) \<and> distinct (sel_episode_ids s))"
  unfolding ImportSelection_Validate_def Let_def
  by (cases "effective_confidence (sel_confidence s)")
     (auto simp: episode_ids_check_seen first_target_error_iff map_option_None_iff split: option.splits)

lemma validateImport_iff:
  "validateImport i = None \<longleftrightarrow>
     ConfigID_Valid (ip_connection_id i) \<and> \<not> blank (ip_registered_external_id i) \<and> ip_files i \<noteq> []
     \<and> (\<forall>s\<in>set (ip_files i). ImportSelection_Validate s = None)
     \<and> distinct (map (fileTargetKey \<circ> sel_source) (ip_files i))"
  by (simp add: validateImport_def import_files_check_seen)

lemma validateEpisode_iff:
  "validateEpisode e = None \<longleftrightarrow>
     ConfigID_Valid (ep_connection_id e) \<and> \<not> blank (ep_series_id e)
     \<and> FileTarget_Validate (ep_source e) = None \<and> ep_episode_ids e \<noteq> []
     \<and> (\<forall>i\<in>set (ep_episode_ids e). \<not> blank i)
     \<and> \<not> negative (ep_season_number e) \<and> \<not> negative (ep_absolute_number e)"
  unfolding validateEpisode_def by (auto simp: list_ex_iff split: option.splits)

lemma validateSubtitle_iff:
  "validateSubtitle s = None \<longleftrightarrow>
     ConfigID_Valid (sb_connection_id s) \<and> FileTarget_Validate (sb_source s) = None
     \<and> \<not> blank (sb_pair_id s) \<and> \<not> blank (sb_language s) \<and> sb_video_paths s \<noteq> []
     \<and> (\<forall>t\<in>set (sb_video_paths s). FileTarget_Validate t = None)
     \<and> distinct (map fileTargetKey (sb_video_paths s))"
  unfolding validateSubtitle_def by (auto simp: subtitle_videos_check_seen split: option.splits)

text \<open>The payload a valid predicate of each kind has.\<close>

lemma valid_predicate_payload:
  assumes "Predicate_Validate p = None"
  shows "pr_kind p \<in> {PredicateFileContent, PredicateFileIdentity, PredicateHardlink} \<Longrightarrow> pr_file p \<noteq> None"
    and "pr_kind p = PredicateRegistration \<Longrightarrow> pr_registration p \<noteq> None"
    and "pr_kind p = PredicateImport \<Longrightarrow> pr_import p \<noteq> None"
    and "pr_kind p \<in> {PredicateAvailability, PredicateRequest} \<Longrightarrow> pr_service p \<noteq> None"
    and "pr_kind p = PredicateEpisodeAssociation \<Longrightarrow> pr_episode p \<noteq> None"
    and "pr_kind p = PredicateSubtitleAssociation \<Longrightarrow> pr_subtitle p \<noteq> None"
  using assms
  by (auto simp: Predicate_Validate_def with_payload_def check_file_content_def check_file_identity_def
      check_hardlink_def split: if_splits option.splits)

end
