(* ===== verification/Plan_Manifest.thy ===== *)
theory Plan_Manifest
  imports Plan_Predicates
begin

text \<open>
  Exact manifests of a plan (\<^verbatim>\<open>internal/planning/planning.go\<close>): the bounds, \<open>ValidateManifest\<close>
  with its running counters, the actions that need a manifest, and the members a desired state may
  refer to. \<open>ValidateManifest_iff\<close> says what the recursive visit with its counters amounts to.
\<close>

section \<open>Bounds\<close>

record manifest_limits =
  ml_max_entries :: int
  ml_max_depth :: int
  ml_max_children :: int
  ml_max_bytes :: int

definition DefaultManifestLimits :: manifest_limits where
  "DefaultManifestLimits = \<lparr>ml_max_entries = 10000, ml_max_depth = 64, ml_max_children = 10000,
     ml_max_bytes = 2 ^ 40\<rparr>"

definition normalized :: "manifest_limits \<Rightarrow> plan_manifest_error + manifest_limits" where
  "normalized limits =
     (if ml_max_entries limits < 0 \<or> ml_max_depth limits < 0 \<or> ml_max_children limits < 0
         \<or> ml_max_bytes limits < 0
      then Inl LimitsNegative
      else Inr \<lparr>
        ml_max_entries = (if ml_max_entries limits \<le> 0 then ml_max_entries DefaultManifestLimits else ml_max_entries limits),
        ml_max_depth = (if ml_max_depth limits \<le> 0 then ml_max_depth DefaultManifestLimits else ml_max_depth limits),
        ml_max_children = (if ml_max_children limits \<le> 0 then ml_max_children DefaultManifestLimits else ml_max_children limits),
        ml_max_bytes = (if ml_max_bytes limits \<le> 0 then ml_max_bytes DefaultManifestLimits else ml_max_bytes limits)\<rparr>)"

section \<open>Validation\<close>

definition entry_target :: "file_manifest_entry \<Rightarrow> file_target" where
  "entry_target e = \<lparr>ft_root_id = fm_root_id e, ft_relative_path = fm_relative_path e\<rparr>"

definition entry_key :: "file_manifest_entry \<Rightarrow> string" where
  "entry_key e = fileTargetKey (entry_target e)"

record visit_state =
  vs_count :: int
  vs_bytes :: int
  vs_seen :: "string list"

text \<open>What \<open>visit\<close> does with one entry before it turns to the children.\<close>

definition visit_here ::
  "manifest_limits \<Rightarrow> bool \<Rightarrow> nat \<Rightarrow> file_manifest_entry \<Rightarrow> visit_state \<Rightarrow> plan_manifest_error + visit_state"
where
  "visit_here limits requireDigest depth entry st0 =
     (if ml_max_depth limits < int depth then Inl (ManifestDepth (ml_max_depth limits))
      else
        let st = st0\<lparr>vs_count := vs_count st0 + 1\<rparr> in
        if ml_max_entries limits < vs_count st then Inl (ManifestEntries (ml_max_entries limits))
        else if fm_type entry \<noteq> ManifestDirectory \<and> ml_max_bytes limits - vs_bytes st < fm_size entry
        then Inl (ManifestBytes (ml_max_bytes limits))
        else
          let st1 = (if fm_type entry \<noteq> ManifestDirectory
                     then st\<lparr>vs_bytes := vs_bytes st + fm_size entry\<rparr> else st) in
          case FileManifestEntry_ValidateAction requireDigest entry of
            Some e \<Rightarrow> Inl (ManifestEntryInvalid e)
          | None \<Rightarrow>
              if List.member (vs_seen st1) (entry_key entry)
              then Inl (ManifestDuplicate (fm_relative_path entry))
              else if ml_max_children limits < int (length (fm_children entry))
              then Inl (ManifestChildren (ml_max_children limits))
              else Inr (st1\<lparr>vs_seen := entry_key entry # vs_seen st1\<rparr>))"

fun visit_entry ::
  "manifest_limits \<Rightarrow> bool \<Rightarrow> nat \<Rightarrow> file_manifest_entry \<Rightarrow> visit_state \<Rightarrow> plan_manifest_error + visit_state"
  and visit_entries ::
  "manifest_limits \<Rightarrow> bool \<Rightarrow> nat \<Rightarrow> file_manifest_entry list \<Rightarrow> visit_state \<Rightarrow> plan_manifest_error + visit_state"
where
  "visit_entry limits requireDigest depth (FileManifestEntry root rel ty sz dg ident role at cs) st =
     (case visit_here limits requireDigest depth (FileManifestEntry root rel ty sz dg ident role at cs) st of
        Inl e \<Rightarrow> Inl e
      | Inr st' \<Rightarrow> visit_entries limits requireDigest (Suc depth) cs st')"
| "visit_entries limits requireDigest depth [] st = Inr st"
| "visit_entries limits requireDigest depth (entry # rest) st =
     (case visit_entry limits requireDigest depth entry st of
        Inl e \<Rightarrow> Inl e
      | Inr st' \<Rightarrow> visit_entries limits requireDigest depth rest st')"

definition manifestOverlap :: "file_manifest_entry \<Rightarrow> file_manifest_entry \<Rightarrow> bool" where
  "manifestOverlap left right =
     (if fm_root_id left \<noteq> fm_root_id right then False
      else if fm_relative_path left = fm_relative_path right then True
      else fm_type left = ManifestDirectory \<and> has_prefix (fm_relative_path left @ ''/'') (fm_relative_path right)
         \<or> fm_type right = ManifestDirectory \<and> has_prefix (fm_relative_path right @ ''/'') (fm_relative_path left))"

fun entries_overlap :: "file_manifest_entry list \<Rightarrow> bool" where
  "entries_overlap [] = False"
| "entries_overlap (left # rest) \<longleftrightarrow> list_ex (manifestOverlap left) rest \<or> entries_overlap rest"

definition ValidateManifest ::
  "file_manifest_entry list \<Rightarrow> bool \<Rightarrow> manifest_limits \<Rightarrow> plan_manifest_error option" where
  "ValidateManifest entries requireDigest limits0 =
     (case normalized limits0 of
        Inl e \<Rightarrow> Some e
      | Inr limits \<Rightarrow>
          if entries = [] then Some ManifestEmpty
          else case visit_entries limits requireDigest 0 entries \<lparr>vs_count = 0, vs_bytes = 0, vs_seen = []\<rparr> of
            Inl e \<Rightarrow> Some e
          | Inr _ \<Rightarrow> if entries_overlap entries then Some ManifestOverlap else None)"

section \<open>Manifests and actions\<close>

fun has_directory :: "file_manifest_entry \<Rightarrow> bool" where
  "has_directory (FileManifestEntry root rel ty sz dg ident role at cs) \<longleftrightarrow>
     ty = ManifestDirectory \<or> list_ex has_directory cs"

definition validateManifestForAction ::
  "action_kind \<Rightarrow> file_manifest_entry list \<Rightarrow> manifest_limits \<Rightarrow> plan_manifest_error option" where
  "validateManifestForAction action entries limits =
     (let requireManifest = List.member [ActionFSCopy, ActionFSHardlink, ActionFSMove, ActionFSRename,
            ActionFSTrash, ActionFSRestore, ActionFSDelete, ActionArrImport] action in
      if \<not> requireManifest \<and> entries = [] then None
      else if entries = [] then Some (ManifestRequired (action_kind_text action))
      else
        let requireDigest = (action = ActionFSCopy \<or> action = ActionArrImport) in
        case ValidateManifest entries requireDigest limits of
          Some e \<Rightarrow> Some e
        | None \<Rightarrow>
            if action = ActionFSHardlink \<and> list_ex has_directory entries then Some DirectoryHardlink
            else if action = ActionArrRegistration \<and> entries \<noteq> [] then Some RegistrationWithManifest
            else None)"

section \<open>Members\<close>

text \<open>The map from keys to entries, later members of the walk replacing earlier ones.\<close>

definition flattenManifest :: "file_manifest_entry list \<Rightarrow> string \<Rightarrow> file_manifest_entry option" where
  "flattenManifest entries =
     fold (\<lambda>m f. f(entry_key m \<mapsto> m)) (concat (map manifest_members entries)) Map.empty"

definition isVideoManifestMember :: "file_manifest_entry \<Rightarrow> bool" where
  "isVideoManifestMember e =
     (if fm_type e \<noteq> ManifestFile \<or> fm_role e = RoleSubtitle \<or> fm_role e = RoleCompanion then False
      else fm_role e = ManifestRoleOther [] \<or> fm_role e = RoleVideo)"

definition isSubtitleManifestMember :: "file_manifest_entry \<Rightarrow> bool" where
  "isSubtitleManifestMember e =
     (if fm_type e = ManifestSubtitle then fm_role e = ManifestRoleOther [] \<or> fm_role e = RoleSubtitle
      else fm_type e = ManifestFile \<and> fm_role e = RoleSubtitle)"

section \<open>What an accepted manifest is\<close>

abbreviation all_members :: "file_manifest_entry list \<Rightarrow> file_manifest_entry list" where
  "all_members entries \<equiv> concat (map manifest_members entries)"

text \<open>The bytes of the objects that are not directories.\<close>

definition file_bytes :: "file_manifest_entry list \<Rightarrow> int" where
  "file_bytes ms = (\<Sum>m\<leftarrow>ms. if fm_type m \<noteq> ManifestDirectory then fm_size m else 0)"

text \<open>No entry lies more than \<open>max - depth\<close> levels below an entry at \<open>depth\<close>.\<close>

fun depth_within :: "int \<Rightarrow> int \<Rightarrow> file_manifest_entry \<Rightarrow> bool" where
  "depth_within bound depth (FileManifestEntry root rel ty sz dg ident role at cs) \<longleftrightarrow>
     depth \<le> bound \<and> list_all (depth_within bound (depth + 1)) cs"

lemma file_bytes_simps [simp]:
  "file_bytes [] = 0"
  "file_bytes (m # ms) = (if fm_type m \<noteq> ManifestDirectory then fm_size m else 0) + file_bytes ms"
  "file_bytes (ms @ ns) = file_bytes ms + file_bytes ns"
  by (simp_all add: file_bytes_def)

lemma file_bytes_nonneg: "\<forall>m\<in>set ms. 0 \<le> fm_size m \<Longrightarrow> 0 \<le> file_bytes ms"
  by (induction ms) auto

lemma action_members_valid:
  "FileManifestEntry_ValidateAction d e = None \<Longrightarrow> x \<in> set (manifest_members e) \<Longrightarrow>
     FileManifestEntry_ValidateAction d x = None"
proof (induction e arbitrary: x rule: file_manifest_entry.induct)
  case (FileManifestEntry root rel ty sz dg ident role at cs)
  let ?e = "FileManifestEntry root rel ty sz dg ident role at cs"
  note here = FileManifestEntry.prems(1) [unfolded FileManifestEntry_ValidateAction_iff [of d ?e]
      FileManifestEntry_Validate_iff [of ?e]]
  show ?case
  proof (cases "x = ?e")
    case True
    with FileManifestEntry.prems show ?thesis by simp
  next
    case False
    with FileManifestEntry.prems(2) obtain c where c: "c \<in> set cs" "x \<in> set (manifest_members c)"
      by auto
    with here have "FileManifestEntry_ValidateAction d c = None"
      by (cases "cs = []") auto
    from FileManifestEntry.IH [OF c(1) this c(2)] show ?thesis .
  qed
qed

lemma action_size_nonneg: "FileManifestEntry_ValidateAction d e = None \<Longrightarrow> 0 \<le> fm_size e"
  unfolding FileManifestEntry_ValidateAction_iff [of d e] FileManifestEntry_Validate_iff [of e] by simp

lemma members_bytes_nonneg:
  assumes "\<forall>e\<in>set es. FileManifestEntry_ValidateAction d e = None"
  shows "0 \<le> file_bytes (all_members es)"
proof (rule file_bytes_nonneg, rule ballI)
  fix m
  assume "m \<in> set (all_members es)"
  then obtain e where "e \<in> set es" "m \<in> set (manifest_members e)" by auto
  with assms action_members_valid have "FileManifestEntry_ValidateAction d m = None" by blast
  then show "0 \<le> fm_size m" by (rule action_size_nonneg)
qed

definition within_limits ::
  "manifest_limits \<Rightarrow> bool \<Rightarrow> nat \<Rightarrow> file_manifest_entry list \<Rightarrow> visit_state \<Rightarrow> bool" where
  "within_limits L d depth es st \<longleftrightarrow>
     (\<forall>e\<in>set es. FileManifestEntry_ValidateAction d e = None
        \<and> depth_within (ml_max_depth L) (int depth) e)
     \<and> (\<forall>m\<in>set (all_members es). int (length (fm_children m)) \<le> ml_max_children L)
     \<and> vs_count st + int (length (all_members es)) \<le> ml_max_entries L
     \<and> vs_bytes st + file_bytes (all_members es) \<le> ml_max_bytes L
     \<and> distinct (map entry_key (all_members es))
     \<and> set (map entry_key (all_members es)) \<inter> set (vs_seen st) = {}"

definition visited :: "file_manifest_entry list \<Rightarrow> visit_state \<Rightarrow> visit_state" where
  "visited es st = \<lparr>vs_count = vs_count st + int (length (all_members es)),
     vs_bytes = vs_bytes st + file_bytes (all_members es),
     vs_seen = rev (map entry_key (all_members es)) @ vs_seen st\<rparr>"

definition counters_ok :: "manifest_limits \<Rightarrow> visit_state \<Rightarrow> bool" where
  "counters_ok L st \<longleftrightarrow> vs_count st \<le> ml_max_entries L \<and> vs_bytes st \<le> ml_max_bytes L"

lemma visit_here_Inr:
  "visit_here L d depth e st = Inr st' \<longleftrightarrow>
     int depth \<le> ml_max_depth L \<and> vs_count st + 1 \<le> ml_max_entries L
     \<and> (fm_type e \<noteq> ManifestDirectory \<longrightarrow> vs_bytes st + fm_size e \<le> ml_max_bytes L)
     \<and> FileManifestEntry_ValidateAction d e = None
     \<and> entry_key e \<notin> set (vs_seen st) \<and> int (length (fm_children e)) \<le> ml_max_children L
     \<and> st' = \<lparr>vs_count = vs_count st + 1, vs_bytes = vs_bytes st + file_bytes [e],
               vs_seen = entry_key e # vs_seen st\<rparr>"
  by (cases st) (auto simp: visit_here_def Let_def not_less split: option.splits if_splits)

text \<open>An entry together with what is below it, and a list entry by entry.\<close>

lemma within_limits_node:
  fixes L d depth st root rel ty sz dg ident role at cs
  defines "e \<equiv> FileManifestEntry root rel ty sz dg ident role at cs"
  assumes "visit_here L d depth e st = Inr st'"
  shows "within_limits L d depth [e] st \<longleftrightarrow> within_limits L d (Suc depth) cs st'"
    and "visited [e] st = visited cs st'"
proof -
  note here = assms(2) [unfolded visit_here_Inr]
  have cs: "\<forall>c\<in>set cs. FileManifestEntry_ValidateAction d c = None"
    using here unfolding FileManifestEntry_ValidateAction_iff [of d e] FileManifestEntry_Validate_iff [of e]
    by (cases "cs = []") (auto simp: e_def)
  have m: "all_members [e] = e # all_members cs" by (simp add: e_def)
  have dw: "depth_within b (int depth) e \<longleftrightarrow>
      int depth \<le> b \<and> (\<forall>c\<in>set cs. depth_within b (int (Suc depth)) c)" for b
    by (auto simp: e_def list_all_iff add.commute)
  show "within_limits L d depth [e] st \<longleftrightarrow> within_limits L d (Suc depth) cs st'"
    unfolding within_limits_def m using here cs dw by (auto simp: e_def)
  show "visited [e] st = visited cs st'"
    unfolding visited_def m using here by simp
qed

lemma within_limits_here:
  assumes "within_limits L d depth [e] st"
  shows "\<exists>st'. visit_here L d depth e st = Inr st'"
proof (cases e)
  case (FileManifestEntry root rel ty sz dg ident role at cs)
  have v: "FileManifestEntry_ValidateAction d e = None" using assms by (simp add: within_limits_def)
  then have cs: "\<forall>c\<in>set cs. FileManifestEntry_ValidateAction d c = None"
    unfolding FileManifestEntry_ValidateAction_iff [of d e] FileManifestEntry_Validate_iff [of e]
    by (cases "cs = []") (auto simp: FileManifestEntry)
  have "all_members [e] = e # all_members cs" by (simp add: FileManifestEntry)
  then show ?thesis
    using assms v members_bytes_nonneg [OF cs] unfolding visit_here_Inr within_limits_def
    by (auto simp: FileManifestEntry)
qed

lemma within_limits_Cons:
  assumes "counters_ok L st"
  shows "within_limits L d depth (e # es) st \<longleftrightarrow>
     within_limits L d depth [e] st \<and> within_limits L d depth es (visited [e] st)"
proof -
  define A where "A = manifest_members e"
  define B where "B = all_members es"
  have split: "all_members (e # es) = A @ B" "all_members [e] = A" "all_members es = B"
    by (simp_all add: A_def B_def)
  have count: "vs_count st + (int (length A) + int (length B)) \<le> n \<Longrightarrow> vs_count st + int (length A) \<le> n" for n
    by linarith
  have bytes: "vs_bytes st + file_bytes A \<le> n"
    if "\<forall>e\<in>set es. FileManifestEntry_ValidateAction d e = None \<and> depth_within b k e"
      "vs_bytes st + (file_bytes A + file_bytes B) \<le> n" for n b k
    using that members_bytes_nonneg [of es d] split(3) by fastforce
  show ?thesis
    unfolding within_limits_def visited_def split
    by (simp add: ball_Un image_Un Int_Un_distrib Int_Un_distrib2 add.assoc Int_commute)
       (intro iffI; elim conjE; intro conjI;
        (assumption | erule count | rule bytes, assumption, assumption))
qed

lemma visited_Cons: "visited (e # es) st = visited es (visited [e] st)"
  by (simp add: visited_def)

lemma counters_ok_visited: "within_limits L d depth es st \<Longrightarrow> counters_ok L (visited es st)"
  by (simp add: within_limits_def counters_ok_def visited_def)

lemma visit_iff:
  "counters_ok L st \<Longrightarrow> visit_entry L d depth e st = Inr st' \<longleftrightarrow>
     within_limits L d depth [e] st \<and> st' = visited [e] st"
  "counters_ok L st \<Longrightarrow> visit_entries L d depth es st = Inr st' \<longleftrightarrow>
     within_limits L d depth es st \<and> st' = visited es st"
proof (induction L d depth e st and L d depth es st arbitrary: st' and st'
    rule: visit_entry_visit_entries.induct)
  case (1 L d depth root rel ty sz dg ident role at cs st)
  let ?e = "FileManifestEntry root rel ty sz dg ident role at cs"
  show ?case
  proof (cases "visit_here L d depth ?e st")
    case (Inl err)
    with within_limits_here [of L d depth ?e st] have "\<not> within_limits L d depth [?e] st" by auto
    with Inl show ?thesis by simp
  next
    case (Inr st1)
    then have "counters_ok L st1"
      using 1(2) by (auto simp: visit_here_Inr counters_ok_def)
    from 1(1) [OF Inr this] within_limits_node [OF Inr] Inr show ?thesis by simp
  qed
next
  case (2 L d depth st)
  then show ?case by (auto simp: within_limits_def visited_def counters_ok_def)
next
  case (3 L d depth e es st)
  show ?case
  proof (cases "visit_entry L d depth e st")
    case (Inl err)
    then have "visit_entry L d depth e st \<noteq> Inr (visited [e] st)" by simp
    then have "\<not> within_limits L d depth [e] st" unfolding 3(1) [OF 3(3)] by (simp only: simp_thms)
    then have "\<not> within_limits L d depth (e # es) st" unfolding within_limits_Cons [OF 3(3), of d depth e es] by (simp only: simp_thms)
    with Inl show ?thesis by simp
  next
    case (Inr st1)
    from Inr [unfolded 3(1) [OF 3(3)]] have w: "within_limits L d depth [e] st" "st1 = visited [e] st"
      by (rule conjunct1) (use Inr [unfolded 3(1) [OF 3(3)]] in \<open>rule conjunct2\<close>)
    have "counters_ok L st1" unfolding w(2) by (rule counters_ok_visited) (rule w(1))
    from 3(2) [OF Inr this] w(1) show ?thesis
      unfolding within_limits_Cons [OF 3(3), of d depth e es] visited_Cons [of e es st]
      by (simp only: visit_entries.simps Inr sum.case w simp_thms)
  qed
qed

lemma manifestOverlap_eq: "manifestOverlap = manifestEntriesOverlap"
  by (intro ext) (simp add: manifestOverlap_def manifestEntriesOverlap_def)

lemma entries_overlap_eq: "entries_overlap es = children_overlap es"
  by (induction es) (simp_all add: manifestOverlap_eq)

lemma normalized_Inr:
  "normalized limits = Inr L \<Longrightarrow>
     0 < ml_max_entries L \<and> 0 < ml_max_depth L \<and> 0 < ml_max_children L \<and> 0 < ml_max_bytes L"
  by (auto simp: normalized_def DefaultManifestLimits_def split: if_splits)

lemma normalized_idem: "normalized limits = Inr L \<Longrightarrow> normalized L = Inr L"
  by (cases L) (auto simp: normalized_def DefaultManifestLimits_def split: if_splits)

lemma ValidateManifest_iff:
  "ValidateManifest entries requireDigest limits = None \<longleftrightarrow>
     (\<exists>L. normalized limits = Inr L \<and> entries \<noteq> []
        \<and> (\<forall>e\<in>set entries. FileManifestEntry_ValidateAction requireDigest e = None
             \<and> depth_within (ml_max_depth L) 0 e)
        \<and> (\<forall>m\<in>set (all_members entries). int (length (fm_children m)) \<le> ml_max_children L)
        \<and> int (length (all_members entries)) \<le> ml_max_entries L
        \<and> file_bytes (all_members entries) \<le> ml_max_bytes L
        \<and> distinct (map entry_key (all_members entries))
        \<and> \<not> children_overlap entries)"
proof (cases "normalized limits")
  case (Inl e)
  then show ?thesis by (simp add: ValidateManifest_def)
next
  case (Inr L)
  let ?s = "\<lparr>vs_count = 0, vs_bytes = 0, vs_seen = []\<rparr>"
  have ok: "counters_ok L ?s" using normalized_Inr [OF Inr] by (simp add: counters_ok_def)
  have "(\<exists>st. visit_entries L requireDigest 0 entries ?s = Inr st)
      \<longleftrightarrow> within_limits L requireDigest 0 entries ?s"
    using visit_iff(2) [OF ok] by blast
  then have "ValidateManifest entries requireDigest limits = None \<longleftrightarrow>
      entries \<noteq> [] \<and> within_limits L requireDigest 0 entries ?s \<and> \<not> children_overlap entries"
    by (auto simp: ValidateManifest_def Inr entries_overlap_eq split: sum.splits)
  then show ?thesis by (auto simp: within_limits_def Inr)
qed

text \<open>A separator never occurs in a root id or a path, so the key tells targets apart.\<close>

lemma fileTargetKey_inj:
  assumes "CHR 0x00 \<notin> set (ft_root_id t)" "CHR 0x00 \<notin> set (ft_root_id u)"
    and "fileTargetKey t = fileTargetKey u"
  shows "t = u"
proof -
  obtain a x b y where t: "t = \<lparr>ft_root_id = a, ft_relative_path = x\<rparr>"
    and u: "u = \<lparr>ft_root_id = b, ft_relative_path = y\<rparr>"
    by (metis file_target.cases)
  from assms have ab: "CHR 0x00 \<notin> set a" "CHR 0x00 \<notin> set b" and eq: "a @ CHR 0x00 # x = b @ CHR 0x00 # y"
    by (simp_all add: t u fileTargetKey_def)
  from nul_split [OF eq ab] show ?thesis by (simp add: t u)
qed

lemma ConfigID_no_nul: "ConfigID_Valid i \<Longrightarrow> CHR 0x00 \<notin> set i"
  by (auto simp: ConfigID_Valid_iff isConfigIDChar_def list_all_iff Let_def)

lemma valid_target_key_inj:
  "FileTarget_Validate t = None \<Longrightarrow> FileTarget_Validate u = None \<Longrightarrow>
     fileTargetKey t = fileTargetKey u \<longleftrightarrow> t = u"
  using fileTargetKey_inj ConfigID_no_nul by (fastforce simp: FileTarget_Validate_iff)

end
