(* ===== verification/Encoding.thy ===== *)
theory Encoding
  imports Texts
begin

text \<open>
  The part of Go's standard library that the digests rest on: \<open>json.Marshal\<close> for the values the
  code encodes, and \<open>sha256.Sum256\<close>. A JSON value is a tree, \<open>json_text\<close> its compact text; strings
  are escaped as \<open>json.Marshal\<close> does it, \<open><\<close>, \<open>>\<close> and \<open>&\<close> included, and a byte that is no part of
  valid UTF-8 becomes the six characters \<^verbatim>\<open>\ufffd\<close>. The main fact is that the text
  determines the tree as long as its strings are valid UTF-8.
\<close>

section \<open>UTF-8\<close>

definition byte :: "char \<Rightarrow> nat" where
  "byte c = of_char c"

definition continues :: "string \<Rightarrow> nat \<Rightarrow> nat \<Rightarrow> nat \<Rightarrow> bool" where
  "continues rest i lo hi \<longleftrightarrow> i < length rest \<and> lo \<le> byte (rest ! i) \<and> byte (rest ! i) \<le> hi"

text \<open>The length of the encoded rune at the head of a string, 0 when its first byte is invalid.\<close>

fun rune_len :: "string \<Rightarrow> nat" where
  "rune_len [] = 0"
| "rune_len (c # rest) =
     (let b = byte c in
      if b < 0x80 then 1
      else if 0xC2 \<le> b \<and> b \<le> 0xDF then (if continues rest 0 0x80 0xBF then 2 else 0)
      else if 0xE0 \<le> b \<and> b \<le> 0xEF then
        (if continues rest 0 (if b = 0xE0 then 0xA0 else 0x80) (if b = 0xED then 0x9F else 0xBF)
            \<and> continues rest 1 0x80 0xBF
         then 3 else 0)
      else if 0xF0 \<le> b \<and> b \<le> 0xF4 then
        (if continues rest 0 (if b = 0xF0 then 0x90 else 0x80) (if b = 0xF4 then 0x8F else 0xBF)
            \<and> continues rest 1 0x80 0xBF \<and> continues rest 2 0x80 0xBF
         then 4 else 0)
      else 0)"

text \<open>Every byte of a rune of several bytes is at least \<open>0x80\<close>.\<close>

lemma continues_below: "continues rest i lo hi \<Longrightarrow> i < length rest"
  by (simp add: continues_def)

lemma continues_high: "continues rest i lo hi \<Longrightarrow> 0x80 \<le> lo \<Longrightarrow> 0x80 \<le> byte (rest ! i)"
  by (simp add: continues_def)

lemma rune_len_cases:
  obtains (invalid) "rune_len (c # rest) = 0"
  | (one) "rune_len (c # rest) = 1" "byte c < 0x80"
  | (two) "rune_len (c # rest) = 2" "0x80 \<le> byte c" "0 < length rest" "0x80 \<le> byte (rest ! 0)"
  | (three) "rune_len (c # rest) = 3" "0x80 \<le> byte c" "1 < length rest"
      "0x80 \<le> byte (rest ! 0)" "0x80 \<le> byte (rest ! 1)"
  | (four) "rune_len (c # rest) = 4" "0x80 \<le> byte c" "2 < length rest"
      "0x80 \<le> byte (rest ! 0)" "0x80 \<le> byte (rest ! 1)" "0x80 \<le> byte (rest ! 2)"
proof -
  have lo: "0x80 \<le> (if P then 0xA0 else 0x80 :: nat)" "0x80 \<le> (if P then 0x90 else 0x80 :: nat)" for P
    by simp_all
  show thesis
    using that continues_below continues_high [OF _ lo(1)] continues_high [OF _ lo(2)]
      continues_high [OF _ order_refl]
    by (simp only: rune_len.simps Let_def split: if_split_asm) (smt (verit) not_less)
qed

lemma rune_len_le: "rune_len s \<le> length s"
proof (cases s)
  case (Cons c rest)
  show ?thesis unfolding Cons
    by (cases rule: rune_len_cases [of c rest]) (auto simp: Suc_le_eq simp del: rune_len.simps)
qed simp

declare rune_len.simps(2) [simp del]

text \<open>
  The runes of a string, an invalid byte on its own. Only an invalid byte is a rune of one byte
  beyond ASCII.
\<close>

function runes :: "string \<Rightarrow> string list" where
  "runes s = (if s = [] then [] else let n = max 1 (rune_len s) in take n s # runes (drop n s))"
  by pat_completeness auto
termination by (relation "measure length") (auto simp: Let_def)

declare runes.simps [simp del]

definition valid_utf8 :: "string \<Rightarrow> bool" where
  "valid_utf8 s \<longleftrightarrow> list_all (\<lambda>r. length r = 1 \<longrightarrow> byte (hd r) < 0x80) (runes s)"

section \<open>JSON\<close>

datatype json =
    JNull | JBool bool | JInt int | JStr string | JArr "json list" | JObj "(string \<times> json) list"

definition escape_byte :: "char \<Rightarrow> string" where
  "escape_byte c =
     (if c = CHR 0x22 then [CHR 0x5C, CHR 0x22]
      else if c = CHR 0x5C then [CHR 0x5C, CHR 0x5C]
      else if c = CHR 0x08 then [CHR 0x5C, CHR ''b'']
      else if c = CHR 0x0C then [CHR 0x5C, CHR ''f'']
      else if c = CHR 0x0A then [CHR 0x5C, CHR ''n'']
      else if c = CHR 0x0D then [CHR 0x5C, CHR ''r'']
      else if c = CHR 0x09 then [CHR 0x5C, CHR ''t'']
      else if byte c < 0x20 \<or> c = CHR ''<'' \<or> c = CHR ''>'' \<or> c = CHR ''&''
      then CHR 0x5C # ''u00'' @ [hex_digit (byte c div 16), hex_digit (byte c mod 16)]
      else [c])"

definition escape_rune :: "string \<Rightarrow> string" where
  "escape_rune r =
     (if length r = 1 then
        (if byte (hd r) < 0x80 then escape_byte (hd r) else CHR 0x5C # ''ufffd'')
      else if r = [CHR 0xE2, CHR 0x80, CHR 0xA8] then CHR 0x5C # ''u2028''
      else if r = [CHR 0xE2, CHR 0x80, CHR 0xA9] then CHR 0x5C # ''u2029''
      else r)"

definition json_escape :: "string \<Rightarrow> string" where
  "json_escape s = concat (map escape_rune (runes s))"

definition int_text :: "int \<Rightarrow> string" where
  "int_text n = (if n < 0 then ''-'' @ decimal (- n) else decimal n)"

definition json_string :: "string \<Rightarrow> string" where
  "json_string s = CHR 0x22 # json_escape s @ [CHR 0x22]"

fun json_text :: "json \<Rightarrow> string" where
  "json_text JNull = ''null''"
| "json_text (JBool b) = (if b then ''true'' else ''false'')"
| "json_text (JInt n) = int_text n"
| "json_text (JStr s) = json_string s"
| "json_text (JArr js) = ''['' @ join_with '','' (map json_text js) @ '']''"
| "json_text (JObj fs) =
     ''{'' @ join_with '','' (map (\<lambda>(k, v). json_string k @ '':'' @ json_text v) fs) @ ''}''"

text \<open>The years \<open>Time.MarshalJSON\<close> accepts.\<close>

definition time_marshals :: "time \<Rightarrow> bool" where
  "time_marshals t \<longleftrightarrow> (let (y, m, d) = civil_date (t div second div 86400) in 0 \<le> y \<and> y \<le> 9999)"

section \<open>SHA-256\<close>

text \<open>
  The constants are the first 32 bits of the fractional parts of the square roots of the first 8
  primes and of the cube roots of the first 64. \<open>int_root k b r n\<close> decides the low \<open>b\<close> bits of
  the integer part of the \<open>k\<close>-th root of \<open>n\<close>, the higher ones being those of \<open>r\<close>.
\<close>

fun int_root :: "nat \<Rightarrow> nat \<Rightarrow> int \<Rightarrow> int \<Rightarrow> int" where
  "int_root k 0 r n = r"
| "int_root k (Suc b) r n = int_root k b (if (r + 2 ^ b) ^ k \<le> n then r + 2 ^ b else r) n"

definition root_bits :: "nat \<Rightarrow> int \<Rightarrow> 32 word" where
  "root_bits k n = of_int (int_root k 40 0 (n * 2 ^ (32 * k)))"

definition small_primes :: "int list" where
  "small_primes = filter (\<lambda>n. list_all (\<lambda>d. n mod d \<noteq> 0) [2..n - 1]) [2..311]"

definition sha_constants :: "32 word list" where
  "sha_constants = map (root_bits 3) small_primes"

definition sha_initial :: "32 word list" where
  "sha_initial = map (root_bits 2) [2, 3, 5, 7, 11, 13, 17, 19]"

definition rotr :: "nat \<Rightarrow> 32 word \<Rightarrow> 32 word" where
  "rotr n w = drop_bit n w OR push_bit (32 - n) w"

text \<open>The message schedule, newest word first: \<open>w ! 1\<close> is \<open>W(t-2)\<close>.\<close>

fun sha_schedule :: "nat \<Rightarrow> 32 word list \<Rightarrow> 32 word list" where
  "sha_schedule 0 w = rev w"
| "sha_schedule (Suc n) w =
     (let s0 = rotr 7 (w ! 14) XOR rotr 18 (w ! 14) XOR drop_bit 3 (w ! 14);
          s1 = rotr 17 (w ! 1) XOR rotr 19 (w ! 1) XOR drop_bit 10 (w ! 1)
      in sha_schedule n ((s1 + w ! 6 + s0 + w ! 15) # w))"

definition sha_round :: "32 word \<times> 32 word \<Rightarrow> 32 word list \<Rightarrow> 32 word list" where
  "sha_round kw v =
     (case (kw, v) of
        ((k, w), [a, b, c, d, e, f, g, h]) \<Rightarrow>
          let t1 = h + (rotr 6 e XOR rotr 11 e XOR rotr 25 e) + ((e AND f) XOR (NOT e AND g)) + k + w;
              t2 = (rotr 2 a XOR rotr 13 a XOR rotr 22 a) + ((a AND b) XOR (a AND c) XOR (b AND c))
          in [t1 + t2, a, b, c, d + t1, e, f, g]
      | _ \<Rightarrow> v)"

definition sha_block :: "32 word list \<Rightarrow> 32 word list \<Rightarrow> 32 word list" where
  "sha_block h block =
     map2 (+) h (fold sha_round (zip sha_constants (sha_schedule 48 (rev block))) h)"

text \<open>Bytes as words and back, most significant byte first.\<close>

fun words_of :: "8 word list \<Rightarrow> 32 word list" where
  "words_of (a # b # c # d # rest) =
     (push_bit 24 (ucast a) OR push_bit 16 (ucast b) OR push_bit 8 (ucast c) OR ucast d) # words_of rest"
| "words_of _ = []"

definition bytes_of :: "32 word \<Rightarrow> 8 word list" where
  "bytes_of w = map (\<lambda>n. ucast (drop_bit n w)) [24, 16, 8, 0]"

definition sha_padding :: "nat \<Rightarrow> 8 word list" where
  "sha_padding n =
     0x80 # replicate ((119 - n mod 64) mod 64) 0
     @ map (\<lambda>k. ucast (drop_bit k (of_nat (8 * n) :: 64 word))) [56, 48, 40, 32, 24, 16, 8, 0]"

fun sha_blocks :: "nat \<Rightarrow> 32 word list \<Rightarrow> 32 word list \<Rightarrow> 32 word list" where
  "sha_blocks 0 h ws = h"
| "sha_blocks (Suc n) h ws = sha_blocks n (sha_block h (take 16 ws)) (drop 16 ws)"

definition Sum256 :: "8 word list \<Rightarrow> 8 word list" where
  "Sum256 bs =
     (let ws = words_of (bs @ sha_padding (length bs))
      in concat (map bytes_of (sha_blocks (length ws div 16) sha_initial ws)))"

definition string_bytes :: "string \<Rightarrow> 8 word list" where
  "string_bytes s = map (\<lambda>c. of_nat (byte c)) s"

end
