(* ===== verification/Encoding_Facts.thy ===== *)
theory Encoding_Facts
  imports Encoding
begin

text \<open>
  The text of a JSON value determines the value as long as its strings are valid UTF-8
  (\<open>json_text_inj\<close>). The proof reads the text back: \<open>unescape\<close> for strings, \<open>digits_value\<close> for
  numbers.
\<close>

section \<open>Strings\<close>

lemma byte_char_of: "char_of (byte c) = c"
  by (simp add: byte_def)

lemma byte_lt: "byte c < 256"
  unfolding byte_def by (simp add: of_char_def) 

lemma byte_inj: "byte c = byte d \<longleftrightarrow> c = d"
  by (metis byte_char_of)

definition hex_value :: "char \<Rightarrow> nat" where
  "hex_value c = (case find_index (\<lambda>d. d = c) ''0123456789abcdef'' of Some n \<Rightarrow> n | None \<Rightarrow> 0)"

lemma hex_value_digit: "n < 16 \<Longrightarrow> hex_value (hex_digit n) = n"
proof -
  have "\<forall>n\<in>{0..<16}. hex_value (hex_digit n) = n" by code_simp
  then show "n < 16 \<Longrightarrow> hex_value (hex_digit n) = n" by auto
qed

text \<open>Reads an escaped string up to its closing quote.\<close>

definition unescape_short :: "char \<Rightarrow> char" where
  "unescape_short c =
     (if c = CHR ''b'' then CHR 0x08 else if c = CHR ''f'' then CHR 0x0C
      else if c = CHR ''n'' then CHR 0x0A else if c = CHR ''r'' then CHR 0x0D
      else if c = CHR ''t'' then CHR 0x09 else c)"

definition unescape_long :: "string \<Rightarrow> string" where
  "unescape_long h =
     (if h = ''2028'' then [CHR 0xE2, CHR 0x80, CHR 0xA8]
      else if h = ''2029'' then [CHR 0xE2, CHR 0x80, CHR 0xA9]
      else [char_of (16 * hex_value (h ! 2) + hex_value (h ! 3))])"

function unescape :: "string \<Rightarrow> (string \<times> string) option" where
  "unescape s =
     (if s = [] then None
      else if hd s = CHR 0x22 then Some ([], tl s)
      else if hd s \<noteq> CHR 0x5C then map_option (\<lambda>(x, r). (hd s # x, r)) (unescape (tl s))
      else if tl s = [] then None
      else if s ! 1 = CHR ''u'' then
        map_option (\<lambda>(x, r). (unescape_long (take 4 (drop 2 s)) @ x, r)) (unescape (drop 6 s))
      else map_option (\<lambda>(x, r). (unescape_short (s ! 1) # x, r)) (unescape (drop 2 s)))"
  by pat_completeness auto
termination by (relation "measure length") (auto simp: neq_Nil_conv)

declare unescape.simps [simp del]

lemma unescape_quote: "unescape (CHR 0x22 # r) = Some ([], r)"
  by (simp add: unescape.simps)

lemma unescape_copy:
  "c \<noteq> CHR 0x22 \<Longrightarrow> c \<noteq> CHR 0x5C \<Longrightarrow>
     unescape (c # t) = map_option (\<lambda>(x, r). (c # x, r)) (unescape t)"
  by (subst unescape.simps) simp

lemma unescape_pair:
  "c \<noteq> CHR ''u'' \<Longrightarrow>
     unescape (CHR 0x5C # c # t) = map_option (\<lambda>(x, r). (unescape_short c # x, r)) (unescape t)"
  by (subst unescape.simps) (simp add: numeral_2_eq_2)

lemma unescape_six:
  "unescape (CHR 0x5C # CHR ''u'' # a # b # c # d # t) =
     map_option (\<lambda>(x, r). (unescape_long [a, b, c, d] @ x, r)) (unescape t)"
  by (subst unescape.simps) (simp add: eval_nat_numeral)

lemma high_byte_copied:
  "0x80 \<le> byte c \<Longrightarrow> unescape (c # t) = map_option (\<lambda>(x, r). (c # x, r)) (unescape t)"
  by (rule unescape_copy) (auto simp: byte_def)

lemma unescape_byte: "unescape (escape_byte c @ t) = map_option (\<lambda>(x, r). (c # x, r)) (unescape t)"
proof -
  define S where "S = {CHR 0x22, CHR 0x5C, CHR 0x08, CHR 0x0C, CHR 0x0A, CHR 0x0D, CHR 0x09}"
  define L where "L = (byte c < 0x20 \<or> c = CHR ''<'' \<or> c = CHR ''>'' \<or> c = CHR ''&'')"
  consider (short) "c \<in> S" | (long) "c \<notin> S" "L" | (plain) "c \<notin> S" "\<not> L"
    by blast
  then show ?thesis
  proof cases
    case short
    then show ?thesis unfolding S_def
      by (elim insertE emptyE) (simp_all add: escape_byte_def unescape_pair unescape_short_def)
  next
    case long
    have d: "byte c div 16 < 16" using byte_lt [of c] by (simp add: less_mult_imp_div_less)
    have v: "unescape_long [CHR ''0'', CHR ''0'', hex_digit (byte c div 16), hex_digit (byte c mod 16)] = [c]"
      by (simp add: unescape_long_def hex_value_digit [OF d] hex_value_digit byte_char_of nth_Cons')
    from long(1) have "escape_byte c =
        CHR 0x5C # ''u00'' @ [hex_digit (byte c div 16), hex_digit (byte c mod 16)]"
      using long(2) unfolding escape_byte_def S_def L_def by (simp only: insert_iff empty_iff de_Morgan_disj simp_thms if_True if_False)
    then show ?thesis by (simp add: unescape_six v)
  next
    case plain
    then have "escape_byte c = [c]"
      unfolding escape_byte_def S_def L_def by (simp only: insert_iff empty_iff de_Morgan_disj simp_thms if_True if_False)
    with plain(1) show ?thesis unfolding S_def by (simp add: unescape_copy)
  qed
qed

lemma map_option_prefix:
  "map_option (\<lambda>(x, r). (a @ x, r)) (map_option (\<lambda>(x, r). (b @ x, r)) z) =
     map_option (\<lambda>(x, r). ((a @ b) @ x, r)) z"
  by (cases z) auto

lemma high_bytes_copied:
  "list_all (\<lambda>c. 0x80 \<le> byte c) u \<Longrightarrow> unescape (u @ t) = map_option (\<lambda>(x, r). (u @ x, r)) (unescape t)"
proof (induction u)
  case Nil
  show ?case by (cases "unescape t") auto
next
  case (Cons c u)
  then show ?case by (cases "unescape t") (auto simp: high_byte_copied)
qed

lemma unescape_rune:
  assumes "s \<noteq> []" "u = take (max 1 (rune_len s)) s" "length u = 1 \<longrightarrow> byte (hd u) < 0x80"
  shows "unescape (escape_rune u @ t) = map_option (\<lambda>(x, r). (u @ x, r)) (unescape t)"
proof (cases "length u = 1")
  case True
  then obtain c where "u = [c]" by (cases u) auto
  with assms(3) show ?thesis by (simp add: escape_rune_def unescape_byte)
next
  case False
  obtain c rest where s: "s = c # rest" using assms(1) by (cases s) auto
  have h: "list_all (\<lambda>c. 0x80 \<le> byte c) u"
    using False unfolding assms(2) s
    by (cases rule: rune_len_cases [of c rest])
       (auto simp: list_all_length nth_Cons less_Suc_eq_0_disj numeral_eq_Suc split: nat.splits)
  show ?thesis
    using False high_bytes_copied [OF h]
    by (auto simp: escape_rune_def unescape_six unescape_long_def)
qed

lemma unescape_escape:
  "valid_utf8 s \<Longrightarrow> unescape (json_escape s @ CHR 0x22 # r) = Some (s, r)"
proof (induction s rule: runes.induct)
  case (1 s)
  show ?case
  proof (cases "s = []")
    case True
    then show ?thesis by (simp add: json_escape_def runes.simps unescape_quote)
  next
    case False
    let ?n = "max 1 (rune_len s)"
    have r: "runes s = take ?n s # runes (drop ?n s)"
      using False by (subst runes.simps) (simp add: Let_def)
    then have "unescape (json_escape (drop ?n s) @ CHR 0x22 # r) = Some (drop ?n s, r)"
      using 1 False by (simp add: valid_utf8_def)
    moreover have "length (take ?n s) = 1 \<longrightarrow> byte (hd (take ?n s)) < 0x80"
      using 1(2) unfolding valid_utf8_def r list.pred_inject by (rule conjunct1)
    ultimately show ?thesis
      using unescape_rune [OF False refl] r by (simp add: json_escape_def)
  qed
qed

lemma json_string_inj:
  assumes "json_string s @ r = json_string s' @ r'" "valid_utf8 s" "valid_utf8 s'"
  shows "s = s' \<and> r = r'"
proof -
  have "json_escape s @ CHR 0x22 # r = json_escape s' @ CHR 0x22 # r'"
    using assms(1) by (simp add: json_string_def)
  then have "unescape (json_escape s @ CHR 0x22 # r) = unescape (json_escape s' @ CHR 0x22 # r')"
    by (rule arg_cong)
  then show ?thesis by (simp add: unescape_escape assms(2,3))
qed

section \<open>Numbers\<close>

definition is_digit :: "char \<Rightarrow> bool" where
  "is_digit c \<longleftrightarrow> List.member ''0123456789'' c"

definition digit_value :: "char \<Rightarrow> int" where
  "digit_value c = (case find_index (\<lambda>d. d = c) ''0123456789'' of Some n \<Rightarrow> int n | None \<Rightarrow> 0)"

definition digits_value :: "string \<Rightarrow> int" where
  "digits_value ds = foldl (\<lambda>v c. 10 * v + digit_value c) 0 ds"

lemma digit_facts: "0 \<le> n \<Longrightarrow> n < 10 \<Longrightarrow> is_digit (digit n) \<and> digit_value (digit n) = n"
proof -
  have "\<forall>n\<in>set [0..9]. is_digit (digit n) \<and> digit_value (digit n) = n" by code_simp
  then show "0 \<le> n \<Longrightarrow> n < 10 \<Longrightarrow> is_digit (digit n) \<and> digit_value (digit n) = n" by auto
qed

declare decimal.simps [simp del]

lemma decimal_facts:
  "0 \<le> n \<Longrightarrow> decimal n \<noteq> [] \<and> list_all is_digit (decimal n) \<and> digits_value (decimal n) = n"
proof (induction n rule: decimal.induct)
  case (1 n)
  show ?case
  proof (cases "n < 10")
    case True
    with 1 show ?thesis
      by (subst (1 2 3) decimal.simps) (simp add: digits_value_def digit_facts)
  next
    case False
    with 1 have "decimal (n div 10) \<noteq> [] \<and> list_all is_digit (decimal (n div 10))
        \<and> digits_value (decimal (n div 10)) = n div 10" by simp
    with False show ?thesis
      by (subst (1 2 3) decimal.simps) (simp add: digits_value_def digit_facts)
  qed
qed

lemma digits_prefix:
  assumes "xs @ r = ys @ t" "list_all is_digit xs" "list_all is_digit ys"
    and "r \<noteq> [] \<Longrightarrow> \<not> is_digit (hd r)" "t \<noteq> [] \<Longrightarrow> \<not> is_digit (hd t)"
  shows "xs = ys \<and> r = t"
  using assms
proof (induction xs arbitrary: ys)
  case Nil
  then show ?case by (cases ys) auto
next
  case (Cons x xs)
  then show ?case by (cases ys) auto
qed

definition ends :: "string \<Rightarrow> bool" where
  "ends r \<longleftrightarrow> r = [] \<or> hd r = CHR '','' \<or> hd r = CHR '']'' \<or> hd r = CHR ''}''"

lemma ends_not_digit: "ends r \<Longrightarrow> r \<noteq> [] \<Longrightarrow> \<not> is_digit (hd r)"
  by (auto simp: ends_def is_digit_def)

lemma int_text_head: "int_text n \<noteq> [] \<and> (hd (int_text n) = CHR ''-'' \<or> is_digit (hd (int_text n)))"
proof (cases "n < 0")
  case True
  then show ?thesis by (simp add: int_text_def)
next
  case False
  with decimal_facts [of n] show ?thesis by (cases "decimal n") (auto simp: int_text_def)
qed

lemma int_text_inj:
  assumes "int_text n @ r = int_text m @ t" "ends r" "ends t"
  shows "n = m \<and> r = t"
proof -
  have nd: "\<not> is_digit CHR ''-''" by (simp add: is_digit_def)
  have pos: "a = b \<and> r = t" if "decimal a @ r = decimal b @ t" "0 \<le> a" "0 \<le> b" for a b
    using digits_prefix [OF that(1)] decimal_facts [OF that(2)] decimal_facts [OF that(3)]
      ends_not_digit assms(2,3) by metis
  have sign: "decimal a @ r \<noteq> CHR ''-'' # u" if "0 \<le> a" for a r u
    using decimal_facts [OF that] nd by (cases "decimal a") auto
  show ?thesis
  proof (cases "n < 0"; cases "m < 0")
    assume "n < 0" "m < 0"
    then show ?thesis using assms(1) pos [of "- n" "- m"] by (simp add: int_text_def)
  next
    assume "n < 0" "\<not> m < 0"
    then show ?thesis using assms(1) sign [of m t] by (simp add: int_text_def) metis
  next
    assume "\<not> n < 0" "m < 0"
    then show ?thesis using assms(1) sign [of n r] by (simp add: int_text_def)
  next
    assume "\<not> n < 0" "\<not> m < 0"
    then show ?thesis using assms(1) pos [of n m] by (simp add: int_text_def)
  qed
qed

section \<open>Trees\<close>

fun json_utf8 :: "json \<Rightarrow> bool" where
  "json_utf8 (JStr s) = valid_utf8 s"
| "json_utf8 (JArr js) = list_all json_utf8 js"
| "json_utf8 (JObj fs) = list_all (\<lambda>(k, v). valid_utf8 k \<and> json_utf8 v) fs"
| "json_utf8 _ = True"

text \<open>\<open>f x\<close> is read back unambiguously whatever follows it.\<close>

definition decodable :: "('a \<Rightarrow> string) \<Rightarrow> ('a \<Rightarrow> bool) \<Rightarrow> 'a \<Rightarrow> bool" where
  "decodable f P x \<longleftrightarrow>
     (\<forall>y r t. P y \<longrightarrow> ends r \<longrightarrow> ends t \<longrightarrow> f x @ r = f y @ t \<longrightarrow> x = y \<and> r = t)"

lemma join_items_inj:
  assumes "\<forall>x\<in>set xs. decodable f P x" "\<forall>y\<in>set ys. P y" "\<And>x. f x \<noteq> [] \<and> hd (f x) \<noteq> c"
    and "c = CHR '']'' \<or> c = CHR ''}''"
    and "join_with '','' (map f xs) @ c # r = join_with '','' (map f ys) @ c # t"
  shows "xs = ys \<and> r = t"
  using assms(1,2,5)
proof (induction xs arbitrary: ys)
  case Nil
  have ne: "f y @ u \<noteq> c # r" for y u using assms(3) [of y] by (cases "f y") auto
  show ?case
  proof (cases ys)
    case Nil
    with Nil.prems show ?thesis by simp
  next
    case (Cons y ys')
    with Nil.prems ne [of y] show ?thesis by (cases ys') (auto dest: sym)
  qed
next
  case (Cons x xs)
  have ne: "f x @ u \<noteq> c # t" for u using assms(3) [of x] by (cases "f x") auto
  have ec: "ends (c # u)" for u using assms(4) by (auto simp: ends_def)
  have em: "ends (CHR '','' # u)" for u by (simp add: ends_def)
  have nc: "CHR '','' \<noteq> c" using assms(4) by auto
  have tail: "join_with '','' (map f (z # zs)) @ c # u =
      f z @ (if zs = [] then c # u else CHR '','' # join_with '','' (map f zs) @ c # u)" for z zs u
    by (cases zs) auto
  obtain y ys' where ys: "ys = y # ys'"
    using Cons.prems(3) ne tail [of x xs r] by (cases ys) auto
  let ?rest = "\<lambda>zs u. if zs = [] then c # u else CHR '','' # join_with '','' (map f zs) @ c # u"
  have "f x @ ?rest xs r = f y @ ?rest ys' t"
    using Cons.prems(3) unfolding ys tail .
  moreover have "ends (?rest xs r)" "ends (?rest ys' t)" using ec em by simp_all
  moreover have "decodable f P x" "P y" using Cons.prems(1,2) ys by auto
  ultimately have xy: "x = y" and rest: "?rest xs r = ?rest ys' t"
    unfolding decodable_def by blast+
  show ?case
  proof (cases "xs = []"; cases "ys' = []")
    assume "xs = []" "ys' = []"
    with xy ys rest show ?thesis by simp
  next
    assume "xs = []" "ys' \<noteq> []"
    with rest nc show ?thesis by simp
  next
    assume "xs \<noteq> []" "ys' = []"
    with rest nc show ?thesis by simp
  next
    assume "xs \<noteq> []" "ys' \<noteq> []"
    with rest have "join_with '','' (map f xs) @ c # r = join_with '','' (map f ys') @ c # t" by simp
    with Cons.IH [of ys'] Cons.prems(1,2) ys xy show ?thesis by simp
  qed
qed

definition opener :: "char \<Rightarrow> bool" where
  "opener c \<longleftrightarrow> c \<noteq> CHR '']'' \<and> c \<noteq> CHR ''}''"

lemma digit_opener: "is_digit c \<Longrightarrow> opener c"
  by (auto simp: is_digit_def opener_def)

lemma json_text_head: "json_text j \<noteq> [] \<and> opener (hd (json_text j))"
proof (cases j)
  case (JInt n)
  with int_text_head [of n] digit_opener show ?thesis by (auto simp: opener_def)
qed (auto simp: json_string_def opener_def)

text \<open>The first byte of the text tells the constructor.\<close>

fun json_head :: "json \<Rightarrow> char \<Rightarrow> bool" where
  "json_head JNull c = (c = CHR ''n'')"
| "json_head (JBool b) c = (c = (if b then CHR ''t'' else CHR ''f''))"
| "json_head (JInt _) c = (c = CHR ''-'' \<or> is_digit c)"
| "json_head (JStr _) c = (c = CHR 0x22)"
| "json_head (JArr _) c = (c = CHR ''['')"
| "json_head (JObj _) c = (c = CHR ''{'')"

lemma json_head_text: "json_head j (hd (json_text j @ r))"
  using int_text_head by (cases j) (auto simp: json_string_def)

fun json_tag :: "json \<Rightarrow> nat" where
  "json_tag JNull = 0" | "json_tag (JBool b) = (if b then 1 else 2)" | "json_tag (JInt _) = 3"
| "json_tag (JStr _) = 4" | "json_tag (JArr _) = 5" | "json_tag (JObj _) = 6"

lemma json_head_tag: "json_head j c \<Longrightarrow> json_head k c \<Longrightarrow> json_tag j = json_tag k"
  by (cases j; cases k) (auto simp: is_digit_def split: if_splits)

lemma same_tag: "json_text j @ r = json_text k @ t \<Longrightarrow> json_tag j = json_tag k"
  using json_head_tag json_head_text by metis

lemma json_field_inj:
  assumes "json_string k @ '':'' @ json_text v @ r = json_string k' @ '':'' @ json_text v' @ t"
    and "decodable json_text json_utf8 v" "valid_utf8 k" "valid_utf8 k'" "json_utf8 v'" "ends r" "ends t"
  shows "k = k' \<and> v = v' \<and> r = t"
proof -
  have k: "k = k' \<and> '':'' @ json_text v @ r = '':'' @ json_text v' @ t"
    by (rule json_string_inj) (use assms in simp_all)
  then have "json_text v @ r = json_text v' @ t" by simp
  with assms(2,5,6,7) k show ?thesis unfolding decodable_def by blast
qed

lemma json_text_decodable: "json_utf8 j \<Longrightarrow> decodable json_text json_utf8 j"
proof (induction j)
  case JNull
  have "JNull = k \<and> r = t" if "json_text JNull @ r = json_text k @ t" for k r t
    using that same_tag [OF that] by (cases k) (auto split: if_splits)
  then show ?case unfolding decodable_def by blast
next
  case (JBool b)
  have "JBool b = k \<and> r = t" if "json_text (JBool b) @ r = json_text k @ t" for k r t
    using that same_tag [OF that] by (cases k) (auto split: if_splits)
  then show ?case unfolding decodable_def by blast
next
  case (JInt n)
  have "JInt n = k \<and> r = t" if "json_text (JInt n) @ r = json_text k @ t" "ends r" "ends t" for k r t
    using that same_tag [OF that(1)] int_text_inj [of n r _ t]
    by (cases k) (auto split: if_splits)
  then show ?case unfolding decodable_def by blast
next
  case (JStr s)
  have "JStr s = k \<and> r = t" if "json_text (JStr s) @ r = json_text k @ t" "json_utf8 k" for k r t
    using that same_tag [OF that(1)] json_string_inj [of s r _ t] JStr
    by (cases k) (auto split: if_splits)
  then show ?case unfolding decodable_def by blast
next
  case (JArr js)
  have items: "\<forall>x\<in>set js. decodable json_text json_utf8 x"
    using JArr by (auto simp: list_all_iff)
  have "JArr js = k \<and> r = t" if eq: "json_text (JArr js) @ r = json_text k @ t" and k: "json_utf8 k" for k r t
  proof -
    from same_tag [OF eq] obtain ks where ks: "k = JArr ks" by (cases k) (auto split: if_splits)
    have "js = ks \<and> r = t"
      by (rule join_items_inj [OF items, where c = "CHR '']''"])
         (use eq k ks json_text_head in \<open>auto simp: list_all_iff opener_def\<close>)
    with ks show ?thesis by simp
  qed
  then show ?case unfolding decodable_def by blast
next
  case (JObj fs)
  let ?f = "\<lambda>(k, v). json_string k @ '':'' @ json_text v"
  let ?P = "\<lambda>(k, v). valid_utf8 k \<and> json_utf8 v"
  have items: "\<forall>x\<in>set fs. decodable ?f ?P x"
  proof
    fix x
    assume x: "x \<in> set fs"
    obtain k v where xe: "x = (k, v)" by (cases x)
    from JObj(2) x xe have k: "valid_utf8 k" and jv: "json_utf8 v" by (auto simp: list_all_iff)
    have v: "decodable json_text json_utf8 v" using JObj(1) [of x v] x xe jv by simp
    show "decodable ?f ?P x"
      unfolding decodable_def
    proof (intro allI impI)
      fix y r t
      assume y: "?P y" and e: "ends r" "ends t" and eq: "?f x @ r = ?f y @ t"
      obtain k' v' where ye: "y = (k', v')" by (cases y)
      have "json_string k @ '':'' @ json_text v @ r = json_string k' @ '':'' @ json_text v' @ t"
        using eq unfolding xe ye prod.case append_assoc .
      from json_field_inj [OF this v k _ _ e] y
      show "x = y \<and> r = t" unfolding xe ye by simp
    qed
  qed
  have "JObj fs = k \<and> r = t" if eq: "json_text (JObj fs) @ r = json_text k @ t" and k: "json_utf8 k" for k r t
  proof -
    from same_tag [OF eq] obtain ks where ks: "k = JObj ks" by (cases k) (auto split: if_splits)
    have "fs = ks \<and> r = t"
      by (rule join_items_inj [OF items, where c = "CHR ''}''"])
         (use eq k ks in \<open>auto simp: list_all_iff json_string_def\<close>)
    with ks show ?thesis by simp
  qed
  then show ?case unfolding decodable_def by blast
qed

theorem json_text_inj:
  assumes "json_utf8 j" "json_utf8 k" "json_text j = json_text k"
  shows "j = k"
  using json_text_decodable [OF assms(1)] assms(2,3) unfolding decodable_def
  by (metis append_Nil2 ends_def)

end
