(* ===== verification/Go_Library.thy ===== *)
theory Go_Library
  imports Slices Encoding
begin

text \<open>
  What the code uses of Go's packages \<open>strings\<close>, \<open>path\<close>, \<open>strconv\<close> and \<open>fmt\<close> beyond the prelude.
  The argument \<open>L\<close> stands for the parts whose result is left open here: the order \<open>sort.Slice\<close> gives
  to equal keys, and \<open>strings.ToLower\<close> on texts that are not ASCII.
\<close>

record go_library =
  gl_order :: slice_order
  gl_lower :: "string \<Rightarrow> string"

definition to_lower :: "go_library \<Rightarrow> string \<Rightarrow> string" where
  "to_lower L s = (if list_all (\<lambda>c. byte c < 0x80) s then ascii_lower s else gl_lower L s)"

section \<open>strings\<close>

fun contains_text :: "string \<Rightarrow> string \<Rightarrow> bool" where
  "contains_text [] sub \<longleftrightarrow> sub = []"
| "contains_text (c # s) sub \<longleftrightarrow> has_prefix sub (c # s) \<or> contains_text s sub"

definition trim_suffix :: "string \<Rightarrow> string \<Rightarrow> string" where
  "trim_suffix p s = (if has_suffix p s then take (length s - length p) s else s)"

text \<open>\<open>strings.Trim\<close> with a set of ASCII characters.\<close>

definition trim_chars :: "string \<Rightarrow> string \<Rightarrow> string" where
  "trim_chars cutset s =
     rev (dropWhile (\<lambda>c. c \<in> set cutset) (rev (dropWhile (\<lambda>c. c \<in> set cutset) s)))"

text \<open>\<open>strings.LastIndexAny\<close> with a set of ASCII characters; \<open>None\<close> is -1.\<close>

definition last_index_any :: "string \<Rightarrow> string \<Rightarrow> nat option" where
  "last_index_any s chars =
     map_option (\<lambda>k. length s - 1 - k) (find_index (\<lambda>c. c \<in> set chars) (rev s))"

section \<open>path\<close>

text \<open>The text after the last slash, and the text up to and with it.\<close>

definition after_slash :: "string \<Rightarrow> string" where
  "after_slash p = rev (takeWhile (\<lambda>c. c \<noteq> slash) (rev p))"

definition upto_slash :: "string \<Rightarrow> string" where
  "upto_slash p = take (length p - length (after_slash p)) p"

definition path_base :: "string \<Rightarrow> string" where
  "path_base p =
     (if p = [] then ''.''
      else
        let q = rev (dropWhile (\<lambda>c. c = slash) (rev p)) in
        if after_slash q = [] then ''/'' else after_slash q)"

definition path_dir :: "string \<Rightarrow> string" where
  "path_dir p = path_clean (upto_slash p)"

text \<open>The suffix that begins at the last dot of the last element.\<close>

definition path_ext :: "string \<Rightarrow> string" where
  "path_ext p =
     (let e = after_slash p; tail = takeWhile (\<lambda>c. c \<noteq> CHR ''.'') (rev e) in
      if length tail = length e then [] else CHR ''.'' # rev tail)"

section \<open>strconv and fmt\<close>

text \<open>\<open>strconv.Atoi\<close> on a text of at most four digits, which never fails.\<close>

definition atoi :: "string \<Rightarrow> int" where
  "atoi s = foldl (\<lambda>n c. n * 10 + (int (byte c) - 48)) 0 s"

section \<open>Facts about trimming\<close>

lemma trim_lead_lead: "lead_len encs (trim_lead encs s) = 0"
  by (induction encs s rule: trim_lead.induct) (subst trim_lead.simps, simp)

lemma trim_lead_suffix: "\<exists>r. s = r @ trim_lead encs s"
proof (induction encs s rule: trim_lead.induct)
  case (1 encs s)
  show ?case
  proof (cases "lead_len encs s = 0")
    case True
    then show ?thesis by (subst trim_lead.simps) simp
  next
    case False
    with 1 obtain r where "drop (lead_len encs s) s = r @ trim_lead encs (drop (lead_len encs s) s)"
      by blast
    then have "s = (take (lead_len encs s) s @ r) @ trim_lead encs (drop (lead_len encs s) s)"
      by (metis append_assoc append_take_drop_id)
    moreover have "trim_lead encs s = trim_lead encs (drop (lead_len encs s) s)"
      using False by (subst trim_lead.simps) simp
    ultimately show ?thesis by metis
  qed
qed

lemma lead_len_0_iff: "[] \<notin> set encs \<Longrightarrow> lead_len encs s = 0 \<longleftrightarrow> (\<forall>p\<in>set encs. \<not> has_prefix p s)"
  by (auto simp: lead_len_def find_None_iff find_Some_iff split: option.splits) (metis nth_mem)+

lemma unicode_spaces_ne: "[] \<notin> set unicode_spaces"
  by (simp add: unicode_spaces_def)

lemma trim_space_idem: "trim_space (trim_space s) = trim_space s"
proof -
  define u where "u = trim_lead unicode_spaces s"
  define w where "w = trim_lead (map rev unicode_spaces) (rev u)"
  have t: "trim_space s = rev w" by (simp add: trim_space_def u_def w_def)
  obtain r where "rev u = r @ w" using trim_lead_suffix [of "rev u"] unfolding w_def by blast
  then have "u = rev w @ rev r" by (metis rev_append rev_rev_ident)
  moreover have "\<forall>p\<in>set unicode_spaces. \<not> has_prefix p u"
    using trim_lead_lead [of unicode_spaces s] lead_len_0_iff [of unicode_spaces u] by (simp add: u_def unicode_spaces_ne)
  ultimately have "\<forall>p\<in>set unicode_spaces. \<not> has_prefix p (rev w)"
    by (auto simp: has_prefix_iff)
  then have "lead_len unicode_spaces (rev w) = 0" by (simp add: lead_len_0_iff unicode_spaces_ne)
  moreover have "lead_len (map rev unicode_spaces) w = 0"
    unfolding w_def by (rule trim_lead_lead)
  ultimately show ?thesis
    unfolding t by (simp add: trim_space_def trim_lead.simps)
qed

end
