(* ===== verification/Plan_Normal.thy ===== *)
theory Plan_Normal
  imports Plan_Manifest Encoding_Facts Go_Library
begin

text \<open>
  The canonical forms a plan is stored and digested in, and the JSON values its parts encode to
  (the \<open>normalize..\<close> functions and keys of \<^verbatim>\<open>internal/planning/planning.go\<close>).

  What the code leaves to the library is the argument \<open>L\<close>: the order \<open>sort.Slice\<close> gives to equal
  keys, and \<open>strings.ToLower\<close> on texts that are not ASCII. A nil slice and an empty one are the
  same list; the JSON of an empty list is \<open>null\<close> where the code builds the slice with \<open>append\<close>
  or \<open>sortedUniqueStrings\<close>, and \<open>[]\<close> where it builds it with \<open>make\<close>.
\<close>

definition normalizeDigest :: "go_library \<Rightarrow> string \<Rightarrow> string" where
  "normalizeDigest L value0 =
     (let v = to_lower L (trim_space value0) in
      if v = [] then []
      else if has_prefix ''sha256:'' v then ''sha256:'' @ trim_prefix ''sha256:'' v
      else v)"

section \<open>JSON of the values\<close>

definition strings_json :: "string list \<Rightarrow> json" where
  "strings_json xs = (if xs = [] then JNull else JArr (map JStr xs))"

definition opt_json :: "('a \<Rightarrow> json) \<Rightarrow> 'a option \<Rightarrow> json" where
  "opt_json f x = (case x of None \<Rightarrow> JNull | Some y \<Rightarrow> f y)"

definition target_json :: "file_target \<Rightarrow> json" where
  "target_json t = JObj [(''RootID'', JStr (ft_root_id t)), (''RelativePath'', JStr (ft_relative_path t))]"

definition targets_json :: "file_target list \<Rightarrow> json" where
  "targets_json ts = (if ts = [] then JNull else JArr (map target_json ts))"

definition file_predicate_json :: "file_predicate \<Rightarrow> json" where
  "file_predicate_json f = JObj
     ([(''source'', target_json (fp_source f)), (''target'', target_json (fp_target f))]
      @ (if fp_size f = 0 then [] else [(''size'', JInt (fp_size f))])
      @ (if fp_digest f = [] then [] else [(''digest'', JStr (fp_digest f))])
      @ (if fp_file_identity f = [] then [] else [(''fileIdentity'', JStr (fp_file_identity f))]))"

definition registration_fields_json :: "registration_fields \<Rightarrow> json" where
  "registration_fields_json f = JObj
     [(''RootFolder'', JStr (rf_root_folder f)), (''QualityProfileID'', JStr (rf_quality_profile_id f)),
      (''Monitored'', opt_json JBool (rf_monitored f)), (''SeriesType'', JStr (rf_series_type f)),
      (''SeasonFolder'', opt_json JBool (rf_season_folder f)), (''Seasons'', strings_json (rf_seasons f))]"

definition registration_json :: "registration_predicate \<Rightarrow> json" where
  "registration_json r = JObj
     [(''ConnectionID'', JStr (rp_connection_id r)), (''ProviderID'', JStr (rp_provider_id r)),
      (''Kind'', JStr (media_kind_text (rp_kind r))), (''ExternalID'', JStr (rp_external_id r)),
      (''Fields'', registration_fields_json (rp_fields r))]"

definition selection_json :: "import_selection \<Rightarrow> json" where
  "selection_json s = JObj
     [(''Source'', target_json (sel_source s)), (''MovieOrEpisodeID'', JStr (sel_movie_or_episode_id s)),
      (''EpisodeIDs'', strings_json (sel_episode_ids s)), (''Subtitle'', JBool (sel_subtitle s)),
      (''Language'', JStr (sel_language s)), (''Forced'', JBool (sel_forced s)),
      (''HearingImpaired'', JBool (sel_hearing_impaired s)), (''PairID'', JStr (sel_pair_id s)),
      (''VideoPaths'', targets_json (sel_video_paths s)),
      (''Confidence'', JStr (mapping_confidence_text (sel_confidence s)))]"

definition import_json :: "import_predicate \<Rightarrow> json" where
  "import_json i = JObj
     [(''ConnectionID'', JStr (ip_connection_id i)),
      (''RegisteredExternalID'', JStr (ip_registered_external_id i)),
      (''Files'', JArr (map selection_json (ip_files i))), (''Transfer'', JStr (ip_transfer i))]"

definition service_json :: "service_predicate \<Rightarrow> json" where
  "service_json s = JObj
     [(''ConnectionID'', JStr (sv_connection_id s)), (''ProviderID'', JStr (sv_provider_id s)),
      (''ExternalID'', JStr (sv_external_id s)), (''Value'', JStr (sv_value s))]"

definition episode_json :: "episode_predicate \<Rightarrow> json" where
  "episode_json e = JObj
     [(''ConnectionID'', JStr (ep_connection_id e)), (''Source'', target_json (ep_source e)),
      (''SeriesID'', JStr (ep_series_id e)), (''EpisodeIDs'', strings_json (ep_episode_ids e)),
      (''SeasonNumber'', opt_json JInt (ep_season_number e)),
      (''AbsoluteNumber'', opt_json JInt (ep_absolute_number e))]"

definition subtitle_json :: "subtitle_predicate \<Rightarrow> json" where
  "subtitle_json s = JObj
     [(''ConnectionID'', JStr (sb_connection_id s)), (''Source'', target_json (sb_source s)),
      (''VideoPaths'', targets_json (sb_video_paths s)), (''PairID'', JStr (sb_pair_id s)),
      (''Language'', JStr (sb_language s)), (''Forced'', JBool (sb_forced s)),
      (''HearingImpaired'', JBool (sb_hearing_impaired s))]"

definition predicate_json :: "predicate \<Rightarrow> json" where
  "predicate_json p = JObj
     [(''Kind'', JStr (predicate_kind_text (pr_kind p))), (''File'', opt_json file_predicate_json (pr_file p)),
      (''Registration'', opt_json registration_json (pr_registration p)),
      (''Import'', opt_json import_json (pr_import p)), (''Service'', opt_json service_json (pr_service p)),
      (''Episode'', opt_json episode_json (pr_episode p)),
      (''Subtitle'', opt_json subtitle_json (pr_subtitle p))]"

fun entry_json :: "file_manifest_entry \<Rightarrow> json" where
  "entry_json (FileManifestEntry root rel ty sz dg ident role at cs) = JObj
     [(''RootID'', JStr root), (''RelativePath'', JStr rel), (''Type'', JStr (manifest_type_text ty)),
      (''Size'', JInt sz), (''Digest'', JStr dg), (''FileIdentity'', JStr ident),
      (''Role'', JStr (manifest_role_text role)), (''ObservedAt'', JStr (format_time at)),
      (''Children'', JArr (map entry_json cs))]"

section \<open>Predicates\<close>

definition normalizeTargets :: "go_library \<Rightarrow> file_target list \<Rightarrow> file_target list" where
  "normalizeTargets L ts = sort_slice (gl_order L) (\<lambda>t. [fileTargetKey t]) ts"

definition importSelectionKey :: "import_selection \<Rightarrow> string" where
  "importSelectionKey s = json_text (selection_json s)"

definition normalize_selection :: "go_library \<Rightarrow> import_selection \<Rightarrow> import_selection" where
  "normalize_selection L s = s\<lparr>
     sel_confidence := effective_confidence (sel_confidence s),
     sel_episode_ids := sortedUniqueStrings (sel_episode_ids s),
     sel_video_paths := normalizeTargets L (sel_video_paths s)\<rparr>"

definition normalizeSelections :: "go_library \<Rightarrow> import_selection list \<Rightarrow> import_selection list" where
  "normalizeSelections L ss =
     sort_slice (gl_order L) (\<lambda>s. [importSelectionKey s]) (map (normalize_selection L) ss)"

text \<open>
  \<open>normalizePredicate\<close> and \<open>normalizePredicateShallow\<close> compute the same value; the former also
  copies the service payload.
\<close>

definition normalizePredicate :: "go_library \<Rightarrow> predicate \<Rightarrow> predicate" where
  "normalizePredicate L p = p\<lparr>
     pr_file := map_option (\<lambda>f. f\<lparr>fp_digest := normalizeDigest L (fp_digest f)\<rparr>) (pr_file p),
     pr_registration :=
       map_option (\<lambda>r. r\<lparr>rp_fields := cloneRegistrationFields (rp_fields r)\<rparr>) (pr_registration p),
     pr_import := map_option (\<lambda>i. i\<lparr>ip_files := normalizeSelections L (ip_files i)\<rparr>) (pr_import p),
     pr_episode :=
       map_option (\<lambda>e. e\<lparr>ep_episode_ids := sortedUniqueStrings (ep_episode_ids e)\<rparr>) (pr_episode p),
     pr_subtitle :=
       map_option (\<lambda>s. s\<lparr>sb_video_paths := normalizeTargets L (sb_video_paths s)\<rparr>) (pr_subtitle p)\<rparr>"

definition normalizePredicateShallow :: "go_library \<Rightarrow> predicate \<Rightarrow> predicate" where
  "normalizePredicateShallow L p = normalizePredicate L p"

definition predicateKey :: "go_library \<Rightarrow> predicate \<Rightarrow> string" where
  "predicateKey L p = json_text (predicate_json (normalizePredicateShallow L p))"

definition samePredicate :: "go_library \<Rightarrow> predicate \<Rightarrow> predicate \<Rightarrow> bool" where
  "samePredicate L left right \<longleftrightarrow> predicateKey L left = predicateKey L right"

fun desired_check :: "go_library \<Rightarrow> string list \<Rightarrow> nat \<Rightarrow> predicate list \<Rightarrow> desired_error option" where
  "desired_check L seen index [] = None"
| "desired_check L seen index (p # rest) =
     (case Predicate_Validate p of
        Some e \<Rightarrow> Some (PredicateAt index e)
      | None \<Rightarrow>
          if List.member seen (predicateKey L p) then Some DesiredDuplicate
          else desired_check L (predicateKey L p # seen) (Suc index) rest)"

text \<open>A desired state is its list of predicates.\<close>

definition Desired_Validate :: "go_library \<Rightarrow> predicate list \<Rightarrow> desired_error option" where
  "Desired_Validate L predicates =
     (if predicates = [] then Some DesiredEmpty else desired_check L [] 0 predicates)"

definition normalizeDesired :: "go_library \<Rightarrow> predicate list \<Rightarrow> desired_error + predicate list" where
  "normalizeDesired L predicates =
     (case Desired_Validate L predicates of
        Some e \<Rightarrow> Inl e
      | None \<Rightarrow> Inr (sort_slice (gl_order L) (\<lambda>p. [predicateKey L p]) (map (normalizePredicate L) predicates)))"

definition NewDesiredState :: "go_library \<Rightarrow> predicate list \<Rightarrow> desired_error + predicate list" where
  "NewDesiredState L predicates =
     (case Desired_Validate L predicates of Some e \<Rightarrow> Inl e | None \<Rightarrow> normalizeDesired L predicates)"

definition desired_json :: "predicate list \<Rightarrow> json" where
  "desired_json predicates = JObj [(''Predicates'', JArr (map predicate_json predicates))]"

definition digestBytes :: "string \<Rightarrow> string" where
  "digestBytes v = ''sha256:'' @ hex_encode (Sum256 (string_bytes v))"

definition SemanticDigest :: "go_library \<Rightarrow> predicate list \<Rightarrow> desired_error + string" where
  "SemanticDigest L predicates =
     (case normalizeDesired L predicates of
        Inl e \<Rightarrow> Inl e
      | Inr ps \<Rightarrow> Inr (digestBytes (json_text (desired_json ps))))"

section \<open>Manifests\<close>

definition sort_entries :: "go_library \<Rightarrow> file_manifest_entry list \<Rightarrow> file_manifest_entry list" where
  "sort_entries L es = sort_slice (gl_order L) (\<lambda>e. [entry_key e]) es"

fun normalize_entry :: "go_library \<Rightarrow> file_manifest_entry \<Rightarrow> file_manifest_entry" where
  "normalize_entry L (FileManifestEntry root rel ty sz dg ident role at cs) =
     FileManifestEntry root rel ty sz (normalizeDigest L dg) ident role at
       (sort_entries L (map (normalize_entry L) cs))"

definition normalizeManifest :: "go_library \<Rightarrow> file_manifest_entry list \<Rightarrow> file_manifest_entry list" where
  "normalizeManifest L es = sort_entries L (map (normalize_entry L) es)"

definition manifest_marshals :: "file_manifest_entry list \<Rightarrow> bool" where
  "manifest_marshals es \<longleftrightarrow> list_all (\<lambda>m. time_marshals (fm_observed_at m)) (all_members es)"

text \<open>The error of \<open>json.Marshal\<close> is dropped: the text is then empty.\<close>

definition manifestFingerprint :: "go_library \<Rightarrow> file_manifest_entry list \<Rightarrow> string" where
  "manifestFingerprint L es =
     (if manifest_marshals es then json_text (JArr (map entry_json (normalizeManifest L es))) else [])"

section \<open>Review evidence\<close>

definition precondition_key :: "precondition \<Rightarrow> string" where
  "precondition_key p = pc_kind p @ CHR 0x00 # pc_target p @ CHR 0x00 # pc_expected p"

definition normalizePreconditions :: "go_library \<Rightarrow> precondition list \<Rightarrow> precondition list" where
  "normalizePreconditions L ps = sort_slice (gl_order L) (\<lambda>p. [precondition_key p]) ps"

definition capabilityKey :: "capability \<Rightarrow> string" where
  "capabilityKey c = cap_name c @ CHR 0x00 # cap_version c @ CHR 0x00 # capability_state_text (cap_state c)
     @ CHR 0x00 # cap_reason c @ CHR 0x00 # join_with [CHR 0x00] (sortedUniqueStrings (cap_evidence c))
     @ CHR 0x00 # format_time (cap_observed_at c)"

definition normalizeCapabilities :: "go_library \<Rightarrow> capability list \<Rightarrow> capability list" where
  "normalizeCapabilities L cs = sort_slice (gl_order L) (\<lambda>c. [capabilityKey c])
     (map (\<lambda>c. c\<lparr>cap_evidence := sortedUniqueStrings (cap_evidence c)\<rparr>) cs)"

definition sameCapabilities :: "go_library \<Rightarrow> capability list \<Rightarrow> capability list \<Rightarrow> bool" where
  "sameCapabilities L expected actual \<longleftrightarrow>
     (let left = normalizeCapabilities L expected; right = normalizeCapabilities L actual in
      length left = length right
      \<and> list_all2 (\<lambda>l r. capabilityKey l = capabilityKey r \<and> cap_observed_at l = cap_observed_at r) left right)"

record digest_conflict =
  dc_code :: string
  dc_field :: string
  dc_target :: string
  dc_evidence :: "string list"
  dc_blocking :: bool

definition digest_conflict_json :: "digest_conflict \<Rightarrow> json" where
  "digest_conflict_json c = JObj
     [(''Code'', JStr (dc_code c)), (''Field'', JStr (dc_field c)), (''Target'', JStr (dc_target c)),
      (''Evidence'', strings_json (dc_evidence c)), (''Blocking'', JBool (dc_blocking c))]"

definition digestConflictKey :: "digest_conflict \<Rightarrow> string" where
  "digestConflictKey c = json_text (digest_conflict_json c)"

definition digest_conflict_of :: "plan_conflict \<Rightarrow> digest_conflict" where
  "digest_conflict_of c = \<lparr>dc_code = pcf_code c, dc_field = pcf_field c, dc_target = pcf_target c,
     dc_evidence = sortedUniqueStrings (pcf_evidence c), dc_blocking = pcf_blocking c\<rparr>"

definition conflict_sort_key :: "plan_conflict \<Rightarrow> string" where
  "conflict_sort_key c = digestConflictKey (digest_conflict_of c) @ CHR 0x00 # pcf_message c"

definition sortConflicts :: "go_library \<Rightarrow> plan_conflict list \<Rightarrow> plan_conflict list" where
  "sortConflicts L cs = sort_slice (gl_order L) (\<lambda>c. [conflict_sort_key c]) cs"

definition normalizeConflicts :: "go_library \<Rightarrow> plan_conflict list \<Rightarrow> plan_conflict list" where
  "normalizeConflicts L cs =
     sortConflicts L (map (\<lambda>c. c\<lparr>pcf_evidence := sortedUniqueStrings (pcf_evidence c)\<rparr>) cs)"

definition canonicalBlockingIssues :: "go_library \<Rightarrow> plan_conflict list \<Rightarrow> plan_conflict list" where
  "canonicalBlockingIssues L cs = filter pcf_blocking (normalizeConflicts L cs)"

definition same_authority :: "plan_conflict \<Rightarrow> plan_conflict \<Rightarrow> bool" where
  "same_authority l r \<longleftrightarrow> pcf_code l = pcf_code r \<and> pcf_field l = pcf_field r \<and> pcf_target l = pcf_target r
     \<and> pcf_blocking l = pcf_blocking r \<and> sameStringSet (pcf_evidence l) (pcf_evidence r)"

definition sameConflictAuthorities :: "go_library \<Rightarrow> plan_conflict list \<Rightarrow> plan_conflict list \<Rightarrow> bool" where
  "sameConflictAuthorities L left right \<longleftrightarrow>
     list_all2 same_authority (normalizeConflicts L left) (normalizeConflicts L right)"

definition impact_key :: "string \<Rightarrow> string \<Rightarrow> string" where
  "impact_key kind target = kind @ CHR 0x00 # target"

definition normalizeImpacts :: "go_library \<Rightarrow> impact list \<Rightarrow> impact list" where
  "normalizeImpacts L is = sort_slice (gl_order L) (\<lambda>i. [impact_key (im_kind i) (im_target i)]) is"

definition digestConflicts :: "go_library \<Rightarrow> plan_conflict list \<Rightarrow> digest_conflict list" where
  "digestConflicts L cs =
     sort_slice (gl_order L) (\<lambda>c. [digestConflictKey c]) (map digest_conflict_of cs)"

text \<open>\<open>digestImpact\<close>: the kind and the target of an impact.\<close>

definition digestImpacts :: "go_library \<Rightarrow> impact list \<Rightarrow> (string \<times> string) list" where
  "digestImpacts L is =
     sort_slice (gl_order L) (\<lambda>(k, t). [impact_key k t]) (map (\<lambda>i. (im_kind i, im_target i)) is)"

section \<open>Bindings\<close>

definition revisionBindings :: "go_library \<Rightarrow> revision_map \<Rightarrow> (config_id \<times> string) list" where
  "revisionBindings L m = sort_slice (gl_order L) (\<lambda>(i, r). [i]) m"

definition normalizeMappingScopes :: "go_library \<Rightarrow> mapping_scope list \<Rightarrow> mapping_scope list" where
  "normalizeMappingScopes L scopes =
     sort_slice (gl_order L) (\<lambda>s. [ms_mapping_id s, ms_connection_id s, ms_root_id s]) scopes"

definition cloneBinding :: "go_library \<Rightarrow> binding \<Rightarrow> binding" where
  "cloneBinding L b = b\<lparr>
     bd_mapping_scopes := normalizeMappingScopes L (bd_mapping_scopes b),
     bd_source_digest := normalizeDigest L (bd_source_digest b)\<rparr>"

end
