(* ===== verification/Plan_Build.thy ===== *)
theory Plan_Build
  imports Plan_Normal
begin

text \<open>
  Plans (\<^verbatim>\<open>internal/planning/planning.go\<close>): the digest payload, the checks that tie a desired
  state to its action, its configuration fences and its manifest, \<open>Build\<close>, \<open>NewRevision\<close> and
  \<open>Plan.Validate\<close>. The clock and the random bytes of a new id are arguments of \<open>Build\<close>. Payloads
  are read with \<open>the\<close> where the code dereferences the pointer: every caller has validated the
  predicate by then (\<open>CheckCurrent\<close>, which has not, says so in its result).
\<close>

section \<open>Plans\<close>

record plan_request =
  rq_id :: string
  rq_revision :: int
  rq_action :: action_kind
  rq_desired :: "predicate list"
  rq_manifest :: "file_manifest_entry list"
  rq_manifest_limits :: manifest_limits
  rq_preconditions :: "precondition list"
  rq_binding :: binding
  rq_capabilities :: "capability list"
  rq_conflicts :: "plan_conflict list"
  rq_impacts :: "impact list"
  rq_estimated_bytes :: int
  rq_required_approval :: approval_kind
  rq_created_at :: time
  rq_expires_at :: time

record plan =
  pl_id :: string
  pl_revision :: int
  pl_digest :: string
  pl_status :: plan_status
  pl_action :: action_kind
  pl_desired :: "predicate list"
  pl_manifest :: "file_manifest_entry list"
  pl_manifest_limits :: manifest_limits
  pl_preconditions :: "precondition list"
  pl_binding :: binding
  pl_capabilities :: "capability list"
  pl_conflicts :: "plan_conflict list"
  pl_blocking_issues :: "plan_conflict list"
  pl_impacts :: "impact list"
  pl_estimated_bytes :: int
  pl_required_approval :: approval_kind
  pl_created_at :: time
  pl_expires_at :: time

section \<open>The digest\<close>

definition limits_json :: "manifest_limits \<Rightarrow> json" where
  "limits_json l = JObj
     [(''MaxEntries'', JInt (ml_max_entries l)), (''MaxDepth'', JInt (ml_max_depth l)),
      (''MaxChildrenPerDirectory'', JInt (ml_max_children l)), (''MaxBytes'', JInt (ml_max_bytes l))]"

definition precondition_json :: "precondition \<Rightarrow> json" where
  "precondition_json p = JObj
     [(''Kind'', JStr (pc_kind p)), (''Target'', JStr (pc_target p)), (''Expected'', JStr (pc_expected p)),
      (''Required'', JBool (pc_required p))]"

definition revision_json :: "config_id \<times> string \<Rightarrow> json" where
  "revision_json r = JObj [(''ID'', JStr (fst r)), (''Revision'', JStr (snd r))]"

definition scope_json :: "mapping_scope \<Rightarrow> json" where
  "scope_json s = JObj
     [(''MappingID'', JStr (ms_mapping_id s)), (''ConnectionID'', JStr (ms_connection_id s)),
      (''RootID'', JStr (ms_root_id s))]"

definition digest_binding_json :: "go_library \<Rightarrow> binding \<Rightarrow> json" where
  "digest_binding_json L b =
     (let scopes = normalizeMappingScopes L (bd_mapping_scopes b) in JObj
      ([(''SourceID'', JStr (bd_source_id b)), (''SourceRevision'', JStr (bd_source_revision b)),
        (''SourceDigest'', JStr (normalizeDigest L (bd_source_digest b))),
        (''Connections'', JArr (map revision_json (revisionBindings L (bd_connection_revisions b)))),
        (''Mappings'', JArr (map revision_json (revisionBindings L (bd_mapping_revisions b))))]
       @ (if scopes = [] then [] else [(''MappingScopes'', JArr (map scope_json scopes))])))"

definition capability_json :: "capability \<Rightarrow> json" where
  "capability_json c = JObj
     [(''Name'', JStr (cap_name c)), (''State'', JStr (capability_state_text (cap_state c))),
      (''Version'', JStr (cap_version c)), (''Reason'', JStr (cap_reason c)),
      (''Evidence'', strings_json (cap_evidence c)), (''ObservedAt'', JStr (format_time (cap_observed_at c)))]"

definition impact_json :: "string \<times> string \<Rightarrow> json" where
  "impact_json i = JObj [(''Kind'', JStr (fst i)), (''Target'', JStr (snd i))]"

definition preconditions_json :: "precondition list \<Rightarrow> json" where
  "preconditions_json ps = (if ps = [] then JNull else JArr (map precondition_json ps))"

definition digest_payload :: "go_library \<Rightarrow> plan \<Rightarrow> json" where
  "digest_payload L p = JObj
     [(''Version'', JInt 1), (''Revision'', JInt (pl_revision p)),
      (''Action'', JStr (action_kind_text (pl_action p))),
      (''Desired'', desired_json (pl_desired p)),
      (''Manifest'', JArr (map entry_json (normalizeManifest L (pl_manifest p)))),
      (''ManifestLimits'', limits_json (pl_manifest_limits p)),
      (''Preconditions'', preconditions_json (normalizePreconditions L (pl_preconditions p))),
      (''Binding'', digest_binding_json L (pl_binding p)),
      (''Capabilities'', JArr (map capability_json (normalizeCapabilities L (pl_capabilities p)))),
      (''Conflicts'', JArr (map digest_conflict_json (digestConflicts L (pl_conflicts p)))),
      (''Impacts'', JArr (map impact_json (digestImpacts L (pl_impacts p)))),
      (''EstimatedBytes'', JInt (pl_estimated_bytes p)),
      (''RequiredApproval'', JStr (approval_kind_text (pl_required_approval p))),
      (''CreatedAt'', JStr (format_time (pl_created_at p))),
      (''ExpiresAt'', JStr (format_time (pl_expires_at p)))]"

definition digestPlan :: "go_library \<Rightarrow> plan \<Rightarrow> plan_error + string" where
  "digestPlan L p =
     (if manifest_marshals (pl_manifest p)
         \<and> list_all (\<lambda>c. time_marshals (cap_observed_at c)) (pl_capabilities p)
      then Inr (digestBytes (json_text (digest_payload L p)))
      else Inl EncodeDigest)"

section \<open>Desired state, action and binding\<close>

definition validateDesiredForAction :: "action_kind \<Rightarrow> predicate list \<Rightarrow> fit_error option" where
  "validateDesiredForAction action desired =
     (let has = (\<lambda>k. list_ex (\<lambda>p. pr_kind p = k) desired) in
      case action of
        ActionArrRegistration \<Rightarrow>
          if \<not> has PredicateRegistration \<or> has PredicateImport then Some NeedsRegistration else None
      | ActionArrImport \<Rightarrow>
          if \<not> has PredicateImport \<or> has PredicateRegistration then Some NeedsImport else None
      | ActionFSCopy \<Rightarrow> if \<not> has PredicateFileContent then Some NeedsFileContent else None
      | ActionFSHardlink \<Rightarrow> if \<not> has PredicateHardlink then Some NeedsHardlink else None
      | _ \<Rightarrow> None)"

definition predicate_connection :: "predicate \<Rightarrow> config_id" where
  "predicate_connection p =
     (case pr_kind p of
        PredicateRegistration \<Rightarrow> rp_connection_id (the (pr_registration p))
      | PredicateImport \<Rightarrow> ip_connection_id (the (pr_import p))
      | PredicateAvailability \<Rightarrow> sv_connection_id (the (pr_service p))
      | PredicateRequest \<Rightarrow> sv_connection_id (the (pr_service p))
      | PredicateEpisodeAssociation \<Rightarrow> ep_connection_id (the (pr_episode p))
      | PredicateSubtitleAssociation \<Rightarrow> sb_connection_id (the (pr_subtitle p))
      | _ \<Rightarrow> [])"

definition desiredConnectionIDs :: "predicate list \<Rightarrow> config_id list" where
  "desiredConnectionIDs desired =
     sort (remdups (filter (\<lambda>i. i \<noteq> []) (map predicate_connection desired)))"

text \<open>A need is a connection and a root whose paths the connection must be able to map.\<close>

definition valid_need :: "config_id \<times> config_id \<Rightarrow> bool" where
  "valid_need n \<longleftrightarrow> ConfigID_Valid (fst n) \<and> ConfigID_Valid (snd n)"

definition selection_roots :: "import_selection \<Rightarrow> config_id list" where
  "selection_roots s = ft_root_id (sel_source s) # map ft_root_id (sel_video_paths s)"

definition predicate_needs :: "predicate \<Rightarrow> (config_id \<times> config_id) list" where
  "predicate_needs p =
     (case pr_kind p of
        PredicateImport \<Rightarrow>
          (let i = the (pr_import p) in
           map (Pair (ip_connection_id i)) (concat (map selection_roots (ip_files i))))
      | PredicateEpisodeAssociation \<Rightarrow>
          (let e = the (pr_episode p) in [(ep_connection_id e, ft_root_id (ep_source e))])
      | PredicateSubtitleAssociation \<Rightarrow>
          (let s = the (pr_subtitle p) in
           map (Pair (sb_connection_id s)) (ft_root_id (sb_source s) # map ft_root_id (sb_video_paths s)))
      | _ \<Rightarrow> [])"

definition desiredMappingNeeds :: "predicate list \<Rightarrow> (config_id \<times> config_id) list" where
  "desiredMappingNeeds desired =
     sort_key (\<lambda>n. [fst n, snd n])
       (remdups (filter valid_need (concat (map predicate_needs desired))))"

definition mappingScopesForNeed :: "mapping_scope list \<Rightarrow> config_id \<times> config_id \<Rightarrow> mapping_scope list" where
  "mappingScopesForNeed scopes need =
     filter (\<lambda>s. ms_connection_id s = fst need \<and> ms_root_id s = snd need) scopes"

fun connections_fenced :: "revision_map \<Rightarrow> config_id list \<Rightarrow> fit_error option" where
  "connections_fenced revisions [] = None"
| "connections_fenced revisions (i # rest) =
     (if blank (revision_of revisions i) then Some (ConnectionUnfenced i)
      else connections_fenced revisions rest)"

fun needs_fenced :: "binding \<Rightarrow> (config_id \<times> config_id) list \<Rightarrow> fit_error option" where
  "needs_fenced b [] = None"
| "needs_fenced b (need # rest) =
     (case mappingScopesForNeed (bd_mapping_scopes b) need of
        [] \<Rightarrow> Some (ScopeMissing (snd need) (fst need))
      | [scope] \<Rightarrow>
          if blank (revision_of (bd_mapping_revisions b) (ms_mapping_id scope))
          then Some (MappingUnfenced (ms_mapping_id scope)) else needs_fenced b rest
      | _ \<Rightarrow> Some (ScopeAmbiguous (snd need) (fst need)))"

definition validateBindingForDesired ::
  "action_kind \<Rightarrow> predicate list \<Rightarrow> binding \<Rightarrow> fit_error option" where
  "validateBindingForDesired action desired b =
     (case connections_fenced (bd_connection_revisions b) (desiredConnectionIDs desired) of
        Some e \<Rightarrow> Some e
      | None \<Rightarrow>
          if action = ActionArrImport then
            (let needs = desiredMappingNeeds desired in
             if needs = [] then Some ImportWithoutScope else needs_fenced b needs)
          else None)"

section \<open>Desired state and manifest\<close>

type_synonym members = "string \<Rightarrow> file_manifest_entry option"

definition validateManifestVideoReference :: "members \<Rightarrow> file_target \<Rightarrow> fit_error option" where
  "validateManifestVideoReference members target =
     (case members (fileTargetKey target) of
        None \<Rightarrow> Some OutsideManifest
      | Some e \<Rightarrow> if \<not> isVideoManifestMember e then Some NotApprovedVideo else None)"

fun video_references :: "members \<Rightarrow> file_target list \<Rightarrow> fit_error option" where
  "video_references members [] = None"
| "video_references members (t # ts) =
     (case validateManifestVideoReference members t of
        Some e \<Rightarrow> Some e | None \<Rightarrow> video_references members ts)"

definition selection_in_manifest :: "members \<Rightarrow> import_selection \<Rightarrow> fit_error option" where
  "selection_in_manifest members s =
     (case members (fileTargetKey (sel_source s)) of
        None \<Rightarrow> Some OutsideManifest
      | Some e \<Rightarrow>
          if sel_subtitle s \<and> \<not> isSubtitleManifestMember e then Some NotApprovedSubtitle
          else if \<not> sel_subtitle s \<and> \<not> isVideoManifestMember e then Some NotApprovedVideo
          else video_references members (sel_video_paths s))"

fun selections_in_manifest :: "members \<Rightarrow> import_selection list \<Rightarrow> fit_error option" where
  "selections_in_manifest members [] = None"
| "selections_in_manifest members (s # ss) =
     (case selection_in_manifest members s of
        Some e \<Rightarrow> Some e | None \<Rightarrow> selections_in_manifest members ss)"

definition predicate_in_manifest :: "members \<Rightarrow> predicate \<Rightarrow> fit_error option" where
  "predicate_in_manifest members p =
     (case pr_kind p of
        PredicateImport \<Rightarrow> selections_in_manifest members (ip_files (the (pr_import p)))
      | PredicateEpisodeAssociation \<Rightarrow>
          validateManifestVideoReference members (ep_source (the (pr_episode p)))
      | PredicateSubtitleAssociation \<Rightarrow>
          (let s = the (pr_subtitle p) in
           case members (fileTargetKey (sb_source s)) of
             None \<Rightarrow> Some OutsideManifest
           | Some e \<Rightarrow>
               if \<not> isSubtitleManifestMember e then Some NotApprovedSubtitle
               else video_references members (sb_video_paths s))
      | _ \<Rightarrow> None)"

fun predicates_in_manifest :: "members \<Rightarrow> predicate list \<Rightarrow> fit_error option" where
  "predicates_in_manifest members [] = None"
| "predicates_in_manifest members (p # ps) =
     (case predicate_in_manifest members p of
        Some e \<Rightarrow> Some e | None \<Rightarrow> predicates_in_manifest members ps)"

definition validateDesiredAgainstManifest ::
  "action_kind \<Rightarrow> predicate list \<Rightarrow> file_manifest_entry list \<Rightarrow> fit_error option" where
  "validateDesiredAgainstManifest action desired manifest =
     (if manifest = [] then None else predicates_in_manifest (flattenManifest manifest) desired)"

section \<open>Build\<close>

fun check_each :: "('a \<Rightarrow> 'e option) \<Rightarrow> (nat \<Rightarrow> 'e \<Rightarrow> plan_error) \<Rightarrow> nat \<Rightarrow> 'a list \<Rightarrow> plan_error option" where
  "check_each validate err index [] = None"
| "check_each validate err index (x # xs) =
     (case validate x of Some e \<Rightarrow> Some (err index e) | None \<Rightarrow> check_each validate err (Suc index) xs)"

definition first_error :: "plan_error option list \<Rightarrow> plan_error option" where
  "first_error checks = (case filter (\<lambda>c. c \<noteq> None) checks of [] \<Rightarrow> None | c # _ \<Rightarrow> c)"

definition normalizePlan :: "go_library \<Rightarrow> plan \<Rightarrow> plan" where
  "normalizePlan L p = p\<lparr>
     pl_desired := (case normalizeDesired L (pl_desired p) of Inl _ \<Rightarrow> [] | Inr ps \<Rightarrow> ps),
     pl_manifest := normalizeManifest L (pl_manifest p),
     pl_preconditions := normalizePreconditions L (pl_preconditions p),
     pl_binding := cloneBinding L (pl_binding p),
     pl_capabilities := normalizeCapabilities L (pl_capabilities p),
     pl_conflicts := normalizeConflicts L (pl_conflicts p),
     pl_impacts := normalizeImpacts L (pl_impacts p),
     pl_blocking_issues := normalizeConflicts L (pl_blocking_issues p)\<rparr>"

text \<open>The defaults \<open>Build\<close> gives a request: revision, id, times and approval.\<close>

definition plan_lifetime :: duration where
  "plan_lifetime = 15 * 60 * second"

definition default_request :: "time \<Rightarrow> raw16 option \<Rightarrow> plan_request \<Rightarrow> plan_error + plan_request" where
  "default_request now random r0 =
     (if rq_revision r0 < 0 then Inl RevisionNegative
      else
        let r1 = (if rq_revision r0 = 0 then r0\<lparr>rq_revision := 1\<rparr> else r0);
            id = (if blank (rq_id r1)
                  then (case NewRuntimeID random of Inl e \<Rightarrow> Inl (PlanIDFailed e) | Inr i \<Rightarrow> Inr i)
                  else Inr (rq_id r1)) in
        case id of
          Inl e \<Rightarrow> Inl e
        | Inr i \<Rightarrow>
            let created = (if time_is_zero (rq_created_at r1) then now else rq_created_at r1);
                expires = (if time_is_zero (rq_expires_at r1) then created + plan_lifetime
                           else rq_expires_at r1) in
            if expires \<le> created then Inl ExpiryNotAfter
            else if \<not> ActionKind_Valid (rq_action r1) then Inl (ActionUnsupported (action_kind_text (rq_action r1)))
            else
              let approval = (if rq_required_approval r1 = ApprovalKindOther [] then ApprovalAction
                              else rq_required_approval r1) in
              if \<not> approval_kind_valid approval then Inl (ApprovalUnsupported (approval_kind_text approval))
              else Inr (r1\<lparr>rq_id := i, rq_created_at := created, rq_expires_at := expires,
                           rq_required_approval := approval\<rparr>))"

definition request_checks :: "go_library \<Rightarrow> plan_request \<Rightarrow> manifest_limits \<Rightarrow> plan_error option" where
  "request_checks L r limits =
     first_error
      [map_option ManifestError (validateManifestForAction (rq_action r) (rq_manifest r) limits),
       map_option FitError (validateDesiredForAction (rq_action r) (rq_desired r)),
       map_option FitError (validateBindingForDesired (rq_action r) (rq_desired r) (rq_binding r)),
       map_option FitError (validateDesiredAgainstManifest (rq_action r) (rq_desired r) (rq_manifest r)),
       check_each Precondition_Validate PreconditionAt 0 (rq_preconditions r),
       check_each Capability_Validate CapabilityAt 0 (rq_capabilities r),
       check_each Conflict_Validate ConflictAt 0 (rq_conflicts r),
       check_each Impact_Validate ImpactAt 0 (rq_impacts r)]"

definition plan_of_request :: "plan_request \<Rightarrow> manifest_limits \<Rightarrow> plan" where
  "plan_of_request r limits = \<lparr>
     pl_id = rq_id r, pl_revision = rq_revision r, pl_digest = [], pl_status = StatusPreparing,
     pl_action = rq_action r, pl_desired = rq_desired r, pl_manifest = rq_manifest r,
     pl_manifest_limits = limits, pl_preconditions = rq_preconditions r, pl_binding = rq_binding r,
     pl_capabilities = rq_capabilities r, pl_conflicts = rq_conflicts r, pl_blocking_issues = [],
     pl_impacts = rq_impacts r, pl_estimated_bytes = rq_estimated_bytes r,
     pl_required_approval = rq_required_approval r, pl_created_at = rq_created_at r,
     pl_expires_at = rq_expires_at r\<rparr>"

text \<open>The status follows the blocking conflicts; the digest is taken last.\<close>

definition settle_plan :: "go_library \<Rightarrow> plan \<Rightarrow> plan" where
  "settle_plan L p =
     (let blocking = canonicalBlockingIssues L (pl_conflicts p) in
      p\<lparr>pl_blocking_issues := blocking,
        pl_status := (if blocking \<noteq> [] then StatusInvalid else StatusReady)\<rparr>)"

text \<open>A plan comes back with \<open>ErrPlanConflict\<close> when it has blocking issues.\<close>

definition Build ::
  "go_library \<Rightarrow> time \<Rightarrow> raw16 option \<Rightarrow> plan_request \<Rightarrow> plan_error + plan \<times> plan_error option" where
  "Build L now random request =
     (case default_request now random request of
        Inl e \<Rightarrow> Inl e
      | Inr r \<Rightarrow>
          if rq_estimated_bytes r < 0 then Inl EstimateNegative
          else case first_error [map_option BindingError (Binding_Validate (rq_binding r)),
                                 map_option DesiredError (Desired_Validate L (rq_desired r))] of
            Some e \<Rightarrow> Inl e
          | None \<Rightarrow>
          (case normalized (rq_manifest_limits r) of
             Inl e \<Rightarrow> Inl (ManifestError e)
           | Inr limits \<Rightarrow>
               case request_checks L r limits of
                 Some e \<Rightarrow> Inl e
               | None \<Rightarrow>
                   let p = settle_plan L (normalizePlan L (plan_of_request r limits)) in
                   case digestPlan L p of
                     Inl e \<Rightarrow> Inl e
                   | Inr digest \<Rightarrow>
                       Inr (p\<lparr>pl_digest := digest\<rparr>,
                            if pl_blocking_issues p \<noteq> [] then Some PlanConflict else None)))"

section \<open>Validation\<close>

definition Plan_Validate :: "go_library \<Rightarrow> plan \<Rightarrow> plan_error option" where
  "Plan_Validate L p =
     (if blank (pl_id p) \<or> pl_revision p \<le> 0 \<or> \<not> ActionKind_Valid (pl_action p)
         \<or> \<not> plan_status_valid (pl_status p)
      then Some PlanIdentityInvalid
      else if pl_status p = StatusPreparing then Some PlanPreparing
      else case first_error
        [map_option BindingError (Binding_Validate (pl_binding p)),
         map_option DesiredError (Desired_Validate L (pl_desired p)),
         map_option FitError (validateDesiredForAction (pl_action p) (pl_desired p)),
         map_option FitError (validateBindingForDesired (pl_action p) (pl_desired p) (pl_binding p))] of
        Some e \<Rightarrow> Some e
      | None \<Rightarrow>
      (case normalized (pl_manifest_limits p) of
         Inl e \<Rightarrow> Some (ManifestError e)
       | Inr limits \<Rightarrow>
           (case first_error
              [map_option ManifestError (validateManifestForAction (pl_action p) (pl_manifest p) limits),
               map_option FitError (validateDesiredAgainstManifest (pl_action p) (pl_desired p) (pl_manifest p))] of
              Some e \<Rightarrow> Some e
            | None \<Rightarrow>
              if time_is_zero (pl_created_at p) \<or> time_is_zero (pl_expires_at p)
                 \<or> \<not> pl_created_at p < pl_expires_at p
              then Some PlanTimestamps
              else if \<not> strongDigest (pl_digest p) then Some PlanDigestInvalid
              else case first_error
                [check_each Conflict_Validate (\<lambda>_. EvidenceError) 0 (pl_conflicts p),
                 check_each Precondition_Validate (\<lambda>_. EvidenceError) 0 (pl_preconditions p),
                 check_each Capability_Validate (\<lambda>_. CapabilityError) 0 (pl_capabilities p),
                 check_each Impact_Validate (\<lambda>_. EvidenceError) 0 (pl_impacts p)] of
                Some e \<Rightarrow> Some e
              | None \<Rightarrow>
                  let blocking = canonicalBlockingIssues L (pl_conflicts p);
                      status = (if blocking \<noteq> [] then StatusInvalid else StatusReady) in
                  if pl_status p \<noteq> status then Some PlanStatusMismatch
                  else if \<not> sameConflictAuthorities L (pl_blocking_issues p) blocking
                  then Some PlanBlockingMismatch
                  else case digestPlan L (p\<lparr>pl_manifest_limits := limits\<rparr>) of
                    Inl e \<Rightarrow> Some e
                  | Inr computed \<Rightarrow> if computed \<noteq> pl_digest p then Some PlanDigest else None)))"

text \<open>\<open>previous.Revision + 1\<close> on 64 bits.\<close>

definition int64 :: "int \<Rightarrow> int" where
  "int64 n = (n + 2 ^ 63) mod 2 ^ 64 - 2 ^ 63"

definition NewRevision ::
  "go_library \<Rightarrow> time \<Rightarrow> raw16 option \<Rightarrow> plan \<Rightarrow> plan_request \<Rightarrow> plan_error + plan \<times> plan_error option"
where
  "NewRevision L now random previous request =
     (case Plan_Validate L previous of
        Some e \<Rightarrow> Inl e
      | None \<Rightarrow>
          if \<not> blank (rq_id request) \<and> rq_id request \<noteq> pl_id previous then Inl PlanIDChanged
          else Build L now random
            (request\<lparr>rq_id := pl_id previous, rq_revision := int64 (pl_revision previous + 1)\<rparr>))"

end
