(* ===== verification/Plan_Facts.thy ===== *)
theory Plan_Facts
  imports Plan_Build
begin

text \<open>
  Normalization keeps what a plan says: it is idempotent, the key of a predicate is the key of its
  normal form, and a valid predicate, manifest or binding has a valid normal form. The library is
  asked for two things (\<open>lawful_library\<close>): the contract of \<open>sort.Slice\<close>, and that lowering and
  trimming a text twice is the same as doing it once.
\<close>

named_theorems norm_simps \<open>what a normal form shares with the value\<close>

definition lawful_library :: "go_library \<Rightarrow> bool" where
  "lawful_library L \<longleftrightarrow> orders_slices (gl_order L)
     \<and> (\<forall>s. to_lower L (trim_space (to_lower L (trim_space s))) = to_lower L (trim_space s))"

lemma lawful_order: "lawful_library L \<Longrightarrow> slice_sort (gl_order L)"
  by (simp add: lawful_library_def orders_slicesD)

section \<open>Trimming and lowering\<close>

declare unicode_spaces_ne [simp] trim_space_idem [simp]

text \<open>Lowering ASCII letters commutes with trimming, since no byte of a space is a letter.\<close>

definition lower_char :: "char \<Rightarrow> char" where
  "lower_char c = (if 65 \<le> (of_char c :: nat) \<and> (of_char c :: nat) \<le> 90
                   then char_of ((of_char c :: nat) + 32) else c)"

lemma ascii_lower_map: "ascii_lower = map lower_char"
  by (simp add: ascii_lower_def lower_char_def [abs_def])

definition no_letter :: "char \<Rightarrow> bool" where
  "no_letter c \<longleftrightarrow> (let n = (of_char c :: nat) in n < 65 \<or> 90 < n \<and> n < 97 \<or> 122 < n)"

lemma lower_char_iff: "no_letter c \<Longrightarrow> lower_char x = c \<longleftrightarrow> x = c"
  by (auto simp: lower_char_def no_letter_def Let_def of_char_of)

lemma unicode_spaces_no_letter: "\<forall>p\<in>set unicode_spaces. list_all no_letter p"
  by (simp add: unicode_spaces_def no_letter_def)

lemma has_prefix_lower: "list_all no_letter p \<Longrightarrow> has_prefix p (map lower_char s) = has_prefix p s"
proof (induction p arbitrary: s)
  case Nil
  then show ?case by (simp add: has_prefix_def)
next
  case (Cons c p)
  then show ?case by (cases s) (auto simp: has_prefix_def lower_char_iff)
qed

lemma find_cong': "(\<And>x. x \<in> set xs \<Longrightarrow> P x = Q x) \<Longrightarrow> find P xs = find Q xs"
  by (induction xs) auto

lemma lead_len_lower:
  "\<forall>p\<in>set encs. list_all no_letter p \<Longrightarrow> lead_len encs (map lower_char s) = lead_len encs s"
proof -
  assume "\<forall>p\<in>set encs. list_all no_letter p"
  then have "find (\<lambda>p. has_prefix p (map lower_char s)) encs = find (\<lambda>p. has_prefix p s) encs"
    by (intro find_cong') (simp add: has_prefix_lower)
  then show ?thesis by (simp add: lead_len_def)
qed

lemma trim_lead_lower:
  "\<forall>p\<in>set encs. list_all no_letter p \<Longrightarrow> trim_lead encs (map lower_char s) = map lower_char (trim_lead encs s)"
proof (induction encs s rule: trim_lead.induct)
  case (1 encs s)
  show ?case
  proof (cases "lead_len encs s = 0")
    case True
    then show ?thesis using 1(2) by (subst (1 2) trim_lead.simps) (simp add: lead_len_lower)
  next
    case False
    then show ?thesis
      using 1 by (subst (1 2) trim_lead.simps) (simp add: lead_len_lower drop_map)
  qed
qed

lemma trim_space_lower: "trim_space (ascii_lower s) = ascii_lower (trim_space s)"
proof -
  have r: "\<forall>p\<in>set (map rev unicode_spaces). list_all no_letter p"
    using unicode_spaces_no_letter by (auto simp: list_all_iff)
  show ?thesis
    unfolding trim_space_def ascii_lower_map trim_lead_lower [OF unicode_spaces_no_letter]
    by (simp add: rev_map trim_lead_lower [OF r])
qed

text \<open>A library that sorts by insertion and lowers ASCII letters only.\<close>

definition plain_library :: go_library where
  "plain_library = \<lparr>gl_order = insertion_order, gl_lower = ascii_lower\<rparr>"

lemma plain_library_lawful: "lawful_library plain_library"
  by (simp add: lawful_library_def plain_library_def to_lower_def trim_space_lower)

section \<open>Digests\<close>

lemma normalizeDigest_eq: "normalizeDigest L d = to_lower L (trim_space d)"
  by (auto simp: normalizeDigest_def Let_def trim_prefix_def has_prefix_iff)

lemma normalizeDigest_idem [norm_simps]:
  "lawful_library L \<Longrightarrow> normalizeDigest L (normalizeDigest L d) = normalizeDigest L d"
  by (simp add: normalizeDigest_eq lawful_library_def)

lemma is_hex_ascii: "is_hex c \<Longrightarrow> byte c < 0x80"
  by (auto simp: is_hex_def byte_def Let_def)

lemma lower_char_ascii: "byte (lower_char c) < 0x80 \<longleftrightarrow> byte c < 0x80"
  by (auto simp: byte_def lower_char_def of_char_of)

lemma strongDigest_iff:
  "strongDigest d \<longleftrightarrow>
     (let v = trim_prefix ''sha256:'' (ascii_lower (trim_space d)) in
      length v = 64 \<and> list_all is_hex v)"
  by (simp add: strongDigest_def hex_decodes_def Let_def)

lemma strong_ascii:
  assumes "strongDigest d"
  shows "list_all (\<lambda>c. byte c < 0x80) (trim_space d)"
proof -
  let ?v = "ascii_lower (trim_space d)"
  have "list_all is_hex (trim_prefix ''sha256:'' ?v)" using assms by (simp add: strongDigest_iff Let_def)
  then have "list_all (\<lambda>c. byte c < 0x80) (trim_prefix ''sha256:'' ?v)"
    by (auto simp: list_all_iff is_hex_ascii)
  then have "list_all (\<lambda>c. byte c < 0x80) ?v"
    by (auto simp: trim_prefix_def has_prefix_iff byte_def split: if_splits)
  then show ?thesis by (simp add: ascii_lower_map list_all_iff lower_char_ascii)
qed

lemma strong_lower: "strongDigest d \<Longrightarrow> normalizeDigest L d = ascii_lower (trim_space d)"
  by (simp add: normalizeDigest_eq to_lower_def strong_ascii)

lemma strong_normalized: "strongDigest d \<Longrightarrow> strongDigest (normalizeDigest L d)"
  by (simp add: strong_lower) (simp add: strongDigest_iff trim_space_lower)

lemma trim_space_Nil [simp]: "trim_space [] = []"
  by (rule trim_space_plain) simp

lemma strong_ne: "strongDigest d \<Longrightarrow> d \<noteq> []"
  by (auto simp: strongDigest_iff Let_def ascii_lower_def trim_prefix_def has_prefix_def)

section \<open>Predicates\<close>

lemmas lawful_mset = slice_sort.mset_sort [OF lawful_order]
lemmas lawful_set = slice_sort.set_sort [OF lawful_order]
lemmas lawful_length = slice_sort.length_sort [OF lawful_order]
lemmas lawful_distinct = slice_sort.distinct_map_sort [OF lawful_order]
lemmas lawful_idem = slice_sort.sort_idem [OF lawful_order]

lemma normalizeTargets_facts [norm_simps]:
  assumes "lawful_library L"
  shows "set (normalizeTargets L ts) = set ts" "normalizeTargets L ts = [] \<longleftrightarrow> ts = []"
    "distinct (map f (normalizeTargets L ts)) = distinct (map f ts)"
    "normalizeTargets L (normalizeTargets L ts) = normalizeTargets L ts"
  using lawful_length [OF assms, of "\<lambda>t. [fileTargetKey t]" ts]
  by (simp_all add: normalizeTargets_def lawful_set lawful_distinct lawful_idem assms)
     (metis length_0_conv)

lemma effective_confidence_idem [norm_simps]:
  "effective_confidence (effective_confidence c) = effective_confidence c"
  by (simp add: effective_confidence_def)

lemma normalize_selection_fields [norm_simps]:
  "sel_source (normalize_selection L s) = sel_source s"
  "sel_movie_or_episode_id (normalize_selection L s) = sel_movie_or_episode_id s"
  "sel_subtitle (normalize_selection L s) = sel_subtitle s"
  "sel_language (normalize_selection L s) = sel_language s"
  "sel_pair_id (normalize_selection L s) = sel_pair_id s"
  "sel_episode_ids (normalize_selection L s) = sortedUniqueStrings (sel_episode_ids s)"
  "sel_video_paths (normalize_selection L s) = normalizeTargets L (sel_video_paths s)"
  "sel_confidence (normalize_selection L s) = effective_confidence (sel_confidence s)"
  by (simp_all add: normalize_selection_def)

lemma normalize_selection_idem [norm_simps]:
  "lawful_library L \<Longrightarrow> normalize_selection L (normalize_selection L s) = normalize_selection L s"
  by (simp add: normalize_selection_def norm_simps)

lemma normalize_selection_valid:
  "lawful_library L \<Longrightarrow> ImportSelection_Validate s = None \<Longrightarrow>
     ImportSelection_Validate (normalize_selection L s) = None"
  unfolding ImportSelection_Validate_iff by (simp add: norm_simps)

lemma normalizeSelections_set [norm_simps]:
  "lawful_library L \<Longrightarrow> set (normalizeSelections L ss) = normalize_selection L ` set ss"
  by (simp add: normalizeSelections_def lawful_set)

lemma normalizeSelections_Nil [norm_simps]:
  "lawful_library L \<Longrightarrow> normalizeSelections L ss = [] \<longleftrightarrow> ss = []"
  by (metis image_is_empty normalizeSelections_set set_empty)

lemma normalizeSelections_distinct [norm_simps]:
  "lawful_library L \<Longrightarrow> distinct (map (fileTargetKey \<circ> sel_source) (normalizeSelections L ss))
     = distinct (map (fileTargetKey \<circ> sel_source) ss)"
  by (simp add: normalizeSelections_def lawful_distinct comp_def norm_simps)

lemma normalizeSelections_idem [norm_simps]:
  assumes "lawful_library L"
  shows "normalizeSelections L (normalizeSelections L ss) = normalizeSelections L ss"
proof -
  have "map (normalize_selection L) (normalizeSelections L ss) = normalizeSelections L ss"
    by (rule map_idI) (auto simp: norm_simps assms)
  then show ?thesis
    unfolding normalizeSelections_def [of L "normalizeSelections L ss"]
    by (simp add: normalizeSelections_def lawful_idem assms)
qed

lemma normalizePredicate_fields [norm_simps]:
  "pr_kind (normalizePredicate L p) = pr_kind p"
  "pr_service (normalizePredicate L p) = pr_service p"
  "pr_file (normalizePredicate L p) =
     map_option (\<lambda>f. f\<lparr>fp_digest := normalizeDigest L (fp_digest f)\<rparr>) (pr_file p)"
  "pr_registration (normalizePredicate L p) =
     map_option (\<lambda>r. r\<lparr>rp_fields := cloneRegistrationFields (rp_fields r)\<rparr>) (pr_registration p)"
  "pr_import (normalizePredicate L p) =
     map_option (\<lambda>i. i\<lparr>ip_files := normalizeSelections L (ip_files i)\<rparr>) (pr_import p)"
  "pr_episode (normalizePredicate L p) =
     map_option (\<lambda>e. e\<lparr>ep_episode_ids := sortedUniqueStrings (ep_episode_ids e)\<rparr>) (pr_episode p)"
  "pr_subtitle (normalizePredicate L p) =
     map_option (\<lambda>s. s\<lparr>sb_video_paths := normalizeTargets L (sb_video_paths s)\<rparr>) (pr_subtitle p)"
  by (simp_all add: normalizePredicate_def)

lemma cloneRegistrationFields_idem [norm_simps]:
  "cloneRegistrationFields (cloneRegistrationFields f) = cloneRegistrationFields f"
  by (simp add: cloneRegistrationFields_def)

lemma normalizePredicate_idem [norm_simps]:
  "lawful_library L \<Longrightarrow> normalizePredicate L (normalizePredicate L p) = normalizePredicate L p"
  unfolding normalizePredicate_def by (cases p) (simp add: option.map_comp comp_def norm_simps)

lemma predicateKey_normal [norm_simps]:
  "lawful_library L \<Longrightarrow> predicateKey L (normalizePredicate L p) = predicateKey L p"
  by (simp add: predicateKey_def normalizePredicateShallow_def norm_simps)

lemma validateRegistration_normal [norm_simps]:
  "validateRegistration (r\<lparr>rp_fields := cloneRegistrationFields (rp_fields r)\<rparr>) = validateRegistration r"
proof -
  have "list_ex blank (sortedUniqueStrings xs) = list_ex blank xs" for xs
    by (simp add: list_ex_iff)
  then show ?thesis
    by (simp only: validateRegistration_def cloneRegistrationFields_def Let_def
        registration_predicate.simps registration_predicate.surjective registration_predicate.update_convs
        registration_fields.simps registration_fields.update_convs registration_predicate.select_convs
        registration_fields.select_convs)
       (simp cong: if_cong)
qed

lemma validateImport_normal:
  "lawful_library L \<Longrightarrow> validateImport i = None \<Longrightarrow>
     validateImport (i\<lparr>ip_files := normalizeSelections L (ip_files i)\<rparr>) = None"
  unfolding validateImport_iff by (auto simp: norm_simps normalize_selection_valid)

lemma validateEpisode_normal:
  "validateEpisode e = None \<Longrightarrow>
     validateEpisode (e\<lparr>ep_episode_ids := sortedUniqueStrings (ep_episode_ids e)\<rparr>) = None"
  unfolding validateEpisode_iff by simp

lemma validateSubtitle_normal:
  "lawful_library L \<Longrightarrow> validateSubtitle s = None \<Longrightarrow>
     validateSubtitle (s\<lparr>sb_video_paths := normalizeTargets L (sb_video_paths s)\<rparr>) = None"
  unfolding validateSubtitle_iff by (simp add: norm_simps)

lemma check_file_normal:
  "check_file_content (Some f) = None \<Longrightarrow>
     check_file_content (Some (f\<lparr>fp_digest := normalizeDigest L (fp_digest f)\<rparr>)) = None"
  "check_file_identity (Some (f\<lparr>fp_digest := d\<rparr>)) = check_file_identity (Some f)"
  "check_hardlink (Some (f\<lparr>fp_digest := d\<rparr>)) = check_hardlink (Some f)"
  by (auto simp: check_file_content_def check_file_identity_def check_hardlink_def strong_normalized
      split: option.splits if_splits)

lemma payload_count_normal [norm_simps]: "payload_count (normalizePredicate L p) = payload_count p"
  by (simp add: payload_count_def norm_simps)

lemma normalizePredicate_valid:
  assumes "lawful_library L" "Predicate_Validate p = None"
  shows "Predicate_Validate (normalizePredicate L p) = None"
proof -
  have "pr_kind p \<noteq> PredicateKindOther s" for s
    using assms(2) by (auto simp: Predicate_Validate_def split: if_splits)
  with assms show ?thesis
    using valid_predicate_payload [OF assms(2)]
    by (cases "pr_kind p")
       (auto simp: Predicate_Validate_def norm_simps with_payload_def map_option_None_iff
         check_file_normal validateImport_normal validateEpisode_normal validateSubtitle_normal
         split: if_splits)
qed

lemma desired_check_seen:
  "desired_check L seen k ps = None \<longleftrightarrow>
     (\<forall>p\<in>set ps. Predicate_Validate p = None) \<and> distinct (map (predicateKey L) ps)
     \<and> set (map (predicateKey L) ps) \<inter> set seen = {}"
  by (induction L seen k ps rule: desired_check.induct) (auto split: option.splits)

lemma Desired_Validate_iff [valid_simps]:
  "Desired_Validate L ps = None \<longleftrightarrow>
     ps \<noteq> [] \<and> (\<forall>p\<in>set ps. Predicate_Validate p = None) \<and> distinct (map (predicateKey L) ps)"
  by (simp add: Desired_Validate_def desired_check_seen)

lemma normalizeDesired_Inr:
  "Desired_Validate L ps = None \<Longrightarrow> normalizeDesired L ps =
     Inr (sort_slice (gl_order L) (\<lambda>p. [predicateKey L p]) (map (normalizePredicate L) ps))"
  by (simp add: normalizeDesired_def)

lemma normalizeDesired_facts:
  assumes "lawful_library L" "normalizeDesired L ps = Inr qs"
  shows "set qs = normalizePredicate L ` set ps" "Desired_Validate L qs = None"
    "normalizeDesired L qs = Inr qs"
proof -
  have v: "Desired_Validate L ps = None" using assms(2) by (auto simp: normalizeDesired_def split: option.splits)
  then have q: "qs = sort_slice (gl_order L) (\<lambda>p. [predicateKey L p]) (map (normalizePredicate L) ps)"
    using assms(2) by (simp add: normalizeDesired_def)
  show s: "set qs = normalizePredicate L ` set ps" by (simp add: q lawful_set assms(1))
  have "ps \<noteq> []" using v by (simp add: Desired_Validate_iff)
  then have "set qs \<noteq> {}" unfolding s by simp
  then show d: "Desired_Validate L qs = None"
    using v s unfolding Desired_Validate_iff
    by (auto simp: normalizePredicate_valid assms(1) q lawful_distinct comp_def norm_simps)
  have "map (normalizePredicate L) qs = qs"
    by (rule map_idI) (auto simp: s norm_simps assms(1))
  then show "normalizeDesired L qs = Inr qs"
    unfolding normalizeDesired_Inr [OF d] by (simp add: q lawful_idem assms(1))
qed

end
