(* ===== verification/Plan_Stable.thy ===== *)
theory Plan_Stable
  imports Plan_Facts
begin

text \<open>
  Manifests, bindings and review evidence in normal form, and how they fit a normalized desired
  state: the second half of the proof that what \<open>Build\<close> returns passes \<open>Plan.Validate\<close>.
\<close>

section \<open>Manifests\<close>

lemma normalize_entry_fields [norm_simps]:
  "fm_root_id (normalize_entry L e) = fm_root_id e"
  "fm_relative_path (normalize_entry L e) = fm_relative_path e"
  "fm_type (normalize_entry L e) = fm_type e"
  "fm_size (normalize_entry L e) = fm_size e"
  "fm_digest (normalize_entry L e) = normalizeDigest L (fm_digest e)"
  "fm_file_identity (normalize_entry L e) = fm_file_identity e"
  "fm_role (normalize_entry L e) = fm_role e"
  "fm_observed_at (normalize_entry L e) = fm_observed_at e"
  "fm_children (normalize_entry L e) = normalizeManifest L (fm_children e)"
  by (cases e; simp add: normalizeManifest_def)+

lemma entry_key_normal [norm_simps]: "entry_key (normalize_entry L e) = entry_key e"
  by (simp add: entry_key_def entry_target_def norm_simps)

lemma normalizeManifest_facts [norm_simps]:
  assumes "lawful_library L"
  shows "mset (normalizeManifest L es) = image_mset (normalize_entry L) (mset es)"
    "set (normalizeManifest L es) = normalize_entry L ` set es"
    "length (normalizeManifest L es) = length es"
    "normalizeManifest L es = [] \<longleftrightarrow> es = []"
  using lawful_length [OF assms, of "\<lambda>e. [entry_key e]" "map (normalize_entry L) es"]
  by (simp_all add: normalizeManifest_def sort_entries_def lawful_mset lawful_set assms)
     (metis length_0_conv)

lemma overlap_normal [norm_simps]:
  "manifestEntriesOverlap (normalize_entry L a) (normalize_entry L b) = manifestEntriesOverlap a b"
  by (simp add: manifestEntriesOverlap_def norm_simps)

text \<open>Whether two siblings overlap does not depend on their order.\<close>

lemma children_overlap_mset:
  "\<not> children_overlap xs \<longleftrightarrow> (\<forall>x\<in>#mset xs. \<forall>y\<in>#mset xs - {#x#}. \<not> manifestEntriesOverlap x y)"
proof (induction xs)
  case Nil
  show ?case by simp
next
  case (Cons a xs)
  have swap: "{#a#} + mset xs - {#x#} = {#a#} + (mset xs - {#x#})" if "x \<in> set xs" for x
    using that by (simp add: add_mset_remove_trivial_If diff_union_swap2)
  have "(\<forall>x\<in>#mset (a # xs). \<forall>y\<in>#mset (a # xs) - {#x#}. \<not> manifestEntriesOverlap x y) \<longleftrightarrow>
      (\<forall>y\<in>set xs. \<not> manifestEntriesOverlap a y)
      \<and> (\<forall>x\<in>set xs. \<not> manifestEntriesOverlap x a)
      \<and> (\<forall>x\<in>set xs. \<forall>y\<in>#mset xs - {#x#}. \<not> manifestEntriesOverlap x y)"
    using swap by auto
  then show ?case
    using Cons by (auto simp: list_ex_iff manifestEntriesOverlap_sym)
qed

lemma children_overlap_perm: "mset xs = mset ys \<Longrightarrow> children_overlap xs = children_overlap ys"
proof -
  assume m: "mset xs = mset ys"
  have "(\<not> children_overlap xs) = (\<not> children_overlap ys)"
    unfolding children_overlap_mset m ..
  then show ?thesis by simp
qed

lemma children_overlap_normal [norm_simps]:
  assumes "lawful_library L"
  shows "children_overlap (normalizeManifest L es) = children_overlap es"
proof -
  have "children_overlap (map (normalize_entry L) xs) = children_overlap xs" for xs
    by (induction xs) (simp_all add: list_ex_iff norm_simps)
  moreover have "children_overlap (normalizeManifest L es) = children_overlap (map (normalize_entry L) es)"
    by (rule children_overlap_perm) (simp add: norm_simps assms)
  ultimately show ?thesis by simp
qed

lemma normalize_entry_validate:
  assumes "lawful_library L"
  shows "FileManifestEntry_Validate e = None \<Longrightarrow> FileManifestEntry_Validate (normalize_entry L e) = None"
proof (induction e rule: file_manifest_entry.induct)
  case (FileManifestEntry root rel ty sz dg ident role at cs)
  let ?e = "FileManifestEntry root rel ty sz dg ident role at cs"
  show ?case
    using FileManifestEntry
    unfolding FileManifestEntry_Validate_iff [of ?e] FileManifestEntry_Validate_iff [of "normalize_entry L ?e"]
    by (auto simp: norm_simps assms simp del: normalize_entry.simps FileManifestEntry_Validate.simps)
qed

lemma normalize_entry_action:
  assumes "lawful_library L"
  shows "FileManifestEntry_ValidateAction d e = None \<Longrightarrow>
    FileManifestEntry_ValidateAction d (normalize_entry L e) = None"
proof (induction e rule: file_manifest_entry.induct)
  case (FileManifestEntry root rel ty sz dg ident role at cs)
  let ?e = "FileManifestEntry root rel ty sz dg ident role at cs"
  show ?case
    using FileManifestEntry normalize_entry_validate [OF assms, of ?e]
    unfolding FileManifestEntry_ValidateAction_iff [of d ?e]
      FileManifestEntry_ValidateAction_iff [of d "normalize_entry L ?e"]
    by (auto simp: norm_simps assms strong_normalized
        simp del: normalize_entry.simps FileManifestEntry_Validate.simps FileManifestEntry_ValidateAction.simps)
qed

lemma mset_members_sum: "mset (all_members es) = (\<Sum>e\<in>#mset es. mset (manifest_members e))"
  by (induction es) simp_all

lemma sum_image_mset_image: "(\<Sum>x\<in>#M. image_mset f (g x)) = image_mset f (\<Sum>x\<in>#M. g x)"
  by (induction M) simp_all

lemma members_normal:
  assumes "lawful_library L"
  shows "mset (manifest_members (normalize_entry L e)) = image_mset (normalize_entry L) (mset (manifest_members e))"
proof (induction e rule: file_manifest_entry.induct)
  case (FileManifestEntry root rel ty sz dg ident role at cs)
  let ?e = "FileManifestEntry root rel ty sz dg ident role at cs"
  have "mset (all_members (normalizeManifest L cs)) =
      (\<Sum>c\<in>#mset cs. mset (manifest_members (normalize_entry L c)))"
    by (simp only: mset_members_sum norm_simps assms image_mset.compositionality comp_def)
  also have "\<dots> = (\<Sum>c\<in>#mset cs. image_mset (normalize_entry L) (mset (manifest_members c)))"
    by (rule arg_cong [where f = sum_mset], rule image_mset_cong) (use FileManifestEntry in auto)
  also have "\<dots> = image_mset (normalize_entry L) (mset (all_members cs))"
    by (simp only: sum_image_mset_image mset_members_sum)
  finally have c: "mset (all_members (normalizeManifest L cs)) =
      image_mset (normalize_entry L) (mset (all_members cs))" .
  have "manifest_members (normalize_entry L ?e) =
      normalize_entry L ?e # all_members (normalizeManifest L cs)"
    by (simp add: normalizeManifest_def)
  moreover have "manifest_members ?e = ?e # all_members cs" by simp
  ultimately show ?case using c by (simp only: mset.simps image_mset_add_mset)
qed

lemma all_members_normal:
  assumes "lawful_library L"
  shows "mset (all_members (normalizeManifest L es)) = image_mset (normalize_entry L) (mset (all_members es))"
proof -
  have "mset (all_members (normalizeManifest L es)) =
      (\<Sum>c\<in>#mset es. mset (manifest_members (normalize_entry L c)))"
    by (simp only: mset_members_sum norm_simps assms image_mset.compositionality comp_def)
  also have "\<dots> = (\<Sum>c\<in>#mset es. image_mset (normalize_entry L) (mset (manifest_members c)))"
    by (simp only: members_normal [OF assms])
  finally show ?thesis by (simp only: sum_image_mset_image mset_members_sum)
qed

lemma all_members_normal_facts [norm_simps]:
  assumes "lawful_library L"
  shows "set (all_members (normalizeManifest L es)) = normalize_entry L ` set (all_members es)"
    "length (all_members (normalizeManifest L es)) = length (all_members es)"
    "file_bytes (all_members (normalizeManifest L es)) = file_bytes (all_members es)"
    "distinct (map entry_key (all_members (normalizeManifest L es))) = distinct (map entry_key (all_members es))"
proof -
  note m = all_members_normal [OF assms, of es]
  from arg_cong [OF m, of set_mset]
  show "set (all_members (normalizeManifest L es)) = normalize_entry L ` set (all_members es)"
    by (simp only: set_mset_mset set_image_mset)
  from arg_cong [OF m, of size]
  show "length (all_members (normalizeManifest L es)) = length (all_members es)"
    by (simp only: size_mset size_image_mset)
  have fb: "file_bytes ms = (\<Sum>m\<in>#mset ms. if fm_type m \<noteq> ManifestDirectory then fm_size m else 0)" for ms
    by (simp add: file_bytes_def sum_mset_sum_list flip: mset_map)
  show "file_bytes (all_members (normalizeManifest L es)) = file_bytes (all_members es)"
    unfolding fb m by (simp only: image_mset.compositionality comp_def norm_simps)
  have "mset (map entry_key (all_members (normalizeManifest L es))) = mset (map entry_key (all_members es))"
    by (simp only: mset_map m image_mset.compositionality comp_def norm_simps)
  then show "distinct (map entry_key (all_members (normalizeManifest L es))) = distinct (map entry_key (all_members es))"
    by (rule mset_eq_imp_distinct_iff)
qed

lemma depth_within_normal [norm_simps]:
  assumes "lawful_library L"
  shows "depth_within b k (normalize_entry L e) = depth_within b k e"
proof (induction e arbitrary: k rule: file_manifest_entry.induct)
  case (FileManifestEntry root rel ty sz dg ident role at cs)
  have "list_all (depth_within b (k + 1)) (sort_entries L (map (normalize_entry L) cs))
      = list_all (depth_within b (k + 1)) cs"
    using FileManifestEntry by (simp add: list_all_iff sort_entries_def lawful_set assms)
  then show ?case by simp
qed

lemma has_directory_normal [norm_simps]:
  assumes "lawful_library L"
  shows "has_directory (normalize_entry L e) = has_directory e"
proof (induction e rule: file_manifest_entry.induct)
  case (FileManifestEntry root rel ty sz dg ident role at cs)
  have "list_ex has_directory (sort_entries L (map (normalize_entry L) cs)) = list_ex has_directory cs"
    using FileManifestEntry by (simp add: list_ex_iff sort_entries_def lawful_set assms)
  then show ?case by simp
qed

lemma ValidateManifest_normal:
  assumes "lawful_library L" "ValidateManifest es d limits = None"
  shows "ValidateManifest (normalizeManifest L es) d limits = None"
proof -
  from assms(2) obtain B where B: "normalized limits = Inr B" "es \<noteq> []"
    "\<forall>e\<in>set es. FileManifestEntry_ValidateAction d e = None \<and> depth_within (ml_max_depth B) 0 e"
    "\<forall>m\<in>set (all_members es). int (length (fm_children m)) \<le> ml_max_children B"
    "int (length (all_members es)) \<le> ml_max_entries B"
    "file_bytes (all_members es) \<le> ml_max_bytes B"
    "distinct (map entry_key (all_members es))" "\<not> children_overlap es"
    unfolding ValidateManifest_iff by blast
  show ?thesis
    unfolding ValidateManifest_iff
  proof (intro exI conjI)
    show "normalized limits = Inr B" by (rule B)
    show "normalizeManifest L es \<noteq> []" using B(2) by (simp add: norm_simps assms(1))
    show "\<forall>e\<in>set (normalizeManifest L es). FileManifestEntry_ValidateAction d e = None
        \<and> depth_within (ml_max_depth B) 0 e"
      using B(3) normalize_entry_action [OF assms(1)]
      unfolding normalizeManifest_facts(2) [OF assms(1)] ball_simps depth_within_normal [OF assms(1)]
      by blast
    show "\<forall>m\<in>set (all_members (normalizeManifest L es)). int (length (fm_children m)) \<le> ml_max_children B"
      using B(4)
      unfolding all_members_normal_facts(1) [OF assms(1)] ball_simps normalize_entry_fields
        normalizeManifest_facts(3) [OF assms(1)] .
    show "int (length (all_members (normalizeManifest L es))) \<le> ml_max_entries B"
      using B(5) unfolding all_members_normal_facts(2) [OF assms(1)] .
    show "file_bytes (all_members (normalizeManifest L es)) \<le> ml_max_bytes B"
      using B(6) unfolding all_members_normal_facts(3) [OF assms(1)] .
    show "distinct (map entry_key (all_members (normalizeManifest L es)))"
      using B(7) unfolding all_members_normal_facts(4) [OF assms(1)] .
    show "\<not> children_overlap (normalizeManifest L es)"
      using B(8) unfolding children_overlap_normal [OF assms(1)] .
  qed
qed

lemma validateManifestForAction_normal:
  assumes "lawful_library L" "validateManifestForAction action es limits = None"
  shows "validateManifestForAction action (normalizeManifest L es) limits = None"
proof (cases "es = []")
  case True
  then have "normalizeManifest L es = []" by (simp add: norm_simps assms(1))
  with assms(2) True show ?thesis by simp
next
  case False
  have d: "list_ex has_directory (normalizeManifest L es) = list_ex has_directory es"
    by (simp add: list_ex_iff norm_simps assms(1))
  show ?thesis
    using assms(2) False ValidateManifest_normal [OF assms(1)] d
    by (auto simp: validateManifestForAction_def Let_def norm_simps assms(1) split: option.splits if_splits)
qed

section \<open>Members a desired state refers to\<close>

lemma fold_update_find:
  "distinct (map g xs) \<Longrightarrow>
     fold (\<lambda>m f. f(g m \<mapsto> m)) xs f0 k = (case find (\<lambda>m. g m = k) xs of Some m \<Rightarrow> Some m | None \<Rightarrow> f0 k)"
proof (induction xs arbitrary: f0)
  case Nil
  show ?case by simp
next
  case (Cons x xs)
  have "find (\<lambda>m. g m = k) xs = None" if "g x = k"
    using Cons.prems that by (auto simp: find_None_iff) (metis image_eqI)
  with Cons show ?case by (auto split: option.splits)
qed

lemma flattenManifest_Some:
  assumes "distinct (map entry_key (all_members es))"
  shows "flattenManifest es k = Some m \<longleftrightarrow> m \<in> set (all_members es) \<and> entry_key m = k"
proof -
  have f: "flattenManifest es k = find (\<lambda>m. entry_key m = k) (all_members es)"
    unfolding flattenManifest_def fold_update_find [OF assms] by (simp split: option.splits)
  show ?thesis
  proof
    assume "flattenManifest es k = Some m"
    then show "m \<in> set (all_members es) \<and> entry_key m = k"
      unfolding f by (auto simp: find_Some_iff simp del: set_concat)
  next
    assume m: "m \<in> set (all_members es) \<and> entry_key m = k"
    then obtain n where n: "find (\<lambda>m. entry_key m = k) (all_members es) = Some n"
      by (cases "find (\<lambda>m. entry_key m = k) (all_members es)") (auto simp: find_None_iff simp del: set_concat)
    then have "n \<in> set (all_members es)" "entry_key n = k"
      by (auto simp: find_Some_iff simp del: set_concat)
    with m assms have "n = m" by (metis distinct_map inj_on_def)
    with n f show "flattenManifest es k = Some m" by simp
  qed
qed

lemma member_kind_normal [norm_simps]:
  "isVideoManifestMember (normalize_entry L e) = isVideoManifestMember e"
  "isSubtitleManifestMember (normalize_entry L e) = isSubtitleManifestMember e"
  by (simp_all add: isVideoManifestMember_def isSubtitleManifestMember_def norm_simps)

definition video_member :: "members \<Rightarrow> file_target \<Rightarrow> bool" where
  "video_member members t \<longleftrightarrow> (\<exists>e. members (fileTargetKey t) = Some e \<and> isVideoManifestMember e)"

definition subtitle_member :: "members \<Rightarrow> file_target \<Rightarrow> bool" where
  "subtitle_member members t \<longleftrightarrow> (\<exists>e. members (fileTargetKey t) = Some e \<and> isSubtitleManifestMember e)"

lemma video_reference_iff: "validateManifestVideoReference members t = None \<longleftrightarrow> video_member members t"
  by (auto simp: validateManifestVideoReference_def video_member_def split: option.splits)

lemma video_references_iff: "video_references members ts = None \<longleftrightarrow> (\<forall>t\<in>set ts. video_member members t)"
  by (induction ts) (simp_all add: video_reference_iff [symmetric] split: option.splits)

lemma selection_in_manifest_iff:
  "selection_in_manifest members s = None \<longleftrightarrow>
     (if sel_subtitle s then subtitle_member members (sel_source s) else video_member members (sel_source s))
     \<and> (\<forall>t\<in>set (sel_video_paths s). video_member members t)"
  by (auto simp: selection_in_manifest_def video_references_iff subtitle_member_def video_member_def
      split: option.splits)

lemma selections_in_manifest_iff:
  "selections_in_manifest members ss = None \<longleftrightarrow> (\<forall>s\<in>set ss. selection_in_manifest members s = None)"
  by (induction ss) (auto split: option.splits)

lemma predicates_in_manifest_iff:
  "predicates_in_manifest members ps = None \<longleftrightarrow> (\<forall>p\<in>set ps. predicate_in_manifest members p = None)"
  by (induction ps) (auto split: option.splits)

lemma predicate_in_manifest_normal:
  assumes "lawful_library L" "Predicate_Validate p = None" "predicate_in_manifest members p = None"
    and v: "\<And>t. video_member members t \<Longrightarrow> video_member members' t"
    and s: "\<And>t. subtitle_member members t \<Longrightarrow> subtitle_member members' t"
  shows "predicate_in_manifest members' (normalizePredicate L p) = None"
proof (cases "pr_kind p")
  case PredicateImport
  with valid_predicate_payload(3) [OF assms(2)] obtain i where i: "pr_import p = Some i" by auto
  have "\<forall>s\<in>set (ip_files i). selection_in_manifest members s = None"
    using assms(3) PredicateImport i by (simp add: predicate_in_manifest_def selections_in_manifest_iff)
  then have "\<forall>s\<in>set (normalizeSelections L (ip_files i)). selection_in_manifest members' s = None"
    using v s by (auto simp: norm_simps assms(1) selection_in_manifest_iff split: if_splits)
  then show ?thesis
    using PredicateImport i by (simp add: predicate_in_manifest_def norm_simps selections_in_manifest_iff)
next
  case PredicateEpisodeAssociation
  with valid_predicate_payload(5) [OF assms(2)] obtain e where "pr_episode p = Some e" by auto
  with assms(3) PredicateEpisodeAssociation v show ?thesis
    by (simp add: predicate_in_manifest_def norm_simps video_reference_iff)
next
  case PredicateSubtitleAssociation
  with valid_predicate_payload(6) [OF assms(2)] obtain b where b: "pr_subtitle p = Some b" by auto
  have "subtitle_member members (sb_source b)" "\<forall>t\<in>set (sb_video_paths b). video_member members t"
    using assms(3) PredicateSubtitleAssociation b
    by (auto simp: predicate_in_manifest_def video_references_iff subtitle_member_def
        split: option.splits if_splits)
  then have "subtitle_member members' (sb_source b)" "\<forall>t\<in>set (sb_video_paths b). video_member members' t"
    using v s by blast+
  with PredicateSubtitleAssociation b show ?thesis
    by (auto simp: predicate_in_manifest_def norm_simps assms(1) video_references_iff subtitle_member_def)
qed (simp_all add: predicate_in_manifest_def norm_simps)

lemma flatten_normal:
  assumes "lawful_library L" "distinct (map entry_key (all_members es))" "flattenManifest es k = Some m"
  shows "flattenManifest (normalizeManifest L es) k = Some (normalize_entry L m)"
proof -
  have m: "m \<in> set (all_members es)" "entry_key m = k"
    using assms(3) unfolding flattenManifest_Some [OF assms(2)] by blast+
  have d: "distinct (map entry_key (all_members (normalizeManifest L es)))"
    using assms(2) unfolding all_members_normal_facts(4) [OF assms(1)] .
  show ?thesis
    unfolding flattenManifest_Some [OF d] all_members_normal_facts(1) [OF assms(1)] entry_key_normal
    using m by blast
qed

lemma validateDesiredAgainstManifest_normal:
  assumes L: "lawful_library L" and v: "\<forall>p\<in>set ps. Predicate_Validate p = None"
    and k: "es \<noteq> [] \<Longrightarrow> distinct (map entry_key (all_members es))"
    and qs: "set qs = normalizePredicate L ` set ps"
    and ok: "validateDesiredAgainstManifest a ps es = None"
  shows "validateDesiredAgainstManifest a qs (normalizeManifest L es) = None"
proof (cases "es = []")
  case True
  then show ?thesis by (simp add: validateDesiredAgainstManifest_def norm_simps L)
next
  case False
  let ?m = "flattenManifest es" and ?n = "flattenManifest (normalizeManifest L es)"
  have vm: "video_member ?m t \<Longrightarrow> video_member ?n t" for t
    using flatten_normal [OF L k [OF False]] by (auto simp: video_member_def member_kind_normal)
  have sm: "subtitle_member ?m t \<Longrightarrow> subtitle_member ?n t" for t
    using flatten_normal [OF L k [OF False]] by (auto simp: subtitle_member_def member_kind_normal)
  have "\<forall>p\<in>set ps. predicate_in_manifest ?m p = None"
    using ok False by (simp add: validateDesiredAgainstManifest_def predicates_in_manifest_iff)
  then have "\<forall>p\<in>set ps. predicate_in_manifest ?n (normalizePredicate L p) = None"
    using predicate_in_manifest_normal [OF L] v vm sm by blast
  then show ?thesis
    using False by (simp add: validateDesiredAgainstManifest_def predicates_in_manifest_iff qs norm_simps L)
qed

section \<open>Bindings\<close>

lemma normalizeMappingScopes_facts [norm_simps]:
  assumes "lawful_library L"
  shows "mset (normalizeMappingScopes L ss) = mset ss" "set (normalizeMappingScopes L ss) = set ss"
    "distinct (map f (normalizeMappingScopes L ss)) = distinct (map f ss)"
  by (simp_all add: normalizeMappingScopes_def lawful_mset lawful_set lawful_distinct assms)

lemma cloneBinding_fields [norm_simps]:
  "bd_source_id (cloneBinding L b) = bd_source_id b"
  "bd_source_revision (cloneBinding L b) = bd_source_revision b"
  "bd_source_digest (cloneBinding L b) = normalizeDigest L (bd_source_digest b)"
  "bd_connection_revisions (cloneBinding L b) = bd_connection_revisions b"
  "bd_mapping_revisions (cloneBinding L b) = bd_mapping_revisions b"
  "bd_mapping_scopes (cloneBinding L b) = normalizeMappingScopes L (bd_mapping_scopes b)"
  by (simp_all add: cloneBinding_def)

lemma Binding_Validate_normal:
  assumes "lawful_library L" "Binding_Validate b = None"
  shows "Binding_Validate (cloneBinding L b) = None"
proof -
  have "normalizeDigest L [] = []" by (simp add: normalizeDigest_eq to_lower_def ascii_lower_def)
  with assms show ?thesis
    unfolding Binding_Validate_iff scopes_check_iff
    by (auto simp: norm_simps strong_normalized)
qed

lemma predicate_connection_normal [norm_simps]:
  "Predicate_Validate p = None \<Longrightarrow> predicate_connection (normalizePredicate L p) = predicate_connection p"
  using valid_predicate_payload [of p]
  by (auto simp: predicate_connection_def norm_simps split: predicate_kind.splits)

lemma selection_roots_normal [norm_simps]:
  "lawful_library L \<Longrightarrow> set (selection_roots (normalize_selection L s)) = set (selection_roots s)"
  by (simp add: selection_roots_def norm_simps)

lemma predicate_needs_normal [norm_simps]:
  assumes "lawful_library L" "Predicate_Validate p = None"
  shows "set (predicate_needs (normalizePredicate L p)) = set (predicate_needs p)"
  using valid_predicate_payload [OF assms(2)]
  by (auto simp: predicate_needs_def Let_def norm_simps assms(1) split: predicate_kind.splits) blast+

lemma connections_fenced_iff:
  "connections_fenced revisions is = None \<longleftrightarrow> (\<forall>i\<in>set is. \<not> blank (revision_of revisions i))"
  by (induction revisions "is" rule: connections_fenced.induct) auto

definition need_fenced :: "binding \<Rightarrow> config_id \<times> config_id \<Rightarrow> bool" where
  "need_fenced b need \<longleftrightarrow> (\<exists>scope. mappingScopesForNeed (bd_mapping_scopes b) need = [scope]
     \<and> \<not> blank (revision_of (bd_mapping_revisions b) (ms_mapping_id scope)))"

lemma needs_fenced_iff: "needs_fenced b needs = None \<longleftrightarrow> (\<forall>n\<in>set needs. need_fenced b n)"
  by (induction b needs rule: needs_fenced.induct) (auto simp: need_fenced_def split: list.splits)

lemma single_mset: "mset xs = mset ys \<Longrightarrow> xs = [x] \<Longrightarrow> ys = [x]"
  by (metis mset_single_iff)

lemma need_fenced_normal:
  assumes "lawful_library L" "need_fenced b n"
  shows "need_fenced (cloneBinding L b) n"
proof -
  have "mset (mappingScopesForNeed (bd_mapping_scopes b) n) =
      mset (mappingScopesForNeed (bd_mapping_scopes (cloneBinding L b)) n)"
    by (simp add: mappingScopesForNeed_def norm_simps assms(1))
  with assms(2) show ?thesis
    unfolding need_fenced_def by (metis cloneBinding_fields(5) single_mset)
qed

lemma desiredMappingNeeds_set:
  "set (desiredMappingNeeds ps) = {n. valid_need n \<and> (\<exists>p\<in>set ps. n \<in> set (predicate_needs p))}"
  by (auto simp: desiredMappingNeeds_def)

lemma desiredConnectionIDs_set:
  "set (desiredConnectionIDs ps) = {i. i \<noteq> [] \<and> (\<exists>p\<in>set ps. i = predicate_connection p)}"
  by (auto simp: desiredConnectionIDs_def)

lemma desired_sets_normal:
  assumes "lawful_library L" "\<forall>p\<in>set ps. Predicate_Validate p = None" "set qs = normalizePredicate L ` set ps"
  shows "set (desiredMappingNeeds qs) = set (desiredMappingNeeds ps)"
    "set (desiredConnectionIDs qs) = set (desiredConnectionIDs ps)"
  unfolding desiredMappingNeeds_set desiredConnectionIDs_set assms(3)
  using assms(2) by (auto simp: norm_simps assms(1))

lemma validateBindingForDesired_iff:
  "validateBindingForDesired a ps b = None \<longleftrightarrow>
     (\<forall>i\<in>set (desiredConnectionIDs ps). \<not> blank (revision_of (bd_connection_revisions b) i))
     \<and> (a = ActionArrImport \<longrightarrow> set (desiredMappingNeeds ps) \<noteq> {}
          \<and> (\<forall>n\<in>set (desiredMappingNeeds ps). need_fenced b n))"
proof -
  have "validateBindingForDesired a ps b = None \<longleftrightarrow>
      connections_fenced (bd_connection_revisions b) (desiredConnectionIDs ps) = None
      \<and> (a = ActionArrImport \<longrightarrow> desiredMappingNeeds ps \<noteq> [] \<and> needs_fenced b (desiredMappingNeeds ps) = None)"
    by (auto simp: validateBindingForDesired_def Let_def split: option.splits)
  then show ?thesis by (simp add: connections_fenced_iff needs_fenced_iff)
qed

lemma validateBindingForDesired_normal:
  assumes "lawful_library L" "\<forall>p\<in>set ps. Predicate_Validate p = None" "set qs = normalizePredicate L ` set ps"
    and "validateBindingForDesired a ps b = None"
  shows "validateBindingForDesired a qs (cloneBinding L b) = None"
  using assms(4) need_fenced_normal [OF assms(1)]
  unfolding validateBindingForDesired_iff desired_sets_normal [OF assms(1-3)] cloneBinding_fields
  by blast

lemma validateDesiredForAction_normal:
  assumes "set qs = normalizePredicate L ` set ps"
  shows "validateDesiredForAction a qs = validateDesiredForAction a ps"
proof -
  have "list_ex (\<lambda>p. pr_kind p = k) qs = list_ex (\<lambda>p. pr_kind p = k) ps" for k
    by (auto simp: list_ex_iff assms norm_simps)
  then show ?thesis by (simp add: validateDesiredForAction_def Let_def)
qed

section \<open>Review evidence\<close>

lemma first_error_iff: "first_error cs = None \<longleftrightarrow> (\<forall>c\<in>set cs. c = None)"
proof (induction cs)
  case Nil
  show ?case by (simp add: first_error_def)
next
  case (Cons c cs)
  then show ?case by (cases c) (auto simp: first_error_def)
qed

lemma check_each_iff: "check_each v err k xs = None \<longleftrightarrow> (\<forall>x\<in>set xs. v x = None)"
  by (induction xs arbitrary: k) (auto split: option.splits)

lemma normalizeConflicts_set:
  "lawful_library L \<Longrightarrow> set (normalizeConflicts L cs) =
     (\<lambda>c. c\<lparr>pcf_evidence := sortedUniqueStrings (pcf_evidence c)\<rparr>) ` set cs"
  by (simp add: normalizeConflicts_def sortConflicts_def lawful_set)

lemma normalizeCapabilities_set:
  "lawful_library L \<Longrightarrow> set (normalizeCapabilities L cs) =
     (\<lambda>c. c\<lparr>cap_evidence := sortedUniqueStrings (cap_evidence c)\<rparr>) ` set cs"
  by (simp add: normalizeCapabilities_def lawful_set)

lemma evidence_valid_normal:
  assumes "lawful_library L"
  shows "(\<forall>x\<in>set (normalizeConflicts L cs). Conflict_Validate x = None) \<longleftrightarrow> (\<forall>x\<in>set cs. Conflict_Validate x = None)"
    "(\<forall>x\<in>set (normalizeCapabilities L ks). Capability_Validate x = None) \<longleftrightarrow> (\<forall>x\<in>set ks. Capability_Validate x = None)"
    "set (normalizePreconditions L ps) = set ps" "set (normalizeImpacts L is) = set is"
  using assms
  by (simp_all add: normalizeConflicts_set normalizeCapabilities_set Conflict_Validate_def Capability_Validate_def
      normalizePreconditions_def normalizeImpacts_def lawful_set)

lemma sameConflictAuthorities_refl: "sameConflictAuthorities L cs cs"
  by (simp add: sameConflictAuthorities_def same_authority_def sameStringSet_iff list.rel_refl)

section \<open>The digest\<close>

lemma length_sha_round: "length v = 8 \<Longrightarrow> length (sha_round kw v) = 8"
  by (auto simp: sha_round_def Let_def split: prod.splits list.splits)

lemma length_fold_sha: "length v = 8 \<Longrightarrow> length (fold sha_round kws v) = 8"
  by (induction kws arbitrary: v) (simp_all add: length_sha_round)

lemma length_sha_blocks: "length h = 8 \<Longrightarrow> length (sha_blocks n h ws) = 8"
  by (induction n arbitrary: h ws) (simp_all add: sha_block_def length_fold_sha)

lemma length_Sum256: "length (Sum256 bs) = 32"
proof -
  have "length (concat (map bytes_of ws)) = 4 * length ws" for ws
    by (induction ws) (simp_all add: bytes_of_def)
  then show ?thesis by (simp add: Sum256_def Let_def length_sha_blocks sha_initial_def)
qed

lemma hex_encode_facts:
  "length (hex_encode bs) = 2 * length bs" "list_all is_hex (hex_encode bs)"
  "ascii_lower (hex_encode bs) = hex_encode bs"
proof -
  have n: "unat (b AND 0x0f :: 8 word) < 16" "unat (drop_bit 4 b :: 8 word) < 16" for b
    by (simp_all add: nibble_lt)
  show "length (hex_encode bs) = 2 * length bs" "list_all is_hex (hex_encode bs)"
    "ascii_lower (hex_encode bs) = hex_encode bs"
    using n hex_digit_hex by (induction bs) (auto simp: hex_encode_def ascii_lower_def)
qed

lemma strong_digestBytes: "strongDigest (digestBytes v)"
proof -
  let ?h = "hex_encode (Sum256 (string_bytes v))"
  have l: "length ?h = 64" by (simp add: hex_encode_facts length_Sum256)
  then have "?h \<noteq> []" by auto
  then have "plain_char (last ?h)"
    using hex_encode_facts(2) is_hex_plain by (metis last_in_set list_all_iff)
  with \<open>?h \<noteq> []\<close> have "trim_space (''sha256:'' @ ?h) = ''sha256:'' @ ?h"
    by (intro trim_space_plain) (simp add: plain_char_def)
  moreover have "ascii_lower (''sha256:'' @ ?h) = ''sha256:'' @ ?h"
    using hex_encode_facts(3) by (simp add: ascii_lower_def)
  moreover have "trim_prefix ''sha256:'' (''sha256:'' @ ?h) = ?h"
    by (simp add: trim_prefix_def has_prefix_def)
  ultimately show ?thesis
    using l hex_encode_facts(2) by (simp add: strongDigest_iff digestBytes_def Let_def del: append.simps)
qed

end
