(* ===== verification/Plan_Current.thy ===== *)
theory Plan_Current
  imports Plan_Build
begin

text \<open>
  Approval of a plan and its comparison with the state read immediately before dispatch
  (\<open>StatusAt\<close>, \<open>ValidateApproval\<close>, \<open>CheckCurrent\<close> and \<open>ValidateCurrent\<close> of
  \<^verbatim>\<open>internal/planning/planning.go\<close>). \<open>CheckCurrent\<close> does not validate the plan before it reads
  the payloads; \<open>None\<close> is the nil dereference.
\<close>

section \<open>Approval\<close>

definition StatusAt :: "plan \<Rightarrow> time \<Rightarrow> plan_status" where
  "StatusAt p now =
     (if pl_status p = StatusReady \<and> \<not> now < pl_expires_at p then StatusExpired else pl_status p)"

record approval =
  ap_plan_id :: string
  ap_revision :: int
  ap_digest :: string
  ap_at :: time

definition ValidateApproval :: "go_library \<Rightarrow> plan \<Rightarrow> approval \<Rightarrow> time \<Rightarrow> plan_error option" where
  "ValidateApproval L p a now =
     (case Plan_Validate L p of
        Some e \<Rightarrow> Some e
      | None \<Rightarrow>
          if StatusAt p now = StatusExpired then Some PlanExpired
          else if pl_status p \<noteq> StatusReady \<or> pl_blocking_issues p \<noteq> [] then Some PlanConflict
          else if ap_plan_id a \<noteq> pl_id p then Some PlanRevision
          else if ap_revision a \<noteq> pl_revision p then Some PlanRevision
          else if ap_digest a \<noteq> pl_digest p then Some PlanDigest
          else if time_is_zero (ap_at a) \<or> ap_at a < pl_created_at p \<or> \<not> ap_at a < pl_expires_at p
          then Some PlanExpired
          else None)"

section \<open>Configuration fences\<close>

definition sameRevisionSubset :: "revision_map \<Rightarrow> revision_map \<Rightarrow> bool" where
  "sameRevisionSubset expected actual \<longleftrightarrow> list_all (\<lambda>(i, r). revision_of actual i = r) expected"

definition relevantMappingScopes :: "go_library \<Rightarrow> plan \<Rightarrow> mapping_scope list" where
  "relevantMappingScopes L p =
     normalizeMappingScopes L
       (concat (map (\<lambda>need. case mappingScopesForNeed (bd_mapping_scopes (pl_binding p)) need of
                              [scope] \<Rightarrow> [scope] | _ \<Rightarrow> [])
                    (desiredMappingNeeds (pl_desired p))))"

definition relevantMappingRevisions :: "go_library \<Rightarrow> plan \<Rightarrow> revision_map" where
  "relevantMappingRevisions L p =
     concat (map (\<lambda>scope.
        let r = revision_of (bd_mapping_revisions (pl_binding p)) (ms_mapping_id scope) in
        if r \<noteq> [] then [(ms_mapping_id scope, r)] else [])
       (relevantMappingScopes L p))"

definition required_scope_matches :: "mapping_scope list \<Rightarrow> mapping_scope \<Rightarrow> bool" where
  "required_scope_matches actual required \<longleftrightarrow>
     list_all (\<lambda>c. ms_mapping_id c = ms_mapping_id required \<longrightarrow> c = required) actual
     \<and> length (filter (\<lambda>c. ms_mapping_id c = ms_mapping_id required) actual) = 1
     \<and> length (filter (\<lambda>c. ms_connection_id c = ms_connection_id required
                          \<and> ms_root_id c = ms_root_id required) actual) = 1"

definition sameMappingScopeSubset :: "mapping_scope list \<Rightarrow> mapping_scope list \<Rightarrow> bool" where
  "sameMappingScopeSubset expected actual \<longleftrightarrow> list_all (required_scope_matches actual) expected"

section \<open>Current state\<close>

record current_state =
  cs_binding :: binding
  cs_manifest :: "file_manifest_entry list"
  cs_desired :: "predicate list"
  cs_capabilities :: "capability list"
  cs_observed_at :: time

definition mapping_payload_present :: "predicate \<Rightarrow> bool" where
  "mapping_payload_present p \<longleftrightarrow>
     (pr_kind p = PredicateImport \<longrightarrow> pr_import p \<noteq> None)
     \<and> (pr_kind p = PredicateEpisodeAssociation \<longrightarrow> pr_episode p \<noteq> None)
     \<and> (pr_kind p = PredicateSubtitleAssociation \<longrightarrow> pr_subtitle p \<noteq> None)"

definition blocking_conflict :: "string \<Rightarrow> string \<Rightarrow> string \<Rightarrow> string \<Rightarrow> plan_conflict" where
  "blocking_conflict code field target message =
     \<lparr>pcf_code = code, pcf_field = field, pcf_target = target, pcf_message = message,
      pcf_evidence = [], pcf_blocking = True\<rparr>"

definition source_changed :: "go_library \<Rightarrow> plan \<Rightarrow> current_state \<Rightarrow> bool" where
  "source_changed L p c \<longleftrightarrow>
     bd_source_id (pl_binding p) \<noteq> bd_source_id (cs_binding c)
     \<or> bd_source_revision (pl_binding p) \<noteq> bd_source_revision (cs_binding c)
     \<or> normalizeDigest L (bd_source_digest (pl_binding p))
         \<noteq> normalizeDigest L (bd_source_digest (cs_binding c))"

definition configuration_changed :: "plan \<Rightarrow> current_state \<Rightarrow> bool" where
  "configuration_changed p c \<longleftrightarrow>
     \<not> sameRevisionSubset (bd_connection_revisions (pl_binding p)) (bd_connection_revisions (cs_binding c))"

definition mapping_changed :: "go_library \<Rightarrow> plan \<Rightarrow> current_state \<Rightarrow> bool" where
  "mapping_changed L p c \<longleftrightarrow>
     \<not> sameRevisionSubset (relevantMappingRevisions L p) (bd_mapping_revisions (cs_binding c))
     \<or> \<not> sameMappingScopeSubset (relevantMappingScopes L p) (bd_mapping_scopes (cs_binding c))"

definition capability_changed :: "go_library \<Rightarrow> plan \<Rightarrow> current_state \<Rightarrow> bool" where
  "capability_changed L p c \<longleftrightarrow>
     pl_capabilities p \<noteq> [] \<and> \<not> sameCapabilities L (pl_capabilities p) (cs_capabilities c)"

definition manifest_changed :: "go_library \<Rightarrow> plan \<Rightarrow> current_state \<Rightarrow> bool" where
  "manifest_changed L p c \<longleftrightarrow>
     pl_manifest p \<noteq> []
     \<and> (cs_manifest c = [] \<or> manifestFingerprint L (pl_manifest p) \<noteq> manifestFingerprint L (cs_manifest c))"

definition desired_changed :: "go_library \<Rightarrow> plan \<Rightarrow> current_state \<Rightarrow> bool" where
  "desired_changed L p c \<longleftrightarrow>
     (case (SemanticDigest L (pl_desired p), SemanticDigest L (cs_desired c)) of
        (Inr d, Inr e) \<Rightarrow> d \<noteq> e
      | _ \<Rightarrow> True)"

definition CheckCurrent :: "go_library \<Rightarrow> plan \<Rightarrow> current_state \<Rightarrow> plan_conflict list option" where
  "CheckCurrent L p c =
     (if \<not> list_all mapping_payload_present (pl_desired p) then None
      else Some (sortConflicts L
        ((if time_is_zero (cs_observed_at c)
          then [blocking_conflict ''current_observation_missing'' [] (pl_id p)
                  ''current state observation time is required''] else [])
         @ (if source_changed L p c
            then [blocking_conflict ''source_changed'' ''source'' (bd_source_id (pl_binding p))
                    ''the approved source identity or revision changed''] else [])
         @ (if configuration_changed p c
            then [blocking_conflict ''configuration_changed'' ''connectionRevisions'' (pl_id p)
                    ''a relevant connection configuration revision changed''] else [])
         @ (if mapping_changed L p c
            then [blocking_conflict ''mapping_changed'' ''mappingRevisions'' (pl_id p)
                    ''a relevant path mapping revision changed''] else [])
         @ (if capability_changed L p c
            then [blocking_conflict ''capability_changed'' ''capabilities'' (pl_id p)
                    ''a capability used by the plan changed''] else [])
         @ (if manifest_changed L p c
            then [blocking_conflict ''manifest_changed'' ''manifest'' (pl_id p)
                    ''the exact approved file manifest changed''] else [])
         @ (if desired_changed L p c
            then [blocking_conflict ''desired_state_changed'' ''desired'' (pl_id p)
                    ''the selected semantic intent changed''] else [])
         @ (if \<not> time_is_zero (pl_expires_at p) \<and> \<not> cs_observed_at c < pl_expires_at p
            then [blocking_conflict ''preview_expired'' ''expiresAt'' (pl_id p)
                    ''the approved plan expired before validation''] else []))))"

definition ValidateCurrent :: "go_library \<Rightarrow> plan \<Rightarrow> current_state \<Rightarrow> plan_error option option" where
  "ValidateCurrent L p c =
     map_option (\<lambda>conflicts. case conflicts of [] \<Rightarrow> None | x # _ \<Rightarrow> Some (BindingChanged (pcf_message x)))
       (CheckCurrent L p c)"

end
