(* ===== verification/Plan_Rules.thy ===== *)
theory Plan_Rules
  imports Plan_Stable Plan_Current
begin

text \<open>
  \<open>Build\<close>, \<open>Plan.Validate\<close> and the checks of a request rewritten as the conjunction of what they
  check, and the fields of a plan that \<open>Build\<close> normalizes and settles.
\<close>

section \<open>Build\<close>

lemma normalizePlan_fields [norm_simps]:
  "pl_id (normalizePlan L p) = pl_id p" "pl_revision (normalizePlan L p) = pl_revision p"
  "pl_action (normalizePlan L p) = pl_action p" "pl_digest (normalizePlan L p) = pl_digest p"
  "pl_manifest_limits (normalizePlan L p) = pl_manifest_limits p"
  "pl_created_at (normalizePlan L p) = pl_created_at p"
  "pl_expires_at (normalizePlan L p) = pl_expires_at p"
  "pl_manifest (normalizePlan L p) = normalizeManifest L (pl_manifest p)"
  "pl_preconditions (normalizePlan L p) = normalizePreconditions L (pl_preconditions p)"
  "pl_binding (normalizePlan L p) = cloneBinding L (pl_binding p)"
  "pl_capabilities (normalizePlan L p) = normalizeCapabilities L (pl_capabilities p)"
  "pl_conflicts (normalizePlan L p) = normalizeConflicts L (pl_conflicts p)"
  "pl_impacts (normalizePlan L p) = normalizeImpacts L (pl_impacts p)"
  by (simp_all add: normalizePlan_def)

lemma settle_plan_fields [norm_simps]:
  "pl_id (settle_plan L p) = pl_id p" "pl_revision (settle_plan L p) = pl_revision p"
  "pl_action (settle_plan L p) = pl_action p" "pl_desired (settle_plan L p) = pl_desired p"
  "pl_manifest_limits (settle_plan L p) = pl_manifest_limits p"
  "pl_created_at (settle_plan L p) = pl_created_at p" "pl_expires_at (settle_plan L p) = pl_expires_at p"
  "pl_manifest (settle_plan L p) = pl_manifest p" "pl_preconditions (settle_plan L p) = pl_preconditions p"
  "pl_binding (settle_plan L p) = pl_binding p" "pl_capabilities (settle_plan L p) = pl_capabilities p"
  "pl_conflicts (settle_plan L p) = pl_conflicts p" "pl_impacts (settle_plan L p) = pl_impacts p"
  "pl_blocking_issues (settle_plan L p) = canonicalBlockingIssues L (pl_conflicts p)"
  "pl_status (settle_plan L p) =
     (if canonicalBlockingIssues L (pl_conflicts p) \<noteq> [] then StatusInvalid else StatusReady)"
  by (simp_all add: settle_plan_def Let_def)

lemma canonicalBlockingIssues_ne:
  "lawful_library L \<Longrightarrow> canonicalBlockingIssues L cs \<noteq> [] \<longleftrightarrow> (\<exists>c\<in>set cs. pcf_blocking c)"
  by (auto simp: canonicalBlockingIssues_def filter_empty_conv normalizeConflicts_set)

lemma NewRuntimeID_not_blank: "NewRuntimeID random = Inr i \<Longrightarrow> \<not> blank i"
proof (cases random)
  case None
  then show "NewRuntimeID random = Inr i \<Longrightarrow> \<not> blank i" by (simp add: NewRuntimeID_def)
next
  case (Some raw)
  assume "NewRuntimeID random = Inr i"
  with Some NewRuntimeID_text have "uuid_text i" by blast
  with uuid_text_plain [of i] show "\<not> blank i" by (auto simp: uuid_text_def)
qed

lemma default_request_facts:
  assumes "default_request now random q = Inr r"
  shows "\<not> blank (rq_id r)" "0 < rq_revision r" "rq_created_at r < rq_expires_at r"
    "ActionKind_Valid (rq_action r)" "approval_kind_valid (rq_required_approval r)"
    "rq_revision r = (if rq_revision q = 0 then 1 else rq_revision q)"
    "\<not> blank (rq_id q) \<Longrightarrow> rq_id r = rq_id q"
    "rq_desired r = rq_desired q" "rq_manifest r = rq_manifest q" "rq_binding r = rq_binding q"
    "rq_conflicts r = rq_conflicts q" "rq_action r = rq_action q"
    "rq_manifest_limits r = rq_manifest_limits q"
proof -
  define n where "n = (if rq_revision q = 0 then 1 else rq_revision q)"
  define created where "created = (if time_is_zero (rq_created_at q) then now else rq_created_at q)"
  define expires where "expires = (if time_is_zero (rq_expires_at q) then created + plan_lifetime else rq_expires_at q)"
  define approval where
    "approval = (if rq_required_approval q = ApprovalKindOther [] then ApprovalAction else rq_required_approval q)"
  have r1: "(if rq_revision q = 0 then q\<lparr>rq_revision := 1\<rparr> else q) = q\<lparr>rq_revision := n\<rparr>"
    by (simp add: n_def)
  have f: "default_request now random q =
      (if rq_revision q < 0 then Inl RevisionNegative
       else case (if blank (rq_id q) then (case NewRuntimeID random of Inl e \<Rightarrow> Inl (PlanIDFailed e) | Inr i \<Rightarrow> Inr i)
                  else Inr (rq_id q)) of
         Inl e \<Rightarrow> Inl e
       | Inr i \<Rightarrow>
           if expires \<le> created then Inl ExpiryNotAfter
           else if \<not> ActionKind_Valid (rq_action q) then Inl (ActionUnsupported (action_kind_text (rq_action q)))
           else if \<not> approval_kind_valid approval then Inl (ApprovalUnsupported (approval_kind_text approval))
           else Inr (q\<lparr>rq_revision := n, rq_id := i, rq_created_at := created, rq_expires_at := expires,
                       rq_required_approval := approval\<rparr>))"
    unfolding default_request_def r1 Let_def
    by (cases "NewRuntimeID random") (simp_all add: created_def expires_def approval_def)
  obtain i where i: "if blank (rq_id q) then NewRuntimeID random = Inr i else i = rq_id q"
    and c: "0 \<le> rq_revision q" "created < expires" "ActionKind_Valid (rq_action q)" "approval_kind_valid approval"
    and r: "r = q\<lparr>rq_revision := n, rq_id := i, rq_created_at := created, rq_expires_at := expires,
      rq_required_approval := approval\<rparr>"
    using assms unfolding f by (auto split: if_split_asm sum.split_asm)
  have "\<not> blank i" using i NewRuntimeID_not_blank by (auto split: if_splits)
  then show "\<not> blank (rq_id r)" by (simp add: r)
  show "\<not> blank (rq_id q) \<Longrightarrow> rq_id r = rq_id q" using i by (simp add: r)
  show "0 < rq_revision r" using c(1) by (simp add: r n_def)
  show "rq_revision r = (if rq_revision q = 0 then 1 else rq_revision q)" by (simp add: r n_def)
  show "rq_created_at r < rq_expires_at r" "ActionKind_Valid (rq_action r)" "approval_kind_valid (rq_required_approval r)"
    using c by (simp_all add: r)
  show "rq_desired r = rq_desired q" "rq_manifest r = rq_manifest q" "rq_binding r = rq_binding q"
    "rq_conflicts r = rq_conflicts q" "rq_action r = rq_action q"
    "rq_manifest_limits r = rq_manifest_limits q"
    by (simp_all add: r)
qed

text \<open>The plan before its digest is taken.\<close>

definition undigested :: "go_library \<Rightarrow> plan_request \<Rightarrow> manifest_limits \<Rightarrow> plan" where
  "undigested L r limits = settle_plan L (normalizePlan L (plan_of_request r limits))"

lemma Build_Inr_iff:
  "Build L now random q = Inr (p, e) \<longleftrightarrow>
     (\<exists>r limits digest. default_request now random q = Inr r \<and> 0 \<le> rq_estimated_bytes r
        \<and> Binding_Validate (rq_binding r) = None \<and> Desired_Validate L (rq_desired r) = None
        \<and> normalized (rq_manifest_limits r) = Inr limits \<and> request_checks L r limits = None
        \<and> digestPlan L (undigested L r limits) = Inr digest
        \<and> p = (undigested L r limits)\<lparr>pl_digest := digest\<rparr>
        \<and> e = (if pl_blocking_issues p \<noteq> [] then Some PlanConflict else None))"
proof (cases "default_request now random q")
  case (Inl e)
  then show ?thesis by (simp add: Build_def)
next
  case (Inr r)
  let ?c = "first_error [map_option BindingError (Binding_Validate (rq_binding r)),
      map_option DesiredError (Desired_Validate L (rq_desired r))]"
  have c: "?c = None \<longleftrightarrow> Binding_Validate (rq_binding r) = None \<and> Desired_Validate L (rq_desired r) = None"
    by (simp add: first_error_iff map_option_None_iff)
  show ?thesis
  proof (cases "rq_estimated_bytes r < 0 \<or> ?c \<noteq> None")
    case True
    then show ?thesis using c by (auto simp: Build_def Inr)
  next
    case False
    then have "?c = None" by simp
    with False c show ?thesis
      by (auto simp: Build_def Inr undigested_def Let_def split: sum.splits option.splits)
  qed
qed

lemma digestPlan_digest [simp]: "digestPlan L (p\<lparr>pl_digest := d\<rparr>) = digestPlan L p"
  by (simp add: digestPlan_def digest_payload_def)

lemma first_error_Cons: "first_error (c # cs) = None \<longleftrightarrow> c = None \<and> first_error cs = None"
  by (simp add: first_error_iff)

lemma first_error_Nil: "first_error [] = None"
  by (simp add: first_error_iff)

lemmas check_simps = first_error_Cons first_error_Nil map_option_None_iff check_each_iff simp_thms

lemma request_checks_iff:
  "request_checks L r limits = None \<longleftrightarrow>
     validateManifestForAction (rq_action r) (rq_manifest r) limits = None
     \<and> validateDesiredForAction (rq_action r) (rq_desired r) = None
     \<and> validateBindingForDesired (rq_action r) (rq_desired r) (rq_binding r) = None
     \<and> validateDesiredAgainstManifest (rq_action r) (rq_desired r) (rq_manifest r) = None
     \<and> (\<forall>x\<in>set (rq_preconditions r). Precondition_Validate x = None)
     \<and> (\<forall>x\<in>set (rq_capabilities r). Capability_Validate x = None)
     \<and> (\<forall>x\<in>set (rq_conflicts r). Conflict_Validate x = None)
     \<and> (\<forall>x\<in>set (rq_impacts r). Impact_Validate x = None)"
  unfolding request_checks_def check_simps ..

text \<open>\<open>Plan.Validate\<close> as the conjunction of what it checks.\<close>

lemma Plan_Validate_iff:
  "Plan_Validate L p = None \<longleftrightarrow>
     (\<exists>limits. \<not> blank (pl_id p) \<and> 0 < pl_revision p \<and> ActionKind_Valid (pl_action p)
        \<and> Binding_Validate (pl_binding p) = None \<and> Desired_Validate L (pl_desired p) = None
        \<and> validateDesiredForAction (pl_action p) (pl_desired p) = None
        \<and> validateBindingForDesired (pl_action p) (pl_desired p) (pl_binding p) = None
        \<and> normalized (pl_manifest_limits p) = Inr limits
        \<and> validateManifestForAction (pl_action p) (pl_manifest p) limits = None
        \<and> validateDesiredAgainstManifest (pl_action p) (pl_desired p) (pl_manifest p) = None
        \<and> pl_created_at p \<noteq> 0 \<and> pl_expires_at p \<noteq> 0 \<and> pl_created_at p < pl_expires_at p
        \<and> strongDigest (pl_digest p)
        \<and> (\<forall>x\<in>set (pl_conflicts p). Conflict_Validate x = None)
        \<and> (\<forall>x\<in>set (pl_preconditions p). Precondition_Validate x = None)
        \<and> (\<forall>x\<in>set (pl_capabilities p). Capability_Validate x = None)
        \<and> (\<forall>x\<in>set (pl_impacts p). Impact_Validate x = None)
        \<and> pl_status p = (if canonicalBlockingIssues L (pl_conflicts p) \<noteq> [] then StatusInvalid else StatusReady)
        \<and> sameConflictAuthorities L (pl_blocking_issues p) (canonicalBlockingIssues L (pl_conflicts p))
        \<and> digestPlan L (p\<lparr>pl_manifest_limits := limits\<rparr>) = Inr (pl_digest p))"
proof -
  let ?b = "canonicalBlockingIssues L (pl_conflicts p)"
  let ?s = "if ?b \<noteq> [] then StatusInvalid else StatusReady"
  have st: "pl_status p = ?s \<Longrightarrow> plan_status_valid (pl_status p) \<and> pl_status p \<noteq> StatusPreparing"
    by simp
  have dig: "(case x of Inl e \<Rightarrow> Some e | Inr computed \<Rightarrow> if computed \<noteq> d then Some PlanDigest else None) = None
      \<longleftrightarrow> x = Inr d" for x :: "plan_error + string" and d
    by (cases x) auto
  show ?thesis
  proof (cases "normalized (pl_manifest_limits p)")
    case (Inl e)
    then show ?thesis
      unfolding Plan_Validate_def by (auto split: option.splits)
  next
    case (Inr limits)
    show ?thesis
      unfolding Plan_Validate_def Inr sum.case err_simps dig Let_def check_simps time_is_zero_def
      using st by (auto simp: not_le)
  qed
qed

lemma undigested_fields [norm_simps]:
  "pl_id (undigested L r limits) = rq_id r" "pl_revision (undigested L r limits) = rq_revision r"
  "pl_action (undigested L r limits) = rq_action r" "pl_manifest_limits (undigested L r limits) = limits"
  "pl_created_at (undigested L r limits) = rq_created_at r" "pl_expires_at (undigested L r limits) = rq_expires_at r"
  "pl_manifest (undigested L r limits) = normalizeManifest L (rq_manifest r)"
  "pl_preconditions (undigested L r limits) = normalizePreconditions L (rq_preconditions r)"
  "pl_binding (undigested L r limits) = cloneBinding L (rq_binding r)"
  "pl_capabilities (undigested L r limits) = normalizeCapabilities L (rq_capabilities r)"
  "pl_conflicts (undigested L r limits) = normalizeConflicts L (rq_conflicts r)"
  "pl_impacts (undigested L r limits) = normalizeImpacts L (rq_impacts r)"
  "pl_blocking_issues (undigested L r limits) = canonicalBlockingIssues L (normalizeConflicts L (rq_conflicts r))"
  "pl_status (undigested L r limits) =
     (if canonicalBlockingIssues L (normalizeConflicts L (rq_conflicts r)) \<noteq> [] then StatusInvalid else StatusReady)"
  "Desired_Validate L (rq_desired r) = None \<Longrightarrow>
     Inr (pl_desired (undigested L r limits)) = normalizeDesired L (rq_desired r)"
  by (simp_all add: undigested_def norm_simps plan_of_request_def)
     (simp add: normalizePlan_def normalizeDesired_Inr)

lemma undigested_update: "(undigested L r limits)\<lparr>pl_digest := d, pl_manifest_limits := limits\<rparr> =
    (undigested L r limits)\<lparr>pl_digest := d\<rparr>"
  by (rule plan.equality) (simp_all add: norm_simps)

lemma blocking_normal:
  "lawful_library L \<Longrightarrow> canonicalBlockingIssues L (normalizeConflicts L cs) \<noteq> [] \<longleftrightarrow> (\<exists>c\<in>set cs. pcf_blocking c)"
  by (simp add: canonicalBlockingIssues_ne normalizeConflicts_set)

lemma Build_valid:
  assumes L: "lawful_library L" and b: "Build L now random request = Inr (p, e)" and t: "0 < pl_created_at p"
  shows "Plan_Validate L p = None"
proof -
  from b obtain r limits digest where r: "default_request now random request = Inr r"
    and v: "Binding_Validate (rq_binding r) = None" "Desired_Validate L (rq_desired r) = None"
    and n: "normalized (rq_manifest_limits r) = Inr limits" and c: "request_checks L r limits = None"
    and d: "digestPlan L (undigested L r limits) = Inr digest"
    and p: "p = (undigested L r limits)\<lparr>pl_digest := digest\<rparr>"
    unfolding Build_Inr_iff by blast
  note rf = default_request_facts [OF r]
  note c' = c [unfolded request_checks_iff]
  have qs: "normalizeDesired L (rq_desired r) = Inr (pl_desired p)"
    using undigested_fields(15) [OF v(2), of limits] by (simp add: p)
  note df = normalizeDesired_facts [OF L qs]
  have pv: "\<forall>q\<in>set (rq_desired r). Predicate_Validate q = None"
    using v(2) by (simp add: Desired_Validate_iff)
  have keys: "distinct (map entry_key (all_members (rq_manifest r)))" if "rq_manifest r \<noteq> []"
    using c'(1) that by (auto simp: validateManifestForAction_def Let_def ValidateManifest_iff split: option.splits if_splits)
  have sd: "strongDigest digest" using d strong_digestBytes by (auto simp: digestPlan_def split: if_splits)
  show "Plan_Validate L p = None"
    unfolding Plan_Validate_iff
  proof (intro exI [of _ limits] conjI)
    show "validateDesiredForAction (pl_action p) (pl_desired p) = None"
      using c' validateDesiredForAction_normal [OF df(1)] by (simp add: p norm_simps)
    show "validateBindingForDesired (pl_action p) (pl_desired p) (pl_binding p) = None"
      using c' validateBindingForDesired_normal [OF L pv df(1)] by (simp add: p norm_simps)
    show "validateManifestForAction (pl_action p) (pl_manifest p) limits = None"
      using c' validateManifestForAction_normal [OF L] by (simp add: p norm_simps)
    show "validateDesiredAgainstManifest (pl_action p) (pl_desired p) (pl_manifest p) = None"
      using c' validateDesiredAgainstManifest_normal [OF L pv keys df(1)] by (simp add: p norm_simps)
    show "digestPlan L (p\<lparr>pl_manifest_limits := limits\<rparr>) = Inr (pl_digest p)"
      using d by (simp add: p undigested_update)
  qed (use rf(1-5) t v(1) df(2) c' normalized_idem [OF n] sd evidence_valid_normal [OF L]
         Binding_Validate_normal [OF L] sameConflictAuthorities_refl in \<open>simp_all add: p norm_simps\<close>)
qed

end
