(* ===== verification/Plan_Example.thy ===== *)
theory Plan_Example
  imports Plan_Rules
begin

text \<open>
  A concrete import plan, built with the library that sorts by insertion: one video file of the
  root \<open>media\<close>, imported through the connection \<open>sonarr\<close>. It is the input of the witnesses.
\<close>

definition ex_digest :: string where
  "ex_digest = replicate 64 CHR ''a''"

definition ex_target :: file_target where
  "ex_target = \<lparr>ft_root_id = ''media'', ft_relative_path = ''in/a.mkv''\<rparr>"

definition ex_entry :: file_manifest_entry where
  "ex_entry = FileManifestEntry ''media'' ''in/a.mkv'' ManifestFile 5 ex_digest ''inode-1''
     (ManifestRoleOther []) 100 []"

definition ex_selection :: import_selection where
  "ex_selection = \<lparr>sel_source = ex_target, sel_movie_or_episode_id = ''7'', sel_episode_ids = [],
     sel_subtitle = False, sel_language = [], sel_forced = False, sel_hearing_impaired = False,
     sel_pair_id = [], sel_video_paths = [], sel_confidence = MappingConfidenceOther []\<rparr>"

definition ex_desired :: "predicate list" where
  "ex_desired = [NewImportPredicate ''sonarr'' ''42'' [ex_selection] ''copy'']"

definition ex_binding :: binding where
  "ex_binding = \<lparr>bd_source_id = ''scan'', bd_source_revision = ''r1'', bd_source_digest = [],
     bd_connection_revisions = [(''sonarr'', ''c1'')], bd_mapping_revisions = [(''m1'', ''v1'')],
     bd_mapping_scopes = [\<lparr>ms_mapping_id = ''m1'', ms_connection_id = ''sonarr'', ms_root_id = ''media''\<rparr>]\<rparr>"

definition ex_request :: plan_request where
  "ex_request = \<lparr>rq_id = ''plan-1'', rq_revision = 0, rq_action = ActionArrImport, rq_desired = ex_desired,
     rq_manifest = [ex_entry],
     rq_manifest_limits = \<lparr>ml_max_entries = 0, ml_max_depth = 0, ml_max_children = 0, ml_max_bytes = 0\<rparr>,
     rq_preconditions = [], rq_binding = ex_binding, rq_capabilities = [], rq_conflicts = [],
     rq_impacts = [], rq_estimated_bytes = 5, rq_required_approval = ApprovalKindOther [],
     rq_created_at = 100, rq_expires_at = 200\<rparr>"

definition ex_defaulted :: plan_request where
  "ex_defaulted = ex_request\<lparr>rq_revision := 1, rq_required_approval := ApprovalAction\<rparr>"

definition ex_plan :: plan where
  "ex_plan = (let p = undigested plain_library ex_defaulted DefaultManifestLimits in
     p\<lparr>pl_digest := digestBytes (json_text (digest_payload plain_library p))\<rparr>)"

lemma ex_defaults: "default_request 0 None ex_request = Inr ex_defaulted"
  by code_simp

lemma ex_predicate: "Predicate_Validate (hd ex_desired) = None"
  by code_simp

lemma ex_checks: "request_checks plain_library ex_defaulted DefaultManifestLimits = None"
  by code_simp

lemma ex_binding_valid: "Binding_Validate ex_binding = None"
  by code_simp

lemma ex_limits: "normalized (rq_manifest_limits ex_defaulted) = Inr DefaultManifestLimits"
  by code_simp

lemma ex_marshals: "manifest_marshals (normalizeManifest plain_library [ex_entry])"
  by code_simp

lemma ex_builds: "Build plain_library 0 None ex_request = Inr (ex_plan, None)"
  unfolding Build_Inr_iff
proof (intro exI conjI)
  let ?p = "undigested plain_library ex_defaulted DefaultManifestLimits"
  show "default_request 0 None ex_request = Inr ex_defaulted" by (rule ex_defaults)
  show "request_checks plain_library ex_defaulted DefaultManifestLimits = None" by (rule ex_checks)
  show "normalized (rq_manifest_limits ex_defaulted) = Inr DefaultManifestLimits" by (rule ex_limits)
  show "Binding_Validate (rq_binding ex_defaulted) = None"
    using ex_binding_valid by (simp add: ex_defaulted_def ex_request_def)
  show "Desired_Validate plain_library (rq_desired ex_defaulted) = None"
    using ex_predicate by (simp add: Desired_Validate_iff ex_defaulted_def ex_request_def ex_desired_def)
  have m: "pl_manifest ?p = normalizeManifest plain_library [ex_entry]" "pl_capabilities ?p = []"
    by (simp_all add: norm_simps ex_defaulted_def ex_request_def normalizeCapabilities_def sort_slice_def
        plain_library_def insertion_order_def)
  then show "digestPlan plain_library ?p = Inr (digestBytes (json_text (digest_payload plain_library ?p)))"
    using ex_marshals by (simp add: digestPlan_def)
  show "ex_plan = ?p\<lparr>pl_digest := digestBytes (json_text (digest_payload plain_library ?p))\<rparr>"
    by (simp add: ex_plan_def Let_def)
  show "None = (if pl_blocking_issues ex_plan \<noteq> [] then Some PlanConflict else None)"
    by (simp add: ex_plan_def Let_def norm_simps ex_defaulted_def ex_request_def canonicalBlockingIssues_def
        normalizeConflicts_def sortConflicts_def sort_slice_def plain_library_def insertion_order_def)
qed (simp add: ex_defaulted_def ex_request_def)

lemma ex_times: "pl_created_at ex_plan = 100" "pl_expires_at ex_plan = 200"
  by (simp_all add: ex_plan_def Let_def norm_simps ex_defaulted_def ex_request_def)

lemma undigested_approval:
  "pl_required_approval (undigested L r limits) = rq_required_approval r"
  by (simp add: undigested_def settle_plan_def normalizePlan_def plan_of_request_def Let_def)

lemma ex_fields: "pl_revision ex_plan = 1" "pl_status ex_plan = StatusReady"
  "pl_binding ex_plan = cloneBinding plain_library ex_binding"
  "pl_manifest ex_plan = normalizeManifest plain_library [ex_entry]" "pl_action ex_plan = ActionArrImport"
  "pl_manifest_limits ex_plan = DefaultManifestLimits" "pl_preconditions ex_plan = []"
  "pl_capabilities ex_plan = []" "pl_conflicts ex_plan = []" "pl_impacts ex_plan = []"
  "pl_required_approval ex_plan = ApprovalAction"
  by (simp_all add: ex_plan_def Let_def norm_simps ex_defaulted_def ex_request_def canonicalBlockingIssues_def
      normalizeConflicts_def sortConflicts_def sort_slice_def plain_library_def insertion_order_def
      normalizePreconditions_def normalizeCapabilities_def normalizeImpacts_def undigested_approval)

lemma ex_valid: "Plan_Validate plain_library ex_plan = None"
  by (rule Build_valid [OF plain_library_lawful ex_builds]) (simp add: ex_times)

end
