(* ===== verification/Plan_Properties.thy ===== *)
theory Plan_Properties
  imports Plan_Example
begin

text \<open>
  What the planning package guarantees of the plans it builds: they validate, an approval fits
  exactly one of them, and a digest stands for one intent.
\<close>

text \<open>
  C12: Every plan \<open>Build\<close> returns passes \<open>Plan.Validate\<close>: the normal forms it computes keep all the
  checks of the request, and the digest it stores is the one validation recomputes. The plan is
  ready, or it is invalid and comes with \<open>ErrPlanConflict\<close>, and the latter exactly when the request
  has a blocking conflict. The revision is that of the request, 1 when it gives none.
\<close>

theorem built_plans_validate:
  assumes L: "lawful_library L" and b: "Build L now random request = Inr (p, e)" and t: "0 < pl_created_at p"
  shows "Plan_Validate L p = None
    \<and> pl_status p = (if \<exists>c\<in>set (rq_conflicts request). pcf_blocking c then StatusInvalid else StatusReady)
    \<and> e = (if \<exists>c\<in>set (rq_conflicts request). pcf_blocking c then Some PlanConflict else None)
    \<and> pl_revision p = (if rq_revision request = 0 then 1 else rq_revision request)"
proof -
  from b obtain r limits digest where r: "default_request now random request = Inr r"
    and p: "p = (undigested L r limits)\<lparr>pl_digest := digest\<rparr>"
    and e: "e = (if pl_blocking_issues p \<noteq> [] then Some PlanConflict else None)"
    unfolding Build_Inr_iff by blast
  note rf = default_request_facts [OF r]
  have "canonicalBlockingIssues L (normalizeConflicts L (rq_conflicts r)) \<noteq> [] \<longleftrightarrow>
      (\<exists>c\<in>set (rq_conflicts request). pcf_blocking c)"
    unfolding blocking_normal [OF L] rf(11) ..
  then show ?thesis
    using Build_valid [OF L b t] e rf(6) by (simp add: p norm_simps)
qed

lemma built_plans_validate_witness:
  "Plan_Validate plain_library ex_plan = None \<and> pl_status ex_plan = StatusReady \<and> pl_revision ex_plan = 1"
  using built_plans_validate [OF plain_library_lawful ex_builds] by (simp add: ex_times ex_request_def)

section \<open>Approval\<close>

lemma sameConflictAuthorities_length:
  assumes "lawful_library L" "sameConflictAuthorities L xs ys"
  shows "length xs = length ys"
proof -
  have "length (normalizeConflicts L zs) = length zs" for zs
    by (simp add: normalizeConflicts_def sortConflicts_def lawful_length assms(1))
  then show ?thesis
    using list_all2_lengthD [OF assms(2) [unfolded sameConflictAuthorities_def]] by simp
qed

lemma valid_status:
  assumes "lawful_library L" "Plan_Validate L p = None"
  shows "pl_status p = (if \<exists>c\<in>set (pl_conflicts p). pcf_blocking c then StatusInvalid else StatusReady)"
    "pl_blocking_issues p = [] \<longleftrightarrow> \<not> (\<exists>c\<in>set (pl_conflicts p). pcf_blocking c)"
proof -
  from assms(2) have s: "pl_status p = (if canonicalBlockingIssues L (pl_conflicts p) \<noteq> [] then StatusInvalid else StatusReady)"
    and b: "sameConflictAuthorities L (pl_blocking_issues p) (canonicalBlockingIssues L (pl_conflicts p))"
    unfolding Plan_Validate_iff by blast+
  from s show "pl_status p = (if \<exists>c\<in>set (pl_conflicts p). pcf_blocking c then StatusInvalid else StatusReady)"
    unfolding canonicalBlockingIssues_ne [OF assms(1)] .
  from sameConflictAuthorities_length [OF assms(1) b]
  show "pl_blocking_issues p = [] \<longleftrightarrow> \<not> (\<exists>c\<in>set (pl_conflicts p). pcf_blocking c)"
    unfolding canonicalBlockingIssues_ne [OF assms(1), symmetric] by auto
qed

text \<open>
  C11: \<open>ValidateApproval\<close> accepts a decision exactly when the plan is valid, has no blocking
  conflict and has not expired, and the decision names its id, its revision and its digest and was
  taken between its creation and its expiry.
\<close>

theorem approval_fits_exactly_one_plan:
  assumes "lawful_library L"
  shows "ValidateApproval L p a now = None \<longleftrightarrow>
    Plan_Validate L p = None \<and> \<not> (\<exists>c\<in>set (pl_conflicts p). pcf_blocking c) \<and> now < pl_expires_at p
    \<and> a = \<lparr>ap_plan_id = pl_id p, ap_revision = pl_revision p, ap_digest = pl_digest p, ap_at = ap_at a\<rparr>
    \<and> ap_at a \<noteq> 0 \<and> pl_created_at p \<le> ap_at a \<and> ap_at a < pl_expires_at p"
proof (cases "Plan_Validate L p")
  case None
  note v = valid_status [OF assms None]
  show ?thesis
    using v by (cases a) (auto simp: ValidateApproval_def None StatusAt_def time_is_zero_def not_less)
next
  case (Some e)
  then show ?thesis by (simp add: ValidateApproval_def)
qed

lemma approval_fits_exactly_one_plan_witness:
  "ValidateApproval plain_library ex_plan
     \<lparr>ap_plan_id = pl_id ex_plan, ap_revision = 1, ap_digest = pl_digest ex_plan, ap_at = 150\<rparr> 160 = None"
  unfolding approval_fits_exactly_one_plan [OF plain_library_lawful]
  using valid_status(1) [OF plain_library_lawful ex_valid] ex_valid ex_fields(1,2)
  by (auto simp: ex_times split: if_splits)

section \<open>What a digest stands for\<close>




lemma string_bytes_inj: "string_bytes a = string_bytes b \<longleftrightarrow> a = b"
proof -
  have "(of_nat (byte c) :: 8 word) = of_nat (byte d) \<longleftrightarrow> c = d" for c d
    using byte_lt [of c] byte_lt [of d] byte_inj [of c d]
    by (auto simp: word_of_nat_eq_iff take_bit_nat_eq_self)
  then have "inj (\<lambda>c. of_nat (byte c) :: 8 word)" by (simp add: inj_def)
  then show ?thesis by (simp add: string_bytes_def inj_map_eq_map)
qed












text \<open>ASCII text is valid UTF-8.\<close>

fun json_ascii :: "json \<Rightarrow> bool" where
  "json_ascii (JStr s) = list_all (\<lambda>c. byte c < 0x80) s"
| "json_ascii (JArr js) = list_all json_ascii js"
| "json_ascii (JObj fs) = list_all (\<lambda>(k, v). list_all (\<lambda>c. byte c < 0x80) k \<and> json_ascii v) fs"
| "json_ascii _ = True"





lemma json_lists_ascii:
  "list_all (list_all (\<lambda>c. byte c < 0x80)) xs \<Longrightarrow> json_ascii (strings_json xs)"
  "json_ascii (opt_json f x) \<longleftrightarrow> (case x of None \<Rightarrow> True | Some y \<Rightarrow> json_ascii (f y))"
  by (auto simp: strings_json_def opt_json_def list_all_iff split: option.splits)







end
