(* ===== verification/Plan_Dispatch.thy ===== *)
theory Plan_Dispatch
  imports Plan_Example
begin

text \<open>
  What holds of a valid plan: its manifest is bounded and exact, and an import stays within its
  manifest and its configuration fences.
\<close>

section \<open>Manifests\<close>

definition prefix_bytes :: "file_manifest_entry list \<Rightarrow> nat \<Rightarrow> int" where
  "prefix_bytes ms k = file_bytes (take k ms)"

lemma prefix_bytes_bounds:
  assumes "\<forall>m\<in>set ms. 0 \<le> fm_size m"
  shows "0 \<le> prefix_bytes ms k \<and> prefix_bytes ms k \<le> file_bytes ms"
proof -
  have "file_bytes ms = file_bytes (take k ms) + file_bytes (drop k ms)"
    by (metis append_take_drop_id file_bytes_simps(3))
  moreover have "0 \<le> file_bytes (take k ms)" "0 \<le> file_bytes (drop k ms)"
    using assms by (auto intro!: file_bytes_nonneg dest: in_set_takeD in_set_dropD)
  ultimately show ?thesis by (simp add: prefix_bytes_def)
qed

lemma distinct_map_inner: "distinct (map (\<lambda>x. f (g x)) xs) \<Longrightarrow> distinct (map g xs)"
  by (auto simp: distinct_map inj_on_def)

lemma entry_key_target: "map entry_key ms = map (\<lambda>m. fileTargetKey (entry_target m)) ms"
  by (simp add: entry_key_def)

text \<open>
  C22: A manifest that \<open>ValidateManifest\<close> accepts stays within its limits: as many members as
  \<open>MaxEntries\<close> at most, none deeper than \<open>MaxDepth\<close>, no directory with more than
  \<open>MaxChildrenPerDirectory\<close> children, and at every point of the walk the counted bytes lie between
  0 and \<open>MaxBytes\<close>, so with a 64-bit limit the sum never wraps. Every member passes
  \<open>ValidateAction\<close>, and two members never name the same file.
\<close>

theorem accepted_plan_manifest_is_bounded:
  assumes "ValidateManifest entries requireDigest limits = None" "ml_max_bytes limits < 2 ^ 63"
  shows "\<exists>L. normalized limits = Inr L \<and> int (length (all_members entries)) \<le> ml_max_entries L
    \<and> (\<forall>e\<in>set entries. depth_within (ml_max_depth L) 0 e)
    \<and> (\<forall>m\<in>set (all_members entries). int (length (fm_children m)) \<le> ml_max_children L
         \<and> FileManifestEntry_ValidateAction requireDigest m = None)
    \<and> (\<forall>k. 0 \<le> prefix_bytes (all_members entries) k \<and> prefix_bytes (all_members entries) k \<le> ml_max_bytes L)
    \<and> ml_max_bytes L < 2 ^ 63
    \<and> distinct (map entry_target (all_members entries))"
proof -
  from assms(1) obtain L where L: "normalized limits = Inr L"
    "\<forall>e\<in>set entries. FileManifestEntry_ValidateAction requireDigest e = None \<and> depth_within (ml_max_depth L) 0 e"
    "\<forall>m\<in>set (all_members entries). int (length (fm_children m)) \<le> ml_max_children L"
    "int (length (all_members entries)) \<le> ml_max_entries L" "file_bytes (all_members entries) \<le> ml_max_bytes L"
    "distinct (map entry_key (all_members entries))"
    unfolding ValidateManifest_iff by blast
  have v: "FileManifestEntry_ValidateAction requireDigest m = None" if "m \<in> set (all_members entries)" for m
    using that L(2) action_members_valid by auto
  then have sz: "\<forall>m\<in>set (all_members entries). 0 \<le> fm_size m" using action_size_nonneg by blast
  have "ml_max_bytes L < 2 ^ 63"
    using L(1) assms(2) by (auto simp: normalized_def DefaultManifestLimits_def split: if_splits)
  moreover have "distinct (map entry_target (all_members entries))"
    by (rule distinct_map_inner [of fileTargetKey]) (use L(6) in \<open>simp only: entry_key_target\<close>)
  moreover have "prefix_bytes (all_members entries) k \<le> ml_max_bytes L" for k
    using prefix_bytes_bounds [OF sz, of k] L(5) by linarith
  ultimately show ?thesis
    using L v prefix_bytes_bounds [OF sz] by (intro exI [of _ L] conjI) simp_all
qed

lemma ex_manifest: "ValidateManifest [ex_entry] True (rq_manifest_limits ex_request) = None"
  by code_simp

lemma accepted_plan_manifest_is_bounded_witness:
  "prefix_bytes (all_members [ex_entry]) 1 \<le> ml_max_bytes DefaultManifestLimits"
proof -
  have "normalized (rq_manifest_limits ex_request) = Inr DefaultManifestLimits" by code_simp
  moreover have "ml_max_bytes (rq_manifest_limits ex_request) < 2 ^ 63" by code_simp
  ultimately show ?thesis
    using accepted_plan_manifest_is_bounded [OF ex_manifest] by auto
qed

section \<open>Imports\<close>

lemma manifest_member_of:
  assumes v: "ValidateManifest es True limits = None"
    and t: "FileTarget_Validate t = None" and m: "flattenManifest es (fileTargetKey t) = Some m"
  shows "m \<in> set (all_members es) \<and> entry_target m = t
    \<and> (fm_type m \<noteq> ManifestDirectory \<longrightarrow> strongDigest (fm_digest m))"
proof -
  from v have d: "distinct (map entry_key (all_members es))"
    and a: "\<forall>e\<in>set es. FileManifestEntry_ValidateAction True e = None"
    unfolding ValidateManifest_iff by blast+
  have mem: "m \<in> set (all_members es)" "entry_key m = fileTargetKey t"
    using m unfolding flattenManifest_Some [OF d] by blast+
  from mem(1) a have va: "FileManifestEntry_ValidateAction True m = None"
    using action_members_valid by auto
  then have "FileTarget_Validate (entry_target m) = None"
    unfolding FileManifestEntry_ValidateAction_iff [of True m] FileManifestEntry_Validate_iff [of m]
    by (simp add: FileTarget_Validate_iff entry_target_def)
  with t mem(2) have "entry_target m = t"
    by (simp add: entry_key_def valid_target_key_inj)
  with mem(1) va show ?thesis
    unfolding FileManifestEntry_ValidateAction_iff [of True m] by blast
qed

text \<open>The one scope, with a revision, that maps a root for a connection.\<close>

definition sole_scope :: "binding \<Rightarrow> config_id \<Rightarrow> config_id \<Rightarrow> bool" where
  "sole_scope b connection root \<longleftrightarrow>
     (\<exists>scope\<in>set (bd_mapping_scopes b). ms_connection_id scope = connection \<and> ms_root_id scope = root
        \<and> \<not> blank (revision_of (bd_mapping_revisions b) (ms_mapping_id scope))
        \<and> (\<forall>other\<in>set (bd_mapping_scopes b). ms_connection_id other = connection \<and> ms_root_id other = root
              \<longrightarrow> other = scope))"

lemma need_fenced_sole: "need_fenced b (connection, root) \<Longrightarrow> sole_scope b connection root"
proof -
  assume "need_fenced b (connection, root)"
  then obtain scope where f: "filter (\<lambda>s. ms_connection_id s = connection \<and> ms_root_id s = root) (bd_mapping_scopes b) = [scope]"
    and r: "\<not> blank (revision_of (bd_mapping_revisions b) (ms_mapping_id scope))"
    by (auto simp: need_fenced_def mappingScopesForNeed_def)
  have "set (filter (\<lambda>s. ms_connection_id s = connection \<and> ms_root_id s = root) (bd_mapping_scopes b)) = {scope}"
    unfolding f by simp
  then have "x = scope \<longleftrightarrow> x \<in> set (bd_mapping_scopes b) \<and> ms_connection_id x = connection \<and> ms_root_id x = root" for x
    by auto
  with r show ?thesis unfolding sole_scope_def by blast
qed

text \<open>A file of an import is an exact member of the manifest, of the right kind and with a digest.\<close>

definition approved_file :: "file_manifest_entry list \<Rightarrow> bool \<Rightarrow> file_target \<Rightarrow> bool" where
  "approved_file manifest subtitle t \<longleftrightarrow>
     (\<exists>m\<in>set (all_members manifest). entry_target m = t \<and> strongDigest (fm_digest m)
        \<and> (if subtitle then isSubtitleManifestMember m else isVideoManifestMember m))"

lemma approved_file_member:
  assumes "ValidateManifest es True limits = None" "FileTarget_Validate t = None"
  shows "video_member (flattenManifest es) t \<Longrightarrow> approved_file es False t"
    "subtitle_member (flattenManifest es) t \<Longrightarrow> approved_file es True t"
proof -
  have k: "isVideoManifestMember m \<Longrightarrow> fm_type m \<noteq> ManifestDirectory"
    "isSubtitleManifestMember m \<Longrightarrow> fm_type m \<noteq> ManifestDirectory" for m
    by (simp_all add: isVideoManifestMember_def isSubtitleManifestMember_def split: if_splits)
  show "video_member (flattenManifest es) t \<Longrightarrow> approved_file es False t"
    "subtitle_member (flattenManifest es) t \<Longrightarrow> approved_file es True t"
    using manifest_member_of [OF assms] k
    unfolding video_member_def subtitle_member_def approved_file_def by (auto simp del: set_concat)
qed

text \<open>
  C18: A valid import plan stays within what was approved. It registers nothing; every connection
  it imports through has a configuration revision; every file it names is an exact member of its
  manifest, a video or a subtitle as the selection says, with a strong digest; and for every root
  it reads there is exactly one path mapping scope for the connection, with a revision.
\<close>

theorem import_plan_stays_in_its_fences:
  assumes "Plan_Validate L p = None" "pl_action p = ActionArrImport"
  shows "(\<forall>q\<in>set (pl_desired p). pr_kind q \<noteq> PredicateRegistration)
    \<and> (\<exists>q\<in>set (pl_desired p). pr_kind q = PredicateImport)
    \<and> (\<forall>q\<in>set (pl_desired p). pr_kind q = PredicateImport \<longrightarrow>
         (\<exists>i. pr_import q = Some i
            \<and> \<not> blank (revision_of (bd_connection_revisions (pl_binding p)) (ip_connection_id i))
            \<and> (\<forall>s\<in>set (ip_files i). approved_file (pl_manifest p) (sel_subtitle s) (sel_source s)
                 \<and> sole_scope (pl_binding p) (ip_connection_id i) (ft_root_id (sel_source s))
                 \<and> (\<forall>v\<in>set (sel_video_paths s). approved_file (pl_manifest p) False v
                      \<and> sole_scope (pl_binding p) (ip_connection_id i) (ft_root_id v)))))"
proof -
  from assms(1) obtain limits where
    d: "Desired_Validate L (pl_desired p) = None"
    and a: "validateDesiredForAction (pl_action p) (pl_desired p) = None"
    and b: "validateBindingForDesired (pl_action p) (pl_desired p) (pl_binding p) = None"
    and m: "validateManifestForAction (pl_action p) (pl_manifest p) limits = None"
    and r: "validateDesiredAgainstManifest (pl_action p) (pl_desired p) (pl_manifest p) = None"
    unfolding Plan_Validate_iff by blast
  have ne: "pl_manifest p \<noteq> []" and vm: "ValidateManifest (pl_manifest p) True limits = None"
    using m assms(2) by (auto simp: validateManifestForAction_def split: option.splits if_splits)
  note b' = b [unfolded validateBindingForDesired_iff assms(2)]
  have "\<exists>i. pr_import q = Some i
      \<and> \<not> blank (revision_of (bd_connection_revisions (pl_binding p)) (ip_connection_id i))
      \<and> (\<forall>s\<in>set (ip_files i). approved_file (pl_manifest p) (sel_subtitle s) (sel_source s)
           \<and> sole_scope (pl_binding p) (ip_connection_id i) (ft_root_id (sel_source s))
           \<and> (\<forall>v\<in>set (sel_video_paths s). approved_file (pl_manifest p) False v
                \<and> sole_scope (pl_binding p) (ip_connection_id i) (ft_root_id v)))"
    if q: "q \<in> set (pl_desired p)" and k: "pr_kind q = PredicateImport" for q
  proof -
    have pv: "Predicate_Validate q = None" using d q by (simp add: Desired_Validate_iff)
    with valid_predicate_payload(3) k obtain i where i: "pr_import q = Some i" by blast
    have vi: "validateImport i = None" using pv k i by (auto simp: Predicate_Validate_def with_payload_def split: if_splits)
    have c: "ip_connection_id i \<in> set (desiredConnectionIDs (pl_desired p))"
      using q k i vi unfolding desiredConnectionIDs_set
      by (auto simp: predicate_connection_def validateImport_iff intro!: bexI [of _ q])
    have scope: "sole_scope (pl_binding p) (ip_connection_id i) root"
      if "s \<in> set (ip_files i)" "root \<in> set (selection_roots s)" "ConfigID_Valid root" for s root
    proof (rule need_fenced_sole)
      have "(ip_connection_id i, root) \<in> set (desiredMappingNeeds (pl_desired p))"
        using q k i vi that unfolding desiredMappingNeeds_set
        by (auto simp: predicate_needs_def valid_need_def validateImport_iff Let_def intro!: bexI [of _ q]) blast
      with b' show "need_fenced (pl_binding p) (ip_connection_id i, root)" by blast
    qed
    have inm: "selection_in_manifest (flattenManifest (pl_manifest p)) s = None" if "s \<in> set (ip_files i)" for s
      using r ne q k i that
      by (auto simp: validateDesiredAgainstManifest_def predicates_in_manifest_iff predicate_in_manifest_def
          selections_in_manifest_iff)
    have sv: "ImportSelection_Validate s = None" if "s \<in> set (ip_files i)" for s
      using vi that by (simp add: validateImport_iff)
    have tv: "FileTarget_Validate (sel_source s) = None" "v \<in> set (sel_video_paths s) \<Longrightarrow> FileTarget_Validate v = None"
      if "s \<in> set (ip_files i)" for s v
      using sv [OF that] unfolding ImportSelection_Validate_iff by (auto split: if_splits)
    have "approved_file (pl_manifest p) (sel_subtitle s) (sel_source s)
        \<and> sole_scope (pl_binding p) (ip_connection_id i) (ft_root_id (sel_source s))"
      if s: "s \<in> set (ip_files i)" for s
      using inm [OF s] approved_file_member [OF vm tv(1) [OF s]] scope [OF s, of "ft_root_id (sel_source s)"] tv(1) [OF s]
      by (auto simp: selection_in_manifest_iff selection_roots_def FileTarget_Validate_iff split: if_splits)
    moreover have "approved_file (pl_manifest p) False v \<and> sole_scope (pl_binding p) (ip_connection_id i) (ft_root_id v)"
      if s: "s \<in> set (ip_files i)" and v: "v \<in> set (sel_video_paths s)" for s v
      using inm [OF s] v approved_file_member(1) [OF vm tv(2) [OF s v]] scope [OF s, of "ft_root_id v"] tv(2) [OF s v]
      by (auto simp: selection_in_manifest_iff selection_roots_def FileTarget_Validate_iff)
    ultimately show ?thesis using i b' c by blast
  qed
  moreover have "(\<forall>q\<in>set (pl_desired p). pr_kind q \<noteq> PredicateRegistration)
      \<and> (\<exists>q\<in>set (pl_desired p). pr_kind q = PredicateImport)"
    using a by (auto simp: validateDesiredForAction_def assms(2) list_ex_iff split: if_splits)
  ultimately show ?thesis by blast
qed

lemma import_plan_stays_in_its_fences_witness:
  "\<exists>q\<in>set (pl_desired ex_plan). pr_kind q = PredicateImport"
  using import_plan_stays_in_its_fences [OF ex_valid] by (simp add: ex_fields)

end
