(* ===== verification/Plan_Fresh.thy ===== *)
theory Plan_Fresh
  imports Plan_Properties
begin

text \<open>
  The comparison of a plan with the state read immediately before dispatch: it raises nothing on an
  unchanged state, and when it raises nothing the state is the approved one.
\<close>

section \<open>The parts of the comparison\<close>

lemma sort_empty_iff: "lawful_library L \<Longrightarrow> sort_slice (gl_order L) key xs = [] \<longleftrightarrow> xs = []"
  by (metis lawful_length length_0_conv)

lemma CheckCurrent_none_iff:
  assumes L: "lawful_library L" and v: "Desired_Validate L (pl_desired p) = None"
  shows "CheckCurrent L p c = Some [] \<longleftrightarrow>
    cs_observed_at c \<noteq> 0 \<and> \<not> source_changed L p c \<and> \<not> configuration_changed p c
    \<and> \<not> mapping_changed L p c \<and> \<not> capability_changed L p c \<and> \<not> manifest_changed L p c
    \<and> \<not> desired_changed L p c \<and> (pl_expires_at p = 0 \<or> cs_observed_at c < pl_expires_at p)"
proof -
  have "mapping_payload_present q" if "q \<in> set (pl_desired p)" for q
    using valid_predicate_payload [of q] v that by (simp add: Desired_Validate_iff mapping_payload_present_def)
  then have "list_all mapping_payload_present (pl_desired p)" by (simp add: list_all_iff)
  then show ?thesis
    by (simp add: CheckCurrent_def sortConflicts_def sort_empty_iff [OF L] time_is_zero_def not_le)
qed

lemma sameRevisionSubset_iff:
  "sameRevisionSubset expected actual \<longleftrightarrow> (\<forall>(i, r)\<in>set expected. revision_of actual i = r)"
  by (auto simp: sameRevisionSubset_def list_all_iff)

lemma sameRevisionSubset_refl: "distinct (map fst m) \<Longrightarrow> sameRevisionSubset m m"
  by (auto simp: sameRevisionSubset_iff revision_of_def)

lemma relevantMappingScopes_set:
  assumes "lawful_library L"
  shows "set (relevantMappingScopes L p) = {scope. \<exists>need\<in>set (desiredMappingNeeds (pl_desired p)).
    mappingScopesForNeed (bd_mapping_scopes (pl_binding p)) need = [scope]}"
  by (auto simp: relevantMappingScopes_def normalizeMappingScopes_facts(2) [OF assms] split: list.splits)

lemma relevantMappingRevisions_current:
  "sameRevisionSubset (relevantMappingRevisions L p) m \<longleftrightarrow>
     (\<forall>scope\<in>set (relevantMappingScopes L p).
        let r = revision_of (bd_mapping_revisions (pl_binding p)) (ms_mapping_id scope) in
        r \<noteq> [] \<longrightarrow> revision_of m (ms_mapping_id scope) = r)"
  by (auto simp: sameRevisionSubset_iff relevantMappingRevisions_def Let_def split: if_splits)

lemma filter_single: "filter P xs = [x] \<Longrightarrow> x \<in> set xs \<and> P x"
proof -
  assume "filter P xs = [x]"
  then have "x \<in> set (filter P xs)" by simp
  then show ?thesis by simp
qed

lemma filter_one_of_distinct:
  "distinct (map f xs) \<Longrightarrow> x \<in> set xs \<Longrightarrow> filter (\<lambda>y. f y = f x) xs = [x]"
proof (induction xs)
  case Nil
  then show ?case by simp
next
  case (Cons y ys)
  show ?case
  proof (cases "y = x")
    case True
    with Cons.prems have "filter (\<lambda>y. f y = f x) ys = []" by (auto simp: filter_empty_conv image_iff)
    with True show ?thesis by simp
  next
    case False
    with Cons.prems have "f y \<noteq> f x" by force
    with Cons False show ?thesis by simp
  qed
qed

lemma required_scope_unchanged:
  assumes "distinct (map ms_mapping_id scopes)" "mappingScopesForNeed scopes need = [scope]"
  shows "required_scope_matches scopes scope"
proof -
  have s: "scope \<in> set scopes" "ms_connection_id scope = fst need" "ms_root_id scope = snd need"
    using filter_single [OF assms(2) [unfolded mappingScopesForNeed_def]] by blast+
  have "c = scope" if "c \<in> set scopes" "ms_mapping_id c = ms_mapping_id scope" for c
    using assms(1) s(1) that by (simp add: distinct_map inj_on_def)
  with s assms filter_one_of_distinct [OF assms(1) s(1)] show ?thesis
    by (simp add: required_scope_matches_def list_all_iff mappingScopesForNeed_def)
qed


section \<open>An unchanged state\<close>

definition approved_state :: "plan \<Rightarrow> time \<Rightarrow> current_state" where
  "approved_state p at = \<lparr>cs_binding = pl_binding p, cs_manifest = pl_manifest p, cs_desired = pl_desired p,
     cs_capabilities = pl_capabilities p, cs_observed_at = at\<rparr>"

lemma valid_scopes_distinct: "Binding_Validate b = None \<Longrightarrow> distinct (map ms_mapping_id (bd_mapping_scopes b))"
  unfolding Binding_Validate_iff scopes_check_iff by blast

lemma SemanticDigest_valid:
  "Desired_Validate L ps = None \<Longrightarrow> \<exists>d. SemanticDigest L ps = Inr d"
  by (simp add: SemanticDigest_def normalizeDesired_Inr)

lemma CheckCurrent_unchanged:
  assumes L: "lawful_library L" and v: "Plan_Validate L p = None"
    and d: "distinct (map fst (bd_connection_revisions (pl_binding p)))"
    and t: "at \<noteq> 0" "at < pl_expires_at p"
  shows "CheckCurrent L p (approved_state p at) = Some []"
proof -
  let ?c = "approved_state p at"
  from v have b: "Binding_Validate (pl_binding p) = None" and ds: "Desired_Validate L (pl_desired p) = None"
    unfolding Plan_Validate_iff by blast+
  have "\<not> configuration_changed p ?c"
    by (simp add: configuration_changed_def approved_state_def sameRevisionSubset_refl [OF d])
  moreover have "required_scope_matches (bd_mapping_scopes (pl_binding p)) scope"
    if "scope \<in> set (relevantMappingScopes L p)" for scope
    using that required_scope_unchanged [OF valid_scopes_distinct [OF b]]
    unfolding relevantMappingScopes_set [OF L] by blast
  then have "\<not> mapping_changed L p ?c"
    by (auto simp: mapping_changed_def approved_state_def relevantMappingRevisions_current
        sameMappingScopeSubset_def list_all_iff Let_def)
  moreover have "\<not> capability_changed L p ?c"
    by (simp add: capability_changed_def approved_state_def sameCapabilities_def list.rel_refl)
  moreover have "\<not> desired_changed L p ?c"
    using SemanticDigest_valid [OF ds] by (auto simp: desired_changed_def approved_state_def)
  moreover have "\<not> source_changed L p ?c" "\<not> manifest_changed L p ?c"
    by (simp_all add: source_changed_def manifest_changed_def approved_state_def)
  ultimately show ?thesis
    unfolding CheckCurrent_none_iff [OF L ds] using t by (simp add: approved_state_def)
qed

text \<open>
  C27: A valid plan whose state has not changed passes the check before dispatch at every time
  before its expiry: \<open>CheckCurrent\<close> reports no conflict and \<open>ValidateCurrent\<close> returns nil.
\<close>

theorem unchanged_state_passes_the_check:
  assumes L: "lawful_library L" and v: "Plan_Validate L p = None"
    and d: "distinct (map fst (bd_connection_revisions (pl_binding p)))"
    and t: "at \<noteq> 0" "at < pl_expires_at p"
  shows "CheckCurrent L p (approved_state p at) = Some [] \<and> ValidateCurrent L p (approved_state p at) = Some None"
  using CheckCurrent_unchanged [OF assms] by (simp add: ValidateCurrent_def)

lemma ex_connections_distinct: "distinct (map fst (bd_connection_revisions (pl_binding ex_plan)))"
  unfolding ex_fields(3) by code_simp

lemma unchanged_state_passes_the_check_witness:
  "ValidateCurrent plain_library ex_plan (approved_state ex_plan 150) = Some None"
  using unchanged_state_passes_the_check [OF plain_library_lawful ex_valid ex_connections_distinct, of 150]
  by (simp add: ex_times)

section \<open>A state that passes\<close>


lemma json_text_array_ne: "json_text (JArr js) \<noteq> []"
  by simp





section \<open>File names outside UTF-8\<close>

definition byte_named :: "char \<Rightarrow> file_manifest_entry" where
  "byte_named c = FileManifestEntry ''media'' [c] ManifestFile 5 ex_digest ''inode-1'' (ManifestRoleOther []) 100 []"

text \<open>
  The fingerprint that stands for the exact manifest in \<open>CheckCurrent\<close> is JSON text, and
  \<open>json.Marshal\<close> writes U+FFFD for every byte outside UTF-8. Two manifests that \<open>ValidateManifest\<close>
  accepts and that name different files therefore have the same fingerprint.
\<close>

theorem byte_names_share_a_fingerprint:
  "ValidateManifest [byte_named (char_of (0xff::nat))] True DefaultManifestLimits = None
   \<and> ValidateManifest [byte_named (char_of (0xfe::nat))] True DefaultManifestLimits = None
   \<and> entry_target (byte_named (char_of (0xff::nat))) \<noteq> entry_target (byte_named (char_of (0xfe::nat)))
   \<and> manifestFingerprint plain_library [byte_named (char_of (0xff::nat))]
       = manifestFingerprint plain_library [byte_named (char_of (0xfe::nat))]"
proof (intro conjI)
  show "ValidateManifest [byte_named (char_of (0xff::nat))] True DefaultManifestLimits = None" by code_simp
  show "ValidateManifest [byte_named (char_of (0xfe::nat))] True DefaultManifestLimits = None" by code_simp
  show "entry_target (byte_named (char_of (0xff::nat))) \<noteq> entry_target (byte_named (char_of (0xfe::nat)))"
    by code_simp
  show "manifestFingerprint plain_library [byte_named (char_of (0xff::nat))]
      = manifestFingerprint plain_library [byte_named (char_of (0xfe::nat))]"
    by code_simp
qed

end
