(* ===== verification/Plan_Evaluate.thy ===== *)
theory Plan_Evaluate
  imports Plan_Normal
begin

text \<open>
  Evaluation of desired predicates against read-only observations (\<open>Evaluate\<close> and the
  \<open>evaluate..\<close> functions of \<^verbatim>\<open>internal/planning/planning.go\<close>).
\<close>

datatype satisfaction =
    SatisfactionAlreadySatisfied | SatisfactionNeedsAction | SatisfactionUnknown | SatisfactionConflict

section \<open>Observations\<close>

record file_observation =
  fo_target :: file_target
  fo_known :: bool
  fo_exists :: bool
  fo_size :: int
  fo_digest :: string
  fo_file_identity :: string

record registration_observation =
  ro_connection_id :: config_id
  ro_provider_id :: string
  ro_kind :: media_kind
  ro_external_id :: string
  ro_present :: bool
  ro_known :: bool
  ro_fields :: registration_fields

record import_observation =
  io_connection_id :: config_id
  io_registered_external_id :: string
  io_present :: bool
  io_known :: bool
  io_files :: "import_selection list"

record service_observation =
  so_connection_id :: config_id
  so_provider_id :: string
  so_external_id :: string
  so_value :: string
  so_known :: bool

record fact =
  fa_predicate :: predicate
  fa_present :: bool
  fa_known :: bool
  fa_conflict :: bool
  fa_reason :: string

record observed_state =
  os_files :: "file_observation list"
  os_registrations :: "registration_observation list"
  os_imports :: "import_observation list"
  os_services :: "service_observation list"
  os_facts :: "fact list"

record predicate_result =
  pres_predicate :: predicate
  pres_state :: satisfaction
  pres_reason :: string

record evaluation =
  ev_state :: satisfaction
  ev_results :: "predicate_result list"

definition result_of :: "predicate \<Rightarrow> satisfaction \<Rightarrow> string \<Rightarrow> predicate_result" where
  "result_of p s reason = \<lparr>pres_predicate = p, pres_state = s, pres_reason = reason\<rparr>"

section \<open>Comparisons\<close>

definition fileObservation :: "file_target \<Rightarrow> file_observation list \<Rightarrow> file_observation option" where
  "fileObservation target observations = find (\<lambda>o'. fo_target o' = target) observations"

definition sameRegistrationFields :: "registration_fields \<Rightarrow> registration_fields \<Rightarrow> bool" where
  "sameRegistrationFields expected actual =
     (if \<not> blank (rf_root_folder expected) \<and> rf_root_folder expected \<noteq> rf_root_folder actual then False
      else if \<not> blank (rf_quality_profile_id expected)
              \<and> rf_quality_profile_id expected \<noteq> rf_quality_profile_id actual then False
      else if rf_monitored expected \<noteq> None \<and> rf_monitored actual \<noteq> rf_monitored expected then False
      else if \<not> blank (rf_series_type expected) \<and> rf_series_type expected \<noteq> rf_series_type actual then False
      else if rf_season_folder expected \<noteq> None \<and> rf_season_folder actual \<noteq> rf_season_folder expected
      then False
      else if rf_seasons expected \<noteq> [] \<and> \<not> sameStringSet (rf_seasons expected) (rf_seasons actual)
      then False
      else True)"

definition sameSelections :: "go_library \<Rightarrow> import_selection list \<Rightarrow> import_selection list \<Rightarrow> bool" where
  "sameSelections L expected actual \<longleftrightarrow>
     map importSelectionKey (normalizeSelections L expected)
     = map importSelectionKey (normalizeSelections L actual)"

text \<open>
  \<open>strings.EqualFold\<close> on two digests: the left one is a strong digest there, so both are ASCII
  when they are equal.
\<close>

definition equal_fold :: "string \<Rightarrow> string \<Rightarrow> bool" where
  "equal_fold a b \<longleftrightarrow> ascii_lower a = ascii_lower b"

section \<open>Predicates\<close>

definition evaluateFileContent :: "go_library \<Rightarrow> predicate \<Rightarrow> file_observation list \<Rightarrow> predicate_result" where
  "evaluateFileContent L p observations =
     (let f = the (pr_file p) in
      case fileObservation (fp_target f) observations of
        None \<Rightarrow> result_of p SatisfactionUnknown ''file observation unavailable''
      | Some m \<Rightarrow>
          if \<not> fo_known m then result_of p SatisfactionUnknown ''file observation unavailable''
          else if \<not> fo_exists m then result_of p SatisfactionNeedsAction ''destination is absent''
          else if fo_size m \<noteq> fp_size f
          then result_of p SatisfactionConflict ''destination size differs from approved content''
          else if fo_digest m = []
          then result_of p SatisfactionUnknown ''destination content digest is unavailable''
          else if \<not> strongDigest (fo_digest m)
                  \<or> \<not> equal_fold (normalizeDigest L (fo_digest m)) (normalizeDigest L (fp_digest f))
          then result_of p SatisfactionConflict ''destination content digest differs from approved content''
          else result_of p SatisfactionAlreadySatisfied ''destination content matches approved digest'')"

definition evaluateFileIdentity :: "predicate \<Rightarrow> file_observation list \<Rightarrow> predicate_result" where
  "evaluateFileIdentity p observations =
     (let f = the (pr_file p) in
      case fileObservation (fp_target f) observations of
        None \<Rightarrow> result_of p SatisfactionUnknown ''file observation unavailable''
      | Some m \<Rightarrow>
          if \<not> fo_known m then result_of p SatisfactionUnknown ''file observation unavailable''
          else if \<not> fo_exists m then result_of p SatisfactionNeedsAction ''file is absent''
          else if fo_file_identity m \<noteq> fp_file_identity f
          then result_of p SatisfactionConflict ''file identity differs from approved object''
          else result_of p SatisfactionAlreadySatisfied ''file identity matches approved object'')"

definition evaluateHardlink :: "predicate \<Rightarrow> file_observation list \<Rightarrow> predicate_result" where
  "evaluateHardlink p observations =
     (let f = the (pr_file p) in
      case (fileObservation (fp_source f) observations, fileObservation (fp_target f) observations) of
        (Some s, Some t) \<Rightarrow>
          if \<not> fo_known s \<or> \<not> fo_known t
          then result_of p SatisfactionUnknown ''hardlink source or destination observation unavailable''
          else if \<not> fo_exists s then result_of p SatisfactionConflict ''approved hardlink source is absent''
          else if fo_file_identity s \<noteq> fp_file_identity f
          then result_of p SatisfactionConflict ''hardlink source identity changed''
          else if \<not> fo_exists t then result_of p SatisfactionNeedsAction ''hardlink destination is absent''
          else if fo_file_identity t \<noteq> fp_file_identity f \<or> fo_file_identity t \<noteq> fo_file_identity s
          then result_of p SatisfactionConflict
                 ''destination is a different file object; hardlink cannot be inferred from equal bytes''
          else result_of p SatisfactionAlreadySatisfied
                 ''source and destination name the approved file object''
      | _ \<Rightarrow> result_of p SatisfactionUnknown ''hardlink source or destination observation unavailable'')"

text \<open>The loops skip observations of other objects and remember whether one was unknown.\<close>

fun evaluate_registration_loop ::
  "predicate \<Rightarrow> registration_predicate \<Rightarrow> bool \<Rightarrow> registration_observation list \<Rightarrow> predicate_result" where
  "evaluate_registration_loop p r unknown [] =
     result_of p SatisfactionUnknown
       (if unknown then ''registration observation is unknown'' else ''no complete registration observation'')"
| "evaluate_registration_loop p r unknown (ob # rest) =
     (if ro_connection_id ob \<noteq> rp_connection_id r \<or> ro_provider_id ob \<noteq> rp_provider_id r
         \<or> ro_kind ob \<noteq> rp_kind r
      then evaluate_registration_loop p r unknown rest
      else if \<not> ro_known ob then evaluate_registration_loop p r True rest
      else if \<not> ro_present ob then result_of p SatisfactionNeedsAction ''registration is absent''
      else if rp_external_id r \<noteq> [] \<and> ro_external_id ob \<noteq> rp_external_id r
      then result_of p SatisfactionConflict ''registration external identity differs''
      else if \<not> sameRegistrationFields (rp_fields r) (ro_fields ob)
      then result_of p SatisfactionConflict ''one or more explicitly selected registration fields differ''
      else result_of p SatisfactionAlreadySatisfied ''registration identity and selected fields match'')"

definition evaluateRegistration :: "predicate \<Rightarrow> registration_observation list \<Rightarrow> predicate_result" where
  "evaluateRegistration p observations =
     evaluate_registration_loop p (the (pr_registration p)) False observations"

fun evaluate_import_loop ::
  "go_library \<Rightarrow> predicate \<Rightarrow> import_predicate \<Rightarrow> bool \<Rightarrow> import_observation list \<Rightarrow> predicate_result" where
  "evaluate_import_loop L p i unknown [] =
     result_of p SatisfactionUnknown
       (if unknown then ''import observation is unknown'' else ''no complete import observation'')"
| "evaluate_import_loop L p i unknown (ob # rest) =
     (if io_connection_id ob \<noteq> ip_connection_id i \<or> io_registered_external_id ob \<noteq> ip_registered_external_id i
      then evaluate_import_loop L p i unknown rest
      else if \<not> io_known ob then evaluate_import_loop L p i True rest
      else if \<not> io_present ob then result_of p SatisfactionNeedsAction ''import is absent''
      else if \<not> sameSelections L (ip_files i) (io_files ob)
      then result_of p SatisfactionConflict
             ''import read-back does not contain the exact approved file associations''
      else result_of p SatisfactionAlreadySatisfied ''exact import associations are present'')"

definition evaluateImport :: "go_library \<Rightarrow> predicate \<Rightarrow> import_observation list \<Rightarrow> predicate_result" where
  "evaluateImport L p observations = evaluate_import_loop L p (the (pr_import p)) False observations"

fun evaluate_service_loop ::
  "predicate \<Rightarrow> service_predicate \<Rightarrow> bool \<Rightarrow> service_observation list \<Rightarrow> predicate_result" where
  "evaluate_service_loop p s unknown [] =
     result_of p SatisfactionUnknown
       (if unknown then ''service observation is unknown'' else ''no service observation'')"
| "evaluate_service_loop p s unknown (ob # rest) =
     (if so_connection_id ob \<noteq> sv_connection_id s \<or> so_provider_id ob \<noteq> sv_provider_id s
         \<or> (sv_external_id s \<noteq> [] \<and> so_external_id ob \<noteq> sv_external_id s)
      then evaluate_service_loop p s unknown rest
      else if \<not> so_known ob then evaluate_service_loop p s True rest
      else if so_value ob \<noteq> sv_value s
      then result_of p SatisfactionNeedsAction ''service state does not satisfy desired value''
      else result_of p SatisfactionAlreadySatisfied ''service state matches desired value'')"

definition evaluateService :: "predicate \<Rightarrow> service_observation list \<Rightarrow> predicate_result" where
  "evaluateService p observations = evaluate_service_loop p (the (pr_service p)) False observations"

definition evaluate_fact :: "go_library \<Rightarrow> predicate \<Rightarrow> fact list \<Rightarrow> predicate_result" where
  "evaluate_fact L p facts =
     (case find (\<lambda>f. samePredicate L (fa_predicate f) p) facts of
        None \<Rightarrow> result_of p SatisfactionUnknown ''no exact observation''
      | Some f \<Rightarrow>
          if fa_conflict f then result_of p SatisfactionConflict (fa_reason f)
          else if \<not> fa_known f then result_of p SatisfactionUnknown (fa_reason f)
          else if fa_present f then result_of p SatisfactionAlreadySatisfied ''exact predicate observed''
          else result_of p SatisfactionNeedsAction ''predicate absent'')"

definition evaluatePredicate :: "go_library \<Rightarrow> predicate \<Rightarrow> observed_state \<Rightarrow> predicate_result" where
  "evaluatePredicate L p observed =
     (case pr_kind p of
        PredicateFileContent \<Rightarrow> evaluateFileContent L p (os_files observed)
      | PredicateFileIdentity \<Rightarrow> evaluateFileIdentity p (os_files observed)
      | PredicateHardlink \<Rightarrow> evaluateHardlink p (os_files observed)
      | PredicateRegistration \<Rightarrow> evaluateRegistration p (os_registrations observed)
      | PredicateImport \<Rightarrow> evaluateImport L p (os_imports observed)
      | PredicateAvailability \<Rightarrow> evaluateService p (os_services observed)
      | PredicateRequest \<Rightarrow> evaluateService p (os_services observed)
      | _ \<Rightarrow> evaluate_fact L p (os_facts observed))"

section \<open>The aggregate\<close>

definition aggregate_step :: "predicate_result \<Rightarrow> satisfaction \<Rightarrow> satisfaction" where
  "aggregate_step r state =
     (case pres_state r of
        SatisfactionConflict \<Rightarrow> SatisfactionConflict
      | SatisfactionUnknown \<Rightarrow> if state \<noteq> SatisfactionConflict then SatisfactionUnknown else state
      | SatisfactionNeedsAction \<Rightarrow>
          if state \<noteq> SatisfactionConflict \<and> state \<noteq> SatisfactionUnknown then SatisfactionNeedsAction else state
      | SatisfactionAlreadySatisfied \<Rightarrow> state)"

definition Evaluate :: "go_library \<Rightarrow> predicate list \<Rightarrow> observed_state \<Rightarrow> desired_error + evaluation" where
  "Evaluate L desired observed =
     (case Desired_Validate L desired of
        Some e \<Rightarrow> Inl e
      | None \<Rightarrow>
          let results = map (\<lambda>p. evaluatePredicate L p observed) desired in
          Inr \<lparr>ev_state = fold aggregate_step results SatisfactionAlreadySatisfied, ev_results = results\<rparr>)"

end
