(* ===== verification/Plan_Outcomes.thy ===== *)
theory Plan_Outcomes
  imports Plan_Evaluate Plan_Facts
begin

text \<open>
  What an evaluation of desired predicates says: the aggregate is the worst of the results, and
  nothing counts as satisfied that was not observed.
\<close>

section \<open>The aggregate\<close>

definition severity :: "satisfaction \<Rightarrow> nat" where
  "severity s = (case s of SatisfactionAlreadySatisfied \<Rightarrow> 0 | SatisfactionNeedsAction \<Rightarrow> 1
     | SatisfactionUnknown \<Rightarrow> 2 | SatisfactionConflict \<Rightarrow> 3)"

lemma severity_inj: "severity s = severity t \<longleftrightarrow> s = t"
  by (cases s; cases t) (simp_all add: severity_def)

lemma severity_step: "severity (aggregate_step r s) = max (severity (pres_state r)) (severity s)"
  by (cases "pres_state r"; cases s) (simp_all add: aggregate_step_def severity_def)

lemma severity_fold:
  "severity (fold aggregate_step rs s) = Max (insert (severity s) ((\<lambda>r. severity (pres_state r)) ` set rs))"
proof (induction rs arbitrary: s)
  case Nil
  show ?case by simp
next
  case (Cons r rs)
  let ?A = "(\<lambda>r. severity (pres_state r)) ` set rs"
  have "Max (insert (max a b) ?A) = Max (insert b (insert a ?A))" for a b
    by (cases "?A = {}") (simp_all add: max.commute max.left_commute)
  then show ?case by (simp add: Cons.IH severity_step)
qed

text \<open>The state of an evaluation is the worst of its results.\<close>

lemma Evaluate_worst:
  "case Evaluate L desired observed of
     Inl e \<Rightarrow> Desired_Validate L desired = Some e
   | Inr ev \<Rightarrow> Desired_Validate L desired = None
       \<and> ev_results ev = map (\<lambda>p. evaluatePredicate L p observed) desired
       \<and> severity (ev_state ev) = Max ((\<lambda>r. severity (pres_state r)) ` set (ev_results ev))
       \<and> (ev_state ev = SatisfactionAlreadySatisfied \<longleftrightarrow>
            list_all (\<lambda>r. pres_state r = SatisfactionAlreadySatisfied) (ev_results ev))"
proof (cases "Desired_Validate L desired")
  case (Some e)
  then show ?thesis by (simp add: Evaluate_def)
next
  case None
  let ?rs = "map (\<lambda>p. evaluatePredicate L p observed) desired"
  have ne: "?rs \<noteq> []" using None by (simp add: Desired_Validate_iff)
  have "severity SatisfactionAlreadySatisfied = 0" by (simp add: severity_def)
  then have m: "severity (fold aggregate_step ?rs SatisfactionAlreadySatisfied)
      = Max ((\<lambda>r. severity (pres_state r)) ` set ?rs)"
    using ne unfolding severity_fold by (subst Max_insert) (simp_all del: set_map)
  have z: "s = SatisfactionAlreadySatisfied \<longleftrightarrow> severity s = 0" for s
    by (cases s) (simp_all add: severity_def)
  have "fold aggregate_step ?rs SatisfactionAlreadySatisfied = SatisfactionAlreadySatisfied \<longleftrightarrow>
      list_all (\<lambda>r. pres_state r = SatisfactionAlreadySatisfied) ?rs"
    unfolding z [of "fold aggregate_step ?rs SatisfactionAlreadySatisfied"] m list_all_iff z
    using ne by (subst Max_eq_iff) (auto simp del: set_map simp: image_iff neq_Nil_conv)
  with m None show ?thesis by (simp add: Evaluate_def Let_def del: set_map)
qed

section \<open>Satisfaction\<close>

text \<open>The observation that makes a predicate of each kind satisfied.\<close>

definition content_observed :: "go_library \<Rightarrow> file_predicate \<Rightarrow> file_observation \<Rightarrow> bool" where
  "content_observed L f ob \<longleftrightarrow> fo_target ob = fp_target f \<and> fo_known ob \<and> fo_exists ob \<and> fo_size ob = fp_size f
     \<and> strongDigest (fo_digest ob)
     \<and> equal_fold (normalizeDigest L (fo_digest ob)) (normalizeDigest L (fp_digest f))"

definition object_observed :: "file_target \<Rightarrow> string \<Rightarrow> file_observation \<Rightarrow> bool" where
  "object_observed t identity ob \<longleftrightarrow> fo_target ob = t \<and> fo_known ob \<and> fo_exists ob \<and> fo_file_identity ob = identity"

definition registration_observed :: "registration_predicate \<Rightarrow> registration_observation \<Rightarrow> bool" where
  "registration_observed r ob \<longleftrightarrow> ro_connection_id ob = rp_connection_id r \<and> ro_provider_id ob = rp_provider_id r
     \<and> ro_kind ob = rp_kind r \<and> ro_known ob \<and> ro_present ob
     \<and> (rp_external_id r \<noteq> [] \<longrightarrow> ro_external_id ob = rp_external_id r)
     \<and> sameRegistrationFields (rp_fields r) (ro_fields ob)"

definition import_observed :: "go_library \<Rightarrow> import_predicate \<Rightarrow> import_observation \<Rightarrow> bool" where
  "import_observed L i ob \<longleftrightarrow> io_connection_id ob = ip_connection_id i
     \<and> io_registered_external_id ob = ip_registered_external_id i \<and> io_known ob \<and> io_present ob
     \<and> sameSelections L (ip_files i) (io_files ob)"

definition service_observed :: "service_predicate \<Rightarrow> service_observation \<Rightarrow> bool" where
  "service_observed s ob \<longleftrightarrow> so_connection_id ob = sv_connection_id s \<and> so_provider_id ob = sv_provider_id s
     \<and> (sv_external_id s \<noteq> [] \<longrightarrow> so_external_id ob = sv_external_id s) \<and> so_known ob \<and> so_value ob = sv_value s"

definition fact_observed :: "go_library \<Rightarrow> predicate \<Rightarrow> fact \<Rightarrow> bool" where
  "fact_observed L p f \<longleftrightarrow> samePredicate L (fa_predicate f) p \<and> fa_known f \<and> fa_present f \<and> \<not> fa_conflict f"

definition observed_satisfied :: "go_library \<Rightarrow> observed_state \<Rightarrow> predicate \<Rightarrow> bool" where
  "observed_satisfied L ob p \<longleftrightarrow>
     (case pr_kind p of
        PredicateFileContent \<Rightarrow> list_ex (content_observed L (the (pr_file p))) (os_files ob)
      | PredicateFileIdentity \<Rightarrow>
          list_ex (object_observed (fp_target (the (pr_file p))) (fp_file_identity (the (pr_file p)))) (os_files ob)
      | PredicateHardlink \<Rightarrow>
          list_ex (object_observed (fp_source (the (pr_file p))) (fp_file_identity (the (pr_file p)))) (os_files ob)
          \<and> list_ex (object_observed (fp_target (the (pr_file p))) (fp_file_identity (the (pr_file p)))) (os_files ob)
      | PredicateRegistration \<Rightarrow> list_ex (registration_observed (the (pr_registration p))) (os_registrations ob)
      | PredicateImport \<Rightarrow> list_ex (import_observed L (the (pr_import p))) (os_imports ob)
      | PredicateAvailability \<Rightarrow> list_ex (service_observed (the (pr_service p))) (os_services ob)
      | PredicateRequest \<Rightarrow> list_ex (service_observed (the (pr_service p))) (os_services ob)
      | _ \<Rightarrow> list_ex (fact_observed L p) (os_facts ob))"

lemma find_SomeD: "find P xs = Some x \<Longrightarrow> x \<in> set xs \<and> P x"
  by (auto simp: find_Some_iff)

lemma registration_loop_satisfied:
  "pres_state (evaluate_registration_loop p r unknown obs) = SatisfactionAlreadySatisfied \<Longrightarrow>
     list_ex (registration_observed r) obs"
  by (induction p r unknown obs rule: evaluate_registration_loop.induct)
     (auto simp: result_of_def registration_observed_def split: if_splits)

lemma import_loop_satisfied:
  "pres_state (evaluate_import_loop L p i unknown obs) = SatisfactionAlreadySatisfied \<Longrightarrow>
     list_ex (import_observed L i) obs"
  by (induction L p i unknown obs rule: evaluate_import_loop.induct)
     (auto simp: result_of_def import_observed_def split: if_splits)

lemma service_loop_satisfied:
  "pres_state (evaluate_service_loop p s unknown obs) = SatisfactionAlreadySatisfied \<Longrightarrow>
     list_ex (service_observed s) obs"
  by (induction p s unknown obs rule: evaluate_service_loop.induct)
     (auto simp: result_of_def service_observed_def split: if_splits)

lemma file_satisfied:
  "pres_state (evaluateFileContent L p obs) = SatisfactionAlreadySatisfied \<Longrightarrow>
     list_ex (content_observed L (the (pr_file p))) obs"
  "pres_state (evaluateFileIdentity p obs) = SatisfactionAlreadySatisfied \<Longrightarrow>
     list_ex (object_observed (fp_target (the (pr_file p))) (fp_file_identity (the (pr_file p)))) obs"
  by (auto simp: evaluateFileContent_def evaluateFileIdentity_def fileObservation_def Let_def result_of_def
      content_observed_def object_observed_def list_ex_iff dest!: find_SomeD split: option.splits if_splits)

lemma hardlink_satisfied:
  assumes "pres_state (evaluateHardlink p obs) = SatisfactionAlreadySatisfied"
  shows "list_ex (object_observed (fp_source (the (pr_file p))) (fp_file_identity (the (pr_file p)))) obs
    \<and> list_ex (object_observed (fp_target (the (pr_file p))) (fp_file_identity (the (pr_file p)))) obs"
  using assms
  by (auto simp: evaluateHardlink_def fileObservation_def Let_def result_of_def
      object_observed_def list_ex_iff dest!: find_SomeD split: option.splits if_splits)

lemma fact_satisfied:
  "pres_state (evaluate_fact L p facts) = SatisfactionAlreadySatisfied \<Longrightarrow> list_ex (fact_observed L p) facts"
  by (auto simp: evaluate_fact_def result_of_def fact_observed_def list_ex_iff dest!: find_SomeD
      split: option.splits if_splits)

lemma predicate_satisfied:
  "pres_state (evaluatePredicate L p ob) = SatisfactionAlreadySatisfied \<Longrightarrow> observed_satisfied L ob p"
  by (cases "pr_kind p")
     (simp_all add: evaluatePredicate_def observed_satisfied_def evaluateRegistration_def evaluateImport_def
       evaluateService_def registration_loop_satisfied import_loop_satisfied service_loop_satisfied
       file_satisfied hardlink_satisfied fact_satisfied)

text \<open>
  C21: An evaluation gives one result per predicate, in their order, and its state is the worst of
  them, where a conflict is worse than an unknown, an unknown than a needed action, and that than
  what is satisfied. Nothing counts as satisfied on the strength of missing evidence: when
  \<open>Evaluate\<close> reports already satisfied, every predicate has an observation that was known and
  positive - a file of the approved size and digest at the target, the approved file object at
  every name of a hardlink, a registration with the selected fields, an import with exactly the
  approved associations, a service in the desired state.
\<close>

theorem satisfied_means_observed:
  assumes "Evaluate L desired observed = Inr ev"
  shows "ev_results ev = map (\<lambda>p. evaluatePredicate L p observed) desired
    \<and> severity (ev_state ev) = Max ((\<lambda>r. severity (pres_state r)) ` set (ev_results ev))
    \<and> (ev_state ev = SatisfactionAlreadySatisfied \<longrightarrow> (\<forall>p\<in>set desired. observed_satisfied L observed p))"
  using Evaluate_worst [of L desired observed] predicate_satisfied
  by (auto simp: assms list_all_iff simp del: set_map) (auto simp: list_all_iff)

section \<open>Examples\<close>

definition out_digest :: string where
  "out_digest = replicate 64 CHR ''a''"

definition out_target :: file_target where
  "out_target = \<lparr>ft_root_id = ''media'', ft_relative_path = ''in/a.mkv''\<rparr>"

definition out_desired :: "predicate list" where
  "out_desired = [NewFileContentPredicate out_target 5 out_digest]"

definition out_observed :: "string \<Rightarrow> observed_state" where
  "out_observed d = \<lparr>os_files = [\<lparr>fo_target = out_target, fo_known = True, fo_exists = True, fo_size = 5,
     fo_digest = d, fo_file_identity = ''inode-1''\<rparr>], os_registrations = [], os_imports = [], os_services = [],
     os_facts = []\<rparr>"

lemma out_strong: "strongDigest out_digest" "strongDigest (''sha256:'' @ out_digest)"
  by code_simp+

lemma out_normal:
  "equal_fold (normalizeDigest plain_library out_digest) (normalizeDigest plain_library out_digest)"
  "\<not> equal_fold (normalizeDigest plain_library (''sha256:'' @ out_digest)) (normalizeDigest plain_library out_digest)"
proof -
  have "length (normalizeDigest plain_library out_digest) = 64"
    "length (normalizeDigest plain_library (''sha256:'' @ out_digest)) = 71"
    by code_simp+
  then have "length (ascii_lower (normalizeDigest plain_library (''sha256:'' @ out_digest)))
      \<noteq> length (ascii_lower (normalizeDigest plain_library out_digest))"
    by (simp add: ascii_lower_map)
  then show "\<not> equal_fold (normalizeDigest plain_library (''sha256:'' @ out_digest)) (normalizeDigest plain_library out_digest)"
    unfolding equal_fold_def by metis
qed (simp add: equal_fold_def)

lemma out_results:
  "pres_state (evaluatePredicate plain_library (hd out_desired) (out_observed out_digest)) = SatisfactionAlreadySatisfied"
  "pres_state (evaluatePredicate plain_library (hd out_desired) (out_observed (''sha256:'' @ out_digest))) = SatisfactionConflict"
  "Predicate_Validate (hd out_desired) = None"
proof -
  have "FileTarget_Validate out_target = None" "\<not> blank ''file_content''" by code_simp+
  then show "Predicate_Validate (hd out_desired) = None"
    by (simp add: out_desired_def NewFileContentPredicate_def empty_predicate_def Predicate_Validate_def payload_count_def
        check_file_content_def isZeroFileTarget_def no_target_def out_strong)
qed (use out_strong out_normal strong_ne [OF out_strong(1)] in \<open>simp_all add: evaluatePredicate_def
       evaluateFileContent_def fileObservation_def Let_def out_desired_def out_observed_def NewFileContentPredicate_def empty_predicate_def result_of_def\<close>)

lemma out_evaluates:
  "map_sum id ev_state (Evaluate plain_library out_desired (out_observed d)) =
     Inr (pres_state (evaluatePredicate plain_library (hd out_desired) (out_observed d)))"
proof -
  have "Desired_Validate plain_library out_desired = None"
    using out_results(3) by (simp add: Desired_Validate_iff out_desired_def)
  moreover have "fold aggregate_step [r] SatisfactionAlreadySatisfied = pres_state r" for r
    by (cases "pres_state r") (simp_all add: aggregate_step_def)
  ultimately show ?thesis by (simp add: Evaluate_def out_desired_def)
qed

lemma satisfied_means_observed_witness:
  "observed_satisfied plain_library (out_observed out_digest) (hd out_desired)"
proof -
  obtain ev where "Evaluate plain_library out_desired (out_observed out_digest) = Inr ev"
      "ev_state ev = SatisfactionAlreadySatisfied"
    using out_evaluates [of out_digest] out_results(1)
    by (cases "Evaluate plain_library out_desired (out_observed out_digest)") auto
  with satisfied_means_observed [of plain_library out_desired "out_observed out_digest" ev] show ?thesis
    by (simp add: out_desired_def)
qed

text \<open>
  \<open>strongDigest\<close> accepts a SHA-256 digest with and without the prefix \<open>sha256:\<close>, and
  \<open>normalizeDigest\<close> keeps the difference: a destination with the approved digest, written in the
  other form, is reported as a conflict.
\<close>

theorem digest_form_decides_satisfaction:
  "strongDigest out_digest \<and> strongDigest (''sha256:'' @ out_digest)
   \<and> map_sum id ev_state (Evaluate plain_library out_desired (out_observed out_digest))
       = Inr SatisfactionAlreadySatisfied
   \<and> map_sum id ev_state (Evaluate plain_library out_desired (out_observed (''sha256:'' @ out_digest)))
       = Inr SatisfactionConflict"
  unfolding out_evaluates out_results using out_strong by simp

end
