(* ===== verification/Disc_Types.thy ===== *)
theory Disc_Types
  imports Go_Library
begin

text \<open>
  The values of file discovery (\<^verbatim>\<open>internal/discovery/discovery.go\<close>): groups of files with what is
  known of their stability, their download clients and their media, the observation of one bounded
  scan, the options, and the checks on them.
\<close>

section \<open>Vocabularies\<close>

datatype group_kind =
    GroupMovie | GroupEpisode | GroupSeasonPack | GroupAnime | GroupMixed | GroupUnknown | GroupOther string

datatype match_confidence =
    ConfidenceExact | ConfidenceSuggested | ConfidenceAmbiguous | ConfidenceUnresolved | ConfidenceOther string

datatype stability_state = StabilityStable | StabilityChanging | StabilityUnknown | StabilityOther string

datatype completion_state =
    ClientCompletionComplete | ClientCompletionDownloading | ClientCompletionProcessing
  | ClientCompletionUnknown | ClientCompletionOther string

datatype provenance_state = ProvenanceKnown | ProvenanceUnknown | ProvenanceStateOther string

datatype companion_kind =
    CompanionKnown | CompanionUnsupported | CompanionUnmatchedSubtitle | CompanionSubtitlePair

datatype review_reason =
    ReviewOrphanProvenance | ReviewClientCompletionUnknown | ReviewClientInventoryIncomplete
  | ReviewStabilityUnknown | ReviewFileChanging | ReviewCoveragePartial | ReviewUnsupportedChild
  | ReviewUnsupportedCompanion | ReviewUnmatchedSubtitle | ReviewAmbiguousAssociation
  | ReviewAnimeMappingRequired | ReviewNotSeenInCompleteScan

fun group_kind_supported :: "group_kind \<Rightarrow> bool" where
  "group_kind_supported (GroupOther _) = False"
| "group_kind_supported _ = True"

fun stability_supported :: "stability_state \<Rightarrow> bool" where
  "stability_supported (StabilityOther _) = False"
| "stability_supported _ = True"

fun completion_supported :: "completion_state \<Rightarrow> bool" where
  "completion_supported (ClientCompletionOther _) = False"
| "completion_supported _ = True"

fun readiness_supported :: "readiness \<Rightarrow> bool" where
  "readiness_supported (ReadinessOther _) = False"
| "readiness_supported _ = True"

section \<open>Values\<close>

record file_stability =
  fs_path :: string
  fs_state :: stability_state
  fs_observed_at :: time
  fs_previous_observed_at :: "time option"
  fs_observation_count :: int
  fs_current_fingerprint :: string
  fs_previous_fingerprint :: string

record stability_observation =
  st_state :: stability_state
  st_observed_at :: time
  st_minimum_spacing :: duration
  st_files :: "file_stability list"
  st_reason :: string

record client_item_observation =
  ci_connection_id :: config_id
  ci_client_item_id :: string
  ci_hash :: string
  ci_state :: completion_state
  ci_completed_at :: "time option"

record client_completion =
  cc_state :: completion_state
  cc_connection_id :: config_id
  cc_client_item_ids :: "string list"
  cc_items :: "client_item_observation list"
  cc_completed_at :: "time option"
  cc_observed_at :: time
  cc_known :: bool
  cc_unknown_item :: bool

record media_association =
  ma_file_path :: string
  ma_kind :: media_kind
  ma_confidence :: match_confidence
  ma_season_number :: "int option"
  ma_episode_numbers :: "int list"
  ma_absolute_number :: "int option"
  ma_reason :: string

record subtitle_association =
  sa_file_path :: string
  sa_video_paths :: "string list"
  sa_pair_id :: string
  sa_language :: string
  sa_forced :: bool
  sa_hearing_impaired :: bool
  sa_confidence :: match_confidence
  sa_reason :: string

record companion =
  co_file_path :: string
  co_kind :: companion_kind
  co_video_paths :: "string list"
  co_reason :: string

text \<open>\<open>ports.UnsupportedChildEvidence\<close>.\<close>

record child_evidence =
  uc_relative_path :: string
  uc_reason :: string

record discovery =
  di_id :: runtime_id
  di_root_id :: config_id
  di_relative_path :: string
  di_kind :: group_kind
  di_files :: "file_manifest_entry list"
  di_videos :: "media_association list"
  di_subtitles :: "subtitle_association list"
  di_companions :: "companion list"
  di_provenance_state :: provenance_state
  di_provenance :: "provenance list"
  di_client_completion :: client_completion
  di_client_coverage :: "coverage list"
  di_stability :: stability_observation
  di_readiness :: readiness
  di_review_reasons :: "review_reason list"
  di_coverage :: coverage
  di_unsupported_children :: "child_evidence list"
  di_observed_at :: time
  di_manifest_revision :: string
  di_first_seen_at :: time
  di_last_seen_at :: time
  di_active :: bool

record directory_observation =
  dob_id :: runtime_id
  dob_root_id :: config_id
  dob_relative_prefix :: string
  dob_entries :: "file_manifest_entry list"
  dob_coverage :: coverage
  dob_unsupported_children :: "child_evidence list"
  dob_observed_at :: time
  dob_first_seen_at :: time
  dob_last_seen_at :: time
  dob_manifest_revision :: string

section \<open>Options\<close>

text \<open>The clock of the options is part of the scanner's environment.\<close>

record disc_options =
  dop_page_size :: int
  dop_max_entries :: int
  dop_max_depth :: int
  dop_max_filesystem_pages :: int
  dop_minimum_stable_spacing :: duration
  dop_excluded_prefixes :: "string list"
  dop_max_client_pages :: int
  dop_max_client_items :: int

definition default_disc_options :: disc_options where
  "default_disc_options = \<lparr>dop_page_size = 1000, dop_max_entries = 10000, dop_max_depth = 32,
     dop_max_filesystem_pages = 10000, dop_minimum_stable_spacing = 30 * second,
     dop_excluded_prefixes = [''.mastarr-trash'', ''.mastarr-staging''],
     dop_max_client_pages = 100, dop_max_client_items = 10000\<rparr>"

definition prefix_refused :: "string \<Rightarrow> bool" where
  "prefix_refused p \<longleftrightarrow> p = [] \<or> p = ''.'' \<or> has_prefix ''/'' p \<or> CHR 0x5C \<in> set p \<or> CHR 0x00 \<in> set p
     \<or> path_clean p \<noteq> p
     \<or> list_ex (\<lambda>c. c = [] \<or> c = ''.'' \<or> c = ''..'') (split_on slash p)"

fun check_prefixes :: "nat \<Rightarrow> string list \<Rightarrow> nat + string list" where
  "check_prefixes index [] = Inr []"
| "check_prefixes index (p # ps) =
     (let q = trim_space p in
      if prefix_refused q then Inl index
      else case check_prefixes (Suc index) ps of Inl i \<Rightarrow> Inl i | Inr qs \<Rightarrow> Inr (q # qs))"

definition or_default :: "int \<Rightarrow> int \<Rightarrow> int" where
  "or_default value fallback = (if value \<le> 0 then fallback else value)"

definition normalize_disc_options :: "disc_options \<Rightarrow> nat + disc_options" where
  "normalize_disc_options o0 =
     (let defaults = default_disc_options;
          entries = or_default (dop_max_entries o0) (dop_max_entries defaults);
          page = or_default (dop_page_size o0) (dop_page_size defaults);
          prefixes = (if dop_excluded_prefixes o0 = [] then dop_excluded_prefixes defaults
                      else dop_excluded_prefixes o0)
      in case check_prefixes 0 prefixes of
           Inl index \<Rightarrow> Inl index
         | Inr qs \<Rightarrow> Inr \<lparr>
             dop_page_size = (if entries < page then entries else page),
             dop_max_entries = entries,
             dop_max_depth = or_default (dop_max_depth o0) (dop_max_depth defaults),
             dop_max_filesystem_pages =
               or_default (dop_max_filesystem_pages o0) (dop_max_filesystem_pages defaults),
             dop_minimum_stable_spacing =
               or_default (dop_minimum_stable_spacing o0) (dop_minimum_stable_spacing defaults),
             dop_excluded_prefixes = qs,
             dop_max_client_pages = or_default (dop_max_client_pages o0) (dop_max_client_pages defaults),
             dop_max_client_items = or_default (dop_max_client_items o0) entries\<rparr>)"

section \<open>Checks\<close>

datatype observation_error =
    ObservationIdentifiers | ObservationPrefix path_error | ObservationCoverage coverage_error
  | CoverageRootMismatch | ObservationTimesRequired | ObservationTimeOrder
  | EntryInvalid nat manifest_error | EntryRootMismatch nat | EntryDuplicate string
  | UnsupportedChildPath nat path_error | UnsupportedChildReason nat
  | DiscoveryIdentifiers | DiscoveryPath path_error | DiscoveryKind | DiscoveryTimes
  | ProvenanceStateInvalid | ProvenanceEvidenceRequired | ReadinessInvalid | StabilityStateInvalid
  | StabilityIncomplete | CompletionStateInvalid | CompletionIncomplete | CompletionConnection
  | CompletionItemsRequired | CompletionUnknownItem | CompletionItemConnection nat
  | CompletionItemIdentity nat | CompletionItemState nat | CompletionManyConnections
  | ClientCoverageInvalid nat coverage_error | ClientCoverageConnection nat
  | ProvenanceInvalid nat provenance_error

text \<open>The loop over manifest entries: each valid, of the root, and with a path not seen before.\<close>

fun entries_check :: "config_id \<Rightarrow> string list \<Rightarrow> nat \<Rightarrow> file_manifest_entry list \<Rightarrow> observation_error option" where
  "entries_check root seen index [] = None"
| "entries_check root seen index (e # es) =
     (case FileManifestEntry_Validate e of
        Some err \<Rightarrow> Some (EntryInvalid index err)
      | None \<Rightarrow>
          if fm_root_id e \<noteq> root then Some (EntryRootMismatch index)
          else if List.member seen (fm_relative_path e) then Some (EntryDuplicate (fm_relative_path e))
          else entries_check root (fm_relative_path e # seen) (Suc index) es)"

fun children_check :: "nat \<Rightarrow> child_evidence list \<Rightarrow> observation_error option" where
  "children_check index [] = None"
| "children_check index (c # cs) =
     (case ValidateRelativePath (uc_relative_path c) of
        Some e \<Rightarrow> Some (UnsupportedChildPath index e)
      | None \<Rightarrow>
          if blank (uc_reason c) then Some (UnsupportedChildReason index)
          else children_check (Suc index) cs)"

definition DirectoryObservation_Validate :: "directory_observation \<Rightarrow> observation_error option" where
  "DirectoryObservation_Validate ob =
     (if \<not> RuntimeID_Valid (dob_id ob) \<or> \<not> ConfigID_Valid (dob_root_id ob) then Some ObservationIdentifiers
      else case (if dob_relative_prefix ob \<noteq> [] then ValidateRelativePath (dob_relative_prefix ob) else None) of
        Some e \<Rightarrow> Some (ObservationPrefix e)
      | None \<Rightarrow>
      (case Coverage_Validate (dob_coverage ob) of
         Some e \<Rightarrow> Some (ObservationCoverage e)
       | None \<Rightarrow>
           if cov_root_id (dob_coverage ob) \<noteq> dob_root_id ob then Some CoverageRootMismatch
           else if time_is_zero (dob_observed_at ob) \<or> time_is_zero (dob_first_seen_at ob)
                   \<or> time_is_zero (dob_last_seen_at ob)
           then Some ObservationTimesRequired
           else if time_after (dob_first_seen_at ob) (dob_last_seen_at ob)
                   \<or> time_after (dob_last_seen_at ob) (dob_observed_at ob)
           then Some ObservationTimeOrder
           else (case entries_check (dob_root_id ob) [] 0 (dob_entries ob) of
                   Some e \<Rightarrow> Some e
                 | None \<Rightarrow> children_check 0 (dob_unsupported_children ob))))"

fun completion_items_check :: "nat \<Rightarrow> client_item_observation list \<Rightarrow> observation_error option" where
  "completion_items_check index [] = None"
| "completion_items_check index (i # rest) =
     (if \<not> ConfigID_Valid (ci_connection_id i) then Some (CompletionItemConnection index)
      else if ci_client_item_id i = [] \<and> ci_hash i = [] then Some (CompletionItemIdentity index)
      else if \<not> completion_supported (ci_state i) then Some (CompletionItemState index)
      else completion_items_check (Suc index) rest)"

definition completion_check :: "client_completion \<Rightarrow> observation_error option" where
  "completion_check c =
     (if \<not> completion_supported (cc_state c) then Some CompletionStateInvalid
      else if time_is_zero (cc_observed_at c) then Some CompletionIncomplete
      else if cc_connection_id c \<noteq> [] \<and> \<not> ConfigID_Valid (cc_connection_id c) then Some CompletionConnection
      else if cc_known c \<and> cc_items c = [] \<and> \<not> ConfigID_Valid (cc_connection_id c)
      then Some CompletionItemsRequired
      else if cc_unknown_item c \<and> cc_state c \<noteq> ClientCompletionUnknown then Some CompletionUnknownItem
      else case completion_items_check 0 (cc_items c) of
        Some e \<Rightarrow> Some e
      | None \<Rightarrow>
          if 1 < length (remdups (map ci_connection_id (cc_items c))) \<and> cc_connection_id c \<noteq> []
          then Some CompletionManyConnections else None)"

fun client_coverages_check :: "nat \<Rightarrow> coverage list \<Rightarrow> observation_error option" where
  "client_coverages_check index [] = None"
| "client_coverages_check index (c # cs) =
     (case Coverage_Validate c of
        Some e \<Rightarrow> Some (ClientCoverageInvalid index e)
      | None \<Rightarrow>
          if cov_connection_id c = [] \<or> \<not> ConfigID_Valid (cov_connection_id c)
          then Some (ClientCoverageConnection index)
          else client_coverages_check (Suc index) cs)"

fun provenances_check :: "nat \<Rightarrow> provenance list \<Rightarrow> observation_error option" where
  "provenances_check index [] = None"
| "provenances_check index (p # ps) =
     (case Provenance_Validate p of
        Some e \<Rightarrow> Some (ProvenanceInvalid index e)
      | None \<Rightarrow> provenances_check (Suc index) ps)"

text \<open>The checks after the client completion, each made when the ones before passed.\<close>

definition evidence_check :: "discovery \<Rightarrow> observation_error option" where
  "evidence_check d =
     (case completion_check (di_client_completion d) of
        Some e \<Rightarrow> Some e
      | None \<Rightarrow>
      (case client_coverages_check 0 (di_client_coverage d) of
         Some e \<Rightarrow> Some e
       | None \<Rightarrow>
       (case entries_check (di_root_id d) [] 0 (di_files d) of
          Some e \<Rightarrow> Some e
        | None \<Rightarrow>
        (case provenances_check 0 (di_provenance d) of
           Some e \<Rightarrow> Some e
         | None \<Rightarrow> children_check 0 (di_unsupported_children d)))))"

definition Discovery_Validate :: "discovery \<Rightarrow> observation_error option" where
  "Discovery_Validate d =
     (if \<not> RuntimeID_Valid (di_id d) \<or> \<not> ConfigID_Valid (di_root_id d) then Some DiscoveryIdentifiers
      else case ValidateRelativePath (di_relative_path d) of
        Some e \<Rightarrow> Some (DiscoveryPath e)
      | None \<Rightarrow>
          if \<not> group_kind_supported (di_kind d) then Some DiscoveryKind
          else (case Coverage_Validate (di_coverage d) of
            Some e \<Rightarrow> Some (ObservationCoverage e)
          | None \<Rightarrow>
              if cov_root_id (di_coverage d) \<noteq> di_root_id d then Some CoverageRootMismatch
              else if time_is_zero (di_observed_at d) \<or> time_is_zero (di_first_seen_at d)
                      \<or> time_is_zero (di_last_seen_at d) \<or> time_after (di_last_seen_at d) (di_observed_at d)
              then Some DiscoveryTimes
              else if di_provenance_state d \<noteq> ProvenanceKnown \<and> di_provenance_state d \<noteq> ProvenanceUnknown
              then Some ProvenanceStateInvalid
              else if di_provenance_state d = ProvenanceKnown \<and> di_provenance d = []
              then Some ProvenanceEvidenceRequired
              else if \<not> readiness_supported (di_readiness d) then Some ReadinessInvalid
              else if \<not> stability_supported (st_state (di_stability d)) then Some StabilityStateInvalid
              else if time_is_zero (st_observed_at (di_stability d)) \<or> st_minimum_spacing (di_stability d) \<le> 0
              then Some StabilityIncomplete
              else evidence_check d))"

end
