(* ===== verification/Patterns.thy ===== *)
theory Patterns
  imports Go_Library
begin

text \<open>
  The regular expressions of package \<open>regexp\<close> as far as the code uses them: matching with the
  priorities of Perl, as \<open>FindStringSubmatch\<close> documents it (the leftmost match, and among these the
  one a backtracking search finds first). A pattern is run on the list of the runes of the text and
  gives the list of its outcomes in the order of their priority. The expressions themselves are at
  the end, one definition per expression of \<^verbatim>\<open>internal/discovery/discovery.go\<close>.
\<close>

datatype pattern =
    Rune "string \<Rightarrow> bool"
  | TextBegin
  | TextEnd
  | PSeq pattern pattern
  | PAlt pattern pattern
  | PEmpty
  | Repeat "string \<Rightarrow> bool" nat "nat option"
  | Submatch nat pattern

text \<open>Where a search stands: at the beginning or not, what is left, and the submatches so far.\<close>

type_synonym match_state = "bool \<times> string list \<times> (nat \<times> string) list"

definition repeat_counts :: "(string \<Rightarrow> bool) \<Rightarrow> nat \<Rightarrow> nat option \<Rightarrow> string list \<Rightarrow> nat list" where
  "repeat_counts c lo hi rest =
     (let n = length (takeWhile c rest); most = (case hi of None \<Rightarrow> n | Some h \<Rightarrow> min n h) in
      rev [lo..<Suc most])"

fun outcomes :: "pattern \<Rightarrow> match_state \<Rightarrow> match_state list" where
  "outcomes (Rune c) (begin_text, rest, subs) =
     (case rest of r # rs \<Rightarrow> if c r then [(False, rs, subs)] else [] | [] \<Rightarrow> [])"
| "outcomes TextBegin (begin_text, rest, subs) = (if begin_text then [(begin_text, rest, subs)] else [])"
| "outcomes TextEnd (begin_text, rest, subs) = (if rest = [] then [(begin_text, rest, subs)] else [])"
| "outcomes (PSeq p q) st = concat (map (outcomes q) (outcomes p st))"
| "outcomes (PAlt p q) st = outcomes p st @ outcomes q st"
| "outcomes PEmpty st = [st]"
| "outcomes (Repeat c lo hi) (begin_text, rest, subs) =
     map (\<lambda>k. (begin_text \<and> k = 0, drop k rest, subs)) (repeat_counts c lo hi rest)"
| "outcomes (Submatch i p) (begin_text, rest, subs) =
     map (\<lambda>(b, rest', subs').
        (b, rest', (i, concat (take (length rest - length rest') rest)) # subs'))
       (outcomes p (begin_text, rest, subs))"

abbreviation optional :: "pattern \<Rightarrow> pattern" where
  "optional p \<equiv> PAlt p PEmpty"

text \<open>A submatch that took no part in the match reads as the empty text.\<close>

definition submatch :: "match_state \<Rightarrow> nat \<Rightarrow> string" where
  "submatch st i = (case map_of (snd (snd st)) i of Some s \<Rightarrow> s | None \<Rightarrow> [])"

fun first_match :: "pattern \<Rightarrow> bool \<Rightarrow> string list \<Rightarrow> match_state option" where
  "first_match p begin_text [] =
     (case outcomes p (begin_text, [], []) of st # _ \<Rightarrow> Some st | [] \<Rightarrow> None)"
| "first_match p begin_text (r # rs) =
     (case outcomes p (begin_text, r # rs, []) of st # _ \<Rightarrow> Some st | [] \<Rightarrow> first_match p False rs)"

definition FindStringSubmatch :: "pattern \<Rightarrow> string \<Rightarrow> match_state option" where
  "FindStringSubmatch p s = first_match p True (runes s)"

text \<open>
  All matches one after the other, each searched from the end of the one before. The expression it
  is used with matches no empty text, so the search always moves on.
\<close>

function all_matches :: "pattern \<Rightarrow> bool \<Rightarrow> string list \<Rightarrow> match_state list" where
  "all_matches p begin_text rest =
     (case first_match p begin_text rest of
        None \<Rightarrow> []
      | Some st \<Rightarrow>
          st # (if length (fst (snd st)) < length rest then all_matches p False (fst (snd st)) else []))"
  by pat_completeness auto

termination
  by (relation "measure (\<lambda>(p, b, rest). length rest)") auto

declare all_matches.simps [simp del]

definition FindAllStringSubmatch :: "pattern \<Rightarrow> string \<Rightarrow> match_state list" where
  "FindAllStringSubmatch p s = all_matches p True (runes s)"

section \<open>Classes of runes\<close>

definition one_byte :: "(nat \<Rightarrow> bool) \<Rightarrow> string \<Rightarrow> bool" where
  "one_byte P r \<longleftrightarrow> length r = 1 \<and> P (byte (hd r))"

definition digit_rune :: "string \<Rightarrow> bool" where
  "digit_rune = one_byte (\<lambda>n. 48 \<le> n \<and> n \<le> 57)"

definition among :: "string \<Rightarrow> string \<Rightarrow> bool" where
  "among chars r \<longleftrightarrow> length r = 1 \<and> hd r \<in> set chars"

text \<open>
  A letter under \<^verbatim>\<open>(?i)\<close>: both cases, and for \<open>k\<close> and \<open>s\<close> the Kelvin sign U+212A and the long s
  U+017F, which fold to them.
\<close>

definition long_s :: string where
  "long_s = [char_of (0xC5::nat), char_of (0xBF::nat)]"

definition kelvin :: string where
  "kelvin = [char_of (0xE2::nat), char_of (0x84::nat), char_of (0xAA::nat)]"

definition folded :: "char \<Rightarrow> string \<Rightarrow> bool" where
  "folded c r \<longleftrightarrow> ascii_lower r = [c] \<or> c = CHR ''s'' \<and> r = long_s \<or> c = CHR ''k'' \<and> r = kelvin"

definition is_letter :: "string \<Rightarrow> bool" where
  "is_letter r \<longleftrightarrow> one_byte (\<lambda>n. 65 \<le> n \<and> n \<le> 90 \<or> 97 \<le> n \<and> n \<le> 122) r \<or> r = long_s \<or> r = kelvin"

fun letters :: "string \<Rightarrow> pattern" where
  "letters [] = PEmpty"
| "letters (c # cs) = PSeq (Rune (folded c)) (letters cs)"

section \<open>The expressions\<close>

definition seasonEpisodePattern :: pattern where
  "seasonEpisodePattern =
     PSeq (PAlt TextBegin (Rune (\<lambda>r. \<not> is_letter r)))
     (PSeq (letters ''s'') (PSeq (Submatch 1 (Repeat digit_rune 1 (Some 2)))
     (PSeq (letters ''e'') (PSeq (Submatch 2 (Repeat digit_rune 1 (Some 4)))
       (optional (PSeq (Repeat (\<lambda>r. \<not> is_letter r \<and> \<not> digit_rune r) 0 None)
                 (PSeq (optional (letters ''e'')) (Submatch 3 (Repeat digit_rune 1 (Some 4))))))))))"

definition xEpisodePattern :: pattern where
  "xEpisodePattern =
     PSeq (PAlt TextBegin (Rune (\<lambda>r. \<not> digit_rune r)))
     (PSeq (Submatch 1 (Repeat digit_rune 1 (Some 2)))
     (PSeq (letters ''x'') (PSeq (Submatch 2 (Repeat digit_rune 1 (Some 4)))
       (optional (PSeq (Repeat (\<lambda>r. \<not> digit_rune r) 1 None)
                 (PSeq (optional (PAlt (letters ''e'') (letters ''x''))) (Submatch 3 (Repeat digit_rune 1 (Some 4)))))))))"

definition seasonPattern :: pattern where
  "seasonPattern =
     PSeq (PAlt (PSeq (letters ''season'') (Repeat (among '' ._-'') 0 None)) (PSeq TextBegin (letters ''s'')))
     (PSeq (Submatch 1 (Repeat digit_rune 1 (Some 2))) (PAlt (Rune (\<lambda>r. \<not> digit_rune r)) TextEnd))"

definition animeNumberPattern :: pattern where
  "animeNumberPattern =
     PSeq (PAlt TextBegin (Rune (among ''[( _.-'')))
     (PSeq (Submatch 1 (Repeat digit_rune 2 (Some 4))) (PAlt (Rune (among '']) _.-'')) TextEnd))"

end
