(* ===== verification/Disc_Classify.thy ===== *)
theory Disc_Classify
  imports Disc_Types Patterns
begin

text \<open>
  What discovery reads from file names (\<^verbatim>\<open>internal/discovery/discovery.go\<close>): the key of a group, the
  class of a file, and the suggested associations of videos, subtitles and companions.
\<close>

section \<open>Group keys and classes\<close>

definition isASCIIWord :: "string \<Rightarrow> bool" where
  "isASCIIWord s \<longleftrightarrow> s \<noteq> [] \<and> list_all (\<lambda>c. 97 \<le> byte c \<and> byte c \<le> 122) s"

definition lower_ext :: "go_library \<Rightarrow> string \<Rightarrow> string" where
  "lower_ext L p = to_lower L (path_ext p)"

datatype file_class = VideoFile | SubtitleFile | CompanionFile

definition fileClass :: "go_library \<Rightarrow> string \<Rightarrow> file_class" where
  "fileClass L p =
     (if lower_ext L p \<in> set [''.mkv'', ''.mp4'', ''.m4v'', ''.avi'', ''.mov'', ''.webm'', ''.ts'', ''.m2ts'',
                             ''.wmv'', ''.flv''] then VideoFile
      else if lower_ext L p \<in> set [''.srt'', ''.ass'', ''.ssa'', ''.vtt''] then SubtitleFile
      else if lower_ext L p \<in> set [''.idx'', ''.sub''] then SubtitleFile
      else CompanionFile)"

definition isKnownCompanion :: "go_library \<Rightarrow> string \<Rightarrow> bool" where
  "isKnownCompanion L p \<longleftrightarrow>
     lower_ext L p \<in> set [''.nfo'', ''.jpg'', ''.jpeg'', ''.png'', ''.webp'', ''.txt'', ''.sfv'', ''.md5'', ''.srr'']"

text \<open>One label is cut off per round.\<close>

lemma trim_lead_length: "length (trim_lead encs s) \<le> length s"
proof (induction encs s rule: trim_lead.induct)
  case (1 encs s)
  show ?case
  proof (cases "lead_len encs s = 0")
    case True
    then show ?thesis by (subst trim_lead.simps) auto
  next
    case False
    then have "length (trim_lead encs (drop (lead_len encs s) s)) \<le> length (drop (lead_len encs s) s)"
      by (intro "1") auto
    also have "\<dots> \<le> length s" by simp
    finally show ?thesis by (subst trim_lead.simps) auto
  qed
qed

lemma trim_space_length: "length (trim_space s) \<le> length s"
proof -
  have "length (trim_space s) \<le> length (trim_lead unicode_spaces s)"
    using trim_lead_length [of "map rev unicode_spaces" "rev (trim_lead unicode_spaces s)"]
    by (simp add: trim_space_def)
  with trim_lead_length [of unicode_spaces s] show ?thesis by linarith
qed

definition subtitle_tail :: "go_library \<Rightarrow> string \<Rightarrow> string" where
  "subtitle_tail L tail = trim_chars ''[]()'' (to_lower L tail)"

definition subtitle_label :: "string \<Rightarrow> bool" where
  "subtitle_label tail \<longleftrightarrow> tail = ''forced'' \<or> tail = ''sdh'' \<or> tail = ''hi'' \<or> length tail = 2
     \<or> length tail = 3 \<and> isASCIIWord tail"

function strip_labels :: "go_library \<Rightarrow> string \<Rightarrow> string" where
  "strip_labels L stem =
     (case last_index_any stem '' ._-'' of
        None \<Rightarrow> stem
      | Some k \<Rightarrow>
          if k = length stem - 1 \<or> length stem \<le> k \<or> \<not> subtitle_label (subtitle_tail L (drop (Suc k) stem)) then stem
          else strip_labels L (trim_space (take k stem)))"
  by pat_completeness auto

termination
proof (relation "measure (\<lambda>(L, s). length s)")
  fix L :: go_library and stem k
  assume "\<not> (k = length stem - 1 \<or> length stem \<le> k \<or> \<not> subtitle_label (subtitle_tail L (drop (Suc k) stem)))"
  then show "((L, trim_space (take k stem)), L, stem) \<in> measure (\<lambda>(L, s). length s)"
    using trim_space_length [of "take k stem"] by simp
qed simp

declare strip_labels.simps [simp del]

definition subtitleGroupStem :: "go_library \<Rightarrow> string \<Rightarrow> string" where
  "subtitleGroupStem L stem = strip_labels L (trim_space stem)"

definition groupKey :: "go_library \<Rightarrow> string \<Rightarrow> string" where
  "groupKey L p =
     (let directory = path_dir p in
      if directory = ''.'' then
        let base = path_base p;
            stem0 = take (length base - length (path_ext base)) base;
            stem1 = (if fileClass L p = SubtitleFile then subtitleGroupStem L stem0 else stem0);
            stem = (if stem1 = [] then base else stem1)
        in ''file:'' @ stem
      else hd (split_on slash directory))"

section \<open>Videos\<close>

definition base_name :: "string \<Rightarrow> string" where
  "base_name p = trim_suffix (path_ext p) (path_base p)"

definition animeAbsoluteNumber :: "string \<Rightarrow> int option" where
  "animeAbsoluteNumber base =
     map_option (\<lambda>st. atoi (submatch st 1))
       (find (\<lambda>st. let m = submatch st 1; n = atoi m in
                \<not> (n < 1 \<or> 9999 < n) \<and> \<not> (length m = 4 \<and> 1000 \<le> n \<and> n \<le> 2999))
         (FindAllStringSubmatch animeNumberPattern base))"

definition episode_association :: "string \<Rightarrow> match_state \<Rightarrow> media_association" where
  "episode_association p st =
     \<lparr>ma_file_path = p, ma_kind = MediaEpisode, ma_confidence = ConfidenceExact,
      ma_season_number = Some (atoi (submatch st 1)),
      ma_episode_numbers = atoi (submatch st 2) # (if submatch st 3 \<noteq> [] then [atoi (submatch st 3)] else []),
      ma_absolute_number = None, ma_reason = []\<rparr>"

definition associationFor :: "string \<Rightarrow> media_association" where
  "associationFor p =
     (let base = base_name p in
      case FindStringSubmatch seasonEpisodePattern base of
        Some st \<Rightarrow> episode_association p st
      | None \<Rightarrow>
      (case FindStringSubmatch xEpisodePattern base of
         Some st \<Rightarrow> episode_association p st
       | None \<Rightarrow>
       (case FindStringSubmatch seasonPattern base of
          Some st \<Rightarrow>
            \<lparr>ma_file_path = p, ma_kind = MediaSeason, ma_confidence = ConfidenceSuggested,
             ma_season_number = Some (atoi (submatch st 1)), ma_episode_numbers = [], ma_absolute_number = None,
             ma_reason = ''season pack requires episode selection''\<rparr>
        | None \<Rightarrow>
        (case animeAbsoluteNumber base of
           Some n \<Rightarrow>
             \<lparr>ma_file_path = p, ma_kind = MediaAnime, ma_confidence = ConfidenceUnresolved, ma_season_number = None,
              ma_episode_numbers = [], ma_absolute_number = Some n,
              ma_reason = ''absolute anime numbering needs Sonarr mapping''\<rparr>
         | None \<Rightarrow>
             \<lparr>ma_file_path = p, ma_kind = MediaMovie, ma_confidence = ConfidenceAmbiguous, ma_season_number = None,
              ma_episode_numbers = [], ma_absolute_number = None,
              ma_reason = ''title identity requires review''\<rparr>))))"

definition groupKindFor :: "media_association \<Rightarrow> group_kind" where
  "groupKindFor a =
     (if ma_kind a = MediaAnime then GroupAnime
      else if ma_kind a = MediaSeason then GroupSeasonPack
      else if ma_kind a = MediaEpisode then GroupEpisode
      else GroupMovie)"

section \<open>Subtitles\<close>

definition subtitleTokens :: "go_library \<Rightarrow> string \<Rightarrow> string list" where
  "subtitleTokens L s =
     string_fields (map (\<lambda>c. if c \<in> set ''._-[]()'' then CHR '' '' else c) (to_lower L s))"

definition normalizeStem :: "go_library \<Rightarrow> string \<Rightarrow> string" where
  "normalizeStem L s = join_with '' '' (subtitleTokens L s)"

definition isSubtitleLabel :: "go_library \<Rightarrow> string \<Rightarrow> bool" where
  "isSubtitleLabel L s \<longleftrightarrow> to_lower L s \<in> set [''forced'', ''sdh'', ''hi'']"

fun has_infix :: "string list \<Rightarrow> string list \<Rightarrow> bool" where
  "has_infix [] ys \<longleftrightarrow> ys = []"
| "has_infix (x # xs) ys \<longleftrightarrow> take (length ys) (x # xs) = ys \<or> has_infix xs ys"

definition containsToken :: "go_library \<Rightarrow> string \<Rightarrow> string \<Rightarrow> bool" where
  "containsToken L v token \<longleftrightarrow> subtitleTokens L token \<noteq> [] \<and> has_infix (subtitleTokens L v) (subtitleTokens L token)"

text \<open>The text and the boolean of the code's result; \<open>None\<close> is no match.\<close>

definition subtitleSuffixAfterVideoStem :: "go_library \<Rightarrow> string \<Rightarrow> string \<Rightarrow> string option" where
  "subtitleSuffixAfterVideoStem L base videoPath =
     (let subtitle = subtitleTokens L base; video = subtitleTokens L (base_name videoPath) in
      if video = [] \<or> length subtitle < length video then None
      else if take (length video) subtitle \<noteq> video then None
      else Some (join_with '' '' (drop (length video) subtitle)))"

definition subtitleLanguage :: "go_library \<Rightarrow> string \<Rightarrow> string list \<Rightarrow> string" where
  "subtitleLanguage L base candidates =
     (case candidates of
        [c] \<Rightarrow>
          (case subtitleSuffixAfterVideoStem L base c of
             None \<Rightarrow> []
           | Some suffix \<Rightarrow>
               (case find (\<lambda>t. \<not> (length t < 2 \<or> 3 < length t \<or> \<not> isASCIIWord t \<or> isSubtitleLabel L t))
                       (subtitleTokens L suffix) of
                  Some t \<Rightarrow> t | None \<Rightarrow> []))
      | _ \<Rightarrow> [])"

definition subtitle_candidate :: "go_library \<Rightarrow> string \<Rightarrow> string \<Rightarrow> bool" where
  "subtitle_candidate L normalized video \<longleftrightarrow>
     (let stem = normalizeStem L (base_name video) in
      normalized = stem \<or> has_prefix (stem @ '' '') normalized \<or> has_prefix (normalized @ '' '') stem)"

definition is_pair_ext :: "go_library \<Rightarrow> string \<Rightarrow> bool" where
  "is_pair_ext L p \<longleftrightarrow> lower_ext L p = ''.idx'' \<or> lower_ext L p = ''.sub''"

definition subtitleFor :: "go_library \<Rightarrow> string \<Rightarrow> string list \<Rightarrow> subtitle_association" where
  "subtitleFor L p videoPaths =
     (let base = base_name p;
          candidates = filter (subtitle_candidate L (normalizeStem L base)) videoPaths;
          suffix = (case candidates of [c] \<Rightarrow> subtitleSuffixAfterVideoStem L base c | _ \<Rightarrow> None);
          labelled = (\<lambda>token. case suffix of None \<Rightarrow> False | Some s \<Rightarrow> containsToken L s token)
      in \<lparr>sa_file_path = p, sa_video_paths = candidates,
          sa_pair_id = (if is_pair_ext L p then trim_suffix (path_ext p) p else []),
          sa_language = subtitleLanguage L base candidates,
          sa_forced = labelled ''forced'',
          sa_hearing_impaired = labelled ''sdh'' \<or> labelled ''hi'' \<or> labelled ''hearing impaired'',
          sa_confidence = (if length candidates = 1 then ConfidenceExact
                           else if 1 < length candidates then ConfidenceAmbiguous else ConfidenceUnresolved),
          sa_reason = (if length candidates = 1 then ''paired subtitle''
                       else if 1 < length candidates then ''subtitle matches multiple videos''
                       else ''subtitle has no matching video'')\<rparr>)"

section \<open>The files of a group\<close>

definition companion_for :: "go_library \<Rightarrow> string \<Rightarrow> companion" where
  "companion_for L p =
     (if isKnownCompanion L p
      then \<lparr>co_file_path = p, co_kind = CompanionKnown, co_video_paths = [], co_reason = ''known companion''\<rparr>
      else \<lparr>co_file_path = p, co_kind = CompanionUnsupported, co_video_paths = [],
            co_reason = ''unsupported companion requires classification''\<rparr>)"

definition kind_step :: "media_association \<Rightarrow> group_kind \<Rightarrow> group_kind" where
  "kind_step a k = (if k = GroupUnknown then groupKindFor a else if k \<noteq> groupKindFor a then GroupMixed else k)"

definition group_kind_of :: "media_association list \<Rightarrow> group_kind" where
  "group_kind_of videos =
     (let k = fold kind_step videos GroupUnknown in
      if 1 < length videos then
        (if k = GroupAnime then GroupAnime
         else if k = GroupEpisode \<or> k = GroupSeasonPack then GroupSeasonPack
         else GroupMixed)
      else k)"

text \<open>A VobSub file without its counterpart in the group is unresolved.\<close>

definition pair_checked :: "go_library \<Rightarrow> string list \<Rightarrow> subtitle_association \<Rightarrow> subtitle_association" where
  "pair_checked L pairPaths a =
     (let p = sa_file_path a;
          counterpart = (if lower_ext L p = ''.idx'' then ''.sub'' else ''.idx'') in
      if sa_pair_id a \<noteq> [] \<and> to_lower L (trim_suffix (path_ext p) p @ counterpart) \<notin> set pairPaths
      then a\<lparr>sa_confidence := ConfidenceUnresolved, sa_reason := ''IDX/SUB pair is incomplete''\<rparr>
      else a)"

definition unmatched_companion :: "subtitle_association \<Rightarrow> companion list" where
  "unmatched_companion a =
     (if sa_reason a \<noteq> [] \<and> sa_reason a \<noteq> ''paired subtitle''
      then [\<lparr>co_file_path = sa_file_path a, co_kind = CompanionUnmatchedSubtitle,
             co_video_paths = sa_video_paths a, co_reason = sa_reason a\<rparr>]
      else [])"

definition classifyFiles :: "go_library \<Rightarrow> file_manifest_entry list \<Rightarrow>
    media_association list \<times> subtitle_association list \<times> companion list \<times> group_kind" where
  "classifyFiles L files =
     (let paths = map fm_relative_path files;
          videoPaths = filter (\<lambda>p. fileClass L p = VideoFile) paths;
          subtitlePaths = filter (\<lambda>p. fileClass L p = SubtitleFile) paths;
          companions = map (companion_for L) (filter (\<lambda>p. fileClass L p = CompanionFile) paths);
          videos = map associationFor videoPaths;
          pairPaths = map (to_lower L) (filter (is_pair_ext L) subtitlePaths);
          subtitles = map (\<lambda>p. pair_checked L pairPaths (subtitleFor L p videoPaths)) subtitlePaths
      in (videos, subtitles, companions @ concat (map unmatched_companion subtitles), group_kind_of videos))"

end
