(* ===== verification/Disc_Evidence.thy ===== *)
theory Disc_Evidence
  imports Disc_Classify
begin

text \<open>
  What one scan concludes from its evidence (\<^verbatim>\<open>internal/discovery/discovery.go\<close>): fingerprints and
  revisions, unsupported children, the correlation with download clients, stability, review reasons,
  readiness, and the groups built from all of it. The argument \<open>U\<close> stands for \<open>json.Unmarshal\<close> into
  \<open>UnsupportedChildEvidence\<close>; \<open>None\<close> is its error.
\<close>

section \<open>Values of the ports\<close>

record descriptor_observation =
  dd_id :: runtime_id
  dd_kind :: string
  dd_available :: bool
  dd_size :: int
  dd_digest :: string
  dd_captured_at :: "time option"
  dd_source :: string
  dd_unavailable :: string

text \<open>\<open>Progress\<close>, a float no function here reads, is left out.\<close>

record download_item =
  dn_external_id :: string
  dn_name :: string
  dn_protocol :: string
  dn_state :: string
  dn_seeding :: bool
  dn_category :: string
  dn_tags :: "string list"
  dn_hash :: string
  dn_completed_at :: "time option"
  dn_processing_done :: bool
  dn_payload :: "file_manifest_entry list"
  dn_descriptor :: "descriptor_observation option"

text \<open>An item with the connection of the source that listed it.\<close>

type_synonym source_item = "config_id \<times> download_item"

section \<open>Lists without repetitions\<close>

definition append_new :: "'a list \<Rightarrow> 'a \<Rightarrow> 'a list" where
  "append_new xs x = (if List.member xs x then xs else xs @ [x])"

definition appendUnique :: "string list \<Rightarrow> string \<Rightarrow> string list" where
  "appendUnique values v = append_new values v"

definition uniqueReasons :: "string list \<Rightarrow> string list" where
  "uniqueReasons values = foldl appendUnique [] values"

definition appendReview :: "review_reason list \<Rightarrow> review_reason \<Rightarrow> review_reason list" where
  "appendReview values v = append_new values v"

definition appendReviewReasons :: "review_reason list \<Rightarrow> review_reason list \<Rightarrow> review_reason list" where
  "appendReviewReasons values added = foldl appendReview values added"

section \<open>Unsupported children\<close>

definition unsupported_prefix :: string where
  "unsupported_prefix = ''unsupported_child:''"

type_synonym unmarshal = "string \<Rightarrow> child_evidence option"

definition ParseUnsupportedChildReasonCode :: "unmarshal \<Rightarrow> string \<Rightarrow> child_evidence option" where
  "ParseUnsupportedChildReasonCode U code =
     (if \<not> has_prefix unsupported_prefix code then None
      else case U (trim_prefix unsupported_prefix code) of
        None \<Rightarrow> None
      | Some ev \<Rightarrow> if uc_relative_path ev = [] \<or> uc_reason ev = [] then None else Some ev)"

text \<open>Marshalling two strings never fails.\<close>

definition child_json :: "child_evidence \<Rightarrow> string" where
  "child_json ev =
     json_text (JObj [(''relativePath'', JStr (uc_relative_path ev)), (''reason'', JStr (uc_reason ev))])"

definition unsupportedReasonCode :: "string \<Rightarrow> string \<Rightarrow> string" where
  "unsupportedReasonCode p reason =
     unsupported_prefix @ child_json \<lparr>uc_relative_path = p, uc_reason = reason\<rparr>"

definition pathWithinGroup :: "string \<Rightarrow> string \<Rightarrow> bool" where
  "pathWithinGroup v grp \<longleftrightarrow> v = grp \<or> has_prefix (grp @ ''/'') v \<or> grp = path_dir v"

definition child_key :: "child_evidence \<Rightarrow> string" where
  "child_key ev = uc_relative_path ev @ CHR 0x00 # uc_reason ev"

fun first_children :: "string list \<Rightarrow> child_evidence list \<Rightarrow> child_evidence list" where
  "first_children seen [] = []"
| "first_children seen (ev # evs) =
     (if List.member seen (child_key ev) then first_children seen evs
      else ev # first_children (child_key ev # seen) evs)"

definition unsupportedChildren :: "go_library \<Rightarrow> unmarshal \<Rightarrow> string list \<Rightarrow> child_evidence list" where
  "unsupportedChildren L U reasons =
     sort_slice (gl_order L) (\<lambda>ev. [uc_relative_path ev])
       (first_children [] (List.map_filter (ParseUnsupportedChildReasonCode U) reasons))"

definition unsupportedChildrenForGroup ::
  "go_library \<Rightarrow> unmarshal \<Rightarrow> string list \<Rightarrow> string \<Rightarrow> child_evidence list" where
  "unsupportedChildrenForGroup L U reasons grp =
     filter (\<lambda>ev. pathWithinGroup (uc_relative_path ev) grp) (unsupportedChildren L U reasons)"

section \<open>Revisions and fingerprints\<close>

definition nul :: string where
  "nul = [CHR 0x00]"

definition revision_line :: "file_manifest_entry \<Rightarrow> string" where
  "revision_line e =
     fm_relative_path e @ nul @ manifest_type_text (fm_type e) @ nul @ int_text (fm_size e) @ nul
     @ fm_digest e @ nul @ fm_file_identity e @ nul @ manifest_role_text (fm_role e) @ [CHR 0x0A]"

definition manifestRevision :: "go_library \<Rightarrow> file_manifest_entry list \<Rightarrow> string" where
  "manifestRevision L entries =
     ''sha256:'' @ hex_encode (Sum256 (string_bytes
       (concat (map revision_line (sort_slice (gl_order L) (\<lambda>e. [fm_relative_path e]) entries)))))"

definition fingerprint_text :: "file_manifest_entry \<Rightarrow> string" where
  "fingerprint_text e =
     fm_relative_path e @ nul @ int_text (fm_size e) @ nul @ fm_digest e @ nul @ fm_file_identity e @ nul
     @ manifest_type_text (fm_type e)"

definition fileFingerprint :: "file_manifest_entry \<Rightarrow> string" where
  "fileFingerprint e = hex_encode (Sum256 (string_bytes (fingerprint_text e)))"

section \<open>Client completion\<close>

definition manifestTouchesGroup :: "file_manifest_entry \<Rightarrow> string \<Rightarrow> file_manifest_entry list \<Rightarrow> bool" where
  "manifestTouchesGroup payload grp files \<longleftrightarrow>
     fm_relative_path payload = grp
     \<or> has_prefix (grp @ ''/'') (fm_relative_path payload)
     \<or> has_prefix (fm_relative_path payload @ ''/'') grp
     \<or> list_ex (\<lambda>file. fm_relative_path payload = fm_relative_path file
          \<or> fm_type payload = ManifestDirectory
             \<and> has_prefix (fm_relative_path payload @ ''/'') (fm_relative_path file)) files"

definition completionState :: "go_library \<Rightarrow> download_item \<Rightarrow> completion_state" where
  "completionState L item =
     (if dn_processing_done item then ClientCompletionComplete
      else let state = to_lower L (trim_space (dn_state item)) in
        if list_ex (contains_text state) [''unpack'', ''extract'', ''repair'', ''process'']
           \<or> has_prefix ''pp_'' state then ClientCompletionProcessing
        else if state \<in> set [''completed'', ''complete'', ''seeding'', ''uploading'', ''stalledup'', ''pausedup'',
                            ''queuedup''] then ClientCompletionComplete
        else if contains_text state ''check'' \<or> state = ''moving'' \<or> state = ''allocating''
        then ClientCompletionProcessing
        else if state \<in> set [''downloading'', ''stalleddl'', ''pauseddl'', ''queued'', ''queueddl'', ''active'',
                            ''metadl'', ''forced'', ''forceddl''] then ClientCompletionDownloading
        else ClientCompletionUnknown)"

fun completion_priority :: "completion_state \<Rightarrow> nat" where
  "completion_priority ClientCompletionDownloading = 3"
| "completion_priority ClientCompletionProcessing = 2"
| "completion_priority ClientCompletionComplete = 1"
| "completion_priority _ = 0"

text \<open>The connection an aggregate of items belongs to, empty when it is not one.\<close>

definition merged_connection :: "client_completion \<Rightarrow> config_id \<Rightarrow> config_id" where
  "merged_connection c conn =
     (if cc_connection_id c = [] \<and> cc_items c = [] then conn
      else if cc_connection_id c \<noteq> conn then []
      else cc_connection_id c)"

definition earliest :: "time option \<Rightarrow> time option \<Rightarrow> time option" where
  "earliest current new =
     (case new of
        None \<Rightarrow> current
      | Some t \<Rightarrow> (case current of None \<Rightarrow> new | Some u \<Rightarrow> if time_before t u then new else current))"

definition merged_state :: "client_completion \<Rightarrow> completion_state \<Rightarrow> completion_state" where
  "merged_state c s =
     (if s = ClientCompletionUnknown then ClientCompletionUnknown
      else if cc_unknown_item c then cc_state c
      else if completion_priority (cc_state c) < completion_priority s then s
      else cc_state c)"

definition mergeCompletion :: "client_completion \<Rightarrow> client_item_observation \<Rightarrow> client_completion" where
  "mergeCompletion c item =
     c\<lparr>cc_known := True,
       cc_connection_id := merged_connection c (ci_connection_id item),
       cc_items := cc_items c @ [item],
       cc_client_item_ids := cc_client_item_ids c
          @ (if ci_client_item_id item \<noteq> [] then [ci_client_item_id item] else []),
       cc_completed_at := earliest (cc_completed_at c) (ci_completed_at item),
       cc_unknown_item := cc_unknown_item c \<or> ci_state item = ClientCompletionUnknown,
       cc_state := merged_state c (ci_state item)\<rparr>"

definition no_completion :: "time \<Rightarrow> client_completion" where
  "no_completion now =
     \<lparr>cc_state = ClientCompletionUnknown, cc_connection_id = [], cc_client_item_ids = [], cc_items = [],
      cc_completed_at = None, cc_observed_at = now, cc_known = False, cc_unknown_item = False\<rparr>"

definition item_matches ::
  "config_id \<Rightarrow> string \<Rightarrow> file_manifest_entry list \<Rightarrow> source_item \<Rightarrow> bool" where
  "item_matches root grp files si \<longleftrightarrow>
     list_ex (\<lambda>p. fm_root_id p = root \<and> manifestTouchesGroup p grp files) (dn_payload (snd si))"

definition item_key :: "source_item \<Rightarrow> string" where
  "item_key si = fst si @ nul @ dn_external_id (snd si) @ nul @ dn_hash (snd si)"

definition item_observation :: "go_library \<Rightarrow> source_item \<Rightarrow> client_item_observation" where
  "item_observation L si =
     \<lparr>ci_connection_id = fst si, ci_client_item_id = dn_external_id (snd si), ci_hash = dn_hash (snd si),
      ci_state = completionState L (snd si), ci_completed_at = dn_completed_at (snd si)\<rparr>"

definition item_provenance :: "config_id \<Rightarrow> file_manifest_entry list \<Rightarrow> source_item \<Rightarrow> provenance" where
  "item_provenance root files si =
     \<lparr>pv_connection_id = fst si, pv_client_item_id = dn_external_id (snd si), pv_hash = dn_hash (snd si),
      pv_completed_at = dn_completed_at (snd si),
      pv_descriptor_id = (case dn_descriptor (snd si) of None \<Rightarrow> [] | Some dd \<Rightarrow> dd_id dd),
      pv_source_path = (case files of [] \<Rightarrow> None
         | f # _ \<Rightarrow> Some \<lparr>ft_root_id = root, ft_relative_path = fm_relative_path f\<rparr>)\<rparr>"

text \<open>The loop over the items; \<open>seen\<close> are the keys met so far.\<close>

fun correlate ::
  "go_library \<Rightarrow> config_id \<Rightarrow> string \<Rightarrow> file_manifest_entry list \<Rightarrow> string list \<Rightarrow> source_item list
     \<Rightarrow> provenance list \<times> client_completion \<Rightarrow> provenance list \<times> client_completion" where
  "correlate L root grp files seen [] acc = acc"
| "correlate L root grp files seen (si # rest) acc =
     (if \<not> item_matches root grp files si \<or> List.member seen (item_key si)
      then correlate L root grp files seen rest acc
      else if dn_external_id (snd si) = [] \<and> dn_hash (snd si) = []
      then correlate L root grp files (item_key si # seen) rest acc
      else correlate L root grp files (item_key si # seen) rest
             (fst acc @ [item_provenance root files si], mergeCompletion (snd acc) (item_observation L si)))"

definition correlateClient ::
  "go_library \<Rightarrow> config_id \<Rightarrow> string \<Rightarrow> file_manifest_entry list \<Rightarrow> source_item list \<Rightarrow> time
     \<Rightarrow> provenance list \<times> client_completion" where
  "correlateClient L root grp files items now = correlate L root grp files [] items ([], no_completion now)"

section \<open>Stability\<close>

text \<open>A Go map filled from a list holds the last entry of a key.\<close>

definition last_with :: "('a \<Rightarrow> 'b) \<Rightarrow> 'b \<Rightarrow> 'a list \<Rightarrow> 'a option" where
  "last_with f k xs = find (\<lambda>x. f x = k) (rev xs)"

definition first_sight :: "file_manifest_entry \<Rightarrow> time \<Rightarrow> file_stability" where
  "first_sight e now =
     \<lparr>fs_path = fm_relative_path e, fs_state = StabilityUnknown, fs_observed_at = now,
      fs_previous_observed_at = None, fs_observation_count = 1,
      fs_current_fingerprint = fileFingerprint e, fs_previous_fingerprint = []\<rparr>"

definition file_stability_of :: "file_stability list \<Rightarrow> duration \<Rightarrow> time \<Rightarrow> file_manifest_entry \<Rightarrow> file_stability" where
  "file_stability_of prior spacing now e =
     (if blank (fm_file_identity e) then first_sight e now
      else case last_with fs_path (fm_relative_path e) prior of
        None \<Rightarrow> first_sight e now
      | Some p \<Rightarrow>
          (first_sight e now)\<lparr>
            fs_observation_count := fs_observation_count p + 1,
            fs_previous_fingerprint := fs_current_fingerprint p,
            fs_previous_observed_at := Some (fs_observed_at p),
            fs_state := (if fs_current_fingerprint p \<noteq> fileFingerprint e then StabilityChanging
                         else if spacing \<le> time_sub now (fs_observed_at p) then StabilityStable
                         else StabilityUnknown)\<rparr>)"

definition absorb_stability :: "stability_state \<Rightarrow> stability_state \<Rightarrow> stability_state" where
  "absorb_stability sofar s =
     (if s = StabilityChanging then StabilityChanging
      else if s = StabilityUnknown \<and> sofar = StabilityStable then StabilityUnknown
      else sofar)"

definition vanished :: "time \<Rightarrow> file_stability \<Rightarrow> file_stability" where
  "vanished now p =
     \<lparr>fs_path = fs_path p, fs_state = StabilityChanging, fs_observed_at = now,
      fs_previous_observed_at = Some (fs_observed_at p), fs_observation_count = fs_observation_count p,
      fs_current_fingerprint = [], fs_previous_fingerprint = fs_current_fingerprint p\<rparr>"

definition missing_files :: "file_manifest_entry list \<Rightarrow> file_stability list \<Rightarrow> file_stability list" where
  "missing_files files prior = filter (\<lambda>p. fs_path p \<notin> set (map fm_relative_path files)) prior"

definition stability_total :: "file_manifest_entry list \<Rightarrow> file_stability list \<Rightarrow> file_stability list \<Rightarrow> stability_state" where
  "stability_total files seen missing =
     (if files = [] then StabilityUnknown
      else if missing \<noteq> [] then StabilityChanging
      else foldl absorb_stability StabilityStable (map fs_state seen))"

definition stabilityFor ::
  "file_manifest_entry list \<Rightarrow> stability_observation \<Rightarrow> duration \<Rightarrow> time \<Rightarrow> stability_observation" where
  "stabilityFor files prior spacing now =
     (let seen = map (file_stability_of (st_files prior) spacing now) files;
          missing = missing_files files (st_files prior);
          state = stability_total files seen missing
      in \<lparr>st_state = state, st_observed_at = now, st_minimum_spacing = spacing,
          st_files = seen @ map (vanished now) missing,
          st_reason = (if state = StabilityChanging then ''one or more files changed between observations''
                       else if state = StabilityUnknown
                       then ''two observations at the configured spacing are required''
                       else [])\<rparr>)"

section \<open>Readiness and review\<close>

definition clientCoverageComplete :: "coverage list \<Rightarrow> bool" where
  "clientCoverageComplete cs \<longleftrightarrow> cs \<noteq> [] \<and> list_all (\<lambda>c. cov_completeness c = CompletenessComplete) cs"

definition readinessFor :: "discovery \<Rightarrow> readiness" where
  "readinessFor d =
     (if di_videos d = [] then
        (if di_companions d \<noteq> [] \<or> di_subtitles d \<noteq> [] then ReadinessUnsupported else ReadinessUnknown)
      else if cc_state (di_client_completion d) = ClientCompletionDownloading then ReadinessDownloading
      else if cc_state (di_client_completion d) = ClientCompletionProcessing then ReadinessProcessing
      else if st_state (di_stability d) = StabilityChanging then ReadinessChanging
      else if st_state (di_stability d) \<noteq> StabilityStable
              \<or> cov_completeness (di_coverage d) \<noteq> CompletenessComplete
              \<or> cc_state (di_client_completion d) \<noteq> ClientCompletionComplete
              \<or> \<not> clientCoverageComplete (di_client_coverage d) then ReadinessUnknown
      else ReadinessReady)"

definition video_reviews :: "media_association \<Rightarrow> review_reason list" where
  "video_reviews v =
     (if ma_confidence v = ConfidenceAmbiguous then [ReviewAmbiguousAssociation] else [])
     @ (if ma_kind v = MediaAnime then [ReviewAnimeMappingRequired] else [])"

definition companion_reviews :: "companion \<Rightarrow> review_reason list" where
  "companion_reviews c =
     (if co_kind c = CompanionUnsupported then [ReviewUnsupportedCompanion] else [])
     @ (if co_kind c = CompanionUnmatchedSubtitle then [ReviewUnmatchedSubtitle] else [])"

text \<open>The reasons in the order the code appends them, each kept once.\<close>

definition reviewForDiscovery :: "discovery \<Rightarrow> review_reason list" where
  "reviewForDiscovery d = appendReviewReasons []
     ((if di_provenance_state d = ProvenanceUnknown then [ReviewOrphanProvenance] else [])
      @ (if cc_state (di_client_completion d) = ClientCompletionUnknown then [ReviewClientCompletionUnknown] else [])
      @ (if st_state (di_stability d) = StabilityUnknown then [ReviewStabilityUnknown] else [])
      @ (if st_state (di_stability d) = StabilityChanging then [ReviewFileChanging] else [])
      @ (if cov_completeness (di_coverage d) \<noteq> CompletenessComplete then [ReviewCoveragePartial] else [])
      @ (if di_client_coverage d \<noteq> [] \<and> \<not> clientCoverageComplete (di_client_coverage d)
         then [ReviewClientInventoryIncomplete] else [])
      @ concat (map video_reviews (di_videos d))
      @ concat (map (\<lambda>s. if sa_reason s \<noteq> ''paired subtitle'' then [ReviewUnmatchedSubtitle] else [])
           (di_subtitles d))
      @ concat (map companion_reviews (di_companions d))
      @ (if di_unsupported_children d \<noteq> [] then [ReviewUnsupportedChild] else []))"

section \<open>Groups\<close>

text \<open>The zero value a map lookup of an unknown group gives.\<close>

definition zero_stability :: stability_observation where
  "zero_stability = \<lparr>st_state = StabilityOther [], st_observed_at = 0, st_minimum_spacing = 0,
     st_files = [], st_reason = []\<rparr>"

definition zero_completion :: client_completion where
  "zero_completion = (no_completion 0)\<lparr>cc_state := ClientCompletionOther []\<rparr>"

definition zero_coverage :: coverage where
  "zero_coverage = \<lparr>cov_source_id = [], cov_connection_id = [], cov_root_id = [],
     cov_completeness = CompletenessOther [], cov_reason_codes = [], cov_observed_count = 0,
     cov_snapshot_revision = [], cov_started_at = None, cov_completed_at = None, cov_observed_at = 0\<rparr>"

definition zero_discovery :: discovery where
  "zero_discovery = \<lparr>di_id = [], di_root_id = [], di_relative_path = [], di_kind = GroupOther [],
     di_files = [], di_videos = [], di_subtitles = [], di_companions = [],
     di_provenance_state = ProvenanceStateOther [], di_provenance = [],
     di_client_completion = zero_completion, di_client_coverage = [], di_stability = zero_stability,
     di_readiness = ReadinessOther [], di_review_reasons = [], di_coverage = zero_coverage,
     di_unsupported_children = [], di_observed_at = 0, di_manifest_revision = [],
     di_first_seen_at = 0, di_last_seen_at = 0, di_active = False\<rparr>"

text \<open>What one scan knows besides the files of a group.\<close>

record scan_facts =
  sf_coverage :: coverage
  sf_client_items :: "source_item list"
  sf_client_incomplete :: bool
  sf_client_reasons :: "string list"
  sf_client_coverages :: "coverage list"
  sf_spacing :: duration
  sf_now :: time

text \<open>The completion the clients report, not complete when a listing was not.\<close>

definition guarded_completion :: "scan_facts \<Rightarrow> client_completion \<Rightarrow> client_completion" where
  "guarded_completion sf c =
     (if (sf_client_incomplete sf \<or> \<not> clientCoverageComplete (sf_client_coverages sf))
         \<and> cc_state c = ClientCompletionComplete
      then c\<lparr>cc_state := ClientCompletionUnknown\<rparr> else c)"

definition client_reviews :: "unmarshal \<Rightarrow> scan_facts \<Rightarrow> string \<Rightarrow> review_reason list" where
  "client_reviews U sf key =
     (if sf_client_incomplete sf then [ReviewClientInventoryIncomplete] else [])
     @ concat (map (\<lambda>reason. case ParseUnsupportedChildReasonCode U reason of
          None \<Rightarrow> []
        | Some ev \<Rightarrow> if pathWithinGroup (uc_relative_path ev) key then [ReviewUnsupportedChild] else [])
        (sf_client_reasons sf))"

text \<open>The group before its review reasons and its readiness are read off it.\<close>

definition bare_discovery ::
  "go_library \<Rightarrow> unmarshal \<Rightarrow> scan_facts \<Rightarrow> string \<Rightarrow> file_manifest_entry list \<Rightarrow> discovery \<Rightarrow> discovery" where
  "bare_discovery L U sf key files prior =
     (let root = fm_root_id (hd files); now = sf_now sf;
          (videos, subtitles, companions, kind) = classifyFiles L files;
          (prov, completion) = correlateClient L root key files (sf_client_items sf) now
      in \<lparr>di_id = di_id prior, di_root_id = root, di_relative_path = key, di_kind = kind,
          di_files = files, di_videos = videos, di_subtitles = subtitles, di_companions = companions,
          di_provenance_state = (if prov \<noteq> [] then ProvenanceKnown else ProvenanceUnknown),
          di_provenance = prov,
          di_client_completion = guarded_completion sf completion,
          di_client_coverage = sf_client_coverages sf,
          di_stability = stabilityFor files (di_stability prior) (sf_spacing sf) now,
          di_readiness = ReadinessUnknown, di_review_reasons = [], di_coverage = sf_coverage sf,
          di_unsupported_children = unsupportedChildrenForGroup L U (cov_reason_codes (sf_coverage sf)) key,
          di_observed_at = now, di_manifest_revision = manifestRevision L files,
          di_first_seen_at = (if \<not> time_is_zero (di_first_seen_at prior) \<and> time_before (di_first_seen_at prior) now
                              then di_first_seen_at prior else now),
          di_last_seen_at = now, di_active = True\<rparr>)"

definition buildDiscovery ::
  "go_library \<Rightarrow> unmarshal \<Rightarrow> scan_facts \<Rightarrow> string \<Rightarrow> file_manifest_entry list \<Rightarrow> discovery \<Rightarrow> discovery" where
  "buildDiscovery L U sf key files prior =
     (let d = bare_discovery L U sf key files prior in
      d\<lparr>di_review_reasons := appendReviewReasons (appendReviewReasons [] (client_reviews U sf key)) (reviewForDiscovery d),
        di_readiness := readinessFor d\<rparr>)"

definition grouped_entries :: "file_manifest_entry list \<Rightarrow> file_manifest_entry list" where
  "grouped_entries entries = filter (\<lambda>e. fm_type e \<noteq> ManifestDirectory) entries"

definition group_keys :: "go_library \<Rightarrow> file_manifest_entry list \<Rightarrow> string list" where
  "group_keys L entries = sort (remdups (map (\<lambda>e. groupKey L (fm_relative_path e)) (grouped_entries entries)))"

definition group_files :: "go_library \<Rightarrow> file_manifest_entry list \<Rightarrow> string \<Rightarrow> file_manifest_entry list" where
  "group_files L entries key = filter (\<lambda>e. groupKey L (fm_relative_path e) = key) (grouped_entries entries)"

definition prior_group :: "discovery list \<Rightarrow> string \<Rightarrow> discovery" where
  "prior_group previous key =
     (case last_with di_relative_path key previous of None \<Rightarrow> zero_discovery | Some d \<Rightarrow> d)"

definition groupEntries ::
  "go_library \<Rightarrow> unmarshal \<Rightarrow> scan_facts \<Rightarrow> file_manifest_entry list \<Rightarrow> discovery list \<Rightarrow> discovery list" where
  "groupEntries L U sf entries previous =
     map (\<lambda>key. buildDiscovery L U sf key (group_files L entries key) (prior_group previous key))
       (group_keys L entries)"

end
