(* ===== verification/Disc_Store.thy ===== *)
theory Disc_Store
  imports Disc_Evidence Scheduler "HOL-Library.Product_Lexorder"
begin

text \<open>
  The store of discovery (\<^verbatim>\<open>internal/discovery/discovery.go\<close>): the contract \<open>ObservationStore\<close> as a
  locale, and \<open>MemoryStore\<close>, which has it. A store keeps the observations of every root, oldest first,
  and the current groups of every root, one for each path. The effects of one run are numbered: an
  argument like \<open>rand\<close> gives the answer of the \<open>k\<close>-th effect, and an operation returns the number of
  effects after it.
\<close>

section \<open>Errors and pages\<close>

datatype disc_error =
    DiscCtx ctx_error | DiscPort string | DiscRandom
  | DiscRootID | DiscObservation observation_error | DiscGroup nat observation_error
  | DiscScope nat | DiscDuplicate string
  | DiscLoad disc_error | DiscPersist disc_error | DiscCreateID | DiscClientID
  | DiscNoFilesystem | DiscNoStore | DiscPrefix nat | DiscSourceConnection nat | DiscSourceInventory config_id

record 'a page =
  pg_items :: "'a list"
  pg_next_cursor :: string
  pg_coverage :: coverage

section \<open>The contract\<close>

record 'st disc_store_ops =
  ds_commit :: "ctx \<Rightarrow> nat \<Rightarrow> directory_observation \<Rightarrow> discovery list \<Rightarrow> 'st \<Rightarrow> nat \<times> (disc_error + 'st)"
  ds_observations :: "ctx \<Rightarrow> 'st \<Rightarrow> config_id \<Rightarrow> disc_error + directory_observation list"
  ds_discoveries :: "ctx \<Rightarrow> 'st \<Rightarrow> config_id \<Rightarrow> bool \<Rightarrow> disc_error + discovery list"

text \<open>The paths of the groups a list of discoveries is about.\<close>

definition group_paths :: "discovery list \<Rightarrow> string set" where
  "group_paths ds = di_relative_path ` set ds"

text \<open>\<open>holds\<close> is the store's own invariant.\<close>

locale observation_store =
  fixes ops :: "'st disc_store_ops" and holds :: "'st \<Rightarrow> bool"
  assumes commit_holds:
    "holds st \<Longrightarrow> ds_commit ops c k ob ds st = (k', Inr st') \<Longrightarrow> holds st'"
  and commit_valid:
    "ds_commit ops c k ob ds st = (k', Inr st') \<Longrightarrow> DirectoryObservation_Validate ob = None"
  and observations_appended:
    "ds_commit ops c k ob ds st = (k', Inr st') \<Longrightarrow> ds_observations ops None st r = Inr obs \<Longrightarrow>
     ds_observations ops None st' r = Inr (if r = dob_root_id ob then obs @ [ob] else obs)"
  and observations_listed: "\<exists>obs. ds_observations ops None st r = Inr obs"
  and discoveries_listed: "\<exists>gs. ds_discoveries ops None st r b = Inr gs"
  and current_groups:
    "holds st \<Longrightarrow> ds_commit ops c k ob ds st = (k', Inr st') \<Longrightarrow>
     ds_discoveries ops None st r False = Inr old \<Longrightarrow> ds_discoveries ops None st' r False = Inr new \<Longrightarrow>
     group_paths new =
       (if r \<noteq> dob_root_id ob then group_paths old
        else if cov_completeness (dob_coverage ob) = CompletenessComplete then group_paths ds
        else group_paths old \<union> group_paths ds)"

context observation_store
begin

lemma commit_observes:
  assumes "ds_commit ops c k ob ds st = (k', Inr st')"
  obtains old where "ds_observations ops None st (dob_root_id ob) = Inr old"
    and "ds_observations ops None st' (dob_root_id ob) = Inr (old @ [ob])"
  using observations_appended [OF assms, of "dob_root_id ob"] observations_listed [of st "dob_root_id ob"]
  by auto

lemma absence_needs_complete:
  assumes "holds st" and "ds_commit ops c k ob ds st = (k', Inr st')"
    and "ds_discoveries ops None st r False = Inr old" and "ds_discoveries ops None st' r False = Inr new"
    and "p \<in> group_paths old" and "p \<notin> group_paths new"
  shows "r = dob_root_id ob \<and> cov_completeness (dob_coverage ob) = CompletenessComplete \<and> p \<notin> group_paths ds"
  using current_groups [OF assms(1-4)] assms(5-6) by (auto split: if_splits)

end

section \<open>\<open>MemoryStore\<close>\<close>

record disc_memory =
  ms_observations :: "config_id \<Rightarrow> directory_observation list"
  ms_discoveries :: "config_id \<Rightarrow> discovery list"

definition NewMemoryStore :: disc_memory where
  "NewMemoryStore = \<lparr>ms_observations = \<lambda>_. [], ms_discoveries = \<lambda>_. []\<rparr>"

text \<open>An id for a group that has none; the number of effects after it.\<close>

definition identified :: "rand \<Rightarrow> nat \<Rightarrow> discovery \<Rightarrow> nat \<times> discovery option" where
  "identified rand k d =
     (if RuntimeID_Valid (di_id d) then (k, Some d)
      else (Suc k, case NewRuntimeID (rand k) of Inl _ \<Rightarrow> None | Inr i \<Rightarrow> Some (d\<lparr>di_id := i\<rparr>)))"

fun commit_check :: "rand \<Rightarrow> directory_observation \<Rightarrow> nat \<Rightarrow> string list \<Rightarrow> nat \<Rightarrow> discovery list
    \<Rightarrow> nat \<times> (disc_error + discovery list)" where
  "commit_check rand ob index paths k [] = (k, Inr [])"
| "commit_check rand ob index paths k (d0 # rest) =
     (case identified rand k d0 of
        (k1, None) \<Rightarrow> (k1, Inl DiscCreateID)
      | (k1, Some d) \<Rightarrow>
          (case Discovery_Validate d of
             Some e \<Rightarrow> (k1, Inl (DiscGroup index e))
           | None \<Rightarrow>
               if di_root_id d \<noteq> dob_root_id ob
                  \<or> cov_source_id (di_coverage d) \<noteq> cov_source_id (dob_coverage ob)
               then (k1, Inl (DiscScope index))
               else if List.member paths (di_relative_path d) then (k1, Inl (DiscDuplicate (di_relative_path d)))
               else (case commit_check rand ob (Suc index) (di_relative_path d # paths) k1 rest of
                       (k2, Inl e) \<Rightarrow> (k2, Inl e)
                     | (k2, Inr ds) \<Rightarrow> (k2, Inr (d # ds)))))"

text \<open>The first-seen time of a group the store knows.\<close>

definition known_since :: "directory_observation \<Rightarrow> discovery \<Rightarrow> time" where
  "known_since ob existing =
     (if time_is_zero (di_first_seen_at existing) \<or> time_before (dob_observed_at ob) (di_first_seen_at existing)
      then dob_observed_at ob else di_first_seen_at existing)"

definition seen_now :: "directory_observation \<Rightarrow> discovery \<Rightarrow> discovery" where
  "seen_now ob d = d\<lparr>di_last_seen_at := dob_observed_at ob, di_active := True\<rparr>"

fun upsert :: "directory_observation \<Rightarrow> discovery \<Rightarrow> discovery list \<Rightarrow> discovery list" where
  "upsert ob d [] = [seen_now ob d]"
| "upsert ob d (existing # rest) =
     (if di_relative_path existing = di_relative_path d
      then seen_now ob (d\<lparr>di_id := di_id existing, di_first_seen_at := known_since ob existing\<rparr>) # rest
      else existing # upsert ob d rest)"

definition retire :: "discovery \<Rightarrow> discovery" where
  "retire d = d\<lparr>di_active := False, di_readiness := ReadinessUnknown,
     di_review_reasons := appendReview (di_review_reasons d) ReviewNotSeenInCompleteScan\<rparr>"

definition retire_unseen :: "discovery list \<Rightarrow> discovery list \<Rightarrow> discovery list" where
  "retire_unseen ds current =
     map (\<lambda>g. if di_relative_path g \<in> set (map di_relative_path ds) \<or> \<not> di_active g then g else retire g) current"

definition applied :: "directory_observation \<Rightarrow> discovery list \<Rightarrow> discovery list \<Rightarrow> discovery list" where
  "applied ob ds current0 =
     (let current = fold (upsert ob) ds current0 in
      if cov_completeness (dob_coverage ob) = CompletenessComplete then retire_unseen ds current else current)"

definition MemoryStore_Commit :: "rand \<Rightarrow> ctx \<Rightarrow> nat \<Rightarrow> directory_observation \<Rightarrow> discovery list \<Rightarrow> disc_memory
    \<Rightarrow> nat \<times> (disc_error + disc_memory)" where
  "MemoryStore_Commit rand c k ob ds0 st =
     (case c of Some e \<Rightarrow> (k, Inl (DiscCtx e))
      | None \<Rightarrow>
      (case DirectoryObservation_Validate ob of
         Some e \<Rightarrow> (k, Inl (DiscObservation e))
       | None \<Rightarrow>
       (case commit_check rand ob 0 [] k ds0 of
          (k1, Inl e) \<Rightarrow> (k1, Inl e)
        | (k1, Inr ds) \<Rightarrow>
            let root = dob_root_id ob in
            (k1, Inr (st\<lparr>ms_observations := (ms_observations st)(root := ms_observations st root @ [ob]),
                         ms_discoveries := (ms_discoveries st)(root := applied ob ds (ms_discoveries st root))\<rparr>)))))"

definition MemoryStore_ListDirectoryObservations ::
  "ctx \<Rightarrow> disc_memory \<Rightarrow> config_id \<Rightarrow> disc_error + directory_observation list" where
  "MemoryStore_ListDirectoryObservations c st root =
     (case c of Some e \<Rightarrow> Inl (DiscCtx e) | None \<Rightarrow> Inr (ms_observations st root))"

text \<open>Latest first, then by path; paths differ, so the order is determined.\<close>

definition MemoryStore_ListDiscoveries ::
  "ctx \<Rightarrow> disc_memory \<Rightarrow> config_id \<Rightarrow> bool \<Rightarrow> disc_error + discovery list" where
  "MemoryStore_ListDiscoveries c st root includeInactive =
     (case c of Some e \<Rightarrow> Inl (DiscCtx e)
      | None \<Rightarrow> Inr (sort_key (\<lambda>d. (- di_last_seen_at d, di_relative_path d))
                  (filter (\<lambda>d. includeInactive \<or> di_active d) (ms_discoveries st root))))"

definition MemoryStore_Current :: "ctx \<Rightarrow> disc_memory \<Rightarrow> config_id \<Rightarrow> disc_error + discovery list" where
  "MemoryStore_Current c st root = MemoryStore_ListDiscoveries c st root False"

definition MemoryStore_History :: "ctx \<Rightarrow> disc_memory \<Rightarrow> config_id \<Rightarrow> disc_error + directory_observation list" where
  "MemoryStore_History c st root = MemoryStore_ListDirectoryObservations c st root"

definition memory_ops :: "rand \<Rightarrow> disc_memory disc_store_ops" where
  "memory_ops rand = \<lparr>ds_commit = MemoryStore_Commit rand,
     ds_observations = MemoryStore_ListDirectoryObservations,
     ds_discoveries = MemoryStore_ListDiscoveries\<rparr>"

section \<open>Facts about a commit\<close>

text \<open>One group for each path.\<close>

definition one_per_path :: "disc_memory \<Rightarrow> bool" where
  "one_per_path st \<longleftrightarrow> (\<forall>r. distinct (map di_relative_path (ms_discoveries st r)))"

lemma identified_path: "identified rand k d = (k', Some d') \<Longrightarrow> di_relative_path d' = di_relative_path d"
  by (auto simp: identified_def split: if_splits sum.splits)

lemma commit_check_paths:
  "commit_check rand ob i ps k ds0 = (k', Inr ds) \<Longrightarrow> map di_relative_path ds = map di_relative_path ds0"
  by (induction ds0 arbitrary: i ps k ds)
     (auto split: prod.splits option.splits if_splits sum.splits dest: identified_path)

lemma group_paths_simps [simp]:
  "group_paths [] = {}" "group_paths (d # ds) = insert (di_relative_path d) (group_paths ds)"
  by (simp_all add: group_paths_def)

lemma group_paths_image: "di_relative_path ` set ds = group_paths ds"
  by (simp add: group_paths_def)

lemma group_paths_sort [simp]: "group_paths (sort_key f gs) = group_paths gs"
  by (simp add: group_paths_def)

lemma group_paths_map: "map di_relative_path ds = map di_relative_path es \<Longrightarrow> group_paths ds = group_paths es"
  by (metis group_paths_def list.set_map)

lemma seen_now_fields [simp]:
  "di_relative_path (seen_now ob d) = di_relative_path d" "di_active (seen_now ob d)"
  by (simp_all add: seen_now_def)

lemma retire_fields [simp]: "di_relative_path (retire d) = di_relative_path d" "\<not> di_active (retire d)"
  by (simp_all add: retire_def)

lemma upsert_paths: "group_paths (upsert ob d gs) = insert (di_relative_path d) (group_paths gs)"
  by (induction gs) auto

lemma upsert_active:
  "group_paths (filter di_active (upsert ob d gs)) =
     insert (di_relative_path d) (group_paths (filter di_active gs))"
  by (induction gs) auto

lemma upsert_distinct:
  "distinct (map di_relative_path gs) \<Longrightarrow> distinct (map di_relative_path (upsert ob d gs))"
proof (induction gs)
  case (Cons g gs)
  then show ?case using upsert_paths [of ob d gs] by (auto simp: group_paths_def)
qed simp

lemma upserts_active:
  "group_paths (filter di_active (fold (upsert ob) ds gs)) = group_paths ds \<union> group_paths (filter di_active gs)"
  by (induction ds arbitrary: gs) (simp_all add: upsert_active)

lemma upserts_distinct:
  "distinct (map di_relative_path gs) \<Longrightarrow> distinct (map di_relative_path (fold (upsert ob) ds gs))"
  by (induction ds arbitrary: gs) (auto intro: upsert_distinct)

lemma retire_unseen_paths: "map di_relative_path (retire_unseen ds gs) = map di_relative_path gs"
  by (simp add: retire_unseen_def)

lemma retire_unseen_active:
  "group_paths (filter di_active (retire_unseen ds gs)) = group_paths (filter di_active gs) \<inter> group_paths ds"
proof (induction gs)
  case (Cons g gs)
  let ?g = "if di_relative_path g \<in> group_paths ds \<or> \<not> di_active g then g else retire g"
  have "retire_unseen ds (g # gs) = ?g # retire_unseen ds gs" by (simp add: retire_unseen_def group_paths_image)
  then show ?case
    using Cons by (cases "di_active g"; cases "di_relative_path g \<in> group_paths ds") simp_all
qed (simp add: retire_unseen_def)

lemma applied_distinct:
  "distinct (map di_relative_path gs) \<Longrightarrow> distinct (map di_relative_path (applied ob ds gs))"
  by (simp add: applied_def Let_def retire_unseen_paths upserts_distinct)

lemma applied_active:
  "group_paths (filter di_active (applied ob ds gs)) =
     (if cov_completeness (dob_coverage ob) = CompletenessComplete then group_paths ds
      else group_paths (filter di_active gs) \<union> group_paths ds)"
  by (auto simp: applied_def Let_def retire_unseen_active upserts_active)

lemma MemoryStore_CommitD:
  assumes "MemoryStore_Commit rand c k ob ds0 st = (k', Inr st')"
  shows "c = None" and "DirectoryObservation_Validate ob = None"
    and "\<exists>ds. commit_check rand ob 0 [] k ds0 = (k', Inr ds)
          \<and> ms_observations st' = (ms_observations st)(dob_root_id ob := ms_observations st (dob_root_id ob) @ [ob])
          \<and> ms_discoveries st' = (ms_discoveries st)(dob_root_id ob := applied ob ds (ms_discoveries st (dob_root_id ob)))"
proof -
  show c: "c = None" using assms by (cases c) (simp_all add: MemoryStore_Commit_def)
  show v: "DirectoryObservation_Validate ob = None"
    using assms by (cases "DirectoryObservation_Validate ob") (simp_all add: MemoryStore_Commit_def c)
  obtain k1 r where e: "commit_check rand ob 0 [] k ds0 = (k1, r)" by (rule prod.exhaust)
  show "\<exists>ds. commit_check rand ob 0 [] k ds0 = (k', Inr ds)
      \<and> ms_observations st' = (ms_observations st)(dob_root_id ob := ms_observations st (dob_root_id ob) @ [ob])
      \<and> ms_discoveries st' = (ms_discoveries st)(dob_root_id ob := applied ob ds (ms_discoveries st (dob_root_id ob)))"
    using assms e by (cases r) (auto simp: MemoryStore_Commit_def Let_def c v)
qed

interpretation mem: observation_store "memory_ops rand" one_per_path for rand
proof
  fix st :: disc_memory and st' c k ob ds k'
  assume "one_per_path st" and "ds_commit (memory_ops rand) c k ob ds st = (k', Inr st')"
  then show "one_per_path st'"
    by (auto simp: one_per_path_def memory_ops_def applied_distinct dest!: MemoryStore_CommitD(3))
next
  fix st :: disc_memory and st' c k ob ds k'
  assume "ds_commit (memory_ops rand) c k ob ds st = (k', Inr st')"
  then show "DirectoryObservation_Validate ob = None"
    by (auto simp: memory_ops_def dest: MemoryStore_CommitD(2))
next
  fix st :: disc_memory and st' c k ob ds k' r old
  assume "ds_commit (memory_ops rand) c k ob ds st = (k', Inr st')"
    and "ds_observations (memory_ops rand) None st r = Inr old"
  then show "ds_observations (memory_ops rand) None st' r = Inr (if r = dob_root_id ob then old @ [ob] else old)"
    by (auto simp: memory_ops_def MemoryStore_ListDirectoryObservations_def dest!: MemoryStore_CommitD(3))
next
  fix st :: disc_memory and r
  show "\<exists>obs. ds_observations (memory_ops rand) None st r = Inr obs"
    by (simp add: memory_ops_def MemoryStore_ListDirectoryObservations_def)
next
  fix st :: disc_memory and r b
  show "\<exists>gs. ds_discoveries (memory_ops rand) None st r b = Inr gs"
    by (simp add: memory_ops_def MemoryStore_ListDiscoveries_def)
next
  fix st :: disc_memory and st' c k ob ds k' r old new
  assume a: "ds_commit (memory_ops rand) c k ob ds st = (k', Inr st')"
    "ds_discoveries (memory_ops rand) None st r False = Inr old"
    "ds_discoveries (memory_ops rand) None st' r False = Inr new"
  then obtain es where "commit_check rand ob 0 [] k ds = (k', Inr es)"
    and "ms_discoveries st' = (ms_discoveries st)(dob_root_id ob := applied ob es (ms_discoveries st (dob_root_id ob)))"
    by (auto simp: memory_ops_def dest!: MemoryStore_CommitD(3))
  moreover from this have "group_paths es = group_paths ds"
    by (auto dest: commit_check_paths group_paths_map)
  ultimately show "group_paths new =
       (if r \<noteq> dob_root_id ob then group_paths old
        else if cov_completeness (dob_coverage ob) = CompletenessComplete then group_paths ds
        else group_paths old \<union> group_paths ds)"
    using a(2,3) applied_active [of ob es "ms_discoveries st (dob_root_id ob)"]
    by (cases "r = dob_root_id ob") (auto simp: memory_ops_def MemoryStore_ListDiscoveries_def)
qed

end
