(* ===== verification/Disc_Scan.thy ===== *)
theory Disc_Scan
  imports Disc_Store
begin

text \<open>
  The scanner (\<^verbatim>\<open>internal/discovery/discovery.go\<close>): bounded enumeration of a root, the listings of the
  download clients, and \<open>Scan\<close>, which puts both together and commits. Everything outside the program
  is in \<open>disc_env\<close>: the answer of the \<open>k\<close>-th effect for every kind of effect. An operation gets the number
  of effects so far and returns the number after it.
\<close>

section \<open>The outside\<close>

record disc_env =
  dv_library :: go_library
  dv_unmarshal :: unmarshal
  dv_ctx :: "nat \<Rightarrow> ctx"
  dv_now :: "nat \<Rightarrow> time"
  dv_wall :: "nat \<Rightarrow> time"
  dv_rand :: rand
  dv_page :: "nat \<Rightarrow> config_id \<Rightarrow> string \<Rightarrow> string \<Rightarrow> int \<Rightarrow> string + file_manifest_entry page"
  dv_list :: "nat \<Rightarrow> config_id \<Rightarrow> string \<Rightarrow> int \<Rightarrow> string + download_item page"

text \<open>A source is a connection and whether an inventory is given for it.\<close>

type_synonym download_source = "config_id \<times> bool"

record scanner =
  sc_sources :: "download_source list"
  sc_options :: disc_options

fun sources_check :: "nat \<Rightarrow> download_source list \<Rightarrow> disc_error option" where
  "sources_check index [] = None"
| "sources_check index ((conn, inventory) # rest) =
     (if \<not> ConfigID_Valid conn then Some (DiscSourceConnection index)
      else if \<not> inventory then Some (DiscSourceInventory conn)
      else sources_check (Suc index) rest)"

definition New_scanner :: "bool \<Rightarrow> bool \<Rightarrow> download_source list \<Rightarrow> disc_options \<Rightarrow> disc_error + scanner" where
  "New_scanner filesystem store sources options0 =
     (if \<not> filesystem then Inl DiscNoFilesystem
      else if \<not> store then Inl DiscNoStore
      else case normalize_disc_options options0 of
        Inl index \<Rightarrow> Inl (DiscPrefix index)
      | Inr opts \<Rightarrow>
          (case sources_check 0 sources of
             Some e \<Rightarrow> Inl e
           | None \<Rightarrow> Inr \<lparr>sc_sources = sources, sc_options = opts\<rparr>))"

definition scanner_now :: "disc_env \<Rightarrow> nat \<Rightarrow> nat \<times> time" where
  "scanner_now ev k =
     (if time_is_zero (dv_now ev k) then (k + 2, dv_wall ev (k + 1)) else (k + 1, dv_now ev k))"

definition isExcluded :: "disc_options \<Rightarrow> string \<Rightarrow> bool" where
  "isExcluded opts p \<longleftrightarrow> list_ex (\<lambda>prefix. p = prefix \<or> has_prefix (prefix @ ''/'') p) (dop_excluded_prefixes opts)"

section \<open>Enumeration\<close>

record enumeration_state =
  en_entries :: "file_manifest_entry list"
  en_reasons :: "string list"
  en_partial :: bool
  en_unknown :: bool
  en_count :: int
  en_page_count :: int
  en_max_reached :: bool

definition en_start :: enumeration_state where
  "en_start = \<lparr>en_entries = [], en_reasons = [], en_partial = False, en_unknown = False, en_count = 0,
     en_page_count = 0, en_max_reached = False\<rparr>"

definition add_reason :: "string \<Rightarrow> enumeration_state \<Rightarrow> enumeration_state" where
  "add_reason reason st = st\<lparr>en_reasons := appendUnique (en_reasons st) reason\<rparr>"

text \<open>Something was left out, for a reason; \<open>hit_limit\<close> also ends the enumeration.\<close>

definition left_out :: "string \<Rightarrow> enumeration_state \<Rightarrow> enumeration_state" where
  "left_out reason st = add_reason reason (st\<lparr>en_partial := True\<rparr>)"

definition hit_limit :: "string \<Rightarrow> enumeration_state \<Rightarrow> enumeration_state" where
  "hit_limit reason st = left_out reason (st\<lparr>en_max_reached := True\<rparr>)"

definition reason_excluded :: "disc_env \<Rightarrow> disc_options \<Rightarrow> string \<Rightarrow> bool" where
  "reason_excluded ev opts reason \<longleftrightarrow>
     (case ParseUnsupportedChildReasonCode (dv_unmarshal ev) reason of
        None \<Rightarrow> False
      | Some child \<Rightarrow> isExcluded opts (uc_relative_path child))"

definition take_reason :: "disc_env \<Rightarrow> disc_options \<Rightarrow> string \<Rightarrow> enumeration_state \<Rightarrow> enumeration_state" where
  "take_reason ev opts reason st =
     (if reason_excluded ev opts reason then st
      else let st1 = add_reason reason st in
        if has_prefix unsupported_prefix reason then st1\<lparr>en_partial := True\<rparr> else st1)"

definition take_completeness :: "completeness \<Rightarrow> enumeration_state \<Rightarrow> enumeration_state" where
  "take_completeness c st =
     (if c = CompletenessComplete then st
      else if c = CompletenessPartial then st\<lparr>en_partial := True\<rparr>
      else if c = CompletenessUnknown then st\<lparr>en_unknown := True\<rparr>
      else add_reason ''coverage_unknown'' (st\<lparr>en_unknown := True\<rparr>))"

definition take_page :: "disc_env \<Rightarrow> disc_options \<Rightarrow> coverage \<Rightarrow> enumeration_state \<Rightarrow> enumeration_state" where
  "take_page ev opts c st =
     take_completeness (cov_completeness c)
       (fold (take_reason ev opts) (cov_reason_codes c) (st\<lparr>en_page_count := en_page_count st + 1\<rparr>))"

definition take_entry :: "file_manifest_entry \<Rightarrow> enumeration_state \<Rightarrow> enumeration_state" where
  "take_entry e st = st\<lparr>en_entries := en_entries st @ [e], en_count := en_count st + 1\<rparr>"

text \<open>
  What a walk returns: the effects so far, the state, and the error. \<open>None\<close> says that the rounds given
  to the loop over pages were not enough; it never happens (\<open>enumeration_returns\<close>).
\<close>

type_synonym walk = "(nat \<times> enumeration_state \<times> disc_error option) option"

text \<open>The loop over the entries of a page either goes on with the next page or returns.\<close>

datatype walk_signal = Next_page | Return "disc_error option"

fun walk_items ::
  "disc_env \<Rightarrow> disc_options \<Rightarrow> (string \<Rightarrow> nat \<Rightarrow> enumeration_state \<Rightarrow> walk) \<Rightarrow> string
     \<Rightarrow> file_manifest_entry list \<Rightarrow> nat \<Rightarrow> enumeration_state \<Rightarrow> (nat \<times> enumeration_state \<times> walk_signal) option" where
  "walk_items ev opts visit prefix [] k st = Some (k, st, Next_page)"
| "walk_items ev opts visit prefix (e # rest) k st =
     (if isExcluded opts (fm_relative_path e) then walk_items ev opts visit prefix rest k st
      else if dop_max_entries opts \<le> en_count st
      then Some (k, hit_limit ''enumeration_limit'' st, Return None)
      else if FileManifestEntry_Validate e \<noteq> None
      then walk_items ev opts visit prefix rest k
             (left_out (unsupportedReasonCode (fm_relative_path e) ''invalid_manifest'') st)
      else if fm_type e \<noteq> ManifestDirectory then walk_items ev opts visit prefix rest k (take_entry e st)
      else (case visit (fm_relative_path e) k (take_entry e st) of
              None \<Rightarrow> None
            | Some (k1, st1, None) \<Rightarrow>
                if en_max_reached st1 then Some (k1, st1, Return None)
                else walk_items ev opts visit prefix rest k1 st1
            | Some (k1, st1, Some err) \<Rightarrow>
                (case dv_ctx ev k1 of
                   Some c \<Rightarrow> Some (Suc k1, st1, Return (Some (DiscCtx c)))
                 | None \<Rightarrow>
                     if prefix \<noteq> [] then Some (Suc k1, st1, Return (Some err))
                     else let st2 = left_out (unsupportedReasonCode (fm_relative_path e) ''directory_unavailable'') st1 in
                       if en_max_reached st2 then Some (Suc k1, st2, Return None)
                       else walk_items ev opts visit prefix rest (Suc k1) st2)))"

fun walk_pages ::
  "disc_env \<Rightarrow> disc_options \<Rightarrow> (string \<Rightarrow> nat \<Rightarrow> enumeration_state \<Rightarrow> walk) \<Rightarrow> config_id \<Rightarrow> string
     \<Rightarrow> nat \<Rightarrow> string \<Rightarrow> string list \<Rightarrow> nat \<Rightarrow> enumeration_state \<Rightarrow> walk" where
  "walk_pages ev opts visit root prefix 0 cursor seen k st = None"
| "walk_pages ev opts visit root prefix (Suc rounds) cursor seen k st =
     (case dv_ctx ev k of
        Some c \<Rightarrow> Some (Suc k, st, Some (DiscCtx c))
      | None \<Rightarrow>
          if dop_max_filesystem_pages opts \<le> en_page_count st
          then Some (Suc k, hit_limit ''enumeration_page_limit'' st, None)
          else (case dv_page ev (Suc k) root prefix cursor (dop_page_size opts) of
            Inl err \<Rightarrow>
              if prefix = [] then Some (k + 2, st, Some (DiscPort err))
              else Some (k + 2, left_out (unsupportedReasonCode prefix ''directory_unavailable'') st, None)
          | Inr page \<Rightarrow>
              (case walk_items ev opts visit prefix (pg_items page) (k + 2) (take_page ev opts (pg_coverage page) st) of
                 None \<Rightarrow> None
               | Some (k1, st1, Return r) \<Rightarrow> Some (k1, st1, r)
               | Some (k1, st1, Next_page) \<Rightarrow>
                   if pg_next_cursor page = [] \<or> en_max_reached st1 then Some (k1, st1, None)
                   else if List.member seen (pg_next_cursor page)
                   then Some (k1, hit_limit ''enumeration_cursor_cycle'' st1, None)
                   else walk_pages ev opts visit root prefix rounds (pg_next_cursor page)
                          (pg_next_cursor page # seen) k1 st1)))"

text \<open>
  \<open>enumerateDirectory\<close> at a depth is the walk with \<open>MaxDepth + 1 - depth\<close> levels left. Each round of the
  loop over pages counts a page or returns, so \<open>MaxFilesystemPages + 1\<close> rounds are enough.
\<close>

definition page_rounds :: "disc_options \<Rightarrow> nat" where
  "page_rounds opts = nat (dop_max_filesystem_pages opts) + 1"

fun enumerateDirectory ::
  "disc_env \<Rightarrow> disc_options \<Rightarrow> config_id \<Rightarrow> nat \<Rightarrow> string \<Rightarrow> nat \<Rightarrow> enumeration_state \<Rightarrow> walk" where
  "enumerateDirectory ev opts root levels prefix k st =
     (case dv_ctx ev k of
        Some c \<Rightarrow> Some (Suc k, st, Some (DiscCtx c))
      | None \<Rightarrow>
          (case levels of
             0 \<Rightarrow> Some (Suc k, left_out ''enumeration_depth_limit'' st, None)
           | Suc below \<Rightarrow>
               walk_pages ev opts (enumerateDirectory ev opts root below) root prefix (page_rounds opts) [] [[]] (Suc k) st))"

declare enumerateDirectory.simps [simp del]

definition enumeration_completeness :: "enumeration_state \<Rightarrow> disc_error option \<Rightarrow> completeness" where
  "enumeration_completeness st err =
     (if err \<noteq> None \<or> en_unknown st then CompletenessUnknown
      else if en_partial st then CompletenessPartial else CompletenessComplete)"

definition enumeration_coverage ::
  "runtime_id \<Rightarrow> config_id \<Rightarrow> time \<Rightarrow> enumeration_state \<Rightarrow> disc_error option \<Rightarrow> coverage" where
  "enumeration_coverage source root now st err =
     \<lparr>cov_source_id = source, cov_connection_id = [], cov_root_id = root,
      cov_completeness = enumeration_completeness st err,
      cov_reason_codes = (if err = None then uniqueReasons (en_reasons st)
                          else appendUnique (uniqueReasons (en_reasons st)) ''root_unavailable''),
      cov_observed_count = en_count st, cov_snapshot_revision = [],
      cov_started_at = Some now, cov_completed_at = None, cov_observed_at = now\<rparr>"

text \<open>The levels for a root: none when \<open>MaxDepth\<close> is negative, which the options exclude.\<close>

definition enumerate ::
  "disc_env \<Rightarrow> disc_options \<Rightarrow> config_id \<Rightarrow> runtime_id \<Rightarrow> time \<Rightarrow> nat
     \<Rightarrow> (nat \<times> file_manifest_entry list \<times> coverage \<times> disc_error option) option" where
  "enumerate ev opts root source now k =
     (case enumerateDirectory ev opts root (nat (dop_max_depth opts + 1)) [] k en_start of
        None \<Rightarrow> None
      | Some (k1, st, err) \<Rightarrow> Some (k1, en_entries st, enumeration_coverage source root now st err, err))"

section \<open>Download clients\<close>

record evidence_result =
  er_items :: "source_item list"
  er_coverages :: "coverage list"
  er_incomplete :: bool
  er_reasons :: "string list"

type_synonym listing = "evidence_result \<times> coverage"

definition markClientCoverageIncomplete :: "completeness \<Rightarrow> string \<Rightarrow> listing \<Rightarrow> listing" where
  "markClientCoverageIncomplete c reason l =
     ((fst l)\<lparr>er_incomplete := True, er_reasons := appendUnique (er_reasons (fst l)) reason\<rparr>,
      (snd l)\<lparr>cov_reason_codes := appendUnique (cov_reason_codes (snd l)) reason,
        cov_completeness := (if c = CompletenessUnknown \<or> cov_completeness (snd l) = CompletenessComplete
                             then c else cov_completeness (snd l))\<rparr>)"

text \<open>The items of a page up to the bound; whether some were left.\<close>

definition admit_items :: "disc_options \<Rightarrow> config_id \<Rightarrow> download_item list \<Rightarrow> source_item list \<Rightarrow> source_item list" where
  "admit_items opts conn items held =
     held @ map (Pair conn) (take (nat (dop_max_client_items opts) - length held) items)"

definition truncates :: "disc_options \<Rightarrow> download_item list \<Rightarrow> source_item list \<Rightarrow> bool" where
  "truncates opts items held \<longleftrightarrow> nat (dop_max_client_items opts) - length held < length items"

definition take_listing :: "disc_options \<Rightarrow> config_id \<Rightarrow> download_item page \<Rightarrow> listing \<Rightarrow> listing" where
  "take_listing opts conn page l =
     (let cov0 = snd l; pc = pg_coverage page;
          cov1 = cov0\<lparr>cov_observed_count := cov_observed_count cov0 + int (length (pg_items page)),
                   cov_observed_at := (if time_after (cov_observed_at pc) (cov_observed_at cov0)
                                       then cov_observed_at pc else cov_observed_at cov0),
                   cov_reason_codes := foldl appendUnique (cov_reason_codes cov0) (cov_reason_codes pc)\<rparr>;
          er1 = (fst l)\<lparr>er_items := admit_items opts conn (pg_items page) (er_items (fst l)),
                   er_reasons := foldl appendUnique (er_reasons (fst l)) (cov_reason_codes pc)\<rparr>
      in if cov_completeness pc = CompletenessComplete then (er1, cov1)
         else if cov_completeness pc = CompletenessPartial
         then markClientCoverageIncomplete CompletenessPartial ''client_inventory_incomplete'' (er1, cov1)
         else markClientCoverageIncomplete CompletenessUnknown ''client_inventory_incomplete'' (er1, cov1))"

text \<open>
  The loop over the pages of a source. \<open>pages\<close> counts down from \<open>MaxClientPages\<close>; the error is that of
  the context.
\<close>

fun list_pages ::
  "disc_env \<Rightarrow> disc_options \<Rightarrow> config_id \<Rightarrow> nat \<Rightarrow> string \<Rightarrow> string list \<Rightarrow> nat \<Rightarrow> listing
     \<Rightarrow> nat \<times> (disc_error + listing)" where
  "list_pages ev opts conn pages cursor seen k l =
     (case dv_ctx ev k of
        Some c \<Rightarrow> (Suc k, Inl (DiscCtx c))
      | None \<Rightarrow>
          (case pages of
             0 \<Rightarrow> (Suc k, Inr (markClientCoverageIncomplete CompletenessPartial ''client_inventory_limit'' l))
           | Suc left \<Rightarrow>
               (case dv_list ev (Suc k) conn cursor (dop_page_size opts) of
                  Inl err \<Rightarrow>
                    (k + 2, Inr (markClientCoverageIncomplete CompletenessUnknown ''client_inventory_incomplete'' l))
                | Inr page \<Rightarrow>
                    let l1 = take_listing opts conn page l; next = pg_next_cursor page in
                    if truncates opts (pg_items page) (er_items (fst l))
                       \<or> dop_max_client_items opts \<le> int (length (er_items (fst l1))) \<and> next \<noteq> []
                    then (k + 2, Inr (markClientCoverageIncomplete CompletenessPartial ''client_inventory_limit'' l1))
                    else if next = [] then (k + 2, Inr l1)
                    else if List.member seen next
                    then (k + 2, Inr (markClientCoverageIncomplete CompletenessPartial ''client_inventory_cursor_cycle'' l1))
                    else list_pages ev opts conn left next (next # seen) (k + 2) l1)))"

declare list_pages.simps [simp del]

definition client_coverage :: "runtime_id \<Rightarrow> config_id \<Rightarrow> config_id \<Rightarrow> time \<Rightarrow> coverage" where
  "client_coverage source conn root now =
     \<lparr>cov_source_id = source, cov_connection_id = conn, cov_root_id = root,
      cov_completeness = CompletenessComplete, cov_reason_codes = [], cov_observed_count = 0,
      cov_snapshot_revision = [], cov_started_at = Some now, cov_completed_at = None, cov_observed_at = now\<rparr>"

text \<open>The end of a source's listing, its times taken from the clock.\<close>

definition close_listing :: "disc_env \<Rightarrow> time \<Rightarrow> nat \<Rightarrow> listing \<Rightarrow> nat \<times> evidence_result" where
  "close_listing ev started k l =
     (let (k1, t) = scanner_now ev k; completed = (if time_before t started then started else t);
          c = (snd l)\<lparr>cov_completed_at := Some completed, cov_observed_at := completed\<rparr>
      in (k1, (fst l)\<lparr>er_coverages := er_coverages (fst l) @ [c]\<rparr>))"

fun list_sources ::
  "disc_env \<Rightarrow> disc_options \<Rightarrow> config_id \<Rightarrow> download_source list \<Rightarrow> nat \<Rightarrow> evidence_result
     \<Rightarrow> nat \<times> (disc_error + evidence_result)" where
  "list_sources ev opts root [] k er = (k, Inr er)"
| "list_sources ev opts root ((conn, _) # rest) k er =
     (case NewRuntimeID (dv_rand ev k) of
        Inl _ \<Rightarrow> (Suc k, Inl DiscClientID)
      | Inr source \<Rightarrow>
          let (k1, started) = scanner_now ev (Suc k); l = (er, client_coverage source conn root started) in
          if dop_max_client_items opts \<le> int (length (er_items er)) then
            let (k2, er2) = close_listing ev started k1
                  (markClientCoverageIncomplete CompletenessUnknown ''client_inventory_limit'' l)
            in list_sources ev opts root rest k2 er2
          else (case list_pages ev opts conn (nat (dop_max_client_pages opts)) [] [[]] k1 l of
                  (k2, Inl e) \<Rightarrow> (k2, Inl e)
                | (k2, Inr l2) \<Rightarrow>
                    let (k3, er3) = close_listing ev started k2 l2 in list_sources ev opts root rest k3 er3))"

definition clientEvidence ::
  "disc_env \<Rightarrow> scanner \<Rightarrow> config_id \<Rightarrow> nat \<Rightarrow> nat \<times> (disc_error + evidence_result)" where
  "clientEvidence ev sc root k =
     (case list_sources ev (sc_options sc) root (sc_sources sc) k
             \<lparr>er_items = [], er_coverages = [], er_incomplete = False, er_reasons = []\<rparr> of
        (k1, Inl e) \<Rightarrow> (k1, Inl e)
      | (k1, Inr er) \<Rightarrow> (k1, Inr (er\<lparr>er_reasons := uniqueReasons (er_reasons er)\<rparr>)))"

section \<open>\<open>Scan\<close>\<close>

record discovery_result =
  sr_observation :: "directory_observation option"
  sr_discoveries :: "discovery list"
  sr_persisted :: bool

definition no_result :: discovery_result where
  "no_result = \<lparr>sr_observation = None, sr_discoveries = [], sr_persisted = False\<rparr>"

text \<open>The coverage of a scan, with its end and the revision of what it saw.\<close>

definition scan_coverage :: "time \<Rightarrow> string \<Rightarrow> disc_error option \<Rightarrow> coverage \<Rightarrow> coverage" where
  "scan_coverage now revision err c =
     c\<lparr>cov_completed_at := Some now, cov_observed_at := now,
       cov_completeness := (if err = None then cov_completeness c else CompletenessUnknown),
       cov_reason_codes := (if err = None then cov_reason_codes c
                            else appendUnique (cov_reason_codes c) ''root_unavailable''),
       cov_snapshot_revision := revision\<rparr>"

definition scan_observation ::
  "disc_env \<Rightarrow> runtime_id \<Rightarrow> config_id \<Rightarrow> time \<Rightarrow> file_manifest_entry list \<Rightarrow> coverage \<Rightarrow> disc_error option
     \<Rightarrow> directory_observation" where
  "scan_observation ev source root now entries c err =
     (let revision = manifestRevision (dv_library ev) entries; c1 = scan_coverage now revision err c in
      \<lparr>dob_id = source, dob_root_id = root, dob_relative_prefix = [], dob_entries = entries, dob_coverage = c1,
       dob_unsupported_children = unsupportedChildren (dv_library ev) (dv_unmarshal ev) (cov_reason_codes c1),
       dob_observed_at = now, dob_first_seen_at = now, dob_last_seen_at = now, dob_manifest_revision = revision\<rparr>)"

text \<open>An id for every new group, and the check of each.\<close>

fun identify_groups :: "rand \<Rightarrow> nat \<Rightarrow> nat \<Rightarrow> discovery list \<Rightarrow> nat \<times> (disc_error + discovery list)" where
  "identify_groups rand index k [] = (k, Inr [])"
| "identify_groups rand index k (d0 # rest) =
     (case identified rand k d0 of
        (k1, None) \<Rightarrow> (k1, Inl DiscCreateID)
      | (k1, Some d) \<Rightarrow>
          (case Discovery_Validate d of
             Some e \<Rightarrow> (k1, Inl (DiscGroup index e))
           | None \<Rightarrow>
               (case identify_groups rand (Suc index) k1 rest of
                  (k2, Inl e) \<Rightarrow> (k2, Inl e)
                | (k2, Inr ds) \<Rightarrow> (k2, Inr (d # ds)))))"

definition facts_of :: "disc_options \<Rightarrow> coverage \<Rightarrow> evidence_result \<Rightarrow> time \<Rightarrow> scan_facts" where
  "facts_of opts c er now =
     \<lparr>sf_coverage = c, sf_client_items = er_items er, sf_client_incomplete = er_incomplete er,
      sf_client_reasons = er_reasons er, sf_client_coverages = er_coverages er,
      sf_spacing = dop_minimum_stable_spacing opts, sf_now = now\<rparr>"

text \<open>The part after the observation is valid and the root was readable. The store after it is returned.\<close>

definition scan_groups ::
  "disc_env \<Rightarrow> 'st disc_store_ops \<Rightarrow> scanner \<Rightarrow> config_id \<Rightarrow> directory_observation \<Rightarrow> time \<Rightarrow> nat \<Rightarrow> 'st
     \<Rightarrow> nat \<times> 'st \<times> discovery_result \<times> disc_error option" where
  "scan_groups ev ops sc root ob now k db =
     (let result = no_result\<lparr>sr_observation := Some ob\<rparr>; fail = (\<lambda>k e. (k, db, result, Some e)) in
      case ds_discoveries ops (dv_ctx ev k) db root True of
        Inl e \<Rightarrow> fail (Suc k) (DiscLoad e)
      | Inr previous \<Rightarrow>
      (case clientEvidence ev sc root (Suc k) of
         (k1, Inl e) \<Rightarrow> fail k1 e
       | (k1, Inr er) \<Rightarrow>
       (case identify_groups (dv_rand ev) 0 k1
               (groupEntries (dv_library ev) (dv_unmarshal ev)
                  (facts_of (sc_options sc) (dob_coverage ob) er now) (dob_entries ob) previous) of
          (k2, Inl e) \<Rightarrow> fail k2 e
        | (k2, Inr ds) \<Rightarrow>
            (case ds_commit ops (dv_ctx ev k2) (Suc k2) ob ds db of
               (k3, Inl e) \<Rightarrow> fail k3 (DiscPersist e)
             | (k3, Inr db1) \<Rightarrow> (k3, db1, result\<lparr>sr_discoveries := ds, sr_persisted := True\<rparr>, None)))))"

definition scan_commit ::
  "disc_env \<Rightarrow> 'st disc_store_ops \<Rightarrow> scanner \<Rightarrow> config_id \<Rightarrow> directory_observation \<Rightarrow> time \<Rightarrow> disc_error option
     \<Rightarrow> nat \<Rightarrow> 'st \<Rightarrow> nat \<times> 'st \<times> discovery_result \<times> disc_error option" where
  "scan_commit ev ops sc root ob now err k db =
     (case DirectoryObservation_Validate ob of
        Some e \<Rightarrow> (k, db, no_result, Some (DiscObservation e))
      | None \<Rightarrow>
      (case err of
         None \<Rightarrow> scan_groups ev ops sc root ob now k db
       | Some e \<Rightarrow>
           (case ds_commit ops (dv_ctx ev k) (Suc k) ob [] db of
              (k1, Inl _) \<Rightarrow> (k1, db, no_result\<lparr>sr_observation := Some ob\<rparr>, Some e)
            | (k1, Inr db1) \<Rightarrow>
                (k1, db1, no_result\<lparr>sr_observation := Some ob, sr_persisted := True\<rparr>, Some e))))"

definition scan_time :: "time \<Rightarrow> time \<Rightarrow> time" where
  "scan_time started t = (if time_before t started then started else t)"

definition Scanner_Scan ::
  "disc_env \<Rightarrow> 'st disc_store_ops \<Rightarrow> scanner \<Rightarrow> config_id \<Rightarrow> nat \<Rightarrow> 'st
     \<Rightarrow> (nat \<times> 'st \<times> discovery_result \<times> disc_error option) option" where
  "Scanner_Scan ev ops sc root k db =
     (if \<not> ConfigID_Valid root then Some (k, db, no_result, Some DiscRootID)
      else case dv_ctx ev k of
        Some c \<Rightarrow> Some (Suc k, db, no_result, Some (DiscCtx c))
      | None \<Rightarrow>
      (case scanner_now ev (Suc k) of
         (k1, started) \<Rightarrow>
         (case NewRuntimeID (dv_rand ev k1) of
            Inl _ \<Rightarrow> Some (Suc k1, db, no_result, Some DiscRandom)
          | Inr source \<Rightarrow>
          (case enumerate ev (sc_options sc) root source started (Suc k1) of
             None \<Rightarrow> None
           | Some (k2, entries, c, err) \<Rightarrow>
           (case scanner_now ev k2 of
              (k3, t) \<Rightarrow>
                Some (scan_commit ev ops sc root
                  (scan_observation ev source root (scan_time started t) entries c err) (scan_time started t) err k3 db))))))"

end
