(* ===== verification/Disc_Walk.thy ===== *)
theory Disc_Walk
  imports Disc_Scan
begin

text \<open>
  What an enumeration returns: the loops end within their bounds, and a walk that left nothing out has
  listed exactly what the file system shows below the root.
\<close>

section \<open>Bounds\<close>

definition within_bounds :: "disc_options \<Rightarrow> enumeration_state \<Rightarrow> bool" where
  "within_bounds opts st \<longleftrightarrow>
     0 \<le> en_page_count st \<and> en_count st = int (length (en_entries st)) \<and> en_count st \<le> dop_max_entries opts
     \<and> en_page_count st \<le> dop_max_filesystem_pages opts
     \<and> list_all (\<lambda>e. FileManifestEntry_Validate e = None \<and> \<not> isExcluded opts (fm_relative_path e)) (en_entries st)
     \<and> (en_max_reached st \<longrightarrow> en_partial st)"

text \<open>A later state of the same walk: within the bounds, and no page or shortcoming is forgotten.\<close>

definition advances :: "disc_options \<Rightarrow> enumeration_state \<Rightarrow> enumeration_state \<Rightarrow> bool" where
  "advances opts st st' \<longleftrightarrow> within_bounds opts st' \<and> en_page_count st \<le> en_page_count st'
     \<and> (en_partial st \<longrightarrow> en_partial st') \<and> (en_unknown st \<longrightarrow> en_unknown st')"

named_theorems walk_simps \<open>fields of an enumeration state after an update\<close>

lemma add_reason_fields [walk_simps]:
  "en_entries (add_reason r st) = en_entries st" "en_count (add_reason r st) = en_count st"
  "en_page_count (add_reason r st) = en_page_count st" "en_partial (add_reason r st) = en_partial st"
  "en_unknown (add_reason r st) = en_unknown st" "en_max_reached (add_reason r st) = en_max_reached st"
  by (simp_all add: add_reason_def)

lemma left_out_fields [walk_simps]:
  "en_entries (left_out r st) = en_entries st" "en_count (left_out r st) = en_count st"
  "en_page_count (left_out r st) = en_page_count st" "en_partial (left_out r st)"
  "en_unknown (left_out r st) = en_unknown st" "en_max_reached (left_out r st) = en_max_reached st"
  by (simp_all add: left_out_def walk_simps)

lemma hit_limit_fields [walk_simps]:
  "en_entries (hit_limit r st) = en_entries st" "en_count (hit_limit r st) = en_count st"
  "en_page_count (hit_limit r st) = en_page_count st" "en_partial (hit_limit r st)"
  "en_unknown (hit_limit r st) = en_unknown st" "en_max_reached (hit_limit r st)"
  by (simp_all add: hit_limit_def walk_simps)

lemma take_reason_fields [walk_simps]:
  "en_entries (take_reason ev opts r st) = en_entries st" "en_count (take_reason ev opts r st) = en_count st"
  "en_page_count (take_reason ev opts r st) = en_page_count st"
  "en_unknown (take_reason ev opts r st) = en_unknown st"
  "en_max_reached (take_reason ev opts r st) = en_max_reached st"
  "en_partial st \<Longrightarrow> en_partial (take_reason ev opts r st)"
  by (simp_all add: take_reason_def Let_def walk_simps)

lemma take_reasons_fields [walk_simps]:
  "en_entries (fold (take_reason ev opts) rs st) = en_entries st"
  "en_count (fold (take_reason ev opts) rs st) = en_count st"
  "en_page_count (fold (take_reason ev opts) rs st) = en_page_count st"
  "en_unknown (fold (take_reason ev opts) rs st) = en_unknown st"
  "en_max_reached (fold (take_reason ev opts) rs st) = en_max_reached st"
  "en_partial st \<Longrightarrow> en_partial (fold (take_reason ev opts) rs st)"
  by (induction rs arbitrary: st) (simp_all add: walk_simps)

lemma take_completeness_fields [walk_simps]:
  "en_entries (take_completeness c st) = en_entries st" "en_count (take_completeness c st) = en_count st"
  "en_page_count (take_completeness c st) = en_page_count st"
  "en_max_reached (take_completeness c st) = en_max_reached st"
  "en_partial st \<Longrightarrow> en_partial (take_completeness c st)"
  "en_unknown st \<Longrightarrow> en_unknown (take_completeness c st)"
  by (simp_all add: take_completeness_def walk_simps)

lemma take_page_fields [walk_simps]:
  "en_entries (take_page ev opts c st) = en_entries st" "en_count (take_page ev opts c st) = en_count st"
  "en_page_count (take_page ev opts c st) = en_page_count st + 1"
  "en_max_reached (take_page ev opts c st) = en_max_reached st"
  "en_partial st \<Longrightarrow> en_partial (take_page ev opts c st)"
  "en_unknown st \<Longrightarrow> en_unknown (take_page ev opts c st)"
  by (simp_all add: take_page_def walk_simps)

lemma take_entry_fields [walk_simps]:
  "en_entries (take_entry e st) = en_entries st @ [e]" "en_count (take_entry e st) = en_count st + 1"
  "en_page_count (take_entry e st) = en_page_count st" "en_partial (take_entry e st) = en_partial st"
  "en_unknown (take_entry e st) = en_unknown st" "en_max_reached (take_entry e st) = en_max_reached st"
  by (simp_all add: take_entry_def)

lemma advances_refl: "within_bounds opts st \<Longrightarrow> advances opts st st"
  by (simp add: advances_def)

lemma advances_trans: "advances opts a b \<Longrightarrow> advances opts b c \<Longrightarrow> advances opts a c"
  by (simp add: advances_def)

lemma advances_bounds: "advances opts a b \<Longrightarrow> within_bounds opts b"
  by (simp add: advances_def)

lemma marks_advance:
  assumes "within_bounds opts st"
  shows "advances opts st (left_out r st)" and "advances opts st (hit_limit r st)"
  using assms by (simp_all add: advances_def within_bounds_def walk_simps)

lemma take_entry_advances:
  assumes "within_bounds opts st" and "\<not> dop_max_entries opts \<le> en_count st"
    and "FileManifestEntry_Validate e = None" and "\<not> isExcluded opts (fm_relative_path e)"
  shows "advances opts st (take_entry e st)"
  using assms by (simp add: advances_def within_bounds_def walk_simps)

lemma take_page_advances:
  assumes "within_bounds opts st" and "\<not> dop_max_filesystem_pages opts \<le> en_page_count st"
  shows "advances opts st (take_page ev opts c st)"
  using assms by (simp add: advances_def within_bounds_def walk_simps)

text \<open>A walk returns, and its state is a later one.\<close>

definition returns_within :: "disc_options \<Rightarrow> (nat \<Rightarrow> enumeration_state \<Rightarrow> walk) \<Rightarrow> bool" where
  "returns_within opts w \<longleftrightarrow>
     (\<forall>k st. within_bounds opts st \<longrightarrow> (\<exists>k' st' err. w k st = Some (k', st', err) \<and> advances opts st st'))"

lemma returns_withinD:
  "returns_within opts w \<Longrightarrow> within_bounds opts st \<Longrightarrow>
     \<exists>k' st' err. w k st = Some (k', st', err) \<and> advances opts st st'"
  by (auto simp: returns_within_def)

lemma walk_items_returns:
  assumes v: "\<And>p. returns_within opts (visit p)" and b: "within_bounds opts st"
  shows "\<exists>k' st' sg. walk_items ev opts visit prefix es k st = Some (k', st', sg) \<and> advances opts st st'"
  using b
proof (induction es arbitrary: k st)
  case Nil
  then show ?case by (simp add: advances_refl)
next
  case (Cons e es)
  note b = Cons.prems
  have onward: "\<exists>k' st' sg. walk_items ev opts visit prefix es k1 st1 = Some (k', st', sg) \<and> advances opts st st'"
    if "advances opts st st1" for k1 st1
    using Cons.IH [OF advances_bounds [OF that]] advances_trans [OF that] by meson
  consider "isExcluded opts (fm_relative_path e)" | "\<not> isExcluded opts (fm_relative_path e)" "dop_max_entries opts \<le> en_count st"
    | "\<not> isExcluded opts (fm_relative_path e)" "\<not> dop_max_entries opts \<le> en_count st" "FileManifestEntry_Validate e \<noteq> None"
    | "\<not> isExcluded opts (fm_relative_path e)" "\<not> dop_max_entries opts \<le> en_count st" "FileManifestEntry_Validate e = None"
      "fm_type e \<noteq> ManifestDirectory"
    | (dir) "\<not> isExcluded opts (fm_relative_path e)" "\<not> dop_max_entries opts \<le> en_count st" "FileManifestEntry_Validate e = None"
      "fm_type e = ManifestDirectory"
    by blast
  then show ?case
  proof cases
    case 1
    then show ?thesis using Cons.IH [OF b] by simp
  next
    case 2
    then show ?thesis using marks_advance(2) [OF b] by simp
  next
    case 3
    then show ?thesis using onward [OF marks_advance(1) [OF b]] by simp
  next
    case 4
    then show ?thesis using onward [OF take_entry_advances [OF b 4(2) 4(3) 4(1)]] by simp
  next
    case dir
    note t = take_entry_advances [OF b dir(2) dir(3) dir(1)]
    obtain k1 st1 err where w: "visit (fm_relative_path e) k (take_entry e st) = Some (k1, st1, err)"
      and a: "advances opts (take_entry e st) st1"
      using returns_withinD [OF v advances_bounds [OF t]] by blast
    note a1 = advances_trans [OF t a]
    let ?st2 = "left_out (unsupportedReasonCode (fm_relative_path e) ''directory_unavailable'') st1"
    note a2 = advances_trans [OF a1 marks_advance(1) [OF advances_bounds [OF a1]]]
    show ?thesis
    proof (cases err)
      case None
      then show ?thesis using dir w a1 onward [OF a1] by simp
    next
      case (Some x)
      then show ?thesis using dir w a1 a2 onward [OF a2, of "Suc k1"]
        by (cases "dv_ctx ev k1"; cases "en_max_reached ?st2"; cases "prefix = []") (simp_all add: Let_def)
    qed
  qed
qed

lemma walk_pages_returns:
  assumes v: "\<And>p. returns_within opts (visit p)" and b: "within_bounds opts st"
    and r: "dop_max_filesystem_pages opts < en_page_count st + int rounds"
  shows "\<exists>k' st' err. walk_pages ev opts visit root prefix rounds cursor seen k st = Some (k', st', err)
    \<and> advances opts st st'"
  using b r
proof (induction rounds arbitrary: cursor seen k st)
  case 0
  then show ?case by (simp add: within_bounds_def)
next
  case (Suc rounds)
  note b = Suc.prems(1)
  consider (ctx) c where "dv_ctx ev k = Some c"
    | (limit) "dv_ctx ev k = None" "dop_max_filesystem_pages opts \<le> en_page_count st"
    | (failed) err where "dv_ctx ev k = None" "\<not> dop_max_filesystem_pages opts \<le> en_page_count st"
        "dv_page ev (Suc k) root prefix cursor (dop_page_size opts) = Inl err"
    | (page) pg where "dv_ctx ev k = None" "\<not> dop_max_filesystem_pages opts \<le> en_page_count st"
        "dv_page ev (Suc k) root prefix cursor (dop_page_size opts) = Inr pg"
    by (metis not_None_eq sum.exhaust)
  then show ?case
  proof cases
    case ctx
    then show ?thesis using advances_refl [OF b] by simp
  next
    case limit
    then show ?thesis using marks_advance(2) [OF b] by simp
  next
    case failed
    then show ?thesis using advances_refl [OF b] marks_advance(1) [OF b] by simp
  next
    case page
    note t = take_page_advances [OF b page(2)]
    let ?st1 = "take_page ev opts (pg_coverage pg) st"
    obtain k1 st1 sg where w: "walk_items ev opts visit prefix (pg_items pg) (k + 2) ?st1 = Some (k1, st1, sg)"
      and a: "advances opts ?st1 st1"
      using walk_items_returns [where visit = visit, OF v advances_bounds [OF t]] by blast
    note a1 = advances_trans [OF t a]
    show ?thesis
    proof (cases sg)
      case (Return x)
      then show ?thesis using page w a1 by simp
    next
      case Next_page
      have r1: "dop_max_filesystem_pages opts < en_page_count st1 + int rounds"
        using Suc.prems(2) a by (simp add: advances_def walk_simps)
      obtain k2 st2 err where "walk_pages ev opts visit root prefix rounds (pg_next_cursor pg) (pg_next_cursor pg # seen) k1 st1
          = Some (k2, st2, err)" and "advances opts st1 st2"
        using Suc.IH [OF advances_bounds [OF a1] r1] by blast
      then show ?thesis
        using page w Next_page a1 advances_trans [OF a1] marks_advance(2) [OF advances_bounds [OF a1]]
          advances_trans [OF a1 marks_advance(2) [OF advances_bounds [OF a1]]] by simp
    qed
  qed
qed

lemma enumerateDirectory_returns:
  assumes n: "0 \<le> dop_max_filesystem_pages opts"
  shows "returns_within opts (enumerateDirectory ev opts root levels prefix)"
proof (induction levels arbitrary: prefix)
  case 0
  show ?case
    by (auto simp: returns_within_def enumerateDirectory.simps marks_advance advances_refl split: option.splits)
next
  case (Suc levels)
  show ?case unfolding returns_within_def
  proof (intro allI impI)
    fix k and st :: enumeration_state
    assume b: "within_bounds opts st"
    show "\<exists>k' st' err. enumerateDirectory ev opts root (Suc levels) prefix k st = Some (k', st', err) \<and> advances opts st st'"
    proof (cases "dv_ctx ev k")
      case None
      have "dop_max_filesystem_pages opts < en_page_count st + int (page_rounds opts)"
        using b n by (simp add: page_rounds_def within_bounds_def)
      from walk_pages_returns [where visit = "enumerateDirectory ev opts root levels", OF Suc.IH b this] show ?thesis
        by (simp add: enumerateDirectory.simps None)
    next
      case (Some c)
      then show ?thesis using advances_refl [OF b] by (simp add: enumerateDirectory.simps)
    qed
  qed
qed

lemma en_start_within:
  "0 \<le> dop_max_entries opts \<Longrightarrow> 0 \<le> dop_max_filesystem_pages opts \<Longrightarrow> within_bounds opts en_start"
  by (simp add: within_bounds_def en_start_def)

lemma enumerate_returns:
  assumes "0 \<le> dop_max_entries opts" and "0 \<le> dop_max_filesystem_pages opts"
  shows "\<exists>k' st err. enumerateDirectory ev opts root levels prefix k en_start = Some (k', st, err) \<and> within_bounds opts st"
  using returns_withinD [OF enumerateDirectory_returns [OF assms(2)] en_start_within [OF assms]]
  by (meson advances_bounds)

section \<open>A full listing\<close>

text \<open>
  What the file system shows from a cursor of a directory on: the entries of the page that are not
  excluded, what is below its directories, and what the following pages show.
\<close>

type_synonym file_system = "config_id \<Rightarrow> string \<Rightarrow> string \<Rightarrow> int \<Rightarrow> string + file_manifest_entry page"

inductive listed :: "file_system \<Rightarrow> disc_options \<Rightarrow> config_id \<Rightarrow> string \<Rightarrow> string \<Rightarrow> file_manifest_entry \<Rightarrow> bool"
  for fs opts root where
  here: "fs root prefix cursor (dop_page_size opts) = Inr pg \<Longrightarrow> e \<in> set (pg_items pg) \<Longrightarrow>
     \<not> isExcluded opts (fm_relative_path e) \<Longrightarrow> listed fs opts root prefix cursor e"
| deeper: "fs root prefix cursor (dop_page_size opts) = Inr pg \<Longrightarrow> d \<in> set (pg_items pg) \<Longrightarrow>
     \<not> isExcluded opts (fm_relative_path d) \<Longrightarrow> fm_type d = ManifestDirectory \<Longrightarrow>
     listed fs opts root (fm_relative_path d) [] e \<Longrightarrow> listed fs opts root prefix cursor e"
| later: "fs root prefix cursor (dop_page_size opts) = Inr pg \<Longrightarrow> pg_next_cursor pg \<noteq> [] \<Longrightarrow>
     listed fs opts root prefix (pg_next_cursor pg) e \<Longrightarrow> listed fs opts root prefix cursor e"

definition page_shows ::
  "file_system \<Rightarrow> disc_options \<Rightarrow> config_id \<Rightarrow> file_manifest_entry list \<Rightarrow> file_manifest_entry set" where
  "page_shows fs opts root es = {e. \<exists>d \<in> set es. \<not> isExcluded opts (fm_relative_path d)
     \<and> (e = d \<or> fm_type d = ManifestDirectory \<and> listed fs opts root (fm_relative_path d) [] e)}"

lemma shown_page:
  assumes "fs root prefix cursor (dop_page_size opts) = Inr pg"
  shows "{e. listed fs opts root prefix cursor e} = page_shows fs opts root (pg_items pg)
    \<union> (if pg_next_cursor pg = [] then {} else {e. listed fs opts root prefix (pg_next_cursor pg) e})"
proof -
  have "listed fs opts root prefix cursor e \<longleftrightarrow> e \<in> page_shows fs opts root (pg_items pg)
      \<or> pg_next_cursor pg \<noteq> [] \<and> listed fs opts root prefix (pg_next_cursor pg) e" for e
    by (subst listed.simps) (auto simp: assms page_shows_def)
  then show ?thesis by auto
qed

definition quiet :: "enumeration_state \<Rightarrow> bool" where
  "quiet st \<longleftrightarrow> \<not> en_partial st \<and> \<not> en_unknown st"

lemma advances_quiet: "advances opts st st' \<Longrightarrow> quiet st' \<Longrightarrow> quiet st"
  by (auto simp: advances_def quiet_def)

lemma quiet_below_limits: "within_bounds opts st \<Longrightarrow> quiet st \<Longrightarrow> \<not> en_max_reached st"
  by (auto simp: within_bounds_def quiet_def)

lemma marks_not_quiet [simp]: "\<not> quiet (left_out r st)" "\<not> quiet (hit_limit r st)"
  by (simp_all add: quiet_def walk_simps)

text \<open>A walk that went well has added what its directory shows.\<close>

definition lists_fully :: "file_system \<Rightarrow> disc_options \<Rightarrow> config_id \<Rightarrow> string \<Rightarrow> (nat \<Rightarrow> enumeration_state \<Rightarrow> walk) \<Rightarrow> bool" where
  "lists_fully fs opts root prefix w \<longleftrightarrow>
     (\<forall>k st k' st'. within_bounds opts st \<longrightarrow> w k st = Some (k', st', None) \<longrightarrow> quiet st' \<longrightarrow>
        set (en_entries st') = set (en_entries st) \<union> {e. listed fs opts root prefix [] e})"

lemma lists_fullyD:
  "lists_fully fs opts root prefix w \<Longrightarrow> within_bounds opts st \<Longrightarrow> w k st = Some (k', st', None) \<Longrightarrow> quiet st' \<Longrightarrow>
     set (en_entries st') = set (en_entries st) \<union> {e. listed fs opts root prefix [] e}"
  by (simp add: lists_fully_def)

lemma not_quiet_onward:
  assumes v: "\<And>p. returns_within opts (visit p)" and "within_bounds opts st" and "\<not> quiet st"
    and "walk_items ev opts visit prefix es k st = Some (k', st', sg)"
  shows "\<not> quiet st'"
  using walk_items_returns [where visit = visit, OF v assms(2), of ev prefix es k] assms(3,4)
  by (auto dest: advances_quiet)

lemma walk_items_lists:
  assumes v: "\<And>p. returns_within opts (visit p)" and f: "\<And>p. lists_fully fs opts root p (visit p)"
    and b: "within_bounds opts st"
    and w: "walk_items ev opts visit prefix es k st = Some (k', st', sg)" and q: "quiet st'"
    and sg: "\<And>e. sg \<noteq> Return (Some e)"
  shows "sg = Next_page \<and> set (en_entries st') = set (en_entries st) \<union> page_shows fs opts root es"
  using b w
proof (induction es arbitrary: k st)
  case Nil
  then show ?case by (simp add: page_shows_def)
next
  case (Cons e es)
  note b = Cons.prems(1) and w = Cons.prems(2)
  have cons: "page_shows fs opts root (e # es) =
      (if isExcluded opts (fm_relative_path e) then {}
       else insert e (if fm_type e = ManifestDirectory then {x. listed fs opts root (fm_relative_path e) [] x} else {}))
      \<union> page_shows fs opts root es"
    by (auto simp: page_shows_def)
  show ?case
  proof (cases "isExcluded opts (fm_relative_path e)")
    case True
    then show ?thesis using Cons.IH [OF b] w by (simp add: cons)
  next
    case not_ex: False
    have le: "\<not> dop_max_entries opts \<le> en_count st" using w q not_ex by auto
    have ok: "FileManifestEntry_Validate e = None"
      using w q not_ex le not_quiet_onward [where visit = visit, OF v advances_bounds [OF marks_advance(1) [OF b]]] by fastforce
    note t = take_entry_advances [OF b le ok not_ex]
    show ?thesis
    proof (cases "fm_type e = ManifestDirectory")
      case False
      then show ?thesis using Cons.IH [OF advances_bounds [OF t]] w not_ex le ok by (simp add: cons walk_simps)
    next
      case dir: True
      obtain k1 st1 err where c: "visit (fm_relative_path e) k (take_entry e st) = Some (k1, st1, err)"
        and a: "advances opts (take_entry e st) st1"
        using returns_withinD [OF v advances_bounds [OF t]] by blast
      note a1 = advances_trans [OF t a]
      let ?st2 = "left_out (unsupportedReasonCode (fm_relative_path e) ''directory_unavailable'') st1"
      have none: "err = None"
      proof (rule ccontr)
        assume "err \<noteq> None"
        then obtain x where x: "err = Some x" by auto
        show False
          using w q sg not_ex le ok dir c x
            not_quiet_onward [where visit = visit, OF v advances_bounds [OF marks_advance(1) [OF advances_bounds [OF a1]]], of
                "unsupportedReasonCode (fm_relative_path e) ''directory_unavailable''" ev prefix es "Suc k1" k' st' sg]
          by (cases "dv_ctx ev k1"; cases "en_max_reached ?st2"; cases "prefix = []") (auto simp: Let_def)
      qed
      have go: "(if en_max_reached st1 then Some (k1, st1, Return None) else walk_items ev opts visit prefix es k1 st1)
          = Some (k', st', sg)"
        using w not_ex le ok dir c none by simp
      have below: "\<not> en_max_reached st1"
        using go q quiet_below_limits [OF advances_bounds [OF a1]] by (auto split: if_splits)
      with go have w1: "walk_items ev opts visit prefix es k1 st1 = Some (k', st', sg)" by simp
      have q1: "quiet st1" using not_quiet_onward [where visit = visit, OF v advances_bounds [OF a1] _ w1] q by blast
      show ?thesis
        using Cons.IH [OF advances_bounds [OF a1] w1] lists_fullyD [OF f advances_bounds [OF t] c [unfolded none] q1] not_ex dir
        by (auto simp: cons walk_simps)
    qed
  qed
qed

lemma walk_pages_lists:
  assumes v: "\<And>p. returns_within opts (visit p)" and f: "\<And>p. lists_fully fs opts root p (visit p)"
    and fs: "dv_page ev = (\<lambda>_. fs)" and b: "within_bounds opts st"
    and r: "dop_max_filesystem_pages opts < en_page_count st + int rounds"
    and w: "walk_pages ev opts visit root prefix rounds cursor seen k st = Some (k', st', None)" and q: "quiet st'"
  shows "set (en_entries st') = set (en_entries st) \<union> {e. listed fs opts root prefix cursor e}"
  using b r w
proof (induction rounds arbitrary: cursor seen k st)
  case 0
  then show ?case by simp
next
  case (Suc rounds)
  note b = Suc.prems(1) and w = Suc.prems(3)
  have ctx: "dv_ctx ev k = None" using w by (auto split: option.splits)
  have le: "\<not> dop_max_filesystem_pages opts \<le> en_page_count st" using w q ctx by auto
  obtain pg where pg: "fs root prefix cursor (dop_page_size opts) = Inr pg"
    using w q ctx le by (cases "fs root prefix cursor (dop_page_size opts)") (auto simp: fs split: if_splits)
  note t = take_page_advances [OF b le]
  let ?st1 = "take_page ev opts (pg_coverage pg) st"
  obtain k1 st1 sg where i: "walk_items ev opts visit prefix (pg_items pg) (k + 2) ?st1 = Some (k1, st1, sg)"
    and a: "advances opts ?st1 st1"
    using walk_items_returns [where visit = visit, OF v advances_bounds [OF t]] by blast
  note a1 = advances_trans [OF t a]
  have go: "(case sg of Return r \<Rightarrow> Some (k1, st1, r)
      | Next_page \<Rightarrow> if pg_next_cursor pg = [] \<or> en_max_reached st1 then Some (k1, st1, None)
           else if List.member seen (pg_next_cursor pg) then Some (k1, hit_limit ''enumeration_cursor_cycle'' st1, None)
           else walk_pages ev opts visit root prefix rounds (pg_next_cursor pg) (pg_next_cursor pg # seen) k1 st1)
      = Some (k', st', None)"
    using w ctx le i by (cases sg) (simp_all add: fs pg)
  have sg: "sg \<noteq> Return (Some x)" for x using go by auto
  have r1: "dop_max_filesystem_pages opts < en_page_count st1 + int rounds"
    using Suc.prems(2) a by (simp add: advances_def walk_simps)
  have q1: "quiet st1"
    using go q walk_pages_returns [where visit = visit, OF v advances_bounds [OF a1] r1, of ev root prefix
        "pg_next_cursor pg" "pg_next_cursor pg # seen" k1]
    by (auto split: walk_signal.splits if_splits dest: advances_quiet)
  have n: "sg = Next_page" and e1: "set (en_entries st1) = set (en_entries st) \<union> page_shows fs opts root (pg_items pg)"
    using walk_items_lists [where visit = visit, OF v f advances_bounds [OF t] i q1 sg] by (simp_all add: walk_simps)
  show ?case
  proof (cases "pg_next_cursor pg = []")
    case True
    then show ?thesis using go n e1 by (simp add: shown_page [where fs = fs, OF pg])
  next
    case False
    have "walk_pages ev opts visit root prefix rounds (pg_next_cursor pg) (pg_next_cursor pg # seen) k1 st1 = Some (k', st', None)"
      using go n False q quiet_below_limits [OF advances_bounds [OF a1] q1] by (auto split: if_splits)
    from Suc.IH [OF advances_bounds [OF a1] r1 this] e1 False show ?thesis
      by (auto simp: shown_page [where fs = fs, OF pg])
  qed
qed

lemma page_rounds_enough:
  "within_bounds opts st \<Longrightarrow> 0 \<le> dop_max_filesystem_pages opts \<Longrightarrow>
     dop_max_filesystem_pages opts < en_page_count st + int (page_rounds opts)"
  by (simp add: page_rounds_def within_bounds_def)

lemma enumerateDirectory_lists:
  assumes n: "0 \<le> dop_max_filesystem_pages opts" and fs: "dv_page ev = (\<lambda>_. fs)"
  shows "lists_fully fs opts root prefix (enumerateDirectory ev opts root levels prefix)"
proof (induction levels arbitrary: prefix)
  case 0
  show ?case by (auto simp: lists_fully_def enumerateDirectory.simps split: option.splits)
next
  case (Suc levels)
  show ?case unfolding lists_fully_def
  proof (intro allI impI)
    fix k st k' st'
    assume b: "within_bounds opts st" and w: "enumerateDirectory ev opts root (Suc levels) prefix k st = Some (k', st', None)"
      and q: "quiet st'"
    from w have "walk_pages ev opts (enumerateDirectory ev opts root levels) root prefix (page_rounds opts) [] [[]] (Suc k) st
        = Some (k', st', None)"
      by (auto simp: enumerateDirectory.simps [of _ _ _ "Suc levels"] split: option.splits)
    from walk_pages_lists [where visit = "enumerateDirectory ev opts root levels",
        OF enumerateDirectory_returns [OF n] Suc.IH fs b page_rounds_enough [OF b n] this q]
    show "set (en_entries st') = set (en_entries st) \<union> {e. listed fs opts root prefix [] e}" .
  qed
qed

lemma enumerate_lists:
  assumes "0 \<le> dop_max_entries opts" and "0 \<le> dop_max_filesystem_pages opts" and "dv_page ev = (\<lambda>_. fs)"
    and e: "enumerate ev opts root source now k = Some (k', es, c, err)"
    and c: "cov_completeness c = CompletenessComplete"
  shows "err = None \<and> set es = {e. listed fs opts root [] [] e}"
proof -
  obtain st where w: "enumerateDirectory ev opts root (nat (dop_max_depth opts + 1)) [] k en_start = Some (k', st, err)"
    and es: "es = en_entries st" and "c = enumeration_coverage source root now st err"
    using e by (auto simp: enumerate_def split: option.splits)
  with c have err: "err = None" and q: "quiet st"
    by (auto simp: enumeration_coverage_def enumeration_completeness_def quiet_def split: if_splits)
  have "set (en_entries st) = set (en_entries en_start) \<union> {e. listed fs opts root [] [] e}"
    using lists_fullyD [OF enumerateDirectory_lists [OF assms(2,3)] en_start_within [OF assms(1,2)] w [unfolded err] q] .
  then show ?thesis using err es by (simp add: en_start_def)
qed

end
