(* ===== verification/Disc_Facts.thy ===== *)
theory Disc_Facts
  imports Disc_Walk
begin

text \<open>
  What the conclusions of a scan rest on: the completion read off the client items, the stability of a
  group, the partition of the files into groups, the listings of the clients, and the effect of \<open>Scan\<close>
  on any store with the contract \<open>observation_store\<close>.
\<close>

section \<open>Client items\<close>

text \<open>The items of a group: those that match, each key once, without those that have no identity.\<close>

fun first_items :: "string list \<Rightarrow> source_item list \<Rightarrow> source_item list" where
  "first_items seen [] = []"
| "first_items seen (si # rest) =
     (if List.member seen (item_key si) then first_items seen rest
      else si # first_items (item_key si # seen) rest)"

definition identified_item :: "source_item \<Rightarrow> bool" where
  "identified_item si \<longleftrightarrow> dn_external_id (snd si) \<noteq> [] \<or> dn_hash (snd si) \<noteq> []"

definition group_items :: "config_id \<Rightarrow> string \<Rightarrow> file_manifest_entry list \<Rightarrow> source_item list \<Rightarrow> source_item list" where
  "group_items root key files items = filter identified_item (first_items [] (filter (item_matches root key files) items))"

lemma correlate_fold:
  "correlate L root key files seen items acc =
     (let ms = filter identified_item (first_items seen (filter (item_matches root key files) items)) in
      (fst acc @ map (item_provenance root files) ms,
       foldl mergeCompletion (snd acc) (map (item_observation L) ms)))"
  by (induction items arbitrary: seen acc) (simp_all add: Let_def identified_item_def)

lemma correlateClient_eq:
  "correlateClient L root key files items now =
     (map (item_provenance root files) (group_items root key files items),
      foldl mergeCompletion (no_completion now) (map (item_observation L) (group_items root key files items)))"
  by (simp add: correlateClient_def correlate_fold group_items_def Let_def)

text \<open>The state of several items: unknown if any is, else the least advanced.\<close>

definition overall :: "completion_state list \<Rightarrow> completion_state" where
  "overall ss =
     (if ss = [] \<or> ClientCompletionUnknown \<in> set ss then ClientCompletionUnknown
      else if ClientCompletionDownloading \<in> set ss then ClientCompletionDownloading
      else if ClientCompletionProcessing \<in> set ss then ClientCompletionProcessing
      else ClientCompletionComplete)"

definition one_connection :: "config_id list \<Rightarrow> config_id" where
  "one_connection cs = (case cs of [] \<Rightarrow> [] | c # rest \<Rightarrow> if list_all ((=) c) rest then c else [])"

text \<open>The aggregate of a list of items.\<close>

definition aggregates :: "client_item_observation list \<Rightarrow> client_completion \<Rightarrow> bool" where
  "aggregates is c \<longleftrightarrow> cc_items c = is \<and> cc_state c = overall (map ci_state is)
     \<and> cc_unknown_item c = (ClientCompletionUnknown \<in> set (map ci_state is))
     \<and> cc_connection_id c = one_connection (map ci_connection_id is)
     \<and> cc_known c = (is \<noteq> [])"

lemma overall_snoc:
  assumes "completion_supported s" and "list_all completion_supported ss"
  shows "overall (ss @ [s]) =
    (if s = ClientCompletionUnknown \<or> ClientCompletionUnknown \<in> set ss then ClientCompletionUnknown
     else if completion_priority (overall ss) < completion_priority s then s else overall ss)"
  using assms by (cases s) (auto simp: overall_def list_all_iff)

lemma one_connection_snoc:
  "one_connection (cs @ [c]) = (if cs = [] then c else if one_connection cs = c then c else [])"
  by (cases cs) (auto simp: one_connection_def)

lemma aggregates_start: "aggregates [] (no_completion now)"
  by (simp add: aggregates_def no_completion_def overall_def one_connection_def)

lemma aggregates_step:
  assumes "aggregates is c" and "list_all (completion_supported \<circ> ci_state) (is @ [i])"
  shows "aggregates (is @ [i]) (mergeCompletion c i)"
proof -
  have s: "completion_supported (ci_state i)" "list_all completion_supported (map ci_state is)"
    using assms(2) by (simp_all add: list_all_iff)
  have u: "overall ss = ClientCompletionUnknown" if "ClientCompletionUnknown \<in> set ss" for ss
    using that by (simp add: overall_def)
  have "merged_state c (ci_state i) = overall (map ci_state (is @ [i]))"
    using assms(1) u [of "map ci_state is"] overall_snoc [OF s]
    by (simp add: aggregates_def merged_state_def)
  moreover have "merged_connection c (ci_connection_id i) = one_connection (map ci_connection_id (is @ [i]))"
    using assms(1) one_connection_snoc [of "map ci_connection_id is" "ci_connection_id i"]
    by (cases "is = []") (auto simp: aggregates_def merged_connection_def one_connection_def)
  ultimately show ?thesis
    using assms(1) by (auto simp: aggregates_def mergeCompletion_def)
qed

lemma aggregates_all:
  "aggregates done_items c \<Longrightarrow> list_all (completion_supported \<circ> ci_state) (done_items @ is) \<Longrightarrow>
     aggregates (done_items @ is) (foldl mergeCompletion c is)"
proof (induction "is" arbitrary: done_items c)
  case (Cons i "is")
  have "aggregates (done_items @ [i]) (mergeCompletion c i)"
    using Cons.prems by (intro aggregates_step) (simp_all add: list_all_iff)
  from Cons.IH [OF this] Cons.prems(2) show ?case by simp
qed simp

lemma completionState_supported [simp]: "completion_supported (completionState L item)"
  by (simp add: completionState_def Let_def)

lemma correlateClient_aggregates:
  "aggregates (map (item_observation L) (group_items root key files items))
     (snd (correlateClient L root key files items now))"
  using aggregates_all [OF aggregates_start, of "map (item_observation L) (group_items root key files items)" now]
  by (simp add: correlateClient_eq list_all_iff item_observation_def)

lemma overall_complete:
  assumes "overall (map ci_state (map (item_observation L) sis)) = ClientCompletionComplete"
  shows "sis \<noteq> [] \<and> list_all (\<lambda>si. completionState L (snd si) = ClientCompletionComplete) sis"
proof -
  have "completionState L (snd si) = ClientCompletionComplete" if "si \<in> set sis" for si
    using assms that completionState_supported [of L "snd si"]
    by (cases "completionState L (snd si)")
       (force simp: overall_def item_observation_def image_iff split: if_splits)+
  then show ?thesis using assms by (auto simp: list_all_iff overall_def)
qed

section \<open>Stability\<close>

lemma foldl_absorb_stable:
  "foldl absorb_stability t ss = StabilityStable \<longleftrightarrow>
     t = StabilityStable \<and> list_all (\<lambda>s. s \<noteq> StabilityChanging \<and> s \<noteq> StabilityUnknown) ss"
proof (induction ss arbitrary: t)
  case (Cons s ss)
  have "absorb_stability t s = StabilityStable \<longleftrightarrow> t = StabilityStable \<and> s \<noteq> StabilityChanging \<and> s \<noteq> StabilityUnknown"
    by (auto simp: absorb_stability_def)
  with Cons show ?case by auto
qed simp

text \<open>A file seen before with the same fingerprint, long enough ago.\<close>

definition unchanged_since :: "file_stability list \<Rightarrow> duration \<Rightarrow> time \<Rightarrow> file_manifest_entry \<Rightarrow> bool" where
  "unchanged_since prior spacing now e \<longleftrightarrow>
     \<not> blank (fm_file_identity e)
     \<and> (\<exists>p \<in> set prior. fs_path p = fm_relative_path e \<and> fs_current_fingerprint p = fileFingerprint e
          \<and> spacing \<le> time_sub now (fs_observed_at p))"

lemma last_withD: "last_with f k xs = Some x \<Longrightarrow> x \<in> set xs \<and> f x = k"
  by (auto simp: last_with_def find_Some_iff intro: nth_mem dest: arg_cong [where f = set])
     (metis length_rev nth_mem set_rev)

lemma file_settled:
  assumes "fs_state (file_stability_of prior spacing now e) \<noteq> StabilityChanging"
    and "fs_state (file_stability_of prior spacing now e) \<noteq> StabilityUnknown"
  shows "unchanged_since prior spacing now e"
  using assms
  by (auto simp: file_stability_of_def unchanged_since_def first_sight_def split: if_splits option.splits dest!: last_withD)

lemma stable_means_settled:
  assumes "st_state (stabilityFor files prior spacing now) = StabilityStable"
  shows "files \<noteq> [] \<and> (\<forall>e \<in> set files. unchanged_since (st_files prior) spacing now e)
    \<and> (\<forall>p \<in> set (st_files prior). fs_path p \<in> set (map fm_relative_path files))"
proof -
  have t: "stability_total files (map (file_stability_of (st_files prior) spacing now) files)
      (missing_files files (st_files prior)) = StabilityStable"
    using assms by (simp add: stabilityFor_def Let_def)
  then have "files \<noteq> []" and m: "missing_files files (st_files prior) = []"
    and "list_all (\<lambda>s. s \<noteq> StabilityChanging \<and> s \<noteq> StabilityUnknown)
      (map fs_state (map (file_stability_of (st_files prior) spacing now) files))"
    by (auto simp: stability_total_def foldl_absorb_stable split: if_splits)
  then show ?thesis
    using file_settled by (auto simp: list_all_iff missing_files_def filter_empty_conv)
qed

text \<open>The stability of a group whose files stay the same, scan after scan.\<close>

fun rescans :: "file_manifest_entry list \<Rightarrow> duration \<Rightarrow> stability_observation \<Rightarrow> time list \<Rightarrow> stability_observation" where
  "rescans files spacing prior [] = prior"
| "rescans files spacing prior (now # nows) = rescans files spacing (stabilityFor files prior spacing now) nows"

definition misses :: "file_manifest_entry list \<Rightarrow> stability_observation \<Rightarrow> bool" where
  "misses files s \<longleftrightarrow> list_ex (\<lambda>p. fs_path p \<notin> set (map fm_relative_path files)) (st_files s)"

lemma misses_again:
  assumes "files \<noteq> []" and "misses files prior"
  shows "st_state (stabilityFor files prior spacing now) = StabilityChanging
    \<and> misses files (stabilityFor files prior spacing now)"
proof -
  obtain p where p: "p \<in> set (st_files prior)" "fs_path p \<notin> set (map fm_relative_path files)"
    using assms(2) by (auto simp: misses_def list_ex_iff)
  then have m: "p \<in> set (missing_files files (st_files prior))" by (simp add: missing_files_def)
  from m have "missing_files files (st_files prior) \<noteq> []" by auto
  moreover have "misses files (stabilityFor files prior spacing now)"
    using m p(2)
    by (simp add: misses_def list_ex_iff stabilityFor_def Let_def bex_Un image_iff)
       (metis vanished_def file_stability.select_convs(1))
  ultimately show ?thesis
    using assms(1) by (simp add: stabilityFor_def Let_def stability_total_def)
qed

lemma misses_for_ever: "files \<noteq> [] \<Longrightarrow> misses files prior \<Longrightarrow> misses files (rescans files spacing prior nows)"
  by (induction nows arbitrary: prior) (auto dest: misses_again)

section \<open>Groups\<close>

lemma mset_concat_filter:
  assumes "distinct ks" and "\<forall>x \<in> set xs. f x \<in> set ks"
  shows "mset (concat (map (\<lambda>k. filter (\<lambda>x. f x = k) xs) ks)) = mset xs"
  using assms
proof (induction xs)
  case Nil
  then show ?case by (induction ks) auto
next
  case (Cons x xs)
  have "mset (concat (map (\<lambda>k. filter (\<lambda>y. f y = k) (x # xs)) ks)) =
      (if f x \<in> set ks then {#x#} else {#}) + mset (concat (map (\<lambda>k. filter (\<lambda>y. f y = k) xs) ks))"
    if "distinct ks" for ks
    using that by (induction ks) auto
  with Cons show ?case by simp
qed

lemma group_keys_facts:
  "distinct (group_keys L entries)" "sorted (group_keys L entries)"
  "set (group_keys L entries) = (\<lambda>e. groupKey L (fm_relative_path e)) ` set (grouped_entries entries)"
  by (simp_all add: group_keys_def)

lemma build_fields [simp]:
  "di_relative_path (buildDiscovery L U sf key files prior) = key"
  "di_files (buildDiscovery L U sf key files prior) = files"
  "di_stability (buildDiscovery L U sf key files prior) = stabilityFor files (di_stability prior) (sf_spacing sf) (sf_now sf)"
  "di_coverage (buildDiscovery L U sf key files prior) = sf_coverage sf"
  "di_client_coverage (buildDiscovery L U sf key files prior) = sf_client_coverages sf"
  "di_readiness (buildDiscovery L U sf key files prior) = readinessFor (bare_discovery L U sf key files prior)"
  "di_root_id (buildDiscovery L U sf key files prior) = fm_root_id (hd files)"
  by (simp_all add: buildDiscovery_def bare_discovery_def Let_def split: prod.splits)

lemma bare_fields [simp]:
  "di_stability (bare_discovery L U sf key files prior) = stabilityFor files (di_stability prior) (sf_spacing sf) (sf_now sf)"
  "di_coverage (bare_discovery L U sf key files prior) = sf_coverage sf"
  "di_client_coverage (bare_discovery L U sf key files prior) = sf_client_coverages sf"
  "di_client_completion (bare_discovery L U sf key files prior) =
     guarded_completion sf (snd (correlateClient L (fm_root_id (hd files)) key files (sf_client_items sf) (sf_now sf)))"
  "di_videos (bare_discovery L U sf key files prior) = fst (classifyFiles L files)"
  by (simp_all add: bare_discovery_def Let_def split: prod.splits)

lemma guarded_complete:
  "cc_state (guarded_completion sf c) = ClientCompletionComplete \<longleftrightarrow>
     cc_state c = ClientCompletionComplete \<and> \<not> sf_client_incomplete sf \<and> clientCoverageComplete (sf_client_coverages sf)"
  by (auto simp: guarded_completion_def)

lemma ready_iff:
  "readinessFor d = ReadinessReady \<longleftrightarrow>
     di_videos d \<noteq> [] \<and> cc_state (di_client_completion d) = ClientCompletionComplete
     \<and> st_state (di_stability d) = StabilityStable \<and> cov_completeness (di_coverage d) = CompletenessComplete
     \<and> clientCoverageComplete (di_client_coverage d)"
  by (auto simp: readinessFor_def)

lemma groupEntries_member:
  assumes "d \<in> set (groupEntries L U sf entries previous)"
  obtains key where "key \<in> set (group_keys L entries)"
    and "d = buildDiscovery L U sf key (group_files L entries key) (prior_group previous key)"
  using assms by (auto simp: groupEntries_def)

lemma groupEntries_paths: "map di_relative_path (groupEntries L U sf entries previous) = group_keys L entries"
  by (simp add: groupEntries_def o_def)

lemma groupEntries_files:
  "map di_files (groupEntries L U sf entries previous) = map (group_files L entries) (group_keys L entries)"
  by (simp add: groupEntries_def o_def)

end
