(* ===== verification/Disc_Effects.thy ===== *)
theory Disc_Effects
  imports Disc_Facts
begin

text \<open>
  What a scan does to the world it is given: the listings of the download clients stay within their
  bounds, and the store is changed by one commit or not at all. The last part holds for every store
  with the contract \<open>observation_store\<close>.
\<close>

section \<open>Listings\<close>

text \<open>What the listing of one source keeps: the bound, the earlier coverages, and that a coverage which
  is not complete marks the whole result.\<close>

definition listing_ok :: "disc_options \<Rightarrow> config_id \<Rightarrow> coverage list \<Rightarrow> bool \<Rightarrow> listing \<Rightarrow> bool" where
  "listing_ok opts conn covs marked l \<longleftrightarrow>
     length (er_items (fst l)) \<le> nat (dop_max_client_items opts)
     \<and> er_coverages (fst l) = covs \<and> cov_connection_id (snd l) = conn
     \<and> (er_incomplete (fst l) \<or> cov_completeness (snd l) = CompletenessComplete)
     \<and> (marked \<longrightarrow> er_incomplete (fst l))"

lemma mark_ok [simp]:
  "listing_ok opts conn covs m l \<Longrightarrow> listing_ok opts conn covs m (markClientCoverageIncomplete c r l)"
  by (simp add: listing_ok_def markClientCoverageIncomplete_def)

lemma take_listing_ok:
  assumes "listing_ok opts conn covs m l"
  shows "listing_ok opts conn covs m (take_listing opts conn page l)"
proof -
  have "length (admit_items opts conn (pg_items page) (er_items (fst l))) \<le> nat (dop_max_client_items opts)"
    using assms by (auto simp: admit_items_def listing_ok_def min_def)
  then show ?thesis
    using assms by (auto simp: take_listing_def listing_ok_def Let_def markClientCoverageIncomplete_def)
qed

lemma list_pages_ok:
  "list_pages ev opts conn pages cursor seen k l = (k', Inr l') \<Longrightarrow> listing_ok opts conn covs m l \<Longrightarrow>
     listing_ok opts conn covs m l'"
proof (induction pages arbitrary: cursor seen k l)
  case 0
  then show ?case by (auto simp: list_pages.simps split: option.splits)
next
  case (Suc pages)
  have ctx: "dv_ctx ev k = None" using Suc.prems(1) by (auto simp: list_pages.simps split: option.splits)
  show ?case
  proof (cases "dv_list ev (Suc k) conn cursor (dop_page_size opts)")
    case (Inl err)
    then show ?thesis using Suc.prems ctx by (auto simp: list_pages.simps [of _ _ _ "Suc pages"])
  next
    case (Inr page)
    note l1 = take_listing_ok [OF Suc.prems(2), of page]
    show ?thesis
      using Suc.prems(1) ctx Inr l1 Suc.IH [OF _ l1]
      by (auto simp: list_pages.simps [of _ _ _ "Suc pages"] Let_def split: if_splits)
  qed
qed

lemma close_listing_ok:
  assumes "close_listing ev started k l = (k', er)" and "listing_ok opts conn covs m l"
  shows "length (er_items er) \<le> nat (dop_max_client_items opts) \<and> (m \<longrightarrow> er_incomplete er)
    \<and> map cov_connection_id (er_coverages er) = map cov_connection_id covs @ [conn]
    \<and> (er_incomplete er \<or> list_all (\<lambda>c. cov_completeness c = CompletenessComplete) (er_coverages er)
         = list_all (\<lambda>c. cov_completeness c = CompletenessComplete) covs)"
  using assms by (auto simp: close_listing_def Let_def listing_ok_def split: prod.splits)

definition sources_ok :: "disc_options \<Rightarrow> evidence_result \<Rightarrow> bool" where
  "sources_ok opts er \<longleftrightarrow> length (er_items er) \<le> nat (dop_max_client_items opts)
     \<and> (er_incomplete er \<or> list_all (\<lambda>c. cov_completeness c = CompletenessComplete) (er_coverages er))"

lemma source_closed:
  assumes "close_listing ev started k l = (k', er')" and "listing_ok opts conn (er_coverages er) (er_incomplete er) l"
    and "sources_ok opts er"
  shows "sources_ok opts er' \<and> map cov_connection_id (er_coverages er') = map cov_connection_id (er_coverages er) @ [conn]"
  using close_listing_ok [OF assms(1,2)] assms(3) by (auto simp: sources_ok_def)

lemma list_sources_ok:
  "list_sources ev opts root sources k er = (k', Inr er') \<Longrightarrow> sources_ok opts er \<Longrightarrow>
     sources_ok opts er' \<and> map cov_connection_id (er_coverages er') = map cov_connection_id (er_coverages er) @ map fst sources"
proof (induction sources arbitrary: k er)
  case Nil
  then show ?case by simp
next
  case (Cons s rest)
  obtain conn b where s: "s = (conn, b)" by (cases s)
  obtain source where id: "NewRuntimeID (dv_rand ev k) = Inr source"
    using Cons.prems(1) by (auto simp: s split: sum.splits)
  obtain k1 started where t: "scanner_now ev (Suc k) = (k1, started)" by (rule prod.exhaust)
  let ?l = "(er, client_coverage source conn root started)"
  have l: "listing_ok opts conn (er_coverages er) (er_incomplete er) ?l"
    using Cons.prems(2) by (simp add: listing_ok_def sources_ok_def client_coverage_def)
  obtain k2 l2 where l2: "listing_ok opts conn (er_coverages er) (er_incomplete er) l2"
    and go: "\<exists>k3 er3. close_listing ev started k2 l2 = (k3, er3) \<and> list_sources ev opts root rest k3 er3 = (k', Inr er')"
  proof (cases "dop_max_client_items opts \<le> int (length (er_items er))")
    case True
    then show thesis
      using that [OF mark_ok [OF l], of k1] Cons.prems(1)
      by (auto simp: s id t Let_def split: prod.splits)
  next
    case False
    obtain k2 r where p: "list_pages ev opts conn (nat (dop_max_client_pages opts)) [] [[]] k1 ?l = (k2, r)"
      by (rule prod.exhaust)
    show thesis
    proof (cases r)
      case (Inl e)
      then show thesis using Cons.prems(1) False p by (simp add: s id t Let_def)
    next
      case (Inr l2)
      then show thesis
        using that [OF list_pages_ok [OF p [unfolded Inr] l], of k2] Cons.prems(1) False p
        by (auto simp: s id t Let_def split: prod.splits)
    qed
  qed
  obtain k3 er3 where c: "close_listing ev started k2 l2 = (k3, er3)"
    and w: "list_sources ev opts root rest k3 er3 = (k', Inr er')"
    using go by blast
  show ?case using Cons.IH [OF w] source_closed [OF c l2 Cons.prems(2)] by (simp add: s)
qed

lemma clientEvidence_ok:
  assumes "clientEvidence ev sc root k = (k', Inr er)"
  shows "sources_ok (sc_options sc) er \<and> map cov_connection_id (er_coverages er) = map fst (sc_sources sc)"
proof -
  obtain er0 where "list_sources ev (sc_options sc) root (sc_sources sc) k
      \<lparr>er_items = [], er_coverages = [], er_incomplete = False, er_reasons = []\<rparr> = (k', Inr er0)"
    and "er = er0\<lparr>er_reasons := uniqueReasons (er_reasons er0)\<rparr>"
    using assms by (auto simp: clientEvidence_def split: prod.splits sum.splits)
  then show ?thesis using list_sources_ok by (fastforce simp: sources_ok_def)
qed

section \<open>The end of a scan\<close>

text \<open>The observation a scan made: what its enumeration returned.\<close>

definition observed_by :: "disc_env \<Rightarrow> scanner \<Rightarrow> config_id \<Rightarrow> directory_observation \<Rightarrow> disc_error option \<Rightarrow> bool" where
  "observed_by ev sc root ob err \<longleftrightarrow>
     (\<exists>source started now k k' es c.
        enumerate ev (sc_options sc) root source started k = Some (k', es, c, err)
        \<and> ob = scan_observation ev source root now es c err)"

lemma observed_fields:
  assumes "observed_by ev sc root ob err"
  shows "dob_root_id ob = root"
    and "cov_completeness (dob_coverage ob) = CompletenessComplete \<Longrightarrow> err = None"
    and "cov_completeness (dob_coverage ob) = CompletenessComplete \<Longrightarrow>
      \<exists>source started k k' c. enumerate ev (sc_options sc) root source started k = Some (k', dob_entries ob, c, None)
        \<and> cov_completeness c = CompletenessComplete"
proof -
  obtain source started now k k' es c where e: "enumerate ev (sc_options sc) root source started k = Some (k', es, c, err)"
    and ob: "ob = scan_observation ev source root now es c err"
    using assms unfolding observed_by_def by blast
  show "dob_root_id ob = root" by (simp add: ob scan_observation_def Let_def)
  assume "cov_completeness (dob_coverage ob) = CompletenessComplete"
  then have "err = None" and "cov_completeness c = CompletenessComplete"
    by (auto simp: ob scan_observation_def scan_coverage_def Let_def split: if_splits)
  moreover have "dob_entries ob = es" by (simp add: ob scan_observation_def Let_def)
  ultimately show "err = None" and "\<exists>source started k k' c.
      enumerate ev (sc_options sc) root source started k = Some (k', dob_entries ob, c, None)
        \<and> cov_completeness c = CompletenessComplete"
    using e by blast+
qed

text \<open>How a scan that returned relates its stores: nothing was written, or one commit succeeded.\<close>

definition scan_ends ::
  "disc_env \<Rightarrow> 'st disc_store_ops \<Rightarrow> scanner \<Rightarrow> config_id \<Rightarrow> 'st \<Rightarrow> 'st \<Rightarrow> discovery_result \<Rightarrow> disc_error option \<Rightarrow> bool" where
  "scan_ends ev ops sc root db db' res err \<longleftrightarrow>
     \<not> sr_persisted res \<and> db' = db \<and> err \<noteq> None
     \<or> sr_persisted res \<and> (\<exists>ob c k k1 ds. sr_observation res = Some ob \<and> observed_by ev sc root ob err
         \<and> ds_commit ops c k ob ds db = (k1, Inr db') \<and> sr_discoveries res = ds
         \<and> (if err = None then map di_relative_path ds = group_keys (dv_library ev) (dob_entries ob) else ds = []))"

lemma identify_groups_paths:
  "identify_groups rand i k ds0 = (k', Inr ds) \<Longrightarrow> map di_relative_path ds = map di_relative_path ds0"
proof (induction ds0 arbitrary: i k ds)
  case (Cons d0 rest)
  obtain k1 r where "identified rand k d0 = (k1, r)" by (rule prod.exhaust)
  moreover from this obtain d where "r = Some d" and p: "di_relative_path d = di_relative_path d0"
    using Cons.prems identified_path by (cases r) auto
  moreover obtain k2 t where "identify_groups rand (Suc i) k1 rest = (k2, t)" by (rule prod.exhaust)
  ultimately show ?case
    using Cons by (cases t) (auto split: option.splits)
qed simp

lemma scan_groups_ends:
  assumes "scan_groups ev ops sc root ob now k db = (k', db', res, err)" and "observed_by ev sc root ob None"
  shows "scan_ends ev ops sc root db db' res err"
proof (cases "ds_discoveries ops (dv_ctx ev k) db root True")
  case (Inl e)
  then show ?thesis using assms(1) by (auto simp: scan_groups_def scan_ends_def no_result_def)
next
  case (Inr previous)
  obtain k1 er where e: "clientEvidence ev sc root (Suc k) = (k1, er)" by (rule prod.exhaust)
  show ?thesis
  proof (cases er)
    case (Inl x)
    then show ?thesis using assms(1) Inr e by (auto simp: scan_groups_def scan_ends_def no_result_def)
  next
    case er: (Inr x)
    let ?gs = "groupEntries (dv_library ev) (dv_unmarshal ev) (facts_of (sc_options sc) (dob_coverage ob) x now)
      (dob_entries ob) previous"
    obtain k2 g where f: "identify_groups (dv_rand ev) 0 k1 ?gs = (k2, g)" by (rule prod.exhaust)
    show ?thesis
    proof (cases g)
      case (Inl y)
      then show ?thesis using assms(1) Inr e er f by (auto simp: scan_groups_def scan_ends_def no_result_def)
    next
      case g: (Inr ds)
      obtain k3 r where c: "ds_commit ops (dv_ctx ev k2) (Suc k2) ob ds db = (k3, r)" by (rule prod.exhaust)
      have "map di_relative_path ds = group_keys (dv_library ev) (dob_entries ob)"
        using identify_groups_paths [OF f [unfolded g]] by (simp add: groupEntries_paths)
      moreover have "(case r of Inl x \<Rightarrow> (k3, db, no_result\<lparr>sr_observation := Some ob\<rparr>, Some (DiscPersist x))
          | Inr db1 \<Rightarrow> (k3, db1, no_result\<lparr>sr_observation := Some ob, sr_discoveries := ds, sr_persisted := True\<rparr>, None))
          = (k', db', res, err)"
        using assms(1) Inr e er f g c by (cases r) (simp_all add: scan_groups_def)
      ultimately show ?thesis
        using assms(2) c unfolding scan_ends_def no_result_def by (cases r) (auto, blast)
    qed
  qed
qed

lemma scan_commit_ends:
  assumes "scan_commit ev ops sc root ob now e k db = (k', db', res, err)" and o: "observed_by ev sc root ob e"
  shows "scan_ends ev ops sc root db db' res err"
proof (cases "DirectoryObservation_Validate ob")
  case (Some x)
  then show ?thesis using assms by (auto simp: scan_commit_def scan_ends_def no_result_def)
next
  case v: None
  show ?thesis
  proof (cases e)
    case None
    then show ?thesis using assms scan_groups_ends v by (simp add: scan_commit_def)
  next
    case (Some x)
    obtain k1 r where "ds_commit ops (dv_ctx ev k) (Suc k) ob [] db = (k1, r)" by (rule prod.exhaust)
    then show ?thesis
      using assms v Some by (cases r) (auto simp: scan_commit_def scan_ends_def no_result_def)
  qed
qed

text \<open>A scan either fails before its enumeration or is the commit of what it enumerated.\<close>

lemma Scan_cases:
  assumes "Scanner_Scan ev ops sc root k db = Some (k', db', res, err)"
  obtains (early) "res = no_result" "db' = db" "err \<noteq> None"
  | (observed) k3 ob now e where "observed_by ev sc root ob e"
      and "scan_commit ev ops sc root ob now e k3 db = (k', db', res, err)"
proof (cases "ConfigID_Valid root")
  case False
  then show ?thesis using assms early by (auto simp: Scanner_Scan_def)
next
  case valid: True
  show ?thesis
  proof (cases "dv_ctx ev k")
    case (Some c)
    then show ?thesis using assms valid early by (auto simp: Scanner_Scan_def)
  next
    case ctx: None
    obtain k1 started where t: "scanner_now ev (Suc k) = (k1, started)" by (rule prod.exhaust)
    show ?thesis
    proof (cases "NewRuntimeID (dv_rand ev k1)")
      case (Inl e)
      then show ?thesis using assms valid ctx t early by (auto simp: Scanner_Scan_def)
    next
      case (Inr source)
      obtain k2 es c e where w: "enumerate ev (sc_options sc) root source started (Suc k1) = Some (k2, es, c, e)"
        using assms valid ctx t Inr
        by (cases "enumerate ev (sc_options sc) root source started (Suc k1)") (auto simp: Scanner_Scan_def)
      obtain k3 t3 where t3: "scanner_now ev k2 = (k3, t3)" by (rule prod.exhaust)
      have "observed_by ev sc root (scan_observation ev source root (scan_time started t3) es c e) e"
        using w unfolding observed_by_def by blast
      then show ?thesis
        using assms valid ctx t Inr w t3 by (intro observed) (simp_all add: Scanner_Scan_def)
    qed
  qed
qed

lemma Scan_ends:
  assumes "Scanner_Scan ev ops sc root k db = Some (k', db', res, err)"
  shows "scan_ends ev ops sc root db db' res err"
  using assms
proof (cases rule: Scan_cases)
  case early
  then show ?thesis by (simp add: scan_ends_def no_result_def)
next
  case observed
  then show ?thesis by (intro scan_commit_ends)
qed

section \<open>Scans over a store with the contract\<close>

context observation_store
begin

text \<open>The history of the root grows by the observation reported, exactly when it was persisted.\<close>

lemma scan_history:
  assumes "scan_ends ev ops sc root db db' res err" and "ds_observations ops None db r = Inr obs"
  shows "ds_observations ops None db' r =
    Inr (if sr_persisted res \<and> r = root then obs @ [the (sr_observation res)] else obs)"
proof (cases "sr_persisted res")
  case False
  then show ?thesis using assms by (simp add: scan_ends_def)
next
  case True
  then obtain ob c k k1 ds where "sr_observation res = Some ob" and o: "observed_by ev sc root ob err"
    and m: "ds_commit ops c k ob ds db = (k1, Inr db')"
    using assms(1) by (auto simp: scan_ends_def)
  then show ?thesis
    using observations_appended [OF m assms(2)] observed_fields(1) [OF o] True by auto
qed

text \<open>A group leaves the list only after a complete enumeration without a file of that group.\<close>

lemma scan_absence:
  assumes "holds db" and "scan_ends ev ops sc root db db' res err"
    and "ds_discoveries ops None db r False = Inr old" and "ds_discoveries ops None db' r False = Inr new"
    and "p \<in> group_paths old" and "p \<notin> group_paths new"
  shows "r = root \<and> err = None \<and> (\<exists>source started k k' es c.
    enumerate ev (sc_options sc) root source started k = Some (k', es, c, None)
    \<and> cov_completeness c = CompletenessComplete \<and> p \<notin> set (group_keys (dv_library ev) es))"
proof -
  have "db' \<noteq> db" using assms(3-6) by auto
  then obtain ob c k k1 ds where o: "observed_by ev sc root ob err"
    and m: "ds_commit ops c k ob ds db = (k1, Inr db')"
    and ds: "if err = None then map di_relative_path ds = group_keys (dv_library ev) (dob_entries ob) else ds = []"
    using assms(2) by (auto simp: scan_ends_def)
  have "r = dob_root_id ob" and comp: "cov_completeness (dob_coverage ob) = CompletenessComplete"
    and p: "p \<notin> group_paths ds"
    using absence_needs_complete [OF assms(1) m assms(3-6)] by auto
  moreover have "group_paths ds = set (group_keys (dv_library ev) (dob_entries ob))"
    using ds observed_fields(2) [OF o comp] by (metis (full_types) group_paths_def list.set_map)
  ultimately show ?thesis
    using observed_fields [OF o] by metis
qed

end

end
