(* ===== verification/Disc_Properties.thy ===== *)
theory Disc_Properties
  imports Disc_Effects
begin

text \<open>
  The properties of file discovery, each with a concrete scan at which its hypotheses hold.
\<close>

section \<open>A small root\<close>

definition demo_library :: go_library where
  "demo_library = \<lparr>gl_order = insertion_order, gl_lower = ascii_lower\<rparr>"

definition demo_coverage :: "config_id \<Rightarrow> coverage" where
  "demo_coverage conn = \<lparr>cov_source_id = [], cov_connection_id = conn, cov_root_id = ''media'',
     cov_completeness = CompletenessComplete, cov_reason_codes = [], cov_observed_count = 1,
     cov_snapshot_revision = [], cov_started_at = None, cov_completed_at = None, cov_observed_at = unix_one\<rparr>"

definition demo_entry :: "string \<Rightarrow> manifest_entry_type \<Rightarrow> file_manifest_entry" where
  "demo_entry p ty = FileManifestEntry ''media'' p ty 5 [] ''inode'' (ManifestRoleOther []) unix_one []"

abbreviation demo_film :: file_manifest_entry where
  "demo_film \<equiv> demo_entry ''Film/Film.mkv'' ManifestFile"

text \<open>Two pages of the root, a directory and a file, and one page of the directory.\<close>

definition demo_files :: file_system where
  "demo_files root prefix cursor limit = Inr
     (if prefix = [] then
        (if cursor = [] then \<lparr>pg_items = [demo_entry ''Film'' ManifestDirectory], pg_next_cursor = ''2'',
                              pg_coverage = demo_coverage []\<rparr>
         else \<lparr>pg_items = [demo_entry ''Other.mkv'' ManifestFile], pg_next_cursor = [], pg_coverage = demo_coverage []\<rparr>)
      else \<lparr>pg_items = [demo_film], pg_next_cursor = [], pg_coverage = demo_coverage []\<rparr>)"

definition demo_item :: download_item where
  "demo_item = \<lparr>dn_external_id = ''42'', dn_name = ''Film'', dn_protocol = ''torrent'', dn_state = ''seeding'',
     dn_seeding = True, dn_category = [], dn_tags = [], dn_hash = [], dn_completed_at = None,
     dn_processing_done = False, dn_payload = [demo_film], dn_descriptor = None\<rparr>"

definition demo_env :: disc_env where
  "demo_env = \<lparr>dv_library = demo_library, dv_unmarshal = (\<lambda>_. None), dv_ctx = (\<lambda>_. None),
     dv_now = (\<lambda>k. unix_one + int k), dv_wall = (\<lambda>k. unix_one + int k), dv_rand = (\<lambda>_. Some (\<lambda>_. 0)),
     dv_page = (\<lambda>_. demo_files),
     dv_list = (\<lambda>_ conn cursor limit. Inr \<lparr>pg_items = [demo_item], pg_next_cursor = [], pg_coverage = demo_coverage conn\<rparr>)\<rparr>"

definition demo_options :: disc_options where
  "demo_options = default_disc_options"

definition demo_scanner :: scanner where
  "demo_scanner = \<lparr>sc_sources = [(''torrents'', True)], sc_options = demo_options\<rparr>"

lemma default_options_normal: "normalize_disc_options default_disc_options = Inr default_disc_options"
proof -
  have d: "dop_excluded_prefixes default_disc_options = [''.mastarr-trash'', ''.mastarr-staging'']"
    by (simp add: default_disc_options_def)
  have p: "check_prefixes 0 [''.mastarr-trash'', ''.mastarr-staging''] = Inr [''.mastarr-trash'', ''.mastarr-staging'']"
    by code_simp
  show ?thesis
    unfolding normalize_disc_options_def Let_def d if_cancel p sum.case
    by (simp add: or_default_def default_disc_options_def second_def)
qed

lemma demo_new: "New_scanner True True [(''torrents'', True)] default_disc_options = Inr demo_scanner"
proof -
  have s: "sources_check 0 [(''torrents'', True)] = None" by code_simp
  show ?thesis
    unfolding New_scanner_def default_options_normal sum.case s option.case not_True_eq_False if_False
      demo_scanner_def demo_options_def by (rule refl)
qed

section \<open>Options\<close>

lemma or_default_pos: "0 < d \<Longrightarrow> 0 < or_default v d"
  by (simp add: or_default_def)

lemma normalized_options:
  assumes "normalize_disc_options o0 = Inr opts"
  shows "0 < dop_max_entries opts \<and> 0 < dop_max_filesystem_pages opts \<and> 0 < dop_max_depth opts
    \<and> 0 < dop_max_client_items opts"
proof -
  have d: "0 < dop_max_entries default_disc_options" "0 < dop_max_filesystem_pages default_disc_options"
    "0 < dop_max_depth default_disc_options"
    by (simp_all add: default_disc_options_def)
  let ?ps = "if dop_excluded_prefixes o0 = [] then dop_excluded_prefixes default_disc_options
    else dop_excluded_prefixes o0"
  show ?thesis
  proof (cases "check_prefixes 0 ?ps")
    case (Inl i)
    then show ?thesis using assms unfolding normalize_disc_options_def Let_def by simp
  next
    case (Inr qs)
    have "0 < or_default (dop_max_entries o0) (dop_max_entries default_disc_options)"
      by (rule or_default_pos [OF d(1)])
    then show ?thesis
      using assms d Inr unfolding normalize_disc_options_def Let_def Inr sum.case
      by (auto simp: or_default_pos simp del: if_split)
  qed
qed

lemma new_scanner_options:
  "New_scanner f s sources o0 = Inr sc \<Longrightarrow> normalize_disc_options o0 = Inr (sc_options sc) \<and> sc_sources sc = sources"
  by (auto simp: New_scanner_def split: if_splits sum.splits option.splits)

lemma new_scanner_bounds:
  assumes "New_scanner f s sources o0 = Inr sc"
  shows "0 \<le> dop_max_entries (sc_options sc)" and "0 \<le> dop_max_filesystem_pages (sc_options sc)"
    and "0 \<le> dop_max_client_items (sc_options sc)"
  using normalized_options [of o0 "sc_options sc"] new_scanner_options [OF assms] by auto

lemma enumerate_within:
  assumes "New_scanner f s sources o0 = Inr sc"
  shows "\<exists>k' st err. enumerateDirectory ev (sc_options sc) root (nat (dop_max_depth (sc_options sc) + 1)) [] k en_start
      = Some (k', st, err) \<and> within_bounds (sc_options sc) st
      \<and> enumerate ev (sc_options sc) root source now k
        = Some (k', en_entries st, enumeration_coverage source root now st err, err)"
  using enumerate_returns [OF new_scanner_bounds(1,2) [OF assms], of ev root "nat (dop_max_depth (sc_options sc) + 1)" "[]" k]
  by (auto simp: enumerate_def)

lemma scan_returns:
  assumes "New_scanner f s sources o0 = Inr sc"
  obtains k' db' res err where "Scanner_Scan ev ops sc root k db = Some (k', db', res, err)"
proof -
  have "\<exists>x. Scanner_Scan ev ops sc root k db = Some x"
  proof (cases "ConfigID_Valid root \<and> dv_ctx ev k = None")
    case False
    then show ?thesis by (auto simp: Scanner_Scan_def)
  next
    case True
    obtain k1 started where t: "scanner_now ev (Suc k) = (k1, started)" by (rule prod.exhaust)
    show ?thesis
    proof (cases "NewRuntimeID (dv_rand ev k1)")
      case (Inl e)
      then show ?thesis using True t by (simp add: Scanner_Scan_def)
    next
      case (Inr source)
      obtain k2 es c e where "enumerate ev (sc_options sc) root source started (Suc k1) = Some (k2, es, c, e)"
        using enumerate_within [OF assms, of ev root "Suc k1" source started] by auto
      moreover obtain k3 t3 where "scanner_now ev k2 = (k3, t3)" by (rule prod.exhaust)
      ultimately show ?thesis using True t Inr by (simp add: Scanner_Scan_def) (metis prod_cases4)
    qed
  qed
  then show thesis using that by (metis prod_cases4)
qed

section \<open>Enumeration\<close>

text \<open>
  C33: The enumeration of a root ends, whatever the file system and the context answer: a scanner from
  \<open>New\<close> requests at most \<open>MaxFilesystemPages\<close> pages, keeps at most \<open>MaxEntries\<close> entries, counts them
  rightly, and keeps only entries that validate and lie outside the excluded prefixes.
\<close>

theorem enumeration_ends_within_bounds:
  assumes "New_scanner f s sources o0 = Inr sc"
  shows "\<exists>k' st err.
    enumerateDirectory ev (sc_options sc) root (nat (dop_max_depth (sc_options sc) + 1)) [] k en_start = Some (k', st, err)
    \<and> enumerate ev (sc_options sc) root source now k
        = Some (k', en_entries st, enumeration_coverage source root now st err, err)
    \<and> en_page_count st \<le> dop_max_filesystem_pages (sc_options sc)
    \<and> int (length (en_entries st)) \<le> dop_max_entries (sc_options sc)
    \<and> cov_observed_count (enumeration_coverage source root now st err) = int (length (en_entries st))
    \<and> list_all (\<lambda>e. FileManifestEntry_Validate e = None \<and> \<not> isExcluded (sc_options sc) (fm_relative_path e)) (en_entries st)"
proof -
  obtain k' st err where
    "enumerateDirectory ev (sc_options sc) root (nat (dop_max_depth (sc_options sc) + 1)) [] k en_start = Some (k', st, err)"
    and "within_bounds (sc_options sc) st"
    and "enumerate ev (sc_options sc) root source now k
        = Some (k', en_entries st, enumeration_coverage source root now st err, err)"
    using enumerate_within [OF assms, of ev root k source now] by blast
  moreover from this(2) have "cov_observed_count (enumeration_coverage source root now st err) = int (length (en_entries st))"
    by (simp add: within_bounds_def enumeration_coverage_def)
  ultimately show ?thesis unfolding within_bounds_def by auto
qed

lemma enumeration_ends_within_bounds_witness:
  "\<exists>k' st err. enumerate demo_env (sc_options demo_scanner) ''media'' [] unix_one 0
      = Some (k', en_entries st, enumeration_coverage [] ''media'' unix_one st err, err)
    \<and> int (length (en_entries st)) \<le> 10000"
proof -
  have "dop_max_entries (sc_options demo_scanner) = 10000"
    by (simp add: demo_scanner_def demo_options_def default_disc_options_def)
  then show ?thesis
    using enumeration_ends_within_bounds [OF demo_new, of demo_env "''media''" 0 "[]" unix_one] by auto
qed

text \<open>
  C15: Complete coverage is a full listing. Over a file system that does not change during the walk, an
  enumeration that reports complete coverage had no error and has kept exactly the entries the file
  system shows below the root: those on all the pages of the root and of every directory reached, less
  the excluded prefixes.
\<close>

theorem complete_coverage_lists_everything:
  assumes "New_scanner f s sources o0 = Inr sc" and "dv_page ev = (\<lambda>_. fs)"
    and "enumerate ev (sc_options sc) root source now k = Some (k', es, c, err)"
    and "cov_completeness c = CompletenessComplete"
  shows "err = None \<and> set es = {e. listed fs (sc_options sc) root [] [] e}"
  using enumerate_lists [OF new_scanner_bounds(1,2) [OF assms(1)] assms(2-4)] .

lemma demo_enumerates:
  "\<exists>k' c. enumerate demo_env (sc_options demo_scanner) ''media'' [] unix_one 0 =
      Some (k', [demo_entry ''Film'' ManifestDirectory, demo_film, demo_entry ''Other.mkv'' ManifestFile], c, None)
    \<and> cov_completeness c = CompletenessComplete"
proof -
  have "map_option (\<lambda>(k, es, c, err). (es, cov_completeness c, err))
      (enumerate demo_env (sc_options demo_scanner) ''media'' [] unix_one 0) =
      Some ([demo_entry ''Film'' ManifestDirectory, demo_film, demo_entry ''Other.mkv'' ManifestFile],
        CompletenessComplete, None)"
    by code_simp
  then show ?thesis by auto
qed

lemma complete_coverage_lists_everything_witness:
  "{e. listed demo_files (sc_options demo_scanner) ''media'' [] [] e} =
     {demo_entry ''Film'' ManifestDirectory, demo_film, demo_entry ''Other.mkv'' ManifestFile}"
proof -
  have p: "dv_page demo_env = (\<lambda>_. demo_files)" by (simp add: demo_env_def)
  obtain k' c where e: "enumerate demo_env (sc_options demo_scanner) ''media'' [] unix_one 0 =
      Some (k', [demo_entry ''Film'' ManifestDirectory, demo_film, demo_entry ''Other.mkv'' ManifestFile], c, None)"
    and c: "cov_completeness c = CompletenessComplete"
    using demo_enumerates by blast
  from complete_coverage_lists_everything [OF demo_new p e c] show ?thesis by auto
qed

end
