(* ===== verification/Disc_Safety.thy ===== *)
theory Disc_Safety
  imports Disc_Properties
begin

text \<open>
  What a scan concludes and stores: the properties of the groups, of readiness, of the current list of a
  root across a scan over \<open>MemoryStore\<close>, and of the store itself.
\<close>

section \<open>Scans and the store\<close>

definition current_paths :: "disc_memory \<Rightarrow> config_id \<Rightarrow> string set" where
  "current_paths st r = group_paths (filter di_active (ms_discoveries st r))"

text \<open>Some group of a root has a file that the file system shows.\<close>

definition file_shown :: "disc_env \<Rightarrow> file_system \<Rightarrow> disc_options \<Rightarrow> config_id \<Rightarrow> string \<Rightarrow> bool" where
  "file_shown ev fs opts root p \<longleftrightarrow>
     (\<exists>e. listed fs opts root [] [] e \<and> fm_type e \<noteq> ManifestDirectory
        \<and> groupKey (dv_library ev) (fm_relative_path e) = p)"

lemma shown_in_group_keys:
  assumes "set es = {e. listed fs opts root [] [] e}"
  shows "p \<in> set (group_keys (dv_library ev) es) \<longleftrightarrow> file_shown ev fs opts root p"
  using assms by (auto simp: group_keys_facts grouped_entries_def file_shown_def)

text \<open>
  C32: A scan returns, and writes at most one observation. The history of the scanned root grows by the
  observation the result reports exactly when the result says it was persisted, the history of every
  other root stays, and a scan that persisted nothing leaves the store as it was and reports an error.
\<close>

theorem scan_writes_one_observation:
  assumes "New_scanner f s sources o0 = Inr sc"
  shows "\<exists>k' db' res err. Scanner_Scan ev (memory_ops rand) sc root k db = Some (k', db', res, err)
    \<and> ms_observations db' =
        (if sr_persisted res
         then (ms_observations db)(root := ms_observations db root @ [the (sr_observation res)])
         else ms_observations db)
    \<and> (sr_persisted res \<or> db' = db \<and> err \<noteq> None)"
proof -
  obtain k' db' res err where r: "Scanner_Scan ev (memory_ops rand) sc root k db = Some (k', db', res, err)"
    by (rule scan_returns [OF assms])
  note e = Scan_ends [OF r]
  have "ms_observations db' r =
      (if sr_persisted res \<and> r = root then ms_observations db r @ [the (sr_observation res)] else ms_observations db r)" for r
    using mem.scan_history [OF e, of r "ms_observations db r"]
    by (simp add: memory_ops_def MemoryStore_ListDirectoryObservations_def)
  then have "ms_observations db' =
        (if sr_persisted res
         then (ms_observations db)(root := ms_observations db root @ [the (sr_observation res)])
         else ms_observations db)"
    by (auto simp: fun_eq_iff)
  with r e show ?thesis by (auto simp: scan_ends_def)
qed

lemma scan_writes_one_observation_witness:
  "\<exists>k' db' res err. Scanner_Scan demo_env (memory_ops (\<lambda>_. None)) demo_scanner ''media'' 0 NewMemoryStore = Some (k', db', res, err)
    \<and> (sr_persisted res \<or> db' = NewMemoryStore \<and> err \<noteq> None)"
  using scan_writes_one_observation [OF demo_new, of demo_env "\<lambda>_. None" "''media''" 0 NewMemoryStore] by blast

text \<open>
  C14: Absence is observed, never assumed. Over a file system that does not change during the walk, a
  group leaves the current list of a root across a scan only if it was that root which was scanned, the
  scan had no error, and no file that the file system shows belongs to the group.
\<close>

theorem absence_is_observed:
  assumes sc: "New_scanner f s sources o0 = Inr sc" and fs: "dv_page ev = (\<lambda>_. fs)" and "one_per_path db"
  shows "\<exists>k' db' res err. Scanner_Scan ev (memory_ops rand) sc root k db = Some (k', db', res, err)
    \<and> current_paths db r - current_paths db' r \<subseteq>
        (if r = root \<and> err = None then {p. \<not> file_shown ev fs (sc_options sc) root p} else {})"
proof -
  obtain k' db' res err where scan: "Scanner_Scan ev (memory_ops rand) sc root k db = Some (k', db', res, err)"
    by (rule scan_returns [OF sc])
  have "r = root \<and> err = None \<and> \<not> file_shown ev fs (sc_options sc) root p"
    if "p \<in> current_paths db r" "p \<notin> current_paths db' r" for p
  proof -
    let ?listed = "\<lambda>st. sort_key (\<lambda>d. (- di_last_seen_at d, di_relative_path d)) (filter di_active (ms_discoveries st r))"
    have "ds_discoveries (memory_ops rand) None st r False = Inr (?listed st)" for st
      by (simp add: memory_ops_def MemoryStore_ListDiscoveries_def)
    from mem.scan_absence [OF assms(3) Scan_ends [OF scan] this this] that
    obtain source started k1 k2 es c where r: "r = root" "err = None"
      and e: "enumerate ev (sc_options sc) root source started k1 = Some (k2, es, c, None)"
      and c: "cov_completeness c = CompletenessComplete" and p: "p \<notin> set (group_keys (dv_library ev) es)"
      unfolding current_paths_def group_paths_sort by blast
    have "set es = {e. listed fs (sc_options sc) root [] [] e}"
      using enumerate_lists [OF new_scanner_bounds(1,2) [OF sc] fs e c] by simp
    with p r show ?thesis by (simp add: shown_in_group_keys)
  qed
  with scan show ?thesis by fastforce
qed

text \<open>A store that holds one group.\<close>

definition demo_store :: disc_memory where
  "demo_store = \<lparr>ms_observations = (\<lambda>_. []), ms_discoveries = (\<lambda>r. if r = ''media''
     then [zero_discovery\<lparr>di_relative_path := ''Gone'', di_active := True\<rparr>] else [])\<rparr>"

lemma absence_is_observed_witness:
  "\<exists>k' db' res err. Scanner_Scan demo_env (memory_ops (\<lambda>_. None)) demo_scanner ''media'' 0 demo_store = Some (k', db', res, err)
    \<and> {''Gone''} - current_paths db' ''media'' \<subseteq>
        (if err = None then {p. \<not> file_shown demo_env demo_files (sc_options demo_scanner) ''media'' p} else {})"
proof -
  have "dv_page demo_env = (\<lambda>_. demo_files)" by (simp add: demo_env_def)
  moreover have "one_per_path demo_store" by (simp add: one_per_path_def demo_store_def)
  moreover have "current_paths demo_store ''media'' = {''Gone''}"
    by (simp add: current_paths_def demo_store_def)
  ultimately show ?thesis
    using absence_is_observed [OF demo_new, of demo_env demo_files demo_store "\<lambda>_. None" "''media''" 0 "''media''"]
    by simp
qed

lemma children_check_iff:
  "children_check i cs = None \<longleftrightarrow>
     (\<forall>c \<in> set cs. ValidateRelativePath (uc_relative_path c) = None \<and> \<not> blank (uc_reason c))"
  by (induction cs arbitrary: i) (auto split: option.splits)

lemma observation_children:
  assumes "DirectoryObservation_Validate ob = None"
  shows "children_check 0 (dob_unsupported_children ob) = None"
  using assms unfolding DirectoryObservation_Validate_def by (auto split: if_splits option.splits)

lemma first_children_key:
  "ev \<in> set evs \<Longrightarrow> child_key ev \<notin> set seen \<Longrightarrow> \<exists>ev' \<in> set (first_children seen evs). child_key ev' = child_key ev"
proof (induction evs arbitrary: seen)
  case (Cons x evs)
  show ?case
  proof (cases "child_key x = child_key ev")
    case True
    then show ?thesis using Cons.prems(2) by simp
  next
    case False
    then have m: "ev \<in> set evs" using Cons.prems(1) by auto
    show ?thesis
      using Cons.IH [OF m, of seen] Cons.IH [OF m, of "child_key x # seen"] Cons.prems(2) False by auto
  qed
qed simp

lemma child_key_inj:
  assumes "child_key a = child_key b" and "CHR 0x00 \<notin> set (uc_relative_path b)" and "CHR 0x00 \<notin> set (uc_reason b)"
  shows "a = b"
  using assms by (cases a; cases b) (auto simp: child_key_def append_eq_append_conv2 Cons_eq_append_conv append_eq_Cons_conv)

lemma unsupported_listed:
  assumes "orders_slices (gl_order L)" and "ParseUnsupportedChildReasonCode U reason = Some child"
    and "CHR 0x00 \<notin> set (uc_relative_path child)" and "CHR 0x00 \<notin> set (uc_reason child)"
    and "reason \<in> set reasons"
  shows "child \<in> set (unsupportedChildren L U reasons)"
proof -
  have "child \<in> set (List.map_filter (ParseUnsupportedChildReasonCode U) reasons)"
    using assms(2,5) by (force simp: List.map_filter_def)
  then obtain c where "c \<in> set (first_children [] (List.map_filter (ParseUnsupportedChildReasonCode U) reasons))"
    and "child_key c = child_key child"
    using first_children_key [of child _ "[]"] by auto
  moreover from this(2) have "c = child" by (rule child_key_inj [OF _ assms(3,4)])
  ultimately show ?thesis by (simp add: unsupportedChildren_def slice_sort.set_sort [OF orders_slicesD [OF assms(1)]])
qed

text \<open>A decoder that finds the name \<^verbatim>\<open>a\b\<close> in its text.\<close>

definition slash_child :: child_evidence where
  "slash_child = \<lparr>uc_relative_path = [CHR ''a'', CHR 0x5C, CHR ''b''], uc_reason = ''invalid_name''\<rparr>"

definition slash_env :: disc_env where
  "slash_env = demo_env\<lparr>dv_unmarshal := (\<lambda>_. Some slash_child)\<rparr>"

text \<open>
  Nothing goes on after an unsupported name. A child reported as unsupported under a name that is no
  canonical relative path, such as one with a backslash, makes the observation of the whole root
  invalid: the scan fails, and neither the other files nor the evidence itself is stored.
\<close>

theorem unsupported_name_fails_the_scan:
  assumes "reason \<in> set (cov_reason_codes c)"
    and "ParseUnsupportedChildReasonCode (dv_unmarshal ev) reason = Some child"
    and "ValidateRelativePath (uc_relative_path child) \<noteq> None"
    and "CHR 0x00 \<notin> set (uc_relative_path child)" and "CHR 0x00 \<notin> set (uc_reason child)"
    and "orders_slices (gl_order (dv_library ev))"
  shows "\<exists>e. scan_commit ev ops sc root (scan_observation ev source root now es c err) now err k db
    = (k, db, no_result, Some (DiscObservation e))"
proof -
  let ?ob = "scan_observation ev source root now es c err"
  have "reason \<in> set (cov_reason_codes (dob_coverage ?ob))"
    using assms(1) by (auto simp: scan_observation_def scan_coverage_def Let_def appendUnique_def append_new_def)
  then have "child \<in> set (dob_unsupported_children ?ob)"
    using unsupported_listed [OF assms(6,2,4,5)] by (simp add: scan_observation_def Let_def)
  then have "children_check 0 (dob_unsupported_children ?ob) \<noteq> None"
    using assms(3) by (auto simp: children_check_iff)
  then obtain e where "DirectoryObservation_Validate ?ob = Some e"
    using observation_children by fastforce
  then show ?thesis by (simp add: scan_commit_def)
qed

lemma unsupported_name_fails_the_scan_witness:
  "\<exists>e. scan_commit slash_env (memory_ops (\<lambda>_. None)) demo_scanner ''media''
       (scan_observation slash_env [] ''media'' unix_one []
          ((demo_coverage [])\<lparr>cov_reason_codes := [''unsupported_child:evidence'']\<rparr>) None) unix_one None 0 NewMemoryStore
    = (0, NewMemoryStore, no_result, Some (DiscObservation e))"
proof (rule unsupported_name_fails_the_scan)
  show "ParseUnsupportedChildReasonCode (dv_unmarshal slash_env) ''unsupported_child:evidence'' = Some slash_child"
    by code_simp
  show "ValidateRelativePath (uc_relative_path slash_child) \<noteq> None" by code_simp
  show "orders_slices (gl_order (dv_library slash_env))"
    by (simp add: slash_env_def demo_env_def demo_library_def)
qed (simp_all add: slash_child_def)

end
