(* ===== verification/Disc_Groups.thy ===== *)
theory Disc_Groups
  imports Disc_Properties
begin

text \<open>
  What a group says of its files: the partition into groups, the completion and the readiness read off the
  evidence, what a vanished file does to a group, and what a store keeps of a group.
\<close>

section \<open>The groups of a scan\<close>


text \<open>
  C34: The completion of a group is that of its least advanced item. Over the items that touch the group,
  each item key once and items without id and hash left out, the loop of \<open>correlateClient\<close> with
  \<open>mergeCompletion\<close> gives one provenance for each, unknown if there is no item or one is unknown, else
  downloading before processing before complete, and a connection only if it is the same for all.
\<close>

theorem completion_is_the_least_advanced:
  "(let items = group_items root key files sis; states = map (\<lambda>si. completionState L (snd si)) items;
        (prov, c) = correlateClient L root key files sis now
    in prov = map (item_provenance root files) items
       \<and> cc_items c = map (item_observation L) items
       \<and> cc_state c = overall states
       \<and> cc_unknown_item c = (ClientCompletionUnknown \<in> set states)
       \<and> cc_connection_id c = one_connection (map fst items)
       \<and> cc_known c = (items \<noteq> []))"
proof -
  let ?items = "group_items root key files sis"
  have a: "aggregates (map (item_observation L) ?items) (snd (correlateClient L root key files sis now))"
    by (rule correlateClient_aggregates)
  have "fst (correlateClient L root key files sis now) = map (item_provenance root files) ?items"
    by (simp add: correlateClient_eq)
  then show ?thesis
    using a by (auto simp: Let_def aggregates_def item_observation_def o_def split: prod.splits)
qed

text \<open>
  Two readings of names that a user may not expect. The third part of the episode patterns accepts any
  number after any separator, so a resolution after the episode becomes a second episode, with exact
  confidence. The prefix of the keys of root files is a legal directory name, so the files of such a
  directory share the group of a root file.
\<close>

lemma resolution_read_as_an_episode:
  "ma_episode_numbers (associationFor ''Show/Show.S01E02.1080p.mkv'') = [2, 1080]
   \<and> ma_confidence (associationFor ''Show/Show.S01E02.1080p.mkv'') = ConfidenceExact"
  by code_simp

lemma directory_shares_a_file_key:
  "groupKey demo_library ''file:Film/Film.nfo'' = groupKey demo_library ''Film.mkv''"
  by code_simp

section \<open>Readiness\<close>

lemma classified_video:
  "fst (classifyFiles L files) \<noteq> [] \<Longrightarrow> list_ex (\<lambda>e. fileClass L (fm_relative_path e) = VideoFile) files"
  by (auto simp: classifyFiles_def Let_def filter_empty_conv list_ex_iff)

text \<open>
  C13: A group is ready only on full evidence. When a scan calls a group ready, the enumeration was
  complete, every download client was listed completely, the group has a video, at least one client item
  touches it and each such item is complete, and every file of the group was seen before with the same
  fingerprint at least the minimum spacing earlier, with no file of the earlier observation missing.
\<close>

theorem ready_is_proved:
  assumes "d \<in> set (groupEntries L U sf entries previous)" and "di_readiness d = ReadinessReady"
  shows "cov_completeness (sf_coverage sf) = CompletenessComplete
    \<and> \<not> sf_client_incomplete sf \<and> clientCoverageComplete (sf_client_coverages sf)
    \<and> list_ex (\<lambda>e. fileClass L (fm_relative_path e) = VideoFile) (di_files d)
    \<and> (let items = group_items (di_root_id d) (di_relative_path d) (di_files d) (sf_client_items sf) in
         items \<noteq> [] \<and> list_all (\<lambda>si. completionState L (snd si) = ClientCompletionComplete) items)
    \<and> (let seen = st_files (di_stability (prior_group previous (di_relative_path d))) in
         list_all (unchanged_since seen (sf_spacing sf) (sf_now sf)) (di_files d)
         \<and> list_all (\<lambda>p. fs_path p \<in> set (map fm_relative_path (di_files d))) seen)"
proof -
  obtain key where "d = buildDiscovery L U sf key (group_files L entries key) (prior_group previous key)"
    using assms(1) by (rule groupEntries_member)
  define files where "files = group_files L entries key"
  define prior where "prior = prior_group previous key"
  have d: "d = buildDiscovery L U sf key files prior"
    by (simp add: files_def prior_def \<open>d = _\<close>)
  let ?root = "fm_root_id (hd files)"
  let ?c = "snd (correlateClient L ?root key files (sf_client_items sf) (sf_now sf))"
  have r: "readinessFor (bare_discovery L U sf key files prior) = ReadinessReady"
    using assms(2) by (simp add: d)
  then have v: "fst (classifyFiles L files) \<noteq> []" and c: "cc_state (guarded_completion sf ?c) = ClientCompletionComplete"
    and st: "st_state (stabilityFor files (di_stability prior) (sf_spacing sf) (sf_now sf)) = StabilityStable"
    and cov: "cov_completeness (sf_coverage sf) = CompletenessComplete"
    by (simp_all add: ready_iff)
  have "overall (map ci_state (map (item_observation L) (group_items ?root key files (sf_client_items sf)))) = ClientCompletionComplete"
    using c correlateClient_aggregates [of L ?root key files "sf_client_items sf" "sf_now sf"]
    by (simp add: guarded_complete aggregates_def)
  note items = overall_complete [OF this]
  show ?thesis
    using cov c items classified_video [OF v] stable_means_settled [OF st]
    by (simp add: d Let_def guarded_complete list_all_iff prior_def [symmetric])
qed

definition ready_facts :: scan_facts where
  "ready_facts = \<lparr>sf_coverage = demo_coverage [], sf_client_items = [(''torrents'', demo_item)],
     sf_client_incomplete = False, sf_client_reasons = [], sf_client_coverages = [demo_coverage ''torrents''],
     sf_spacing = 30 * second, sf_now = unix_one + 60 * second\<rparr>"

definition film_before :: discovery where
  "film_before = zero_discovery\<lparr>di_relative_path := ''Film'',
     di_stability := stabilityFor [demo_film] zero_stability (30 * second) unix_one\<rparr>"

lemma demo_film_fields [simp]:
  "fm_relative_path demo_film = ''Film/Film.mkv''" "fm_root_id demo_film = ''media''"
  "fm_file_identity demo_film = ''inode''" "fm_type demo_film = ManifestFile"
  by (simp_all add: demo_entry_def)

lemma film_was_seen: "st_files (di_stability film_before) = [first_sight demo_film unix_one]"
proof -
  have "\<not> blank ''inode''" by code_simp
  then show ?thesis
    by (simp add: film_before_def stabilityFor_def Let_def file_stability_of_def last_with_def zero_stability_def
        missing_files_def)
qed

lemma film_is_stable:
  "st_state (stabilityFor [demo_film] (di_stability film_before) (30 * second) (unix_one + 60 * second)) = StabilityStable"
proof -
  have "\<not> blank ''inode''" by code_simp
  moreover have "30 * second \<le> time_sub (unix_one + 60 * second) unix_one" by (simp add: time_sub_def second_def)
  ultimately show ?thesis
    by (simp add: stabilityFor_def Let_def film_was_seen file_stability_of_def last_with_def first_sight_def
        missing_files_def stability_total_def absorb_stability_def)
qed

lemma film_is_ready:
  "\<exists>d. groupEntries demo_library (\<lambda>_. None) ready_facts [demo_film] [film_before] = [d]
    \<and> di_relative_path d = ''Film'' \<and> di_files d = [demo_film] \<and> di_readiness d = ReadinessReady"
proof -
  have keys: "group_keys demo_library [demo_film] = [''Film'']" by code_simp
  have files: "group_files demo_library [demo_film] ''Film'' = [demo_film]" by code_simp
  have prior: "prior_group [film_before] ''Film'' = film_before"
    by (simp add: prior_group_def last_with_def film_before_def)
  have videos: "fst (classifyFiles demo_library [demo_film]) \<noteq> []" by code_simp
  have "cc_state (snd (correlateClient demo_library ''media'' ''Film'' [demo_film] [(''torrents'', demo_item)]
      (unix_one + 60 * second))) = ClientCompletionComplete"
    by code_simp
  then have "readinessFor (bare_discovery demo_library (\<lambda>_. None) ready_facts ''Film'' [demo_film] film_before) = ReadinessReady"
    using videos film_is_stable
    by (simp add: ready_iff guarded_complete ready_facts_def clientCoverageComplete_def demo_coverage_def)
  then show ?thesis by (simp add: groupEntries_def keys files prior)
qed

lemma ready_is_proved_witness:
  "\<exists>d :: discovery. di_readiness d = ReadinessReady \<and> di_files d = [demo_film]
    \<and> group_items (di_root_id d) ''Film'' [demo_film] [(''torrents'', demo_item)] \<noteq> []
    \<and> unchanged_since (st_files (di_stability film_before)) (30 * second) (unix_one + 60 * second) demo_film"
proof -
  obtain d where d: "groupEntries demo_library (\<lambda>_. None) ready_facts [demo_film] [film_before] = [d]"
    "di_relative_path d = ''Film''" "di_files d = [demo_film]" "di_readiness d = ReadinessReady"
    using film_is_ready by blast
  have "d \<in> set (groupEntries demo_library (\<lambda>_. None) ready_facts [demo_film] [film_before])" by (simp add: d(1))
  moreover have "prior_group [film_before] ''Film'' = film_before"
    by (simp add: prior_group_def last_with_def film_before_def)
  ultimately have "group_items (di_root_id d) ''Film'' [demo_film] [(''torrents'', demo_item)] \<noteq> []
    \<and> unchanged_since (st_files (di_stability film_before)) (30 * second) (unix_one + 60 * second) demo_film"
    using ready_is_proved [of d demo_library "\<lambda>_. None" ready_facts "[demo_film]" "[film_before]"] d
    by (simp add: Let_def ready_facts_def)
  with d show ?thesis by blast
qed

text \<open>
  C40: A group never settles after one of its files has vanished. As long as the scans find the same
  files and the file of an earlier observation is not among them, the group stays changing, however many
  scans are made and however far apart they are, and it cannot become ready.
\<close>

theorem vanished_file_never_settles:
  assumes "files \<noteq> []" and "misses files prior" and "nows \<noteq> []"
  shows "st_state (rescans files spacing prior nows) = StabilityChanging
    \<and> readinessFor (d\<lparr>di_stability := rescans files spacing prior nows\<rparr>) \<noteq> ReadinessReady"
proof -
  obtain before now where n: "nows = before @ [now]" using assms(3) by (metis append_butlast_last_id)
  have "rescans files spacing prior (before @ [now])
      = stabilityFor files (rescans files spacing prior before) spacing now" for prior before
    by (induction before arbitrary: prior) simp_all
  then have "st_state (rescans files spacing prior nows) = StabilityChanging"
    using misses_again [OF assms(1) misses_for_ever [OF assms(1,2)]] n by simp
  then show ?thesis by (simp add: ready_iff)
qed

lemma vanished_file_never_settles_witness:
  "st_state (rescans [demo_entry ''Film/Film.nfo'' ManifestFile] second (di_stability film_before)
     [unix_one + second, unix_one + 10000 * second]) = StabilityChanging"
proof -
  have "misses [demo_entry ''Film/Film.nfo'' ManifestFile] (di_stability film_before)"
    by (simp add: misses_def film_was_seen first_sight_def demo_entry_def)
  from vanished_file_never_settles [OF _ this, of "[unix_one + second, unix_one + 10000 * second]" second film_before]
  show ?thesis by simp
qed

section \<open>Clients\<close>

text \<open>
  The listings of the download clients are bounded and honest. A scanner from \<open>New\<close> holds at most
  \<open>MaxClientItems\<close> items, reports one coverage for each source in their order, and unless it marks the
  evidence incomplete every one of them is complete.
\<close>

theorem client_listings_are_bounded:
  assumes "New_scanner f s sources o0 = Inr sc" and "clientEvidence ev sc root k = (k', Inr er)"
  shows "int (length (er_items er)) \<le> dop_max_client_items (sc_options sc)
    \<and> map cov_connection_id (er_coverages er) = map fst sources
    \<and> (er_incomplete er \<or> list_all (\<lambda>c. cov_completeness c = CompletenessComplete) (er_coverages er))"
  using clientEvidence_ok [OF assms(2)] new_scanner_bounds(3) [OF assms(1)] new_scanner_options [OF assms(1)]
  by (auto simp: sources_ok_def)

lemma client_listings_are_bounded_witness:
  "\<exists>k' er. clientEvidence demo_env demo_scanner ''media'' 0 = (k', Inr er) \<and> er_items er = [(''torrents'', demo_item)]
    \<and> map cov_connection_id (er_coverages er) = [''torrents'']"
proof -
  have "map_sum id er_items (snd (clientEvidence demo_env demo_scanner ''media'' 0)) = Inr [(''torrents'', demo_item)]"
    by code_simp
  then obtain k' er where er: "clientEvidence demo_env demo_scanner ''media'' 0 = (k', Inr er)"
    and "er_items er = [(''torrents'', demo_item)]"
    by (cases "clientEvidence demo_env demo_scanner ''media'' 0"; cases "snd (clientEvidence demo_env demo_scanner ''media'' 0)") auto
  with client_listings_are_bounded [OF demo_new er] show ?thesis by auto
qed

section \<open>What a store keeps of a group\<close>

definition keeps_group :: "discovery \<Rightarrow> discovery \<Rightarrow> bool" where
  "keeps_group g g' \<longleftrightarrow> di_relative_path g' = di_relative_path g \<and> di_id g' = di_id g
     \<and> (\<not> time_is_zero (di_first_seen_at g) \<longrightarrow>
          \<not> time_is_zero (di_first_seen_at g') \<and> di_first_seen_at g' \<le> di_first_seen_at g)"

lemma keeps_group_refl: "keeps_group g g"
  by (simp add: keeps_group_def)

lemma keeps_group_trans: "keeps_group a b \<Longrightarrow> keeps_group b c \<Longrightarrow> keeps_group a c"
  by (auto simp: keeps_group_def)

lemma keeps_merged:
  assumes "\<not> time_is_zero (dob_observed_at ob)" and "di_relative_path g = di_relative_path d"
  shows "keeps_group g (seen_now ob (d\<lparr>di_id := di_id g, di_first_seen_at := known_since ob g\<rparr>))"
  using assms by (auto simp: keeps_group_def seen_now_def known_since_def)

lemma upsert_keeps:
  assumes "\<not> time_is_zero (dob_observed_at ob)" and "g \<in> set gs"
  shows "\<exists>g' \<in> set (upsert ob d gs). keeps_group g g'"
  using assms(2)
proof (induction gs)
  case (Cons x gs)
  then show ?case using keeps_merged [OF assms(1), of x d] keeps_group_refl by fastforce
qed simp

lemma upserts_keep:
  assumes "\<not> time_is_zero (dob_observed_at ob)"
  shows "g \<in> set gs \<Longrightarrow> \<exists>g' \<in> set (fold (upsert ob) ds gs). keeps_group g g'"
proof (induction ds arbitrary: g gs)
  case (Cons d ds)
  obtain g1 where "g1 \<in> set (upsert ob d gs)" "keeps_group g g1"
    using upsert_keeps [OF assms Cons.prems] by blast
  moreover from Cons.IH [OF this(1)] obtain g2 where "g2 \<in> set (fold (upsert ob) ds (upsert ob d gs))" "keeps_group g1 g2"
    by blast
  ultimately show ?case using keeps_group_trans by auto
qed (use keeps_group_refl in auto)

lemma applied_keeps:
  assumes "\<not> time_is_zero (dob_observed_at ob)" and "g \<in> set gs"
  shows "\<exists>g' \<in> set (applied ob ds gs). keeps_group g g'"
proof -
  obtain g1 where g1: "g1 \<in> set (fold (upsert ob) ds gs)" "keeps_group g g1"
    using upserts_keep [OF assms] by blast
  have "keeps_group x (retire x)" for x by (simp add: keeps_group_def retire_def)
  then have "keeps_group g1 (if di_relative_path g1 \<in> set (map di_relative_path ds) \<or> \<not> di_active g1 then g1 else retire g1)"
    using keeps_group_refl by simp
  then have "\<exists>g2 \<in> set (retire_unseen ds (fold (upsert ob) ds gs)). keeps_group g1 g2"
    using g1(1) unfolding retire_unseen_def set_map by blast
  then show ?thesis using g1 keeps_group_trans by (auto simp: applied_def Let_def)
qed

text \<open>
  C35: A store never forgets a group. After a commit every group the store held is still there under its
  path and with its id, first seen no later than before, every path has one group, and the groups of the
  other roots are untouched.
\<close>

theorem groups_keep_their_identity:
  assumes "one_per_path st" and "MemoryStore_Commit rand c k ob ds st = (k', Inr st')"
  shows "one_per_path st'
    \<and> list_all (\<lambda>g. list_ex (keeps_group g) (ms_discoveries st' r)) (ms_discoveries st r)
    \<and> (r = dob_root_id ob \<or> ms_discoveries st' r = ms_discoveries st r)"
proof -
  have "DirectoryObservation_Validate ob = None" by (rule MemoryStore_CommitD(2) [OF assms(2)])
  then have t: "\<not> time_is_zero (dob_observed_at ob)"
    unfolding DirectoryObservation_Validate_def by (auto split: if_splits option.splits)
  obtain es where d: "ms_discoveries st' =
      (ms_discoveries st)(dob_root_id ob := applied ob es (ms_discoveries st (dob_root_id ob)))"
    using MemoryStore_CommitD(3) [OF assms(2)] by blast
  have "list_all (\<lambda>g. list_ex (keeps_group g) (ms_discoveries st' r)) (ms_discoveries st r)"
  proof (cases "r = dob_root_id ob")
    case True
    then show ?thesis using applied_keeps [OF t] by (simp add: d list_all_iff list_ex_iff)
  next
    case False
    then show ?thesis using keeps_group_refl by (auto simp: d list_all_iff list_ex_iff)
  qed
  moreover have "one_per_path st'" using assms(1) by (auto simp: one_per_path_def d applied_distinct)
  ultimately show ?thesis by (auto simp: d)
qed

definition empty_observation :: directory_observation where
  "empty_observation = \<lparr>dob_id = uuid_format (\<lambda>_. 0), dob_root_id = ''media'', dob_relative_prefix = [],
     dob_entries = [], dob_coverage = demo_coverage [], dob_unsupported_children = [],
     dob_observed_at = unix_one, dob_first_seen_at = unix_one, dob_last_seen_at = unix_one,
     dob_manifest_revision = []\<rparr>"

definition film_store :: disc_memory where
  "film_store = \<lparr>ms_observations = (\<lambda>_. []), ms_discoveries = (\<lambda>_. [film_before\<lparr>di_active := True\<rparr>])\<rparr>"

lemma groups_keep_their_identity_witness:
  "\<exists>k' st'. MemoryStore_Commit (\<lambda>_. None) None 0 empty_observation [] film_store = (k', Inr st')
    \<and> list_ex (keeps_group (film_before\<lparr>di_active := True\<rparr>)) (ms_discoveries st' ''media'')"
proof -
  have "DirectoryObservation_Validate empty_observation = None" by code_simp
  then obtain st' where s: "MemoryStore_Commit (\<lambda>_. None) None 0 empty_observation [] film_store = (0, Inr st')"
    by (simp add: MemoryStore_Commit_def Let_def)
  moreover have "one_per_path film_store" by (simp add: one_per_path_def film_store_def)
  ultimately show ?thesis
    using groups_keep_their_identity [of film_store "\<lambda>_. None" None 0 empty_observation "[]" 0 st' "''media''"]
    by (simp add: film_store_def)
qed

end
