(* ===== verification/Path_Mapping.thy ===== *)
theory Path_Mapping
  imports Configuration Go_Library
begin

text \<open>
  Path mappings (\<^verbatim>\<open>internal/filesystem/observe/mapping.go\<close>): the translation between the namespace of
  an upstream service and the root-relative paths of a configured root, and the choice of the mapping of
  a path. The prefixes of a mapping are compared by whole components.
\<close>

section \<open>Canonical namespace paths\<close>

datatype mapping_error =
    MappingReferences | NamespaceInvalid | NamespaceNotCanonical | NamespaceEscape
  | DestinationNotRelative | PrefixMismatch | RootNotMapped | NoSourcePath | MapsToRoot
  | MappedTarget target_error | SelectConnection | SelectAmbiguous | SelectNone

definition validateMapping :: "path_mapping \<Rightarrow> mapping_error option" where
  "validateMapping m =
     (if \<not> ConfigID_Valid (pm_id m) \<or> \<not> ConfigID_Valid (pm_connection_id m) \<or> \<not> ConfigID_Valid (pm_root_id m)
      then Some MappingReferences else None)"

definition cleanNamespacePath :: "string \<Rightarrow> mapping_error + string" where
  "cleanNamespacePath v =
     (if v = [] \<or> CHR 0x00 \<in> set v \<or> CHR 0x5C \<in> set v then Inl NamespaceInvalid
      else
        let clean = path_clean v in
        if clean = ''.'' \<or> clean \<noteq> v then Inl NamespaceNotCanonical
        else if clean = ''/'' then Inr clean
        else if \<not> has_prefix ''/'' v then
          (case ValidateRelativePath clean of Some _ \<Rightarrow> Inl NamespaceEscape | None \<Rightarrow> Inr clean)
        else if list_ex unsafe_component (split_on slash (trim_prefix ''/'' clean)) then Inl NamespaceEscape
        else Inr clean)"

definition cleanSourcePrefix :: "string \<Rightarrow> mapping_error + string" where
  "cleanSourcePrefix v = (if v = [] then Inr [] else cleanNamespacePath v)"

definition cleanDestinationPrefix :: "string \<Rightarrow> mapping_error + string" where
  "cleanDestinationPrefix v =
     (if v = [] then Inr []
      else if has_prefix ''/'' v then Inl DestinationNotRelative
      else cleanNamespacePath v)"

definition namespaceHasPrefix :: "string \<Rightarrow> string \<Rightarrow> bool" where
  "namespaceHasPrefix v prefix =
     (if prefix = [] then True
      else if prefix = ''/'' then has_prefix ''/'' v
      else v = prefix \<or> has_prefix (prefix @ ''/'') v)"

definition namespaceComponentCount :: "string \<Rightarrow> nat" where
  "namespaceComponentCount v =
     (let t = trim_chars ''/'' v in if t = [] then 0 else length (split_on slash t))"

section \<open>Translation\<close>

text \<open>What is left of a path after a prefix, without the slash between them.\<close>

definition suffix_after :: "string \<Rightarrow> string \<Rightarrow> string" where
  "suffix_after v prefix = trim_prefix ''/'' (trim_prefix prefix v)"

definition join_destination :: "string \<Rightarrow> string \<Rightarrow> string" where
  "join_destination destination suffix =
     (if suffix = [] then destination
      else (if destination \<noteq> [] then destination @ ''/'' else destination) @ suffix)"

definition join_source :: "string \<Rightarrow> string \<Rightarrow> string" where
  "join_source source suffix =
     (if suffix = [] then source
      else if source = [] \<or> source = ''/'' then ''/'' @ suffix
      else source @ ''/'' @ suffix)"

definition MapExternalPath :: "path_mapping \<Rightarrow> string \<Rightarrow> mapping_error + file_target" where
  "MapExternalPath m externalPath =
     (case validateMapping m of
        Some e \<Rightarrow> Inl e
      | None \<Rightarrow>
      (case cleanNamespacePath externalPath of
         Inl e \<Rightarrow> Inl e
       | Inr external \<Rightarrow>
       (case cleanSourcePrefix (pm_source_prefix m) of
          Inl e \<Rightarrow> Inl e
        | Inr source \<Rightarrow>
        (case cleanDestinationPrefix (pm_destination_prefix m) of
           Inl e \<Rightarrow> Inl e
         | Inr destination \<Rightarrow>
             if \<not> namespaceHasPrefix external source then Inl PrefixMismatch
             else
               let relative = join_destination destination (suffix_after external source);
                   target = \<lparr>ft_root_id = pm_root_id m, ft_relative_path = relative\<rparr>
               in case FileTarget_Validate target of
                    Some e \<Rightarrow> Inl (if relative = [] then MapsToRoot else MappedTarget e)
                  | None \<Rightarrow> Inr target))))"

definition MapRootPath :: "path_mapping \<Rightarrow> file_target \<Rightarrow> mapping_error + string" where
  "MapRootPath m target =
     (case validateMapping m of
        Some e \<Rightarrow> Inl e
      | None \<Rightarrow>
      (case FileTarget_Validate target of
         Some e \<Rightarrow> Inl (MappedTarget e)
       | None \<Rightarrow>
           if ft_root_id target \<noteq> pm_root_id m then Inl RootNotMapped
           else
             (case cleanDestinationPrefix (pm_destination_prefix m) of
                Inl e \<Rightarrow> Inl e
              | Inr destination \<Rightarrow>
              (case cleanSourcePrefix (pm_source_prefix m) of
                 Inl e \<Rightarrow> Inl e
               | Inr source \<Rightarrow>
                   if \<not> namespaceHasPrefix (ft_relative_path target) destination then Inl PrefixMismatch
                   else
                     let result = join_source source (suffix_after (ft_relative_path target) destination) in
                     if result = [] then Inl NoSourcePath else Inr result))))"

section \<open>Selection\<close>

text \<open>The loop over the mappings; \<open>best\<close> is the selected mapping with its length, \<open>None\<close> the length -1.\<close>

fun select_loop ::
  "config_id \<Rightarrow> string \<Rightarrow> (path_mapping \<times> nat) option \<Rightarrow> path_mapping list
     \<Rightarrow> mapping_error + (path_mapping \<times> nat) option" where
  "select_loop conn external best [] = Inr best"
| "select_loop conn external best (m # rest) =
     (if pm_connection_id m \<noteq> conn then select_loop conn external best rest
      else case validateMapping m of
        Some e \<Rightarrow> Inl e
      | None \<Rightarrow>
      (case cleanSourcePrefix (pm_source_prefix m) of
         Inl e \<Rightarrow> Inl e
       | Inr source \<Rightarrow>
           if \<not> namespaceHasPrefix external source then select_loop conn external best rest
           else
             let len = namespaceComponentCount source in
             (case best of
                None \<Rightarrow> select_loop conn external (Some (m, len)) rest
              | Some (_, selectedLength) \<Rightarrow>
                  if len < selectedLength then select_loop conn external best rest
                  else if len = selectedLength then Inl SelectAmbiguous
                  else select_loop conn external (Some (m, len)) rest)))"

definition SelectMapping :: "path_mapping list \<Rightarrow> config_id \<Rightarrow> string \<Rightarrow> mapping_error + path_mapping" where
  "SelectMapping mappings conn externalPath =
     (if \<not> ConfigID_Valid conn then Inl SelectConnection
      else case cleanNamespacePath externalPath of
        Inl e \<Rightarrow> Inl e
      | Inr external \<Rightarrow>
          (case select_loop conn external None mappings of
             Inl e \<Rightarrow> Inl e
           | Inr None \<Rightarrow> Inl SelectNone
           | Inr (Some (m, _)) \<Rightarrow> Inr m))"

definition MapExternalPathForConnection ::
  "path_mapping list \<Rightarrow> config_id \<Rightarrow> string \<Rightarrow> mapping_error + file_target" where
  "MapExternalPathForConnection mappings conn externalPath =
     (case SelectMapping mappings conn externalPath of
        Inl e \<Rightarrow> Inl e
      | Inr m \<Rightarrow> MapExternalPath m externalPath)"

section \<open>Facts about canonical paths\<close>

abbreviation safe_path :: "string \<Rightarrow> bool" where
  "safe_path p \<equiv> ValidateRelativePath p = None"

lemma safe_append: "safe_path (p @ slash # q) \<longleftrightarrow> safe_path p \<and> safe_path q"
  by (auto simp: ValidateRelativePath_iff split_on_append)

lemma safe_nonempty: "safe_path p \<Longrightarrow> p \<noteq> []"
  by (auto simp: ValidateRelativePath_def)

lemma safe_not_slash [simp]: "safe_path (slash # q) \<longleftrightarrow> False" "safe_path [] \<longleftrightarrow> False"
  by (simp_all add: ValidateRelativePath_iff unsafe_component_def)

lemma safe_clean_absolute:
  assumes "safe_path q"
  shows "path_clean (slash # q) = slash # q"
proof -
  have s: "list_all (\<lambda>c. \<not> unsafe_component c) (split_on slash q)" using assms by (simp add: ValidateRelativePath_iff)
  have "clean_stack True ([] # split_on slash q) [] = rev (split_on slash q)"
    using clean_stack_safe [OF s, of True "[]"] by (simp add: clean_stack_def clean_step_def)
  then show ?thesis by (simp add: path_clean_def Let_def)
qed

text \<open>A path \<open>cleanNamespacePath\<close> accepts: the top, a safe relative path, or a slash and a safe one.\<close>

definition canonical :: "string \<Rightarrow> bool" where
  "canonical v \<longleftrightarrow> v = ''/'' \<or> safe_path v \<or> (\<exists>q. v = slash # q \<and> safe_path q)"

lemma clean_accepts: "cleanNamespacePath v = Inr w \<longleftrightarrow> w = v \<and> canonical v"
proof
  assume a: "cleanNamespacePath v = Inr w"
  then have n: "v \<noteq> []" "CHR 0x00 \<notin> set v" "CHR 0x5C \<notin> set v" "path_clean v = v" and w: "w = v"
    by (auto simp: cleanNamespacePath_def Let_def split: if_splits option.splits)
  show "w = v \<and> canonical v"
  proof (cases "v = ''/'' \<or> \<not> has_prefix ''/'' v")
    case True
    then show ?thesis
      using a n w by (auto simp: cleanNamespacePath_def Let_def canonical_def split: if_splits option.splits)
  next
    case False
    then obtain q where q: "v = slash # q" by (cases v) (auto simp: has_prefix_def)
    have "safe_path q"
      using a n False q
      by (auto simp: cleanNamespacePath_def Let_def ValidateRelativePath_iff trim_prefix_def has_prefix_def
          list_all_iff list_ex_iff split: if_splits option.splits)
    then show ?thesis using w q by (simp add: canonical_def)
  qed
next
  assume "w = v \<and> canonical v"
  then have w: "w = v" and c: "canonical v" by auto
  from c consider "v = ''/''" | "safe_path v" | q where "v = slash # q" "safe_path q"
    by (auto simp: canonical_def)
  then show "cleanNamespacePath v = Inr w"
  proof cases
    case 1
    then show ?thesis using w by (simp add: cleanNamespacePath_def path_clean_def clean_stack_def clean_step_def)
  next
    case 2
    have p: "\<not> has_prefix ''/'' v" using 2 by (cases v) (auto simp: has_prefix_def)
    have "path_clean v = v" using 2 path_clean_safe by (simp add: ValidateRelativePath_iff)
    moreover have "v \<noteq> ''.''" using 2 by (auto simp: ValidateRelativePath_iff unsafe_component_def)
    moreover have "v \<noteq> []" "CHR 0x00 \<notin> set v" "CHR 0x5C \<notin> set v"
      using safe_nonempty [OF 2] 2 by (auto simp: ValidateRelativePath_iff)
    ultimately show ?thesis using w p by (simp add: cleanNamespacePath_def 2)
  next
    case 3
    have "v \<noteq> ''/''" using 3 safe_nonempty by auto
    then show ?thesis
      using 3 w safe_clean_absolute [OF 3(2)]
      by (auto simp: cleanNamespacePath_def ValidateRelativePath_iff trim_prefix_def has_prefix_def list_all_iff list_ex_iff)
  qed
qed

lemma source_accepts: "cleanSourcePrefix v = Inr w \<longleftrightarrow> w = v \<and> (v = [] \<or> canonical v)"
  by (auto simp: cleanSourcePrefix_def clean_accepts)

lemma destination_accepts: "cleanDestinationPrefix v = Inr w \<longleftrightarrow> w = v \<and> (v = [] \<or> safe_path v)"
  by (cases v) (auto simp: cleanDestinationPrefix_def clean_accepts canonical_def has_prefix_def)

lemma trim_slash_safe: "safe_path q \<Longrightarrow> trim_prefix ''/'' q = q"
  using safe_not_slash by (cases q) (auto simp: trim_prefix_def has_prefix_def)

lemma trim_slash [simp]: "trim_prefix ''/'' (slash # q) = q" "trim_prefix ''/'' [] = []"
  by (simp_all add: trim_prefix_def has_prefix_def)

lemma trim_own [simp]: "trim_prefix p (p @ q) = q" "trim_prefix p p = []" "trim_prefix [] q = q"
  by (simp_all add: trim_prefix_def has_prefix_def)

text \<open>Both sides of a mapping: what is cut off after a prefix can be put back.\<close>

lemma destination_cut:
  assumes "d = [] \<or> safe_path d" and "safe_path r" and "namespaceHasPrefix r d"
  shows "join_destination d (suffix_after r d) = r \<and> (suffix_after r d = [] \<or> safe_path (suffix_after r d))"
proof (cases "d = []")
  case True
  then show ?thesis using assms(2) by (simp add: suffix_after_def join_destination_def trim_slash_safe)
next
  case False
  then have "d \<noteq> ''/''" using assms(1) safe_not_slash by auto
  with False assms(3) consider "r = d" | q where "r = d @ slash # q"
    by (auto simp: namespaceHasPrefix_def has_prefix_iff)
  then show ?thesis
    using assms(2) False by cases (auto simp: suffix_after_def join_destination_def safe_append safe_nonempty)
qed

lemma destination_join:
  assumes "d = [] \<or> safe_path d" and "u = [] \<or> safe_path u"
  shows "namespaceHasPrefix (join_destination d u) d \<and> suffix_after (join_destination d u) d = u"
  using assms safe_not_slash
  by (auto simp: namespaceHasPrefix_def suffix_after_def join_destination_def trim_slash_safe has_prefix_iff)

lemma source_cut:
  assumes "canonical s" and "canonical x" and "namespaceHasPrefix x s"
  shows "join_source s (suffix_after x s) = x \<and> (suffix_after x s = [] \<or> safe_path (suffix_after x s))"
proof (cases "s = ''/''")
  case True
  then have "has_prefix ''/'' x" using assms(3) by (simp add: namespaceHasPrefix_def)
  then obtain q where "x = slash # q" by (cases x) (auto simp: has_prefix_def)
  moreover from this have "q = [] \<or> safe_path q" using assms(2) safe_not_slash by (auto simp: canonical_def)
  ultimately show ?thesis using True by (auto simp: suffix_after_def join_source_def trim_slash_safe)
next
  case False
  have "s \<noteq> []" using assms(1) safe_nonempty by (auto simp: canonical_def)
  with False assms(3) consider "x = s" | q where "x = s @ slash # q"
    by (auto simp: namespaceHasPrefix_def has_prefix_iff)
  then show ?thesis
  proof cases
    case 1
    then show ?thesis by (simp add: suffix_after_def join_source_def)
  next
    case 2
    have "safe_path q"
    proof (cases "safe_path s")
      case True
      then have "x \<noteq> ''/''" "\<not> (\<exists>r. x = slash # r)" using 2 by (cases s; auto)+
      then have "safe_path x" using assms(2) by (auto simp: canonical_def)
      then show ?thesis using 2 by (simp add: safe_append)
    next
      case False
      then obtain r where r: "s = slash # r" "safe_path r" using assms(1) \<open>s \<noteq> ''/''\<close> by (auto simp: canonical_def)
      then have "safe_path (r @ slash # q)" using assms(2) 2 by (auto simp: canonical_def)
      then show ?thesis by (simp add: safe_append)
    qed
    then show ?thesis using 2 False \<open>s \<noteq> []\<close> safe_nonempty by (auto simp: suffix_after_def join_source_def)
  qed
qed

lemma source_join:
  assumes "s = [] \<or> canonical s" and "u = [] \<or> safe_path u" and "join_source s u \<noteq> []"
  shows "canonical (join_source s u) \<and> namespaceHasPrefix (join_source s u) s \<and> suffix_after (join_source s u) s = u"
proof -
  consider "s = []" | "s = ''/''" | "safe_path s" | q where "s = slash # q" "safe_path q"
    using assms(1) by (auto simp: canonical_def)
  then show ?thesis
  proof cases
    case 1
    then show ?thesis
      using assms(2,3) by (auto simp: join_source_def canonical_def namespaceHasPrefix_def suffix_after_def)
  next
    case 2
    then show ?thesis
      using assms(2)
      by (auto simp: join_source_def canonical_def namespaceHasPrefix_def suffix_after_def has_prefix_iff trim_slash_safe)
  next
    case 3
    then show ?thesis
      using assms(2) safe_not_slash
      by (auto simp: join_source_def canonical_def namespaceHasPrefix_def suffix_after_def safe_append has_prefix_iff)
  next
    case 4
    then have "safe_path (q @ slash # u) \<or> u = []" using assms(2) by (auto simp: safe_append)
    moreover have "trim_prefix (slash # q) (slash # q @ slash # u) = slash # u"
      using trim_own(1) [of "slash # q" "slash # u"] by simp
    ultimately show ?thesis
      using 4 safe_nonempty
      by (auto simp: join_source_def canonical_def namespaceHasPrefix_def suffix_after_def has_prefix_iff)
  qed
qed

section \<open>Round trips\<close>

text \<open>An early return on an error, read as a fact about the successful result.\<close>

lemma passed_sum: "(case r of Inl e \<Rightarrow> Inl e | Inr v \<Rightarrow> f v) = Inr y \<longleftrightarrow> (\<exists>v. r = Inr v \<and> f v = Inr y)"
  by (cases r) auto

lemma passed_option: "(case r of Some e \<Rightarrow> Inl (h e) | None \<Rightarrow> f) = Inr y \<longleftrightarrow> r = None \<and> f = Inr y"
  by (cases r) auto

lemma passed_if: "(if b then Inl e else f) = Inr y \<longleftrightarrow> \<not> b \<and> f = Inr y"
  by simp

lemma MapExternalPath_iff:
  "MapExternalPath m x = Inr t \<longleftrightarrow>
     validateMapping m = None \<and> canonical x
     \<and> (pm_source_prefix m = [] \<or> canonical (pm_source_prefix m))
     \<and> (pm_destination_prefix m = [] \<or> safe_path (pm_destination_prefix m))
     \<and> namespaceHasPrefix x (pm_source_prefix m)
     \<and> t = \<lparr>ft_root_id = pm_root_id m,
            ft_relative_path = join_destination (pm_destination_prefix m) (suffix_after x (pm_source_prefix m))\<rparr>
     \<and> FileTarget_Validate t = None"
  unfolding MapExternalPath_def Let_def passed_option passed_sum passed_if clean_accepts source_accepts destination_accepts
  by auto

lemma MapRootPath_iff:
  "MapRootPath m t = Inr x \<longleftrightarrow>
     validateMapping m = None \<and> FileTarget_Validate t = None \<and> ft_root_id t = pm_root_id m
     \<and> (pm_source_prefix m = [] \<or> canonical (pm_source_prefix m))
     \<and> (pm_destination_prefix m = [] \<or> safe_path (pm_destination_prefix m))
     \<and> namespaceHasPrefix (ft_relative_path t) (pm_destination_prefix m)
     \<and> x = join_source (pm_source_prefix m) (suffix_after (ft_relative_path t) (pm_destination_prefix m))
     \<and> x \<noteq> []"
  unfolding MapRootPath_def Let_def passed_option passed_sum passed_if source_accepts destination_accepts
  by auto

lemma root_path_maps_back:
  assumes "MapRootPath m t = Inr x"
  shows "MapExternalPath m x = Inr t"
proof -
  let ?s = "pm_source_prefix m" and ?d = "pm_destination_prefix m"
  let ?u = "suffix_after (ft_relative_path t) ?d"
  have a: "validateMapping m = None" "FileTarget_Validate t = None" "ft_root_id t = pm_root_id m"
    "?s = [] \<or> canonical ?s" "?d = [] \<or> safe_path ?d" "namespaceHasPrefix (ft_relative_path t) ?d"
    "x = join_source ?s ?u" "x \<noteq> []"
    using assms by (auto simp: MapRootPath_iff)
  have "safe_path (ft_relative_path t)" using a(2) by (simp add: FileTarget_Validate_iff)
  from destination_cut [OF a(5) this a(6)]
  have d: "join_destination ?d ?u = ft_relative_path t" and u: "?u = [] \<or> safe_path ?u" by auto
  from source_join [OF a(4) u] a(7,8)
  have "canonical x" "namespaceHasPrefix x ?s" "suffix_after x ?s = ?u" by auto
  then show ?thesis using a d by (cases t) (simp add: MapExternalPath_iff)
qed

lemma external_path_maps_back:
  assumes "pm_source_prefix m \<noteq> []" and "MapExternalPath m x = Inr t"
  shows "MapRootPath m t = Inr x"
proof -
  let ?s = "pm_source_prefix m" and ?d = "pm_destination_prefix m"
  let ?u = "suffix_after x ?s"
  have a: "validateMapping m = None" "canonical x" "canonical ?s" "?d = [] \<or> safe_path ?d"
    "namespaceHasPrefix x ?s" "ft_root_id t = pm_root_id m" "ft_relative_path t = join_destination ?d ?u"
    "FileTarget_Validate t = None"
    using assms by (auto simp: MapExternalPath_iff)
  from source_cut [OF a(3,2,5)] have s: "join_source ?s ?u = x" and u: "?u = [] \<or> safe_path ?u" by auto
  from destination_join [OF a(4) u] s a show ?thesis
    using safe_nonempty by (auto simp: MapRootPath_iff canonical_def)
qed

section \<open>Selection\<close>

definition mapping_matches :: "config_id \<Rightarrow> string \<Rightarrow> path_mapping \<Rightarrow> bool" where
  "mapping_matches conn x m \<longleftrightarrow> pm_connection_id m = conn \<and> namespaceHasPrefix x (pm_source_prefix m)"

abbreviation mapping_depth :: "path_mapping \<Rightarrow> nat" where
  "mapping_depth m \<equiv> namespaceComponentCount (pm_source_prefix m)"

lemma select_loop_step:
  "select_loop conn x best (m # rest) = Inr r \<Longrightarrow>
     if \<not> mapping_matches conn x m then select_loop conn x best rest = Inr r
     else case best of
       None \<Rightarrow> select_loop conn x (Some (m, mapping_depth m)) rest = Inr r
     | Some (b, n) \<Rightarrow>
         mapping_depth m < n \<and> select_loop conn x best rest = Inr r
         \<or> n < mapping_depth m \<and> select_loop conn x (Some (m, mapping_depth m)) rest = Inr r"
  by (auto simp: mapping_matches_def source_accepts Let_def split: if_splits option.splits sum.splits prod.splits)

text \<open>The loop ends with the mapping it started with, when that is deeper than every match, or with a
  match that is deeper than every other one.\<close>

lemma select_loop_Some:
  "select_loop conn x (Some (b, n)) ms = Inr r \<Longrightarrow>
     r = Some (b, n) \<and> (\<forall>m\<in>set ms. mapping_matches conn x m \<longrightarrow> mapping_depth m < n)
     \<or> (\<exists>pre m post. ms = pre @ m # post \<and> r = Some (m, mapping_depth m) \<and> mapping_matches conn x m
          \<and> n < mapping_depth m
          \<and> (\<forall>m'\<in>set (pre @ post). mapping_matches conn x m' \<longrightarrow> mapping_depth m' < mapping_depth m))"
proof (induction ms arbitrary: b n)
  case Nil
  then show ?case by simp
next
  case (Cons m ms)
  consider (skip) "mapping_matches conn x m \<longrightarrow> mapping_depth m < n" "select_loop conn x (Some (b, n)) ms = Inr r"
    | (take) "mapping_matches conn x m" "n < mapping_depth m"
        "select_loop conn x (Some (m, mapping_depth m)) ms = Inr r"
    using select_loop_step [OF Cons.prems] by (auto split: if_splits)
  then show ?case
  proof cases
    case skip
    from Cons.IH [OF skip(2)] show ?thesis
    proof
      assume "r = Some (b, n) \<and> (\<forall>m\<in>set ms. mapping_matches conn x m \<longrightarrow> mapping_depth m < n)"
      then show ?thesis using skip(1) by auto
    next
      assume "\<exists>pre m post. ms = pre @ m # post \<and> r = Some (m, mapping_depth m) \<and> mapping_matches conn x m
          \<and> n < mapping_depth m
          \<and> (\<forall>m'\<in>set (pre @ post). mapping_matches conn x m' \<longrightarrow> mapping_depth m' < mapping_depth m)"
      then obtain pre c post where c: "ms = pre @ c # post" "r = Some (c, mapping_depth c)"
        "mapping_matches conn x c" "n < mapping_depth c"
        "\<forall>m'\<in>set (pre @ post). mapping_matches conn x m' \<longrightarrow> mapping_depth m' < mapping_depth c"
        by blast
      then have "m # ms = (m # pre) @ c # post"
        "\<forall>m'\<in>set ((m # pre) @ post). mapping_matches conn x m' \<longrightarrow> mapping_depth m' < mapping_depth c"
        using skip(1) by auto
      with c show ?thesis by blast
    qed
  next
    case take
    from Cons.IH [OF take(3)] show ?thesis
    proof
      assume a: "r = Some (m, mapping_depth m)
        \<and> (\<forall>m'\<in>set ms. mapping_matches conn x m' \<longrightarrow> mapping_depth m' < mapping_depth m)"
      then have "m # ms = [] @ m # ms" by simp
      with a take(1,2) show ?thesis by (metis append_Nil)
    next
      assume "\<exists>pre c post. ms = pre @ c # post \<and> r = Some (c, mapping_depth c) \<and> mapping_matches conn x c
          \<and> mapping_depth m < mapping_depth c
          \<and> (\<forall>m'\<in>set (pre @ post). mapping_matches conn x m' \<longrightarrow> mapping_depth m' < mapping_depth c)"
      then obtain pre c post where c: "ms = pre @ c # post" "r = Some (c, mapping_depth c)"
        "mapping_matches conn x c" "mapping_depth m < mapping_depth c"
        "\<forall>m'\<in>set (pre @ post). mapping_matches conn x m' \<longrightarrow> mapping_depth m' < mapping_depth c"
        by blast
      then have "m # ms = (m # pre) @ c # post"
        "\<forall>m'\<in>set ((m # pre) @ post). mapping_matches conn x m' \<longrightarrow> mapping_depth m' < mapping_depth c"
        by auto
      moreover have "n < mapping_depth c" using c(4) take(2) by simp
      ultimately show ?thesis using c(2,3) by blast
    qed
  qed
qed

lemma select_loop_None:
  "select_loop conn x None ms = Inr (Some r) \<Longrightarrow>
     \<exists>pre m post. ms = pre @ m # post \<and> r = (m, mapping_depth m) \<and> mapping_matches conn x m
       \<and> (\<forall>m'\<in>set (pre @ post). mapping_matches conn x m' \<longrightarrow> mapping_depth m' < mapping_depth m)"
proof (induction ms)
  case Nil
  then show ?case by simp
next
  case (Cons m ms)
  show ?case
  proof (cases "mapping_matches conn x m")
    case False
    then have "select_loop conn x None ms = Inr (Some r)" using select_loop_step [OF Cons.prems] by simp
    from Cons.IH [OF this] obtain pre c post where c: "ms = pre @ c # post" "r = (c, mapping_depth c)"
      "mapping_matches conn x c"
      "\<forall>m'\<in>set (pre @ post). mapping_matches conn x m' \<longrightarrow> mapping_depth m' < mapping_depth c"
      by blast
    then have "m # ms = (m # pre) @ c # post"
      "\<forall>m'\<in>set ((m # pre) @ post). mapping_matches conn x m' \<longrightarrow> mapping_depth m' < mapping_depth c"
      using False by auto
    with c show ?thesis by blast
  next
    case True
    then have "select_loop conn x (Some (m, mapping_depth m)) ms = Inr (Some r)"
      using select_loop_step [OF Cons.prems] by simp
    from select_loop_Some [OF this] show ?thesis
    proof
      assume "Some r = Some (m, mapping_depth m)
        \<and> (\<forall>m'\<in>set ms. mapping_matches conn x m' \<longrightarrow> mapping_depth m' < mapping_depth m)"
      then show ?thesis using True by (metis append_Nil option.inject)
    next
      assume "\<exists>pre c post. ms = pre @ c # post \<and> Some r = Some (c, mapping_depth c) \<and> mapping_matches conn x c
          \<and> mapping_depth m < mapping_depth c
          \<and> (\<forall>m'\<in>set (pre @ post). mapping_matches conn x m' \<longrightarrow> mapping_depth m' < mapping_depth c)"
      then obtain pre c post where c: "ms = pre @ c # post" "r = (c, mapping_depth c)"
        "mapping_matches conn x c" "mapping_depth m < mapping_depth c"
        "\<forall>m'\<in>set (pre @ post). mapping_matches conn x m' \<longrightarrow> mapping_depth m' < mapping_depth c"
        by blast
      then have "m # ms = (m # pre) @ c # post"
        "\<forall>m'\<in>set ((m # pre) @ post). mapping_matches conn x m' \<longrightarrow> mapping_depth m' < mapping_depth c"
        by auto
      with c show ?thesis by blast
    qed
  qed
qed

section \<open>Theorems\<close>

text \<open>
  C25: The two translations undo each other: a target that \<open>MapRootPath\<close> writes in the namespace of the
  service is read back by \<open>MapExternalPath\<close> as the same target, and, for a mapping with a source prefix,
  a path of the service that is read as a target is written back as the same path.
\<close>

theorem mapping_round_trip:
  "(MapRootPath m t = Inr x \<longrightarrow> MapExternalPath m x = Inr t)
   \<and> (pm_source_prefix m \<noteq> [] \<and> MapExternalPath m x = Inr t \<longrightarrow> MapRootPath m t = Inr x)"
  using root_path_maps_back external_path_maps_back by blast

text \<open>
  C24: \<open>SelectMapping\<close> returns one of the mappings given to it, of the requested connection, whose source
  prefix the path has, and every other entry of the list that matches the path has strictly fewer
  components: the mapping that names the authority is the unique most specific one.
\<close>

theorem selected_mapping_is_most_specific:
  assumes "SelectMapping mappings conn x = Inr m"
  shows "\<exists>pre post. mappings = pre @ m # post \<and> pm_connection_id m = conn
    \<and> namespaceHasPrefix x (pm_source_prefix m)
    \<and> (\<forall>m'\<in>set (pre @ post). pm_connection_id m' = conn \<and> namespaceHasPrefix x (pm_source_prefix m')
         \<longrightarrow> namespaceComponentCount (pm_source_prefix m') < namespaceComponentCount (pm_source_prefix m))"
proof -
  have "\<exists>n. select_loop conn x None mappings = Inr (Some (m, n))"
    using assms by (auto simp: SelectMapping_def clean_accepts split: if_splits sum.splits option.splits)
  then show ?thesis using select_loop_None unfolding mapping_matches_def by fastforce
qed

definition example_mapping :: "string \<Rightarrow> path_mapping" where
  "example_mapping prefix = \<lparr>pm_id = ''m'', pm_connection_id = ''sonarr'', pm_source_prefix = prefix,
     pm_root_id = ''tv'', pm_destination_prefix = ''series'', 
     pm_source = \<lparr>sm_source = SourceYAML, sm_editable = False, sm_document_id = ''doc'', sm_revision = ''r'',
       sm_startup_at = 0, sm_reload_policy = ReloadOnRestart\<rparr>, pm_revision = ''1''\<rparr>"

theorem mapping_round_trip_witness:
  "MapExternalPath (example_mapping ''/data/tv'') ''/data/tv/Show/e1.mkv''
     = Inr \<lparr>ft_root_id = ''tv'', ft_relative_path = ''series/Show/e1.mkv''\<rparr>
   \<and> MapRootPath (example_mapping ''/data/tv'') \<lparr>ft_root_id = ''tv'', ft_relative_path = ''series/Show/e1.mkv''\<rparr>
     = Inr ''/data/tv/Show/e1.mkv''"
proof -
  have "MapRootPath (example_mapping ''/data/tv'') \<lparr>ft_root_id = ''tv'', ft_relative_path = ''series/Show/e1.mkv''\<rparr>
     = Inr ''/data/tv/Show/e1.mkv''"
    by code_simp
  then show ?thesis using mapping_round_trip by blast
qed

theorem selected_mapping_is_most_specific_witness:
  "\<exists>pre post. [example_mapping ''/data'', example_mapping ''/data/tv''] = pre @ example_mapping ''/data/tv'' # post
    \<and> (\<forall>m'\<in>set (pre @ post). pm_connection_id m' = ''sonarr'' \<and> namespaceHasPrefix ''/data/tv/Show'' (pm_source_prefix m')
         \<longrightarrow> namespaceComponentCount (pm_source_prefix m') < namespaceComponentCount (pm_source_prefix (example_mapping ''/data/tv'')))"
proof -
  have "SelectMapping [example_mapping ''/data'', example_mapping ''/data/tv''] ''sonarr'' ''/data/tv/Show''
    = Inr (example_mapping ''/data/tv'')"
    by code_simp
  from selected_mapping_is_most_specific [OF this] show ?thesis by blast
qed

text \<open>
  The two entries for \<open>/data\<close> are ambiguous only when they are met before the more specific mapping: the
  answer depends on the order of the configuration.
\<close>

lemma ambiguity_depends_on_the_order:
  "SelectMapping [example_mapping ''/data'', example_mapping ''/data'', example_mapping ''/data/tv''] ''sonarr'' ''/data/tv/Show''
     = Inl SelectAmbiguous
   \<and> SelectMapping [example_mapping ''/data/tv'', example_mapping ''/data'', example_mapping ''/data''] ''sonarr'' ''/data/tv/Show''
     = Inr (example_mapping ''/data/tv'')"
  by code_simp

end
