(* ===== verification/File_Requests.thy ===== *)
theory File_Requests
  imports Manifest
begin

text \<open>
  Requests for file effects (\<^verbatim>\<open>internal/ports/ports.go\<close>): copies, hardlinks, moves, renames, trashing,
  restores and deletes, each with an exact map or manifest. A request is accepted only when no two of the
  places it names lie in each other.
\<close>

section \<open>Requests\<close>

record file_map =
  fmap_source :: file_manifest_entry
  fmap_destination :: file_target

datatype file_request_error =
    RequestEmpty
  | RequestSource nat manifest_error
  | RequestDestination nat target_error
  | RequestHardlinkDirectory nat
  | RequestOwnOverlap nat
  | RequestEntriesOverlap
  | RequestDestinationsOverlap
  | RequestCrossOverlap
  | RequestRetention

definition FileMap_Validate :: "nat \<Rightarrow> file_map \<Rightarrow> file_request_error option" where
  "FileMap_Validate index m =
     (case FileManifestEntry_Validate (fmap_source m) of
        Some e \<Rightarrow> Some (RequestSource index e)
      | None \<Rightarrow> map_option (RequestDestination index) (FileTarget_Validate (fmap_destination m)))"

definition pathsOverlap :: "config_id \<Rightarrow> string \<Rightarrow> config_id \<Rightarrow> string \<Rightarrow> bool" where
  "pathsOverlap leftRoot leftPath rightRoot rightPath =
     (if leftRoot \<noteq> rightRoot then False
      else leftPath = rightPath \<or> has_prefix (rightPath @ ''/'') leftPath \<or> has_prefix (leftPath @ ''/'') rightPath)"

definition targetsOverlap :: "file_target \<Rightarrow> file_target \<Rightarrow> bool" where
  "targetsOverlap left right =
     (if ft_root_id left \<noteq> ft_root_id right then False
      else ft_relative_path left = ft_relative_path right
        \<or> has_prefix (ft_relative_path right @ ''/'') (ft_relative_path left)
        \<or> has_prefix (ft_relative_path left @ ''/'') (ft_relative_path right))"

text \<open>The package has its own copy of the overlap of two entries.\<close>

definition ports_manifestEntriesOverlap :: "file_manifest_entry \<Rightarrow> file_manifest_entry \<Rightarrow> bool" where
  "ports_manifestEntriesOverlap left right =
     (if fm_root_id left \<noteq> fm_root_id right then False
      else if fm_relative_path left = fm_relative_path right then True
      else fm_type left = ManifestDirectory \<and> has_prefix (fm_relative_path left @ ''/'') (fm_relative_path right)
         \<or> fm_type right = ManifestDirectory \<and> has_prefix (fm_relative_path right @ ''/'') (fm_relative_path left))"

section \<open>Validation\<close>

text \<open>Two nested loops visit every pair once, the left index below the right, and stop at the first error.\<close>

fun first_found :: "('a \<Rightarrow> 'e option) \<Rightarrow> 'a list \<Rightarrow> 'e option" where
  "first_found f [] = None"
| "first_found f (x # rest) = (case f x of Some e \<Rightarrow> Some e | None \<Rightarrow> first_found f rest)"

fun first_pair :: "('a \<Rightarrow> 'a \<Rightarrow> 'e option) \<Rightarrow> 'a list \<Rightarrow> 'e option" where
  "first_pair f [] = None"
| "first_pair f (left # rest) =
     (case first_found (f left) rest of
        Some e \<Rightarrow> Some e
      | None \<Rightarrow> first_pair f rest)"

fun entries_valid :: "bool \<Rightarrow> nat \<Rightarrow> file_manifest_entry list \<Rightarrow> file_request_error option" where
  "entries_valid requireDigest index [] = None"
| "entries_valid requireDigest index (entry # rest) =
     (case FileManifestEntry_ValidateAction requireDigest entry of
        Some e \<Rightarrow> Some (RequestSource index e)
      | None \<Rightarrow> entries_valid requireDigest (Suc index) rest)"

definition ports_validateManifest :: "file_manifest_entry list \<Rightarrow> bool \<Rightarrow> file_request_error option" where
  "ports_validateManifest entries requireDigest =
     (if entries = [] then Some RequestEmpty
      else case entries_valid requireDigest 0 entries of
        Some e \<Rightarrow> Some e
      | None \<Rightarrow>
          first_pair (\<lambda>left right. if ports_manifestEntriesOverlap left right then Some RequestEntriesOverlap else None)
            entries)"

fun maps_valid :: "bool \<Rightarrow> bool \<Rightarrow> nat \<Rightarrow> file_map list \<Rightarrow> file_request_error option" where
  "maps_valid allowDirectories requireDigest index [] = None"
| "maps_valid allowDirectories requireDigest index (m # rest) =
     (case FileMap_Validate index m of
        Some e \<Rightarrow> Some e
      | None \<Rightarrow>
      (case FileManifestEntry_ValidateAction requireDigest (fmap_source m) of
         Some e \<Rightarrow> Some (RequestSource index e)
       | None \<Rightarrow>
           if \<not> allowDirectories \<and> fm_type (fmap_source m) = ManifestDirectory
           then Some (RequestHardlinkDirectory index)
           else if pathsOverlap (fm_root_id (fmap_source m)) (fm_relative_path (fmap_source m))
                     (ft_root_id (fmap_destination m)) (ft_relative_path (fmap_destination m))
           then Some (RequestOwnOverlap index)
           else maps_valid allowDirectories requireDigest (Suc index) rest))"

definition source_meets_destination :: "file_map \<Rightarrow> file_map \<Rightarrow> bool" where
  "source_meets_destination m n =
     pathsOverlap (fm_root_id (fmap_source m)) (fm_relative_path (fmap_source m))
       (ft_root_id (fmap_destination n)) (ft_relative_path (fmap_destination n))"

definition pair_error :: "file_map \<Rightarrow> file_map \<Rightarrow> file_request_error option" where
  "pair_error left right =
     (if ports_manifestEntriesOverlap (fmap_source left) (fmap_source right) then Some RequestEntriesOverlap
      else if targetsOverlap (fmap_destination left) (fmap_destination right) then Some RequestDestinationsOverlap
      else if source_meets_destination left right \<or> source_meets_destination right left
      then Some RequestCrossOverlap
      else None)"

definition validateFileMaps :: "file_map list \<Rightarrow> bool \<Rightarrow> bool \<Rightarrow> file_request_error option" where
  "validateFileMaps mappings allowDirectories requireDigest =
     (if mappings = [] then Some RequestEmpty
      else case maps_valid allowDirectories requireDigest 0 mappings of
        Some e \<Rightarrow> Some e
      | None \<Rightarrow> first_pair pair_error mappings)"

datatype file_request =
    FilesystemCopyRequest "file_map list"
  | FilesystemHardlinkRequest "file_map list"
  | FilesystemMoveRequest "file_map list"
  | FilesystemRenameRequest "file_map list"
  | FilesystemTrashRequest "file_manifest_entry list" int
  | FilesystemRestoreRequest "file_map list"
  | FilesystemDeleteRequest "file_manifest_entry list"

fun FilesystemRequest_Validate :: "file_request \<Rightarrow> file_request_error option" where
  "FilesystemRequest_Validate (FilesystemCopyRequest files) = validateFileMaps files True True"
| "FilesystemRequest_Validate (FilesystemHardlinkRequest files) = validateFileMaps files False False"
| "FilesystemRequest_Validate (FilesystemMoveRequest files) = validateFileMaps files True False"
| "FilesystemRequest_Validate (FilesystemRenameRequest files) = validateFileMaps files True False"
| "FilesystemRequest_Validate (FilesystemTrashRequest files retention) =
     (if retention \<le> 0 then Some RequestRetention else ports_validateManifest files False)"
| "FilesystemRequest_Validate (FilesystemRestoreRequest files) = validateFileMaps files True False"
| "FilesystemRequest_Validate (FilesystemDeleteRequest files) = ports_validateManifest files False"

section \<open>Places\<close>

text \<open>The places a path stands for: itself and everything below it.\<close>

definition in_tree :: "config_id \<Rightarrow> string \<Rightarrow> file_target \<Rightarrow> bool" where
  "in_tree root p t \<longleftrightarrow>
     ft_root_id t = root \<and> (ft_relative_path t = p \<or> has_prefix (p @ ''/'') (ft_relative_path t))"

definition source_tree :: "file_map \<Rightarrow> file_target \<Rightarrow> bool" where
  "source_tree m = in_tree (fm_root_id (fmap_source m)) (fm_relative_path (fmap_source m))"

definition destination_tree :: "file_map \<Rightarrow> file_target \<Rightarrow> bool" where
  "destination_tree m = in_tree (ft_root_id (fmap_destination m)) (ft_relative_path (fmap_destination m))"

text \<open>The places an observed entry stands for: a directory has everything below it.\<close>

definition entry_covers :: "file_manifest_entry \<Rightarrow> file_target \<Rightarrow> bool" where
  "entry_covers e t \<longleftrightarrow>
     in_tree (fm_root_id e) (fm_relative_path e) t
     \<and> (fm_type e = ManifestDirectory \<or> ft_relative_path t = fm_relative_path e)"

lemma comparable_prefixes: "a @ slash # x = b @ slash # y \<Longrightarrow> a = b \<or> has_prefix (a @ ''/'') b \<or> has_prefix (b @ ''/'') a"
proof (induction a arbitrary: b)
  case Nil
  then show ?case by (cases b) (auto simp: has_prefix_def)
next
  case (Cons c a)
  show ?case
  proof (cases b)
    case Nil
    then show ?thesis using Cons.prems by (auto simp: has_prefix_def)
  next
    case (Cons d b')
    then show ?thesis using Cons.IH [of b'] Cons.prems by (auto simp: has_prefix_def)
  qed
qed

lemma has_prefix_slash: "has_prefix (p @ ''/'') s \<longleftrightarrow> (\<exists>x. s = p @ slash # x)"
  by (simp add: has_prefix_iff)

lemma common_place:
  assumes "in_tree r p t" and "in_tree s q t"
  shows "r = s \<and> (p = q \<or> has_prefix (q @ ''/'') p \<or> has_prefix (p @ ''/'') q)"
proof -
  from assms have "r = s" by (simp add: in_tree_def)
  let ?t = "ft_relative_path t"
  from assms consider "?t = p" "?t = q" | x where "?t = p" "?t = q @ slash # x"
    | x where "?t = p @ slash # x" "?t = q" | x y where "?t = p @ slash # x" "?t = q @ slash # y"
    unfolding in_tree_def has_prefix_slash by blast
  then have "p = q \<or> has_prefix (q @ ''/'') p \<or> has_prefix (p @ ''/'') q"
  proof cases
    case 2
    then have "p = q @ slash # x" by simp
    then show ?thesis unfolding has_prefix_slash by blast
  next
    case 3
    then have "q = p @ slash # x" by simp
    then show ?thesis unfolding has_prefix_slash by blast
  next
    case 4
    then have "p @ slash # x = q @ slash # y" by simp
    from comparable_prefixes [OF this] show ?thesis by blast
  qed simp
  with \<open>r = s\<close> show ?thesis by blast
qed

lemma in_tree_self: "in_tree r p \<lparr>ft_root_id = r, ft_relative_path = q\<rparr> \<longleftrightarrow> q = p \<or> has_prefix (p @ ''/'') q"
  by (simp add: in_tree_def)

lemma pathsOverlap_iff: "pathsOverlap r p s q \<longleftrightarrow> (\<exists>t. in_tree r p t \<and> in_tree s q t)"
proof
  assume a: "pathsOverlap r p s q"
  then have "r = s" and "p = q \<or> has_prefix (q @ ''/'') p \<or> has_prefix (p @ ''/'') q"
    by (auto simp: pathsOverlap_def split: if_splits)
  then show "\<exists>t. in_tree r p t \<and> in_tree s q t" using in_tree_self by metis
next
  assume "\<exists>t. in_tree r p t \<and> in_tree s q t"
  then show "pathsOverlap r p s q" using common_place [of r p _ s q] by (auto simp: pathsOverlap_def)
qed

lemma targetsOverlap_eq:
  "targetsOverlap a b = pathsOverlap (ft_root_id a) (ft_relative_path a) (ft_root_id b) (ft_relative_path b)"
  by (simp add: targetsOverlap_def pathsOverlap_def)

lemma entries_overlap_iff: "ports_manifestEntriesOverlap a b \<longleftrightarrow> (\<exists>t. entry_covers a t \<and> entry_covers b t)"
proof
  assume o: "ports_manifestEntriesOverlap a b"
  then have r: "fm_root_id a = fm_root_id b" by (auto simp: ports_manifestEntriesOverlap_def split: if_splits)
  from o r consider "fm_relative_path a = fm_relative_path b"
    | "fm_type a = ManifestDirectory" "has_prefix (fm_relative_path a @ ''/'') (fm_relative_path b)"
    | "fm_type b = ManifestDirectory" "has_prefix (fm_relative_path b @ ''/'') (fm_relative_path a)"
    by (auto simp: ports_manifestEntriesOverlap_def split: if_splits)
  then show "\<exists>t. entry_covers a t \<and> entry_covers b t"
  proof cases
    case 3
    then have "entry_covers a \<lparr>ft_root_id = fm_root_id b, ft_relative_path = fm_relative_path a\<rparr>
      \<and> entry_covers b \<lparr>ft_root_id = fm_root_id b, ft_relative_path = fm_relative_path a\<rparr>"
      using r by (simp add: entry_covers_def in_tree_def)
    then show ?thesis by blast
  next
    case 1
    then have "entry_covers a \<lparr>ft_root_id = fm_root_id b, ft_relative_path = fm_relative_path b\<rparr>
      \<and> entry_covers b \<lparr>ft_root_id = fm_root_id b, ft_relative_path = fm_relative_path b\<rparr>"
      using r by (simp add: entry_covers_def in_tree_def)
    then show ?thesis by blast
  next
    case 2
    then have "entry_covers a \<lparr>ft_root_id = fm_root_id b, ft_relative_path = fm_relative_path b\<rparr>
      \<and> entry_covers b \<lparr>ft_root_id = fm_root_id b, ft_relative_path = fm_relative_path b\<rparr>"
      using r by (simp add: entry_covers_def in_tree_def)
    then show ?thesis by blast
  qed
next
  assume "\<exists>t. entry_covers a t \<and> entry_covers b t"
  then obtain t where t: "entry_covers a t" "entry_covers b t" by blast
  then have "fm_root_id a = fm_root_id b" by (auto simp: entry_covers_def in_tree_def)
  with t common_place [of "fm_root_id a" "fm_relative_path a" t "fm_root_id b" "fm_relative_path b"]
  show "ports_manifestEntriesOverlap a b"
    by (auto simp: entry_covers_def in_tree_def ports_manifestEntriesOverlap_def)
qed

section \<open>What an accepted request guarantees\<close>

lemma first_found_None: "first_found f xs = None \<longleftrightarrow> (\<forall>x\<in>set xs. f x = None)"
  by (induction xs) (simp_all add: err_simps)

lemma first_pair_None: "first_pair f xs = None \<longleftrightarrow> sorted_wrt (\<lambda>a b. f a b = None) xs"
  by (induction xs) (simp_all add: err_simps first_found_None)

lemma entries_valid_None:
  "entries_valid d i es = None \<longleftrightarrow> (\<forall>e\<in>set es. FileManifestEntry_ValidateAction d e = None)"
  by (induction es arbitrary: i) (auto split: option.splits)

lemma FileMap_Validate_None:
  "FileMap_Validate i m = None \<longleftrightarrow>
     FileManifestEntry_Validate (fmap_source m) = None \<and> FileTarget_Validate (fmap_destination m) = None"
  by (auto simp: FileMap_Validate_def split: option.splits)

lemma action_entry_valid: "FileManifestEntry_ValidateAction d e = None \<Longrightarrow> FileManifestEntry_Validate e = None"
  by (cases e) (simp only: FileManifestEntry_ValidateAction.simps err_simps)

lemma maps_valid_None:
  "maps_valid dirs d i ms = None \<longleftrightarrow>
     (\<forall>m\<in>set ms. FileManifestEntry_ValidateAction d (fmap_source m) = None
        \<and> FileTarget_Validate (fmap_destination m) = None
        \<and> (dirs \<or> fm_type (fmap_source m) \<noteq> ManifestDirectory)
        \<and> \<not> source_meets_destination m m)"
  by (induction ms arbitrary: i)
    (auto simp: err_simps FileMap_Validate_None source_meets_destination_def dest: action_entry_valid)

lemma source_meets_destination_iff:
  "source_meets_destination m n \<longleftrightarrow> (\<exists>t. source_tree m t \<and> destination_tree n t)"
  by (simp add: source_meets_destination_def source_tree_def destination_tree_def pathsOverlap_iff)

lemma pair_error_None:
  "pair_error m n = None \<longleftrightarrow>
     (\<nexists>t. entry_covers (fmap_source m) t \<and> entry_covers (fmap_source n) t)
     \<and> (\<nexists>t. destination_tree m t \<and> destination_tree n t)
     \<and> (\<nexists>t. source_tree m t \<and> destination_tree n t) \<and> (\<nexists>t. source_tree n t \<and> destination_tree m t)"
  by (simp add: pair_error_def entries_overlap_iff targetsOverlap_eq pathsOverlap_iff source_meets_destination_iff
      destination_tree_def)

lemma validateFileMaps_None:
  "validateFileMaps ms dirs d = None \<longleftrightarrow>
     ms \<noteq> [] \<and> maps_valid dirs d 0 ms = None \<and> sorted_wrt (\<lambda>m n. pair_error m n = None) ms"
  by (auto simp: validateFileMaps_def first_pair_None split: option.splits)

lemma pairs_apart:
  "sorted_wrt (\<lambda>m n. pair_error m n = None) ms \<longleftrightarrow>
     (\<forall>i j. i < j \<longrightarrow> j < length ms \<longrightarrow> pair_error (ms ! i) (ms ! j) = None)"
  by (auto simp: sorted_wrt_iff_nth_less)

text \<open>
  C23: A map of files is accepted exactly when it is not empty, every source carries the evidence of an
  action and every destination is a safe path, and the places do not meet: no place lies both at or below
  a source and at or below a destination, whichever entries they belong to, no place lies below two
  destinations, and no place belongs to two sources. So no order of the single effects can make one entry
  read, replace or remove what another entry names.
\<close>

theorem accepted_file_map_is_disjoint:
  "validateFileMaps ms dirs digest = None \<longleftrightarrow>
     ms \<noteq> []
     \<and> (\<forall>m\<in>set ms. FileManifestEntry_ValidateAction digest (fmap_source m) = None
          \<and> FileTarget_Validate (fmap_destination m) = None
          \<and> (dirs \<or> fm_type (fmap_source m) \<noteq> ManifestDirectory))
     \<and> (\<forall>m\<in>set ms. \<forall>n\<in>set ms. \<nexists>t. source_tree m t \<and> destination_tree n t)
     \<and> (\<forall>i j. i < j \<longrightarrow> j < length ms \<longrightarrow>
          (\<nexists>t. destination_tree (ms ! i) t \<and> destination_tree (ms ! j) t)
          \<and> (\<nexists>t. entry_covers (fmap_source (ms ! i)) t \<and> entry_covers (fmap_source (ms ! j)) t))"
  (is "?L \<longleftrightarrow> ?N \<and> ?V \<and> ?C \<and> ?P")
proof
  assume l: ?L
  then have v: "maps_valid dirs digest 0 ms = None"
    and p: "\<forall>i j. i < j \<longrightarrow> j < length ms \<longrightarrow> pair_error (ms ! i) (ms ! j) = None"
    by (auto simp: validateFileMaps_None pairs_apart)
  have ?C
  proof (intro ballI)
    fix m n assume "m \<in> set ms" "n \<in> set ms"
    then obtain i j where ij: "i < length ms" "j < length ms" "m = ms ! i" "n = ms ! j" by (metis in_set_conv_nth)
    consider "i = j" | "i < j" | "j < i" by linarith
    then show "\<nexists>t. source_tree m t \<and> destination_tree n t"
    proof cases
      case 1
      then show ?thesis using v \<open>m \<in> set ms\<close> ij by (simp add: maps_valid_None source_meets_destination_iff)
    next
      case 2
      then show ?thesis using p ij by (simp add: pair_error_None)
    next
      case 3
      then show ?thesis using p ij by (simp add: pair_error_None)
    qed
  qed
  moreover have ?V using v by (simp add: maps_valid_None)
  moreover have ?P using p by (simp add: pair_error_None)
  moreover have ?N using l by (simp add: validateFileMaps_None)
  ultimately show "?N \<and> ?V \<and> ?C \<and> ?P" by blast
next
  assume r: "?N \<and> ?V \<and> ?C \<and> ?P"
  then have "maps_valid dirs digest 0 ms = None"
    by (simp add: maps_valid_None source_meets_destination_iff)
  moreover have "pair_error (ms ! i) (ms ! j) = None" if "i < j" "j < length ms" for i j
  proof -
    have "ms ! i \<in> set ms" "ms ! j \<in> set ms" using that by auto
    with r that show ?thesis unfolding pair_error_None by blast
  qed
  ultimately show ?L using r by (simp add: validateFileMaps_None pairs_apart)
qed

definition example_entry :: "string \<Rightarrow> file_manifest_entry" where
  "example_entry p = FileManifestEntry ''dl'' p ManifestFile 7 [] ''inode:1'' RoleVideo 5 []"

definition example_maps :: "file_map list" where
  "example_maps =
     [\<lparr>fmap_source = example_entry ''a/1.mkv'', fmap_destination = \<lparr>ft_root_id = ''tv'', ft_relative_path = ''A/1.mkv''\<rparr>\<rparr>,
      \<lparr>fmap_source = example_entry ''a/2.mkv'', fmap_destination = \<lparr>ft_root_id = ''tv'', ft_relative_path = ''A/2.mkv''\<rparr>\<rparr>]"

lemma example_maps_accepted: "FilesystemRequest_Validate (FilesystemMoveRequest example_maps) = None"
  by code_simp

theorem accepted_file_map_is_disjoint_witness:
  "validateFileMaps example_maps True False = None
   \<and> (\<nexists>t. source_tree (example_maps ! 0) t \<and> destination_tree (example_maps ! 1) t)
   \<and> (\<nexists>t. destination_tree (example_maps ! 0) t \<and> destination_tree (example_maps ! 1) t)"
proof -
  have a: "validateFileMaps example_maps True False = None" using example_maps_accepted by simp
  have l: "length example_maps = 2" by (simp add: example_maps_def)
  then have m: "example_maps ! 0 \<in> set example_maps" "example_maps ! 1 \<in> set example_maps" by auto
  from accepted_file_map_is_disjoint [of example_maps True False] a
  have c: "\<forall>m\<in>set example_maps. \<forall>n\<in>set example_maps. \<nexists>t. source_tree m t \<and> destination_tree n t"
    and p: "\<forall>i j. i < j \<longrightarrow> j < length example_maps \<longrightarrow>
      (\<nexists>t. destination_tree (example_maps ! i) t \<and> destination_tree (example_maps ! j) t)"
    by blast+
  from c m have "\<nexists>t. source_tree (example_maps ! 0) t \<and> destination_tree (example_maps ! 1) t" by blast
  moreover from p l have "\<nexists>t. destination_tree (example_maps ! 0) t \<and> destination_tree (example_maps ! 1) t" by simp
  ultimately show ?thesis using a by blast
qed

lemma swap_refused:
  "FilesystemRequest_Validate (FilesystemRenameRequest
     [\<lparr>fmap_source = example_entry ''a'', fmap_destination = \<lparr>ft_root_id = ''dl'', ft_relative_path = ''b''\<rparr>\<rparr>,
      \<lparr>fmap_source = example_entry ''b'', fmap_destination = \<lparr>ft_root_id = ''dl'', ft_relative_path = ''a''\<rparr>\<rparr>])
   = Some RequestCrossOverlap"
  by code_simp

end
