(* ===== verification/Exec_Types.thy ===== *)
theory Exec_Types
  imports Texts Encoding Slices
begin

text \<open>
  The values of the action executor (\<^verbatim>\<open>internal/execution/execution.go\<close>): errors, the journal's rows and
  the reports of handlers, with their checks.

  The executor looks at an error only through \<open>errors.Is\<close>, \<open>errors.As(*Failure)\<close> and its text, and these
  three are what an error is here; a text is kept without the values that its format prints. A raw JSON
  message is the tree of its JSON value; a nil slice and bytes that are no JSON text are values of their
  own. The instants of an action are times (\<open>None\<close> is the empty text), and the journal compares them as
  the texts that \<open>formatTime\<close> gives them.
\<close>

section \<open>Errors\<close>

datatype failure_kind =
    FailureDependency | FailureConflict | FailureInvalid | FailureUncertain | FailureCancelled

fun failure_text :: "failure_kind \<Rightarrow> string" where
  "failure_text FailureDependency = ''dependency_unavailable''"
| "failure_text FailureConflict = ''conflict''"
| "failure_text FailureInvalid = ''invalid''"
| "failure_text FailureUncertain = ''uncertain''"
| "failure_text FailureCancelled = ''cancelled''"

datatype sentinel =
    ErrNoHandler | ErrLeaseLost | ErrReservationConflict | ErrInvalidJournal | ErrNotFound | ErrNoRows
  | ContextCanceled | ContextDeadline

record exec_error =
  xx_text :: string
  xx_is :: "sentinel list"
  xx_failure :: "(failure_kind \<times> bool) option"

definition plain_error :: "string \<Rightarrow> exec_error" where
  "plain_error text = \<lparr>xx_text = text, xx_is = [], xx_failure = None\<rparr>"

definition lease_lost :: exec_error where
  "lease_lost = \<lparr>xx_text = ''execution lease was lost'', xx_is = [ErrLeaseLost], xx_failure = None\<rparr>"

definition not_found :: exec_error where
  "not_found = \<lparr>xx_text = ''execution resource was not found'', xx_is = [ErrNotFound], xx_failure = None\<rparr>"

definition no_rows :: exec_error where
  "no_rows = \<lparr>xx_text = ''sql: no rows in result set'', xx_is = [ErrNoRows], xx_failure = None\<rparr>"

definition reservation_conflict :: exec_error where
  "reservation_conflict =
     \<lparr>xx_text = ''execution reservation is held by another action'', xx_is = [ErrReservationConflict], xx_failure = None\<rparr>"

definition no_handler :: exec_error where
  "no_handler = \<lparr>xx_text = ''execution handler is not registered'', xx_is = [ErrNoHandler], xx_failure = None\<rparr>"

definition invalid_journal :: "string \<Rightarrow> exec_error" where
  "invalid_journal text =
     \<lparr>xx_text = ''execution journal is invalid: '' @ text, xx_is = [ErrInvalidJournal], xx_failure = None\<rparr>"

text \<open>\<open>fmt.Errorf("text: %w", err)\<close>.\<close>

definition wrapped :: "string \<Rightarrow> exec_error \<Rightarrow> exec_error" where
  "wrapped text e = e\<lparr>xx_text := text @ '': '' @ xx_text e\<rparr>"

definition NewFailure :: "failure_kind \<Rightarrow> exec_error \<Rightarrow> exec_error" where
  "NewFailure kind e = e\<lparr>xx_text := failure_text kind @ '': '' @ xx_text e, xx_failure := Some (kind, False)\<rparr>"

definition NewDispatchedFailure :: "failure_kind \<Rightarrow> exec_error \<Rightarrow> exec_error" where
  "NewDispatchedFailure kind e =
     e\<lparr>xx_text := failure_text kind @ '': '' @ xx_text e, xx_failure := Some (kind, True)\<rparr>"

definition failureKind :: "exec_error \<Rightarrow> failure_kind" where
  "failureKind e =
     (case xx_failure e of
        Some (kind, _) \<Rightarrow> kind
      | None \<Rightarrow>
          if ContextCanceled \<in> set (xx_is e) \<or> ContextDeadline \<in> set (xx_is e) then FailureUncertain
          else FailureInvalid)"

definition failureWasDispatched :: "exec_error \<Rightarrow> bool" where
  "failureWasDispatched e = (case xx_failure e of Some (_, dispatched) \<Rightarrow> dispatched | None \<Rightarrow> False)"

definition isNoRows :: "exec_error \<Rightarrow> bool" where
  "isNoRows e \<longleftrightarrow> ErrNoRows \<in> set (xx_is e) \<or> ErrNotFound \<in> set (xx_is e)"

section \<open>Rows and reports\<close>

datatype raw_message = RawNil | RawInvalid string | Raw json

definition json_valid :: "raw_message \<Rightarrow> bool" where
  "json_valid raw = (case raw of Raw _ \<Rightarrow> True | _ \<Rightarrow> False)"

abbreviation raw_empty :: raw_message where
  "raw_empty \<equiv> Raw (JObj [])"

datatype observe_state = ObserveSatisfied | ObserveNeedsAction | ObserveUnknown | ObserveStateOther string

datatype attempt_phase = AttemptObserve | AttemptDispatch | AttemptReconcile | AttemptPhaseOther string

datatype certainty = CertaintyNotDispatched | CertaintyKnown | CertaintyUncertain | CertaintyOther string

datatype effect_state =
    EffectPending | EffectApplied | EffectAlreadySatisfied | EffectFailed | EffectCancelled | EffectUnknown
  | EffectStateOther string

fun ObserveState_valid :: "observe_state \<Rightarrow> bool" where
  "ObserveState_valid (ObserveStateOther _) = False"
| "ObserveState_valid _ = True"

fun AttemptPhase_valid :: "attempt_phase \<Rightarrow> bool" where
  "AttemptPhase_valid (AttemptPhaseOther _) = False"
| "AttemptPhase_valid _ = True"

fun OutcomeCertainty_valid :: "certainty \<Rightarrow> bool" where
  "OutcomeCertainty_valid (CertaintyOther _) = False"
| "OutcomeCertainty_valid _ = True"

fun EffectState_valid :: "effect_state \<Rightarrow> bool" where
  "EffectState_valid (EffectStateOther _) = False"
| "EffectState_valid _ = True"

record exec_action =
  xa_id :: string
  xa_plan_id :: string
  xa_plan_revision :: int
  xa_plan_digest :: string
  xa_kind :: action_kind
  xa_state :: action_state
  xa_desired :: raw_message
  xa_next_attempt_at :: "time option"
  xa_deadline_at :: "time option"
  xa_cancelled_at :: "time option"
  xa_claimed_by :: string
  xa_lease_until :: "time option"
  xa_version :: int
  xa_outcome :: raw_message
  xa_unresolved :: int
  xa_created_at :: time
  xa_updated_at :: time

record exec_plan =
  xp_id :: string
  xp_kind :: action_kind
  xp_state :: string
  xp_revision :: int
  xp_digest :: string

record exec_attempt =
  xt_id :: string
  xt_action :: string
  xt_number :: int
  xt_phase :: attempt_phase
  xt_state :: attempt_state
  xt_started_at :: string
  xt_finished_at :: string
  xt_error_code :: string
  xt_error_detail :: string
  xt_certainty :: certainty
  xt_external_id :: string
  xt_evidence :: raw_message

record exec_effect =
  xe_id :: string
  xe_action :: string
  xe_attempt :: string
  xe_ordinal :: int
  xe_target_kind :: string
  xe_target_id :: string
  xe_kind :: string
  xe_state :: effect_state
  xe_evidence :: raw_message
  xe_observed_at :: string

record observation =
  xo_state :: observe_state
  xo_evidence :: "string list"
  xo_effects :: "exec_effect list"

text \<open>An empty outcome is \<open>EffectOutcomeOther []\<close>.\<close>

record dispatch_result =
  xd_accepted :: bool
  xd_outcome :: effect_outcome
  xd_external_id :: string
  xd_evidence :: "string list"
  xd_effects :: "exec_effect list"

record reconcile_result =
  xr_outcome :: effect_outcome
  xr_safe_to_retry :: bool
  xr_evidence :: "string list"
  xr_effects :: "exec_effect list"

abbreviation no_outcome :: effect_outcome where
  "no_outcome \<equiv> EffectOutcomeOther []"

section \<open>Checks of rows\<close>

definition Action_validate :: "exec_action \<Rightarrow> exec_error option" where
  "Action_validate a =
     (if blank (xa_id a) \<or> blank (xa_plan_id a) \<or> blank (xa_plan_digest a)
      then Some (invalid_journal ''action identity is incomplete'')
      else if xa_plan_revision a \<le> 0 \<or> xa_version a \<le> 0
      then Some (invalid_journal ''action revision/version is invalid'')
      else if \<not> ActionKind_Valid (xa_kind a) then Some (invalid_journal ''unsupported action kind'')
      else if \<not> ActionState_Valid (xa_state a) then Some (invalid_journal ''unsupported action state'')
      else if \<not> json_valid (xa_desired a) \<or> \<not> json_valid (xa_outcome a)
      then Some (invalid_journal ''action JSON is invalid'')
      else if xa_unresolved a < 0 then Some (invalid_journal ''unresolved count is negative'')
      else None)"

definition Plan_row_validate :: "exec_plan \<Rightarrow> exec_error option" where
  "Plan_row_validate p =
     (if blank (xp_id p) \<or> \<not> ActionKind_Valid (xp_kind p) \<or> blank (xp_state p)
      then Some (invalid_journal ''invalid action plan'') else None)"

definition Attempt_validate :: "exec_attempt \<Rightarrow> exec_error option" where
  "Attempt_validate t =
     (if blank (xt_id t) \<or> blank (xt_action t) \<or> xt_number t \<le> 0
      then Some (invalid_journal ''attempt identity is invalid'')
      else if \<not> AttemptPhase_valid (xt_phase t) \<or> \<not> AttemptState_Valid (xt_state t)
        \<or> \<not> OutcomeCertainty_valid (xt_certainty t)
      then Some (invalid_journal ''attempt state is invalid'')
      else if blank (xt_started_at t) \<or> \<not> json_valid (xt_evidence t)
      then Some (invalid_journal ''attempt evidence is invalid'')
      else None)"

definition Effect_validate :: "exec_effect \<Rightarrow> exec_error option" where
  "Effect_validate e =
     (if blank (xe_id e) \<or> blank (xe_action e) \<or> xe_ordinal e < 0 \<or> blank (xe_target_kind e)
        \<or> blank (xe_target_id e) \<or> blank (xe_kind e)
      then Some (invalid_journal ''effect identity is invalid'')
      else if \<not> EffectState_valid (xe_state e) \<or> \<not> json_valid (xe_evidence e) \<or> blank (xe_observed_at e)
      then Some (invalid_journal ''effect evidence is invalid'')
      else None)"

end
