(* ===== verification/Exec_Effects.thy ===== *)
theory Exec_Effects
  imports Exec_Types
begin

text \<open>
  Effects: what a handler reports for the exact targets of an action, the checks of its reports, and when
  a report describes exactly the approved targets. \<open>normalizeReportedEffects\<close> changes the slice of its
  caller in place, so a caller goes on with the normalized effects.
\<close>

section \<open>Reported effects\<close>

definition normalize_effect :: "string \<Rightarrow> nat \<Rightarrow> exec_effect \<Rightarrow> exec_effect" where
  "normalize_effect actionID index e =
     e\<lparr>xe_action := (if xe_action e = [] then actionID else xe_action e),
       xe_ordinal := (if xe_ordinal e < 0 then int index else xe_ordinal e),
       xe_state := (if xe_state e = EffectStateOther [] then EffectPending else xe_state e),
       xe_evidence := (if xe_evidence e = RawNil then raw_empty else xe_evidence e),
       xe_observed_at := (if xe_observed_at e = [] then ''execution-observation'' else xe_observed_at e)\<rparr>"

definition normalizeReportedEffects :: "exec_effect list \<Rightarrow> string \<Rightarrow> exec_effect list" where
  "normalizeReportedEffects effects actionID =
     map (\<lambda>(index, e). normalize_effect actionID index e) (enumerate 0 effects)"

definition effectIdentity :: "exec_effect \<Rightarrow> string" where
  "effectIdentity e = join_with [CHR 0x00] [xe_target_kind e, xe_target_id e, xe_kind e]"

definition validateReportedEffect :: "exec_effect \<Rightarrow> string \<Rightarrow> exec_error option" where
  "validateReportedEffect e actionID =
     (if blank (xe_action e) \<or> xe_action e \<noteq> actionID \<or> xe_ordinal e < 0 \<or> blank (xe_target_kind e)
        \<or> blank (xe_target_id e) \<or> blank (xe_kind e)
      then Some (invalid_journal ''effect identity is invalid'')
      else if \<not> EffectState_valid (xe_state e) \<or> \<not> json_valid (xe_evidence e) \<or> blank (xe_observed_at e)
      then Some (invalid_journal ''effect evidence is invalid'')
      else None)"

text \<open>The defaults the loop fills in again; an ordinal below zero is left to the check.\<close>

definition filled :: "string \<Rightarrow> exec_effect \<Rightarrow> exec_effect" where
  "filled actionID e =
     e\<lparr>xe_state := (if xe_state e = EffectStateOther [] then EffectPending else xe_state e),
       xe_evidence := (if xe_evidence e = RawNil then raw_empty else xe_evidence e),
       xe_observed_at := (if xe_observed_at e = [] then ''execution-observation'' else xe_observed_at e)\<rparr>"

fun validate_effects_loop ::
  "string \<Rightarrow> int list \<Rightarrow> string list \<Rightarrow> exec_effect list \<Rightarrow> exec_error option" where
  "validate_effects_loop actionID seen seenIdentity [] = None"
| "validate_effects_loop actionID seen seenIdentity (e0 # rest) =
     (let e1 = (if xe_action e0 = [] then e0\<lparr>xe_action := actionID\<rparr> else e0) in
      if xe_action e1 \<noteq> actionID then Some (invalid_journal ''effect belongs to another action'')
      else
        let e = filled actionID e1 in
        case validateReportedEffect e actionID of
          Some err \<Rightarrow> Some (wrapped ''effect'' err)
        | None \<Rightarrow>
            if List.member seen (xe_ordinal e) then Some (invalid_journal ''duplicate effect ordinal'')
            else if List.member seenIdentity (effectIdentity e)
            then Some (invalid_journal ''duplicate effect identity'')
            else validate_effects_loop actionID (xe_ordinal e # seen) (effectIdentity e # seenIdentity) rest)"

definition validateEffects :: "exec_effect list \<Rightarrow> string \<Rightarrow> exec_error option" where
  "validateEffects effects actionID = validate_effects_loop actionID [] [] effects"

definition effectStateForOutcome :: "effect_outcome \<Rightarrow> effect_state" where
  "effectStateForOutcome outcome =
     (if outcome = OutcomeAlreadySatisfied then EffectAlreadySatisfied else EffectApplied)"

definition validatePlannedEffectStates :: "exec_effect list \<Rightarrow> exec_error option" where
  "validatePlannedEffectStates effects =
     (if list_all (\<lambda>e. xe_state e = EffectPending \<or> xe_state e = EffectApplied \<or> xe_state e = EffectAlreadySatisfied)
           effects
      then None else Some (invalid_journal ''effect state cannot be dispatched''))"

definition validateEffectStates :: "exec_effect list \<Rightarrow> effect_state \<Rightarrow> exec_error option" where
  "validateEffectStates effects expected =
     (case expected of
        EffectPending \<Rightarrow>
          if list_all (\<lambda>e. xe_state e = EffectPending) effects then None
          else Some (invalid_journal ''effect state contradicts safe retry'')
      | EffectUnknown \<Rightarrow> None
      | _ \<Rightarrow>
          if expected = EffectApplied \<or> expected = EffectAlreadySatisfied then
            if list_all (\<lambda>e. xe_state e = EffectPending \<or> xe_state e = EffectApplied
                            \<or> xe_state e = EffectAlreadySatisfied) effects
            then None else Some (invalid_journal ''effect state contradicts terminal outcome'')
          else if effects = [] then None
          else Some (invalid_journal ''unsupported expected effect state''))"

section \<open>Reports\<close>

definition Observation_validate :: "observation \<Rightarrow> string \<Rightarrow> exec_error option" where
  "Observation_validate ob actionID =
     (if \<not> ObserveState_valid (xo_state ob) then Some (invalid_journal ''invalid observation state'')
      else
        let effects = normalizeReportedEffects (xo_effects ob) actionID in
        case validateEffects effects actionID of
          Some e \<Rightarrow> Some e
        | None \<Rightarrow>
            if xo_state ob = ObserveNeedsAction then
              if effects = [] then Some (invalid_journal ''needs-action observation must identify at least one effect'')
              else validatePlannedEffectStates effects
            else if xo_state ob = ObserveSatisfied then validateEffectStates effects EffectAlreadySatisfied
            else None)"

definition DispatchResult_validate :: "dispatch_result \<Rightarrow> string \<Rightarrow> exec_error option" where
  "DispatchResult_validate r actionID =
     (if \<not> xd_accepted r \<or> \<not> EffectOutcome_Valid (xd_outcome r)
      then Some (invalid_journal ''dispatch result must state accepted and valid outcome'')
      else
        let effects = normalizeReportedEffects (xd_effects r) actionID in
        case validateEffects effects actionID of
          Some e \<Rightarrow> Some e
        | None \<Rightarrow> validateEffectStates effects (effectStateForOutcome (xd_outcome r)))"

definition ReconcileResult_validate :: "reconcile_result \<Rightarrow> string \<Rightarrow> exec_error option" where
  "ReconcileResult_validate r actionID =
     (if xr_safe_to_retry r \<and> EffectOutcome_Valid (xr_outcome r)
      then Some (invalid_journal ''reconciliation cannot be both safe-to-retry and terminal'')
      else if \<not> xr_safe_to_retry r \<and> xr_outcome r \<noteq> no_outcome \<and> \<not> EffectOutcome_Valid (xr_outcome r)
      then Some (invalid_journal ''reconciliation outcome is invalid'')
      else
        let effects = normalizeReportedEffects (xr_effects r) actionID in
        case validateEffects effects actionID of
          Some e \<Rightarrow> Some e
        | None \<Rightarrow>
            if EffectOutcome_Valid (xr_outcome r) \<and> effects = []
            then Some (invalid_journal ''terminal reconciliation must identify every effect'')
            else if xr_safe_to_retry r then validateEffectStates effects EffectPending
            else if EffectOutcome_Valid (xr_outcome r)
            then validateEffectStates effects (effectStateForOutcome (xr_outcome r))
            else None)"

section \<open>The approved targets\<close>

text \<open>A Go map filled in the order of a list: the last entry of a key stays.\<close>

definition by_key :: "('a \<Rightarrow> 'k) \<Rightarrow> 'a list \<Rightarrow> 'k \<Rightarrow> 'a option" where
  "by_key key xs k = find (\<lambda>x. key x = k) (rev xs)"

fun set_errors :: "exec_effect list \<Rightarrow> exec_effect list \<Rightarrow> exec_error option" where
  "set_errors expected [] = None"
| "set_errors expected (e # rest) =
     (case by_key effectIdentity expected (effectIdentity e) of
        None \<Rightarrow> Some (invalid_journal ''unapproved effect target'')
      | Some approved \<Rightarrow>
          if xe_ordinal approved \<noteq> xe_ordinal e then Some (invalid_journal ''effect target changed ordinal'')
          else set_errors expected rest)"

definition validateEffectSet :: "exec_effect list \<Rightarrow> exec_effect list \<Rightarrow> string \<Rightarrow> exec_error option" where
  "validateEffectSet expected0 reported0 actionID =
     (let expected = normalizeReportedEffects expected0 actionID;
          reported = normalizeReportedEffects reported0 actionID in
      case validateEffects expected actionID of
        Some e \<Rightarrow> Some (wrapped ''approved effects'' e)
      | None \<Rightarrow>
      (case validateEffects reported actionID of
         Some e \<Rightarrow> Some (wrapped ''reported effects'' e)
       | None \<Rightarrow>
           if length expected \<noteq> length reported
           then Some (invalid_journal ''effect set has another number of reported targets'')
           else set_errors expected reported))"

definition effectSetMismatch :: "exec_effect list \<Rightarrow> exec_effect list \<Rightarrow> string \<Rightarrow> bool" where
  "effectSetMismatch expected reported actionID \<longleftrightarrow> validateEffectSet expected reported actionID \<noteq> None"

definition effectForOutcome :: "effect_outcome \<Rightarrow> effect_state" where
  "effectForOutcome outcome =
     (if outcome = OutcomeAlreadySatisfied then EffectAlreadySatisfied
      else if outcome = OutcomeApplied then EffectApplied
      else EffectUnknown)"

definition unresolvedEffectCount :: "exec_effect list \<Rightarrow> bool \<Rightarrow> int" where
  "unresolvedEffectCount effects includePending =
     int (length (filter (\<lambda>e. xe_state e = EffectUnknown \<or> xe_state e = EffectFailed \<or> xe_state e = EffectCancelled
                              \<or> includePending \<and> xe_state e = EffectPending) effects))"

section \<open>Facts\<close>

text \<open>What the check of reported effects establishes.\<close>

definition effects_apart :: "exec_effect list \<Rightarrow> bool" where
  "effects_apart es \<longleftrightarrow> distinct (map xe_ordinal es) \<and> distinct (map effectIdentity es)"

lemma filled_keys [simp]:
  "xe_ordinal (filled a e) = xe_ordinal e" "xe_action (filled a e) = xe_action e"
  "effectIdentity (filled a e) = effectIdentity e"
  by (simp_all add: filled_def effectIdentity_def)

lemma action_keys [simp]: "effectIdentity (e\<lparr>xe_action := a\<rparr>) = effectIdentity e"
  by (simp add: effectIdentity_def)

lemma validate_effects_loop_apart:
  "validate_effects_loop actionID seen ids es = None \<Longrightarrow>
     effects_apart es \<and> set (map xe_ordinal es) \<inter> set seen = {} \<and> set (map effectIdentity es) \<inter> set ids = {}
     \<and> (\<forall>e\<in>set es. 0 \<le> xe_ordinal e)"
proof (induction es arbitrary: seen ids)
  case Nil
  then show ?case by (simp add: effects_apart_def)
next
  case (Cons e0 rest)
  let ?e = "filled actionID (if xe_action e0 = [] then e0\<lparr>xe_action := actionID\<rparr> else e0)"
  have k: "xe_ordinal ?e = xe_ordinal e0" "effectIdentity ?e = effectIdentity e0" by simp_all
  from Cons.prems have v: "validateReportedEffect ?e actionID = None"
    and n: "xe_ordinal e0 \<notin> set seen" "effectIdentity e0 \<notin> set ids"
    and r: "validate_effects_loop actionID (xe_ordinal e0 # seen) (effectIdentity e0 # ids) rest = None"
    by (auto simp: Let_def k split: if_splits option.splits)
  from v have "0 \<le> xe_ordinal e0" by (auto simp: validateReportedEffect_def k split: if_splits)
  with Cons.IH [OF r] n show ?case by (auto simp: effects_apart_def)
qed

lemma validateEffects_apart: "validateEffects es actionID = None \<Longrightarrow> effects_apart es \<and> (\<forall>e\<in>set es. 0 \<le> xe_ordinal e)"
  unfolding validateEffects_def using validate_effects_loop_apart by blast

lemma by_key_Some: "by_key key xs k = Some x \<Longrightarrow> x \<in> set xs \<and> key x = k"
  by (auto simp: by_key_def find_Some_iff) (metis nth_mem length_rev set_rev)

lemma set_errors_None:
  "set_errors expected reported = None \<Longrightarrow>
     \<forall>e\<in>set reported. \<exists>a\<in>set expected. effectIdentity a = effectIdentity e \<and> xe_ordinal a = xe_ordinal e"
proof (induction reported)
  case Nil
  then show ?case by simp
next
  case (Cons e rest)
  then obtain a where "by_key effectIdentity expected (effectIdentity e) = Some a" "xe_ordinal a = xe_ordinal e"
    "set_errors expected rest = None"
    by (auto split: option.splits if_splits)
  with Cons.IH show ?case using by_key_Some by (metis set_ConsD)
qed

text \<open>The targets of a list of effects: identity with ordinal.\<close>

definition targets :: "exec_effect list \<Rightarrow> (string \<times> int) set" where
  "targets es = (\<lambda>e. (effectIdentity e, xe_ordinal e)) ` set es"

lemma effect_set_exact:
  assumes "validateEffectSet expected reported actionID = None"
  shows "targets (normalizeReportedEffects expected actionID) = targets (normalizeReportedEffects reported actionID)"
proof -
  let ?x = "normalizeReportedEffects expected actionID" and ?r = "normalizeReportedEffects reported actionID"
  from assms have vx: "validateEffects ?x actionID = None" and vr: "validateEffects ?r actionID = None"
    and l: "length ?x = length ?r" and s: "set_errors ?x ?r = None"
    by (auto simp: validateEffectSet_def Let_def split: option.splits if_splits)
  have d: "distinct (map effectIdentity ?x)" "distinct (map effectIdentity ?r)"
    using validateEffects_apart [OF vx] validateEffects_apart [OF vr] by (auto simp: effects_apart_def)
  let ?key = "\<lambda>e. (effectIdentity e, xe_ordinal e)"
  have dk: "distinct (map ?key ?x)" "distinct (map ?key ?r)"
    using d by (auto simp: distinct_map inj_on_def)
  have sub: "set (map ?key ?r) \<subseteq> set (map ?key ?x)"
  proof
    fix p assume "p \<in> set (map ?key ?r)"
    then obtain e where "e \<in> set ?r" "p = ?key e" by auto
    with set_errors_None [OF s] obtain a where "a \<in> set ?x" "p = ?key a" by metis
    then show "p \<in> set (map ?key ?x)" by simp
  qed
  have "card (set (map ?key ?r)) = card (set (map ?key ?x))"
    using distinct_card [OF dk(1)] distinct_card [OF dk(2)] l by simp
  then have "set (map ?key ?r) = set (map ?key ?x)" using sub by (simp add: card_subset_eq)
  then show ?thesis by (simp add: targets_def)
qed

end
