(* ===== verification/Exec_Reservations.thy ===== *)
theory Exec_Reservations
  imports Exec_Types Go_Library "HOL-Library.AList"
begin

text \<open>
  Reservations (\<^verbatim>\<open>internal/execution/execution.go\<close>): canonical resource keys, when two keys conflict, and
  the table of one executor process that says which action holds which key. A Go map is the list of its
  entries; the answer of a range over it that only looks for an entry does not depend on its order.
\<close>

section \<open>Keys\<close>

definition reservationNamespace :: "string \<Rightarrow> string \<times> string" where
  "reservationNamespace v =
     (case find_index (\<lambda>c. c = CHR '':'') v of
        None \<Rightarrow> ([], v)
      | Some i \<Rightarrow> (take i v, trim_prefix ''/'' (drop (Suc i) v)))"

definition pathReservationConflicts :: "string \<Rightarrow> string \<Rightarrow> bool" where
  "pathReservationConflicts left0 right0 =
     (let left = trim_suffix ''/'' (trim_space left0); right = trim_suffix ''/'' (trim_space right0) in
      if left = [] \<or> right = [] then True
      else left = right \<or> has_prefix (right @ ''/'') left \<or> has_prefix (left @ ''/'') right)"

definition reservationConflicts :: "string \<Rightarrow> string \<Rightarrow> bool" where
  "reservationConflicts left0 right0 =
     (let left = trim_space left0; right = trim_space right0 in
      if left = [] \<or> right = [] then False
      else if left = right then True
      else
        let (leftNamespace, leftPath) = reservationNamespace left;
            (rightNamespace, rightPath) = reservationNamespace right in
        if leftNamespace \<noteq> rightNamespace \<or> leftNamespace = [] then False
        else pathReservationConflicts leftPath rightPath)"

fun canonical_loop :: "string list \<Rightarrow> string list \<Rightarrow> string list" where
  "canonical_loop seen [] = []"
| "canonical_loop seen (k0 # rest) =
     (let key = trim_space k0 in
      if key = [] then canonical_loop seen rest
      else if List.member seen key then canonical_loop seen rest
      else key # canonical_loop (key # seen) rest)"

definition canonicalReservationKeys :: "string list \<Rightarrow> string list" where
  "canonicalReservationKeys keys = sort (canonical_loop [] keys)"

section \<open>The table of a process\<close>

type_synonym key_table = "(string \<times> string) list"

definition acquireReservations ::
  "string \<Rightarrow> string list \<Rightarrow> key_table \<Rightarrow> key_table \<times> (exec_error + string list)" where
  "acquireReservations actionID canonical table =
     (if list_ex (\<lambda>key. list_ex (\<lambda>(existing, holder). holder \<noteq> actionID \<and> reservationConflicts existing key) table)
           canonical
      then (table, Inl reservation_conflict)
      else (foldl (\<lambda>t key. AList.update key actionID t) table canonical, Inr canonical))"

definition releaseReservations :: "string list \<Rightarrow> string \<Rightarrow> key_table \<Rightarrow> key_table" where
  "releaseReservations keys actionID table =
     foldl (\<lambda>t key. if map_of t key = Some actionID then AList.delete key t else t) table keys"

definition releaseReservationsForAction :: "string \<Rightarrow> key_table \<Rightarrow> key_table" where
  "releaseReservationsForAction actionID table = filter (\<lambda>(key, holder). holder \<noteq> actionID) table"

definition retainsLocalReservation :: "action_state \<Rightarrow> bool" where
  "retainsLocalReservation s \<longleftrightarrow> s = ActionReconciling \<or> s = ActionNeedsReview"

section \<open>Facts about keys\<close>

declare trim_space_idem [simp]

lemma path_conflicts_sym: "pathReservationConflicts a b = pathReservationConflicts b a"
  by (auto simp: pathReservationConflicts_def Let_def)

lemma reservationConflicts_sym: "reservationConflicts a b = reservationConflicts b a"
  by (cases "reservationNamespace (trim_space a)"; cases "reservationNamespace (trim_space b)")
    (auto simp: reservationConflicts_def Let_def path_conflicts_sym)

lemma reservationConflicts_self: "\<not> blank k \<Longrightarrow> reservationConflicts k k"
  by (simp add: reservationConflicts_def)

lemma canonical_loop_spec:
  "set (canonical_loop seen ks) = {trim_space k |k. k \<in> set ks \<and> \<not> blank k} - set seen \<and> distinct (canonical_loop seen ks)"
proof (induction seen ks rule: canonical_loop.induct)
  case (1 seen)
  then show ?case by simp
next
  case (2 seen k0 rest)
  show ?case
  proof (cases "trim_space k0 = []")
    case True
    then show ?thesis using 2 by (auto simp: Let_def)
  next
    case False
    show ?thesis
    proof (cases "trim_space k0 \<in> set seen")
      case True
      then show ?thesis using 2 False by (auto simp: Let_def)
    next
      case f: False
      then show ?thesis using 2(3) False by (auto simp: Let_def)
    qed
  qed
qed

lemma canonical_keys:
  "set (canonicalReservationKeys ks) = {trim_space k |k. k \<in> set ks \<and> \<not> blank k}"
  "distinct (canonicalReservationKeys ks)" "sorted (canonicalReservationKeys ks)"
  using canonical_loop_spec [of "[]" ks] by (auto simp: canonicalReservationKeys_def)

lemma canonical_key_nonblank: "k \<in> set (canonicalReservationKeys ks) \<Longrightarrow> \<not> blank k"
  by (auto simp: canonical_keys)

section \<open>The table keeps conflicting keys apart\<close>

definition keys_apart :: "key_table \<Rightarrow> bool" where
  "keys_apart t \<longleftrightarrow>
     distinct (map fst t)
     \<and> (\<forall>(k, a)\<in>set t. \<forall>(l, b)\<in>set t. a \<noteq> b \<longrightarrow> \<not> reservationConflicts k l)"

lemma set_update_alist:
  "distinct (map fst t) \<Longrightarrow> set (AList.update k a t) = {(l, b) \<in> set t. l \<noteq> k} \<union> {(k, a)}"
  by (induction t) (auto simp: image_iff)

lemma update_keeps_apart:
  assumes "keys_apart t" and "\<not> blank k"
    and "\<forall>(l, b)\<in>set t. b \<noteq> a \<longrightarrow> \<not> reservationConflicts l k"
  shows "keys_apart (AList.update k a t)"
proof -
  have d: "distinct (map fst t)" using assms(1) by (simp add: keys_apart_def)
  show ?thesis
    using assms reservationConflicts_sym
    unfolding keys_apart_def set_update_alist [OF d]
    by (auto simp: distinct_update d)
qed

lemma acquire_loop:
  assumes "keys_apart t" and "\<forall>k\<in>set ks. \<not> blank k"
    and "\<forall>k\<in>set ks. \<forall>(l, b)\<in>set t. b \<noteq> a \<longrightarrow> \<not> reservationConflicts l k"
  shows "keys_apart (foldl (\<lambda>t key. AList.update key a t) t ks)
    \<and> (\<forall>k\<in>set ks. map_of (foldl (\<lambda>t key. AList.update key a t) t ks) k = Some a)
    \<and> (\<forall>k. map_of t k = Some a \<longrightarrow> map_of (foldl (\<lambda>t key. AList.update key a t) t ks) k = Some a)"
  using assms
proof (induction ks arbitrary: t)
  case Nil
  then show ?case by simp
next
  case (Cons k ks)
  have d: "distinct (map fst t)" using Cons.prems(1) by (simp add: keys_apart_def)
  have s: "set (AList.update k a t) = {(l, b) \<in> set t. l \<noteq> k} \<union> {(k, a)}" by (rule set_update_alist [OF d])
  have "keys_apart (AList.update k a t)" using update_keeps_apart Cons.prems by auto
  moreover have "\<forall>k'\<in>set ks. \<forall>(l, b)\<in>set (AList.update k a t). b \<noteq> a \<longrightarrow> \<not> reservationConflicts l k'"
    using Cons.prems(3) by (auto simp: s)
  ultimately have ih: "keys_apart (foldl (\<lambda>t key. AList.update key a t) (AList.update k a t) ks)"
    "\<forall>k'\<in>set ks. map_of (foldl (\<lambda>t key. AList.update key a t) (AList.update k a t) ks) k' = Some a"
    "\<forall>k'. map_of (AList.update k a t) k' = Some a
       \<longrightarrow> map_of (foldl (\<lambda>t key. AList.update key a t) (AList.update k a t) ks) k' = Some a"
    using Cons.IH [of "AList.update k a t"] Cons.prems(2) by auto
  then show ?case by (auto simp: update_conv)
qed

lemma acquire_keeps:
  assumes "keys_apart t" and "acquireReservations a (canonicalReservationKeys ks) t = (t', r)"
  shows "keys_apart t'"
    and "r = Inr held \<Longrightarrow> held = canonicalReservationKeys ks \<and> (\<forall>k\<in>set held. map_of t' k = Some a)"
proof -
  let ?ks = "canonicalReservationKeys ks"
  have b: "\<forall>k\<in>set ?ks. \<not> blank k" using canonical_key_nonblank by blast
  have "keys_apart t' \<and> (r = Inr held \<longrightarrow> held = ?ks \<and> (\<forall>k\<in>set held. map_of t' k = Some a))"
  proof (cases "list_ex (\<lambda>key. list_ex (\<lambda>(existing, holder). holder \<noteq> a \<and> reservationConflicts existing key) t) ?ks")
    case True
    then show ?thesis using assms by (auto simp: acquireReservations_def)
  next
    case False
    then have "\<forall>k\<in>set ?ks. \<forall>(l, b)\<in>set t. b \<noteq> a \<longrightarrow> \<not> reservationConflicts l k"
      by (auto simp: list_ex_iff)
    from acquire_loop [OF assms(1) b this] False assms(2) show ?thesis
      by (auto simp: acquireReservations_def)
  qed
  then show "keys_apart t'" and "r = Inr held \<Longrightarrow> held = ?ks \<and> (\<forall>k\<in>set held. map_of t' k = Some a)"
    by blast+
qed

lemma apart_subset:
  assumes "keys_apart t" and "set u \<subseteq> set t" and "distinct (map fst u)"
  shows "keys_apart u"
proof -
  have "a \<noteq> b \<longrightarrow> \<not> reservationConflicts k l" if "(k, a) \<in> set u" "(l, b) \<in> set u" for k a l b
  proof -
    have "(k, a) \<in> set t" "(l, b) \<in> set t" using that assms(2) by auto
    then show ?thesis using assms(1) unfolding keys_apart_def by fast
  qed
  then show ?thesis using assms(3) unfolding keys_apart_def by fast
qed

lemma delete_keeps:
  assumes "keys_apart t" shows "keys_apart (AList.delete k t)"
proof (rule apart_subset [OF assms])
  show "set (AList.delete k t) \<subseteq> set t" by (simp add: AList.delete_eq)
  show "distinct (map fst (AList.delete k t))" using assms by (simp add: keys_apart_def distinct_delete)
qed

lemma release_keeps: "keys_apart t \<Longrightarrow> keys_apart (releaseReservations ks a t)"
  unfolding releaseReservations_def by (induction ks arbitrary: t) (auto simp: delete_keeps)

lemma release_all_keeps:
  assumes "keys_apart t" shows "keys_apart (releaseReservationsForAction a t)"
proof (rule apart_subset [OF assms])
  show "set (releaseReservationsForAction a t) \<subseteq> set t" by (simp add: releaseReservationsForAction_def)
  show "distinct (map fst (releaseReservationsForAction a t))"
    using assms unfolding releaseReservationsForAction_def keys_apart_def by (metis distinct_map_filter)
qed

text \<open>The tables a process reaches: actions acquire canonical keys, release some keys, or release all.\<close>

inductive table_reached :: "key_table \<Rightarrow> bool" where
  reached_start: "table_reached []"
| reached_acquire:
    "table_reached t \<Longrightarrow> acquireReservations a (canonicalReservationKeys ks) t = (t', r) \<Longrightarrow> table_reached t'"
| reached_release: "table_reached t \<Longrightarrow> table_reached (releaseReservations ks a t)"
| reached_release_all: "table_reached t \<Longrightarrow> table_reached (releaseReservationsForAction a t)"

lemma reached_apart: "table_reached t \<Longrightarrow> keys_apart t"
  by (induction rule: table_reached.induct)
    (auto simp: release_keeps release_all_keeps intro: acquire_keeps(1), simp add: keys_apart_def)

text \<open>
  C9: In every table a process reaches, by acquiring and releasing in any order, two keys that conflict
  (equal keys, or paths of one namespace of which one lies below the other) are held by the same action,
  and a successful acquisition gives the action every key it asked for.
\<close>

theorem conflicting_keys_have_one_holder:
  assumes "table_reached t"
  shows "(map_of t k = Some a \<and> map_of t l = Some b \<and> reservationConflicts k l \<longrightarrow> a = b)
    \<and> (acquireReservations c (canonicalReservationKeys ks) t = (t', Inr held) \<longrightarrow>
         (\<forall>key\<in>set ks. \<not> blank key \<longrightarrow> map_of t' (trim_space key) = Some c))"
proof (intro conjI impI)
  have ap: "keys_apart t" using assms by (rule reached_apart)
  assume "map_of t k = Some a \<and> map_of t l = Some b \<and> reservationConflicts k l"
  then have "(k, a) \<in> set t" "(l, b) \<in> set t" "reservationConflicts k l" by (auto dest: map_of_SomeD)
  then show "a = b" using ap unfolding keys_apart_def by fast
next
  assume a: "acquireReservations c (canonicalReservationKeys ks) t = (t', Inr held)"
  from acquire_keeps(2) [OF reached_apart [OF assms] a refl]
  show "\<forall>key\<in>set ks. \<not> blank key \<longrightarrow> map_of t' (trim_space key) = Some c"
    by (auto simp: canonical_keys)
qed

definition example_keys :: "string list" where
  "example_keys = ['' path:tv/Show/S1'', ''path:tv/Show'']"

definition example_table :: key_table where
  "example_table = fst (acquireReservations ''a1'' (canonicalReservationKeys example_keys) [])"

lemma example_table_value: "example_table = [(''path:tv/Show'', ''a1''), (''path:tv/Show/S1'', ''a1'')]"
  by code_simp

theorem conflicting_keys_have_one_holder_witness:
  "reservationConflicts ''path:tv/Show'' ''path:tv/Show/S1''
   \<and> map_of example_table ''path:tv/Show'' = map_of example_table ''path:tv/Show/S1''"
proof -
  have "table_reached example_table"
    unfolding example_table_def by (rule reached_acquire [OF reached_start]) (simp add: prod_eq_iff)
  moreover have c: "reservationConflicts ''path:tv/Show'' ''path:tv/Show/S1''" by code_simp
  moreover obtain a b where ab: "map_of example_table ''path:tv/Show'' = Some a"
    "map_of example_table ''path:tv/Show/S1'' = Some b"
    by (simp add: example_table_value)
  ultimately have "a = b" using conflicting_keys_have_one_holder by blast
  then show ?thesis using ab c by simp
qed

text \<open>An action below a held path is refused; a name that only starts alike is not.\<close>

lemma descendant_refused:
  "snd (acquireReservations ''a2'' (canonicalReservationKeys [''path:tv/Show/S1/e1.mkv'']) example_table)
     = Inl reservation_conflict
   \<and> snd (acquireReservations ''a2'' (canonicalReservationKeys [''path:tv/Show2'']) example_table) = Inr [''path:tv/Show2'']"
  by code_simp

end
