(* ===== verification/Exec_Journal.thy ===== *)
theory Exec_Journal
  imports Exec_Effects Exec_Reservations
begin

text \<open>
  The journal of the executor: \<open>SQLJournal\<close> (\<^verbatim>\<open>internal/execution/execution.go\<close>) over the rows of
  \<open>action_runs\<close>, \<open>action_plans\<close>, \<open>action_attempts\<close> and \<open>action_effects\<close>, each method with the statement it
  runs (\<^verbatim>\<open>internal/storage/query.sql\<close>). The kind of an action is that of its plan. A statement compares
  two instants as the texts \<open>formatTime\<close> gives them.
\<close>

section \<open>Rows\<close>

record exec_db =
  db_runs :: "exec_action list"
  db_plans :: "exec_plan list"
  db_attempts :: "exec_attempt list"
  db_effects :: "exec_effect list"
  db_purge_bound :: "string list"

text \<open>
  A step inside a transaction, which an error rolls back; and a statement of its own, whose change stays
  when the adapter then refuses a row.
\<close>

type_synonym 'a tx = "exec_db \<Rightarrow> exec_error + (exec_db \<times> 'a)"

type_synonym 'a statement = "exec_db \<Rightarrow> exec_db \<times> (exec_error + 'a)"

definition stored_le :: "time \<Rightarrow> time \<Rightarrow> bool" where
  "stored_le a b \<longleftrightarrow> format_time a \<le> format_time b"

definition none_or_le :: "time option \<Rightarrow> time \<Rightarrow> bool" where
  "none_or_le column now = (case column of None \<Rightarrow> True | Some t \<Rightarrow> stored_le t now)"

definition none_or_after :: "time option \<Rightarrow> time \<Rightarrow> bool" where
  "none_or_after column now = (case column of None \<Rightarrow> True | Some t \<Rightarrow> \<not> stored_le t now)"

definition run_of :: "string \<Rightarrow> exec_db \<Rightarrow> exec_action option" where
  "run_of aid db = find (\<lambda>r. xa_id r = aid) (db_runs db)"

definition actionFromSQL :: "exec_action \<Rightarrow> exec_db \<Rightarrow> exec_error + exec_action" where
  "actionFromSQL run db =
     (case find (\<lambda>p. xp_id p = xa_plan_id run) (db_plans db) of
        None \<Rightarrow> Inl no_rows
      | Some plan \<Rightarrow>
          if \<not> ActionKind_Valid (xp_kind plan) then Inl (invalid_journal ''unsupported action kind'')
          else
            let action = run\<lparr>xa_kind := xp_kind plan\<rparr> in
            case Action_validate action of Some e \<Rightarrow> Inl e | None \<Rightarrow> Inr action)"

definition GetAction :: "string \<Rightarrow> exec_action tx" where
  "GetAction aid db =
     (case run_of aid db of
        None \<Rightarrow> Inl not_found
      | Some run \<Rightarrow> map_sum (\<lambda>e. e) (Pair db) (actionFromSQL run db))"

definition GetPlan :: "string \<Rightarrow> exec_plan tx" where
  "GetPlan aid db =
     (case find (\<lambda>p. xp_id p = aid) (db_plans db) of
        None \<Rightarrow> Inl not_found
      | Some plan \<Rightarrow>
          if \<not> ActionKind_Valid (xp_kind plan) then Inl (invalid_journal ''unsupported action kind'')
          else case Plan_row_validate plan of Some e \<Rightarrow> Inl e | None \<Rightarrow> Inr (db, plan))"

definition set_run :: "string \<Rightarrow> (exec_action \<Rightarrow> exec_action) \<Rightarrow> exec_db \<Rightarrow> exec_db" where
  "set_run aid f db = db\<lparr>db_runs := map (\<lambda>r. if xa_id r = aid then f r else r) (db_runs db)\<rparr>"

section \<open>Claims\<close>

definition claimable :: "exec_action \<Rightarrow> time \<Rightarrow> exec_db \<Rightarrow> bool" where
  "claimable r now db \<longleftrightarrow>
     (xa_state r = ActionQueued \<or> xa_state r = ActionWaitingDependency \<or> xa_state r = ActionReconciling)
     \<and> xa_cancelled_at r = None
     \<and> none_or_le (xa_next_attempt_at r) now
     \<and> none_or_after (xa_deadline_at r) now
     \<and> (xa_claimed_by r = [] \<or> none_or_le (xa_lease_until r) now)
     \<and> \<not> List.member (db_purge_bound db) (xa_id r)"

definition Claim :: "string \<Rightarrow> int \<Rightarrow> string \<Rightarrow> time \<Rightarrow> time \<Rightarrow> exec_action statement" where
  "Claim aid version worker leaseUntil now db =
     (case run_of aid db of
        None \<Rightarrow> (db, Inl no_rows)
      | Some r \<Rightarrow>
          if xa_version r \<noteq> version \<or> \<not> claimable r now db then (db, Inl no_rows)
          else
            let claimed = r\<lparr>xa_state := ActionRunning, xa_claimed_by := worker, xa_lease_until := Some leaseUntil,
                            xa_version := xa_version r + 1, xa_updated_at := now\<rparr>;
                db' = set_run aid (\<lambda>_. claimed) db
            in (db', actionFromSQL claimed db'))"

text \<open>The actions a worker polls, in the order of the instant they wait for.\<close>

definition polled :: "(exec_action \<Rightarrow> bool) \<Rightarrow> nat \<Rightarrow> exec_db \<Rightarrow> exec_action list" where
  "polled P limit db =
     take limit (sort_key (\<lambda>r. [format_time (case xa_next_attempt_at r of None \<Rightarrow> xa_created_at r | Some t \<Rightarrow> t),
                               format_time (xa_created_at r), xa_id r])
       (filter P (db_runs db)))"

definition stopped_or_due :: "exec_action \<Rightarrow> time \<Rightarrow> bool" where
  "stopped_or_due r now \<longleftrightarrow>
     xa_cancelled_at r \<noteq> None \<or> xa_deadline_at r \<noteq> None \<and> none_or_le (xa_deadline_at r) now
     \<or> none_or_le (xa_next_attempt_at r) now"

definition reconciling_due :: "time \<Rightarrow> exec_db \<Rightarrow> exec_action \<Rightarrow> bool" where
  "reconciling_due now db r \<longleftrightarrow>
     xa_state r = ActionReconciling \<and> stopped_or_due r now
     \<and> (xa_claimed_by r = [] \<or> none_or_le (xa_lease_until r) now)
     \<and> \<not> List.member (db_purge_bound db) (xa_id r)"

text \<open>Rows through the adapter, up to the first it refuses.\<close>

fun collect_sum :: "('a \<Rightarrow> exec_error + 'b) \<Rightarrow> 'a list \<Rightarrow> exec_error + 'b list" where
  "collect_sum f [] = Inr []"
| "collect_sum f (x # xs) =
     (case f x of
        Inl e \<Rightarrow> Inl e
      | Inr y \<Rightarrow> map_sum (\<lambda>e. e) (Cons y) (collect_sum f xs))"

definition ListDue :: "time \<Rightarrow> nat \<Rightarrow> exec_action list statement" where
  "ListDue now limit db =
     (db, collect_sum (\<lambda>r. actionFromSQL r db) (polled (\<lambda>r. claimable r now db) limit db))"

definition ListReconciling :: "time \<Rightarrow> nat \<Rightarrow> exec_action list statement" where
  "ListReconciling now limit db =
     (db, collect_sum (\<lambda>r. actionFromSQL r db) (polled (reconciling_due now db) limit db))"

record claim_fence =
  xf_action :: string
  xf_version :: int
  xf_worker :: string
  xf_lease_until :: "time option"
  xf_now :: time

text \<open>The condition of \<open>InTxClaimed\<close>, and of \<open>RenewLease\<close>, which accepts no cancellation marker.\<close>

definition fence_live :: "claim_fence \<Rightarrow> exec_action \<Rightarrow> bool" where
  "fence_live f r \<longleftrightarrow>
     xa_state r = ActionRunning \<and> xa_claimed_by r = xf_worker f
     \<and> (case xa_lease_until r of None \<Rightarrow> False | Some lease \<Rightarrow>
          xf_lease_until f = Some lease \<and> \<not> stored_le lease (xf_now f))"

definition fence_holds :: "claim_fence \<Rightarrow> exec_db \<Rightarrow> bool" where
  "fence_holds f db =
     (case run_of (xf_action f) db of
        None \<Rightarrow> False
      | Some r \<Rightarrow>
          fence_live f r
          \<and> (xa_version r = xf_version f \<or> xa_version r = xf_version f + 1 \<and> xa_cancelled_at r \<noteq> None))"

definition InTxClaimed :: "claim_fence \<Rightarrow> 'a tx \<Rightarrow> 'a tx" where
  "InTxClaimed f fn db = (if \<not> fence_holds f db then Inl lease_lost else fn db)"

definition RenewLease :: "claim_fence \<Rightarrow> time \<Rightarrow> time \<Rightarrow> unit tx" where
  "RenewLease f leaseUntil now db =
     (case run_of (xf_action f) db of
        None \<Rightarrow> Inl lease_lost
      | Some r \<Rightarrow>
          if \<not> fence_live f r \<or> xa_version r \<noteq> xf_version f \<or> xa_cancelled_at r \<noteq> None then Inl lease_lost
          else Inr (set_run (xf_action f) (\<lambda>r. r\<lparr>xa_lease_until := Some leaseUntil, xa_updated_at := now\<rparr>) db, ()))"

section \<open>The outcome column\<close>

text \<open>An absent or null outcome is an empty object; a field is set in the order \<open>json.Marshal\<close> gives a map.\<close>

definition json_object :: "raw_message \<Rightarrow> exec_error + (string \<times> json) list" where
  "json_object raw =
     (case raw of
        RawNil \<Rightarrow> Inr []
      | Raw JNull \<Rightarrow> Inr []
      | Raw (JObj fs) \<Rightarrow> Inr fs
      | _ \<Rightarrow> Inl (invalid_journal ''invalid outcome''))"

text \<open>\<open>json.Unmarshal\<close> into a map keeps the last of equal keys, \<open>json.Marshal\<close> sorts the keys.\<close>

definition field_of :: "string \<Rightarrow> (string \<times> json) list \<Rightarrow> json option" where
  "field_of key fs = map_of (rev fs) key"

fun insert_field :: "string \<Rightarrow> json \<Rightarrow> (string \<times> json) list \<Rightarrow> (string \<times> json) list" where
  "insert_field key v [] = [(key, v)]"
| "insert_field key v ((k, w) # fs) =
     (if key < k then (key, v) # (k, w) # fs
      else if key = k then (key, v) # fs
      else (k, w) # insert_field key v fs)"

definition marshalled :: "(string \<times> json) list \<Rightarrow> (string \<times> json) list" where
  "marshalled fs = foldl (\<lambda>acc (k, v). insert_field k v acc) [] fs"

definition set_field :: "string \<Rightarrow> json \<Rightarrow> (string \<times> json) list \<Rightarrow> (string \<times> json) list" where
  "set_field key v fs = insert_field key v (marshalled fs)"

definition drop_field :: "string \<Rightarrow> (string \<times> json) list \<Rightarrow> (string \<times> json) list" where
  "drop_field key fs = filter (\<lambda>(k, v). k \<noteq> key) (marshalled fs)"

text \<open>\<open>json.Unmarshal\<close> into a string and into a list of strings: null leaves the zero value.\<close>

definition decode_string :: "json \<Rightarrow> string option" where
  "decode_string v = (case v of JStr s \<Rightarrow> Some s | JNull \<Rightarrow> Some [] | _ \<Rightarrow> None)"

fun decode_strings :: "json list \<Rightarrow> string list option" where
  "decode_strings [] = Some []"
| "decode_strings (v # vs) =
     (case decode_string v of
        None \<Rightarrow> None
      | Some s \<Rightarrow> map_option (Cons s) (decode_strings vs))"

definition reservationKeysFromOutcome :: "raw_message \<Rightarrow> exec_error + string list" where
  "reservationKeysFromOutcome outcome =
     (case json_object outcome of
        Inl e \<Rightarrow> Inl e
      | Inr fs \<Rightarrow>
          (case field_of ''reservations'' fs of
             None \<Rightarrow> Inr []
           | Some JNull \<Rightarrow> Inr []
           | Some (JArr vs) \<Rightarrow>
               (case decode_strings vs of
                  None \<Rightarrow> Inl (invalid_journal ''invalid outcome reservations'')
                | Some keys \<Rightarrow> Inr (canonicalReservationKeys keys))
           | Some _ \<Rightarrow> Inl (invalid_journal ''invalid outcome reservations'')))"

definition outcomeWithReservations :: "raw_message \<Rightarrow> string list \<Rightarrow> exec_error + raw_message" where
  "outcomeWithReservations outcome keys0 =
     (case json_object outcome of
        Inl e \<Rightarrow> Inl e
      | Inr fs \<Rightarrow>
          let keys = canonicalReservationKeys keys0 in
          Inr (Raw (JObj (if keys = [] then drop_field ''reservations'' fs
                          else set_field ''reservations'' (JArr (map JStr keys)) fs))))"

definition outcomePreservingReservations ::
  "raw_message \<Rightarrow> raw_message \<Rightarrow> action_state \<Rightarrow> exec_error + raw_message" where
  "outcomePreservingReservations existing next state =
     (case reservationKeysFromOutcome existing of
        Inl e \<Rightarrow> Inl e
      | Inr keys \<Rightarrow>
          outcomeWithReservations next
            (if state \<noteq> ActionRunning \<and> state \<noteq> ActionReconciling \<and> state \<noteq> ActionNeedsReview then [] else keys))"

definition marker_of :: "string \<Rightarrow> raw_message \<Rightarrow> string option" where
  "marker_of key raw =
     (case json_object raw of
        Inl _ \<Rightarrow> None
      | Inr fs \<Rightarrow>
          (case field_of key fs of
             None \<Rightarrow> None
           | Some v \<Rightarrow>
               (case decode_string v of
                  None \<Rightarrow> None
                | Some s \<Rightarrow> if blank s then None else Some s)))"

definition with_marker :: "string \<Rightarrow> raw_message \<Rightarrow> string \<Rightarrow> exec_error + raw_message" where
  "with_marker key raw attemptID =
     map_sum (\<lambda>e. e) (\<lambda>fs. Raw (JObj (set_field key (JStr attemptID) fs))) (json_object raw)"

definition dispatchBarrierReturnedAttempt :: "raw_message \<Rightarrow> string option" where
  "dispatchBarrierReturnedAttempt = marker_of ''dispatchBarrierReturnedAttempt''"

definition outcomeWithDispatchBarrierReturned :: "raw_message \<Rightarrow> string \<Rightarrow> exec_error + raw_message" where
  "outcomeWithDispatchBarrierReturned = with_marker ''dispatchBarrierReturnedAttempt''"

definition dispatchBarrierRetryIntentAttempt :: "raw_message \<Rightarrow> string option" where
  "dispatchBarrierRetryIntentAttempt = marker_of ''dispatchBarrierRetryAttempt''"

definition evidenceWithDispatchBarrierRetryIntent :: "raw_message \<Rightarrow> string \<Rightarrow> exec_error + raw_message" where
  "evidenceWithDispatchBarrierRetryIntent = with_marker ''dispatchBarrierRetryAttempt''"

section \<open>Durable reservations\<close>

definition holds_reservations :: "exec_action \<Rightarrow> bool" where
  "holds_reservations r \<longleftrightarrow> xa_state r = ActionRunning \<or> xa_state r = ActionReconciling \<or> xa_state r = ActionNeedsReview"

fun reserve_scan ::
  "string \<Rightarrow> string list \<Rightarrow> raw_message option \<Rightarrow> exec_action list \<Rightarrow> exec_error + raw_message option" where
  "reserve_scan actionID keys own [] = Inr own"
| "reserve_scan actionID keys own (r # rest) =
     (if \<not> holds_reservations r then reserve_scan actionID keys own rest
      else case reservationKeysFromOutcome (xa_outcome r) of
        Inl e \<Rightarrow> Inl e
      | Inr candidate \<Rightarrow>
          if xa_id r = actionID then reserve_scan actionID keys (Some (xa_outcome r)) rest
          else if list_ex (\<lambda>requested. list_ex (reservationConflicts requested) candidate) keys
          then Inl reservation_conflict
          else reserve_scan actionID keys own rest)"

definition Reserve :: "string \<Rightarrow> string list \<Rightarrow> unit tx" where
  "Reserve actionID keys0 db =
     (let keys = canonicalReservationKeys keys0 in
      case reserve_scan actionID keys None (db_runs db) of
        Inl e \<Rightarrow> Inl e
      | Inr None \<Rightarrow> Inl not_found
      | Inr (Some ownOutcome) \<Rightarrow>
          (case reservationKeysFromOutcome ownOutcome of
             Inl e \<Rightarrow> Inl e
           | Inr current \<Rightarrow>
               (case outcomeWithReservations ownOutcome (current @ keys) of
                  Inl e \<Rightarrow> Inl e
                | Inr merged \<Rightarrow> Inr (set_run actionID (\<lambda>r. r\<lparr>xa_outcome := merged\<rparr>) db, ()))))"

section \<open>Attempts, effects and outcomes\<close>

text \<open>
  The rows of an action in the order of their number or ordinal; both are unique for an action, so the
  order is determined. The adapter checks every row it reads.
\<close>

fun all_pass :: "('a \<Rightarrow> exec_error option) \<Rightarrow> 'a list \<Rightarrow> exec_error option" where
  "all_pass check [] = None"
| "all_pass check (x # xs) = (case check x of Some e \<Rightarrow> Some e | None \<Rightarrow> all_pass check xs)"

definition attempts_of :: "string \<Rightarrow> exec_db \<Rightarrow> exec_attempt list" where
  "attempts_of actionID db = sort_key xt_number (filter (\<lambda>t. xt_action t = actionID) (db_attempts db))"

definition effects_of :: "string \<Rightarrow> exec_db \<Rightarrow> exec_effect list" where
  "effects_of actionID db = sort_key xe_ordinal (filter (\<lambda>e. xe_action e = actionID) (db_effects db))"

definition ListAttempts :: "string \<Rightarrow> exec_attempt list tx" where
  "ListAttempts actionID db =
     (case all_pass Attempt_validate (attempts_of actionID db) of
        Some e \<Rightarrow> Inl e | None \<Rightarrow> Inr (db, attempts_of actionID db))"

definition ListEffects :: "string \<Rightarrow> exec_effect list tx" where
  "ListEffects actionID db =
     (case all_pass Effect_validate (effects_of actionID db) of
        Some e \<Rightarrow> Inl e | None \<Rightarrow> Inr (db, effects_of actionID db))"

text \<open>The constraints of the tables: ids and positions are unique, references exist.\<close>

definition constraint_error :: exec_error where
  "constraint_error = plain_error ''constraint failed''"

definition CreateAttempt :: "exec_attempt \<Rightarrow> exec_attempt tx" where
  "CreateAttempt t db =
     (case Attempt_validate t of
        Some e \<Rightarrow> Inl e
      | None \<Rightarrow>
          if run_of (xt_action t) db = None
            \<or> list_ex (\<lambda>u. xt_id u = xt_id t \<or> xt_action u = xt_action t \<and> xt_number u = xt_number t) (db_attempts db)
          then Inl constraint_error
          else Inr (db\<lparr>db_attempts := db_attempts db @ [t]\<rparr>, t))"

definition update_attempt_row :: "exec_attempt \<Rightarrow> exec_attempt \<Rightarrow> exec_attempt" where
  "update_attempt_row t row =
     row\<lparr>xt_state := xt_state t, xt_finished_at := xt_finished_at t, xt_error_code := xt_error_code t,
         xt_error_detail := xt_error_detail t, xt_certainty := xt_certainty t,
         xt_external_id := xt_external_id t, xt_evidence := xt_evidence t\<rparr>"

definition UpdateAttempt :: "exec_attempt \<Rightarrow> exec_attempt tx" where
  "UpdateAttempt t db =
     (case Attempt_validate t of
        Some e \<Rightarrow> Inl e
      | None \<Rightarrow>
      (case find (\<lambda>u. xt_id u = xt_id t) (db_attempts db) of
         None \<Rightarrow> Inl no_rows
       | Some row \<Rightarrow>
           let updated = update_attempt_row t row;
               db' = db\<lparr>db_attempts := map (\<lambda>u. if xt_id u = xt_id t then updated else u) (db_attempts db)\<rparr>
           in case Attempt_validate updated of Some e \<Rightarrow> Inl e | None \<Rightarrow> Inr (db', updated)))"

definition attempt_exists :: "string \<Rightarrow> exec_db \<Rightarrow> bool" where
  "attempt_exists attemptID db \<longleftrightarrow> attemptID = [] \<or> list_ex (\<lambda>t. xt_id t = attemptID) (db_attempts db)"

definition CreateEffect :: "exec_effect \<Rightarrow> exec_effect tx" where
  "CreateEffect x db =
     (case Effect_validate x of
        Some e \<Rightarrow> Inl e
      | None \<Rightarrow>
          if run_of (xe_action x) db = None \<or> \<not> attempt_exists (xe_attempt x) db
            \<or> list_ex (\<lambda>y. xe_id y = xe_id x \<or> xe_action y = xe_action x \<and> xe_ordinal y = xe_ordinal x) (db_effects db)
          then Inl constraint_error
          else Inr (db\<lparr>db_effects := db_effects db @ [x]\<rparr>, x))"

definition update_effect_row :: "exec_effect \<Rightarrow> exec_effect \<Rightarrow> exec_effect" where
  "update_effect_row x row =
     row\<lparr>xe_state := xe_state x, xe_evidence := xe_evidence x, xe_observed_at := xe_observed_at x,
         xe_attempt := xe_attempt x\<rparr>"

definition UpdateEffect :: "exec_effect \<Rightarrow> exec_effect tx" where
  "UpdateEffect x db =
     (case Effect_validate x of
        Some e \<Rightarrow> Inl e
      | None \<Rightarrow>
      (case find (\<lambda>y. xe_id y = xe_id x) (db_effects db) of
         None \<Rightarrow> Inl no_rows
       | Some row \<Rightarrow>
           if \<not> attempt_exists (xe_attempt x) db then Inl constraint_error
           else
             let updated = update_effect_row x row;
                 db' = db\<lparr>db_effects := map (\<lambda>y. if xe_id y = xe_id x then updated else y) (db_effects db)\<rparr>
             in case Effect_validate updated of Some e \<Rightarrow> Inl e | None \<Rightarrow> Inr (db', updated)))"

record outcome_update =
  xu_id :: string
  xu_version :: int
  xu_state :: action_state
  xu_next_attempt_at :: "time option"
  xu_claimed_by :: string
  xu_lease_until :: "time option"
  xu_outcome :: raw_message
  xu_unresolved :: int
  xu_updated_at :: time

definition apply_update :: "outcome_update \<Rightarrow> raw_message \<Rightarrow> exec_action \<Rightarrow> exec_action" where
  "apply_update u preserved r =
     r\<lparr>xa_state := xu_state u, xa_next_attempt_at := xu_next_attempt_at u, xa_claimed_by := xu_claimed_by u,
       xa_lease_until := xu_lease_until u, xa_outcome := preserved, xa_unresolved := xu_unresolved u,
       xa_version := xa_version r + 1, xa_updated_at := xu_updated_at u\<rparr>"

definition UpdateOutcome :: "outcome_update \<Rightarrow> exec_action tx" where
  "UpdateOutcome u db =
     (if xu_id u = [] \<or> xu_version u \<le> 0 \<or> \<not> ActionState_Valid (xu_state u) \<or> \<not> json_valid (xu_outcome u)
        \<or> xu_unresolved u < 0
      then Inl (invalid_journal ''invalid outcome update'')
      else case run_of (xu_id u) db of
        None \<Rightarrow> Inl not_found
      | Some current \<Rightarrow>
          (case outcomePreservingReservations (xa_outcome current) (xu_outcome u) (xu_state u) of
             Inl e \<Rightarrow> Inl e
           | Inr preserved \<Rightarrow>
               if xa_version current \<noteq> xu_version u then Inl no_rows
               else
                 let row = apply_update u preserved current; db' = set_run (xu_id u) (\<lambda>_. row) db
                 in map_sum (\<lambda>e. e) (Pair db') (actionFromSQL row db')))"

section \<open>Recovery and cancellation\<close>

definition recovered_run :: "time \<Rightarrow> exec_action \<Rightarrow> exec_action" where
  "recovered_run now r =
     r\<lparr>xa_state := ActionReconciling, xa_next_attempt_at := Some now, xa_claimed_by := [], xa_lease_until := None,
       xa_version := xa_version r + 1, xa_updated_at := now\<rparr>"

definition recoverable :: "exec_db \<Rightarrow> exec_action \<Rightarrow> bool" where
  "recoverable db r \<longleftrightarrow>
     (xa_state r = ActionRunning \<or> xa_state r = ActionReconciling \<and> xa_claimed_by r \<noteq> [])
     \<and> \<not> List.member (db_purge_bound db) (xa_id r)"

text \<open>An update of every row that meets a condition, returning the new rows through the adapter.\<close>

definition update_runs :: "(exec_action \<Rightarrow> bool) \<Rightarrow> (exec_action \<Rightarrow> exec_action) \<Rightarrow> exec_action list statement" where
  "update_runs P f db =
     (let db' = db\<lparr>db_runs := map (\<lambda>r. if P r then f r else r) (db_runs db)\<rparr>
      in (db', collect_sum (\<lambda>r. actionFromSQL r db') (map f (filter P (db_runs db)))))"

definition RecoverRunning :: "time \<Rightarrow> exec_action list statement" where
  "RecoverRunning now db = update_runs (recoverable db) (recovered_run now) db"

definition RecoverExpired :: "time \<Rightarrow> exec_action list statement" where
  "RecoverExpired now db =
     update_runs (\<lambda>r. recoverable db r \<and> none_or_le (xa_lease_until r) now) (recovered_run now) db"

definition recovered_attempt :: "exec_attempt \<Rightarrow> exec_attempt" where
  "recovered_attempt t =
     t\<lparr>xt_state := AttemptReconciling,
       xt_certainty := (if xt_phase t = AttemptDispatch \<or> xt_certainty t = CertaintyUncertain then CertaintyUncertain
                        else xt_certainty t)\<rparr>"

definition RecoverRunningAttempts :: "exec_attempt list statement" where
  "RecoverRunningAttempts db =
     (let db' = db\<lparr>db_attempts :=
            map (\<lambda>t. if xt_state t = AttemptRunning then recovered_attempt t else t) (db_attempts db)\<rparr>;
          rows = map recovered_attempt (filter (\<lambda>t. xt_state t = AttemptRunning) (db_attempts db))
      in (db', case all_pass Attempt_validate rows of Some e \<Rightarrow> Inl e | None \<Rightarrow> Inr rows))"

definition finalized_run :: "action_state \<Rightarrow> time \<Rightarrow> exec_action \<Rightarrow> exec_action" where
  "finalized_run state now r =
     r\<lparr>xa_state := state, xa_claimed_by := [], xa_lease_until := None, xa_version := xa_version r + 1,
       xa_updated_at := now\<rparr>"

definition undispatched :: "exec_action \<Rightarrow> bool" where
  "undispatched r \<longleftrightarrow> xa_state r = ActionQueued \<or> xa_state r = ActionWaitingDependency"

definition FinalizeCancelled :: "time \<Rightarrow> exec_action list statement" where
  "FinalizeCancelled now =
     update_runs (\<lambda>r. undispatched r \<and> xa_cancelled_at r \<noteq> None) (finalized_run ActionCancelled now)"

definition FinalizeDeadline :: "time \<Rightarrow> exec_action list statement" where
  "FinalizeDeadline now =
     update_runs (\<lambda>r. undispatched r \<and> xa_cancelled_at r = None \<and> xa_deadline_at r \<noteq> None
                      \<and> none_or_le (xa_deadline_at r) now)
       (finalized_run ActionDeadlineExceeded now)"

text \<open>A marker is an instant here, so the statement's checks of its text hold.\<close>

definition RequestCancellation :: "string \<Rightarrow> time \<Rightarrow> exec_action tx" where
  "RequestCancellation aid requestedAt db =
     (case run_of aid db of
        None \<Rightarrow> Inl no_rows
      | Some r \<Rightarrow>
          if ActionState_Terminal (xa_state r) then Inl no_rows
          else
            let row = (if xa_cancelled_at r = None
                       then r\<lparr>xa_cancelled_at := Some requestedAt, xa_version := xa_version r + 1,
                              xa_updated_at := requestedAt\<rparr>
                       else r);
                db' = set_run aid (\<lambda>_. row) db
            in map_sum (\<lambda>e. e) (Pair db') (actionFromSQL row db'))"

end
