(* ===== verification/Exec_World.thy ===== *)
theory Exec_World
  imports Exec_Journal
begin

text \<open>
  What an executor acts on (\<^verbatim>\<open>internal/execution/execution.go\<close>): the journal with whatever other workers
  commit to it, the clock, the handlers, the claim it holds and the table of its process. Everything that
  is decided outside is a function of the number of transactions so far: the rows other workers commit
  before a transaction (\<open>xv_others\<close>), the error of the database that rolls it back (\<open>xv_fault\<close>), whether
  the renewal of the lease ran before it (\<open>xv_renews\<close>), the clock, the error of the context, and the
  answers of handlers. A transaction is atomic: it commits its rows or none.
\<close>

record exec_handler =
  hd_reservations :: "exec_action \<Rightarrow> string list"
  hd_observe :: "nat \<Rightarrow> exec_action \<Rightarrow> exec_error + observation"
  hd_dispatch :: "nat \<Rightarrow> exec_action \<Rightarrow> exec_attempt \<Rightarrow> dispatch_result \<times> exec_error option"
  hd_reconcile :: "nat \<Rightarrow> exec_action \<Rightarrow> exec_attempt \<Rightarrow> exec_error + reconcile_result"

record exec_env =
  xv_now :: "nat \<Rightarrow> time"
  xv_others :: "nat \<Rightarrow> exec_db \<Rightarrow> exec_db"
  xv_fault :: "nat \<Rightarrow> exec_error option"
  xv_renews :: "nat \<Rightarrow> bool"
  xv_ctx :: "nat \<Rightarrow> exec_error option"
  xv_handlers :: "action_kind \<Rightarrow> exec_handler option"
  xv_worker :: string
  xv_lease :: int
  xv_max_batch :: nat
  xv_max_attempts :: int
  xv_delay :: "int \<Rightarrow> int"
  xv_attempt_id :: "string \<Rightarrow> int \<Rightarrow> attempt_phase \<Rightarrow> string"
  xv_effect_id :: "string \<Rightarrow> int \<Rightarrow> string"

text \<open>The calls of handlers are kept in the order they were made.\<close>

datatype handler_call =
    CallObserve string "exec_error + observation"
  | CallDispatch string exec_attempt "dispatch_result \<times> exec_error option"
  | CallReconcile string exec_attempt "exec_error + reconcile_result"

record exec_world =
  xw_db :: exec_db
  xw_ticks :: nat
  xw_table :: key_table
  xw_fence :: "claim_fence option"
  xw_renewing :: bool
  xw_fallback :: "(string \<times> string) list"
  xw_calls :: "handler_call list"

definition clock :: "exec_env \<Rightarrow> exec_world \<Rightarrow> time" where
  "clock env w = xv_now env (xw_ticks w)"

text \<open>\<open>expired\<close>: an instant that is not after now; an empty one never expires.\<close>

definition expired :: "time option \<Rightarrow> time \<Rightarrow> bool" where
  "expired v now = (case v of None \<Rightarrow> False | Some t \<Rightarrow> t \<le> now)"

section \<open>Transactions\<close>

definition withTransaction ::
  "exec_env \<Rightarrow> (time \<Rightarrow> 'a tx) \<Rightarrow> exec_world \<Rightarrow> exec_world \<times> (exec_error + 'a)" where
  "withTransaction env fn w =
     (let n = xw_ticks w; db = xv_others env n (xw_db w); w1 = w\<lparr>xw_db := db, xw_ticks := Suc n\<rparr> in
      case xv_fault env n of
        Some e \<Rightarrow> (w1, Inl e)
      | None \<Rightarrow>
          (case fn (xv_now env n) db of
             Inl e \<Rightarrow> (w1, Inl e)
           | Inr (db', x) \<Rightarrow> (w1\<lparr>xw_db := db'\<rparr>, Inr x)))"

definition run_statement ::
  "exec_env \<Rightarrow> (time \<Rightarrow> 'a statement) \<Rightarrow> exec_world \<Rightarrow> exec_world \<times> (exec_error + 'a)" where
  "run_statement env fn w =
     (let n = xw_ticks w; db = xv_others env n (xw_db w); w1 = w\<lparr>xw_db := db, xw_ticks := Suc n\<rparr> in
      case xv_fault env n of
        Some e \<Rightarrow> (w1, Inl e)
      | None \<Rightarrow> (case fn (xv_now env n) db of (db', r) \<Rightarrow> (w1\<lparr>xw_db := db'\<rparr>, r)))"

definition claimFence :: "exec_env \<Rightarrow> exec_action \<Rightarrow> exec_world \<Rightarrow> claim_fence" where
  "claimFence env action w =
     (let own = \<lparr>xf_action = xa_id action, xf_version = xa_version action, xf_worker = xv_worker env,
                 xf_lease_until = xa_lease_until action, xf_now = clock env w\<rparr> in
      case xw_fence w of
        None \<Rightarrow> own
      | Some fence \<Rightarrow> if xf_action fence = xa_id action \<and> 0 < xf_version fence then fence else own)"

definition renew :: "exec_env \<Rightarrow> exec_world \<Rightarrow> exec_world" where
  "renew env w =
     (case xw_fence w of
        None \<Rightarrow> w
      | Some fence \<Rightarrow>
          let now = clock env w in
          if expired (xf_lease_until fence) now then w
          else
            let leaseUntil = now + xv_lease env in
            (case withTransaction env (\<lambda>_. RenewLease fence leaseUntil now) w of
               (w1, Inl _) \<Rightarrow> w1
             | (w1, Inr _) \<Rightarrow> w1\<lparr>xw_fence := Some (fence\<lparr>xf_lease_until := Some leaseUntil, xf_now := now\<rparr>)\<rparr>))"

text \<open>The bounded retry of an optimistic transaction; the lock keeps the renewal out of it.\<close>

fun claimed_tries ::
  "nat \<Rightarrow> exec_env \<Rightarrow> exec_action \<Rightarrow> (time \<Rightarrow> 'a tx) \<Rightarrow> exec_world \<Rightarrow> exec_world \<times> (exec_error + 'a)" where
  "claimed_tries tries env action fn w =
     (case withTransaction env (\<lambda>now. InTxClaimed (claimFence env action w) (fn now)) w of
        (w1, Inr x) \<Rightarrow> (w1, Inr x)
      | (w1, Inl e) \<Rightarrow>
          if tries = 0 \<or> ErrLeaseLost \<notin> set (xx_is e) then (w1, Inl e)
          else claimed_tries (tries - 1) env action fn w1)"

declare claimed_tries.simps [simp del]

definition withClaimedTransaction ::
  "exec_env \<Rightarrow> exec_action \<Rightarrow> (time \<Rightarrow> 'a tx) \<Rightarrow> exec_world \<Rightarrow> exec_world \<times> (exec_error + 'a)" where
  "withClaimedTransaction env action fn w =
     claimed_tries 3 env action fn (if xw_renewing w \<and> xv_renews env (xw_ticks w) then renew env w else w)"

definition transaction_for ::
  "bool \<Rightarrow> exec_env \<Rightarrow> exec_action \<Rightarrow> (time \<Rightarrow> 'a tx) \<Rightarrow> exec_world \<Rightarrow> exec_world \<times> (exec_error + 'a)" where
  "transaction_for claimed env action fn w =
     (if claimed then withClaimedTransaction env action fn w else withTransaction env fn w)"

text \<open>\<open>advanceAfterOutcome\<close>: the one version step of a barrier marker is adopted by the claim.\<close>

definition advanceAfterOutcome :: "exec_action \<Rightarrow> exec_world \<Rightarrow> exec_world \<times> bool" where
  "advanceAfterOutcome action w =
     (case xw_fence w of
        None \<Rightarrow> (w, False)
      | Some fence \<Rightarrow>
          if xa_id action \<noteq> xf_action fence \<or> xa_state action \<noteq> ActionRunning
            \<or> xa_claimed_by action \<noteq> xf_worker fence \<or> xa_lease_until action \<noteq> xf_lease_until fence
            \<or> xa_cancelled_at action \<noteq> None \<or> xa_version action \<noteq> xf_version fence + 1
          then (w, False)
          else (w\<lparr>xw_fence := Some (fence\<lparr>xf_version := xa_version action\<rparr>)\<rparr>, True))"

text \<open>A step inside a transaction.\<close>

definition tx_bind :: "exec_error + (exec_db \<times> 'a) \<Rightarrow> (exec_db \<Rightarrow> 'a \<Rightarrow> exec_error + (exec_db \<times> 'b)) \<Rightarrow> exec_error + (exec_db \<times> 'b)" where
  "tx_bind r f = (case r of Inl e \<Rightarrow> Inl e | Inr (db, x) \<Rightarrow> f db x)"

section \<open>Evidence\<close>

definition evidenceJSON :: "string list \<Rightarrow> raw_message" where
  "evidenceJSON values =
     Raw (JObj [(''evidence'', JArr (map JStr (map (take 256) (filter (\<lambda>v. v \<noteq> []) (map trim_space values)))))])"

definition safeDetail :: "exec_error option \<Rightarrow> string" where
  "safeDetail e = (case e of None \<Rightarrow> [] | Some err \<Rightarrow> take 512 (trim_space (xx_text err)))"

fun outcome_text :: "effect_outcome \<Rightarrow> string" where
  "outcome_text OutcomeApplied = ''applied''"
| "outcome_text OutcomeAlreadySatisfied = ''already_satisfied''"
| "outcome_text (EffectOutcomeOther s) = s"

definition outcomeJSON :: "effect_outcome \<Rightarrow> string \<Rightarrow> int \<Rightarrow> raw_message" where
  "outcomeJSON outcome reason unresolved =
     Raw (JObj ((if EffectOutcome_Valid outcome then [(''outcome'', JStr (outcome_text outcome))] else [])
       @ [(''reason'', JStr reason)]
       @ (if 0 < unresolved then [(''unresolvedEffects'', JInt unresolved)] else [])))"

text \<open>
  \<open>appendEvidence\<close> and its helpers. A string with bytes outside UTF-8 does not survive decoding; a list
  with one, and an object with two equal keys, are kept as they are in an envelope.
\<close>

fun lossless_strings :: "json list \<Rightarrow> string list option" where
  "lossless_strings [] = Some []"
| "lossless_strings (v # vs) =
     (case v of
        JStr s \<Rightarrow> if valid_utf8 s then map_option (Cons s) (lossless_strings vs) else None
      | _ \<Rightarrow> None)"

definition decodeExecutionMarkers :: "json \<Rightarrow> string list option" where
  "decodeExecutionMarkers v = (case v of JArr vs \<Rightarrow> lossless_strings vs | _ \<Rightarrow> None)"

fun add_markers :: "string list \<Rightarrow> string list \<Rightarrow> string list" where
  "add_markers markers [] = markers"
| "add_markers markers (v # vs) =
     add_markers (if v = [] \<or> List.member markers v then markers else markers @ [v]) vs"

definition mergeObjectEvidenceMarkers :: "(string \<times> json) list \<Rightarrow> string list \<Rightarrow> raw_message option" where
  "mergeObjectEvidenceMarkers fs values =
     (if \<not> distinct (map fst fs) then None
      else case map_of fs ''_mastarr_execution_markers'' of
        None \<Rightarrow> Some (Raw (JObj (set_field ''_mastarr_execution_markers'' (JArr (map JStr (add_markers [] values))) fs)))
      | Some existing \<Rightarrow>
          (case decodeExecutionMarkers existing of
             None \<Rightarrow> None
           | Some markers \<Rightarrow>
               Some (Raw (JObj (set_field ''_mastarr_execution_markers'' (JArr (map JStr (add_markers markers values))) fs)))))"

definition prior_envelope :: "json \<Rightarrow> string list \<Rightarrow> raw_message" where
  "prior_envelope prior values =
     Raw (JObj [(''_mastarr_prior'', prior), (''_mastarr_execution_markers'', JArr (map JStr values))])"

definition appendEvidence :: "raw_message \<Rightarrow> string list \<Rightarrow> raw_message" where
  "appendEvidence raw values =
     (if values = [] then raw
      else case raw of
        Raw (JArr vs) \<Rightarrow>
          (case lossless_strings vs of
             Some existing \<Rightarrow> evidenceJSON (existing @ values)
           | None \<Rightarrow> prior_envelope (JArr vs) values)
      | Raw (JObj fs) \<Rightarrow>
          (case mergeObjectEvidenceMarkers fs values of
             Some result \<Rightarrow> result
           | None \<Rightarrow> prior_envelope (JObj fs) values)
      | Raw v \<Rightarrow> prior_envelope v values
      | _ \<Rightarrow> evidenceJSON values)"

end
