(* ===== verification/Exec_Records.thy ===== *)
theory Exec_Records
  imports Exec_World
begin

text \<open>
  What the executor writes inside one transaction (\<^verbatim>\<open>internal/execution/execution.go\<close>): attempts, the
  dispatch intent with its pending effects, and the recorded effects.
\<close>

section \<open>Attempts\<close>

definition nextAttemptInJournal ::
  "exec_env \<Rightarrow> string \<Rightarrow> attempt_phase \<Rightarrow> certainty \<Rightarrow> time \<Rightarrow> exec_attempt tx" where
  "nextAttemptInJournal env actionID phase certainty now db =
     tx_bind (ListAttempts actionID db) (\<lambda>db attempts.
       let number = foldl (\<lambda>n t. max n (xt_number t)) 0 attempts + 1;
           attempt = \<lparr>xt_id = xv_attempt_id env actionID number phase, xt_action = actionID, xt_number = number,
                      xt_phase = phase, xt_state = AttemptRunning, xt_started_at = format_time now,
                      xt_finished_at = [], xt_error_code = [], xt_error_detail = [], xt_certainty = certainty,
                      xt_external_id = [], xt_evidence = raw_empty\<rparr>
       in case Attempt_validate attempt of Some e \<Rightarrow> Inl e | None \<Rightarrow> Inr (db, attempt))"

definition create_next_attempt ::
  "exec_env \<Rightarrow> string \<Rightarrow> attempt_phase \<Rightarrow> certainty \<Rightarrow> string \<Rightarrow> time \<Rightarrow> exec_attempt tx" where
  "create_next_attempt env actionID phase certainty externalID now db =
     tx_bind (nextAttemptInJournal env actionID phase certainty now db) (\<lambda>db attempt0.
       let attempt = attempt0\<lparr>xt_external_id := externalID\<rparr> in
       case Attempt_validate attempt of Some e \<Rightarrow> Inl e | None \<Rightarrow> CreateAttempt attempt db)"

section \<open>Effects\<close>

definition same_target :: "exec_effect \<Rightarrow> exec_effect \<Rightarrow> bool" where
  "same_target a b \<longleftrightarrow>
     xe_target_kind a = xe_target_kind b \<and> xe_target_id a = xe_target_id b \<and> xe_kind a = xe_kind b"

definition planned_effect :: "exec_env \<Rightarrow> string \<Rightarrow> string \<Rightarrow> time \<Rightarrow> nat \<Rightarrow> exec_effect \<Rightarrow> exec_effect" where
  "planned_effect env actionID attemptID now index e =
     (let ordinal = (if xe_ordinal e < 0 then int index else xe_ordinal e) in
      e\<lparr>xe_ordinal := ordinal, xe_id := xv_effect_id env actionID ordinal, xe_action := actionID,
        xe_attempt := attemptID, xe_state := EffectPending,
        xe_evidence := (if xe_evidence e = RawNil then raw_empty else xe_evidence e),
        xe_observed_at := (if xe_observed_at e = [] then format_time now else xe_observed_at e)\<rparr>)"

fun plan_effects ::
  "exec_env \<Rightarrow> string \<Rightarrow> string \<Rightarrow> time \<Rightarrow> exec_effect list \<Rightarrow> nat \<Rightarrow> exec_effect list \<Rightarrow> unit tx" where
  "plan_effects env actionID attemptID now existing index [] db = Inr (db, ())"
| "plan_effects env actionID attemptID now existing index (e0 # rest) db =
     (let e = planned_effect env actionID attemptID now index e0 in
      case by_key xe_ordinal existing (xe_ordinal e) of
        Some previous \<Rightarrow>
          if \<not> same_target previous e then Inl (invalid_journal ''effect ordinal changed target across attempts'')
          else tx_bind (UpdateEffect (e\<lparr>xe_id := xe_id previous\<rparr>) db)
                 (\<lambda>db _. plan_effects env actionID attemptID now existing (Suc index) rest db)
      | None \<Rightarrow>
          tx_bind (CreateEffect e db)
            (\<lambda>db _. plan_effects env actionID attemptID now existing (Suc index) rest db))"

text \<open>The dispatch intent: the closed observation, a dispatch attempt and its pending effects at once.\<close>

definition prepare_callback ::
  "exec_env \<Rightarrow> string \<Rightarrow> exec_attempt \<Rightarrow> exec_effect list \<Rightarrow> time \<Rightarrow> exec_attempt tx" where
  "prepare_callback env actionID observed effects now db =
     tx_bind (nextAttemptInJournal env actionID AttemptDispatch CertaintyNotDispatched now db) (\<lambda>db dispatch.
     tx_bind (UpdateAttempt observed db) (\<lambda>db _.
     tx_bind (CreateAttempt dispatch db) (\<lambda>db _.
     tx_bind (ListEffects actionID db) (\<lambda>db existing.
     tx_bind (plan_effects env actionID (xt_id dispatch) now existing 0 effects db) (\<lambda>db _.
       Inr (db, dispatch))))))"

definition recorded_state :: "effect_state \<Rightarrow> effect_state \<Rightarrow> effect_state" where
  "recorded_state default_state s =
     (if default_state = EffectUnknown then default_state
      else if s = EffectStateOther [] \<or> s = EffectPending then default_state
      else s)"

definition recorded_effect ::
  "exec_env \<Rightarrow> string \<Rightarrow> string \<Rightarrow> effect_state \<Rightarrow> time \<Rightarrow> exec_effect option \<Rightarrow> exec_effect \<Rightarrow> exec_effect" where
  "recorded_effect env actionID attemptID default_state now existing e =
     e\<lparr>xe_id := (case existing of Some x \<Rightarrow> xe_id x | None \<Rightarrow> xv_effect_id env actionID (xe_ordinal e)),
       xe_action := actionID, xe_attempt := attemptID, xe_state := recorded_state default_state (xe_state e),
       xe_evidence := (if xe_evidence e = RawNil
                       then (case existing of Some x \<Rightarrow> xe_evidence x | None \<Rightarrow> raw_empty) else xe_evidence e),
       xe_observed_at := (if xe_observed_at e = [] then format_time now else xe_observed_at e)\<rparr>"

fun record_loop ::
  "exec_env \<Rightarrow> string \<Rightarrow> string \<Rightarrow> effect_state \<Rightarrow> time \<Rightarrow> exec_effect list \<Rightarrow> nat \<Rightarrow> exec_effect list \<Rightarrow> unit tx" where
  "record_loop env actionID attemptID default_state now existing index [] db = Inr (db, ())"
| "record_loop env actionID attemptID default_state now existing index (e0 # rest) db =
     (let e = (if xe_ordinal e0 < 0 then e0\<lparr>xe_ordinal := int index\<rparr> else e0);
          previous = by_key xe_ordinal existing (xe_ordinal e);
          recorded = recorded_effect env actionID attemptID default_state now previous e in
      tx_bind (if previous \<noteq> None then UpdateEffect recorded db else CreateEffect recorded db)
        (\<lambda>db _. record_loop env actionID attemptID default_state now existing (Suc index) rest db))"

text \<open>
  The reports the loop goes over: without a report every planned target takes the default state. The check
  of the set normalizes the report in place.
\<close>

definition unreported :: "string \<Rightarrow> effect_state \<Rightarrow> time \<Rightarrow> exec_effect \<Rightarrow> exec_effect" where
  "unreported attemptID default_state now e =
     e\<lparr>xe_id := [], xe_attempt := attemptID, xe_state := default_state, xe_observed_at := format_time now\<rparr>"

definition recordEffectsInJournal ::
  "exec_env \<Rightarrow> string \<Rightarrow> string \<Rightarrow> exec_effect list \<Rightarrow> effect_state \<Rightarrow> bool \<Rightarrow> time \<Rightarrow> unit tx" where
  "recordEffectsInJournal env actionID attemptID reported0 default_state requireComplete now db =
     tx_bind (ListEffects actionID db) (\<lambda>db existing.
       if \<not> requireComplete \<and> existing = [] then Inl (invalid_journal ''uncertain dispatch has no planned effects'')
       else
         let reported1 = (if \<not> requireComplete \<and> reported0 = []
                          then map (unreported attemptID default_state now) existing else reported0);
             checked = (existing \<noteq> [] \<and> (requireComplete \<or> reported1 \<noteq> []));
             reported = (if checked then normalizeReportedEffects reported1 actionID else reported1)
         in case (if checked then validateEffectSet existing reported1 actionID else None) of
              Some e \<Rightarrow> Inl e
            | None \<Rightarrow>
            (case validateEffectStates reported default_state of
               Some e \<Rightarrow> Inl e
             | None \<Rightarrow> record_loop env actionID attemptID default_state now existing 0 reported db))"

section \<open>Effects of a failed dispatch\<close>

fun match_reported :: "exec_effect list \<Rightarrow> string list \<Rightarrow> exec_effect list \<Rightarrow> exec_error option" where
  "match_reported existing seen [] = None"
| "match_reported existing seen (e # rest) =
     (if List.member seen (effectIdentity e) then Some (invalid_journal ''duplicate errored dispatch effect'')
      else case by_key effectIdentity existing (effectIdentity e) of
        None \<Rightarrow> Some (invalid_journal ''unapproved errored dispatch effect'')
      | Some approved \<Rightarrow>
          if xe_ordinal approved \<noteq> xe_ordinal e
          then Some (invalid_journal ''errored dispatch effect changed ordinal'')
          else match_reported existing (effectIdentity e # seen) rest)"

definition errored_effect ::
  "string \<Rightarrow> string \<Rightarrow> time \<Rightarrow> exec_effect list \<Rightarrow> exec_effect \<Rightarrow> exec_effect" where
  "errored_effect actionID attemptID now reported existing =
     (case by_key effectIdentity reported (effectIdentity existing) of
        Some returned \<Rightarrow>
          returned\<lparr>xe_id := xe_id existing, xe_action := actionID, xe_attempt := attemptID,
            xe_evidence := (if xe_evidence returned = RawNil \<or> xe_evidence returned = raw_empty
                            then xe_evidence existing else xe_evidence returned),
            xe_observed_at := (if xe_observed_at returned = [] then format_time now else xe_observed_at returned)\<rparr>
      | None \<Rightarrow>
          existing\<lparr>xe_attempt := attemptID, xe_state := EffectUnknown, xe_observed_at := format_time now,
            xe_evidence := appendEvidence (xe_evidence existing) [''dispatch_result_unreported'']\<rparr>)"

fun update_effects :: "exec_effect list \<Rightarrow> unit tx" where
  "update_effects [] db = Inr (db, ())"
| "update_effects (e # rest) db = tx_bind (UpdateEffect e db) (\<lambda>db _. update_effects rest db)"

definition recordDispatchErrorEffectsInJournal ::
  "string \<Rightarrow> string \<Rightarrow> exec_effect list \<Rightarrow> time \<Rightarrow> unit tx" where
  "recordDispatchErrorEffectsInJournal actionID attemptID reported0 now db =
     tx_bind (ListEffects actionID db) (\<lambda>db existing.
       if existing = [] then Inl (invalid_journal ''errored dispatch has no planned effects'')
       else
         let reported = normalizeReportedEffects reported0 actionID in
         case validateEffects reported actionID of
           Some e \<Rightarrow> Inl (wrapped ''errored dispatch effects'' e)
         | None \<Rightarrow>
         (case match_reported existing [] reported of
            Some e \<Rightarrow> Inl e
          | None \<Rightarrow> update_effects (map (errored_effect actionID attemptID now reported) existing) db))"

end
