(* ===== verification/Exec_Transitions.thy ===== *)
theory Exec_Transitions
  imports Exec_Records
begin

text \<open>
  The durable state changes of an action (\<^verbatim>\<open>internal/execution/execution.go\<close>): each reads the row and
  writes the new outcome in one transaction, under the claim of the worker where the name says so. A
  function that returns an action with an error returns the action it was given.
\<close>

definition finish_transition ::
  "exec_action \<Rightarrow> exec_world \<times> (exec_error + exec_action) \<Rightarrow> exec_world \<times> exec_action \<times> exec_error option" where
  "finish_transition action r =
     (case r of
        (w, Inl e) \<Rightarrow> (w, action, Some (if isNoRows e then lease_lost else e))
      | (w, Inr updated) \<Rightarrow>
          (w, updated\<lparr>xa_kind := xa_kind action, xa_plan_id := xa_plan_id action,
                      xa_plan_revision := xa_plan_revision action, xa_plan_digest := xa_plan_digest action\<rparr>, None))"

definition cancelledOrDeadline :: "exec_action \<Rightarrow> time \<Rightarrow> action_state option" where
  "cancelledOrDeadline action now =
     (if xa_cancelled_at action \<noteq> None then Some ActionCancelled
      else if expired (xa_deadline_at action) now then Some ActionDeadlineExceeded
      else None)"

definition journalUnresolvedCount :: "string \<Rightarrow> bool \<Rightarrow> int tx" where
  "journalUnresolvedCount actionID includePending db =
     tx_bind (ListEffects actionID db) (\<lambda>db effects. Inr (db, unresolvedEffectCount effects includePending))"

definition outcome_update_of ::
  "exec_action \<Rightarrow> action_state \<Rightarrow> time option \<Rightarrow> effect_outcome \<Rightarrow> string \<Rightarrow> int \<Rightarrow> time \<Rightarrow> outcome_update" where
  "outcome_update_of current state next outcome reason unresolved now =
     \<lparr>xu_id = xa_id current, xu_version = xa_version current, xu_state = state, xu_next_attempt_at = next,
      xu_claimed_by = [], xu_lease_until = None, xu_outcome = outcomeJSON outcome reason unresolved,
      xu_unresolved = unresolved, xu_updated_at = now\<rparr>"

section \<open>Transitions\<close>

definition transition_callback ::
  "string \<Rightarrow> action_state \<Rightarrow> effect_outcome \<Rightarrow> string \<Rightarrow> time option \<Rightarrow> time \<Rightarrow> exec_action tx" where
  "transition_callback actionID state0 outcome reason next now db =
     tx_bind (GetAction actionID db) (\<lambda>db current.
       let state = (if state0 = ActionStateOther [] then ActionNeedsReview else state0) in
       if TransitionAction (xa_state current) state \<noteq> None \<and> xa_state current \<noteq> state
       then Inl (plain_error ''action cannot transition'')
       else
         tx_bind (journalUnresolvedCount actionID (state = ActionReconciling) db) (\<lambda>db unresolved.
           UpdateOutcome (outcome_update_of current state next outcome reason unresolved now) db))"

definition transitionAt ::
  "exec_env \<Rightarrow> exec_action \<Rightarrow> action_state \<Rightarrow> effect_outcome \<Rightarrow> string \<Rightarrow> time option \<Rightarrow> exec_world
     \<Rightarrow> exec_world \<times> exec_action \<times> exec_error option" where
  "transitionAt env action state outcome reason next w =
     finish_transition action (withTransaction env (transition_callback (xa_id action) state outcome reason next) w)"

definition transitionOwnedAt ::
  "exec_env \<Rightarrow> exec_action \<Rightarrow> action_state \<Rightarrow> effect_outcome \<Rightarrow> string \<Rightarrow> time option \<Rightarrow> exec_world
     \<Rightarrow> exec_world \<times> exec_action \<times> exec_error option" where
  "transitionOwnedAt env action state outcome reason next w =
     finish_transition action
       (withClaimedTransaction env action (transition_callback (xa_id action) state outcome reason next) w)"

definition stop_callback :: "string \<Rightarrow> string \<Rightarrow> time \<Rightarrow> exec_action tx" where
  "stop_callback actionID reason now db =
     tx_bind (GetAction actionID db) (\<lambda>db current.
       case cancelledOrDeadline current now of
         None \<Rightarrow> Inl lease_lost
       | Some state \<Rightarrow> UpdateOutcome (outcome_update_of current state None no_outcome reason 0 now) db)"

definition transitionStopOwned ::
  "exec_env \<Rightarrow> exec_action \<Rightarrow> string \<Rightarrow> exec_world \<Rightarrow> exec_world \<times> exec_action \<times> exec_error option" where
  "transitionStopOwned env action reason w =
     finish_transition action (withClaimedTransaction env action (stop_callback (xa_id action) reason) w)"

text \<open>The outcome goes with the state; with an error it is the outcome asked for.\<close>

definition dispatch_callback :: "string \<Rightarrow> effect_outcome \<Rightarrow> time \<Rightarrow> (exec_action \<times> effect_outcome) tx" where
  "dispatch_callback actionID applied now db =
     tx_bind (GetAction actionID db) (\<lambda>db current.
     tx_bind (journalUnresolvedCount actionID False db) (\<lambda>db unresolved.
       let (state, outcome) = (case cancelledOrDeadline current now of
                                 Some stop \<Rightarrow> (stop, no_outcome)
                               | None \<Rightarrow> (ActionSucceeded, applied)) in
       tx_bind (UpdateOutcome (outcome_update_of current state None outcome ''dispatch_applied'' unresolved now) db)
         (\<lambda>db updated. Inr (db, updated, outcome))))"

definition transitionDispatchOwned ::
  "exec_env \<Rightarrow> exec_action \<Rightarrow> effect_outcome \<Rightarrow> exec_world
     \<Rightarrow> exec_world \<times> exec_action \<times> effect_outcome \<times> exec_error option" where
  "transitionDispatchOwned env action applied w =
     (case withClaimedTransaction env action (dispatch_callback (xa_id action) applied) w of
        (w1, Inl e) \<Rightarrow> (w1, action, applied, Some (if isNoRows e then lease_lost else e))
      | (w1, Inr (updated, outcome)) \<Rightarrow>
          (w1, updated\<lparr>xa_kind := xa_kind action, xa_plan_id := xa_plan_id action,
                       xa_plan_revision := xa_plan_revision action, xa_plan_digest := xa_plan_digest action\<rparr>,
           outcome, None))"

definition uncertain_callback :: "string \<Rightarrow> string \<Rightarrow> time option \<Rightarrow> time \<Rightarrow> exec_action tx" where
  "uncertain_callback actionID reason nextAttemptAt now db =
     tx_bind (GetAction actionID db) (\<lambda>db current.
       let stop = cancelledOrDeadline current now;
           state = (case stop of Some s \<Rightarrow> s | None \<Rightarrow> ActionReconciling);
           next = (if stop = None then nextAttemptAt else None) in
       tx_bind (journalUnresolvedCount actionID (state = ActionReconciling) db) (\<lambda>db unresolved.
         UpdateOutcome (outcome_update_of current state next no_outcome reason unresolved now) db))"

definition transitionUncertainOwned ::
  "exec_env \<Rightarrow> exec_action \<Rightarrow> string \<Rightarrow> time option \<Rightarrow> exec_world \<Rightarrow> exec_world \<times> exec_action \<times> exec_error option" where
  "transitionUncertainOwned env action reason next w =
     finish_transition action (withClaimedTransaction env action (uncertain_callback (xa_id action) reason next) w)"

definition requeue_callback :: "string \<Rightarrow> string \<Rightarrow> time \<Rightarrow> exec_action tx" where
  "requeue_callback actionID reason now db =
     tx_bind (GetAction actionID db) (\<lambda>db current0.
     tx_bind (if xa_state current0 = ActionRunning
              then UpdateOutcome (outcome_update_of current0 ActionReconciling None no_outcome reason 0 now) db
              else Inr (db, current0)) (\<lambda>db current.
       UpdateOutcome (outcome_update_of current ActionQueued (Some now) no_outcome reason 0 now) db))"

definition requeue_for ::
  "bool \<Rightarrow> exec_env \<Rightarrow> exec_action \<Rightarrow> string \<Rightarrow> exec_world \<Rightarrow> exec_world \<times> exec_action \<times> exec_error option" where
  "requeue_for claimed env action reason w =
     finish_transition action (transaction_for claimed env action (requeue_callback (xa_id action) reason) w)"

section \<open>Waiting and holding\<close>

definition applyHold :: "exec_action \<Rightarrow> exec_error \<Rightarrow> time \<Rightarrow> unit tx" where
  "applyHold action cause now db =
     tx_bind (journalUnresolvedCount (xa_id action) False db) (\<lambda>db unresolved.
     tx_bind (UpdateOutcome (outcome_update_of action ActionNeedsReview None no_outcome
                (safeDetail (Some cause)) unresolved now) db) (\<lambda>db _. Inr (db, ())))"

definition applyWait :: "exec_env \<Rightarrow> exec_action \<Rightarrow> exec_error \<Rightarrow> time \<Rightarrow> unit tx" where
  "applyWait env action cause now db =
     tx_bind (ListAttempts (xa_id action) db) (\<lambda>db attempts.
       let attemptNumber = int (length attempts) in
       if 0 < xv_max_attempts env \<and> xv_max_attempts env \<le> attemptNumber
       then applyHold action (wrapped ''retry limit reached'' cause) now db
       else
         tx_bind (UpdateOutcome (outcome_update_of action ActionWaitingDependency (Some (now + xv_delay env attemptNumber))
                    no_outcome ''dependency_wait'' 0 now) db) (\<lambda>db _. Inr (db, ())))"

definition settle_cause :: "exec_error \<Rightarrow> exec_world \<times> (exec_error + unit) \<Rightarrow> exec_world \<times> exec_error" where
  "settle_cause cause r =
     (case r of
        (w, Inl e) \<Rightarrow> (w, if isNoRows e then lease_lost else e)
      | (w, Inr _) \<Rightarrow> (w, cause))"

definition waitFor :: "exec_env \<Rightarrow> exec_action \<Rightarrow> exec_error \<Rightarrow> bool \<Rightarrow> exec_world \<Rightarrow> exec_world \<times> exec_error" where
  "waitFor env action cause claimed w =
     settle_cause cause
       (transaction_for claimed env action
         (\<lambda>now db. tx_bind (GetAction (xa_id action) db) (\<lambda>db current. applyWait env current cause now db)) w)"

definition holdFor :: "exec_env \<Rightarrow> exec_action \<Rightarrow> exec_error \<Rightarrow> bool \<Rightarrow> exec_world \<Rightarrow> exec_world \<times> exec_error" where
  "holdFor env action cause claimed w =
     settle_cause cause
       (transaction_for claimed env action
         (\<lambda>now db. tx_bind (GetAction (xa_id action) db) (\<lambda>db current. applyHold current cause now db)) w)"

section \<open>Reads and attempts\<close>

definition currentAction ::
  "exec_env \<Rightarrow> exec_action \<Rightarrow> exec_world \<Rightarrow> exec_world \<times> (exec_error + exec_action)" where
  "currentAction env action w =
     (case withTransaction env (\<lambda>_. GetAction (xa_id action)) w of
        (w1, Inl e) \<Rightarrow> (w1, Inl e)
      | (w1, Inr latest) \<Rightarrow>
          (w1, Inr (latest\<lparr>xa_kind := xa_kind action, xa_plan_id := xa_plan_id action,
                           xa_plan_revision := xa_plan_revision action, xa_plan_digest := xa_plan_digest action\<rparr>)))"

definition sql_lost :: "exec_error \<Rightarrow> exec_error" where
  "sql_lost e = (if ErrNoRows \<in> set (xx_is e) then lease_lost else e)"

definition newAttemptOwnedWithExternalID ::
  "exec_env \<Rightarrow> exec_action \<Rightarrow> attempt_phase \<Rightarrow> certainty \<Rightarrow> string \<Rightarrow> exec_world
     \<Rightarrow> exec_world \<times> (exec_error + exec_attempt)" where
  "newAttemptOwnedWithExternalID env action phase certainty externalID w =
     map_prod id (map_sum sql_lost id)
       (withClaimedTransaction env action (create_next_attempt env (xa_id action) phase certainty externalID) w)"

definition updateAttemptOwned ::
  "exec_env \<Rightarrow> exec_action \<Rightarrow> exec_attempt \<Rightarrow> exec_world \<Rightarrow> exec_world \<times> (exec_error + exec_attempt)" where
  "updateAttemptOwned env action attempt w =
     map_prod id (map_sum sql_lost id) (withClaimedTransaction env action (\<lambda>_. UpdateAttempt attempt) w)"

definition updateAttemptFor ::
  "exec_env \<Rightarrow> exec_action \<Rightarrow> exec_attempt \<Rightarrow> bool \<Rightarrow> exec_world \<Rightarrow> exec_world \<times> (exec_error + exec_attempt)" where
  "updateAttemptFor env action attempt claimed w =
     (if claimed then updateAttemptOwned env action attempt w
      else withTransaction env (\<lambda>_. UpdateAttempt attempt) w)"

definition recordEffectsFor ::
  "exec_env \<Rightarrow> exec_action \<Rightarrow> exec_attempt \<Rightarrow> exec_effect list \<Rightarrow> effect_state \<Rightarrow> bool \<Rightarrow> exec_world
     \<Rightarrow> exec_world \<times> (exec_error + unit)" where
  "recordEffectsFor env action attempt reported default_state claimed w =
     transaction_for claimed env action
       (recordEffectsInJournal env (xa_id action) (xt_id attempt) reported default_state True) w"

definition recordUnknownEffectsOwned ::
  "exec_env \<Rightarrow> exec_action \<Rightarrow> exec_attempt \<Rightarrow> effect_state \<Rightarrow> exec_world \<Rightarrow> exec_world \<times> (exec_error + unit)" where
  "recordUnknownEffectsOwned env action attempt default_state w =
     withClaimedTransaction env action
       (recordEffectsInJournal env (xa_id action) (xt_id attempt) [] default_state False) w"

definition recordDispatchErrorEffectsOwned ::
  "exec_env \<Rightarrow> exec_action \<Rightarrow> exec_attempt \<Rightarrow> exec_effect list \<Rightarrow> exec_world \<Rightarrow> exec_world \<times> (exec_error + unit)" where
  "recordDispatchErrorEffectsOwned env action attempt reported w =
     withClaimedTransaction env action
       (recordDispatchErrorEffectsInJournal (xa_id action) (xt_id attempt) reported) w"

definition prepareDispatch ::
  "exec_env \<Rightarrow> exec_action \<Rightarrow> exec_attempt \<Rightarrow> exec_effect list \<Rightarrow> exec_world
     \<Rightarrow> exec_world \<times> (exec_error + exec_attempt)" where
  "prepareDispatch env action observed effects w =
     map_prod id (map_sum sql_lost id)
       (withClaimedTransaction env action (prepare_callback env (xa_id action) observed effects) w)"

definition finishAttempt ::
  "exec_attempt \<Rightarrow> attempt_state \<Rightarrow> certainty \<Rightarrow> exec_error option \<Rightarrow> time \<Rightarrow> exec_attempt" where
  "finishAttempt attempt state certainty e now =
     attempt\<lparr>xt_state := state, xt_certainty := certainty,
             xt_finished_at := (if AttemptState_Terminal state then format_time now else xt_finished_at attempt),
             xt_error_code := (case e of Some err \<Rightarrow> failure_text (failureKind err) | None \<Rightarrow> xt_error_code attempt),
             xt_error_detail := (case e of Some err \<Rightarrow> safeDetail (Some err) | None \<Rightarrow> xt_error_detail attempt),
             xt_evidence := (if xt_evidence attempt = RawNil then raw_empty else xt_evidence attempt)\<rparr>"

definition retryAt :: "exec_env \<Rightarrow> int \<Rightarrow> time \<Rightarrow> time" where
  "retryAt env attemptNumber now = now + xv_delay env (if attemptNumber \<le> 0 then 1 else attemptNumber)"

definition beforeDispatch :: "exec_env \<Rightarrow> exec_action \<Rightarrow> exec_world \<Rightarrow> exec_world \<times> exec_error option" where
  "beforeDispatch env action w =
     (case xv_ctx env (xw_ticks w) of
        Some e \<Rightarrow> (w, Some (NewFailure FailureCancelled e))
      | None \<Rightarrow>
      (case withTransaction env (\<lambda>_. GetAction (xa_id action)) w of
         (w1, Inl e) \<Rightarrow> (w1, Some e)
       | (w1, Inr current) \<Rightarrow>
           let now = clock env w1 in
           if xa_cancelled_at current \<noteq> None
           then (w1, Some (NewFailure FailureCancelled (plain_error ''cancellation requested before dispatch'')))
           else if expired (xa_deadline_at current) now
           then (w1, Some (NewFailure FailureConflict (plain_error ''action deadline exceeded before dispatch'')))
           else if xa_version current \<noteq> xa_version action \<or> xa_claimed_by current \<noteq> xv_worker env
             \<or> xa_lease_until current = None
           then (w1, Some lease_lost)
           else if \<not> (case xa_lease_until current of None \<Rightarrow> False | Some lease \<Rightarrow> now < lease)
           then (w1, Some lease_lost)
           else (w1, None)))"

end
