(* ===== verification/Exec_Barrier.thy ===== *)
theory Exec_Barrier
  imports Exec_Transitions
begin

text \<open>
  The dispatch barrier (\<^verbatim>\<open>internal/execution/execution.go\<close>): a dispatch attempt stays running until its
  handler has returned, so that nobody reconciles or repeats it before. These are the steps that record
  the return when the worker no longer owns the action, and the ways a later worker finds out. The retry
  goroutine of \<open>scheduleBarrierRetry\<close> is another worker of the journal.
\<close>

definition rememberDispatchBarrierFallback :: "string \<Rightarrow> string \<Rightarrow> exec_world \<Rightarrow> exec_world" where
  "rememberDispatchBarrierFallback actionID0 attemptID0 w =
     (let actionID = trim_space actionID0; attemptID = trim_space attemptID0 in
      if actionID = [] \<or> attemptID = [] then w
      else w\<lparr>xw_fallback := List.insert (actionID, attemptID) (xw_fallback w)\<rparr>)"

definition forgetDispatchBarrierFallback :: "string \<Rightarrow> string \<Rightarrow> exec_world \<Rightarrow> exec_world" where
  "forgetDispatchBarrierFallback actionID attemptID w =
     w\<lparr>xw_fallback := filter (\<lambda>p. p \<noteq> (actionID, attemptID)) (xw_fallback w)\<rparr>"

definition pendingDispatchBarrierFallbackAttempts :: "string \<Rightarrow> exec_world \<Rightarrow> string list" where
  "pendingDispatchBarrierFallbackAttempts actionID w =
     map snd (filter (\<lambda>p. fst p = actionID) (xw_fallback w))"

definition scheduleBarrierRetry :: "string \<Rightarrow> string \<Rightarrow> exec_world \<Rightarrow> exec_world" where
  "scheduleBarrierRetry = rememberDispatchBarrierFallback"

definition live_dispatch :: "exec_attempt \<Rightarrow> bool" where
  "live_dispatch t \<longleftrightarrow> xt_phase t = AttemptDispatch \<and> xt_state t = AttemptRunning"

definition latest :: "exec_attempt list \<Rightarrow> exec_attempt option" where
  "latest ts =
     foldl (\<lambda>best t. case best of None \<Rightarrow> Some t
                     | Some b \<Rightarrow> if xt_number b < xt_number t then Some t else best) None ts"

definition activeDispatchAttempt ::
  "exec_env \<Rightarrow> string \<Rightarrow> exec_world \<Rightarrow> exec_world \<times> (exec_error + exec_attempt option)" where
  "activeDispatchAttempt env actionID w =
     map_prod id (map_sum id (\<lambda>attempts. latest (filter live_dispatch attempts)))
       (withTransaction env (\<lambda>_. ListAttempts actionID) w)"

section \<open>Recording the return\<close>

definition persistDispatchBarrierIntent :: "string \<Rightarrow> string \<Rightarrow> unit tx" where
  "persistDispatchBarrierIntent actionID attemptID db =
     tx_bind (ListAttempts actionID db) (\<lambda>db attempts.
       case find (\<lambda>t. xt_id t = attemptID \<and> live_dispatch t) attempts of
         None \<Rightarrow> Inr (db, ())
       | Some attempt \<Rightarrow>
           (case dispatchBarrierRetryIntentAttempt (xt_evidence attempt) of
              Some intent \<Rightarrow>
                if intent = xt_id attempt then Inr (db, ())
                else Inl (invalid_journal ''dispatch barrier intent belongs to another attempt'')
            | None \<Rightarrow>
                (case evidenceWithDispatchBarrierRetryIntent (xt_evidence attempt) (xt_id attempt) of
                   Inl e \<Rightarrow> Inl e
                 | Inr evidence \<Rightarrow>
                     tx_bind (UpdateAttempt (attempt\<lparr>xt_certainty := CertaintyUncertain,
                         xt_error_code := failure_text FailureUncertain,
                         xt_error_detail := ''dispatch handler returned; barrier release pending'',
                         xt_evidence := evidence, xt_finished_at := []\<rparr>) db) (\<lambda>db _. Inr (db, ())))))"

definition marked_outcome ::
  "exec_action \<Rightarrow> bool \<Rightarrow> raw_message \<Rightarrow> int \<Rightarrow> time \<Rightarrow> outcome_update" where
  "marked_outcome current preserveClaim outcome unresolved now =
     (let keep = (xa_state current = ActionRunning \<and> preserveClaim \<and> xa_cancelled_at current = None) in
      \<lparr>xu_id = xa_id current, xu_version = xa_version current,
       xu_state = (if xa_state current = ActionRunning \<and> \<not> keep then ActionReconciling else xa_state current),
       xu_next_attempt_at = Some now, xu_claimed_by = (if keep then xa_claimed_by current else []),
       xu_lease_until = (if keep then xa_lease_until current else None), xu_outcome = outcome,
       xu_unresolved = unresolved, xu_updated_at = now\<rparr>)"

definition markDispatchBarrierReturned :: "string \<Rightarrow> string \<Rightarrow> bool \<Rightarrow> time \<Rightarrow> unit tx" where
  "markDispatchBarrierReturned actionID attemptID preserveClaim now db =
     tx_bind (ListAttempts actionID db) (\<lambda>db attempts.
       if \<not> list_ex (\<lambda>t. xt_id t = attemptID \<and> live_dispatch t) attempts then Inr (db, ())
       else
         tx_bind (GetAction actionID db) (\<lambda>db current.
           if dispatchBarrierReturnedAttempt (xa_outcome current) = Some attemptID
             \<and> (xa_state current \<noteq> ActionRunning \<or> preserveClaim \<and> xa_cancelled_at current = None)
           then Inr (db, ())
           else case outcomeWithDispatchBarrierReturned (xa_outcome current) attemptID of
             Inl e \<Rightarrow> Inl e
           | Inr outcome \<Rightarrow>
               tx_bind (journalUnresolvedCount actionID True db) (\<lambda>db unresolved.
               tx_bind (UpdateOutcome (marked_outcome current preserveClaim outcome unresolved now) db) (\<lambda>db _.
                 Inr (db, ())))))"

definition returned_attempt :: "exec_attempt \<Rightarrow> exec_attempt" where
  "returned_attempt attempt =
     attempt\<lparr>xt_state := AttemptReconciling, xt_certainty := CertaintyUncertain,
             xt_error_code := failure_text FailureUncertain,
             xt_error_detail := ''dispatch handler returned after ownership boundary'',
             xt_evidence := evidenceJSON [''dispatch_handler_returned''], xt_finished_at := []\<rparr>"

definition release_callback :: "string \<Rightarrow> string \<Rightarrow> time \<Rightarrow> unit tx" where
  "release_callback actionID attemptID now db =
     tx_bind (ListAttempts actionID db) (\<lambda>db attempts.
       case find (\<lambda>t. xt_id t = attemptID \<and> live_dispatch t) attempts of
         None \<Rightarrow> Inr (db, ())
       | Some attempt \<Rightarrow>
           tx_bind (ListEffects actionID db) (\<lambda>db effects.
           tx_bind (update_effects (map (\<lambda>e. e\<lparr>xe_state := EffectUnknown, xe_observed_at := format_time now\<rparr>)
                      (filter (\<lambda>e. xe_attempt e = attemptID) effects)) db) (\<lambda>db _.
           tx_bind (UpdateAttempt (returned_attempt attempt) db) (\<lambda>db _. Inr (db, ())))))"

definition dispatchBarrierResolvedAndForget ::
  "exec_env \<Rightarrow> string \<Rightarrow> string \<Rightarrow> exec_world \<Rightarrow> exec_world \<times> bool" where
  "dispatchBarrierResolvedAndForget env actionID attemptID w =
     (case withTransaction env (\<lambda>_. ListAttempts actionID) w of
        (w1, Inl _) \<Rightarrow> (w1, False)
      | (w1, Inr attempts) \<Rightarrow>
          if list_ex (\<lambda>t. xt_id t = attemptID \<and> live_dispatch t) attempts then (w1, False)
          else (forgetDispatchBarrierFallback actionID attemptID w1, True))"

datatype barrier_end = BarrierDone | BarrierResolved | BarrierFailed exec_error

text \<open>The loop of four tries that the three transactions of the release share.\<close>

fun barrier_tries ::
  "nat \<Rightarrow> exec_env \<Rightarrow> string \<Rightarrow> string \<Rightarrow> (time \<Rightarrow> unit tx) \<Rightarrow> exec_world \<Rightarrow> exec_world \<times> barrier_end" where
  "barrier_tries tries env actionID attemptID fn w =
     (case withTransaction env fn w of
        (w1, Inr _) \<Rightarrow> (w1, BarrierDone)
      | (w1, Inl e) \<Rightarrow>
          (case dispatchBarrierResolvedAndForget env actionID attemptID w1 of
             (w2, True) \<Rightarrow> (w2, BarrierResolved)
           | (w2, False) \<Rightarrow>
               if tries = 0 \<or> ErrLeaseLost \<notin> set (xx_is e) then (w2, BarrierFailed e)
               else barrier_tries (tries - 1) env actionID attemptID fn w2))"

declare barrier_tries.simps [simp del]

definition release_attempt ::
  "exec_env \<Rightarrow> string \<Rightarrow> string \<Rightarrow> exec_world \<Rightarrow> exec_world \<times> exec_error option" where
  "release_attempt env actionID attemptID w =
     (case barrier_tries 3 env actionID attemptID (release_callback actionID attemptID) w of
        (w1, BarrierDone) \<Rightarrow> (forgetDispatchBarrierFallback actionID attemptID w1, None)
      | (w1, BarrierResolved) \<Rightarrow> (w1, None)
      | (w1, BarrierFailed e) \<Rightarrow> (w1, Some e))"

definition releaseDispatchBarrierWithClaim ::
  "exec_env \<Rightarrow> string \<Rightarrow> string \<Rightarrow> bool \<Rightarrow> exec_world \<Rightarrow> exec_world \<times> exec_error option" where
  "releaseDispatchBarrierWithClaim env actionID attemptID preserveClaim w =
     (let w0 = rememberDispatchBarrierFallback actionID attemptID w in
      case barrier_tries 3 env actionID attemptID (\<lambda>_. persistDispatchBarrierIntent actionID attemptID) w0 of
        (w1, BarrierResolved) \<Rightarrow> (w1, None)
      | (w1, intent) \<Rightarrow>
      (case barrier_tries 3 env actionID attemptID (markDispatchBarrierReturned actionID attemptID preserveClaim) w1 of
         (w2, BarrierResolved) \<Rightarrow> (w2, None)
       | (w2, BarrierFailed e) \<Rightarrow> (w2, Some e)
       | (w2, BarrierDone) \<Rightarrow>
           (case intent of
              BarrierFailed intentErr \<Rightarrow>
                (case dispatchBarrierResolvedAndForget env actionID attemptID w2 of
                   (w3, True) \<Rightarrow> (w3, None)
                 | (w3, False) \<Rightarrow> (w3, Some intentErr))
            | _ \<Rightarrow> release_attempt env actionID attemptID w2)))"

section \<open>Finding a returned dispatch\<close>

definition dispatchBarrierIntentAttempt ::
  "exec_env \<Rightarrow> string \<Rightarrow> exec_world \<Rightarrow> exec_world \<times> (exec_error + string option)" where
  "dispatchBarrierIntentAttempt env actionID w =
     map_prod id (map_sum id (\<lambda>attempts. map_option xt_id (latest (filter
         (\<lambda>t. live_dispatch t \<and> dispatchBarrierRetryIntentAttempt (xt_evidence t) = Some (xt_id t)) attempts))))
       (withTransaction env (\<lambda>_. ListAttempts actionID) w)"

definition stale_fallbacks :: "string list \<Rightarrow> exec_attempt list \<Rightarrow> string list" where
  "stale_fallbacks pending attempts =
     filter (\<lambda>aid. \<not> list_ex (\<lambda>t. xt_id t = aid \<and> live_dispatch t) attempts) pending"

definition dispatchBarrierFallbackAttempt ::
  "exec_env \<Rightarrow> string \<Rightarrow> exec_world \<Rightarrow> exec_world \<times> (exec_error + string option)" where
  "dispatchBarrierFallbackAttempt env actionID w =
     (let pending = pendingDispatchBarrierFallbackAttempts actionID w in
      if pending = [] then (w, Inr None)
      else case withTransaction env (\<lambda>_. ListAttempts actionID) w of
        (w1, Inl e) \<Rightarrow> (w1, Inl e)
      | (w1, Inr attempts) \<Rightarrow>
          (foldl (\<lambda>w aid. forgetDispatchBarrierFallback actionID aid w) w1 (stale_fallbacks pending attempts),
           Inr (map_option xt_id
             (latest (filter (\<lambda>t. List.member pending (xt_id t) \<and> live_dispatch t) attempts)))))"

end
