(* ===== verification/Exec_Process.thy ===== *)
theory Exec_Process
  imports Exec_Barrier
begin

text \<open>
  One pass over a claimed action (\<^verbatim>\<open>internal/execution/execution.go\<close>): \<open>processObserved\<close> observes, plans
  the dispatch durably, dispatches once and reads back; \<open>processReconciliation\<close> is the read-only path after
  a lost or recovered dispatch. Each early return is a branch. The contexts and watchers that tell a running
  handler of a cancellation only influence its answer.
\<close>

record exec_result =
  xs_action :: exec_action
  xs_outcome :: effect_outcome
  xs_state :: action_state
  xs_dispatched :: bool
  xs_attempt :: string
  xs_err :: "exec_error option"

definition result_of_action :: "exec_action \<Rightarrow> exec_result" where
  "result_of_action action =
     \<lparr>xs_action = action, xs_outcome = no_outcome, xs_state = xa_state action, xs_dispatched = False,
      xs_attempt = [], xs_err = None\<rparr>"

abbreviation with_err :: "exec_result \<Rightarrow> exec_error \<Rightarrow> exec_result" where
  "with_err result e \<equiv> result\<lparr>xs_err := Some e\<rparr>"

definition moved :: "exec_result \<Rightarrow> exec_world \<times> exec_action \<times> exec_error option \<Rightarrow> exec_world \<times> exec_result" where
  "moved result r =
     (case r of (w, updated, e) \<Rightarrow>
        (w, result\<lparr>xs_action := updated, xs_state := xa_state updated, xs_err := e\<rparr>))"

text \<open>A stop marker: the state change, and the error that led to it unless the change failed.\<close>

definition stopped ::
  "exec_env \<Rightarrow> exec_action \<Rightarrow> exec_error \<Rightarrow> exec_result \<Rightarrow> exec_world \<Rightarrow> exec_world \<times> exec_result" where
  "stopped env action cause result w =
     (case transitionStopOwned env action (failure_text (failureKind cause)) w of
        (w1, updated, e) \<Rightarrow>
          (w1, result\<lparr>xs_action := updated, xs_state := xa_state updated,
                      xs_err := (case e of None \<Rightarrow> Some cause | Some x \<Rightarrow> Some x)\<rparr>))"

section \<open>Calls of handlers\<close>

definition call_observe :: "exec_handler \<Rightarrow> exec_action \<Rightarrow> exec_world \<Rightarrow> exec_world \<times> (exec_error + observation)" where
  "call_observe h action w =
     (let answer = hd_observe h (xw_ticks w) action in
      (w\<lparr>xw_calls := xw_calls w @ [CallObserve (xa_id action) answer]\<rparr>, answer))"

definition call_dispatch ::
  "exec_handler \<Rightarrow> exec_action \<Rightarrow> exec_attempt \<Rightarrow> exec_world \<Rightarrow> exec_world \<times> dispatch_result \<times> exec_error option" where
  "call_dispatch h action attempt w =
     (let answer = hd_dispatch h (xw_ticks w) action attempt in
      (w\<lparr>xw_calls := xw_calls w @ [CallDispatch (xa_id action) attempt answer]\<rparr>, answer))"

definition call_reconcile ::
  "exec_handler \<Rightarrow> exec_action \<Rightarrow> exec_attempt \<Rightarrow> exec_world \<Rightarrow> exec_world \<times> (exec_error + reconcile_result)" where
  "call_reconcile h action attempt w =
     (let answer = hd_reconcile h (xw_ticks w) action attempt in
      (w\<lparr>xw_calls := xw_calls w @ [CallReconcile (xa_id action) attempt answer]\<rparr>, answer))"

section \<open>A failed dispatch\<close>

definition dispatchResultHasEvidence :: "dispatch_result \<Rightarrow> bool" where
  "dispatchResultHasEvidence r \<longleftrightarrow>
     \<not> blank (xd_external_id r) \<or> xd_accepted r \<or> EffectOutcome_Valid (xd_outcome r) \<or> xd_evidence r \<noteq> []
     \<or> xd_effects r \<noteq> []"

definition dispatchResultIdentity :: "dispatch_result \<Rightarrow> dispatch_result" where
  "dispatchResultIdentity r =
     \<lparr>xd_accepted = False, xd_outcome = no_outcome, xd_external_id = xd_external_id r, xd_evidence = [],
      xd_effects = []\<rparr>"

definition dispatchErrorEvidence :: "dispatch_result \<Rightarrow> string list" where
  "dispatchErrorEvidence r =
     [''dispatch_result_uncertain''] @ xd_evidence r
     @ (if xd_accepted r then [''dispatch_result_accepted''] else [])
     @ (if EffectOutcome_Valid (xd_outcome r) then [''dispatch_result_outcome='' @ outcome_text (xd_outcome r)] else [])
     @ (if xd_effects r \<noteq> [] then [''dispatch_effect_count='' @ int_text (int (length (xd_effects r)))] else [])"

definition dispatch_uncertain :: "dispatch_result \<Rightarrow> exec_error \<Rightarrow> bool" where
  "dispatch_uncertain r e \<longleftrightarrow>
     failureWasDispatched e \<or> failureKind e = FailureUncertain \<or> dispatchResultHasEvidence r"

definition uncertain_attempt :: "exec_attempt \<Rightarrow> dispatch_result \<Rightarrow> exec_error \<Rightarrow> exec_attempt" where
  "uncertain_attempt attempt r e =
     attempt\<lparr>xt_state := AttemptReconciling, xt_certainty := CertaintyUncertain,
       xt_error_code := failure_text FailureUncertain, xt_error_detail := safeDetail (Some e),
       xt_external_id := (if blank (xd_external_id r) then xt_external_id attempt else xd_external_id r),
       xt_evidence := evidenceJSON (dispatchErrorEvidence r)\<rparr>"

text \<open>The effects of an uncertain dispatch: the reported ones, all unknown when the report is of no use.\<close>

definition record_uncertain_effects ::
  "exec_env \<Rightarrow> exec_action \<Rightarrow> exec_attempt \<Rightarrow> dispatch_result \<Rightarrow> exec_world \<Rightarrow> exec_world \<times> exec_error option" where
  "record_uncertain_effects env action finished r w =
     (if xd_effects r \<noteq> [] then
        (case recordDispatchErrorEffectsOwned env action finished (xd_effects r) w of
           (w1, Inr _) \<Rightarrow> (w1, None)
         | (w1, Inl _) \<Rightarrow>
             (case recordUnknownEffectsOwned env action finished EffectUnknown w1 of
                (w2, Inl e) \<Rightarrow> (w2, Some e)
              | (w2, Inr _) \<Rightarrow> (w2, None)))
      else
        (case recordUnknownEffectsOwned env action finished EffectUnknown w of
           (w1, Inl e) \<Rightarrow> (w1, Some e)
         | (w1, Inr _) \<Rightarrow> (w1, None)))"

definition finish_uncertain ::
  "exec_env \<Rightarrow> exec_result \<Rightarrow> exec_attempt \<Rightarrow> dispatch_result \<Rightarrow> exec_error \<Rightarrow> exec_world \<Rightarrow> exec_world \<times> exec_result" where
  "finish_uncertain env result attempt r e w =
     (let action = xs_action result; finished = uncertain_attempt attempt r e in
      case updateAttemptOwned env action finished w of
        (w1, Inl err) \<Rightarrow> (w1, with_err result err)
      | (w1, Inr _) \<Rightarrow>
      (case record_uncertain_effects env action finished r w1 of
         (w2, Some err) \<Rightarrow> (w2, with_err result err)
       | (w2, None) \<Rightarrow>
           moved result (transitionUncertainOwned env action ''dispatch_uncertain''
             (Some (retryAt env (xt_number attempt) (clock env w2))) w2)))"

definition finishDispatchError ::
  "exec_env \<Rightarrow> exec_result \<Rightarrow> exec_attempt \<Rightarrow> dispatch_result \<Rightarrow> exec_error \<Rightarrow> exec_world \<Rightarrow> exec_world \<times> exec_result" where
  "finishDispatchError env result attempt r e w =
     (if dispatch_uncertain r e then finish_uncertain env result attempt r e w
      else
        let action = xs_action result;
            finished = finishAttempt attempt AttemptFailed CertaintyNotDispatched (Some e) (clock env w) in
        case updateAttemptOwned env action finished w of
          (w1, Inl err) \<Rightarrow> (w1, with_err result err)
        | (w1, Inr _) \<Rightarrow>
            if failureKind e = FailureDependency then
              (case waitFor env action e True w1 of
                 (w2, err) \<Rightarrow> (w2, result\<lparr>xs_err := Some err, xs_state := ActionWaitingDependency\<rparr>))
            else
              moved result (transitionOwnedAt env action ActionFailed no_outcome (failure_text (failureKind e)) None w1))"

section \<open>Observe, dispatch, read back\<close>

definition observe_failed ::
  "exec_env \<Rightarrow> exec_action \<Rightarrow> exec_attempt \<Rightarrow> exec_error \<Rightarrow> exec_result \<Rightarrow> exec_world \<Rightarrow> exec_world \<times> exec_result" where
  "observe_failed env action attempt e result w =
     (let kind = failureKind e; (w1, current) = withTransaction env (\<lambda>_. GetAction (xa_id action)) w;
          stop = (case current of Inl _ \<Rightarrow> None | Inr a \<Rightarrow> cancelledOrDeadline a (clock env w1)) in
      if stop \<noteq> None then
        (case updateAttemptOwned env action
                (finishAttempt attempt AttemptCancelled CertaintyNotDispatched (Some e) (clock env w1)) w1 of
           (w2, Inl err) \<Rightarrow> (w2, with_err result err)
         | (w2, Inr _) \<Rightarrow> stopped env action e result w2)
      else
        let finished = attempt\<lparr>xt_state := AttemptFailed, xt_finished_at := format_time (clock env w1),
              xt_error_code := failure_text kind, xt_error_detail := safeDetail (Some e),
              xt_certainty := (if failureWasDispatched e \<or> kind = FailureUncertain then CertaintyUncertain
                               else xt_certainty attempt)\<rparr> in
        case updateAttemptOwned env action finished w1 of
          (w2, Inl err) \<Rightarrow> (w2, with_err result err)
        | (w2, Inr _) \<Rightarrow>
            if kind = FailureDependency then
              (case waitFor env action e True w2 of
                 (w3, err) \<Rightarrow> (w3, result\<lparr>xs_err := Some err, xs_action := action, xs_state := ActionWaitingDependency\<rparr>))
            else
              (case holdFor env action e True w2 of
                 (w3, err) \<Rightarrow> (w3, result\<lparr>xs_err := Some err, xs_action := action, xs_state := ActionNeedsReview\<rparr>)))"

definition hold_with ::
  "exec_env \<Rightarrow> exec_action \<Rightarrow> exec_attempt \<Rightarrow> exec_error \<Rightarrow> exec_result \<Rightarrow> exec_world \<Rightarrow> exec_world \<times> exec_result" where
  "hold_with env action finished cause result w =
     (case updateAttemptOwned env action finished w of
        (w1, Inl err) \<Rightarrow> (w1, with_err result err)
      | (w1, Inr _) \<Rightarrow>
          (case holdFor env action cause True w1 of
             (w2, err) \<Rightarrow> (w2, result\<lparr>xs_err := Some err, xs_state := ActionNeedsReview\<rparr>)))"

definition observe_satisfied ::
  "exec_env \<Rightarrow> exec_action \<Rightarrow> exec_attempt \<Rightarrow> observation \<Rightarrow> exec_result \<Rightarrow> exec_world \<Rightarrow> exec_world \<times> exec_result" where
  "observe_satisfied env action finished ob result w =
     (case updateAttemptOwned env action finished w of
        (w1, Inl err) \<Rightarrow> (w1, with_err result err)
      | (w1, Inr _) \<Rightarrow>
      (case recordEffectsFor env action finished (xo_effects ob) EffectAlreadySatisfied True w1 of
         (w2, Inl err) \<Rightarrow> (w2, with_err result err)
       | (w2, Inr _) \<Rightarrow>
           moved (result\<lparr>xs_outcome := OutcomeAlreadySatisfied\<rparr>)
             (transitionOwnedAt env action ActionSucceeded OutcomeAlreadySatisfied ''already_satisfied'' None w2)))"

text \<open>After a dispatch whose read-back agrees: attempt, effects, state.\<close>

definition finish_dispatch ::
  "exec_env \<Rightarrow> exec_action \<Rightarrow> exec_attempt \<Rightarrow> dispatch_result \<Rightarrow> observation \<Rightarrow> exec_result \<Rightarrow> exec_world
     \<Rightarrow> exec_world \<times> exec_result" where
  "finish_dispatch env action attempt r readBack result w =
     (let finished = (finishAttempt attempt AttemptSucceeded CertaintyKnown None (clock env w))
            \<lparr>xt_external_id := xd_external_id r, xt_evidence := evidenceJSON (xd_evidence r @ xo_evidence readBack)\<rparr> in
      case updateAttemptOwned env action finished w of
        (w1, Inl err) \<Rightarrow> (w1, with_err result err)
      | (w1, Inr _) \<Rightarrow>
      (case recordEffectsFor env action finished (xo_effects readBack) (effectForOutcome (xd_outcome r)) True w1 of
         (w2, Inl err) \<Rightarrow> (w2, with_err result err)
       | (w2, Inr _) \<Rightarrow>
           (case transitionDispatchOwned env action (xd_outcome r) w2 of
              (w3, updated, outcome, e) \<Rightarrow>
                (w3, result\<lparr>xs_action := updated, xs_state := xa_state updated, xs_outcome := outcome, xs_err := e\<rparr>))))"

definition uncertain_failure :: "exec_error \<Rightarrow> exec_error" where
  "uncertain_failure = NewDispatchedFailure FailureUncertain"

text \<open>What is wrong with a read-back: the error the dispatch is made uncertain with.\<close>

definition read_back_error :: "observation \<Rightarrow> observation \<Rightarrow> string \<Rightarrow> exec_error option" where
  "read_back_error observed readBack actionID =
     (case Observation_validate readBack actionID of
        Some e \<Rightarrow> Some e
      | None \<Rightarrow>
          if effectSetMismatch (xo_effects observed) (xo_effects readBack) actionID
          then Some (plain_error ''dispatch read-back effects did not match the approved target set'')
          else if xo_state readBack \<noteq> ObserveSatisfied
          then Some (plain_error ''dispatch read-back did not prove desired state'')
          else None)"

definition normalized_observation :: "observation \<Rightarrow> string \<Rightarrow> observation" where
  "normalized_observation ob actionID = ob\<lparr>xo_effects := normalizeReportedEffects (xo_effects ob) actionID\<rparr>"

definition normalized_dispatch :: "dispatch_result \<Rightarrow> string \<Rightarrow> dispatch_result" where
  "normalized_dispatch r actionID = r\<lparr>xd_effects := normalizeReportedEffects (xd_effects r) actionID\<rparr>"

definition after_dispatch ::
  "exec_env \<Rightarrow> exec_handler \<Rightarrow> exec_action \<Rightarrow> observation \<Rightarrow> exec_attempt \<Rightarrow> dispatch_result \<Rightarrow> exec_result \<Rightarrow> exec_world
     \<Rightarrow> exec_world \<times> exec_result" where
  "after_dispatch env h action ob attempt r0 result w =
     (case DispatchResult_validate r0 (xa_id action) of
        Some e \<Rightarrow> finishDispatchError env result attempt (dispatchResultIdentity r0) (uncertain_failure e) w
      | None \<Rightarrow>
          let r = normalized_dispatch r0 (xa_id action) in
          (case call_observe h action w of
             (w1, Inl e) \<Rightarrow> finishDispatchError env result attempt (dispatchResultIdentity r) (uncertain_failure e) w1
           | (w1, Inr readBack0) \<Rightarrow>
           (case read_back_error ob readBack0 (xa_id action) of
              Some e \<Rightarrow> finishDispatchError env result attempt (dispatchResultIdentity r) (uncertain_failure e) w1
            | None \<Rightarrow>
                if xd_effects r \<noteq> [] \<and> effectSetMismatch (xo_effects ob) (xd_effects r) (xa_id action)
                then finishDispatchError env result attempt (dispatchResultIdentity r)
                       (uncertain_failure (plain_error ''dispatch effects did not match the approved target set'')) w1
                else finish_dispatch env action attempt r (normalized_observation readBack0 (xa_id action)) result w1)))"

definition dispatch_body ::
  "exec_env \<Rightarrow> exec_handler \<Rightarrow> exec_action \<Rightarrow> observation \<Rightarrow> exec_attempt \<Rightarrow> exec_result \<Rightarrow> exec_world
     \<Rightarrow> exec_world \<times> exec_result" where
  "dispatch_body env h action ob attempt result w =
     (case beforeDispatch env action w of
        (w1, Some e) \<Rightarrow>
          if ErrLeaseLost \<in> set (xx_is e) then (w1, with_err result e)
          else
            (case updateAttemptOwned env action
                    (finishAttempt attempt AttemptCancelled CertaintyNotDispatched (Some e) (clock env w1)) w1 of
               (w2, Inl err) \<Rightarrow> (w2, with_err result err)
             | (w2, Inr _) \<Rightarrow> stopped env action e result w2)
      | (w1, None) \<Rightarrow>
          (case call_dispatch h action attempt w1 of
             (w2, r, Some e) \<Rightarrow> finishDispatchError env (result\<lparr>xs_dispatched := True\<rparr>) attempt r e w2
           | (w2, r, None) \<Rightarrow> after_dispatch env h action ob attempt r (result\<lparr>xs_dispatched := True\<rparr>) w2))"

text \<open>The deferred release of the barrier runs after the body, whatever it returned.\<close>

definition release_after ::
  "exec_env \<Rightarrow> string \<Rightarrow> string \<Rightarrow> exec_world \<times> exec_result \<Rightarrow> exec_world \<times> exec_result" where
  "release_after env actionID attemptID r =
     (case r of (w, result) \<Rightarrow>
        (case releaseDispatchBarrierWithClaim env actionID attemptID False w of
           (w1, None) \<Rightarrow> (w1, result)
         | (w1, Some _) \<Rightarrow> (scheduleBarrierRetry actionID attemptID w1, result)))"

definition observe_needs_action ::
  "exec_env \<Rightarrow> exec_handler \<Rightarrow> exec_action \<Rightarrow> exec_attempt \<Rightarrow> observation \<Rightarrow> exec_result \<Rightarrow> exec_world
     \<Rightarrow> exec_world \<times> exec_result" where
  "observe_needs_action env h action finished ob result w =
     (case prepareDispatch env action finished (xo_effects ob) w of
        (w1, Inl e) \<Rightarrow> (w1, with_err result e)
      | (w1, Inr attempt) \<Rightarrow>
          release_after env (xa_id action) (xt_id attempt)
            (dispatch_body env h action ob attempt (result\<lparr>xs_attempt := xt_id attempt\<rparr>) w1))"

definition after_observe ::
  "exec_env \<Rightarrow> exec_handler \<Rightarrow> exec_action \<Rightarrow> exec_attempt \<Rightarrow> observation \<Rightarrow> exec_result \<Rightarrow> exec_world
     \<Rightarrow> exec_world \<times> exec_result" where
  "after_observe env h action attempt ob0 result w =
     (let finished = (finishAttempt attempt AttemptSucceeded CertaintyKnown None (clock env w))
            \<lparr>xt_evidence := evidenceJSON (xo_evidence ob0)\<rparr>;
          ob = normalized_observation ob0 (xa_id action) in
      case Observation_validate ob0 (xa_id action) of
        Some e \<Rightarrow>
          hold_with env action (finishAttempt attempt AttemptFailed CertaintyKnown (Some e) (clock env w)) e result w
      | None \<Rightarrow>
          if xo_state ob = ObserveUnknown
          then hold_with env action finished (plain_error ''desired state could not be proven'') result w
          else if xo_state ob = ObserveSatisfied then observe_satisfied env action finished ob result w
          else observe_needs_action env h action finished ob result w)"

definition processObserved ::
  "exec_env \<Rightarrow> exec_handler \<Rightarrow> exec_action \<Rightarrow> exec_world \<Rightarrow> exec_world \<times> exec_result" where
  "processObserved env h action w =
     (let result0 = result_of_action action in
      case newAttemptOwnedWithExternalID env action AttemptObserve CertaintyNotDispatched [] w of
        (w1, Inl e) \<Rightarrow> (w1, with_err result0 e)
      | (w1, Inr attempt) \<Rightarrow>
          let result = result0\<lparr>xs_attempt := xt_id attempt\<rparr> in
          (case call_observe h action w1 of
             (w2, Inl e) \<Rightarrow> observe_failed env action attempt e result w2
           | (w2, Inr ob) \<Rightarrow> after_observe env h action attempt ob result w2))"

end
