(* ===== verification/Exec_Reconcile.thy ===== *)
theory Exec_Reconcile
  imports Exec_Process
begin

text \<open>
  \<open>processReconciliation\<close>, the claim of an action and the batches (\<^verbatim>\<open>internal/execution/execution.go\<close>).
  A reconciliation runs under a claim, or without one when the action is cancelled or past its deadline,
  which the statement of \<open>Claim\<close> refuses; then every write is a plain transaction.
\<close>

section \<open>The attempt of a reconciliation\<close>

definition latestDispatchExternalID :: "exec_attempt list \<Rightarrow> string" where
  "latestDispatchExternalID attempts =
     (case latest (filter (\<lambda>t. xt_phase t = AttemptDispatch) attempts) of
        None \<Rightarrow> [] | Some t \<Rightarrow> xt_external_id t)"

definition bindReconciliationExternalID ::
  "exec_env \<Rightarrow> exec_action \<Rightarrow> exec_attempt \<Rightarrow> string \<Rightarrow> bool \<Rightarrow> exec_world \<Rightarrow> exec_world \<times> (exec_error + exec_attempt)" where
  "bindReconciliationExternalID env action attempt externalID claimed w =
     (if blank externalID \<or> xt_external_id attempt = externalID then (w, Inr attempt)
      else if \<not> blank (xt_external_id attempt)
      then (w, Inl (invalid_journal ''reconciliation external ID conflicts with dispatch identity''))
      else updateAttemptFor env action (attempt\<lparr>xt_external_id := externalID\<rparr>) claimed w)"

definition newest :: "exec_attempt list \<Rightarrow> exec_attempt option" where
  "newest attempts =
     (if attempts = [] then None
      else Some (foldl (\<lambda>b t. if xt_number b < xt_number t then t else b) (last attempts) attempts))"

definition open_reconciliation :: "exec_attempt \<Rightarrow> bool" where
  "open_reconciliation t \<longleftrightarrow> xt_phase t = AttemptReconcile \<and> xt_state t = AttemptReconciling"

definition newAttemptWithExternalID ::
  "exec_env \<Rightarrow> exec_action \<Rightarrow> attempt_phase \<Rightarrow> certainty \<Rightarrow> string \<Rightarrow> exec_world
     \<Rightarrow> exec_world \<times> (exec_error + exec_attempt)" where
  "newAttemptWithExternalID env action phase certainty externalID w =
     (case withTransaction env (nextAttemptInJournal env (xa_id action) phase certainty) w of
        (w1, Inl e) \<Rightarrow> (w1, Inl e)
      | (w1, Inr attempt0) \<Rightarrow>
          let attempt = attempt0\<lparr>xt_external_id := externalID\<rparr> in
          case Attempt_validate attempt of
            Some e \<Rightarrow> (w1, Inl e)
          | None \<Rightarrow> withTransaction env (\<lambda>_. CreateAttempt attempt) w1)"

definition reconciliationAttempt ::
  "exec_env \<Rightarrow> exec_action \<Rightarrow> exec_world \<Rightarrow> exec_world \<times> (exec_error + exec_attempt)" where
  "reconciliationAttempt env action w =
     (case withTransaction env (\<lambda>_. ListAttempts (xa_id action)) w of
        (w1, Inl e) \<Rightarrow> (w1, Inl e)
      | (w1, Inr attempts) \<Rightarrow>
          let externalID = latestDispatchExternalID attempts in
          case newest attempts of
            Some t \<Rightarrow>
              if open_reconciliation t then bindReconciliationExternalID env action t externalID False w1
              else newAttemptWithExternalID env action AttemptReconcile CertaintyUncertain externalID w1
          | None \<Rightarrow> newAttemptWithExternalID env action AttemptReconcile CertaintyUncertain externalID w1)"

definition reconciliationAttemptOwned ::
  "exec_env \<Rightarrow> exec_action \<Rightarrow> exec_world \<Rightarrow> exec_world \<times> (exec_error + exec_attempt)" where
  "reconciliationAttemptOwned env action w =
     (case withTransaction env (\<lambda>_. ListAttempts (xa_id action)) w of
        (w1, Inl e) \<Rightarrow> (w1, Inl e)
      | (w1, Inr attempts) \<Rightarrow>
          let externalID = latestDispatchExternalID attempts in
          case find open_reconciliation attempts of
            Some t \<Rightarrow> bindReconciliationExternalID env action t externalID True w1
          | None \<Rightarrow> newAttemptOwnedWithExternalID env action AttemptReconcile CertaintyUncertain externalID w1)"

section \<open>The end of a reconciliation\<close>

text \<open>A state change of a reconciliation: under the claim, or on the row read again.\<close>

definition unclaimed_move ::
  "exec_env \<Rightarrow> exec_result \<Rightarrow> (exec_action \<Rightarrow> exec_world \<Rightarrow> exec_world \<times> exec_action \<times> exec_error option)
     \<Rightarrow> exec_world \<Rightarrow> exec_world \<times> exec_result" where
  "unclaimed_move env result f w =
     (case currentAction env (xs_action result) w of
        (w1, Inl e) \<Rightarrow> (w1, with_err result e)
      | (w1, Inr current) \<Rightarrow> moved result (f current w1))"

definition finishReconciliationError ::
  "exec_env \<Rightarrow> exec_result \<Rightarrow> exec_attempt \<Rightarrow> exec_error \<Rightarrow> bool \<Rightarrow> exec_world \<Rightarrow> exec_world \<times> exec_result" where
  "finishReconciliationError env result attempt e claimed w =
     (let kind = failureKind e; action = xs_action result in
      if kind = FailureDependency \<or> kind = FailureUncertain then
        (let finished = attempt\<lparr>xt_state := AttemptReconciling, xt_certainty := CertaintyUncertain,
               xt_error_code := failure_text kind, xt_error_detail := safeDetail (Some e)\<rparr> in
         case updateAttemptFor env action finished claimed w of
           (w1, Inl err) \<Rightarrow> (w1, with_err result err)
         | (w1, Inr _) \<Rightarrow>
             if claimed then
               moved result (transitionUncertainOwned env action (failure_text kind)
                 (Some (retryAt env (xt_number attempt) (clock env w1))) w1)
             else
               unclaimed_move env result (\<lambda>current w2. transitionAt env current ActionReconciling no_outcome
                 (failure_text kind) (Some (retryAt env (xt_number attempt) (clock env w2))) w2) w1)
      else
        (case updateAttemptFor env action (finishAttempt attempt AttemptFailed CertaintyKnown (Some e) (clock env w))
                claimed w of
           (w1, Inl err) \<Rightarrow> (w1, with_err result err)
         | (w1, Inr _) \<Rightarrow>
             if claimed then
               moved result (transitionOwnedAt env action ActionNeedsReview no_outcome (failure_text kind) None w1)
             else
               unclaimed_move env result (\<lambda>current w2. transitionAt env current
                 (case cancelledOrDeadline current (clock env w2) of Some stop \<Rightarrow> stop | None \<Rightarrow> ActionNeedsReview)
                 no_outcome (failure_text kind) None w2) w1))"

definition invalid_failure :: "exec_error \<Rightarrow> exec_error" where
  "invalid_failure = NewFailure FailureInvalid"

text \<open>The attempt with what it reported, its effects, and then the next step.\<close>

definition record_reconciled ::
  "exec_env \<Rightarrow> exec_result \<Rightarrow> exec_attempt \<Rightarrow> exec_attempt \<Rightarrow> exec_effect list \<Rightarrow> effect_state \<Rightarrow> bool
     \<Rightarrow> (exec_world \<Rightarrow> exec_world \<times> exec_result) \<Rightarrow> exec_world \<Rightarrow> exec_world \<times> exec_result" where
  "record_reconciled env result attempt finished effects default_state claimed k w =
     (let action = xs_action result in
      case updateAttemptFor env action finished claimed w of
        (w1, Inl err) \<Rightarrow> (w1, with_err result err)
      | (w1, Inr _) \<Rightarrow>
      (case recordEffectsFor env action finished effects default_state claimed w1 of
         (w2, Inl err) \<Rightarrow> finishReconciliationError env result attempt (invalid_failure err) claimed w2
       | (w2, Inr _) \<Rightarrow> k w2))"

definition reconciled_move ::
  "exec_env \<Rightarrow> exec_result \<Rightarrow> effect_outcome \<Rightarrow> bool \<Rightarrow> exec_world \<Rightarrow> exec_world \<times> exec_result" where
  "reconciled_move env result outcome claimed w =
     (if claimed then
        (case transitionDispatchOwned env (xs_action result) outcome w of
           (w1, updated, _, e) \<Rightarrow>
             (w1, result\<lparr>xs_action := updated, xs_state := xa_state updated, xs_outcome := outcome, xs_err := e\<rparr>))
      else
        (case currentAction env (xs_action result) w of
           (w1, Inl e) \<Rightarrow> (w1, with_err result e)
         | (w1, Inr current) \<Rightarrow>
             moved (result\<lparr>xs_outcome := outcome\<rparr>) (transitionAt env current
               (case cancelledOrDeadline current (clock env w1) of Some stop \<Rightarrow> stop | None \<Rightarrow> ActionSucceeded)
               outcome ''reconciled'' None w1)))"

definition retry_move :: "exec_env \<Rightarrow> exec_result \<Rightarrow> bool \<Rightarrow> exec_world \<Rightarrow> exec_world \<times> exec_result" where
  "retry_move env result claimed w =
     (if claimed then moved result (requeue_for True env (xs_action result) ''reconciliation_proved_no_effect'' w)
      else
        unclaimed_move env result (\<lambda>current w1.
          case cancelledOrDeadline current (clock env w1) of
            Some stop \<Rightarrow> transitionAt env current stop no_outcome ''reconciliation_cancelled'' None w1
          | None \<Rightarrow> requeue_for False env current ''reconciliation_proved_no_effect'' w1) w)"

definition unresolved_move ::
  "exec_env \<Rightarrow> exec_result \<Rightarrow> exec_attempt \<Rightarrow> bool \<Rightarrow> exec_world \<Rightarrow> exec_world \<times> exec_result" where
  "unresolved_move env result attempt claimed w =
     (if claimed then
        moved result (transitionOwnedAt env (xs_action result) ActionReconciling no_outcome ''reconciliation_unresolved''
          (Some (retryAt env (xt_number attempt) (clock env w))) w)
      else
        unclaimed_move env result (\<lambda>current w1. transitionAt env current ActionReconciling no_outcome
          ''reconciliation_unresolved'' (Some (retryAt env (xt_number attempt) (clock env w1))) w1) w)"

definition after_reconcile ::
  "exec_env \<Rightarrow> exec_result \<Rightarrow> exec_attempt \<Rightarrow> exec_error + reconcile_result \<Rightarrow> bool \<Rightarrow> exec_world
     \<Rightarrow> exec_world \<times> exec_result" where
  "after_reconcile env result attempt answer claimed w =
     (case answer of
        Inl e \<Rightarrow> finishReconciliationError env result attempt e claimed w
      | Inr r \<Rightarrow>
      (case ReconcileResult_validate r (xa_id (xs_action result)) of
         Some e \<Rightarrow> finishReconciliationError env result attempt (invalid_failure e) claimed w
       | None \<Rightarrow>
           let effects = normalizeReportedEffects (xr_effects r) (xa_id (xs_action result));
               closed = (finishAttempt attempt AttemptSucceeded CertaintyKnown None (clock env w))
                 \<lparr>xt_evidence := evidenceJSON (xr_evidence r)\<rparr>;
               still_open = attempt\<lparr>xt_state := AttemptReconciling, xt_certainty := CertaintyUncertain,
                 xt_evidence := evidenceJSON (xr_evidence r), xt_finished_at := []\<rparr> in
           if EffectOutcome_Valid (xr_outcome r) then
             record_reconciled env result attempt closed effects (effectForOutcome (xr_outcome r)) claimed
               (reconciled_move env result (xr_outcome r) claimed) w
           else if xr_safe_to_retry r then
             record_reconciled env result attempt closed effects EffectPending claimed (retry_move env result claimed) w
           else
             record_reconciled env result attempt still_open effects EffectUnknown claimed
               (unresolved_move env result attempt claimed) w))"

section \<open>The barrier of a reconciliation\<close>

definition returned_dispatch ::
  "exec_env \<Rightarrow> exec_action \<Rightarrow> exec_world \<Rightarrow> exec_world \<times> (exec_error + string option)" where
  "returned_dispatch env action w =
     (case dispatchBarrierReturnedAttempt (xa_outcome action) of
        Some attemptID \<Rightarrow> (w, Inr (Some attemptID))
      | None \<Rightarrow>
      (case dispatchBarrierIntentAttempt env (xa_id action) w of
         (w1, Inl e) \<Rightarrow> (w1, Inl e)
       | (w1, Inr (Some attemptID)) \<Rightarrow> (w1, Inr (Some attemptID))
       | (w1, Inr None) \<Rightarrow> dispatchBarrierFallbackAttempt env (xa_id action) w1))"

definition deferActiveDispatch ::
  "exec_env \<Rightarrow> exec_action \<Rightarrow> exec_attempt \<Rightarrow> bool \<Rightarrow> exec_world \<Rightarrow> exec_world \<times> exec_result" where
  "deferActiveDispatch env action attempt claimed w =
     (let result = (result_of_action action)\<lparr>xs_attempt := xt_id attempt\<rparr>;
          next = Some (retryAt env (xt_number attempt) (clock env w));
          settle = (\<lambda>r. case r of (w1, updated, Some e) \<Rightarrow> (w1, with_err result e)
                                | (w1, updated, None) \<Rightarrow> (w1, result\<lparr>xs_action := updated, xs_state := xa_state updated\<rparr>)) in
      if claimed then
        settle (transitionOwnedAt env action ActionReconciling no_outcome ''dispatch_still_active'' next w)
      else
        (case currentAction env action w of
           (w1, Inl e) \<Rightarrow> (w1, with_err result e)
         | (w1, Inr current) \<Rightarrow>
             settle (transitionAt env current ActionReconciling no_outcome ''dispatch_still_active'' next w1)))"

definition reconcile_attempt ::
  "exec_env \<Rightarrow> exec_handler \<Rightarrow> exec_result \<Rightarrow> bool \<Rightarrow> exec_world \<Rightarrow> exec_world \<times> exec_result" where
  "reconcile_attempt env h result0 claimed w =
     (let action = xs_action result0 in
      case activeDispatchAttempt env (xa_id action) w of
        (w1, Inl e) \<Rightarrow> (w1, with_err result0 e)
      | (w1, Inr (Some active)) \<Rightarrow> deferActiveDispatch env action active claimed w1
      | (w1, Inr None) \<Rightarrow>
      (case (if claimed then reconciliationAttemptOwned env action w1 else reconciliationAttempt env action w1) of
         (w2, Inl e) \<Rightarrow> (w2, with_err result0 e)
       | (w2, Inr attempt) \<Rightarrow>
           let result = result0\<lparr>xs_attempt := xt_id attempt\<rparr>; (w3, answer) = call_reconcile h action attempt w2 in
           after_reconcile env result attempt answer claimed w3))"

text \<open>After a release the row is read again: the worker goes on only with the claim it still has.\<close>

definition after_release ::
  "exec_env \<Rightarrow> exec_handler \<Rightarrow> exec_result \<Rightarrow> bool \<Rightarrow> exec_world \<Rightarrow> exec_world \<times> exec_result" where
  "after_release env h result claimed w =
     (let action = xs_action result in
      case currentAction env action w of
        (w1, Inl e) \<Rightarrow> (w1, with_err result e)
      | (w1, Inr current) \<Rightarrow>
          let result1 = result\<lparr>xs_action := current, xs_state := xa_state current\<rparr> in
          if claimed \<and> (xa_state current \<noteq> ActionRunning \<or> xa_claimed_by current \<noteq> xv_worker env) then (w1, result1)
          else if claimed \<and> xa_version current \<noteq> xa_version action then
            (case advanceAfterOutcome current w1 of
               (w2, False) \<Rightarrow> (w2, with_err result1 lease_lost)
             | (w2, True) \<Rightarrow> reconcile_attempt env h result1 claimed w2)
          else reconcile_attempt env h result1 claimed w1)"

definition processReconciliation ::
  "exec_env \<Rightarrow> exec_action \<Rightarrow> bool \<Rightarrow> exec_world \<Rightarrow> exec_world \<times> exec_result" where
  "processReconciliation env action claimed w =
     (let result = result_of_action action in
      case xv_handlers env (xa_kind action) of
        None \<Rightarrow>
          (case holdFor env action no_handler claimed w of
             (w1, e) \<Rightarrow> (w1, result\<lparr>xs_err := Some e, xs_state := ActionNeedsReview\<rparr>))
      | Some h \<Rightarrow>
      (case returned_dispatch env action w of
         (w1, Inl e) \<Rightarrow> (w1, with_err result e)
       | (w1, Inr None) \<Rightarrow> reconcile_attempt env h result claimed w1
       | (w1, Inr (Some attemptID)) \<Rightarrow>
           (case releaseDispatchBarrierWithClaim env (xa_id action) attemptID claimed w1 of
              (w2, Some e) \<Rightarrow> (scheduleBarrierRetry (xa_id action) attemptID w2, with_err result e)
            | (w2, None) \<Rightarrow> after_release env h result claimed w2)))"

end
