(* ===== verification/Exec_Claim.thy ===== *)
theory Exec_Claim
  imports Exec_Reconcile
begin

text \<open>
  Claiming and batches (\<^verbatim>\<open>internal/execution/execution.go\<close>): \<open>claimAndProcess\<close> takes one action through
  its claim, its reservations and one of the two paths; \<open>RunOnce\<close> recovers, finalizes and processes a
  bounded batch; \<open>Recover\<close> is the recovery of a start; \<open>Cancel\<close> leaves the durable marker.
\<close>

section \<open>Reservations of a claimed action\<close>

definition reservationKeys :: "exec_action \<Rightarrow> exec_handler \<Rightarrow> exec_error + string list" where
  "reservationKeys action h =
     (case reservationKeysFromOutcome (xa_outcome action) of
        Inl e \<Rightarrow> Inl e
      | Inr persisted \<Rightarrow> Inr (canonicalReservationKeys (persisted @ hd_reservations h action)))"

definition acquireAndPersistReservations ::
  "exec_env \<Rightarrow> exec_handler \<Rightarrow> exec_action \<Rightarrow> exec_world \<Rightarrow> exec_world \<times> (exec_error + string list)" where
  "acquireAndPersistReservations env h action w =
     (case reservationKeys action h of
        Inl e \<Rightarrow> (w, Inl e)
      | Inr keys \<Rightarrow>
      (case acquireReservations (xa_id action) keys (xw_table w) of
         (table, Inl e) \<Rightarrow> (w\<lparr>xw_table := table\<rparr>, Inl e)
       | (table, Inr canonical) \<Rightarrow>
           (case withClaimedTransaction env action (\<lambda>_. Reserve (xa_id action) canonical) (w\<lparr>xw_table := table\<rparr>) of
              (w1, Inl e) \<Rightarrow>
                (w1\<lparr>xw_table := releaseReservations canonical (xa_id action) (xw_table w1)\<rparr>, Inl e)
            | (w1, Inr _) \<Rightarrow> (w1, Inr canonical))))"

definition release_local :: "string \<Rightarrow> exec_world \<Rightarrow> exec_world" where
  "release_local actionID w = w\<lparr>xw_table := releaseReservationsForAction actionID (xw_table w)\<rparr>"

section \<open>One action\<close>

definition leave_claim :: "exec_world \<Rightarrow> exec_world" where
  "leave_claim w = w\<lparr>xw_fence := None, xw_renewing := False\<rparr>"

definition process_reserved ::
  "exec_env \<Rightarrow> exec_handler \<Rightarrow> bool \<Rightarrow> exec_action \<Rightarrow> exec_world \<Rightarrow> exec_world \<times> exec_result" where
  "process_reserved env h reconciling claimed w =
     (let w1 = (renew env w)\<lparr>xw_renewing := True\<rparr>;
          (w2, processed) = (if reconciling then processReconciliation env claimed True w1
                             else processObserved env h claimed w1);
          lost = (case xs_err processed of None \<Rightarrow> False | Some e \<Rightarrow> ErrLeaseLost \<in> set (xx_is e)) in
      (if \<not> retainsLocalReservation (xs_state processed) \<or> lost then release_local (xa_id claimed) w2 else w2,
       processed))"

definition process_claimed ::
  "exec_env \<Rightarrow> exec_handler \<Rightarrow> bool \<Rightarrow> exec_action \<Rightarrow> exec_result \<Rightarrow> exec_world \<Rightarrow> exec_world \<times> exec_result" where
  "process_claimed env h reconciling claimed result w =
     (let w0 = w\<lparr>xw_fence := Some (claimFence env claimed (w\<lparr>xw_fence := None\<rparr>))\<rparr> in
      map_prod leave_claim id
        (case acquireAndPersistReservations env h claimed w0 of
           (w1, Inl e) \<Rightarrow>
             (case waitFor env claimed e True w1 of
                (w2, err) \<Rightarrow> (w2, result\<lparr>xs_err := Some err, xs_state := ActionWaitingDependency\<rparr>))
         | (w1, Inr _) \<Rightarrow> process_reserved env h reconciling claimed w1))"

definition claim_action ::
  "exec_env \<Rightarrow> exec_handler \<Rightarrow> exec_action \<Rightarrow> time \<Rightarrow> exec_result \<Rightarrow> exec_world \<Rightarrow> exec_world \<times> exec_result" where
  "claim_action env h action now result w =
     (case run_statement env (\<lambda>_. Claim (xa_id action) (xa_version action) (xv_worker env) (now + xv_lease env) now) w of
        (w1, Inl e) \<Rightarrow> (w1, with_err result (if isNoRows e then lease_lost else e))
      | (w1, Inr claimed0) \<Rightarrow>
          let claimed = claimed0\<lparr>xa_kind := xa_kind action, xa_plan_id := xa_plan_id action,
                xa_plan_revision := xa_plan_revision action, xa_plan_digest := xa_plan_digest action\<rparr> in
          case Action_validate claimed of
            Some e \<Rightarrow> (w1, result\<lparr>xs_action := claimed, xs_err := Some e\<rparr>)
          | None \<Rightarrow>
              process_claimed env h (xa_state action = ActionReconciling) claimed
                (result\<lparr>xs_action := claimed\<rparr>) w1)"

definition claimAndProcess :: "exec_env \<Rightarrow> exec_action \<Rightarrow> exec_world \<Rightarrow> exec_world \<times> exec_result" where
  "claimAndProcess env action w =
     (let result = result_of_action action; now = clock env w in
      case Action_validate action of
        Some e \<Rightarrow> (w, with_err result e)
      | None \<Rightarrow>
          if xa_state action = ActionReconciling
            \<and> (xa_cancelled_at action \<noteq> None \<or> expired (xa_deadline_at action) now) then
            (case processReconciliation env action False w of
               (w1, r) \<Rightarrow> (if \<not> retainsLocalReservation (xs_state r) then release_local (xa_id action) w1 else w1, r))
          else
            (case withTransaction env (\<lambda>_. GetPlan (xa_plan_id action)) w of
               (w1, Inl e) \<Rightarrow> (w1, with_err result e)
             | (w1, Inr plan) \<Rightarrow>
                 if xp_kind plan \<noteq> xa_kind action
                 then (w1, with_err result (invalid_journal ''action plan kind differs from action kind''))
                 else case xv_handlers env (xa_kind action) of
                   None \<Rightarrow> (case holdFor env action no_handler False w1 of (w2, e) \<Rightarrow> (w2, with_err result e))
                 | Some h \<Rightarrow> claim_action env h action now result w1))"

definition RunAction :: "exec_env \<Rightarrow> string \<Rightarrow> exec_world \<Rightarrow> exec_world \<times> (exec_error + exec_result)" where
  "RunAction env aid w =
     (case withTransaction env (\<lambda>_. GetAction aid) w of
        (w1, Inl e) \<Rightarrow> (w1, Inl e)
      | (w1, Inr action) \<Rightarrow> map_prod id Inr (claimAndProcess env action w1))"

section \<open>Batches, recovery, cancellation\<close>

record batch_result =
  bt_recovered :: nat
  bt_cancelled :: nat
  bt_deadline :: nat
  bt_considered :: nat
  bt_claimed :: nat
  bt_results :: "exec_result list"

definition batch_step :: "exec_env \<Rightarrow> exec_action \<Rightarrow> exec_world \<Rightarrow> batch_result \<Rightarrow> exec_world \<times> batch_result" where
  "batch_step env action w batch =
     (case claimAndProcess env action w of (w1, result) \<Rightarrow>
        (w1, batch\<lparr>bt_considered := bt_considered batch + 1,
               bt_results := (if xa_id (xs_action result) \<noteq> [] then bt_results batch @ [result] else bt_results batch),
               bt_claimed := (if xs_dispatched result \<or> xs_state result = ActionRunning
                              then bt_claimed batch + 1 else bt_claimed batch)\<rparr>))"

fun batch_loop ::
  "exec_env \<Rightarrow> string list \<Rightarrow> exec_action list \<Rightarrow> exec_world \<Rightarrow> batch_result \<Rightarrow> exec_world \<times> batch_result" where
  "batch_loop env seen [] w batch = (w, batch)"
| "batch_loop env seen (action # rest) w batch =
     (if List.member seen (xa_id action) then batch_loop env seen rest w batch
      else case batch_step env action w batch of
        (w1, batch1) \<Rightarrow> batch_loop env (xa_id action # seen) rest w1 batch1)"

definition empty_batch :: batch_result where
  "empty_batch = \<lparr>bt_recovered = 0, bt_cancelled = 0, bt_deadline = 0, bt_considered = 0, bt_claimed = 0, bt_results = []\<rparr>"

definition RunOnce :: "exec_env \<Rightarrow> exec_world \<Rightarrow> exec_world \<times> batch_result \<times> exec_error option" where
  "RunOnce env w =
     (let now = clock env w; batch0 = empty_batch in
      case run_statement env (\<lambda>_. RecoverExpired now) w of
        (w1, Inl e) \<Rightarrow> (w1, batch0, Some e)
      | (w1, Inr expired_runs) \<Rightarrow>
      (let batch1 = batch0\<lparr>bt_recovered := length expired_runs\<rparr> in
       case run_statement env (\<lambda>_. FinalizeCancelled now) w1 of
         (w2, Inl e) \<Rightarrow> (w2, batch1, Some e)
       | (w2, Inr cancelled) \<Rightarrow>
       (let batch2 = batch1\<lparr>bt_cancelled := length cancelled\<rparr> in
        case run_statement env (\<lambda>_. FinalizeDeadline now) w2 of
          (w3, Inl e) \<Rightarrow> (w3, batch2, Some e)
        | (w3, Inr deadline) \<Rightarrow>
        (let batch3 = batch2\<lparr>bt_deadline := length deadline\<rparr> in
         case run_statement env (\<lambda>_. ListDue now (xv_max_batch env)) w3 of
           (w4, Inl e) \<Rightarrow> (w4, batch3, Some e)
         | (w4, Inr due) \<Rightarrow>
         (case run_statement env (\<lambda>_. ListReconciling now (xv_max_batch env)) w4 of
            (w5, Inl e) \<Rightarrow> (w5, batch3, Some e)
          | (w5, Inr reconciling) \<Rightarrow>
              (case batch_loop env [] (due @ reconciling) w5 batch3 of (w6, batch) \<Rightarrow> (w6, batch, None)))))))"

record recovery_report =
  rp_actions :: nat
  rp_attempts :: nat
  rp_cancelled :: nat
  rp_deadline :: nat

definition Recover_executor :: "exec_env \<Rightarrow> exec_world \<Rightarrow> exec_world \<times> recovery_report \<times> exec_error option" where
  "Recover_executor env w =
     (let now = clock env w; r0 = \<lparr>rp_actions = 0, rp_attempts = 0, rp_cancelled = 0, rp_deadline = 0\<rparr> in
      case run_statement env (\<lambda>_. RecoverRunning now) w of
        (w1, Inl e) \<Rightarrow> (w1, r0, Some e)
      | (w1, Inr actions) \<Rightarrow>
      (let r1 = r0\<lparr>rp_actions := length actions\<rparr> in
       case run_statement env (\<lambda>_. RecoverRunningAttempts) w1 of
         (w2, Inl e) \<Rightarrow> (w2, r1, Some e)
       | (w2, Inr attempts) \<Rightarrow>
       (let r2 = r1\<lparr>rp_attempts := length attempts\<rparr> in
        case run_statement env (\<lambda>_. FinalizeCancelled now) w2 of
          (w3, Inl e) \<Rightarrow> (w3, r2, Some e)
        | (w3, Inr cancelled) \<Rightarrow>
        (let r3 = r2\<lparr>rp_cancelled := length cancelled\<rparr> in
         case run_statement env (\<lambda>_. FinalizeDeadline now) w3 of
           (w4, Inl e) \<Rightarrow> (w4, r3, Some e)
         | (w4, Inr deadline) \<Rightarrow> (w4, r3\<lparr>rp_deadline := length deadline\<rparr>, None)))))"

definition Cancel_action :: "exec_env \<Rightarrow> string \<Rightarrow> exec_world \<Rightarrow> exec_world \<times> (exec_error + exec_action)" where
  "Cancel_action env aid w =
     (let requestedAt = clock env w in
      case withTransaction env (\<lambda>_. RequestCancellation aid requestedAt) w of
        (w1, Inl e) \<Rightarrow> (w1, Inl e)
      | (w1, Inr action) \<Rightarrow>
          (case Action_validate action of Some e \<Rightarrow> (w1, Inl e) | None \<Rightarrow> (w1, Inr action)))"

end
