(* ===== verification/Exec_Facts.thy ===== *)
theory Exec_Facts
  imports Exec_Claim
begin

text \<open>
  Facts the properties of the executor share: which functions call no handler, what a committed transaction
  is, and in which state a state change leaves an action.
\<close>

named_theorems quiet \<open>functions that call no handler\<close>

lemma quiet_tx [quiet]: "withTransaction env fn w = (w', r) \<Longrightarrow> xw_calls w' = xw_calls w"
  by (auto simp: withTransaction_def Let_def split: option.splits sum.splits)

lemma quiet_statement [quiet]: "run_statement env fn w = (w', r) \<Longrightarrow> xw_calls w' = xw_calls w"
  by (auto simp: run_statement_def Let_def split: option.splits prod.splits)

lemma quiet_renew [simp]: "xw_calls (renew env w) = xw_calls w"
  by (auto simp: renew_def Let_def dest: quiet_tx split: option.splits sum.splits prod.splits)

lemma quiet_tries: "claimed_tries n env a fn w = (w', r) \<Longrightarrow> xw_calls w' = xw_calls w"
proof (induction n arbitrary: w)
  case 0
  then show ?case by (subst (asm) claimed_tries.simps) (auto dest: quiet_tx split: prod.splits sum.splits)
next
  case (Suc n)
  from Suc.prems show ?case
    by (subst (asm) claimed_tries.simps) (auto dest!: quiet_tx dest: Suc.IH split: prod.splits sum.splits if_splits)
qed

lemma quiet_claimed [quiet]: "withClaimedTransaction env a fn w = (w', r) \<Longrightarrow> xw_calls w' = xw_calls w"
  by (auto simp: withClaimedTransaction_def dest: quiet_tries split: if_splits)

lemma quiet_for [quiet]: "transaction_for c env a fn w = (w', r) \<Longrightarrow> xw_calls w' = xw_calls w"
  by (auto simp: transaction_for_def dest: quiet split: if_splits)

lemma quiet_finish: "finish_transition a r = (w', b, e) \<Longrightarrow> xw_calls w' = xw_calls (fst r)"
  by (auto simp: finish_transition_def split: prod.splits sum.splits)

lemma quiet_transition [quiet]:
  "transitionAt env a s out reason nxt w = (w', b, e) \<Longrightarrow> xw_calls w' = xw_calls w"
  "transitionOwnedAt env a s out reason nxt w = (w', b, e) \<Longrightarrow> xw_calls w' = xw_calls w"
  "transitionStopOwned env a reason w = (w', b, e) \<Longrightarrow> xw_calls w' = xw_calls w"
  "transitionUncertainOwned env a reason nxt w = (w', b, e) \<Longrightarrow> xw_calls w' = xw_calls w"
  "requeue_for c env a reason w = (w', b, e) \<Longrightarrow> xw_calls w' = xw_calls w"
  unfolding transitionAt_def transitionOwnedAt_def transitionStopOwned_def transitionUncertainOwned_def requeue_for_def
  by (metis quiet_finish quiet prod.collapse)+

lemma quiet_dispatched [quiet]:
  "transitionDispatchOwned env a out w = (w', b, out', e) \<Longrightarrow> xw_calls w' = xw_calls w"
  by (auto simp: transitionDispatchOwned_def dest: quiet split: prod.splits sum.splits)

lemma quiet_settle [quiet]:
  "waitFor env a e c w = (w', x) \<Longrightarrow> xw_calls w' = xw_calls w"
  "holdFor env a e c w = (w', x) \<Longrightarrow> xw_calls w' = xw_calls w"
  by (auto simp: waitFor_def holdFor_def settle_cause_def dest: quiet split: prod.splits sum.splits)

lemma quiet_attempts [quiet]:
  "currentAction env a w = (w', r1) \<Longrightarrow> xw_calls w' = xw_calls w"
  "newAttemptOwnedWithExternalID env a ph ce ext w = (w', r2) \<Longrightarrow> xw_calls w' = xw_calls w"
  "updateAttemptOwned env a t w = (w', r3) \<Longrightarrow> xw_calls w' = xw_calls w"
  "updateAttemptFor env a t c w = (w', r4) \<Longrightarrow> xw_calls w' = xw_calls w"
  "prepareDispatch env a t es w = (w', r5) \<Longrightarrow> xw_calls w' = xw_calls w"
  "beforeDispatch env a w = (w', r6) \<Longrightarrow> xw_calls w' = xw_calls w"
  by (auto simp: currentAction_def newAttemptOwnedWithExternalID_def updateAttemptOwned_def updateAttemptFor_def
      prepareDispatch_def beforeDispatch_def Let_def map_prod_def dest: quiet split: prod.splits sum.splits option.splits if_splits)

lemma quiet_effects [quiet]:
  "recordEffectsFor env a t es s c w = (w', r1) \<Longrightarrow> xw_calls w' = xw_calls w"
  "recordUnknownEffectsOwned env a t s w = (w', r1) \<Longrightarrow> xw_calls w' = xw_calls w"
  "recordDispatchErrorEffectsOwned env a t es w = (w', r1) \<Longrightarrow> xw_calls w' = xw_calls w"
  "record_uncertain_effects env a t r w = (w', r2) \<Longrightarrow> xw_calls w' = xw_calls w"
  by (auto simp: recordEffectsFor_def recordUnknownEffectsOwned_def recordDispatchErrorEffectsOwned_def
      record_uncertain_effects_def dest!: quiet split: prod.splits sum.splits if_splits)

lemma quiet_moved: "moved result r = (w', x) \<Longrightarrow> xw_calls w' = xw_calls (fst r)"
  by (auto simp: moved_def split: prod.splits)

lemma quiet_stopped [quiet]: "stopped env a e result w = (w', r) \<Longrightarrow> xw_calls w' = xw_calls w"
  by (auto simp: stopped_def dest: quiet split: prod.splits)

lemma quiet_uncertain [quiet]: "finish_uncertain env result t r e w = (w', x) \<Longrightarrow> xw_calls w' = xw_calls w"
  by (auto simp: finish_uncertain_def moved_def Let_def dest!: quiet split: prod.splits sum.splits option.splits)

lemma quiet_dispatch_error [quiet]: "finishDispatchError env result t r e w = (w', x) \<Longrightarrow> xw_calls w' = xw_calls w"
  by (auto simp: finishDispatchError_def moved_def Let_def dest!: quiet split: prod.splits sum.splits if_splits)

lemma quiet_observe_failed [quiet]: "observe_failed env a t e result w = (w', x) \<Longrightarrow> xw_calls w' = xw_calls w"
  by (auto simp: observe_failed_def Let_def dest!: quiet split: prod.splits sum.splits if_splits)

lemma quiet_hold_with [quiet]: "hold_with env a t e result w = (w', x) \<Longrightarrow> xw_calls w' = xw_calls w"
  by (auto simp: hold_with_def dest!: quiet split: prod.splits sum.splits)

lemma quiet_satisfied [quiet]: "observe_satisfied env a t ob result w = (w', x) \<Longrightarrow> xw_calls w' = xw_calls w"
  by (auto simp: observe_satisfied_def moved_def dest!: quiet split: prod.splits sum.splits)

lemma quiet_finish_dispatch [quiet]: "finish_dispatch env a t r rb result w = (w', x) \<Longrightarrow> xw_calls w' = xw_calls w"
  by (auto simp: finish_dispatch_def Let_def dest!: quiet split: prod.splits sum.splits)

section \<open>The barrier\<close>

lemma quiet_fallback [simp]:
  "xw_calls (rememberDispatchBarrierFallback i t w) = xw_calls w"
  "xw_calls (forgetDispatchBarrierFallback i t w) = xw_calls w"
  "xw_calls (scheduleBarrierRetry i t w) = xw_calls w"
  by (simp_all add: rememberDispatchBarrierFallback_def forgetDispatchBarrierFallback_def scheduleBarrierRetry_def Let_def)

lemma quiet_forget_all [simp]:
  "xw_calls (foldl (\<lambda>w t. forgetDispatchBarrierFallback i t w) w ts) = xw_calls w"
  by (induction ts arbitrary: w) auto

lemma quiet_resolved [quiet]: "dispatchBarrierResolvedAndForget env i t w = (w', b) \<Longrightarrow> xw_calls w' = xw_calls w"
  by (auto simp: dispatchBarrierResolvedAndForget_def dest!: quiet split: prod.splits sum.splits if_splits)

lemma quiet_barrier_tries [quiet]: "barrier_tries n env i t fn w = (w', r) \<Longrightarrow> xw_calls w' = xw_calls w"
proof (induction n arbitrary: w)
  case 0
  then show ?case
    by (subst (asm) barrier_tries.simps) (auto dest!: quiet split: prod.splits sum.splits bool.splits)
next
  case (Suc n)
  from Suc.prems show ?case
    by (subst (asm) barrier_tries.simps)
      (auto dest!: quiet Suc.IH split: prod.splits sum.splits bool.splits if_splits)
qed

lemma quiet_release [quiet]: "release_attempt env i t w = (w', r) \<Longrightarrow> xw_calls w' = xw_calls w"
  by (auto simp: release_attempt_def dest!: quiet split: prod.splits barrier_end.splits)

lemma quiet_barrier [quiet]: "releaseDispatchBarrierWithClaim env i t p w = (w', r) \<Longrightarrow> xw_calls w' = xw_calls w"
  unfolding releaseDispatchBarrierWithClaim_def Let_def
  by (auto dest!: quiet split: prod.splits barrier_end.splits bool.splits)

lemma quiet_release_after: "xw_calls (fst (release_after env i t r)) = xw_calls (fst r)"
  by (auto simp: release_after_def dest!: quiet split: prod.splits option.splits)

lemma result_release_after [simp]: "snd (release_after env i t r) = snd r"
  by (auto simp: release_after_def split: prod.splits option.splits)

lemma quiet_finding [quiet]:
  "activeDispatchAttempt env i w = (w', r1) \<Longrightarrow> xw_calls w' = xw_calls w"
  "dispatchBarrierIntentAttempt env i w = (w', r2) \<Longrightarrow> xw_calls w' = xw_calls w"
  "dispatchBarrierFallbackAttempt env i w = (w', r2) \<Longrightarrow> xw_calls w' = xw_calls w"
  by (auto simp: activeDispatchAttempt_def dispatchBarrierIntentAttempt_def dispatchBarrierFallbackAttempt_def Let_def
      map_prod_def dest!: quiet split: prod.splits sum.splits if_splits)

section \<open>Committed transactions\<close>

lemma tx_commit: "withTransaction env fn w = (w', Inr x) \<Longrightarrow> \<exists>now db. fn now db = Inr (xw_db w', x)"
  by (auto simp: withTransaction_def Let_def split: option.splits sum.splits) blast

lemma fenced_commit:
  assumes "withTransaction env (\<lambda>now. InTxClaimed f (fn now)) w = (w', Inr x)"
  shows "\<exists>now db f. fence_holds f db \<and> fn now db = Inr (xw_db w', x)"
  using tx_commit [OF assms] by (auto simp: InTxClaimed_def split: if_splits)

lemma tries_commit:
  "claimed_tries n env a fn w = (w', Inr x) \<Longrightarrow>
     \<exists>now db f. fence_holds f db \<and> fn now db = Inr (xw_db w', x)"
proof (induction n arbitrary: w)
  case 0
  obtain w1 r where r: "withTransaction env (\<lambda>now. InTxClaimed (claimFence env a w) (fn now)) w = (w1, r)" by fastforce
  with 0 have "w1 = w'" "r = Inr x"
    by (subst (asm) claimed_tries.simps, simp split: sum.splits)+
  with r have "withTransaction env (\<lambda>now. InTxClaimed (claimFence env a w) (fn now)) w = (w', Inr x)" by simp
  then show ?case by (rule fenced_commit)
next
  case (Suc n)
  obtain w1 r where r: "withTransaction env (\<lambda>now. InTxClaimed (claimFence env a w) (fn now)) w = (w1, r)" by fastforce
  show ?case
  proof (cases r)
    case (Inr y)
    then have "w1 = w'" "y = x" using Suc.prems r by (subst (asm) claimed_tries.simps, simp)+
    with r Inr have "withTransaction env (\<lambda>now. InTxClaimed (claimFence env a w) (fn now)) w = (w', Inr x)" by simp
    then show ?thesis by (rule fenced_commit)
  next
    case (Inl e)
    then have "claimed_tries n env a fn w1 = (w', Inr x)"
      using Suc.prems r by (subst (asm) claimed_tries.simps) (simp split: if_splits)
    then show ?thesis by (rule Suc.IH)
  qed
qed

lemma claimed_commit:
  "withClaimedTransaction env a fn w = (w', Inr x) \<Longrightarrow>
     \<exists>now db f. fence_holds f db \<and> fn now db = Inr (xw_db w', x)"
  unfolding withClaimedTransaction_def by (rule tries_commit)

lemma for_commit: "transaction_for c env a fn w = (w', Inr x) \<Longrightarrow> \<exists>now db. fn now db = Inr (xw_db w', x)"
  unfolding transaction_for_def using tx_commit claimed_commit by (metis (full_types))

lemma tx_bind_Inr: "tx_bind r f = Inr y \<longleftrightarrow> (\<exists>db x. r = Inr (db, x) \<and> f db x = Inr y)"
  by (auto simp: tx_bind_def split: sum.splits)

section \<open>The state an action is left in\<close>

lemma from_sql_state: "actionFromSQL r db = Inr a \<Longrightarrow> xa_state a = xa_state r \<and> xa_id a = xa_id r"
  by (auto simp: actionFromSQL_def Let_def split: option.splits if_splits)

lemma map_sum_Inr: "map_sum (\<lambda>e. e) f r = Inr y \<longleftrightarrow> (\<exists>x. r = Inr x \<and> y = f x)"
  by (cases r) auto

lemma update_outcome_state: "UpdateOutcome u db = Inr (db', a) \<Longrightarrow> xa_state a = xu_state u"
  by (auto simp: UpdateOutcome_def Let_def apply_update_def map_sum_Inr dest!: from_sql_state
      split: if_splits option.splits sum.splits)

lemma state_of_update [simp]: "xu_state (outcome_update_of a s n oc r u now) = s"
  by (simp add: outcome_update_of_def)

lemma callback_state:
  "transition_callback i s oc reason nxt now db = Inr (db', a) \<Longrightarrow> s \<noteq> ActionStateOther [] \<Longrightarrow> xa_state a = s"
  "stop_callback i reason now db = Inr (db', a) \<Longrightarrow> xa_state a \<in> {ActionCancelled, ActionDeadlineExceeded}"
  "dispatch_callback i oc now db = Inr (db', a, oc') \<Longrightarrow>
     xa_state a \<in> {ActionSucceeded, ActionCancelled, ActionDeadlineExceeded} \<and> (xa_state a = ActionSucceeded \<longrightarrow> oc' = oc)"
  "uncertain_callback i reason nxt now db = Inr (db', a) \<Longrightarrow>
     xa_state a \<in> {ActionReconciling, ActionCancelled, ActionDeadlineExceeded}"
  "requeue_callback i reason now db = Inr (db', a) \<Longrightarrow> xa_state a = ActionQueued"
  by (auto simp: transition_callback_def stop_callback_def dispatch_callback_def uncertain_callback_def
      requeue_callback_def tx_bind_Inr Let_def cancelledOrDeadline_def
      dest!: update_outcome_state split: if_splits option.splits)

lemma finish_None:
  "finish_transition a r = (w', b, None) \<longleftrightarrow>
     (\<exists>u. r = (w', Inr u) \<and> b = u\<lparr>xa_kind := xa_kind a, xa_plan_id := xa_plan_id a,
        xa_plan_revision := xa_plan_revision a, xa_plan_digest := xa_plan_digest a\<rparr>)"
  by (auto simp: finish_transition_def split: prod.splits sum.splits)

lemma finish_Some: "finish_transition a r = (w', b, Some e) \<Longrightarrow> b = a"
  by (auto simp: finish_transition_def split: prod.splits sum.splits)

lemma moved_states:
  "transitionAt env a s oc reason nxt w = (w', b, None) \<Longrightarrow> s \<noteq> ActionStateOther [] \<Longrightarrow> xa_state b = s"
  "transitionOwnedAt env a s oc reason nxt w = (w', b, None) \<Longrightarrow> s \<noteq> ActionStateOther [] \<Longrightarrow> xa_state b = s"
  "transitionStopOwned env a reason w = (w', b, None) \<Longrightarrow> xa_state b \<in> {ActionCancelled, ActionDeadlineExceeded}"
  "transitionUncertainOwned env a reason nxt w = (w', b, None) \<Longrightarrow>
     xa_state b \<in> {ActionReconciling, ActionCancelled, ActionDeadlineExceeded}"
  "requeue_for c env a reason w = (w', b, None) \<Longrightarrow> xa_state b = ActionQueued"
  by (auto simp: transitionAt_def transitionOwnedAt_def transitionStopOwned_def transitionUncertainOwned_def
      requeue_for_def finish_None dest!: tx_commit claimed_commit for_commit dest: callback_state)

lemma unmoved_states:
  "transitionOwnedAt env a s oc reason nxt w = (w', b, Some e) \<Longrightarrow> b = a"
  "transitionStopOwned env a reason w = (w', b, Some e) \<Longrightarrow> b = a"
  "transitionUncertainOwned env a reason nxt w = (w', b, Some e) \<Longrightarrow> b = a"
  unfolding transitionOwnedAt_def transitionStopOwned_def transitionUncertainOwned_def by (metis finish_Some)+

lemma dispatched_state:
  "transitionDispatchOwned env a oc w = (w', b, oc', None) \<Longrightarrow>
     xa_state b \<in> {ActionSucceeded, ActionCancelled, ActionDeadlineExceeded} \<and> (xa_state b = ActionSucceeded \<longrightarrow> oc' = oc)"
  by (auto simp: transitionDispatchOwned_def dest!: claimed_commit dest: callback_state split: prod.splits sum.splits)

lemma undispatched_state: "transitionDispatchOwned env a oc w = (w', b, oc', Some e) \<Longrightarrow> b = a"
  by (auto simp: transitionDispatchOwned_def split: prod.splits sum.splits)

lemma waited_err [simp]: "xs_err (result\<lparr>xs_err := Some e, xs_state := s\<rparr>) = Some e"
  by simp

end
