(* ===== verification/Exec_Properties.thy ===== *)
theory Exec_Properties
  imports Exec_Facts
begin

text \<open>
  What one pass over a claimed action guarantees, whatever the handler answers and whatever happens to the
  journal between two transactions: when it may call \<open>Dispatch\<close>, when it may report success, and when it
  may leave a dispatched action where another dispatch can follow.
\<close>

definition succeeded :: "exec_result \<Rightarrow> bool" where
  "succeeded x \<longleftrightarrow> xs_err x = None \<and> xs_state x = ActionSucceeded"

definition dispatchable_again :: "exec_result \<Rightarrow> bool" where
  "dispatchable_again x \<longleftrightarrow> xs_state x = ActionQueued \<or> xs_state x = ActionWaitingDependency"

text \<open>The answer that allows a wait after a dispatch: a dependency failure without any evidence.\<close>

definition proven_undispatched :: "dispatch_result \<Rightarrow> exec_error \<Rightarrow> bool" where
  "proven_undispatched r e \<longleftrightarrow>
     failureKind e = FailureDependency \<and> \<not> failureWasDispatched e \<and> \<not> dispatchResultHasEvidence r"

section \<open>The end of a failed dispatch\<close>

lemma uncertain_end:
  assumes "finish_uncertain env result t r e w = (w', x)"
  shows "\<not> succeeded x \<and> xs_dispatched x = xs_dispatched result
    \<and> (xa_state (xs_action result) = ActionRunning \<and> xs_state result = ActionRunning \<longrightarrow> \<not> dispatchable_again x)"
proof -
  obtain w1 r1 where u: "updateAttemptOwned env (xs_action result) (uncertain_attempt t r e) w = (w1, r1)" by fastforce
  show ?thesis
  proof (cases r1)
    case (Inl err)
    then show ?thesis using assms u
      by (auto simp: finish_uncertain_def Let_def succeeded_def dispatchable_again_def)
  next
    case (Inr y)
    obtain w2 r2 where v: "record_uncertain_effects env (xs_action result) (uncertain_attempt t r e) r w1 = (w2, r2)"
      by fastforce
    show ?thesis
    proof (cases r2)
      case (Some err)
      then show ?thesis using assms u v Inr
        by (auto simp: finish_uncertain_def Let_def succeeded_def dispatchable_again_def)
    next
      case None
      obtain w3 b o3 where m: "transitionUncertainOwned env (xs_action result) ''dispatch_uncertain''
          (Some (retryAt env (xt_number t) (clock env w2))) w2 = (w3, b, o3)" by (metis prod_cases3)
      then have x: "x = result\<lparr>xs_action := b, xs_state := xa_state b, xs_err := o3\<rparr>"
        using assms u v Inr None by (simp add: finish_uncertain_def Let_def moved_def)
      show ?thesis
      proof (cases o3)
        case None
        with m moved_states(4) have "xa_state b \<in> {ActionReconciling, ActionCancelled, ActionDeadlineExceeded}" by blast
        then show ?thesis using x by (auto simp: succeeded_def dispatchable_again_def)
      next
        case (Some err)
        with m unmoved_states(3) have "b = xs_action result" by blast
        then show ?thesis using x Some by (auto simp: succeeded_def dispatchable_again_def)
      qed
    qed
  qed
qed

lemma dispatch_error_end:
  assumes "finishDispatchError env result t r e w = (w', x)"
  shows "\<not> succeeded x \<and> xs_dispatched x = xs_dispatched result
    \<and> (xa_state (xs_action result) = ActionRunning \<and> xs_state result = ActionRunning \<and> dispatchable_again x
         \<longrightarrow> xs_state x = ActionWaitingDependency \<and> proven_undispatched r e)"
proof (cases "dispatch_uncertain r e")
  case True
  then have "finish_uncertain env result t r e w = (w', x)" using assms by (simp add: finishDispatchError_def)
  from uncertain_end [OF this] show ?thesis by blast
next
  case False
  let ?f = "finishAttempt t AttemptFailed CertaintyNotDispatched (Some e) (clock env w)"
  obtain w1 r1 where u: "updateAttemptOwned env (xs_action result) ?f w = (w1, r1)" by fastforce
  show ?thesis
  proof (cases r1)
    case (Inl err)
    then show ?thesis using assms u False
      by (auto simp: finishDispatchError_def Let_def succeeded_def dispatchable_again_def)
  next
    case (Inr y)
    show ?thesis
    proof (cases "failureKind e = FailureDependency")
      case True
      then have "proven_undispatched r e" using False by (simp add: proven_undispatched_def dispatch_uncertain_def)
      then show ?thesis using assms u False Inr True
        by (auto simp: finishDispatchError_def Let_def succeeded_def split: prod.splits)
    next
      case f: False
      obtain w2 b o2 where m: "transitionOwnedAt env (xs_action result) ActionFailed no_outcome
          (failure_text (failureKind e)) None w1 = (w2, b, o2)" by (metis prod_cases3)
      then have x: "x = result\<lparr>xs_action := b, xs_state := xa_state b, xs_err := o2\<rparr>"
        using assms u Inr False f by (simp add: finishDispatchError_def Let_def moved_def)
      show ?thesis
      proof (cases o2)
        case None
        with m have "xa_state b = ActionFailed" using moved_states(2) by blast
        then show ?thesis using x by (auto simp: succeeded_def dispatchable_again_def)
      next
        case (Some err)
        with m unmoved_states(1) have "b = xs_action result" by blast
        then show ?thesis using x Some by (auto simp: succeeded_def dispatchable_again_def)
      qed
    qed
  qed
qed

lemma not_proven [simp]: "\<not> proven_undispatched r (uncertain_failure e)"
  by (simp add: proven_undispatched_def uncertain_failure_def NewDispatchedFailure_def failureKind_def)

lemma finish_dispatch_end:
  assumes "finish_dispatch env action t r rb result w = (w', x)" and "xs_state result = ActionRunning"
    and "xa_state action = ActionRunning"
  shows "(succeeded x \<longrightarrow> xs_outcome x = xd_outcome r) \<and> xs_dispatched x = xs_dispatched result \<and> \<not> dispatchable_again x"
proof -
  let ?f = "(finishAttempt t AttemptSucceeded CertaintyKnown None (clock env w))
    \<lparr>xt_external_id := xd_external_id r, xt_evidence := evidenceJSON (xd_evidence r @ xo_evidence rb)\<rparr>"
  obtain w1 r1 where u: "updateAttemptOwned env action ?f w = (w1, r1)" by fastforce
  obtain w2 r2 where v: "recordEffectsFor env action ?f (xo_effects rb) (effectForOutcome (xd_outcome r)) True w1 = (w2, r2)"
    by fastforce
  obtain w3 b oc o3 where m: "transitionDispatchOwned env action (xd_outcome r) w2 = (w3, b, oc, o3)" by (metis prod_cases4)
  show ?thesis
  proof (cases r1)
    case (Inl err)
    then show ?thesis using assms u by (auto simp: finish_dispatch_def Let_def succeeded_def dispatchable_again_def)
  next
    case (Inr y)
    note r1 = this
    show ?thesis
    proof (cases r2)
      case (Inl err)
      then show ?thesis using assms u v r1 by (auto simp: finish_dispatch_def Let_def succeeded_def dispatchable_again_def)
    next
      case (Inr z)
      then have x: "x = result\<lparr>xs_action := b, xs_state := xa_state b, xs_outcome := oc, xs_err := o3\<rparr>"
        using assms u v m r1 by (simp add: finish_dispatch_def Let_def)
      show ?thesis
      proof (cases o3)
        case None
        with m dispatched_state have
          "xa_state b \<in> {ActionSucceeded, ActionCancelled, ActionDeadlineExceeded} \<and> (xa_state b = ActionSucceeded \<longrightarrow> oc = xd_outcome r)"
          by blast
        then show ?thesis using x by (auto simp: succeeded_def dispatchable_again_def)
      next
        case (Some err)
        with m undispatched_state have "b = action" by blast
        then show ?thesis using x Some assms(3) by (auto simp: succeeded_def dispatchable_again_def)
      qed
    qed
  qed
qed

section \<open>From the dispatch on\<close>

text \<open>What a read-back has to be for a success: valid, satisfied, and of exactly the observed targets.\<close>

definition proves :: "observation \<Rightarrow> observation \<Rightarrow> string \<Rightarrow> bool" where
  "proves ob rb actionID \<longleftrightarrow>
     Observation_validate rb actionID = None \<and> xo_state rb = ObserveSatisfied
     \<and> validateEffectSet (xo_effects ob) (xo_effects rb) actionID = None"

lemma read_back_proves: "read_back_error ob rb i = None \<Longrightarrow> proves ob rb i"
  by (auto simp: read_back_error_def proves_def effectSetMismatch_def split: option.splits if_splits)

text \<open>The part of a pass that begins with the answer of \<open>Dispatch\<close>.\<close>

definition dispatch_tail ::
  "string \<Rightarrow> observation \<Rightarrow> dispatch_result \<times> exec_error option \<Rightarrow> exec_result \<Rightarrow> handler_call list \<Rightarrow> bool" where
  "dispatch_tail i ob answer x cs \<longleftrightarrow>
     (cs = [] \<or> (\<exists>a. cs = [CallObserve i a]))
     \<and> (succeeded x \<longrightarrow>
          snd answer = None \<and> DispatchResult_validate (fst answer) i = None
          \<and> (\<exists>rb. cs = [CallObserve i (Inr rb)] \<and> proves ob rb i))
     \<and> (dispatchable_again x \<longrightarrow>
          xs_state x = ActionWaitingDependency \<and> (\<exists>e. snd answer = Some e \<and> proven_undispatched (fst answer) e))"

lemma call_observe_calls:
  "call_observe h action w = (w', ans) \<Longrightarrow> xw_calls w' = xw_calls w @ [CallObserve (xa_id action) ans]"
  by (auto simp: call_observe_def Let_def)

lemma call_dispatch_calls:
  "call_dispatch h action t w = (w', ans) \<Longrightarrow>
     xw_calls w' = xw_calls w @ [CallDispatch (xa_id action) t ans] \<and> ans = hd_dispatch h (xw_ticks w) action t"
  by (auto simp: call_dispatch_def Let_def)

lemma after_dispatch_tail:
  assumes "after_dispatch env h action ob t r0 result w = (w', x)"
    and s: "xs_state result = ActionRunning" "xa_state action = ActionRunning" "xs_action result = action"
  shows "\<exists>cs. xw_calls w' = xw_calls w @ cs \<and> dispatch_tail (xa_id action) ob (r0, None) x cs
    \<and> xs_dispatched x = xs_dispatched result"
proof -
  let ?i = "xa_id action"
  obtain w1 ans where c: "call_observe h action w = (w1, ans)" by fastforce
  have calls: "xw_calls w1 = xw_calls w @ [CallObserve ?i ans]" using call_observe_calls [OF c] .
  have failed: "dispatch_tail ?i ob (r0, None) x cs \<and> xs_dispatched x = xs_dispatched result"
    if "finishDispatchError env result t r (uncertain_failure e) v = (w', x)" "cs = [] \<or> (\<exists>a. cs = [CallObserve ?i a])"
    for r e v cs
    using dispatch_error_end [OF that(1)] that(2) s by (auto simp: dispatch_tail_def)
  show ?thesis
  proof (cases "DispatchResult_validate r0 ?i")
    case (Some e)
    then have "finishDispatchError env result t (dispatchResultIdentity r0) (uncertain_failure e) w = (w', x)"
      using assms(1) by (simp add: after_dispatch_def)
    with failed [OF this, of "[]"] quiet_dispatch_error [OF this] show ?thesis by auto
  next
    case None
    let ?r = "normalized_dispatch r0 ?i"
    show ?thesis
    proof (cases ans)
      case (Inl e)
      then have "finishDispatchError env result t (dispatchResultIdentity ?r) (uncertain_failure e) w1 = (w', x)"
        using assms(1) None c by (simp add: after_dispatch_def Let_def)
      with failed [OF this, of "[CallObserve ?i ans]"] quiet_dispatch_error [OF this] calls show ?thesis by auto
    next
      case (Inr rb)
      show ?thesis
      proof (cases "read_back_error ob rb ?i")
        case (Some e)
        then have "finishDispatchError env result t (dispatchResultIdentity ?r) (uncertain_failure e) w1 = (w', x)"
          using assms(1) None c Inr by (simp add: after_dispatch_def Let_def)
        with failed [OF this, of "[CallObserve ?i ans]"] quiet_dispatch_error [OF this] calls show ?thesis by auto
      next
        case rb: None
        let ?e = "plain_error ''dispatch effects did not match the approved target set''"
        show ?thesis
        proof (cases "xd_effects ?r \<noteq> [] \<and> effectSetMismatch (xo_effects ob) (xd_effects ?r) ?i")
          case True
          then have "finishDispatchError env result t (dispatchResultIdentity ?r) (uncertain_failure ?e) w1 = (w', x)"
            using assms(1) None c Inr rb by (simp add: after_dispatch_def Let_def)
          with failed [OF this, of "[CallObserve ?i ans]"] quiet_dispatch_error [OF this] calls show ?thesis by auto
        next
          case False
          then have f: "finish_dispatch env action t ?r (normalized_observation rb ?i) result w1 = (w', x)"
            using assms(1) None c Inr rb by (auto simp: after_dispatch_def Let_def)
          from finish_dispatch_end [OF f s(1,2)] quiet_finish_dispatch [OF f] calls None Inr read_back_proves [OF rb]
          show ?thesis by (auto simp: dispatch_tail_def)
        qed
      qed
    qed
  qed
qed

lemma dispatch_body_calls:
  assumes "dispatch_body env h action ob t result w = (w', x)"
    and s: "xs_state result = ActionRunning" "xa_state action = ActionRunning" "xs_action result = action"
      "\<not> xs_dispatched result"
  shows "xw_calls w' = xw_calls w \<and> \<not> succeeded x \<and> \<not> dispatchable_again x \<and> \<not> xs_dispatched x
    \<or> (\<exists>w1 answer cs. beforeDispatch env action w = (w1, None) \<and> answer = hd_dispatch h (xw_ticks w1) action t
         \<and> xw_calls w' = xw_calls w @ CallDispatch (xa_id action) t answer # cs
         \<and> dispatch_tail (xa_id action) ob answer x cs \<and> xs_dispatched x)"
proof -
  obtain w1 before where b: "beforeDispatch env action w = (w1, before)" by fastforce
  have q1: "xw_calls w1 = xw_calls w" using b by (rule quiet)
  show ?thesis
  proof (cases before)
    case (Some e)
    show ?thesis
    proof (cases "ErrLeaseLost \<in> set (xx_is e)")
      case True
      then show ?thesis using assms(1) b Some q1 s
        by (auto simp: dispatch_body_def succeeded_def dispatchable_again_def)
    next
      case False
      let ?f = "finishAttempt t AttemptCancelled CertaintyNotDispatched (Some e) (clock env w1)"
      obtain w2 r2 where u: "updateAttemptOwned env action ?f w1 = (w2, r2)" by fastforce
      have q2: "xw_calls w2 = xw_calls w1" using u by (rule quiet)
      show ?thesis
      proof (cases r2)
        case (Inl err)
        then show ?thesis using assms(1) b Some False u q1 q2 s
          by (auto simp: dispatch_body_def succeeded_def dispatchable_again_def)
      next
        case (Inr y)
        then have st: "stopped env action e result w2 = (w', x)"
          using assms(1) b Some False u by (simp add: dispatch_body_def)
        obtain w3 a o3 where m: "transitionStopOwned env action (failure_text (failureKind e)) w2 = (w3, a, o3)"
          by (metis prod_cases3)
        have "xa_state a \<in> {ActionCancelled, ActionDeadlineExceeded, ActionRunning}"
          using m moved_states(3) unmoved_states(2) s(2) by (cases o3) fastforce+
        then show ?thesis using st m quiet_stopped [OF st] q1 q2 s
          by (auto simp: stopped_def succeeded_def dispatchable_again_def split: option.splits)
      qed
    qed
  next
    case None
    obtain w2 answer where c: "call_dispatch h action t w1 = (w2, answer)" by (metis surj_pair)
    obtain r err where a: "answer = (r, err)" by fastforce
    have q2: "xw_calls w2 = xw_calls w @ [CallDispatch (xa_id action) t answer]"
        "answer = hd_dispatch h (xw_ticks w1) action t"
      using call_dispatch_calls [OF c] q1 by simp_all
    let ?result = "result\<lparr>xs_dispatched := True\<rparr>"
    show ?thesis
    proof (cases err)
      case (Some e)
      then have f: "finishDispatchError env ?result t r e w2 = (w', x)"
        using assms(1) b None c a by (simp add: dispatch_body_def)
      have "dispatch_tail (xa_id action) ob answer x [] \<and> xs_dispatched x"
        using dispatch_error_end [OF f] s Some a by (auto simp: dispatch_tail_def)
      with quiet_dispatch_error [OF f] q2 b None show ?thesis by auto
    next
      case n: None
      then have f: "after_dispatch env h action ob t r ?result w2 = (w', x)"
        using assms(1) b None c a by (simp add: dispatch_body_def)
      from after_dispatch_tail [OF f] s n a obtain cs where
        "xw_calls w' = xw_calls w2 @ cs" "dispatch_tail (xa_id action) ob answer x cs \<and> xs_dispatched x" by auto
      with q2 b None show ?thesis by (metis append.assoc append_Cons append_Nil)
    qed
  qed
qed

section \<open>The whole pass\<close>

lemma dispatched_calls:
  assumes n: "observe_needs_action env h action t ob result w = (w', x)"
    and s: "xs_state result = ActionRunning" "xa_state action = ActionRunning" "xs_action result = action"
      "\<not> xs_dispatched result"
  shows "xw_calls w' = xw_calls w \<and> \<not> succeeded x \<and> \<not> dispatchable_again x \<and> \<not> xs_dispatched x
    \<or> (\<exists>w1 intent w2 answer cs. prepareDispatch env action t (xo_effects ob) w = (w1, Inr intent)
         \<and> beforeDispatch env action w1 = (w2, None) \<and> answer = hd_dispatch h (xw_ticks w2) action intent
         \<and> xw_calls w' = xw_calls w @ CallDispatch (xa_id action) intent answer # cs
         \<and> dispatch_tail (xa_id action) ob answer x cs \<and> xs_dispatched x)"
proof -
  obtain w1 p where p: "prepareDispatch env action t (xo_effects ob) w = (w1, p)" by fastforce
  have q1: "xw_calls w1 = xw_calls w" using p by (rule quiet)
  show ?thesis
  proof (cases p)
    case (Inl e)
    then show ?thesis using n p q1 s by (auto simp: observe_needs_action_def succeeded_def dispatchable_again_def)
  next
    case (Inr intent)
    let ?result = "result\<lparr>xs_attempt := xt_id intent\<rparr>"
    obtain w2 y where d: "dispatch_body env h action ob intent ?result w1 = (w2, y)" by fastforce
    have r: "release_after env (xa_id action) (xt_id intent) (w2, y) = (w', x)"
      using n p Inr d by (simp add: observe_needs_action_def)
    then have "x = y" "xw_calls w' = xw_calls w2"
      using result_release_after [of env "xa_id action" "xt_id intent" "(w2, y)"]
        quiet_release_after [of env "xa_id action" "xt_id intent" "(w2, y)"] by simp_all
    with dispatch_body_calls [OF d] s q1 p Inr show ?thesis by auto
  qed
qed

text \<open>The calls of a pass and what they allow its result to be.\<close>

definition pass_calls :: "exec_env \<Rightarrow> exec_handler \<Rightarrow> exec_action \<Rightarrow> exec_result \<Rightarrow> handler_call list \<Rightarrow> bool" where
  "pass_calls env h action x cs \<longleftrightarrow>
     (\<not> succeeded x \<and> \<not> xs_dispatched x \<and> (cs = [] \<or> (\<exists>a. cs = [CallObserve (xa_id action) a])))
     \<or> (\<exists>ob. cs = [CallObserve (xa_id action) (Inr ob)] \<and> \<not> xs_dispatched x
          \<and> Observation_validate ob (xa_id action) = None \<and> xo_state ob = ObserveSatisfied)
     \<or> (\<exists>ob finished intent v v1 v2 answer tail.
          cs = CallObserve (xa_id action) (Inr ob) # CallDispatch (xa_id action) intent answer # tail
          \<and> Observation_validate ob (xa_id action) = None \<and> xo_state ob = ObserveNeedsAction
          \<and> prepareDispatch env action finished (xo_effects (normalized_observation ob (xa_id action))) v = (v1, Inr intent)
          \<and> beforeDispatch env action v1 = (v2, None) \<and> answer = hd_dispatch h (xw_ticks v2) action intent
          \<and> dispatch_tail (xa_id action) (normalized_observation ob (xa_id action)) answer x tail
          \<and> xs_dispatched x)"

lemma hold_with_end:
  assumes "hold_with env action t e result w = (w', x)" and "xs_state result = ActionRunning" "\<not> xs_dispatched result"
  shows "\<not> succeeded x \<and> \<not> xs_dispatched x"
  using assms by (auto simp: hold_with_def succeeded_def split: prod.splits sum.splits)

lemma observe_failed_end:
  assumes "observe_failed env action t e result w = (w', x)" and "xs_state result = ActionRunning" "\<not> xs_dispatched result"
  shows "\<not> succeeded x \<and> \<not> xs_dispatched x"
  using assms by (auto simp: observe_failed_def stopped_def succeeded_def Let_def split: prod.splits sum.splits if_splits option.splits)

lemma satisfied_end:
  assumes "observe_satisfied env action t ob result w = (w', x)" and "\<not> xs_dispatched result"
  shows "\<not> xs_dispatched x"
  using assms by (auto simp: observe_satisfied_def moved_def split: prod.splits sum.splits)

lemma observation_normal [simp]: "xo_state (normalized_observation ob i) = xo_state ob"
  by (simp add: normalized_observation_def)

lemma validate_states:
  "Observation_validate ob i = None \<Longrightarrow> xo_state ob \<in> {ObserveSatisfied, ObserveNeedsAction, ObserveUnknown}"
  by (cases "xo_state ob") (auto simp: Observation_validate_def)

lemma after_observe_calls:
  assumes a: "after_observe env h action t ob result w = (w', x)"
    and s: "xs_state result = ActionRunning" "xa_state action = ActionRunning" "xs_action result = action"
      "\<not> xs_dispatched result"
  shows "\<exists>cs. xw_calls w' = xw_calls w @ cs \<and> pass_calls env h action x (CallObserve (xa_id action) (Inr ob) # cs)"
proof -
  let ?i = "xa_id action" and ?ob = "normalized_observation ob (xa_id action)"
  let ?f = "(finishAttempt t AttemptSucceeded CertaintyKnown None (clock env w))\<lparr>xt_evidence := evidenceJSON (xo_evidence ob)\<rparr>"
  have held: "pass_calls env h action x [CallObserve ?i (Inr ob)] \<and> xw_calls w' = xw_calls w"
    if "hold_with env action f e result w = (w', x)" for f e
    using hold_with_end [OF that s(1,4)] quiet_hold_with [OF that] by (auto simp: pass_calls_def)
  show ?thesis
  proof (cases "Observation_validate ob ?i")
    case (Some e)
    then have "hold_with env action (finishAttempt t AttemptFailed CertaintyKnown (Some e) (clock env w)) e result w = (w', x)"
      using a by (simp add: after_observe_def Let_def)
    with held show ?thesis by force
  next
    case None
    from validate_states [OF None] consider "xo_state ob = ObserveUnknown" | "xo_state ob = ObserveSatisfied"
      | "xo_state ob = ObserveNeedsAction" by auto
    then show ?thesis
    proof cases
      case 1
      then have "hold_with env action ?f (plain_error ''desired state could not be proven'') result w = (w', x)"
        using a None by (simp add: after_observe_def Let_def)
      with held show ?thesis by force
    next
      case 2
      then have "observe_satisfied env action ?f ?ob result w = (w', x)" using a None by (simp add: after_observe_def Let_def)
      from satisfied_end [OF this s(4)] quiet_satisfied [OF this] None 2 show ?thesis by (auto simp: pass_calls_def)
    next
      case 3
      then have n: "observe_needs_action env h action ?f ?ob result w = (w', x)"
        using a None by (simp add: after_observe_def Let_def)
      from dispatched_calls [OF n s] show ?thesis
      proof
        assume "xw_calls w' = xw_calls w \<and> \<not> succeeded x \<and> \<not> dispatchable_again x \<and> \<not> xs_dispatched x"
        then show ?thesis by (auto simp: pass_calls_def)
      next
        assume "\<exists>w1 intent w2 answer cs. prepareDispatch env action ?f (xo_effects ?ob) w = (w1, Inr intent)
          \<and> beforeDispatch env action w1 = (w2, None) \<and> answer = hd_dispatch h (xw_ticks w2) action intent
          \<and> xw_calls w' = xw_calls w @ CallDispatch ?i intent answer # cs
          \<and> dispatch_tail ?i ?ob answer x cs \<and> xs_dispatched x"
        then obtain w1 intent w2 answer cs where
          p: "prepareDispatch env action ?f (xo_effects ?ob) w = (w1, Inr intent)" "beforeDispatch env action w1 = (w2, None)"
            "answer = hd_dispatch h (xw_ticks w2) action intent" "dispatch_tail ?i ?ob answer x cs" "xs_dispatched x"
          and c: "xw_calls w' = xw_calls w @ CallDispatch ?i intent answer # cs"
          by blast
        have "pass_calls env h action x (CallObserve ?i (Inr ob) # CallDispatch ?i intent answer # cs)"
          unfolding pass_calls_def using p None 3 by blast
        with c show ?thesis by blast
      qed
    qed
  qed
qed

lemma process_calls:
  assumes "processObserved env h action w = (w', x)" and "xa_state action = ActionRunning"
  shows "\<exists>cs. xw_calls w' = xw_calls w @ cs \<and> pass_calls env h action x cs"
proof -
  let ?r0 = "result_of_action action"
  obtain w1 t0 where n: "newAttemptOwnedWithExternalID env action AttemptObserve CertaintyNotDispatched [] w = (w1, t0)"
    by fastforce
  have q1: "xw_calls w1 = xw_calls w" using n by (rule quiet)
  show ?thesis
  proof (cases t0)
    case (Inl e)
    then show ?thesis using assms n q1
      by (auto simp: processObserved_def Let_def pass_calls_def succeeded_def result_of_action_def)
  next
    case (Inr t)
    let ?r = "?r0\<lparr>xs_attempt := xt_id t\<rparr>"
    have s: "xs_state ?r = ActionRunning" "xs_action ?r = action" "\<not> xs_dispatched ?r"
      using assms(2) by (simp_all add: result_of_action_def)
    obtain w2 ans where c: "call_observe h action w1 = (w2, ans)" by fastforce
    have q2: "xw_calls w2 = xw_calls w @ [CallObserve (xa_id action) ans]" using call_observe_calls [OF c] q1 by simp
    show ?thesis
    proof (cases ans)
      case (Inl e)
      then have f: "observe_failed env action t e ?r w2 = (w', x)"
        using assms(1) n \<open>t0 = Inr t\<close> c by (simp add: processObserved_def Let_def)
      from observe_failed_end [OF f s(1,3)] quiet_observe_failed [OF f] q2 show ?thesis by (auto simp: pass_calls_def)
    next
      case (Inr ob)
      then have f: "after_observe env h action t ob ?r w2 = (w', x)"
        using assms(1) n \<open>t0 = Inr t\<close> c by (simp add: processObserved_def Let_def)
      from after_observe_calls [OF f s(1) assms(2) s(2,3)] q2 Inr show ?thesis by auto
    qed
  qed
qed

end
