(* ===== verification/Exec_Example.thy ===== *)
theory Exec_Example
  imports Exec_Claim
begin

text \<open>
  A concrete action: a copy of one file, a handler whose file is missing before the dispatch and there
  after it, and a journal with nobody else in it.
\<close>

definition example_effect :: "effect_state \<Rightarrow> exec_effect" where
  "example_effect s = \<lparr>xe_id = [], xe_action = [], xe_attempt = [], xe_ordinal = 0, xe_target_kind = ''file'',
     xe_target_id = ''tv:A'', xe_kind = ''copy'', xe_state = s, xe_evidence = RawNil, xe_observed_at = []\<rparr>"

definition example_observation :: "observe_state \<Rightarrow> effect_state \<Rightarrow> observation" where
  "example_observation s e = \<lparr>xo_state = s, xo_evidence = [], xo_effects = [example_effect e]\<rparr>"

definition example_dispatch :: dispatch_result where
  "example_dispatch = \<lparr>xd_accepted = True, xd_outcome = OutcomeApplied, xd_external_id = [], xd_evidence = [], xd_effects = []\<rparr>"

text \<open>The handler sees the file from the given step on; its dispatch succeeds, a reconciliation finds nothing.\<close>

definition example_handler :: "nat \<Rightarrow> exec_handler" where
  "example_handler n =
     \<lparr>hd_reservations = (\<lambda>_. [''path:tv/A'']),
      hd_observe = (\<lambda>k _. Inr (if k < n then example_observation ObserveNeedsAction EffectPending
                              else example_observation ObserveSatisfied EffectAlreadySatisfied)),
      hd_dispatch = (\<lambda>_ _ _. (example_dispatch, None)),
      hd_reconcile = (\<lambda>_ _ _. Inr \<lparr>xr_outcome = no_outcome, xr_safe_to_retry = False, xr_evidence = [], xr_effects = []\<rparr>)\<rparr>"

definition example_env :: "nat \<Rightarrow> exec_env" where
  "example_env n =
     \<lparr>xv_now = (\<lambda>k. 5), xv_others = (\<lambda>_ db. db), xv_fault = (\<lambda>_. None), xv_renews = (\<lambda>_. False), xv_ctx = (\<lambda>_. None),
      xv_handlers = (\<lambda>_. Some (example_handler n)), xv_worker = ''w'', xv_lease = 3, xv_max_batch = 16,
      xv_max_attempts = 0, xv_delay = (\<lambda>_. 0),
      xv_attempt_id = (\<lambda>a k p. a @ ''#'' @ int_text k), xv_effect_id = (\<lambda>a k. a @ ''!'' @ int_text k)\<rparr>"

definition example_action :: "action_state \<Rightarrow> exec_action" where
  "example_action s =
     \<lparr>xa_id = ''a'', xa_plan_id = ''p'', xa_plan_revision = 1, xa_plan_digest = ''d'', xa_kind = ActionFSCopy,
      xa_state = s, xa_desired = raw_empty, xa_next_attempt_at = None, xa_deadline_at = None, xa_cancelled_at = None,
      xa_claimed_by = [], xa_lease_until = None, xa_version = 1, xa_outcome = raw_empty, xa_unresolved = 0,
      xa_created_at = 1, xa_updated_at = 1\<rparr>"

definition claimed_example :: exec_action where
  "claimed_example = (example_action ActionRunning)\<lparr>xa_claimed_by := ''w'', xa_lease_until := Some 8, xa_version := 2\<rparr>"

definition example_db :: "exec_action \<Rightarrow> exec_db" where
  "example_db r = \<lparr>db_runs = [r], db_plans = [\<lparr>xp_id = ''p'', xp_kind = ActionFSCopy, xp_state = ''ready'', xp_revision = 1, xp_digest = ''d''\<rparr>],
     db_attempts = [], db_effects = [], db_purge_bound = []\<rparr>"

definition example_world :: "exec_action \<Rightarrow> exec_world" where
  "example_world r = \<lparr>xw_db = example_db r, xw_ticks = 0, xw_table = [], xw_fence = None, xw_renewing = False,
     xw_fallback = [], xw_calls = []\<rparr>"

fun dispatch_call :: "handler_call \<Rightarrow> bool" where
  "dispatch_call (CallDispatch i t a) = True"
| "dispatch_call (CallObserve i a) = False"
| "dispatch_call (CallReconcile i t a) = False"

end
