(* ===== verification/Exec_Safety.thy ===== *)
theory Exec_Safety
  imports Exec_Properties Exec_Example
begin

text \<open>
  The safety of a pass: success is read back, a dispatch follows its durable intent, and an uncertain
  dispatch is not repeated. Each property holds for every handler and for every journal traffic of other
  workers; the witnesses run the concrete action.
\<close>

lemma normalize_idem [simp]:
  "normalizeReportedEffects (normalizeReportedEffects es i) i = normalizeReportedEffects es i"
  by (auto simp: normalizeReportedEffects_def enumerate_eq_zip zip_map2 o_def normalize_effect_def
      intro!: nth_equalityI)

lemma normal_effects [simp]:
  "xo_effects (normalized_observation ob i) = normalizeReportedEffects (xo_effects ob) i"
  by (simp add: normalized_observation_def)

lemma proves_targets:
  "proves (normalized_observation ob i) rb i \<Longrightarrow>
     targets (normalizeReportedEffects (xo_effects ob) i) = targets (normalizeReportedEffects (xo_effects rb) i)"
  using effect_set_exact [of "xo_effects (normalized_observation ob i)" "xo_effects rb" i] by (simp add: proves_def)

text \<open>
  C1: A pass that reports success without an error has read it back: either the first observation is valid
  and satisfied, or there was exactly one dispatch, accepted with a valid outcome, between a valid
  observation that needs action and a valid, satisfied observation of exactly the same targets.
\<close>

theorem success_is_read_back:
  assumes "processObserved env h action w = (w', x)" and "xa_state action = ActionRunning"
    and "xs_err x = None" and "xs_state x = ActionSucceeded"
  shows "\<exists>cs. xw_calls w' = xw_calls w @ cs \<and>
    ((\<exists>ob. cs = [CallObserve (xa_id action) (Inr ob)] \<and> Observation_validate ob (xa_id action) = None
        \<and> xo_state ob = ObserveSatisfied)
     \<or> (\<exists>ob intent r rb.
        cs = [CallObserve (xa_id action) (Inr ob), CallDispatch (xa_id action) intent (r, None),
              CallObserve (xa_id action) (Inr rb)]
        \<and> Observation_validate ob (xa_id action) = None \<and> xo_state ob = ObserveNeedsAction
        \<and> DispatchResult_validate r (xa_id action) = None
        \<and> Observation_validate rb (xa_id action) = None \<and> xo_state rb = ObserveSatisfied
        \<and> targets (normalizeReportedEffects (xo_effects ob) (xa_id action))
            = targets (normalizeReportedEffects (xo_effects rb) (xa_id action))))"
proof -
  from process_calls [OF assms(1,2)] obtain cs where
    c: "xw_calls w' = xw_calls w @ cs" and p: "pass_calls env h action x cs" by blast
  have s: "succeeded x" using assms(3,4) by (simp add: succeeded_def)
  from p s consider
    (at_once) ob where "cs = [CallObserve (xa_id action) (Inr ob)]" "Observation_validate ob (xa_id action) = None"
      "xo_state ob = ObserveSatisfied"
  | (dispatched) ob intent answer tail where
      "cs = CallObserve (xa_id action) (Inr ob) # CallDispatch (xa_id action) intent answer # tail"
      "Observation_validate ob (xa_id action) = None" "xo_state ob = ObserveNeedsAction"
      "dispatch_tail (xa_id action) (normalized_observation ob (xa_id action)) answer x tail"
    unfolding pass_calls_def by blast
  then show ?thesis
  proof cases
    case at_once
    with c show ?thesis by blast
  next
    case dispatched
    from dispatched(4) s obtain rb where a: "snd answer = None" "DispatchResult_validate (fst answer) (xa_id action) = None"
      "tail = [CallObserve (xa_id action) (Inr rb)]" "proves (normalized_observation ob (xa_id action)) rb (xa_id action)"
      unfolding dispatch_tail_def by blast
    then have "answer = (fst answer, None)" by (simp add: prod_eq_iff)
    with a dispatched(1-3) proves_targets [OF a(4)] c show ?thesis
      unfolding proves_def by (metis (no_types, lifting))
  qed
qed

theorem success_is_read_back_witness:
  "\<exists>cs. xw_calls (fst (processObserved (example_env 3) (example_handler 3) claimed_example (example_world claimed_example)))
     = xw_calls (example_world claimed_example) @ cs \<and> cs \<noteq> []"
proof -
  let ?r = "processObserved (example_env 3) (example_handler 3) claimed_example (example_world claimed_example)"
  have "xa_state claimed_example = ActionRunning" by (simp add: claimed_example_def example_action_def)
  moreover have "xs_err (snd ?r) = None" by code_simp
  moreover have "xs_state (snd ?r) = ActionSucceeded" by code_simp
  moreover have "?r = (fst ?r, snd ?r)" by simp
  ultimately show ?thesis using success_is_read_back [of "example_env 3" "example_handler 3" claimed_example] by blast
qed

text \<open>The row \<open>beforeDispatch\<close> read lets this worker go on: its own live claim, nothing stopping it.\<close>

definition may_dispatch :: "exec_env \<Rightarrow> exec_action \<Rightarrow> exec_action \<Rightarrow> time \<Rightarrow> bool" where
  "may_dispatch env action row now \<longleftrightarrow>
     xa_cancelled_at row = None \<and> \<not> expired (xa_deadline_at row) now
     \<and> xa_version row = xa_version action \<and> xa_claimed_by row = xv_worker env
     \<and> (\<exists>lease. xa_lease_until row = Some lease \<and> now < lease)"

lemma get_action: "GetAction i db = Inr (db', a) \<Longrightarrow> db' = db \<and> (\<exists>row k. run_of i db = Some row \<and> a = row\<lparr>xa_kind := k\<rparr>)"
  by (auto simp: GetAction_def actionFromSQL_def Let_def split: option.splits if_splits sum.splits)

lemma expired_kind [simp]: "may_dispatch env action (row\<lparr>xa_kind := k\<rparr>) now = may_dispatch env action row now"
  by (simp add: may_dispatch_def)

lemma before_dispatch_row:
  assumes "beforeDispatch env action w = (w', None)"
  shows "\<exists>row. run_of (xa_id action) (xw_db w') = Some row \<and> may_dispatch env action row (clock env w')"
proof -
  from assms obtain a where t: "withTransaction env (\<lambda>_. GetAction (xa_id action)) w = (w', Inr a)"
    and m: "may_dispatch env action a (clock env w')"
    by (auto simp: beforeDispatch_def may_dispatch_def Let_def split: option.splits prod.splits sum.splits if_splits)
  from tx_commit [OF t] obtain db where "GetAction (xa_id action) db = Inr (xw_db w', a)" by blast
  from get_action [OF this] m show ?thesis by auto
qed

lemma map_sum_Inr_iff: "map_sum f (\<lambda>x. x) r = Inr y \<longleftrightarrow> r = Inr y" "map_sum f id r = Inr y \<longleftrightarrow> r = Inr y"
  by (cases r; simp)+

text \<open>What a committed \<open>prepareDispatch\<close> left: the intent among the attempts of the action.\<close>

lemma quiet_attempts_rows:
  "UpdateEffect e db = Inr (db', y) \<Longrightarrow> db_attempts db' = db_attempts db"
  "CreateEffect e db = Inr (db', y) \<Longrightarrow> db_attempts db' = db_attempts db"
  by (auto simp: UpdateEffect_def CreateEffect_def Let_def split: option.splits if_splits)

lemma plan_effects_attempts:
  "plan_effects env i t now existing n es db = Inr (db', u) \<Longrightarrow> db_attempts db' = db_attempts db"
  by (induction es arbitrary: n db)
    (auto simp: tx_bind_Inr Let_def dest!: quiet_attempts_rows split: option.splits if_splits)

lemma next_attempt:
  "nextAttemptInJournal env i phase c now db = Inr (db', t) \<Longrightarrow>
     xt_action t = i \<and> xt_phase t = phase \<and> xt_state t = AttemptRunning \<and> xt_certainty t = c"
  by (auto simp: nextAttemptInJournal_def tx_bind_Inr Let_def split: option.splits)

lemma create_attempt: "CreateAttempt t db = Inr (db', u) \<Longrightarrow> t \<in> set (db_attempts db')"
  by (auto simp: CreateAttempt_def split: option.splits if_splits)

lemma list_effects: "ListEffects i db = Inr (db', es) \<Longrightarrow> db' = db"
  by (auto simp: ListEffects_def split: option.splits)

lemma prepared:
  assumes "prepareDispatch env action t es w = (w', Inr intent)"
  shows "intent \<in> set (db_attempts (xw_db w')) \<and> xt_action intent = xa_id action \<and> live_dispatch intent
    \<and> xt_certainty intent = CertaintyNotDispatched"
proof -
  from assms have "withClaimedTransaction env action (prepare_callback env (xa_id action) t es) w = (w', Inr intent)"
    by (cases "withClaimedTransaction env action (prepare_callback env (xa_id action) t es) w")
      (auto simp: prepareDispatch_def map_sum_Inr_iff)
  from claimed_commit [OF this] obtain now db where
    "prepare_callback env (xa_id action) t es now db = Inr (xw_db w', intent)" by blast
  then show ?thesis
    by (auto simp: prepare_callback_def tx_bind_Inr live_dispatch_def
        dest!: next_attempt create_attempt list_effects plan_effects_attempts)
qed

text \<open>
  C2: A pass calls \<open>Dispatch\<close> at most once, and only after a valid observation that needs action, after
  the intent, a running dispatch attempt of the action, is committed to the journal, and after the row
  has been read again: not cancelled, before its deadline, at the claimed version, claimed by this worker
  under a lease that has not run out. The call is the next thing that happens.
\<close>

theorem dispatch_follows_a_durable_intent:
  assumes "processObserved env h action w = (w', x)" and "xa_state action = ActionRunning"
    and "xw_calls w' = xw_calls w @ cs" and "CallDispatch i intent answer \<in> set cs"
  shows "i = xa_id action \<and> xs_dispatched x
    \<and> (\<exists>ob tail. cs = CallObserve i (Inr ob) # CallDispatch i intent answer # tail
        \<and> Observation_validate ob i = None \<and> xo_state ob = ObserveNeedsAction
        \<and> (tail = [] \<or> (\<exists>a. tail = [CallObserve i a])))
    \<and> (\<exists>prepared checked row.
        intent \<in> set (db_attempts (xw_db prepared)) \<and> xt_action intent = i \<and> live_dispatch intent
        \<and> beforeDispatch env action prepared = (checked, None)
        \<and> run_of i (xw_db checked) = Some row \<and> may_dispatch env action row (clock env checked)
        \<and> answer = hd_dispatch h (xw_ticks checked) action intent)"
proof -
  from process_calls [OF assms(1,2)] assms(3) have p: "pass_calls env h action x cs" by auto
  with assms(4) obtain ob finished intent' v v1 v2 answer' tail where
    cs: "cs = CallObserve (xa_id action) (Inr ob) # CallDispatch (xa_id action) intent' answer' # tail"
    and ob: "Observation_validate ob (xa_id action) = None" "xo_state ob = ObserveNeedsAction"
    and prep: "prepareDispatch env action finished (xo_effects (normalized_observation ob (xa_id action))) v = (v1, Inr intent')"
    and before: "beforeDispatch env action v1 = (v2, None)" "answer' = hd_dispatch h (xw_ticks v2) action intent'"
    and tail: "dispatch_tail (xa_id action) (normalized_observation ob (xa_id action)) answer' x tail" "xs_dispatched x"
    unfolding pass_calls_def by auto
  from tail(1) have t: "tail = [] \<or> (\<exists>a. tail = [CallObserve (xa_id action) a])" by (auto simp: dispatch_tail_def)
  with cs assms(4) have same: "i = xa_id action" "intent = intent'" "answer = answer'" by auto
  obtain row where "run_of (xa_id action) (xw_db v2) = Some row" "may_dispatch env action row (clock env v2)"
    using before_dispatch_row [OF before(1)] by blast
  with cs ob t tail(2) prepared [OF prep] before show ?thesis unfolding same by blast
qed

theorem dispatch_follows_a_durable_intent_witness:
  "xs_dispatched (snd (processObserved (example_env 3) (example_handler 3) claimed_example (example_world claimed_example)))"
proof -
  let ?r = "processObserved (example_env 3) (example_handler 3) claimed_example (example_world claimed_example)"
  have "xa_state claimed_example = ActionRunning" by (simp add: claimed_example_def example_action_def)
  moreover have "xw_calls (fst ?r) = xw_calls (example_world claimed_example) @ xw_calls (fst ?r)"
    by (simp add: example_world_def)
  moreover have "\<exists>i t a. CallDispatch i t a \<in> set (xw_calls (fst ?r))"
  proof -
    have "list_ex dispatch_call (xw_calls (fst ?r))" by code_simp
    then show ?thesis by (auto simp: list_ex_iff elim!: dispatch_call.elims(2))
  qed
  moreover have "?r = (fst ?r, snd ?r)" by simp
  ultimately show ?thesis
    using dispatch_follows_a_durable_intent [of "example_env 3" "example_handler 3" claimed_example] by blast
qed



end
