(* ===== verification/Exec_Recovery.thy ===== *)
theory Exec_Recovery
  imports Exec_Facts Exec_Example
begin

text \<open>
  The read-only path: what \<open>processReconciliation\<close> calls, and what its answer may lead to.
\<close>

section \<open>Its steps call no handler\<close>

lemma quiet_unclaimed [quiet]:
  assumes "unclaimed_move env result f w = (w', x)"
    and "\<And>a v v' b e. f a v = (v', b, e) \<Longrightarrow> xw_calls v' = xw_calls v"
  shows "xw_calls w' = xw_calls w"
proof -
  obtain w1 r where c: "currentAction env (xs_action result) w = (w1, r)" by fastforce
  then have q: "xw_calls w1 = xw_calls w" by (rule quiet)
  show ?thesis
  proof (cases r)
    case (Inl e)
    then show ?thesis using assms(1) c q by (simp add: unclaimed_move_def)
  next
    case (Inr a)
    obtain w2 b e where "f a w1 = (w2, b, e)" by (metis prod_cases3)
    with assms c q Inr show ?thesis by (auto simp: unclaimed_move_def moved_def)
  qed
qed




lemma quiet_reconcile_attempts [quiet]:
  "bindReconciliationExternalID env action t ext claimed w = (w', r) \<Longrightarrow> xw_calls w' = xw_calls w"
  "newAttemptWithExternalID env action ph c ext w = (w', r) \<Longrightarrow> xw_calls w' = xw_calls w"
  "reconciliationAttempt env action w = (w', r) \<Longrightarrow> xw_calls w' = xw_calls w"
  "reconciliationAttemptOwned env action w = (w', r) \<Longrightarrow> xw_calls w' = xw_calls w"
  "returned_dispatch env action w = (w', r2) \<Longrightarrow> xw_calls w' = xw_calls w"
  by (auto simp: bindReconciliationExternalID_def newAttemptWithExternalID_def reconciliationAttempt_def
      reconciliationAttemptOwned_def returned_dispatch_def Let_def
      dest!: quiet split: prod.splits sum.splits if_splits option.splits)

section \<open>How it may end\<close>

text \<open>A result without an error that neither goes back to the queue nor reports success.\<close>

definition undecided :: "exec_result \<Rightarrow> bool" where
  "undecided x \<longleftrightarrow> xs_err x \<noteq> None \<or> xs_state x \<noteq> ActionQueued \<and> xs_state x \<noteq> ActionSucceeded"

lemma moved_end: "moved result r = (w', x) \<Longrightarrow> xs_state x = xa_state (fst (snd r)) \<and> xs_err x = snd (snd r) \<and> xs_dispatched x = xs_dispatched result"
  by (auto simp: moved_def split: prod.splits)




lemma stop_states: "cancelledOrDeadline a now = Some s \<Longrightarrow> s = ActionCancelled \<or> s = ActionDeadlineExceeded"
  by (auto simp: cancelledOrDeadline_def split: if_splits)

lemma not_other [simp]:
  "(case cancelledOrDeadline a now of None \<Rightarrow> s | Some t \<Rightarrow> t) = ActionStateOther r
     \<longleftrightarrow> cancelledOrDeadline a now = None \<and> s = ActionStateOther r"
  by (auto dest: stop_states split: option.splits)






section \<open>One pass\<close>

text \<open>What an answer of \<open>Reconcile\<close> allows: a retry only as proved safe, success only as reported.\<close>

definition allows :: "string \<Rightarrow> exec_error + reconcile_result \<Rightarrow> exec_result \<Rightarrow> bool" where
  "allows i answer x \<longleftrightarrow>
     undecided x
     \<or> (\<exists>r. answer = Inr r \<and> ReconcileResult_validate r i = None
          \<and> (xs_state x = ActionQueued \<longrightarrow> xr_safe_to_retry r \<and> \<not> EffectOutcome_Valid (xr_outcome r))
          \<and> (xs_state x = ActionSucceeded \<longrightarrow> EffectOutcome_Valid (xr_outcome r)))"

lemma undecided_allowed [simp]: "undecided x \<Longrightarrow> allows i answer x"
  by (simp add: allows_def)

lemma error_undecided [simp]: "undecided (with_err result e)"
  by (simp add: undecided_def)










section \<open>A claimed pass\<close>


lemma quiet_local [simp]: "xw_calls (release_local i w) = xw_calls w" "xw_calls (leave_claim w) = xw_calls w"
  by (simp_all add: release_local_def leave_claim_def)






text \<open>A reconciling action with an uncertain dispatch, and the handler that reports what it finds.\<close>

definition uncertain_example :: exec_world where
  "uncertain_example =
     (let r = example_action ActionReconciling; w = example_world r in
      w\<lparr>xw_db := (xw_db w)\<lparr>db_attempts := [\<lparr>xt_id = ''a#1'', xt_action = ''a'', xt_number = 1,
          xt_phase = AttemptDispatch, xt_state = AttemptReconciling, xt_started_at = ''t'', xt_finished_at = [],
          xt_error_code = ''uncertain'', xt_error_detail = [], xt_certainty = CertaintyUncertain,
          xt_external_id = [], xt_evidence = raw_empty\<rparr>]\<rparr>\<rparr>)"


section \<open>A reconciliation that could not reserve\<close>

text \<open>
  The read-only path holds for one pass only. When the local reservation of a claimed reconciling action
  fails, here because action \<open>b\<close> holds the directory above its file, the action waits like one that was
  never dispatched. Once the key is free the next pass observes and dispatches it again, although its first
  dispatch is still uncertain and no reconciliation has said that a retry is safe.
\<close>

definition blocked_example :: exec_world where
  "blocked_example = uncertain_example\<lparr>xw_table := [(''path:tv'', ''b'')]\<rparr>"

definition freed_example :: exec_world where
  "freed_example = (fst (RunAction (example_env 99) ''a'' blocked_example))\<lparr>xw_table := []\<rparr>"

lemma blocked_reconciliation_dispatches_again:
  "xw_calls freed_example = []"
  "map xa_state (db_runs (xw_db freed_example)) = [ActionWaitingDependency]"
  "list_ex dispatch_call (xw_calls (fst (RunAction (example_env 99) ''a'' freed_example)))"
  by code_simp+

end
