(* ===== verification/Spec2Isabelle.thy ===== *)
theory Spec2Isabelle
  imports Lifecycle Manifest Configuration Reconcile_Properties Scan_Properties Scan_Outcomes Scan_Pump
    Plan_Properties Plan_Dispatch Plan_Fresh Plan_Outcomes Disc_Safety Disc_Groups
    Path_Mapping File_Requests Exec_Safety Exec_Recovery
begin

text \<open>
  Verification development of mastarr, a server that keeps media libraries, download clients and
  request services consistent. It schedules scans of storage roots (\<^verbatim>\<open>internal/scanning\<close>), groups the
  files a scan finds (\<^verbatim>\<open>internal/discovery\<close>), reconciles what the upstream services report (\<^verbatim>\<open>internal/reconciliation\<close>), turns selected changes into exact plans that
  a user approves (\<^verbatim>\<open>internal/planning\<close>), and executes approved actions (\<^verbatim>\<open>internal/execution\<close>). All
  packages share the values of \<^verbatim>\<open>internal/domain\<close>. Modelled are the domain values, the scheduler,
  discovery, reconciliation, planning, the executor, path mappings and file requests: the part of the
  program that decides what may be believed, what may be done and when it is done. The paths below are
  relative to \<^verbatim>\<open>src/\<close>.

  Shared theories. \<^verbatim>\<open>Prelude\<close>: Go's strings, times, trimming, index searches, and list lemmas.
  \<^verbatim>\<open>Texts\<close>: the texts of the vocabularies and RFC 3339 times. \<^verbatim>\<open>Slices\<close>: \<open>sort.Slice\<close> as an argument
  with its contract as the locale \<open>slice_sort\<close>, interpreted on insertion sort; sorted string sets.
  \<^verbatim>\<open>Encoding\<close>, \<^verbatim>\<open>Encoding_Facts\<close>: \<open>json.Marshal\<close> on JSON trees, UTF-8 and SHA-256; the JSON text
  determines the tree when the strings are valid UTF-8. \<^verbatim>\<open>Go_Library\<close>: \<open>strings\<close> and \<open>path\<close> beyond that.
  \<^verbatim>\<open>Patterns\<close>: regular expressions with Go's leftmost-first matching, and the four of discovery.

  Domain values (\<^verbatim>\<open>internal/domain\<close>). \<^verbatim>\<open>Identity\<close> (\<^verbatim>\<open>identity.go\<close>): runtime ids with their
  generation and parsing, configuration ids. \<^verbatim>\<open>Lifecycle\<close> (\<^verbatim>\<open>actions.go\<close>): the four transition maps;
  what they share is proved in the locale \<open>lifecycle\<close> and interpreted on each. \<^verbatim>\<open>Paths\<close>, \<^verbatim>\<open>Manifest\<close>,
  \<^verbatim>\<open>Observations\<close> (\<^verbatim>\<open>observations.go\<close>): root-relative paths with \<open>path.Clean\<close>, file manifests as
  trees, coverage and tracking observations with their checks. \<^verbatim>\<open>Configuration\<close> (\<^verbatim>\<open>configuration.go\<close>):
  connections, roots, mappings and the snapshot.

  The scan scheduler (\<^verbatim>\<open>internal/scanning/scanning.go\<close>). \<^verbatim>\<open>Scan_Types\<close>, \<^verbatim>\<open>Scan_Ops\<close>: the journal and
  the pure steps on it. \<^verbatim>\<open>Scheduler\<close>, \<^verbatim>\<open>Scan_Runs\<close>, \<^verbatim>\<open>Scan_Steps\<close>: options, the commit of a change
  (\<open>commitState\<close>), the change of every operation, recovery, the claim of a scan (\<open>startOne\<close>), and the
  exported operations composed as the code composes them. The store is a parameter with the locale
  \<open>state_store\<close> as its contract, interpreted on \<open>MemoryStore\<close>. A critical section is one atomic step;
  \<^verbatim>\<open>Scan_Machine\<close> gives the step relation of all goroutines under arbitrary clock readings, and shows
  that every exported operation is a sequence of its steps, so that an invariant of the steps holds
  under every interleaving. \<^verbatim>\<open>Scan_Valid\<close> reads the loops of the validation as conjunctions;
  \<^verbatim>\<open>Scan_Safety\<close>, \<^verbatim>\<open>Scan_Slots\<close>, \<^verbatim>\<open>Scan_History\<close>, \<^verbatim>\<open>Scan_Evidence\<close>, \<^verbatim>\<open>Scan_Health\<close>, \<^verbatim>\<open>Scan_Stuck\<close>
  prove the invariants: memory is what the store holds, the books on runs and goroutines balance,
  history is append-only, evidence is never strengthened. \<^verbatim>\<open>Scan_Behaviour\<close>, \<^verbatim>\<open>Scan_Properties\<close>,
  \<^verbatim>\<open>Scan_Outcomes\<close>, \<^verbatim>\<open>Scan_Pump\<close> state the properties; \<^verbatim>\<open>Scan_Example\<close> holds the concrete runs.

  Discovery (\<^verbatim>\<open>internal/discovery/discovery.go\<close>). \<^verbatim>\<open>Disc_Types\<close>: groups, observations, options and their
  checks. \<^verbatim>\<open>Disc_Classify\<close>: group keys, file classes and the associations read off file names.
  \<^verbatim>\<open>Disc_Evidence\<close>: client completion, stability, readiness, review reasons and \<open>groupEntries\<close>.
  \<^verbatim>\<open>Disc_Store\<close>: the interface \<open>ObservationStore\<close> as the locale \<open>observation_store\<close>, interpreted on
  \<open>MemoryStore\<close>. \<^verbatim>\<open>Disc_Scan\<close>: \<open>New\<close>, the enumeration, the client listings and \<open>Scan\<close>. The record
  \<open>disc_env\<close> is the world outside: the file system, the inventories, clock, context and random bytes,
  each a function of the number of effects so far, and \<open>json.Unmarshal\<close> of the evidence of an
  unsupported child. \<^verbatim>\<open>Disc_Walk\<close>: the enumeration ends within its bounds, and a complete one has
  listed what the file system shows. \<^verbatim>\<open>Disc_Facts\<close>, \<^verbatim>\<open>Disc_Effects\<close>: what stability, completion and the
  groups rest on, and that a scan over any store with the contract writes one observation or nothing.
  \<^verbatim>\<open>Disc_Properties\<close>, \<^verbatim>\<open>Disc_Safety\<close>, \<^verbatim>\<open>Disc_Groups\<close> state the properties.

  Reconciliation (\<^verbatim>\<open>internal/reconciliation/reconciliation.go\<close>). \<^verbatim>\<open>Reconciliation\<close>: grouping of records
  by identity, summaries per connection and dimension, conflicts, and the filters that confirm an
  absence. The orders of map ranges and of equal sort keys are arguments, and the properties
  quantify over them. \<^verbatim>\<open>Reconcile_Facts\<close>, \<^verbatim>\<open>Reconcile_Properties\<close>: what every item shows, that
  absence needs fresh complete coverage, and which results depend on the runtime's orders.

  Planning (\<^verbatim>\<open>internal/planning/planning.go\<close>). \<^verbatim>\<open>Plan_Types\<close>, \<^verbatim>\<open>Plan_Predicates\<close>, \<^verbatim>\<open>Plan_Manifest\<close>:
  bindings, evidence, the predicate one-of, its checks, and bounded exact manifests.
  \<^verbatim>\<open>Plan_Normal\<close>: normal forms, keys, digests and fingerprints over the argument \<open>L\<close>, the part of the
  standard library the code relies on: the order \<open>sort.Slice\<close> gives to equal keys and
  \<open>strings.ToLower\<close> outside ASCII (\<open>lawful_library\<close> states their documented laws, and
  \<open>plain_library_lawful\<close> is an instance). \<^verbatim>\<open>Plan_Build\<close>: \<open>Build\<close>, \<open>NewRevision\<close>, \<open>Plan.Validate\<close> and
  the checks that tie a desired state to action, fences and manifest. \<^verbatim>\<open>Plan_Current\<close>: approvals and
  the comparison with the state before dispatch. \<^verbatim>\<open>Plan_Evaluate\<close>: evaluation of predicates against
  observations. \<^verbatim>\<open>Plan_Facts\<close>, \<^verbatim>\<open>Plan_Stable\<close>, \<^verbatim>\<open>Plan_Rules\<close>: normal forms are stable and keep
  validity, and \<open>Build\<close> and \<open>Plan.Validate\<close> as conjunctions. \<^verbatim>\<open>Plan_Properties\<close> (built plans validate,
  approvals, what a digest stands for), \<^verbatim>\<open>Plan_Dispatch\<close> (bounds, fences of an import),
  \<^verbatim>\<open>Plan_Fresh\<close> (the check before dispatch is sound and complete), \<^verbatim>\<open>Plan_Outcomes\<close> (nothing counts as
  satisfied that was not observed); \<^verbatim>\<open>Plan_Example\<close> is the plan the witnesses use.

  Paths and requests. \<^verbatim>\<open>Path_Mapping\<close> (\<^verbatim>\<open>internal/filesystem/observe/mapping.go\<close>): the translation between
  the namespace of a service and a configured root, its round trip, and the choice of the most specific
  mapping. \<^verbatim>\<open>File_Requests\<close> (\<^verbatim>\<open>internal/ports/ports.go\<close>): the requests for file effects, accepted exactly when
  the places they name do not meet.

  Execution (\<^verbatim>\<open>internal/execution/execution.go\<close> with the statements of \<^verbatim>\<open>internal/storage/query.sql\<close>).
  \<^verbatim>\<open>Exec_Types\<close>, \<^verbatim>\<open>Exec_Effects\<close>: failures, rows, reports and their checks, and when a report names exactly
  the approved targets. \<^verbatim>\<open>Exec_Reservations\<close>: resource keys and the table of a process. \<^verbatim>\<open>Exec_Journal\<close>:
  \<open>SQLJournal\<close>, each method with its statement over the rows of a database (\<open>exec_db\<close>). \<^verbatim>\<open>Exec_World\<close>: the
  state of an executor (\<open>exec_world\<close>: rows, claim fence, table, barrier registry, the calls of handlers so
  far) and all it does not decide (\<open>exec_env\<close>: rows other workers commit before a transaction, faults, the
  clock, contexts, renewals, the answers of handlers, each a function of the number of transactions so
  far), so that the properties hold for every interleaving with other workers. \<^verbatim>\<open>Exec_Records\<close>,
  \<^verbatim>\<open>Exec_Transitions\<close>, \<^verbatim>\<open>Exec_Barrier\<close>: attempts and effects, state changes, the dispatch barrier.
  \<^verbatim>\<open>Exec_Process\<close>, \<^verbatim>\<open>Exec_Reconcile\<close>: the two passes over an action. \<^verbatim>\<open>Exec_Claim\<close>: claims, batches, recovery.
  \<^verbatim>\<open>Exec_Facts\<close>, \<^verbatim>\<open>Exec_Properties\<close>: which functions call no handler, what a committed transaction
  is, and all calls of a pass with what they allow its result to be. \<^verbatim>\<open>Exec_Safety\<close>: success is read back,
  a dispatch follows its durable intent, an uncertain dispatch is not repeated by a pass. \<^verbatim>\<open>Exec_Recovery\<close>:
  a reconciling action is only reconciled. \<^verbatim>\<open>Exec_Example\<close> is the action the witnesses run.
  The loops over transactions try at most four times, as in the code (\<open>claimed_tries\<close>, \<open>barrier_tries\<close>).

  Conventions. A Go string is a list of bytes; a time is the number of nanoseconds since Go's zero
  time; an error is a value of a datatype with one constructor per error the code makes; integers
  that are counted up are 64-bit words or reduced to 64 bits, and the others are only compared.
  A Go map is the list of its entries or a distinct list of keys. Random bytes and clocks are
  streams or arguments. Every loop is structural or ends by a measure (\<open>pump_loop\<close> by the number of
  queued and outdated scans, \<open>runes\<close>, the trimming functions and the patterns by the length of the
  text), but for one: the loop over the pages of a directory is given \<open>MaxFilesystemPages + 1\<close> rounds.
  Each round counts a page or returns, so they are enough (\<open>enumeration_ends_within_bounds\<close>,
  \<open>scan_writes_one_observation\<close>).

  How the components meet. Coverage is produced by the scheduler (\<open>normalizeEvidence\<close>), checked by
  the domain values and consumed by reconciliation, which is why the properties on evidence use one
  order of completeness. Manifest entries, targets and actions of the domain are the material of
  plans: a plan's manifest rests on \<open>FileManifestEntry.ValidateAction\<close>, and its ids on \<open>NewRuntimeID\<close>.
  Discovery keeps only entries that \<open>FileManifestEntry.Validate\<close> accepts, and its coverage is the domain's.

  The executor runs the kinds of action that plans name, and its rows move along the maps of \<^verbatim>\<open>Lifecycle\<close>.

  Not modelled. Of the executor: its construction and options, the floating-point delays of retries (a
  parameter), the contexts and goroutines that watch a handler, and the values printed in error texts.
  \<^verbatim>\<open>internal/actions\<close> calls upstream systems; \<^verbatim>\<open>internal/workflows\<close> and \<^verbatim>\<open>internal/reviews\<close> are
  services over SQL transactions; their state machines are the maps of \<^verbatim>\<open>Lifecycle\<close>. The rest of
  \<^verbatim>\<open>internal/storage\<close>, \<^verbatim>\<open>internal/backup\<close>, \<^verbatim>\<open>internal/credentials\<close>,
  \<^verbatim>\<open>internal/configuration\<close>, \<^verbatim>\<open>internal/trash\<close>, \<^verbatim>\<open>internal/descriptors\<close> and \<^verbatim>\<open>internal/filesystem\<close> is
  database, file and system calls; \<^verbatim>\<open>internal/adapters\<close> and \<^verbatim>\<open>clients\<close> are HTTP clients;
  \<^verbatim>\<open>internal/transport\<close>, \<^verbatim>\<open>internal/api\<close> and \<^verbatim>\<open>ui\<close> are handlers, pages and generated code.
  Functions that only copy shared slices, maps and pointers are identities on values here.
\<close>

end
